(* ===== verification/RilPrelude.thy ===== *)
theory RilPrelude
  imports Main "HOL-Library.Word" "HOL-Library.Sublist"
begin

unbundle bit_operations_syntax

text \<open>
  Shared vocabulary of the development: the machine types of the RIL sources
  (\<open>BYTE\<close>, \<open>UINT32\<close>), the part of the C string library the sources call
  (\<open>strstr\<close>, \<open>strncmp\<close>, \<open>strspn\<close>, \<open>isspace\<close>, \<open>strtoll\<close>), and the lemmas about them
  that every component uses.

  A \<open>const char*\<close> into a NUL terminated text is the text from that pointer up to the
  terminator. Moving the pointer forward is \<open>drop\<close>, the difference of two pointers into the
  same text is the difference of the lengths, and a pointer stays inside the text exactly
  when it is a \<open>suffix\<close> of it.
\<close>

section \<open>Types\<close>

type_synonym u8 = "8 word"
type_synonym u32 = "32 word"

abbreviation NUL :: char where "NUL \<equiv> CHR 0x00"
abbreviation SPC :: char where "SPC \<equiv> CHR '' ''"
abbreviation CR :: char where "CR \<equiv> CHR 0x0D"
abbreviation LF :: char where "LF \<equiv> CHR 0x0A"
abbreviation QUOTE :: char where "QUOTE \<equiv> CHR 0x22"

named_theorems cursor_simps "equations of the cursor functions for simp"
named_theorems frame_simps "fields an operation leaves alone"

section \<open>The C string functions the sources call\<close>

text \<open>The text a \<open>char*\<close> into a buffer denotes: everything before the first NUL.\<close>

definition cstr :: "char list \<Rightarrow> string" where
  "cstr buf = takeWhile (\<lambda>c. c \<noteq> NUL) buf"

text \<open>\<open>strstr\<close>: the suffix that starts at the first occurrence of the needle.\<close>

fun strstr :: "string \<Rightarrow> string \<Rightarrow> string option" where
  "strstr [] n = (if n = [] then Some [] else None)"
| "strstr (c # cs) n = (if prefix n (c # cs) then Some (c # cs) else strstr cs n)"

text \<open>\<open>strspn (s, '' '')\<close>: the length of the run of spaces at the front.\<close>

definition spaces :: "string \<Rightarrow> nat" where
  "spaces s = length (takeWhile (\<lambda>c. c = SPC) s)"

text \<open>\<open>isspace\<close>, \<open>isdigit\<close> and \<open>isalnum\<close> in the C locale.\<close>

definition isspace_c :: "char \<Rightarrow> bool" where
  "isspace_c c \<longleftrightarrow> c \<in> {SPC, CHR 0x09, CHR 0x0A, CHR 0x0B, CHR 0x0C, CHR 0x0D}"

definition code :: "char \<Rightarrow> nat" where
  "code c = of_char c"

definition isdigit_c :: "char \<Rightarrow> bool" where
  "isdigit_c c \<longleftrightarrow> 48 \<le> code c \<and> code c \<le> 57"

definition isalnum_c :: "char \<Rightarrow> bool" where
  "isalnum_c c \<longleftrightarrow> isdigit_c c \<or> (65 \<le> code c \<and> code c \<le> 90) \<or> (97 \<le> code c \<and> code c \<le> 122)"

text \<open>The value of a digit in a base of at most 36; 36 for any other character.\<close>

definition digit_val :: "char \<Rightarrow> nat" where
  "digit_val c =
     (if isdigit_c c then code c - 48
      else if 65 \<le> code c \<and> code c \<le> 90 then code c - 55
      else if 97 \<le> code c \<and> code c \<le> 122 then code c - 87
      else 36)"

text \<open>The numeral at the front of a text: its value, and the text after its last digit.\<close>

fun digits_value :: "nat \<Rightarrow> nat \<Rightarrow> string \<Rightarrow> nat \<times> string" where
  "digits_value base acc [] = (acc, [])"
| "digits_value base acc (c # cs) =
     (if digit_val c < base then digits_value base (acc * base + digit_val c) cs
      else (acc, c # cs))"

text \<open>
  \<open>strtoll\<close> / \<open>strtol\<close> for a result between \<open>lo\<close> and \<open>hi\<close> (C11 7.22.1.4): leading white space,
  an optional sign, the prefix \<open>0x\<close> where base 16 is allowed and a hexadecimal digit follows,
  the digits. Result: the value (clamped), the end pointer (the start when there is no
  numeral), and whether \<open>errno\<close> was set to \<open>ERANGE\<close>.
\<close>

definition strto_base :: "nat \<Rightarrow> string \<Rightarrow> nat \<times> string" where
  "strto_base base s =
     (case s of
        z # x # d # rest \<Rightarrow>
          if z = CHR ''0'' \<and> (x = CHR ''x'' \<or> x = CHR ''X'') \<and> digit_val d < 16
             \<and> (base = 0 \<or> base = 16)
          then (16, d # rest)
          else (if base = 0 then (if z = CHR ''0'' then 8 else 10) else base, s)
      | z # _ \<Rightarrow> (if base = 0 then (if z = CHR ''0'' then 8 else 10) else base, s)
      | [] \<Rightarrow> (if base = 0 then 10 else base, s))"

definition strto_clamp :: "int \<Rightarrow> int \<Rightarrow> int \<Rightarrow> int \<times> bool" where
  "strto_clamp lo hi v = (if v < lo then (lo, True) else if hi < v then (hi, True) else (v, False))"

definition strto :: "int \<Rightarrow> int \<Rightarrow> nat \<Rightarrow> string \<Rightarrow> int \<times> string \<times> bool" where
  "strto lo hi base s =
     (let s1 = dropWhile isspace_c s;
          neg = (case s1 of c # _ \<Rightarrow> c = CHR ''-'' | [] \<Rightarrow> False);
          s2 = (case s1 of c # cs \<Rightarrow> if c = CHR ''-'' \<or> c = CHR ''+'' then cs else s1 | [] \<Rightarrow> []);
          (b, s3) = strto_base base s2;
          (n, s4) = digits_value b 0 s3
      in if length s4 = length s3 then (0, s, False)
         else (let (v, r) = strto_clamp lo hi (if neg then - int n else int n) in (v, s4, r)))"

definition strtoll :: "nat \<Rightarrow> string \<Rightarrow> int \<times> string \<times> bool" where
  "strtoll = strto (- (2 ^ 63)) (2 ^ 63 - 1)"

text \<open>
  \<open>strncpy (buf, src, n)\<close>: at most \<open>n\<close> characters of \<open>src\<close>, NUL padded up to \<open>n\<close>; the rest of
  the buffer keeps its contents.
\<close>

definition strncpy :: "char list \<Rightarrow> string \<Rightarrow> nat \<Rightarrow> char list" where
  "strncpy buf src n = take n (src @ replicate n NUL) @ drop n buf"

section \<open>Facts about them\<close>

lemma ex_bool [simp]: "\<exists>b. \<not> b" "\<exists>b :: bool. b"
  by (rule exI [of _ False], simp) (rule exI [of _ True], simp)

lemma length_strncpy [simp]: "n \<le> length buf \<Longrightarrow> length (strncpy buf src n) = length buf"
  by (simp add: strncpy_def)

lemma drop_spaces: "drop (spaces s) s = dropWhile (\<lambda>c. c = SPC) s"
  by (simp add: spaces_def dropWhile_eq_drop)

lemma spaces_eq_0: "spaces s = 0 \<longleftrightarrow> dropWhile (\<lambda>c. c = SPC) s = s"
  using takeWhile_dropWhile_id [of "\<lambda>c. c = SPC" s]
  by (auto simp: spaces_def simp del: takeWhile_dropWhile_id)

lemma suffix_dropWhile_trans: "suffix r (dropWhile P s) \<Longrightarrow> suffix r s"
  using suffix_dropWhile suffix_order.trans by blast

lemma suffix_drop_trans: "suffix r s \<Longrightarrow> suffix (drop n r) s"
  using suffix_drop suffix_order.trans by blast

lemma suffix_take_append: "suffix r s \<Longrightarrow> take (length s - length r) s @ r = s"
  by (elim suffixE) simp

lemma suffix_drop_length: "suffix r s \<Longrightarrow> drop (length s - length r) s = r"
  by (elim suffixE) simp

lemma fst_True: "fst p \<Longrightarrow> p = (True, snd p)"
  by (cases p) simp

lemma dropWhile_replicate_append:
  "dropWhile (\<lambda>c. c = x) (replicate k x @ s) = dropWhile (\<lambda>c. c = x) s"
  by (induction k) auto

lemma strstr_suffix: "strstr s n = Some r \<Longrightarrow> suffix r s"
  by (induction s) (auto split: if_splits intro: suffix_ConsI)

lemma strstr_prefix: "strstr s n = Some r \<Longrightarrow> prefix n r"
  by (induction s) (auto split: if_splits)

lemma strstr_None_iff: "strstr s n = None \<longleftrightarrow> \<not> sublist n s"
  by (induction s) (auto simp: sublist_Cons_right)

lemma strstr_Some_length: "strstr s n = Some r \<Longrightarrow> length n \<le> length r \<and> length r \<le> length s"
  by (meson prefix_length_le strstr_prefix strstr_suffix suffix_length_le)

lemma strstr_append:
  assumes "\<And>k. k < length p \<Longrightarrow> \<not> prefix n (drop k (p @ r))" and "prefix n r"
  shows "strstr (p @ r) n = Some r"
  using assms
proof (induction p)
  case Nil
  then show ?case by (cases r) auto
next
  case (Cons c p)
  have "\<not> prefix n ((c # p) @ r)" using Cons.prems(1) [of 0] by simp
  moreover have "strstr (p @ r) n = Some r"
    using Cons.prems(1) [of "Suc k" for k] Cons.prems(2) by (intro Cons.IH) auto
  ultimately show ?case by simp
qed

lemma strstr_char:
  "strstr s [c] = (let t = dropWhile (\<lambda>x. x \<noteq> c) s in if t = [] then None else Some t)"
  by (induction s) (auto simp: Let_def)

lemma strstr_char_append: "c \<notin> set p \<Longrightarrow> strstr (p @ c # r) [c] = Some (c # r)"
  by (induction p) auto

lemma cstr_id: "NUL \<notin> set s \<Longrightarrow> cstr s = s"
  by (auto simp: cstr_def takeWhile_eq_all_conv)

lemma cstr_append_NUL: "NUL \<notin> set s \<Longrightarrow> cstr (s @ NUL # t) = s"
  by (induction s) (auto simp: cstr_def)

lemma cstr_no_NUL: "NUL \<notin> set (cstr s)"
  by (auto simp: cstr_def dest: set_takeWhileD)

lemma length_cstr: "length (cstr s) \<le> length s"
  by (simp add: cstr_def length_takeWhile_le)

lemma prefix_cstr: "prefix (cstr s) s"
  by (simp add: cstr_def takeWhile_is_prefix)

lemma digits_value_suffix: "suffix (snd (digits_value b acc s)) s"
  by (induction b acc s rule: digits_value.induct) (auto intro: suffix_ConsI)

lemma suffix_case_tl: "suffix (case s of [] \<Rightarrow> [] | c # cs \<Rightarrow> if P c then cs else s) s"
  by (auto simp: suffix_def split: list.splits)

lemma strto_base_suffix: "suffix (snd (strto_base b s)) s"
  by (auto simp: strto_base_def suffix_def split: list.splits)

lemma strto_suffix: "suffix (fst (snd (strto lo hi b s))) s"
proof -
  define s1 where "s1 = dropWhile isspace_c s"
  define s2 where
    "s2 = (case s1 of c # cs \<Rightarrow> if c = CHR ''-'' \<or> c = CHR ''+'' then cs else s1 | [] \<Rightarrow> [])"
  obtain b' s3 where s3: "strto_base b s2 = (b', s3)" by fastforce
  obtain n s4 where s4: "digits_value b' 0 s3 = (n, s4)" by fastforce
  have "suffix s1 s" by (simp add: s1_def suffix_dropWhile)
  moreover have "suffix s2 s1" unfolding s2_def by (rule suffix_case_tl)
  moreover have "suffix s3 s2" using strto_base_suffix [of b s2] s3 by simp
  moreover have "suffix s4 s3" using digits_value_suffix [of b' 0 s3] s4 by simp
  ultimately have "suffix s4 s" by (blast intro: suffix_order.trans)
  then show ?thesis
    by (simp add: strto_def s1_def [symmetric] s2_def [symmetric] s3 s4 Let_def split: prod.split)
qed

lemma strto_range:
  assumes "lo \<le> 0" "0 \<le> hi"
  shows "lo \<le> fst (strto lo hi b s) \<and> fst (strto lo hi b s) \<le> hi"
  using assms by (auto simp: strto_def strto_clamp_def Let_def split: prod.splits if_splits)

end
