(* ===== verification/Extract.thy ===== *)
theory Extract
  imports RilPrelude
begin

text \<open>
  Model of \<open>UTIL/ND/extract.cpp\<close>: the cursor functions that take an AT response apart.
  Every function takes the text at \<open>szStart\<close> and returns the \<open>BOOL\<close> result, the values of its
  reference parameters and the text at \<open>rszEnd\<close>. A reference parameter that the code leaves
  alone on some path is an argument of the model too (its old value).
  \<open>ExtractDouble\<close> (floating point) is not modelled.
\<close>

section \<open>Skipping\<close>

definition SkipSpaces :: "string \<Rightarrow> string \<Rightarrow> bool \<times> string" where
  "SkipSpaces szStart rszEnd =
     (let nSize = spaces szStart
      in if nSize > 0 then (True, drop nSize szStart) else (False, rszEnd))"

text \<open>The call \<open>SkipSpaces(szStart, szStart)\<close> most functions begin with.\<close>

abbreviation skip_spaces :: "string \<Rightarrow> string" where
  "skip_spaces s \<equiv> snd (SkipSpaces s s)"

definition FindAndSkipString :: "string \<Rightarrow> string \<Rightarrow> bool \<times> string" where
  "FindAndSkipString szStart szSkip =
     (let szStart = skip_spaces szStart
      in case strstr szStart szSkip of
           Some p \<Rightarrow> (True, drop (length szSkip) p)
         | None \<Rightarrow> (False, szStart))"

definition SkipString :: "string \<Rightarrow> string \<Rightarrow> bool \<times> string" where
  "SkipString szStart szSkip =
     (let szStart = skip_spaces szStart
      in if prefix szSkip szStart then (True, drop (length szSkip) szStart)
         else (False, szStart))"

definition SkipRspStart :: "string \<Rightarrow> string \<Rightarrow> bool \<times> string" where
  "SkipRspStart szStart szSkip = SkipString (skip_spaces szStart) szSkip"

definition SkipRspEnd :: "string \<Rightarrow> string \<Rightarrow> bool \<times> string" where
  "SkipRspEnd szStart szSkip = SkipString (skip_spaces szStart) szSkip"

definition FindAndSkipRspEnd :: "string \<Rightarrow> string \<Rightarrow> bool \<times> string" where
  "FindAndSkipRspEnd szStart szSkip = FindAndSkipString (skip_spaces szStart) szSkip"

lemma skip_spaces_eq [cursor_simps]: "skip_spaces s = dropWhile (\<lambda>c. c = SPC) s"
  using spaces_eq_0 [of s] by (auto simp: SkipSpaces_def drop_spaces Let_def)

lemma skip_spaces_id [cursor_simps]: "s = [] \<or> hd s \<noteq> SPC \<Longrightarrow> dropWhile (\<lambda>c. c = SPC) s = s"
  by (cases s) auto

lemma skip_spaces_idem [cursor_simps]:
  "dropWhile (\<lambda>c. c = SPC) (dropWhile (\<lambda>c. c = SPC) s) = dropWhile (\<lambda>c. c = SPC) s"
  by (simp add: dropWhile_idem)

lemma SkipRsp_eq [cursor_simps]:
  "SkipRspStart s k = SkipString s k"
  "SkipRspEnd s k = SkipString s k"
  "FindAndSkipRspEnd s k = FindAndSkipString s k"
  by (simp_all add: SkipRspStart_def SkipRspEnd_def FindAndSkipRspEnd_def SkipString_def
      FindAndSkipString_def Let_def cursor_simps)

lemma FindAndSkipString_suffix: "suffix (snd (FindAndSkipString s k)) s"
  by (auto simp: FindAndSkipString_def Let_def cursor_simps suffix_dropWhile split: option.split
      intro!: suffix_drop_trans intro: suffix_dropWhile_trans dest!: strstr_suffix)

lemma SkipString_suffix: "suffix (snd (SkipString s k)) s"
  by (auto simp: SkipString_def Let_def cursor_simps suffix_dropWhile intro!: suffix_drop_trans)

text \<open>A successful search consumes at least the pattern.\<close>

lemma FindAndSkipString_True_length:
  assumes "FindAndSkipString s k = (True, r)"
  shows "length r + length k \<le> length s"
proof -
  from assms obtain p where p: "strstr (dropWhile (\<lambda>c. c = SPC) s) k = Some p"
    and r: "r = drop (length k) p"
    by (auto simp: FindAndSkipString_def Let_def cursor_simps split: option.splits)
  have "length k \<le> length p" "length p \<le> length s"
    using strstr_Some_length [OF p] length_dropWhile_le [of "\<lambda>c. c = SPC" s] by auto
  with r show ?thesis by simp
qed

lemma SkipString_True_length:
  "SkipString s k = (True, r) \<Longrightarrow> length r + length k \<le> length s"
  using length_dropWhile_le [of "\<lambda>c. c = SPC" s]
  by (auto simp: SkipString_def Let_def cursor_simps dest!: prefix_length_le split: if_splits)

lemma FindAndSkipString_append:
  assumes "\<And>i. i < length p \<Longrightarrow> \<not> prefix k (drop i (p @ k @ r))"
    and "p @ k @ r = [] \<or> hd (p @ k @ r) \<noteq> SPC"
  shows "FindAndSkipString (p @ k @ r) k = (True, r)"
  using strstr_append [OF assms(1)] assms(2)
  by (simp add: FindAndSkipString_def Let_def cursor_simps)

section \<open>Splitting a line at its commas\<close>

function FindRspArgs_loop ::
    "string \<Rightarrow> string \<Rightarrow> string \<Rightarrow> string list \<Rightarrow> u32 \<Rightarrow> string \<times> string list" where
  "FindRspArgs_loop pszCurPtr pszPrevPtr pszEndPtr aPtrArgs uinMaxArgs =
     (if length aPtrArgs < unat uinMaxArgs then
        (let (found, pszCurPtr') = FindAndSkipString pszCurPtr '',''
         in if found \<and> length pszEndPtr < length pszCurPtr'
            then FindRspArgs_loop pszCurPtr' pszCurPtr' pszEndPtr (aPtrArgs @ [pszPrevPtr]) uinMaxArgs
            else (pszPrevPtr, aPtrArgs))
      else (pszPrevPtr, aPtrArgs))"
  by pat_completeness auto
termination
  by (relation "measure (\<lambda>(cur, _, _, _, _). length cur)")
    (auto dest!: FindAndSkipString_True_length [OF sym])

declare FindRspArgs_loop.simps [simp del]

text \<open>
  The pointers written to \<open>aPtrArgs\<close>, in order; the return value of the C++ function is their
  number. A NULL argument is \<open>None\<close>.
\<close>

definition FindRspArgs ::
    "string option \<Rightarrow> string option \<Rightarrow> bool \<Rightarrow> u32 \<Rightarrow> string list" where
  "FindRspArgs pszCmdStr pszEndLine aPtrArgs_null uinMaxArgs =
     (case (pszCmdStr, pszEndLine) of
        (Some cmd, Some eol) \<Rightarrow>
          if aPtrArgs_null then []
          else (case FindAndSkipRspEnd cmd eol of
                  (False, _) \<Rightarrow> []
                | (True, pszEndPtr) \<Rightarrow>
                    (let (pszPrevPtr, args) = FindRspArgs_loop cmd cmd pszEndPtr [] uinMaxArgs
                     in if word_of_nat (length args) < uinMaxArgs - 1 \<and> length args > 0
                        then args @ [pszPrevPtr] else args))
      | _ \<Rightarrow> [])"

section \<open>Numbers\<close>

fun ExtractUInt32_loop :: "string \<Rightarrow> u32 \<Rightarrow> bool \<Rightarrow> string \<times> u32 \<times> bool" where
  "ExtractUInt32_loop [] nTemp fRet = ([], nTemp, fRet)"
| "ExtractUInt32_loop (c # szWalk) nTemp fRet =
     (if isdigit_c c then ExtractUInt32_loop szWalk (nTemp * 10 + (word_of_nat (code c) - 48)) True
      else (c # szWalk, nTemp, fRet))"

definition ExtractUInt32 :: "string \<Rightarrow> u32 \<Rightarrow> bool \<times> u32 \<times> string" where
  "ExtractUInt32 szStart rnValue =
     (let szStart = skip_spaces szStart;
          (szWalk, nTemp, fRet) = ExtractUInt32_loop szStart 0 False;
          szWalk = snd (SkipString szWalk '' '')
      in if fRet then (True, nTemp, szWalk) else (False, rnValue, szStart))"

definition hex_digit :: "char \<Rightarrow> u32 option" where
  "hex_digit c =
     (if 65 \<le> code c \<and> code c \<le> 70 then Some (10 + (word_of_nat (code c) - 65))
      else if 97 \<le> code c \<and> code c \<le> 102 then Some (10 + (word_of_nat (code c) - 97))
      else if isdigit_c c then Some (word_of_nat (code c) - 48)
      else None)"

fun ExtractHexUInt32_loop :: "string \<Rightarrow> u32 \<Rightarrow> bool \<Rightarrow> string \<times> u32 \<times> bool" where
  "ExtractHexUInt32_loop [] dwTotal fRet = ([], dwTotal, fRet)"
| "ExtractHexUInt32_loop (c # szWalk) dwTotal fRet =
     (case hex_digit c of
        Some dwTemp \<Rightarrow> ExtractHexUInt32_loop szWalk (dwTotal * 16 + dwTemp) True
      | None \<Rightarrow> (c # szWalk, dwTotal, fRet))"

definition ExtractHexUInt32 :: "string \<Rightarrow> u32 \<Rightarrow> bool \<times> u32 \<times> string" where
  "ExtractHexUInt32 szStart rdwValue =
     (let szStart = skip_spaces szStart;
          (szWalk, dwTotal, fRet) = ExtractHexUInt32_loop szStart 0 False
      in if fRet then (True, dwTotal, szWalk) else (False, rdwValue, szStart))"

definition ExtractUpperBoundedUInt32 :: "string \<Rightarrow> u32 \<Rightarrow> u32 \<Rightarrow> bool \<times> u32 \<times> string" where
  "ExtractUpperBoundedUInt32 szData nUpperLimit rnVal =
     (let szData = skip_spaces szData;
          (fRet, rnVal, rszRemainder) = ExtractUInt32 szData rnVal
      in if fRet \<and> nUpperLimit \<le> rnVal then (False, rnVal, szData)
         else (fRet, rnVal, rszRemainder))"

definition ExtractLowerBoundedUInt32 :: "string \<Rightarrow> u32 \<Rightarrow> u32 \<Rightarrow> bool \<times> u32 \<times> string" where
  "ExtractLowerBoundedUInt32 szData nLowerLimit rnVal =
     (let szData = skip_spaces szData;
          (fRet, rnVal, rszRemainder) = ExtractUInt32 szData rnVal
      in if fRet \<and> nLowerLimit \<ge> rnVal then (False, rnVal, szData)
         else (fRet, rnVal, rszRemainder))"

definition ExtractIntAndConvertToUInt32 :: "string \<Rightarrow> u32 \<Rightarrow> bool \<times> u32 \<times> string" where
  "ExtractIntAndConvertToUInt32 szData rnVal =
     (let szData = skip_spaces szData;
          fNegative = (case szData of c # _ \<Rightarrow> c = CHR ''-'' | [] \<Rightarrow> False);
          rszRemainder = (if fNegative then drop 1 szData else szData);
          (fRet, v, rem) = ExtractUInt32 rszRemainder rnVal
      in if fRet then (True, (if fNegative then NOT v + 1 else v), rem) else (False, v, rem))"

text \<open>
  16.16 fixed point. \<open>None\<close>: the division traps because \<open>dwBase\<close>, a power of ten modulo
  \<open>2 ^ 32\<close>, is zero.
\<close>

definition ExtractFixedPointValue :: "string \<Rightarrow> u32 \<Rightarrow> (bool \<times> u32 \<times> string) option" where
  "ExtractFixedPointValue szStart rdwFPValue =
     (let szStart = skip_spaces szStart in
      case ExtractUInt32 szStart 0 of
        (False, _, _) \<Rightarrow> Some (False, rdwFPValue, szStart)
      | (True, dwWhole, szWalk) \<Rightarrow>
          (case SkipString szWalk ''.'' of
             (False, _) \<Rightarrow> Some (False, rdwFPValue, szStart)
           | (True, szWalk) \<Rightarrow>
               (case ExtractUInt32 szWalk 0 of
                  (False, _, _) \<Rightarrow> Some (False, rdwFPValue, szStart)
                | (True, dwFraction, szTemp) \<Rightarrow>
                    (let dwBase = 10 ^ (length szWalk - length szTemp) :: u32
                     in if dwBase = 0 then None
                        else Some (True, push_bit 16 dwWhole + push_bit 16 dwFraction div dwBase,
                                   szTemp)))))"

definition ExtractLongLong :: "string \<Rightarrow> int \<Rightarrow> string \<Rightarrow> nat \<Rightarrow> bool \<times> int \<times> string" where
  "ExtractLongLong pszData nVal pszRemainder base =
     (let (li, pszEnd, erange) = strtoll base pszData
      in if length pszEnd \<noteq> length pszData \<and> \<not> erange then (True, li, pszEnd)
         else (False, nVal, pszRemainder))"

definition ExtractInt :: "string \<Rightarrow> int \<Rightarrow> string \<Rightarrow> nat \<Rightarrow> bool \<times> int \<times> string" where
  "ExtractInt pszData nVal pszRemainder base =
     (case ExtractLongLong pszData 0 [] base of
        (True, li, pszEndTemp) \<Rightarrow>
          if - (2 ^ 31) \<le> li \<and> li \<le> 2 ^ 31 - 1 then (True, li, pszEndTemp)
          else (False, nVal, pszRemainder)
      | (False, _, _) \<Rightarrow> (False, nVal, pszRemainder))"

section \<open>Strings\<close>

text \<open>
  The output buffer of \<open>cbOutput\<close> characters is returned whole. On every path it was
  cleared by the \<open>memset\<close> first.
\<close>

definition ExtractQuotedString :: "string \<Rightarrow> nat \<Rightarrow> bool \<times> char list \<times> string" where
  "ExtractQuotedString szStart cbOutput =
     (let szStart = skip_spaces szStart; szOutput = replicate cbOutput NUL in
      case SkipString szStart [QUOTE] of
        (False, _) \<Rightarrow> (False, szOutput, szStart)
      | (True, szWalk) \<Rightarrow>
          (case FindAndSkipString szWalk [QUOTE] of
             (False, rszEnd) \<Rightarrow> (False, szOutput, rszEnd)
           | (True, rszEnd) \<Rightarrow>
               (let nLen = length szWalk - length rszEnd - 1
                in if cbOutput > nLen then (True, strncpy szOutput szWalk nLen, rszEnd)
                   else (False, szOutput, rszEnd))))"

definition ExtractUnquotedString :: "string \<Rightarrow> string \<Rightarrow> nat \<Rightarrow> bool \<times> char list \<times> string" where
  "ExtractUnquotedString szStart szDelimiter cbOutput =
     (let szStart = skip_spaces szStart; szOutput = replicate cbOutput NUL in
      case FindAndSkipString szStart szDelimiter of
        (False, rszEnd) \<Rightarrow> (False, szOutput, rszEnd)
      | (True, rszEnd) \<Rightarrow>
          (let nLen = length szStart - length rszEnd - length szDelimiter
           in if cbOutput > nLen
              then (True, strncpy szOutput szStart nLen,
                    drop (length szStart - length rszEnd - length szDelimiter) szStart)
              else (False, szOutput, rszEnd)))"

text \<open>The overload with a delimiter character; \<open>{cDelimiter, 0}\<close> is empty for a NUL.\<close>

definition ExtractUnquotedString_char :: "string \<Rightarrow> char \<Rightarrow> nat \<Rightarrow> bool \<times> char list \<times> string" where
  "ExtractUnquotedString_char szStart cDelimiter cbOutput =
     ExtractUnquotedString (skip_spaces szStart) (cstr [cDelimiter, NUL]) cbOutput"

text \<open>
  The variants that allocate. \<open>mem\<close> tells whether \<open>new\<close> returns memory; the string
  parameter is \<open>None\<close> for NULL.
\<close>

definition ExtractQuotedStringWithAllocatedMemory ::
    "bool \<Rightarrow> string \<Rightarrow> string option \<Rightarrow> nat \<Rightarrow> bool \<times> string option \<times> nat \<times> string" where
  "ExtractQuotedStringWithAllocatedMemory mem szStart rszString rcbString =
     (let szStart = skip_spaces szStart in
      case SkipString szStart [QUOTE] of
        (False, _) \<Rightarrow> (False, rszString, rcbString, szStart)
      | (True, szWalk) \<Rightarrow>
          (case FindAndSkipString szWalk [QUOTE] of
             (False, _) \<Rightarrow> (False, rszString, rcbString, szStart)
           | (True, rszEnd) \<Rightarrow>
               (let nLen = length szWalk - length rszEnd - 1
                in if \<not> mem then (False, None, rcbString, szStart)
                   else (True, Some (take nLen szWalk), nLen + 1, rszEnd))))"

text \<open>
  Outer \<open>None\<close>: the copy runs outside the allocation (a NUL delimiter makes \<open>nSize\<close> zero, and
  \<open>strncpy\<close> is asked for \<open>nSize - 1\<close> characters of an unsigned type).
\<close>

definition ExtractUnquotedStringWithAllocatedMemory ::
    "bool \<Rightarrow> string \<Rightarrow> char \<Rightarrow> string option \<Rightarrow> nat
      \<Rightarrow> (bool \<times> string option \<times> nat \<times> string) option" where
  "ExtractUnquotedStringWithAllocatedMemory mem szStart chDelimiter rszString rcbString =
     (let szStart = skip_spaces szStart in
      case FindAndSkipString szStart (cstr [chDelimiter, NUL]) of
        (False, _) \<Rightarrow> Some (False, rszString, rcbString, szStart)
      | (True, rszEnd) \<Rightarrow>
          (let nSize = length szStart - length rszEnd
           in if \<not> mem then Some (False, None, rcbString, szStart)
              else if nSize = 0 then None
              else Some (True, Some (take (nSize - 1) szStart), nSize - 1, rszEnd)))"

definition ExtractQuotedHexLongLong ::
    "bool \<Rightarrow> string \<Rightarrow> int \<Rightarrow> string \<Rightarrow> bool \<times> int \<times> string" where
  "ExtractQuotedHexLongLong mem pszData nVal pszRemainder =
     (case ExtractQuotedStringWithAllocatedMemory mem pszData None 0 of
        (True, Some pszStrExtract, _, pszRemainderTemp) \<Rightarrow>
          (case ExtractLongLong pszStrExtract 0 [] 16 of
             (True, li, pszExtractEnd) \<Rightarrow>
               if skip_spaces pszExtractEnd = [] then (True, li, pszRemainderTemp)
               else (False, nVal, pszRemainder)
           | (False, _, _) \<Rightarrow> (False, nVal, pszRemainder))
      | _ \<Rightarrow> (False, nVal, pszRemainder))"

definition ExtractQuotedHexInt :: "bool \<Rightarrow> string \<Rightarrow> int \<Rightarrow> string \<Rightarrow> bool \<times> int \<times> string" where
  "ExtractQuotedHexInt mem pszData nVal pszRemainder =
     (case ExtractQuotedHexLongLong mem pszData 0 [] of
        (True, li, pszEndTemp) \<Rightarrow>
          if - (2 ^ 31) \<le> li \<and> li \<le> 2 ^ 31 - 1 then (True, li, pszEndTemp)
          else (False, nVal, pszRemainder)
      | (False, _, _) \<Rightarrow> (False, nVal, pszRemainder))"

definition ExtractQuotedHexUnsignedInt ::
    "bool \<Rightarrow> string \<Rightarrow> int \<Rightarrow> string \<Rightarrow> bool \<times> int \<times> string" where
  "ExtractQuotedHexUnsignedInt mem pszData nVal pszRemainder =
     (case ExtractQuotedHexLongLong mem pszData 0 [] of
        (True, li, pszEndTemp) \<Rightarrow>
          if 0 \<le> li \<and> li \<le> 2 ^ 32 - 1 then (True, li, pszEndTemp)
          else (False, nVal, pszRemainder)
      | (False, _, _) \<Rightarrow> (False, nVal, pszRemainder))"

section \<open>Contract of the cursor functions\<close>

text \<open>
  A cursor function never moves its end pointer out of the text. What the callers compute with
  the pointer (\<open>szPointer - m_szBuffer\<close> as an offset into the buffer) is then in bounds.
\<close>

locale cursor =
  fixes rest :: "string \<Rightarrow> string"
  assumes in_text: "suffix (rest s) s"
begin

lemma rest_length: "length (rest s) \<le> length s"
  using in_text by (rule suffix_length_le)

lemma offset_bound: "length s - length (rest s) \<le> length s"
  by simp

lemma consumed_append: "take (length s - length (rest s)) s @ rest s = s"
  using in_text by (rule suffix_take_append)

lemma drop_offset: "drop (length s - length (rest s)) s = rest s"
  using in_text by (rule suffix_drop_length)

lemma rest_set: "set (rest s) \<subseteq> set s"
  using in_text by (rule set_mono_suffix)

lemma rest_NUL_free: "NUL \<notin> set s \<Longrightarrow> NUL \<notin> set (rest s)"
  using rest_set by blast

end

text \<open>A search cursor makes progress whenever it reports success.\<close>

locale search_cursor = cursor rest for rest :: "string \<Rightarrow> string" +
  fixes found :: "string \<Rightarrow> bool"
  assumes progress: "found s \<Longrightarrow> length (rest s) < length s"
begin

lemma consumed_nonempty: "found s \<Longrightarrow> 0 < length s - length (rest s)"
  using progress by simp

lemma found_nonempty: "found s \<Longrightarrow> s \<noteq> []"
  using progress by fastforce

end

interpretation find_cursor: cursor "\<lambda>s. snd (FindAndSkipString s k)" for k
  by unfold_locales (rule FindAndSkipString_suffix)

interpretation skip_cursor: cursor "\<lambda>s. snd (SkipString s k)" for k
  by unfold_locales (rule SkipString_suffix)

interpretation find_search: search_cursor "\<lambda>s. snd (FindAndSkipString s (c # k))"
    "\<lambda>s. fst (FindAndSkipString s (c # k))" for c k
  by unfold_locales (auto dest!: fst_True FindAndSkipString_True_length)

interpretation skip_search: search_cursor "\<lambda>s. snd (SkipString s (c # k))"
    "\<lambda>s. fst (SkipString s (c # k))" for c k
  by unfold_locales (auto dest!: fst_True SkipString_True_length)

section \<open>Decimal numbers\<close>

definition dec_value :: "string \<Rightarrow> nat" where
  "dec_value ds = foldl (\<lambda>n c. n * 10 + (code c - 48)) 0 ds"

lemma code_digit_word:
  "isdigit_c c \<Longrightarrow> (word_of_nat (code c) - 48 :: u32) = word_of_nat (code c - 48)"
  by (simp add: isdigit_c_def of_nat_diff)

lemma ExtractUInt32_loop_digits:
  assumes "list_all isdigit_c ds" "r = [] \<or> \<not> isdigit_c (hd r)"
  shows "ExtractUInt32_loop (ds @ r) (word_of_nat n) b =
    (r, word_of_nat (foldl (\<lambda>n c. n * 10 + (code c - 48)) n ds), b \<or> ds \<noteq> [])"
  using assms
proof (induction ds arbitrary: n b)
  case Nil
  then show ?case by (cases r) auto
next
  case (Cons d ds)
  have "word_of_nat n * 10 + (word_of_nat (code d) - 48) = (word_of_nat (n * 10 + (code d - 48)) :: u32)"
    using Cons.prems(1) by (simp add: code_digit_word mult.commute)
  with Cons.IH [of "n * 10 + (code d - 48)" True] Cons.prems show ?case by simp
qed

lemma ExtractUInt32_loop_suffix: "suffix (fst (ExtractUInt32_loop s n b)) s"
  by (induction s n b rule: ExtractUInt32_loop.induct) (auto intro: suffix_ConsI)

lemma SkipString_space [cursor_simps]: "snd (SkipString s '' '') = dropWhile (\<lambda>c. c = SPC) s"
proof -
  have "\<not> prefix '' '' (dropWhile (\<lambda>c. c = SPC) s)" by (induction s) auto
  then show ?thesis by (simp add: SkipString_def Let_def cursor_simps)
qed

lemma ExtractUInt32_suffix: "suffix (snd (snd (ExtractUInt32 s v))) s"
proof -
  let ?s = "dropWhile (\<lambda>c. c = SPC) s"
  obtain w n b where l: "ExtractUInt32_loop ?s 0 False = (w, n, b)"
    by (metis prod_cases3)
  have "suffix w ?s" using ExtractUInt32_loop_suffix [of ?s 0 False] l by simp
  then have "suffix w s" by (rule suffix_dropWhile_trans)
  moreover have "suffix (dropWhile (\<lambda>c. c = SPC) w) w" by (rule suffix_dropWhile)
  ultimately have "suffix (dropWhile (\<lambda>c. c = SPC) w) s" by (rule suffix_order.trans [rotated])
  with l show ?thesis by (simp add: ExtractUInt32_def cursor_simps suffix_dropWhile)
qed

lemma digit_not_space: "isdigit_c c \<Longrightarrow> c \<noteq> SPC"
  by (auto simp: isdigit_c_def code_def)

lemma ExtractUInt32_digits:
  assumes "list_all isdigit_c ds" "ds \<noteq> []" "r = [] \<or> \<not> isdigit_c (hd r)"
  shows "ExtractUInt32 (replicate k SPC @ ds @ r) v =
    (True, word_of_nat (dec_value ds), dropWhile (\<lambda>c. c = SPC) r)"
proof -
  have "hd (ds @ r) \<noteq> SPC" using assms(1,2) by (cases ds) (auto dest: digit_not_space)
  then have "dropWhile (\<lambda>c. c = SPC) (replicate k SPC @ ds @ r) = ds @ r"
    by (simp add: dropWhile_replicate_append cursor_simps)
  then show ?thesis
    using ExtractUInt32_loop_digits [OF assms(1,3), of 0 False] assms(2)
    by (simp add: ExtractUInt32_def cursor_simps dec_value_def)
qed

lemma ExtractUInt32_fails:
  assumes "s = [] \<or> (hd s \<noteq> SPC \<and> \<not> isdigit_c (hd s))"
  shows "ExtractUInt32 (replicate k SPC @ s) v = (False, v, s)"
  using assms by (cases s) (auto simp: ExtractUInt32_def cursor_simps dropWhile_replicate_append)

text \<open>\<open>snprintf ("%u")\<close>, the way the RIL writes numbers into AT commands.\<close>

definition digit_char :: "nat \<Rightarrow> char" where
  "digit_char d = char_of (48 + d)"

fun dec_string :: "nat \<Rightarrow> string" where
  "dec_string n = (if n < 10 then [digit_char n] else dec_string (n div 10) @ [digit_char (n mod 10)])"

declare dec_string.simps [simp del]

lemma code_digit_char: "d < 10 \<Longrightarrow> code (digit_char d) = 48 + d"
  by (simp add: code_def digit_char_def)

lemma isdigit_digit_char: "d < 10 \<Longrightarrow> isdigit_c (digit_char d)"
  by (simp add: isdigit_c_def code_digit_char)

lemma dec_string_digits: "list_all isdigit_c (dec_string n) \<and> dec_string n \<noteq> []"
proof (induction n rule: dec_string.induct)
  case (1 n)
  show ?case
  proof (cases "n < 10")
    case True
    then show ?thesis by (subst (1 2) dec_string.simps) (simp add: isdigit_digit_char)
  next
    case False
    then show ?thesis
      using "1.IH" by (subst (1 2) dec_string.simps) (simp add: isdigit_digit_char)
  qed
qed

lemma dec_value_dec_string: "dec_value (dec_string n) = n"
proof (induction n rule: dec_string.induct)
  case (1 n)
  then show ?case
    by (subst dec_string.simps) (auto simp: dec_value_def code_digit_char)
qed

lemma ExtractUInt32_dec_string:
  "n < 2 ^ 32 \<Longrightarrow> r = [] \<or> \<not> isdigit_c (hd r) \<Longrightarrow>
    ExtractUInt32 (replicate k SPC @ dec_string n @ r) v =
      (True, word_of_nat n, dropWhile (\<lambda>c. c = SPC) r)"
  using dec_string_digits [of n] by (simp add: ExtractUInt32_digits dec_value_dec_string)

section \<open>Quoted and delimited strings\<close>

lemma FindAndSkipString_char:
  "FindAndSkipString s [c] =
     (let t = dropWhile (\<lambda>x. x \<noteq> c) (dropWhile (\<lambda>x. x = SPC) s)
      in if t = [] then (False, dropWhile (\<lambda>x. x = SPC) s) else (True, tl t))"
  by (auto simp: FindAndSkipString_def Let_def cursor_simps strstr_char drop_Suc)

lemma dropWhile_spaces_then:
  assumes "c \<noteq> SPC" "c \<notin> set p"
  shows "dropWhile (\<lambda>x. x \<noteq> c) (dropWhile (\<lambda>x. x = SPC) (p @ c # r)) = c # r"
  using assms by (induction p) (auto simp: dropWhile_append3)

lemma dropWhile_spaces_never:
  assumes "c \<notin> set p"
  shows "dropWhile (\<lambda>x. x \<noteq> c) (dropWhile (\<lambda>x. x = SPC) p) = []"
  using assms by (auto simp: dropWhile_eq_Nil_conv dest: set_dropWhileD)

lemma FindAndSkipString_char_found:
  "c \<noteq> SPC \<Longrightarrow> c \<notin> set p \<Longrightarrow> FindAndSkipString (p @ c # r) [c] = (True, r)"
  by (simp add: FindAndSkipString_char dropWhile_spaces_then)

lemma FindAndSkipString_char_missing:
  "c \<notin> set p \<Longrightarrow> FindAndSkipString p [c] = (False, dropWhile (\<lambda>x. x = SPC) p)"
  by (simp add: FindAndSkipString_char dropWhile_spaces_never)

lemma SkipString_char:
  "c \<noteq> SPC \<Longrightarrow> SkipString (replicate k SPC @ c # r) [c] = (True, r)"
  by (simp add: SkipString_def Let_def cursor_simps dropWhile_replicate_append)

lemma strncpy_clear: "n \<le> cb \<Longrightarrow> length src \<ge> n \<Longrightarrow>
    strncpy (replicate cb NUL) src n = take n src @ replicate (cb - n) NUL"
  by (simp add: strncpy_def)

lemma ExtractQuotedString_quoted:
  assumes "QUOTE \<notin> set body"
  shows "ExtractQuotedString (replicate k SPC @ QUOTE # body @ QUOTE # r) cb =
    (if length body < cb then (True, body @ replicate (cb - length body) NUL, r)
     else (False, replicate cb NUL, r))"
  using assms
  by (simp add: ExtractQuotedString_def Let_def cursor_simps dropWhile_replicate_append
      SkipString_char [of _ 0, simplified] FindAndSkipString_char_found strncpy_clear)

lemma ExtractUnquotedString_delimited:
  assumes "d \<noteq> SPC" "d \<noteq> NUL" "d \<notin> set body" "body = [] \<or> hd body \<noteq> SPC"
  shows "ExtractUnquotedString_char (replicate k SPC @ body @ d # r) d cb =
    (if length body < cb then (True, body @ replicate (cb - length body) NUL, d # r)
     else (False, replicate cb NUL, r))"
proof -
  have h: "hd (body @ d # r) \<noteq> SPC" using assms by (cases body) auto
  then have s: "dropWhile (\<lambda>c. c = SPC) (replicate k SPC @ body @ d # r) = body @ d # r"
    by (simp add: dropWhile_replicate_append cursor_simps)
  have c: "cstr [d, NUL] = [d]" using assms(2) by (simp add: cstr_def)
  show ?thesis
    using assms h
    by (simp add: ExtractUnquotedString_char_def ExtractUnquotedString_def Let_def cursor_simps s c
        FindAndSkipString_char_found strncpy_clear)
qed

text \<open>Every output buffer has the size the caller gave, and on success it is terminated.\<close>

lemma strncpy_clear_terminated:
  "n < cb \<Longrightarrow> n \<le> length src \<Longrightarrow>
    length (strncpy (replicate cb NUL) src n) = cb \<and> last (strncpy (replicate cb NUL) src n) = NUL"
  by (simp add: strncpy_clear)

lemma length_skip: "length (dropWhile P s) \<le> length s"
  by (rule length_dropWhile_le)

lemma cursor_result_suffix:
  "FindAndSkipString s k = (b, r) \<Longrightarrow> suffix r s"
  "SkipString s k = (b, r) \<Longrightarrow> suffix r s"
  using FindAndSkipString_suffix [of s k] SkipString_suffix [of s k] by auto

lemma ExtractQuotedString_buffer:
  assumes "ExtractQuotedString s cb = (b, out, r)"
  shows "length out = cb \<and> (b \<longrightarrow> last out = NUL) \<and> suffix r s"
proof -
  define t where "t = dropWhile (\<lambda>c. c = SPC) s"
  have t: "suffix t s" by (simp add: t_def suffix_dropWhile)
  obtain b1 w where w: "SkipString t [QUOTE] = (b1, w)" by fastforce
  obtain b2 e where e: "FindAndSkipString w [QUOTE] = (b2, e)" by fastforce
  have "suffix w s" "suffix e s"
    using cursor_result_suffix(2) [OF w] cursor_result_suffix(1) [OF e] t
    by (blast intro: suffix_order.trans)+
  then show ?thesis
    using assms t strncpy_clear_terminated [of "length w - length e - 1" cb w]
    by (auto simp: ExtractQuotedString_def cursor_simps t_def [symmetric] w e Let_def
        split: bool.splits if_splits)
qed

lemma ExtractUnquotedString_buffer:
  assumes "ExtractUnquotedString s d cb = (b, out, r)"
  shows "length out = cb \<and> (b \<longrightarrow> last out = NUL) \<and> suffix r s"
proof -
  define t where "t = dropWhile (\<lambda>c. c = SPC) s"
  have t: "suffix t s" by (simp add: t_def suffix_dropWhile)
  obtain b2 e where e: "FindAndSkipString t d = (b2, e)" by fastforce
  have "suffix e s" "suffix (drop n t) s" for n
    using cursor_result_suffix(1) [OF e] t
    by (blast intro: suffix_order.trans suffix_drop)+
  then show ?thesis
    using assms t strncpy_clear_terminated [of "length t - length e - length d" cb t]
    by (auto simp: ExtractUnquotedString_def cursor_simps t_def [symmetric] e Let_def
        split: bool.splits if_splits)
qed

section \<open>Hexadecimal numbers\<close>

lemma ExtractHexUInt32_loop_suffix: "suffix (fst (ExtractHexUInt32_loop s n b)) s"
  by (induction s n b rule: ExtractHexUInt32_loop.induct)
    (auto intro: suffix_ConsI split: option.split)

lemma ExtractHexUInt32_suffix: "suffix (snd (snd (ExtractHexUInt32 s v))) s"
proof -
  let ?s = "dropWhile (\<lambda>c. c = SPC) s"
  obtain w n b where l: "ExtractHexUInt32_loop ?s 0 False = (w, n, b)"
    by (metis prod_cases3)
  have "suffix w s"
    using ExtractHexUInt32_loop_suffix [of ?s 0 False] l
    by (auto intro: suffix_dropWhile_trans)
  with l show ?thesis by (simp add: ExtractHexUInt32_def cursor_simps suffix_dropWhile)
qed

text \<open>\<open>snprintf ("%X")\<close>.\<close>

definition hex_char :: "nat \<Rightarrow> char" where
  "hex_char d = char_of (if d < 10 then 48 + d else 55 + d)"

fun hex_string :: "nat \<Rightarrow> string" where
  "hex_string n = (if n < 16 then [hex_char n] else hex_string (n div 16) @ [hex_char (n mod 16)])"

declare hex_string.simps [simp del]

lemma hex_digit_hex_char: "d < 16 \<Longrightarrow> hex_digit (hex_char d) = Some (word_of_nat d)"
  by (auto simp: hex_digit_def hex_char_def code_def isdigit_c_def of_nat_diff not_less)

lemma ExtractHexUInt32_loop_hex_string:
  "ExtractHexUInt32_loop (hex_string n @ r) v b =
    ExtractHexUInt32_loop r (v * 16 ^ length (hex_string n) + word_of_nat n) True"
proof (induction n arbitrary: v b r rule: hex_string.induct)
  case (1 n)
  show ?case
  proof (cases "n < 16")
    case True
    then show ?thesis by (subst (1 2) hex_string.simps) (simp add: hex_digit_hex_char)
  next
    case False
    have "(word_of_nat n :: u32) = word_of_nat (n div 16) * 16 + word_of_nat (n mod 16)"
      by (metis div_mult_mod_eq of_nat_add of_nat_mult of_nat_numeral)
    then show ?thesis
      using False "1.IH" [OF False, of "[hex_char (n mod 16)] @ r" v b]
      by (subst (1 2) hex_string.simps)
        (simp add: hex_digit_hex_char algebra_simps)
  qed
qed

lemma hex_string_head:
  "hex_string n \<noteq> [] \<and> hd (hex_string n) \<noteq> SPC"
proof (induction n rule: hex_string.induct)
  case (1 n)
  have "d < 16 \<Longrightarrow> hex_char d \<noteq> SPC" for d
    using hex_digit_hex_char [of d] by (auto simp: hex_digit_def isdigit_c_def code_def)
  with "1" show ?case by (subst (1 2) hex_string.simps) (cases "n < 16", auto)
qed

lemma ExtractHexUInt32_hex_string:
  assumes "r = [] \<or> hex_digit (hd r) = None"
  shows "ExtractHexUInt32 (replicate k SPC @ hex_string n @ r) v = (True, word_of_nat n, r)"
proof -
  have "hex_string n @ r \<noteq> []" "hd (hex_string n @ r) \<noteq> SPC"
    using hex_string_head [of n] by auto
  moreover have "ExtractHexUInt32_loop r x True = (r, x, True)" for x
    using assms by (cases r) auto
  ultimately show ?thesis
    by (simp add: ExtractHexUInt32_def cursor_simps dropWhile_replicate_append
        ExtractHexUInt32_loop_hex_string)
qed

section \<open>The other cursors stay in the text\<close>

lemma ExtractIntAndConvertToUInt32_suffix:
  "suffix (snd (snd (ExtractIntAndConvertToUInt32 s v))) s"
proof -
  define t where "t = dropWhile (\<lambda>c. c = SPC) s"
  have t: "suffix t s" by (simp add: t_def suffix_dropWhile)
  have "suffix (snd (snd (ExtractUInt32 (drop n t) v))) s" for n
    using ExtractUInt32_suffix [of "drop n t" v] t
    by (blast intro: suffix_order.trans suffix_drop)
  from this [of 1] this [of 0] show ?thesis
    by (auto simp: ExtractIntAndConvertToUInt32_def Let_def cursor_simps t_def [symmetric]
        split: prod.split)
qed

lemma ExtractBounded_suffix:
  "suffix (snd (snd (ExtractUpperBoundedUInt32 s l v))) s"
  "suffix (snd (snd (ExtractLowerBoundedUInt32 s l v))) s"
proof -
  define t where "t = dropWhile (\<lambda>c. c = SPC) s"
  have t: "suffix t s" by (simp add: t_def suffix_dropWhile)
  have "suffix (snd (snd (ExtractUInt32 t v))) s"
    using ExtractUInt32_suffix [of t v] t by (blast intro: suffix_order.trans)
  with t show
    "suffix (snd (snd (ExtractUpperBoundedUInt32 s l v))) s"
    "suffix (snd (snd (ExtractLowerBoundedUInt32 s l v))) s"
    by (auto simp: ExtractUpperBoundedUInt32_def ExtractLowerBoundedUInt32_def Let_def cursor_simps
        t_def [symmetric] split: prod.split)
qed

lemma ExtractLongLong_suffix:
  "ExtractLongLong s v r b = (True, w, e) \<Longrightarrow> suffix e s"
  using strto_suffix [of "- (2 ^ 63)" "2 ^ 63 - 1" b s]
  by (auto simp: ExtractLongLong_def strtoll_def Let_def split: prod.splits if_splits)

lemma ExtractInt_True:
  assumes "ExtractInt s v r b = (True, w, e)"
  shows "- (2 ^ 31) \<le> w \<and> w \<le> 2 ^ 31 - 1 \<and> suffix e s"
  using assms
  by (auto simp: ExtractInt_def split: prod.splits bool.splits if_splits
      intro: ExtractLongLong_suffix)

lemma ExtractInt_False: "ExtractInt s v r b = (False, w, e) \<Longrightarrow> w = v \<and> e = r"
  by (auto simp: ExtractInt_def split: prod.splits bool.splits if_splits)

interpretation uint_cursor: cursor "\<lambda>s. snd (snd (ExtractUInt32 s v))" for v
  by unfold_locales (rule ExtractUInt32_suffix)

interpretation hex_cursor: cursor "\<lambda>s. snd (snd (ExtractHexUInt32 s v))" for v
  by unfold_locales (rule ExtractHexUInt32_suffix)

interpretation int_cursor: cursor "\<lambda>s. snd (snd (ExtractIntAndConvertToUInt32 s v))" for v
  by unfold_locales (rule ExtractIntAndConvertToUInt32_suffix)

interpretation quoted_cursor: cursor "\<lambda>s. snd (snd (ExtractQuotedString s cb))" for cb
  by unfold_locales (metis ExtractQuotedString_buffer prod.collapse)

interpretation unquoted_cursor: cursor "\<lambda>s. snd (snd (ExtractUnquotedString s d cb))" for d cb
  by unfold_locales (metis ExtractUnquotedString_buffer prod.collapse)

section \<open>Fixed point numbers\<close>

lemma pow10_zero_iff: "(10 ^ k :: u32) = 0 \<longleftrightarrow> 32 \<le> k"
proof -
  have "(10 ^ k :: u32) = 0 \<longleftrightarrow> (word_of_nat (10 ^ k) :: u32) = 0" by simp
  also have "\<dots> \<longleftrightarrow> (2::nat) ^ 32 dvd 10 ^ k"
    by (simp only: word_of_nat_eq_0_iff) simp
  also have "\<dots> \<longleftrightarrow> 32 \<le> k"
  proof
    assume "(2::nat) ^ 32 dvd 10 ^ k"
    then have "(2::nat) ^ 32 dvd 2 ^ k * 5 ^ k"
      by (simp add: power_mult_distrib [symmetric])
    moreover have "coprime ((2::nat) ^ 32) (5 ^ k)"
    proof -
      have "coprime (2::nat) 5" by (simp add: coprime_iff_gcd_eq_1 gcd_nat.simps)
      then show ?thesis by (metis coprime_power_left_iff coprime_power_right_iff)
    qed
    ultimately have "(2::nat) ^ 32 dvd 2 ^ k"
      by (metis coprime_dvd_mult_left_iff)
    then show "32 \<le> k" by (rule power_dvd_imp_le) simp
  next
    assume "32 \<le> k"
    then have "(2::nat) ^ 32 dvd 2 ^ k" by (rule le_imp_power_dvd)
    then have "(2::nat) ^ 32 dvd 2 ^ k * 5 ^ k" by (rule dvd_mult2)
    then show "(2::nat) ^ 32 dvd 10 ^ k" by (simp add: power_mult_distrib [symmetric])
  qed
  finally show ?thesis .
qed

text \<open>
  The fixed point reader on a decimal number \<open>w.f\<close>: the 16.16 value of \<open>w + f / 10^n\<close>, where
  \<open>n\<close> counts every character the fraction's reader consumed: its digits, and also the spaces
  in front of and behind them. From 32 such characters on, the divisor wraps to 0 and the
  division traps.
\<close>

theorem ExtractFixedPointValue_decimal:
  assumes "list_all isdigit_c ws" "ws \<noteq> []" "list_all isdigit_c fs" "fs \<noteq> []"
    and "r = [] \<or> \<not> isdigit_c (hd r)"
  shows "ExtractFixedPointValue (replicate k SPC @ ws @ CHR ''.'' # replicate j SPC @ fs @ r) v =
    (let n = j + length fs + length (takeWhile (\<lambda>c. c = SPC) r)
     in if 32 \<le> n then None
        else Some (True, push_bit 16 (word_of_nat (dec_value ws)) +
               push_bit 16 (word_of_nat (dec_value fs)) div 10 ^ n,
             dropWhile (\<lambda>c. c = SPC) r))"
proof -
  let ?t = "replicate j SPC @ fs @ r"
  have dot: "\<not> isdigit_c CHR ''.''" by (simp add: isdigit_c_def code_def)
  have hd: "hd (ws @ CHR ''.'' # ?t) \<noteq> SPC" "ws @ CHR ''.'' # ?t \<noteq> []"
    using assms(1,2) by (cases ws, auto dest: digit_not_space)
  then have w: "dropWhile (\<lambda>c. c = SPC) (replicate k SPC @ ws @ CHR ''.'' # ?t) = ws @ CHR ''.'' # ?t"
    by (simp add: dropWhile_replicate_append cursor_simps)
  have u1: "ExtractUInt32 (ws @ CHR ''.'' # ?t) 0 = (True, word_of_nat (dec_value ws), CHR ''.'' # ?t)"
    using ExtractUInt32_digits [OF assms(1,2), of "CHR ''.'' # ?t" 0 0] dot by simp
  have s: "SkipString (CHR ''.'' # ?t) ''.'' = (True, ?t)"
    using SkipString_char [of "CHR ''.''" 0 ?t] by simp
  have u2: "ExtractUInt32 ?t 0 = (True, word_of_nat (dec_value fs), dropWhile (\<lambda>c. c = SPC) r)"
    using ExtractUInt32_digits [OF assms(3,4,5)] by blast
  have "length r = length (takeWhile (\<lambda>c. c = SPC) r) + length (dropWhile (\<lambda>c. c = SPC) r)"
    by (metis length_append takeWhile_dropWhile_id)
  then have l: "length ?t - length (dropWhile (\<lambda>c. c = SPC) r) =
      j + length fs + length (takeWhile (\<lambda>c. c = SPC) r)"
    by simp
  show ?thesis
    unfolding ExtractFixedPointValue_def Let_def skip_spaces_eq w u1 s u2 prod.case bool.case l
      pow10_zero_iff by simp
qed

theorem ExtractFixedPointValue_decimal_witness:
  "ExtractFixedPointValue ''2.5,'' 0 = Some (True, 0x28000, '','')"
  using ExtractFixedPointValue_decimal [of "''2''" "''5''" "'',''" 0 0 0]
  by (simp add: isdigit_c_def code_def dec_value_def)

section \<open>Comma separated arguments\<close>

text \<open>A line of fields joined by commas, then the end marker, then whatever follows.\<close>

fun join_fields :: "string list \<Rightarrow> string" where
  "join_fields [] = []"
| "join_fields [f] = f"
| "join_fields (f # fs) = f @ CHR '','' # join_fields fs"

text \<open>The pointers to the fields: the text from each field on.\<close>

fun field_ptrs :: "string list \<Rightarrow> string \<Rightarrow> string list" where
  "field_ptrs [] e = []"
| "field_ptrs (f # fs) e = (join_fields (f # fs) @ e) # field_ptrs fs e"

lemma length_field_ptrs [simp]: "length (field_ptrs fs e) = length fs"
  by (induction fs) auto

lemma join_fields_Cons: "fs \<noteq> [] \<Longrightarrow> join_fields (f # fs) = f @ CHR '','' # join_fields fs"
  by (cases fs) auto

lemma FindRspArgs_loop_last:
  assumes "CHR '','' \<notin> set f"
  shows "FindRspArgs_loop (f @ tail) p tail args m = (p, args)"
proof -
  have "length (snd (FindAndSkipString (f @ tail) '','')) \<le> length tail"
    if "fst (FindAndSkipString (f @ tail) '','')"
  proof (cases "CHR '','' \<in> set tail")
    case True
    then obtain q q' where t: "tail = q @ CHR '','' # q'" "CHR '','' \<notin> set q"
      by (meson split_list_first)
    then have "FindAndSkipString ((f @ q) @ CHR '','' # q') '','' = (True, q')"
      using assms by (intro FindAndSkipString_char_found) auto
    then show ?thesis using t by simp
  next
    case False
    then show ?thesis using that assms FindAndSkipString_char_missing [of "CHR '',''" "f @ tail"]
      by simp
  qed
  then show ?thesis
    by (subst FindRspArgs_loop.simps) (auto simp: Let_def split: prod.split)
qed

lemma FindRspArgs_loop_comma:
  assumes "CHR '','' \<notin> set f" "length e < length r"
  shows "FindRspArgs_loop (f @ CHR '','' # r) p e args m =
    (if length args < unat m then FindRspArgs_loop r r e (args @ [p]) m else (p, args))"
proof -
  have "FindAndSkipString (f @ CHR '','' # r) '','' = (True, r)"
    using assms by (intro FindAndSkipString_char_found) auto
  then show ?thesis
    using assms(2) by (subst FindRspArgs_loop.simps) (simp add: Let_def)
qed

text \<open>
  The loop stores the first \<open>min (number of commas) (room left)\<close> pointers and keeps the next
  one in \<open>pszPrevPtr\<close>.
\<close>

lemma FindRspArgs_loop_fields:
  assumes "\<forall>f \<in> set fs. CHR '','' \<notin> set f" "CHR '','' \<notin> set eol" "eol \<noteq> []" "fs \<noteq> []"
  shows "FindRspArgs_loop (join_fields fs @ eol @ tail) (join_fields fs @ eol @ tail) tail args m =
    (let n = min (length fs - 1) (unat m - length args); ps = field_ptrs fs (eol @ tail)
     in (ps ! n, args @ take n ps))"
  using assms
proof (induction fs arbitrary: args)
  case Nil
  then show ?case by simp
next
  case (Cons f fs)
  let ?r = "join_fields fs @ eol @ tail"
  show ?case
  proof (cases "fs = []")
    case True
    then show ?thesis using Cons.prems FindRspArgs_loop_last [of "f @ eol" tail] by simp
  next
    case False
    have l: "length tail < length ?r" using Cons.prems(3) by simp
    show ?thesis
    proof (cases "length args < unat m")
      case True
      then obtain d where d: "unat m - length args = Suc d" "unat m - Suc (length args) = d"
        by (metis Suc_diff_Suc)
      obtain k where k: "length fs = Suc k" using False by (cases fs) auto
      show ?thesis
        using FindRspArgs_loop_comma [of f tail ?r _ args m] l Cons.IH [of "args @ [_]"] Cons.prems
          False True by (simp add: join_fields_Cons d k Let_def)
    next
      case f: False
      show ?thesis
        using FindRspArgs_loop_comma [of f tail ?r _ args m] l Cons.prems False f
        by (simp add: join_fields_Cons Let_def)
    qed
  qed
qed

lemma dropWhile_spaces_append:
  "c \<noteq> SPC \<Longrightarrow> dropWhile (\<lambda>x. x = SPC) (p @ c # r) = dropWhile (\<lambda>x. x = SPC) p @ c # r"
  by (induction p) auto

lemma FindRspArgs_line:
  assumes "\<forall>f \<in> set fs. CHR '','' \<notin> set f \<and> c \<notin> set f" "CHR '','' \<notin> set (c # eol)"
    and "fs \<noteq> []" "c \<noteq> SPC" "length fs < 2 ^ 32" "m \<noteq> 0"
  shows "FindRspArgs (Some (join_fields fs @ (c # eol) @ tail)) (Some (c # eol)) False m =
    take (if length fs < unat m \<and> length fs \<noteq> 1 then length fs
          else min (length fs - 1) (unat m)) (field_ptrs fs ((c # eol) @ tail))"
proof -
  let ?e = "c # eol" let ?ps = "field_ptrs fs (?e @ tail)"
  define n where "n = min (length fs - 1) (unat m)"
  have nc: "c \<notin> set (join_fields fs)" if "\<forall>f \<in> set fs. c \<notin> set f" for fs
    using that assms(2) by (induction fs rule: join_fields.induct) auto
  have "strstr ((dropWhile (\<lambda>c. c = SPC) (join_fields fs)) @ ?e @ tail) ?e = Some (?e @ tail)"
  proof (rule strstr_append)
    fix k assume k: "k < length (dropWhile (\<lambda>c. c = SPC) (join_fields fs))"
    then have "drop k (dropWhile (\<lambda>c. c = SPC) (join_fields fs)) ! 0 \<in> set (join_fields fs)"
      by (metis add.right_neutral less_or_eq_imp_le nth_drop nth_mem set_dropWhileD)
    then have "drop k (dropWhile (\<lambda>c. c = SPC) (join_fields fs)) ! 0 \<noteq> c" using nc assms(1) by auto
    with k show "\<not> prefix ?e (drop k (dropWhile (\<lambda>c. c = SPC) (join_fields fs) @ ?e @ tail))"
      by (cases "drop k (dropWhile (\<lambda>c. c = SPC) (join_fields fs))") auto
  qed simp
  moreover have "dropWhile (\<lambda>c. c = SPC) (join_fields fs @ ?e @ tail) =
      dropWhile (\<lambda>c. c = SPC) (join_fields fs) @ ?e @ tail"
    using assms(4) dropWhile_spaces_append [of c "join_fields fs"] by simp
  ultimately have fe: "FindAndSkipString (join_fields fs @ ?e @ tail) ?e = (True, tail)"
    by (simp add: FindAndSkipString_def Let_def cursor_simps)
  have loop: "FindRspArgs_loop (join_fields fs @ ?e @ tail) (join_fields fs @ ?e @ tail) tail [] m
      = (?ps ! n, take n ?ps)"
    using FindRspArgs_loop_fields [of fs ?e tail "[]" m] assms by (simp add: n_def Let_def)
  have n: "n < length fs" using assms(3) by (cases fs) (auto simp: n_def)
  have "unat (m - 1) = unat m - 1" using assms(6) by (simp add: unat_minus_one)
  moreover have "unat (word_of_nat n :: u32) = n"
    using n assms(5) by (simp add: unat_of_nat)
  ultimately have w: "(word_of_nat n < m - 1) \<longleftrightarrow> n < unat m - 1"
    by (simp add: word_less_nat_alt)
  have m: "n < unat m - 1 \<longleftrightarrow> length fs < unat m"
    using assms(3,6) unat_gt_0 [of m] by (cases fs) (auto simp: n_def)
  have n0: "n > 0 \<longleftrightarrow> length fs \<noteq> 1"
    using assms(3,6) unat_gt_0 [of m] by (cases fs) (auto simp: n_def)
  have t: "take n ?ps @ [?ps ! n] = take (Suc n) ?ps"
    using n by (simp add: take_Suc_conv_app_nth)
  have s: "length fs < unat m \<Longrightarrow> Suc n = length fs"
    using assms(3) by (cases fs) (auto simp: n_def)
  have l: "length (take n ?ps) = n" using n by simp
  have "FindRspArgs (Some (join_fields fs @ ?e @ tail)) (Some ?e) False m =
      (if n < unat m - 1 \<and> n > 0 then take (Suc n) ?ps else take n ?ps)"
    by (simp only: FindRspArgs_def cursor_simps fe loop option.case prod.case if_False bool.case
        Let_def l w t)
  also have "\<dots> = take (if length fs < unat m \<and> length fs \<noteq> 1 then length fs else n) ?ps"
    by (simp only: m n0) (simp add: s)
  finally show ?thesis by (simp only: n_def)
qed

text \<open>
  The argument splitter: for a line of comma separated fields in front of the end marker,
  \<open>FindRspArgs\<close> returns the pointers to the first fields, in order, each to the text from that
  field on. It returns all of them only when there are fewer fields than places in the array
  and more than one of them; with as many fields as places the last one is dropped.
\<close>

theorem FindRspArgs_fields:
  assumes "\<forall>f \<in> set fs. CHR '','' \<notin> set f \<and> c \<notin> set f" "CHR '','' \<notin> set (c # eol)"
    and "fs \<noteq> []" "c \<noteq> SPC" "length fs < 2 ^ 32" "m \<noteq> 0"
  shows "FindRspArgs (Some (join_fields fs @ (c # eol) @ tail)) (Some (c # eol)) False m =
    take (if length fs < unat m \<and> length fs \<noteq> 1 then length fs
          else min (length fs - 1) (unat m)) (field_ptrs fs ((c # eol) @ tail))"
  using assms by (rule FindRspArgs_line)

theorem FindRspArgs_fields_witness:
  "FindRspArgs (Some (join_fields [''1'', ''20'', ''3''] @ [CR, LF] @ ''x'')) (Some [CR, LF]) False 3 =
     [''1,20,3'' @ [CR, LF] @ ''x'', ''20,3'' @ [CR, LF] @ ''x'']"
  using FindRspArgs_fields [of "[''1'', ''20'', ''3'']" CR "[LF]" 3 "''x''"]
  by (simp add: take_Cons')

section \<open>Properties\<close>

text \<open>
  No cursor leaves the text it was given: the end pointer of every extraction function is
  a suffix of the text it starts from, whatever that text holds, whether the call succeeds
  and whatever the bounds, the delimiter and the size of the output buffer are.
\<close>

theorem cursors_stay_in_text:
  "suffix (snd (FindAndSkipString s k)) s \<and> suffix (snd (SkipString s k)) s \<and>
   suffix (snd (snd (ExtractUInt32 s v))) s \<and> suffix (snd (snd (ExtractHexUInt32 s v))) s \<and>
   suffix (snd (snd (ExtractIntAndConvertToUInt32 s v))) s \<and>
   suffix (snd (snd (ExtractUpperBoundedUInt32 s l v))) s \<and>
   suffix (snd (snd (ExtractLowerBoundedUInt32 s l v))) s \<and>
   suffix (snd (snd (ExtractQuotedString s cb))) s \<and>
   suffix (snd (snd (ExtractUnquotedString s k cb))) s"
  by (intro conjI find_cursor.in_text skip_cursor.in_text uint_cursor.in_text hex_cursor.in_text
      int_cursor.in_text quoted_cursor.in_text unquoted_cursor.in_text ExtractBounded_suffix)

text \<open>
  Reading a number undoes printing it: the decimal and the hexadecimal numeral of a 32-bit
  value, behind any number of spaces and in front of any text that does not go on with a
  digit, are read back as that value, and the end pointer is the rest (behind its leading
  spaces for the decimal reader).
\<close>

theorem numerals_read_back:
  assumes "n < 2 ^ 32" and "r = [] \<or> (\<not> isdigit_c (hd r) \<and> hex_digit (hd r) = None)"
  shows "ExtractUInt32 (replicate k SPC @ dec_string n @ r) v =
      (True, word_of_nat n, dropWhile (\<lambda>c. c = SPC) r) \<and>
    ExtractHexUInt32 (replicate k SPC @ hex_string n @ r) v = (True, word_of_nat n, r)"
  using assms ExtractUInt32_dec_string [of n r k v] ExtractHexUInt32_hex_string [of r k n v] by blast

theorem numerals_read_back_witness:
  "ExtractUInt32 (replicate 2 SPC @ dec_string 407 @ '', x'') 0 = (True, word_of_nat 407, '', x'') \<and>
   ExtractHexUInt32 (replicate 2 SPC @ hex_string 407 @ '', x'') 0 = (True, word_of_nat 407, '', x'')"
  using numerals_read_back [of 407 "'', x''" 2 0]
  by (simp add: isdigit_c_def hex_digit_def code_def)

text \<open>
  A quoted string is read exactly up to its closing quote, and an unquoted one exactly up
  to its delimiter, when it fits the output buffer with its terminator; the rest of the buffer
  is zero. One that does not fit is refused, the buffer stays empty, and the end pointer is
  behind the string all the same.
\<close>

theorem delimited_strings:
  assumes "QUOTE \<notin> set body" "d \<noteq> SPC" "d \<noteq> NUL" "d \<notin> set body" "body = [] \<or> hd body \<noteq> SPC"
  shows "ExtractQuotedString (replicate k SPC @ QUOTE # body @ QUOTE # r) cb =
      (if length body < cb then (True, body @ replicate (cb - length body) NUL, r)
       else (False, replicate cb NUL, r)) \<and>
    ExtractUnquotedString_char (replicate k SPC @ body @ d # r) d cb =
      (if length body < cb then (True, body @ replicate (cb - length body) NUL, d # r)
       else (False, replicate cb NUL, r))"
  using assms ExtractQuotedString_quoted [of body k r cb] ExtractUnquotedString_delimited [of d body k r cb]
  by blast

theorem delimited_strings_witness:
  "ExtractQuotedString (SPC # QUOTE # ''abc'' @ QUOTE # '',1'') 5 = (True, ''abc'' @ [NUL, NUL], '',1'') \<and>
   ExtractUnquotedString_char (SPC # ''abc'' @ CHR '','' # ''1'') CHR '','' 3 = (False, [NUL, NUL, NUL], ''1'')"
  using delimited_strings [of "''abc''" "CHR '',''" 1 "'',1''" 5]
    delimited_strings [of "''abc''" "CHR '',''" 1 "''1''" 3]
  by (simp add: numeral_2_eq_2 numeral_3_eq_3)

end
