(* ===== verification/GsmUtil.thy ===== *)
theory GsmUtil
  imports Extract
begin

text \<open>
  Model of \<open>UTIL/ND/util.cpp\<close>: hexadecimal and UCS2 / GSM to UTF-8 conversions, the bounded
  string helpers, the log expansion of CR and LF, and the growing buffer \<open>CSelfExpandBuffer\<close>
  that holds a modem response.

  Buffers are lists of their allocated cells. An access outside the cells, an index computed
  from a negative number, or a failed \<open>assert\<close> gives \<open>None\<close>, so that a result \<open>Some r\<close> says that
  the run stayed in bounds. A pointer parameter that may be NULL is an option of its own.
\<close>

section \<open>Semi-bytes and hexadecimal\<close>

definition byte :: "char \<Rightarrow> u8" where
  "byte c = of_char c"

definition g_rgchSemiByteToCharMap :: string where
  "g_rgchSemiByteToCharMap = ''0123456789ABCDEF''"

definition SemiByteToChar :: "u8 \<Rightarrow> bool \<Rightarrow> char" where
  "SemiByteToChar bByte fHigh =
     (let bSemiByte = (if fHigh then drop_bit 4 (bByte AND 0xf0) else bByte AND 0x0f)
      in if 0x10 \<le> bSemiByte then g_rgchSemiByteToCharMap ! 0
         else g_rgchSemiByteToCharMap ! unat bSemiByte)"

definition SemiByteCharsToByte :: "char \<Rightarrow> char \<Rightarrow> u8" where
  "SemiByteCharsToByte chHigh chLow =
     (let bRet = (if isdigit_c chHigh then push_bit 4 (byte chHigh - 48)
                  else push_bit 4 (0x0a + byte chHigh - 65))
      in if isdigit_c chLow then bRet OR (byte chLow - 48)
         else bRet OR (0x0a + byte chLow - 65))"

fun GSMHexToGSM_loop :: "string \<Rightarrow> nat \<Rightarrow> u8 list" where
  "GSMHexToGSM_loop (a # b # pchIn) (Suc room) =
     SemiByteCharsToByte a b # GSMHexToGSM_loop pchIn room"
| "GSMHexToGSM_loop _ _ = []"

text \<open>The bytes written to \<open>sOut\<close>; \<open>rcbUsed\<close> is their number. The input has \<open>cbIn\<close> characters.\<close>

definition GSMHexToGSM :: "string \<Rightarrow> nat \<Rightarrow> bool \<times> u8 list \<times> nat" where
  "GSMHexToGSM sIn cbOut =
     (let sOut = GSMHexToGSM_loop sIn cbOut in (True, sOut, length sOut))"

fun GSMToGSMHex_loop :: "u8 list \<Rightarrow> nat \<Rightarrow> string" where
  "GSMToGSMHex_loop (b # pchIn) (Suc (Suc room)) =
     g_rgchSemiByteToCharMap ! unat (drop_bit 4 (b AND 0xf0))
       # g_rgchSemiByteToCharMap ! unat (b AND 0x0f) # GSMToGSMHex_loop pchIn room"
| "GSMToGSMHex_loop _ _ = []"

definition GSMToGSMHex :: "u8 list \<Rightarrow> nat \<Rightarrow> bool \<times> string \<times> nat" where
  "GSMToGSMHex sIn cbOut =
     (let sOut = GSMToGSMHex_loop sIn cbOut in (True, sOut, length sOut))"

text \<open>\<open>sscanf (s, "%02x")\<close> on a text of at most two characters (C11 7.21.6.2).\<close>

datatype scan = ScanEOF | ScanFail | ScanVal u32

definition sscanf_02x :: "string \<Rightarrow> scan" where
  "sscanf_02x s =
     (let t = dropWhile isspace_c s;
          neg = (case t of c # _ \<Rightarrow> c = CHR ''-'' | [] \<Rightarrow> False);
          u = (case t of c # cs \<Rightarrow> if c = CHR ''-'' \<or> c = CHR ''+'' then cs else t | [] \<Rightarrow> []);
          (n, r) = digits_value 16 0 u
      in if t = [] then ScanEOF
         else if length r = length u \<or> u = ''0x'' \<or> u = ''0X'' then ScanFail
         else ScanVal (if neg then - word_of_nat n else word_of_nat n))"

fun extractByteArrayFromString_loop ::
    "string \<Rightarrow> u32 \<Rightarrow> nat \<Rightarrow> u8 list \<Rightarrow> (bool \<times> u8 list) option" where
  "extractByteArrayFromString_loop (a # b # s) uiVal uiCount szByteArray =
     (case sscanf_02x (cstr [a, b]) of
        ScanEOF \<Rightarrow> Some (False, szByteArray)
      | r \<Rightarrow>
          (let uiVal = (case r of ScanVal v \<Rightarrow> v | _ \<Rightarrow> uiVal)
           in if uiCount < length szByteArray
              then extractByteArrayFromString_loop s uiVal (Suc uiCount)
                     (szByteArray[uiCount := ucast uiVal])
              else None))"
| "extractByteArrayFromString_loop _ _ _ szByteArray = Some (True, szByteArray)"

text \<open>
  With \<open>uiLength = 0\<close> the bound \<open>uiLength-1\<close> of the loop is \<open>2 ^ 32 - 1\<close>, and the loop runs out
  of the string; the same holds when the array has fewer than \<open>uiLength\<close> characters.
\<close>

definition extractByteArrayFromString ::
    "string \<Rightarrow> nat \<Rightarrow> u8 list \<Rightarrow> (bool \<times> u8 list) option" where
  "extractByteArrayFromString szHexArray uiLength szByteArray =
     (if uiLength = 0 \<or> length szHexArray < uiLength then None
      else extractByteArrayFromString_loop (take uiLength szHexArray) 0 0 szByteArray)"

text \<open>\<open>sprintf (p, "%02X", b)\<close>: two digits and the terminator.\<close>

definition sprintf_02X :: "u8 \<Rightarrow> string" where
  "sprintf_02X b = [hex_char (unat b div 16), hex_char (unat b mod 16)]"

fun convertByteArrayIntoString_loop ::
    "u8 list \<Rightarrow> nat \<Rightarrow> char list \<Rightarrow> (bool \<times> char list) option" where
  "convertByteArrayIntoString_loop [] p pszHexArray = Some (True, pszHexArray)"
| "convertByteArrayIntoString_loop (b # bs) p pszHexArray =
     (if p + 3 \<le> length pszHexArray
      then convertByteArrayIntoString_loop bs (p + 2)
             (take p pszHexArray @ sprintf_02X b @ [NUL] @ drop (p + 3) pszHexArray)
      else None)"

definition convertByteArrayIntoString ::
    "u8 list \<Rightarrow> nat \<Rightarrow> char list \<Rightarrow> (bool \<times> char list) option" where
  "convertByteArrayIntoString szByteArray uiLength pszHexArray =
     (if uiLength \<le> length szByteArray
      then convertByteArrayIntoString_loop (take uiLength szByteArray) 0 pszHexArray else None)"

section \<open>UTF-8\<close>

definition utf8_bytes :: "int \<Rightarrow> u8 list" where
  "utf8_bytes v =
     (if v < 128 then [word_of_int v]
      else if v < 0x800 then
        [word_of_int (0xc0 OR drop_bit 6 v), word_of_int (0x80 OR (v AND 0x3f))]
      else if v < 0x10000 then
        [word_of_int (0xe0 OR drop_bit 12 v), word_of_int (0x80 OR (drop_bit 6 v AND 0x3f)),
         word_of_int (0x80 OR (v AND 0x3f))]
      else
        [word_of_int (0xf0 OR (drop_bit 18 v AND 0x7)),
         word_of_int (0x80 OR (drop_bit 12 v AND 0x3f)),
         word_of_int (0x80 OR (drop_bit 6 v AND 0x3f)), word_of_int (0x80 OR (v AND 0x3f))])"

text \<open>Storing consecutive bytes; nothing is stored through a NULL pointer.\<close>

fun store :: "u8 list option \<Rightarrow> nat \<Rightarrow> u8 list \<Rightarrow> u8 list option option" where
  "store None i bs = Some None"
| "store (Some buf) i bs =
     (if i + length bs \<le> length buf
      then Some (Some (take i buf @ bs @ drop (i + length bs) buf)) else None)"

definition utf8_write :: "u8 list option \<Rightarrow> nat \<Rightarrow> int \<Rightarrow> (nat \<times> u8 list option) option" where
  "utf8_write utf8 offset v =
     (case store utf8 offset (utf8_bytes v) of
        None \<Rightarrow> None
      | Some utf8 \<Rightarrow> Some (length (utf8_bytes v), utf8))"

fun ucs2_to_utf8_loop ::
    "nat \<Rightarrow> u8 list \<Rightarrow> nat \<Rightarrow> u8 list option \<Rightarrow> (nat \<times> u8 list option) option" where
  "ucs2_to_utf8_loop 0 ucs2 result buf = Some (result, buf)"
| "ucs2_to_utf8_loop (Suc n) ucs2 result buf =
     (case ucs2 of
        [] \<Rightarrow> None
      | hi # rest \<Rightarrow>
          if hi = 0xFF then Some (result, buf)
          else (case rest of
                  [] \<Rightarrow> None
                | lo # ucs2 \<Rightarrow>
                    (case utf8_write buf result (push_bit 8 (uint hi) OR uint lo) of
                       None \<Rightarrow> None
                     | Some (k, buf) \<Rightarrow> ucs2_to_utf8_loop n ucs2 (result + k) buf)))"

definition ucs2_to_utf8 :: "u8 list \<Rightarrow> nat \<Rightarrow> u8 list option \<Rightarrow> (nat \<times> u8 list option) option" where
  "ucs2_to_utf8 ucs2 ucs2len buf = ucs2_to_utf8_loop ucs2len ucs2 0 buf"

text \<open>
  \<open>mem\<close>: \<open>new\<close> returns memory; \<open>junk\<close>: what a fresh cell of the output buffer holds. Inner
  \<open>None\<close>: the function returns NULL.
\<close>

definition ConvertUCS2ToUTF8 ::
    "bool \<Rightarrow> u8 \<Rightarrow> string option \<Rightarrow> nat \<Rightarrow> u8 list option option" where
  "ConvertUCS2ToUTF8 mem junk pHexBuffer hexBufferLength =
     (case pHexBuffer of
        None \<Rightarrow> Some None
      | Some hex \<Rightarrow>
          if hexBufferLength = 0 then Some None
          else if hexBufferLength mod 2 \<noteq> 0 then Some None
          else if \<not> mem then Some None
          else if length hex < hexBufferLength then None
          else
            (let n = hexBufferLength div 2 + 1;
                 (_, bytes, byteBufferUsed) = GSMHexToGSM (take hexBufferLength hex) n;
                 pByteBuffer = (bytes @ drop (length bytes) (replicate n 0))[byteBufferUsed := 0]
             in case ucs2_to_utf8 pByteBuffer (byteBufferUsed div 2) None of
                  None \<Rightarrow> None
                | Some (utf8Count, _) \<Rightarrow>
                    (case ucs2_to_utf8 pByteBuffer (byteBufferUsed div 2)
                            (Some (replicate (utf8Count + 1) junk)) of
                       Some (_, Some pUtf8Buffer) \<Rightarrow> Some (Some (pUtf8Buffer[utf8Count := 0]))
                     | _ \<Rightarrow> None)))"

section \<open>The GSM alphabet\<close>

definition GSM_7BITS_ESCAPE :: int where "GSM_7BITS_ESCAPE = 0x1b"

definition gsm7bits_to_unicode :: "int list" where
  "gsm7bits_to_unicode = [
    64, 0xa3, 36, 0xa5, 0xe8, 0xe9, 0xf9, 0xec, 0xf2, 0xc7, 10, 0xd8, 0xf8, 13, 0xc5, 0xe5,
    0x394, 95, 0x3a6, 0x393, 0x39b, 0x3a9, 0x3a0, 0x3a8, 0x3a3, 0x398, 0x39e, 0, 0xc6, 0xe6, 0xdf, 0xc9,
    32, 33, 34, 35, 0xa4, 37, 38, 39, 40, 41, 42, 43, 44, 45, 46, 47,
    48, 49, 50, 51, 52, 53, 54, 55, 56, 57, 58, 59, 60, 61, 62, 63,
    0xa1, 65, 66, 67, 68, 69, 70, 71, 72, 73, 74, 75, 76, 77, 78, 79,
    80, 81, 82, 83, 84, 85, 86, 87, 88, 89, 90, 0xc4, 0xd6, 0x147, 0xdc, 0xa7,
    0xbf, 97, 98, 99, 100, 101, 102, 103, 104, 105, 106, 107, 108, 109, 110, 111,
    112, 113, 114, 115, 116, 117, 118, 119, 120, 121, 122, 0xe4, 0xf6, 0xf1, 0xfc, 0xe0]"

definition gsm7bits_extend_to_unicode :: "int list" where
  "gsm7bits_extend_to_unicode = [
    0, 0, 0, 0, 0, 0, 0, 0, 0, 0, 12, 0, 0, 0, 0, 0,
    0, 0, 0, 0, 94, 0, 0, 0, 0, 0, 0, 0, 0, 0, 0, 0,
    0, 0, 0, 0, 0, 0, 0, 0, 123, 125, 0, 0, 0, 0, 0, 92,
    0, 0, 0, 0, 0, 0, 0, 0, 0, 0, 0, 0, 91, 126, 93, 0,
    124, 0, 0, 0, 0, 0, 0, 0, 0, 0, 0, 0, 0, 0, 0, 0,
    0, 0, 0, 0, 0, 0, 0, 0, 0, 0, 0, 0, 0, 0, 0, 0,
    0, 0, 0, 0, 0, 0x20ac, 0, 0, 0, 0, 0, 0, 0, 0, 0, 0,
    0, 0, 0, 0, 0, 0, 0, 0, 0, 0, 0, 0, 0, 0, 0, 0]"

text \<open>
  The converter's loop over \<open>length\<close> source bytes. \<open>at\<close> is the offset of the pointer
  \<open>pUtf8Buffer\<close> in the buffer it points into.
\<close>

fun utf8_from_gsm8_loop ::
    "nat \<Rightarrow> u8 list \<Rightarrow> bool \<Rightarrow> nat \<Rightarrow> nat \<Rightarrow> u8 list option
      \<Rightarrow> (nat \<times> u8 list option) option" where
  "utf8_from_gsm8_loop 0 src escaped result at buf = Some (result, buf)"
| "utf8_from_gsm8_loop (Suc n) src escaped result at buf =
     (case src of
        [] \<Rightarrow> None
      | b # src \<Rightarrow>
          (let c = uint b;
               emit = (\<lambda>c escaped. case utf8_write buf (at + result) c of
                         None \<Rightarrow> None
                       | Some (k, buf) \<Rightarrow> utf8_from_gsm8_loop n src escaped (result + k) at buf)
           in if c = 0xFF then Some (result, buf)
              else if c = GSM_7BITS_ESCAPE then
                (if escaped then emit 0x20 False
                 else utf8_from_gsm8_loop n src True result at buf)
              else if c \<ge> 0x80 then emit 0x20 False
              else if escaped then emit (gsm7bits_extend_to_unicode ! nat c) escaped
              else emit (gsm7bits_to_unicode ! nat c) escaped))"

definition utf8_from_gsm8 ::
    "u8 list \<Rightarrow> nat \<Rightarrow> nat \<Rightarrow> u8 list option \<Rightarrow> (nat \<times> u8 list option) option" where
  "utf8_from_gsm8 pSrcBuffer nLength at pUtf8Buffer =
     utf8_from_gsm8_loop nLength pSrcBuffer False 0 at pUtf8Buffer"

text \<open>
  \<open>for (count = 0; count < len && pAlphaBuffer[offset+count] < 0x80; count++);\<close>
  \<open>None\<close> when the scan leaves the buffer.
\<close>

fun gsm_run :: "nat \<Rightarrow> u8 list \<Rightarrow> nat option" where
  "gsm_run 0 src = Some 0"
| "gsm_run (Suc len) [] = None"
| "gsm_run (Suc len) (b # src) = (if b < 0x80 then map_option Suc (gsm_run len src) else Some 0)"

lemma gsm_run_le: "gsm_run len src = Some k \<Longrightarrow> k \<le> len"
  by (induction len src arbitrary: k rule: gsm_run.induct) (auto split: if_splits)

function GetUtf8Count ::
    "u8 list \<Rightarrow> int \<Rightarrow> nat \<Rightarrow> nat \<Rightarrow> nat \<Rightarrow> nat option" where
  "GetUtf8Count pAlphaBuffer base len offset utf8Count =
     (if len = 0 then Some utf8Count
      else (case drop offset pAlphaBuffer of
              [] \<Rightarrow> None
            | c # _ \<Rightarrow>
                if c \<ge> 0x80 then
                  (case utf8_write None utf8Count (base + (uint c AND 0x7F)) of
                     None \<Rightarrow> None
                   | Some (k, _) \<Rightarrow>
                       GetUtf8Count pAlphaBuffer base (len - 1) (offset + 1) (utf8Count + k))
                else
                  (case gsm_run len (drop offset pAlphaBuffer) of
                     None \<Rightarrow> None
                   | Some count \<Rightarrow>
                       (case utf8_from_gsm8 pAlphaBuffer count 0 None of
                          None \<Rightarrow> None
                        | Some (k, _) \<Rightarrow>
                            GetUtf8Count pAlphaBuffer base (len - count) (offset + count)
                              (utf8Count + k)))))"
  by pat_completeness auto

lemma gsm_run_pos:
  "gsm_run len (c # src) = Some k \<Longrightarrow> \<not> 0x80 \<le> c \<Longrightarrow> 0 < len \<Longrightarrow> 0 < k"
  by (cases len) (auto simp: not_le)

termination GetUtf8Count
  by (relation "measure (\<lambda>(_, _, len, _, _). len)") (auto dest: gsm_run_pos)

declare GetUtf8Count.simps [simp del]

text \<open>The writing pass of the coding schemes 0x81 and 0x82.\<close>

function convertGsm_write ::
    "u8 list \<Rightarrow> int \<Rightarrow> nat \<Rightarrow> nat \<Rightarrow> nat \<Rightarrow> u8 list option
      \<Rightarrow> (nat \<times> u8 list option) option" where
  "convertGsm_write pAlphaBuffer base len offset utf8Count out =
     (if len = 0 then Some (utf8Count, out)
      else (case drop offset pAlphaBuffer of
              [] \<Rightarrow> None
            | c # _ \<Rightarrow>
                if c \<ge> 0x80 then
                  (case utf8_write out utf8Count (base + (uint c AND 0x7F)) of
                     None \<Rightarrow> None
                   | Some (k, out) \<Rightarrow>
                       convertGsm_write pAlphaBuffer base (len - 1) (offset + 1) (utf8Count + k) out)
                else
                  (case gsm_run len (drop offset pAlphaBuffer) of
                     None \<Rightarrow> None
                   | Some count \<Rightarrow>
                       (case utf8_from_gsm8 pAlphaBuffer count utf8Count out of
                          None \<Rightarrow> None
                        | Some (k, out) \<Rightarrow>
                            convertGsm_write pAlphaBuffer base (len - count) (offset + count)
                              (utf8Count + k) out))))"
  by pat_completeness auto
termination
  by (relation "measure (\<lambda>(_, _, len, _, _, _). len)") (auto dest: gsm_run_pos)

declare convertGsm_write.simps [simp del]

text \<open>\<open>Error:\<close> the terminator goes to \<open>MIN(utf8Count, maxUtf8HexStringLength)\<close>.\<close>

definition convertGsm_exit ::
    "bool \<Rightarrow> nat \<Rightarrow> int \<Rightarrow> u8 list option \<Rightarrow> (bool \<times> u8 list option) option" where
  "convertGsm_exit bRet utf8Count maxLen out =
     (case out of
        None \<Rightarrow> Some (bRet, None)
      | Some buf \<Rightarrow>
          (let i = min (int utf8Count) maxLen
           in if 0 \<le> i \<and> nat i < length buf then Some (bRet, Some (buf[nat i := 0])) else None))"

definition convertGsmToUtf8HexString ::
    "u8 list option \<Rightarrow> nat \<Rightarrow> int \<Rightarrow> u8 list option \<Rightarrow> int \<Rightarrow> (bool \<times> u8 list option) option" where
  "convertGsmToUtf8HexString pAlphaBuffer offset nLength pszUtf8HexString maxLen =
     (case pAlphaBuffer of
        None \<Rightarrow> convertGsm_exit False 0 maxLen pszUtf8HexString
      | Some alpha \<Rightarrow>
        if nLength < 0 \<or> pszUtf8HexString = None \<or> maxLen < 0
        then convertGsm_exit False 0 maxLen pszUtf8HexString
        else
        (case drop offset alpha of
           [] \<Rightarrow> None
         | tag # rest \<Rightarrow>
           if tag = 0x80 then
             (let ucs2Len = nat ((nLength - 1) div 2);
                  alpha = drop 1 alpha
              in case ucs2_to_utf8 alpha ucs2Len None of
                   None \<Rightarrow> None
                 | Some (utf8Count, _) \<Rightarrow>
                     if int utf8Count > maxLen
                     then convertGsm_exit False utf8Count maxLen pszUtf8HexString
                     else (case ucs2_to_utf8 alpha ucs2Len pszUtf8HexString of
                             None \<Rightarrow> None
                           | Some (utf8Count, out) \<Rightarrow> convertGsm_exit True utf8Count maxLen out))
           else if (nLength \<ge> 3 \<and> tag = 0x81) \<or> (nLength \<ge> 4 \<and> tag = 0x82) then
             (let h = (if tag = 0x81 then 3 else 4) in
              if length rest < h - 1 then None
              else
                (let len = nat (min (uint (rest ! 0)) (nLength - int h));
                     base = (if tag = 0x81 then push_bit 7 (uint (rest ! 1))
                             else push_bit 8 (uint (rest ! 1)) OR uint (rest ! 2))
                 in case GetUtf8Count alpha base len (offset + h) 0 of
                      None \<Rightarrow> None
                    | Some utf8Count \<Rightarrow>
                        if int utf8Count < maxLen then
                          (case convertGsm_write alpha base len (offset + h) 0 pszUtf8HexString of
                             None \<Rightarrow> None
                           | Some (utf8Count, out) \<Rightarrow> convertGsm_exit True utf8Count maxLen out)
                        else convertGsm_exit True utf8Count maxLen pszUtf8HexString))
           else
             (case utf8_from_gsm8 (drop offset alpha) (nat nLength) 0 None of
                None \<Rightarrow> None
              | Some (utf8Count, _) \<Rightarrow>
                  if int utf8Count < maxLen then
                    (case utf8_from_gsm8 (drop offset alpha) (nat nLength) 0 pszUtf8HexString of
                       None \<Rightarrow> None
                     | Some (utf8Count, out) \<Rightarrow> convertGsm_exit True utf8Count maxLen out)
                  else convertGsm_exit False utf8Count maxLen pszUtf8HexString)))"

section \<open>Hexadecimal round trips\<close>

lemma less_16_cases:
  "(d::nat) < 16 \<longleftrightarrow> d \<in> {0,1,2,3,4,5,6,7,8,9,10,11,12,13,14,15}"
  by (simp, presburger)

lemma char_map_digit: "d < 16 \<Longrightarrow>
    (if isdigit_c (g_rgchSemiByteToCharMap ! d) then byte (g_rgchSemiByteToCharMap ! d) - 48
     else 0x0a + byte (g_rgchSemiByteToCharMap ! d) - 65) = word_of_nat d"
  unfolding less_16_cases insert_iff empty_iff
  by (elim disjE FalseE; hypsubst; code_simp)

lemma char_map_hex_char: "d < 16 \<Longrightarrow> g_rgchSemiByteToCharMap ! d = hex_char d"
  unfolding less_16_cases insert_iff empty_iff by (elim disjE FalseE; hypsubst; code_simp)

lemma SemiByteCharsToByte_map:
  assumes "h < 16" "l < 16"
  shows "SemiByteCharsToByte (g_rgchSemiByteToCharMap ! h) (g_rgchSemiByteToCharMap ! l) =
    push_bit 4 (word_of_nat h) OR word_of_nat l"
  using char_map_digit [OF assms(1)] char_map_digit [OF assms(2)]
  by (auto simp: SemiByteCharsToByte_def Let_def split: if_splits)

lemma nibble_masks: "(0xf0 :: u8) = push_bit 4 (mask 4)" "(0x0f :: u8) = mask 4"
  by (simp_all add: mask_eq_exp_minus_1)

lemma nibbles_join: "push_bit 4 (drop_bit 4 (b AND 0xf0)) OR (b AND 0x0f) = (b :: u8)"
  unfolding nibble_masks by (rule bit_eqI) (simp only: bit_simps, auto simp: bit_simps)

lemma unat_less_256: "unat (b :: u8) < 256"
  using unsigned_less [of b, where ?'a = nat] by simp

lemma nibble_bounds: "unat (drop_bit 4 (b AND 0xf0) :: u8) < 16" "unat (b AND 0x0f :: u8) < 16"
proof -
  have "unat (b AND 0x0f :: u8) \<le> unat (0x0f :: u8)"
    by (rule word_and_le1 [THEN word_le_nat_alt [THEN iffD1]])
  then show "unat (b AND 0x0f :: u8) < 16" by simp
  have "unat (b AND 0xf0) < 256" by (rule unat_less_256)
  then have "unat (b AND 0xf0) div 2 ^ 4 < 16" by simp
  then show "unat (drop_bit 4 (b AND 0xf0) :: u8) < 16"
    by (simp only: unat_drop_bit_eq drop_bit_eq_div [of 4 "unat _"])
qed

lemma SemiByteCharsToByte_of_hex:
  "SemiByteCharsToByte (g_rgchSemiByteToCharMap ! unat (drop_bit 4 (b AND 0xf0)))
     (g_rgchSemiByteToCharMap ! unat (b AND 0x0f)) = b"
  by (simp only: SemiByteCharsToByte_map nibble_bounds of_nat_unat ucast_id nibbles_join)

lemma GSMToGSMHex_loop_length:
  "length (GSMToGSMHex_loop bs room) = 2 * min (length bs) (room div 2)"
  by (induction bs room rule: GSMToGSMHex_loop.induct) auto

lemma GSMHex_loop_roundtrip:
  "2 * length bs \<le> room \<Longrightarrow> length bs \<le> room' \<Longrightarrow>
    GSMHexToGSM_loop (GSMToGSMHex_loop bs room) room' = bs"
proof (induction bs arbitrary: room room')
  case Nil
  then show ?case by simp
next
  case (Cons b bs)
  then obtain r r' where "room = Suc (Suc r)" "room' = Suc r'"
    by (cases room; cases room'; cases "room - 1") auto
  with Cons show ?case
    by (simp only: GSMToGSMHex_loop.simps GSMHexToGSM_loop.simps SemiByteCharsToByte_of_hex) simp
qed

lemma GSMHexToGSM_loop_length:
  "length (GSMHexToGSM_loop s room) = min (length s div 2) room"
  by (induction s room rule: GSMHexToGSM_loop.induct) auto

text \<open>\<open>sprintf\<close> and \<open>sscanf\<close> are inverse on a byte.\<close>

lemma hex_char_props: "d < 16 \<Longrightarrow> digit_val (hex_char d) = d \<and> \<not> isspace_c (hex_char d)
    \<and> hex_char d \<notin> {NUL, CHR ''-'', CHR ''+'', CHR ''x'', CHR ''X''}"
  unfolding less_16_cases insert_iff empty_iff
  by (elim disjE FalseE; hypsubst; code_simp)

lemma sscanf_sprintf: "sscanf_02x (cstr (sprintf_02X b)) = ScanVal (ucast b)"
proof -
  let ?h = "hex_char (unat b div 16)" let ?l = "hex_char (unat b mod 16)"
  have "unat b < 256" by (rule unat_less_256)
  then have h: "unat b div 16 < 16" "unat b mod 16 < 16" by auto
  note p = hex_char_props [OF h(1)] hex_char_props [OF h(2)]
  have c: "cstr [?h, ?l] = [?h, ?l]" using p by (auto simp: cstr_def)
  have "?h \<noteq> CHR ''-''" "?h \<noteq> CHR ''+''" "?l \<noteq> CHR ''x''" "?l \<noteq> CHR ''X''" using p by auto
  then show ?thesis using p h
    by (simp add: sprintf_02X_def sscanf_02x_def c Let_def)
qed

lemma convertByteArrayIntoString_loop_spec:
  "p + 2 * length bs < length out \<Longrightarrow> p \<le> length out \<Longrightarrow> bs \<noteq> [] \<Longrightarrow>
    convertByteArrayIntoString_loop bs p out =
      Some (True, take p out @ concat (map sprintf_02X bs) @ [NUL] @ drop (p + 2 * length bs + 1) out)"
proof (induction bs arbitrary: p out)
  case Nil
  then show ?case by simp
next
  case (Cons b bs)
  have l: "length (sprintf_02X b) = 2" by (simp add: sprintf_02X_def)
  show ?case
  proof (cases "bs = []")
    case True
    with Cons.prems l show ?thesis by (simp add: eval_nat_numeral)
  next
    case False
    let ?o = "take p out @ sprintf_02X b @ [NUL] @ drop (p + 3) out"
    have "convertByteArrayIntoString_loop bs (p + 2) ?o =
        Some (True, take (p + 2) ?o @ concat (map sprintf_02X bs) @ [NUL]
                 @ drop (p + 2 + 2 * length bs + 1) ?o)"
      using Cons.prems l False by (intro Cons.IH) auto
    moreover have "take (p + 2) ?o = take p out @ sprintf_02X b" using Cons.prems l by simp
    moreover have "drop (p + 2 + 2 * length bs + 1) ?o = drop (p + 2 * length (b # bs) + 1) out"
      using Cons.prems l False by (cases bs) (auto simp: eval_nat_numeral add_ac)
    ultimately show ?thesis using Cons.prems by simp
  qed
qed

lemma extractByteArrayFromString_loop_hex:
  "i + length bs \<le> length arr \<Longrightarrow>
    extractByteArrayFromString_loop (concat (map sprintf_02X bs)) v i arr =
      Some (True, take i arr @ bs @ drop (i + length bs) arr)"
proof (induction bs arbitrary: i v arr)
  case Nil
  then show ?case by simp
next
  case (Cons b bs)
  obtain h l where s: "sprintf_02X b = [h, l]" by (simp add: sprintf_02X_def)
  have r: "sscanf_02x (cstr [h, l]) = ScanVal (ucast b)" using sscanf_sprintf [of b] s by simp
  have u: "ucast (ucast b :: u32) = b"
    by (rule bit_eqI) (auto simp: bit_simps dest: bit_imp_le_length)
  have "take (Suc i) (arr[i := b]) = take i arr @ [b]"
    using Cons.prems by (simp add: take_Suc_conv_app_nth)
  then show ?case
    using Cons.prems Cons.IH [of "Suc i" "arr[i := b]" "ucast b"]
    by (simp add: s r u)
qed

lemma length_hex_concat: "length (concat (map sprintf_02X bs)) = 2 * length bs"
  by (induction bs) (auto simp: sprintf_02X_def)

text \<open>
  C26. Bytes survive the hexadecimal text form: \<open>convertByteArrayIntoString\<close> writes the two
  digits of each byte and a terminator into a large enough buffer, and
  \<open>extractByteArrayFromString\<close> reads the same bytes back from that text, leaving the rest of
  the array alone.
\<close>

theorem byte_string_roundtrip:
  assumes "bs \<noteq> []" "2 * length bs < length out" "length bs \<le> length arr"
  shows "\<exists>out'. convertByteArrayIntoString bs (length bs) out = Some (True, out')
    \<and> length out' = length out \<and> cstr out' = concat (map sprintf_02X bs)
    \<and> extractByteArrayFromString (cstr out') (2 * length bs) arr
        = Some (True, bs @ drop (length bs) arr)"
proof -
  let ?h = "concat (map sprintf_02X bs)"
  let ?o = "?h @ [NUL] @ drop (2 * length bs + 1) out"
  have "convertByteArrayIntoString bs (length bs) out = Some (True, ?o)"
    using convertByteArrayIntoString_loop_spec [of 0 bs out] assms
    by (simp add: convertByteArrayIntoString_def)
  moreover have "length ?o = length out" using assms by (simp add: length_hex_concat)
  moreover have "NUL \<notin> set ?h"
  proof -
    have "NUL \<noteq> hex_char (unat b div 16) \<and> NUL \<noteq> hex_char (unat b mod 16)" for b :: u8
      using hex_char_props [of "unat b div 16"] hex_char_props [of "unat b mod 16"]
        unat_less_256 [of b] by fastforce
    then show ?thesis by (auto simp only: sprintf_02X_def set_concat set_map set_simps UN_iff image_iff
        insert_iff empty_iff)
  qed
  then have "cstr ?o = ?h" by (simp add: cstr_append_NUL)
  moreover have "extractByteArrayFromString ?h (2 * length bs) arr
      = Some (True, bs @ drop (length bs) arr)"
    using extractByteArrayFromString_loop_hex [of 0 bs arr 0] assms
    by (simp add: extractByteArrayFromString_def length_hex_concat)
  ultimately show ?thesis by metis
qed

theorem byte_string_roundtrip_witness:
  "\<exists>out'. convertByteArrayIntoString [0xD0, 0x0F] 2 (replicate 6 NUL) = Some (True, out') \<and>
     cstr out' = concat (map sprintf_02X [0xD0, 0x0F])"
  using byte_string_roundtrip [of "[0xD0, 0x0F]" "replicate 6 NUL" "[0, 0]"] by (auto simp: numeral_2_eq_2)

section \<open>Counting and writing passes\<close>

text \<open>
  Every converter runs twice: with a NULL buffer to learn the size, then into a buffer of that
  size. The contract of such a converter: there are bytes it produces, the NULL run returns
  their number, and the run into a buffer that has room for them stores exactly them.
\<close>

locale two_pass =
  fixes conv :: "u8 list option \<Rightarrow> (nat \<times> u8 list option) option"
    and start :: nat
    and bytes_of :: "u8 list option"
  assumes count: "conv None = map_option (\<lambda>bs. (length bs, None)) bytes_of"
    and fill: "bytes_of = Some bs \<Longrightarrow> start \<le> length buf \<Longrightarrow>
      conv (Some buf) =
        (if start + length bs \<le> length buf
         then Some (length bs, Some (take start buf @ bs @ drop (start + length bs) buf))
         else None)"
begin

lemma size_suffices:
  assumes "conv None = Some (k, x)" and "start + k \<le> length buf"
  shows "\<exists>bs. bytes_of = Some bs \<and> length bs = k \<and>
    conv (Some buf) = Some (k, Some (take start buf @ bs @ drop (start + k) buf))"
  using assms count fill [of _ buf] by (cases bytes_of) auto

lemma overrun:
  assumes "conv None = Some (k, x)" and "start \<le> length buf" and "length buf < start + k"
  shows "conv (Some buf) = None"
  using assms count fill [of _ buf] by (cases bytes_of) auto

end

fun ucs2_bytes :: "nat \<Rightarrow> u8 list \<Rightarrow> u8 list option" where
  "ucs2_bytes 0 ucs2 = Some []"
| "ucs2_bytes (Suc n) [] = None"
| "ucs2_bytes (Suc n) [hi] = (if hi = 0xFF then Some [] else None)"
| "ucs2_bytes (Suc n) (hi # lo # ucs2) =
     (if hi = 0xFF then Some []
      else map_option ((@) (utf8_bytes (push_bit 8 (uint hi) OR uint lo))) (ucs2_bytes n ucs2))"

lemma store_None [simp]: "store None i bs = Some None"
  by simp

lemma utf8_write_None: "utf8_write None i v = Some (length (utf8_bytes v), None)"
  by (simp add: utf8_write_def)

lemma utf8_write_Some:
  "utf8_write (Some buf) i v =
     (if i + length (utf8_bytes v) \<le> length buf
      then Some (length (utf8_bytes v),
             Some (take i buf @ utf8_bytes v @ drop (i + length (utf8_bytes v)) buf))
      else None)"
  by (simp add: utf8_write_def)

lemma ucs2_loop_count:
  "ucs2_to_utf8_loop n ucs2 r None = map_option (\<lambda>bs. (r + length bs, None)) (ucs2_bytes n ucs2)"
  by (induction n ucs2 arbitrary: r rule: ucs2_bytes.induct)
    (auto simp: utf8_write_None option.map_comp comp_def add.assoc)

lemma store_compose:
  assumes "r + length b1 \<le> length buf"
  shows "(let buf' = take r buf @ b1 @ drop (r + length b1) buf; r' = r + length b1
          in length buf' = length buf \<and>
             take r' buf' @ b2 @ drop (r' + length b2) buf' =
             take r buf @ (b1 @ b2) @ drop (r + length (b1 @ b2)) buf)"
  using assms by (auto simp: Let_def add.commute add.left_commute)

lemma ucs2_loop_fill:
  "ucs2_bytes n ucs2 = Some bs \<Longrightarrow> r \<le> length buf \<Longrightarrow>
    ucs2_to_utf8_loop n ucs2 r (Some buf) =
      (if r + length bs \<le> length buf
       then Some (r + length bs, Some (take r buf @ bs @ drop (r + length bs) buf)) else None)"
proof (induction n ucs2 arbitrary: r buf bs rule: ucs2_bytes.induct)
  case (4 n hi lo ucs2)
  show ?case
  proof (cases "hi = 0xFF")
    case True
    with "4.prems" show ?thesis by simp
  next
    case False
    let ?u = "utf8_bytes (push_bit 8 (uint hi) OR uint lo)"
    from "4.prems" False obtain t where t: "ucs2_bytes n ucs2 = Some t" "bs = ?u @ t" by auto
    show ?thesis
    proof (cases "r + length ?u \<le> length buf")
      case True
      let ?b = "take r buf @ ?u @ drop (r + length ?u) buf"
      have "ucs2_to_utf8_loop n ucs2 (r + length ?u) (Some ?b) =
        (if r + length ?u + length t \<le> length ?b
         then Some (r + length ?u + length t,
           Some (take (r + length ?u) ?b @ t @ drop (r + length ?u + length t) ?b)) else None)"
        using True False t by (intro "4.IH") auto
      with store_compose [OF True, of t] True False t show ?thesis
        by (simp add: utf8_write_Some Let_def add.assoc)
    qed (use False t in \<open>simp add: utf8_write_Some\<close>)
  qed
qed (auto split: if_splits)

interpretation ucs2: two_pass "ucs2_to_utf8 ucs2 n" 0 "ucs2_bytes n ucs2" for ucs2 n
  by unfold_locales (simp_all add: ucs2_to_utf8_def ucs2_loop_count ucs2_loop_fill)

text \<open>The bytes of one character of the GSM alphabet, and of a run of them.\<close>

fun gsm8_bytes :: "nat \<Rightarrow> u8 list \<Rightarrow> bool \<Rightarrow> u8 list option" where
  "gsm8_bytes 0 src escaped = Some []"
| "gsm8_bytes (Suc n) [] escaped = None"
| "gsm8_bytes (Suc n) (b # src) escaped =
     (let emit = (\<lambda>c escaped. map_option ((@) (utf8_bytes c)) (gsm8_bytes n src escaped)) in
      if uint b = 0xFF then Some []
      else if uint b = GSM_7BITS_ESCAPE then
        (if escaped then emit 0x20 False else gsm8_bytes n src True)
      else if uint b \<ge> 0x80 then emit 0x20 False
      else if escaped then emit (gsm7bits_extend_to_unicode ! nat (uint b)) escaped
      else emit (gsm7bits_to_unicode ! nat (uint b)) escaped)"

lemma gsm8_loop_count:
  "utf8_from_gsm8_loop n src escaped r at None =
     map_option (\<lambda>bs. (r + length bs, None)) (gsm8_bytes n src escaped)"
  by (induction n src escaped arbitrary: r rule: gsm8_bytes.induct)
    (auto simp: utf8_write_None option.map_comp comp_def add.assoc Let_def)

lemma gsm8_emit_fill:
  assumes IH: "\<And>r buf bs. gsm8_bytes n src e = Some bs \<Longrightarrow> at + r \<le> length buf \<Longrightarrow>
      utf8_from_gsm8_loop n src e r at (Some buf) =
        (if at + r + length bs \<le> length buf
         then Some (r + length bs,
           Some (take (at + r) buf @ bs @ drop (at + r + length bs) buf)) else None)"
    and t: "gsm8_bytes n src e = Some t"
    and r: "at + r \<le> length buf"
  shows "(case utf8_write (Some buf) (at + r) c of
            None \<Rightarrow> None
          | Some (k, buf) \<Rightarrow> utf8_from_gsm8_loop n src e (r + k) at buf) =
        (if at + r + (length (utf8_bytes c) + length t) \<le> length buf
         then Some (r + (length (utf8_bytes c) + length t),
           Some (take (at + r) buf @ utf8_bytes c @ t
             @ drop (at + r + (length (utf8_bytes c) + length t)) buf)) else None)"
proof -
  let ?u = "utf8_bytes c"
  show ?thesis
  proof (cases "at + r + length ?u \<le> length buf")
    case True
    let ?b = "take (at + r) buf @ ?u @ drop (at + r + length ?u) buf"
    have "utf8_from_gsm8_loop n src e (r + length ?u) at (Some ?b) =
        (if at + (r + length ?u) + length t \<le> length ?b
         then Some (r + length ?u + length t,
           Some (take (at + (r + length ?u)) ?b @ t
                   @ drop (at + (r + length ?u) + length t) ?b)) else None)"
      using True t by (intro IH) auto
    with store_compose [OF True, of t] True t show ?thesis
      by (simp add: utf8_write_Some Let_def add.assoc)
  qed (use t in \<open>simp add: utf8_write_Some\<close>)
qed

lemma gsm8_loop_fill:
  "gsm8_bytes n src escaped = Some bs \<Longrightarrow> at + r \<le> length buf \<Longrightarrow>
    utf8_from_gsm8_loop n src escaped r at (Some buf) =
      (if at + r + length bs \<le> length buf
       then Some (r + length bs, Some (take (at + r) buf @ bs @ drop (at + r + length bs) buf))
       else None)"
proof (induction n arbitrary: src escaped r buf bs)
  case (Suc n)
  then obtain b rest where src: "src = b # rest" by (cases src) auto
  have emit: "(case utf8_write (Some buf) (at + r) c of
            None \<Rightarrow> None
          | Some (k, buf) \<Rightarrow> utf8_from_gsm8_loop n rest e (r + k) at buf) =
        (if at + r + (length (utf8_bytes c) + length t) \<le> length buf
         then Some (r + (length (utf8_bytes c) + length t),
           Some (take (at + r) buf @ utf8_bytes c @ t
             @ drop (at + r + (length (utf8_bytes c) + length t)) buf)) else None)"
    if "gsm8_bytes n rest e = Some t" for c e t
    by (rule gsm8_emit_fill [OF _ that Suc.prems(2)]) (rule Suc.IH)
  show ?case
    using Suc.prems by (auto simp: src Let_def Suc.IH emit split: if_splits)
qed simp

interpretation gsm8: two_pass "utf8_from_gsm8 src n at" at "gsm8_bytes n src False" for src n at
  using gsm8_loop_fill [where r = 0 and escaped = False]
  by unfold_locales (simp_all add: utf8_from_gsm8_def gsm8_loop_count)

text \<open>The bytes of the coding schemes 0x81 and 0x82.\<close>

function alpha_bytes :: "u8 list \<Rightarrow> int \<Rightarrow> nat \<Rightarrow> nat \<Rightarrow> u8 list option" where
  "alpha_bytes alpha base len offset =
     (if len = 0 then Some []
      else (case drop offset alpha of
              [] \<Rightarrow> None
            | c # _ \<Rightarrow>
                if c \<ge> 0x80 then
                  map_option ((@) (utf8_bytes (base + (uint c AND 0x7F))))
                    (alpha_bytes alpha base (len - 1) (offset + 1))
                else
                  (case gsm_run len (drop offset alpha) of
                     None \<Rightarrow> None
                   | Some count \<Rightarrow>
                       (case gsm8_bytes count alpha False of
                          None \<Rightarrow> None
                        | Some bs \<Rightarrow>
                            map_option ((@) bs) (alpha_bytes alpha base (len - count) (offset + count))))))"
  by pat_completeness auto
termination
  by (relation "measure (\<lambda>(_, _, len, _). len)") (auto dest: gsm_run_pos)

declare alpha_bytes.simps [simp del]

lemma alpha_0 [simp]: "alpha_bytes alpha base 0 offset = Some []"
  "convertGsm_write alpha base 0 offset r out = Some (r, out)"
  "GetUtf8Count alpha base 0 offset r = Some r"
  by (simp_all add: alpha_bytes.simps convertGsm_write.simps GetUtf8Count.simps)

lemma GetUtf8Count_bytes:
  "GetUtf8Count alpha base len offset r =
     map_option (\<lambda>bs. r + length bs) (alpha_bytes alpha base len offset)"
proof (induction len arbitrary: offset r rule: less_induct)
  case (less len)
  then show ?case
    by (auto simp: GetUtf8Count.simps [of _ _ len] alpha_bytes.simps [of _ _ len] utf8_write_None
        gsm8.count option.map_comp comp_def add.assoc gsm_run_pos split: list.split option.split)
qed

lemma convertGsm_write_count:
  "convertGsm_write alpha base len offset r None =
     map_option (\<lambda>bs. (r + length bs, None)) (alpha_bytes alpha base len offset)"
proof (induction len arbitrary: offset r rule: less_induct)
  case (less len)
  then show ?case
    by (auto simp: convertGsm_write.simps [of _ _ len] alpha_bytes.simps [of _ _ len]
        utf8_write_None gsm8.count option.map_comp comp_def add.assoc gsm_run_pos
        split: list.split option.split)
qed

lemma convertGsm_write_fill:
  "alpha_bytes alpha base len offset = Some bs \<Longrightarrow> r \<le> length buf \<Longrightarrow>
    convertGsm_write alpha base len offset r (Some buf) =
      (if r + length bs \<le> length buf
       then Some (r + length bs, Some (take r buf @ bs @ drop (r + length bs) buf)) else None)"
proof (induction len arbitrary: offset r buf bs rule: less_induct)
  case (less len)
  show ?case
  proof (cases "len = 0")
    case True
    with less.prems show ?thesis by simp
  next
    case False
    with less.prems(1) obtain c rest where d: "drop offset alpha = c # rest"
      by (auto simp: alpha_bytes.simps [of _ _ len] split: list.splits)
    obtain n b1 t where n: "n < len"
      and t: "alpha_bytes alpha base n (offset + (len - n)) = Some t" "bs = b1 @ t"
      and step: "\<And>out. convertGsm_write alpha base len offset r (Some out) =
          (if r \<le> length out then
             if r + length b1 \<le> length out
             then convertGsm_write alpha base n (offset + (len - n)) (r + length b1)
                    (Some (take r out @ b1 @ drop (r + length b1) out))
             else None
           else convertGsm_write alpha base len offset r (Some out))"
    proof (cases "c \<ge> 0x80")
      case True
      with False d less.prems(1) obtain t where "alpha_bytes alpha base (len - 1) (offset + 1) = Some t"
        "bs = utf8_bytes (base + (uint c AND 0x7F)) @ t"
        by (auto simp: alpha_bytes.simps [of _ _ len])
      with True False d show ?thesis
        by (intro that [of "len - 1" t "utf8_bytes (base + (uint c AND 0x7F))"])
          (auto simp: alpha_bytes.simps [of _ _ len] convertGsm_write.simps [of _ _ len] utf8_write_Some)
    next
      case c: False
      with False d less.prems(1) obtain k b t where k: "gsm_run len (c # rest) = Some k"
        "gsm8_bytes k alpha False = Some b" "alpha_bytes alpha base (len - k) (offset + k) = Some t"
        "bs = b @ t"
        by (auto simp: alpha_bytes.simps [of _ _ len] split: option.splits)
      moreover have "0 < k" using gsm_run_pos [OF k(1) c] False by simp
      moreover have "k \<le> len" using gsm_run_le [OF k(1)] .
      ultimately show ?thesis using False c d
        by (intro that [of "len - k"])
          (auto simp: convertGsm_write.simps [of _ _ len] gsm8.fill)
    qed
    show ?thesis
    proof (cases "r + length b1 \<le> length buf")
      case True
      let ?b = "take r buf @ b1 @ drop (r + length b1) buf"
      have "convertGsm_write alpha base n (offset + (len - n)) (r + length b1) (Some ?b) =
        (if r + length b1 + length t \<le> length ?b
         then Some (r + length b1 + length t,
           Some (take (r + length b1) ?b @ t @ drop (r + length b1 + length t) ?b)) else None)"
        using True t n by (intro less.IH) auto
      with store_compose [OF True, of t] True t less.prems(2) show ?thesis
        by (simp add: step Let_def add.assoc)
    qed (use t less.prems(2) in \<open>simp add: step\<close>)
  qed
qed

interpretation alpha: two_pass "convertGsm_write alpha base len offset 0" 0
    "alpha_bytes alpha base len offset" for alpha base len offset
  by unfold_locales (simp_all add: convertGsm_write_count convertGsm_write_fill)

section \<open>Reads stay in the source\<close>

lemma ucs2_bytes_total: "2 * n \<le> length ucs2 \<Longrightarrow> \<exists>bs. ucs2_bytes n ucs2 = Some bs"
  by (induction n ucs2 rule: ucs2_bytes.induct) auto

lemma gsm8_bytes_total: "n \<le> length src \<Longrightarrow> \<exists>bs. gsm8_bytes n src e = Some bs"
proof (induction n arbitrary: src e)
  case (Suc n)
  then obtain b rest where "src = b # rest" by (cases src) auto
  with Suc show ?case by (auto simp: Let_def)
qed simp

lemma gsm_run_total: "len \<le> length src \<Longrightarrow> \<exists>k. gsm_run len src = Some k"
  by (induction len src rule: gsm_run.induct) auto

lemma alpha_bytes_total:
  "offset + len \<le> length alpha \<Longrightarrow> \<exists>bs. alpha_bytes alpha base len offset = Some bs"
proof (induction len arbitrary: offset rule: less_induct)
  case (less len)
  show ?case
  proof (cases "len = 0")
    case True
    then show ?thesis by (simp add: alpha_bytes.simps)
  next
    case False
    then obtain c rest where d: "drop offset alpha = c # rest"
      using less.prems by (cases "drop offset alpha") auto
    show ?thesis
    proof (cases "c \<ge> 0x80")
      case True
      have "\<exists>bs. alpha_bytes alpha base (len - 1) (offset + 1) = Some bs"
        using less.prems False by (intro less.IH) auto
      with True False d show ?thesis by (auto simp: alpha_bytes.simps [of _ _ len])
    next
      case c: False
      have "len \<le> length (drop offset alpha)" using less.prems by simp
      then obtain k where k: "gsm_run len (c # rest) = Some k"
        using gsm_run_total d by metis
      have "0 < k" "k \<le> len" using gsm_run_pos [OF k c] gsm_run_le [OF k] False by auto
      moreover obtain b where "gsm8_bytes k alpha False = Some b"
        using gsm8_bytes_total [of k alpha False] \<open>k \<le> len\<close> less.prems by auto
      moreover have "\<exists>bs. alpha_bytes alpha base (len - k) (offset + k) = Some bs"
        using less.prems \<open>0 < k\<close> \<open>k \<le> len\<close> False by (intro less.IH) auto
      ultimately show ?thesis using c d k False by (auto simp: alpha_bytes.simps [of _ _ len])
    qed
  qed
qed


text \<open>Every exit terminates the output inside its \<open>maxLen + 1\<close> cells.\<close>

definition terminated :: "bool \<times> u8 list option \<Rightarrow> int \<Rightarrow> bool" where
  "terminated r maxLen =
     (case snd r of None \<Rightarrow> False
      | Some out \<Rightarrow> length out = Suc (nat maxLen) \<and> (\<exists>i \<le> nat maxLen. out ! i = 0))"

lemma convertGsm_exit_terminated:
  assumes "0 \<le> maxLen" "length buf = Suc (nat maxLen)"
  shows "\<exists>r. convertGsm_exit b k maxLen (Some buf) = Some r \<and> terminated r maxLen"
proof -
  let ?i = "nat (min (int k) maxLen)"
  have i: "0 \<le> min (int k) maxLen" "?i < length buf" using assms by auto
  then have "convertGsm_exit b k maxLen (Some buf) = Some (b, Some (buf[?i := 0]))"
    by (simp add: convertGsm_exit_def Let_def)
  moreover have "terminated (b, Some (buf[?i := 0])) maxLen"
    using i assms by (auto simp: terminated_def intro!: exI [of _ ?i])
  ultimately show ?thesis by blast
qed

text \<open>A counting pass followed by the writing pass it sized.\<close>

lemma two_pass_exit:
  assumes "conv None = Some (k, None)"
    and "\<And>buf. k \<le> length buf \<Longrightarrow>
      \<exists>bs. length bs = k \<and> conv (Some buf) = Some (k, Some (bs @ drop k buf))"
    and "0 \<le> maxLen" "length buf = Suc (nat maxLen)" "int k \<le> maxLen"
  shows "\<exists>r. (case conv (Some buf) of None \<Rightarrow> None
           | Some (k, out) \<Rightarrow> convertGsm_exit True k maxLen out) = Some r \<and> terminated r maxLen"
proof -
  have "k \<le> length buf" using assms(4,5) by simp
  then obtain bs where "length bs = k" "conv (Some buf) = Some (k, Some (bs @ drop k buf))"
    using assms(2) by blast
  moreover have "length (bs @ drop k buf) = Suc (nat maxLen)"
    using \<open>k \<le> length buf\<close> \<open>length bs = k\<close> assms(4) by simp
  ultimately show ?thesis
    using convertGsm_exit_terminated [OF assms(3), of "bs @ drop k buf" True k] by simp
qed

lemma gsm_alpha_exit:
  assumes "0 \<le> maxLen" "length buf = Suc (nat maxLen)" "offset + len \<le> length alpha"
  shows "\<exists>r. (case GetUtf8Count alpha base len offset 0 of None \<Rightarrow> None
      | Some k \<Rightarrow>
          if int k < maxLen then
            (case convertGsm_write alpha base len offset 0 (Some buf) of None \<Rightarrow> None
             | Some (k, out) \<Rightarrow> convertGsm_exit True k maxLen out)
          else convertGsm_exit True k maxLen (Some buf)) = Some r \<and> terminated r maxLen"
proof -
  obtain bs where bs: "alpha_bytes alpha base len offset = Some bs"
    using alpha_bytes_total [OF assms(3)] by blast
  have c: "convertGsm_write alpha base len offset 0 None = Some (length bs, None)"
    by (simp add: alpha.count bs)
  show ?thesis
    using two_pass_exit [where conv = "convertGsm_write alpha base len offset 0", OF c _ assms(1,2)] alpha.size_suffices [OF c]
      convertGsm_exit_terminated [OF assms(1,2)] bs
    by (auto simp: GetUtf8Count_bytes)
qed

text \<open>
  C9. \<open>convertGsmToUtf8HexString\<close> is memory safe for every alpha identifier read from a SIM: when
  the field has at least one byte and lies inside the record, and the output has \<open>maxLen + 1\<close>
  cells, then whatever the bytes are (plain GSM, UCS-2, or the two page formats, with any
  length byte) the conversion returns, reads and writes only cells that exist, and leaves a
  terminator within the first \<open>maxLen + 1\<close> cells.
\<close>

theorem convertGsm_safe:
  assumes n: "0 < n" "int offset + n \<le> int (length alpha)"
    and max: "0 \<le> maxLen" and buf: "length buf = Suc (nat maxLen)"
  shows "\<exists>r. convertGsmToUtf8HexString (Some alpha) offset n (Some buf) maxLen = Some r
    \<and> terminated r maxLen"
proof -
  obtain tag rest where d: "drop offset alpha = tag # rest"
    using n by (cases "drop offset alpha") auto
  have rest: "length rest + 1 + offset = length alpha"
    using arg_cong [OF d, of length] n by simp
  note exit = convertGsm_exit_terminated [OF max buf]
  consider (ucs2) "tag = 0x80" | (t81) "tag = 0x81" "3 \<le> n" | (t82) "tag = 0x82" "4 \<le> n"
    | (gsm) "tag \<noteq> 0x80" "\<not> (3 \<le> n \<and> tag = 0x81 \<or> 4 \<le> n \<and> tag = 0x82)"
    by blast
  then show ?thesis
  proof cases
    case ucs2
    let ?u = "nat ((n - 1) div 2)"
    have "2 * ((n - 1) div 2) \<le> n - 1" by simp
    then have "2 * ?u \<le> length (drop 1 alpha)" using n by simp
    then obtain bs where bs: "ucs2_bytes ?u (drop 1 alpha) = Some bs"
      using ucs2_bytes_total by blast
    have c: "ucs2_to_utf8 (drop 1 alpha) ?u None = Some (length bs, None)"
      using bs by (simp add: ucs2.count)
    have fill: "\<exists>bs'. length bs' = length bs \<and> ucs2_to_utf8 (drop 1 alpha) ?u (Some out) =
        Some (length bs, Some (bs' @ drop (length bs) out))" if "length bs \<le> length out" for out
      using ucs2.size_suffices [OF c, of out] that by auto
    show ?thesis
      using two_pass_exit [where conv = "ucs2_to_utf8 (drop 1 alpha) ?u", OF c fill max buf]
        exit c ucs2 n max d
      by (auto simp: convertGsmToUtf8HexString_def)
  next
    case t81
    have "offset + 3 + nat (min (uint (rest ! 0)) (n - 3)) \<le> length alpha"
      using t81 n by linarith
    from gsm_alpha_exit [OF max buf this, of "push_bit 7 (uint (rest ! Suc 0))"] show ?thesis
      using t81 n max d rest by (simp add: convertGsmToUtf8HexString_def Let_def)
  next
    case t82
    have "offset + 4 + nat (min (uint (rest ! 0)) (n - 4)) \<le> length alpha"
      using t82 n by linarith
    from gsm_alpha_exit [OF max buf this, of "push_bit 8 (uint (rest ! Suc 0)) OR uint (rest ! 2)"] show ?thesis
      using t82 n max d rest by (simp add: convertGsmToUtf8HexString_def Let_def)
  next
    case gsm
    have "nat n \<le> length (drop offset alpha)" using n by simp
    then obtain bs where bs: "gsm8_bytes (nat n) (drop offset alpha) False = Some bs"
      using gsm8_bytes_total by blast
    have c: "utf8_from_gsm8 (drop offset alpha) (nat n) 0 None = Some (length bs, None)"
      by (simp add: gsm8.count bs)
    have fill: "\<exists>bs'. length bs' = length bs \<and>
        utf8_from_gsm8 (drop offset alpha) (nat n) 0 (Some out) =
          Some (length bs, Some (bs' @ drop (length bs) out))" if "length bs \<le> length out" for out
      using gsm8.size_suffices [OF c, of out] that by auto
    have "convertGsmToUtf8HexString (Some alpha) offset n (Some buf) maxLen =
        (if int (length bs) < maxLen then
           (case utf8_from_gsm8 (drop offset alpha) (nat n) 0 (Some buf) of
              None \<Rightarrow> None
            | Some (k, out) \<Rightarrow> convertGsm_exit True k maxLen out)
         else convertGsm_exit False (length bs) maxLen (Some buf))"
      using gsm n max d c by (auto simp: convertGsmToUtf8HexString_def)
    then show ?thesis
      using two_pass_exit [where conv = "utf8_from_gsm8 (drop offset alpha) (nat n) 0",
          OF c fill max buf] exit [of False "length bs"]
      by (cases "int (length bs) < maxLen") auto
  qed
qed

theorem convertGsm_safe_witness:
  "\<exists>r. convertGsmToUtf8HexString (Some [0x41, 0x42]) 0 2 (Some [1, 1, 1, 1]) 3 = Some r \<and> terminated r 3"
  by (rule convertGsm_safe) simp_all

section \<open>Decoding UTF-8\<close>

text \<open>The code point a well formed sequence denotes (RFC 3629), as a reader of the string sees it.\<close>

definition utf8_cont :: "u8 \<Rightarrow> int" where
  "utf8_cont b = uint (b AND 0x3f)"

fun utf8_decode :: "u8 list \<Rightarrow> int option" where
  "utf8_decode [a] = (if uint a < 0x80 then Some (uint a) else None)"
| "utf8_decode [a, b] =
     (if a AND 0xe0 = 0xc0 \<and> b AND 0xc0 = 0x80
      then Some (push_bit 6 (uint (a AND 0x1f)) OR utf8_cont b) else None)"
| "utf8_decode [a, b, c] =
     (if a AND 0xf0 = 0xe0 \<and> b AND 0xc0 = 0x80 \<and> c AND 0xc0 = 0x80
      then Some (push_bit 12 (uint (a AND 0x0f)) OR push_bit 6 (utf8_cont b) OR utf8_cont c)
      else None)"
| "utf8_decode [a, b, c, d] =
     (if a AND 0xf8 = 0xf0 \<and> b AND 0xc0 = 0x80 \<and> c AND 0xc0 = 0x80 \<and> d AND 0xc0 = 0x80
      then Some (push_bit 18 (uint (a AND 0x07)) OR push_bit 12 (utf8_cont b)
                   OR push_bit 6 (utf8_cont c) OR utf8_cont d)
      else None)"
| "utf8_decode _ = None"

lemma u8_eq_iff:
  "(a :: u8) = b \<longleftrightarrow> (\<forall>n \<in> {0,1,2,3,4,5,6,7}. bit a n = bit b n)"
proof -
  have "n \<in> {0,1,2,3,4,5,6,7}" if "n < 8" for n :: nat
    using that by (simp, presburger)
  then have "a = b" if "\<forall>n \<in> {0,1,2,3,4,5,6,7}. bit a n = bit b n"
    using that by (intro bit_word_eqI) auto
  then show ?thesis by blast
qed

lemma mask_consts:
  "(0x3f :: int) = mask 6" "(0x7 :: int) = mask 3" "(0x3f :: u8) = mask 6" "(0x1f :: u8) = mask 5"
  "(0x0f :: u8) = mask 4" "(0x07 :: u8) = mask 3"
  by (simp_all add: mask_eq_exp_minus_1)

lemma take_bit_word_small:
  "k \<le> 8 \<Longrightarrow> uint (word_of_int (take_bit k x) :: u8) = take_bit k x"
  by (simp add: min_def unsigned_of_int)

lemma cont_byte:
  "(word_of_int (0x80 OR (x AND 0x3f)) :: u8) AND 0xc0 = 0x80"
  "utf8_cont (word_of_int (0x80 OR (x AND 0x3f))) = x AND 0x3f"
proof -
  show "(word_of_int (0x80 OR (x AND 0x3f)) :: u8) AND 0xc0 = 0x80"
    unfolding u8_eq_iff by (simp add: bit_simps)
  have e: "(word_of_int (0x80 OR (x AND 0x3f)) :: u8) AND 0x3f = word_of_int (x AND 0x3f)"
    unfolding u8_eq_iff by (simp add: bit_simps)
  have m: "x AND 0x3f = take_bit 6 x" by (simp add: mask_consts take_bit_eq_mask)
  show "utf8_cont (word_of_int (0x80 OR (x AND 0x3f))) = x AND 0x3f"
    unfolding utf8_cont_def e unfolding m by (rule take_bit_word_small) simp
qed

lemma lead_byte:
  "(word_of_int (0xc0 OR take_bit 5 x) :: u8) AND 0xe0 = 0xc0"
  "uint ((word_of_int (0xc0 OR take_bit 5 x) :: u8) AND 0x1f) = take_bit 5 x"
  "(word_of_int (0xe0 OR take_bit 4 x) :: u8) AND 0xf0 = 0xe0"
  "uint ((word_of_int (0xe0 OR take_bit 4 x) :: u8) AND 0x0f) = take_bit 4 x"
  "(word_of_int (0xf0 OR take_bit 3 x) :: u8) AND 0xf8 = 0xf0"
  "uint ((word_of_int (0xf0 OR take_bit 3 x) :: u8) AND 0x07) = take_bit 3 x"
proof -
  have e: "(word_of_int (0xc0 OR take_bit 5 x) :: u8) AND 0x1f = word_of_int (take_bit 5 x)"
    "(word_of_int (0xe0 OR take_bit 4 x) :: u8) AND 0x0f = word_of_int (take_bit 4 x)"
    "(word_of_int (0xf0 OR take_bit 3 x) :: u8) AND 0x07 = word_of_int (take_bit 3 x)"
    unfolding u8_eq_iff by (simp_all add: bit_simps)
  show "uint ((word_of_int (0xc0 OR take_bit 5 x) :: u8) AND 0x1f) = take_bit 5 x"
    "uint ((word_of_int (0xe0 OR take_bit 4 x) :: u8) AND 0x0f) = take_bit 4 x"
    "uint ((word_of_int (0xf0 OR take_bit 3 x) :: u8) AND 0x07) = take_bit 3 x"
    by (simp_all add: e take_bit_word_small)
qed (unfold u8_eq_iff, simp_all add: bit_simps)

lemma take_bit_drop_id:
  "0 \<le> v \<Longrightarrow> v < 2 ^ (k + n) \<Longrightarrow> take_bit n (drop_bit k v) = drop_bit k (v :: int)"
  by (simp only: take_bit_drop_bit take_bit_int_eq_self add.commute)

text \<open>
  \<open>utf8_write\<close> encodes correctly: for every code point below 0x110000 the bytes it stores are
  the UTF-8 form of exactly that code point.
\<close>

theorem utf8_decode_bytes:
  assumes "0 \<le> v" "v < 0x110000"
  shows "utf8_decode (utf8_bytes v) = Some v"
proof -
  consider "v < 0x80" | "0x80 \<le> v" "v < 0x800" | "0x800 \<le> v" "v < 0x10000" | "0x10000 \<le> v"
    by linarith
  then show ?thesis
  proof cases
    case 1
    with assms show ?thesis by (simp add: utf8_bytes_def uint_word_of_int)
  next
    case 2
    have "push_bit 6 (drop_bit 6 v) OR (v AND 0x3f) = v"
      by (rule bit_eqI) (auto simp: bit_simps mask_consts)
    moreover have "drop_bit 6 v = take_bit 5 (drop_bit 6 v)"
      using take_bit_drop_id [of v 6 5] 2 by simp
    ultimately show ?thesis using 2 lead_byte(1,2) [of "drop_bit 6 v"]
      by (simp add: utf8_bytes_def cont_byte)
  next
    case 3
    have "push_bit 12 (drop_bit 12 v) OR push_bit 6 (drop_bit 6 v AND 0x3f) OR (v AND 0x3f) = v"
      (is "?l = v")
    proof (rule bit_eqI)
      show "bit ?l n = bit v n" for n
        by (cases "12 \<le> n") (auto simp: bit_simps mask_consts)
    qed
    moreover have "drop_bit 12 v = take_bit 4 (drop_bit 12 v)"
      using take_bit_drop_id [of v 12 4] 3 by simp
    ultimately show ?thesis using 3 lead_byte(3,4) [of "drop_bit 12 v"]
      by (simp add: utf8_bytes_def cont_byte)
  next
    case 4
    have "push_bit 18 (drop_bit 18 v) OR push_bit 12 (drop_bit 12 v AND 0x3f)
        OR push_bit 6 (drop_bit 6 v AND 0x3f) OR (v AND 0x3f) = v" (is "?l = v")
    proof (rule bit_eqI)
      show "bit ?l n = bit v n" for n
        by (cases "18 \<le> n"; cases "12 \<le> n") (auto simp: bit_simps mask_consts)
    qed
    moreover have "drop_bit 18 v AND 0x7 = take_bit 3 (drop_bit 18 v)"
      by (simp add: mask_consts take_bit_eq_mask)
    moreover have "take_bit 3 (drop_bit 18 v) = drop_bit 18 v"
      using take_bit_drop_id [of v 18 3] 4 assms by simp
    ultimately show ?thesis using 4 lead_byte(5,6) [of "drop_bit 18 v"]
      by (simp add: utf8_bytes_def cont_byte)
  qed
qed

theorem utf8_decode_bytes_witness: "utf8_decode (utf8_bytes 0x20AC) = Some 0x20AC"
  by (rule utf8_decode_bytes) simp_all

section \<open>Properties\<close>

text \<open>
  The semi-byte hex format of the SIM interface: \<open>GSMHexToGSM\<close> reads back exactly the bytes
  \<open>GSMToGSMHex\<close> printed, when both output buffers have room for them.
\<close>

theorem GSMHex_roundtrip:
  assumes "2 * length bs \<le> room" "length bs \<le> room'"
  shows "GSMHexToGSM (fst (snd (GSMToGSMHex bs room))) room' = (True, bs, length bs) \<and>
    snd (snd (GSMToGSMHex bs room)) = 2 * length bs"
  using assms GSMHex_loop_roundtrip [OF assms] GSMToGSMHex_loop_length [of bs room]
  by (simp add: GSMHexToGSM_def GSMToGSMHex_def Let_def)

theorem GSMHex_roundtrip_witness:
  "GSMHexToGSM (fst (snd (GSMToGSMHex [0x1F, 0xA0] 4))) 2 = (True, [0x1F, 0xA0], 2)"
  using GSMHex_roundtrip [of "[0x1F, 0xA0]" 4 2] by simp

text \<open>
  C22. The size the counting pass reports is the size the writing pass uses: when \<open>GetUtf8Count\<close>
  says \<open>k\<close> bytes for the alpha identifier and the buffer has \<open>k\<close> cells, the writing loop of
  \<open>convertGsmToUtf8HexString\<close> fills exactly the first \<open>k\<close> cells and leaves the others alone.
  The same holds for the two passes over a GSM 8-bit string and over a UCS-2 string.
\<close>

theorem counted_size_suffices:
  "(GetUtf8Count alpha base len offset 0 = Some k \<and> k \<le> length buf \<longrightarrow>
      (\<exists>bs. length bs = k \<and>
        convertGsm_write alpha base len offset 0 (Some buf) = Some (k, Some (bs @ drop k buf)))) \<and>
   (utf8_from_gsm8 src n at None = Some (k, x) \<and> at + k \<le> length buf \<longrightarrow>
      (\<exists>bs. length bs = k \<and> utf8_from_gsm8 src n at (Some buf) =
        Some (k, Some (take at buf @ bs @ drop (at + k) buf)))) \<and>
   (ucs2_to_utf8 src n None = Some (k, x) \<and> k \<le> length buf \<longrightarrow>
      (\<exists>bs. length bs = k \<and> ucs2_to_utf8 src n (Some buf) = Some (k, Some (bs @ drop k buf))))"
proof (intro conjI impI; elim conjE)
  assume "GetUtf8Count alpha base len offset 0 = Some k" and k: "k \<le> length buf"
  then have "convertGsm_write alpha base len offset 0 None = Some (k, None)"
    by (auto simp: GetUtf8Count_bytes convertGsm_write_count)
  from alpha.size_suffices [OF this, of buf] k
  show "\<exists>bs. length bs = k \<and>
      convertGsm_write alpha base len offset 0 (Some buf) = Some (k, Some (bs @ drop k buf))"
    by auto
next
  assume "utf8_from_gsm8 src n at None = Some (k, x)" "at + k \<le> length buf"
  from gsm8.size_suffices [OF this]
  show "\<exists>bs. length bs = k \<and> utf8_from_gsm8 src n at (Some buf) =
      Some (k, Some (take at buf @ bs @ drop (at + k) buf))" by auto
next
  assume "ucs2_to_utf8 src n None = Some (k, x)" and k: "k \<le> length buf"
  from ucs2.size_suffices [OF this(1), of buf] k
  show "\<exists>bs. length bs = k \<and> ucs2_to_utf8 src n (Some buf) = Some (k, Some (bs @ drop k buf))"
    by auto
qed

theorem counted_size_suffices_witness:
  "\<exists>bs. length bs = 2 \<and> utf8_from_gsm8 [0x41, 0x42] 2 1 (Some [9, 9, 9, 9]) =
     Some (2, Some ([9] @ bs @ [9]))"
proof -
  have "utf8_from_gsm8 [0x41, 0x42] 2 1 None = Some (2, None)" by code_simp
  then show ?thesis
    using counted_size_suffices [of "[]" 0 0 0 2 "[9, 9, 9, 9]" "[0x41, 0x42]" 2 1 None] by simp
qed

end
