(* ===== verification/StringUtil.thy ===== *)
theory StringUtil
  imports RilPrelude
begin

text \<open>
  Model of the string helpers of \<open>UTIL/ND/util.cpp\<close> and of \<open>CSelfExpandBuffer\<close>, the growing
  buffer a modem response is collected in. A buffer is the list of its allocated cells;
  \<open>None\<close> as a result is an access outside them (or a failed \<open>assert\<close>).
\<close>

section \<open>Bounded copies\<close>

definition CopyStringNullTerminate ::
    "char list option \<Rightarrow> string option \<Rightarrow> nat \<Rightarrow> (bool \<times> char list option) option" where
  "CopyStringNullTerminate pszOut pszIn cbOut =
     (case (pszOut, pszIn) of
        (Some out, Some src) \<Rightarrow>
          if cbOut = 0 \<or> length out < cbOut then None
          else Some (\<not> cbOut \<le> length src, Some ((strncpy out src cbOut)[cbOut - 1 := NUL]))
      | _ \<Rightarrow> Some (True, pszOut))"

text \<open>
  \<open>vsnprintf\<close> with the text \<open>t\<close> the format produces: at most \<open>cb - 1\<close> characters and a
  terminator. \<open>None\<close> for the text stands for a negative return value.
\<close>

definition vsnprintf :: "char list \<Rightarrow> nat \<Rightarrow> string \<Rightarrow> char list" where
  "vsnprintf out cb t =
     (if cb = 0 then out
      else take (cb - 1) t @ [NUL] @ drop (min (length t) (cb - 1) + 1) out)"

definition PrintStringNullTerminate ::
    "char list \<Rightarrow> nat \<Rightarrow> string option \<Rightarrow> (bool \<times> char list) option" where
  "PrintStringNullTerminate pszOut cbOut formatted =
     (if length pszOut < cbOut then None
      else case formatted of
        None \<Rightarrow> if pszOut = [] then None else Some (False, pszOut[0 := NUL])
      | Some t \<Rightarrow>
          (let pszOut = vsnprintf pszOut cbOut t
           in if length t \<ge> cbOut then
                (if cbOut = 0 then None else Some (False, pszOut[cbOut - 1 := NUL]))
              else Some (True, pszOut)))"

text \<open>A buffer without terminator makes \<open>strlen\<close> leave it.\<close>

definition ConcatenateStringNullTerminate ::
    "char list \<Rightarrow> nat \<Rightarrow> string \<Rightarrow> (bool \<times> char list) option" where
  "ConcatenateStringNullTerminate pszOut cbOut pszIn =
     (let outLen = length (cstr pszOut)
      in if NUL \<notin> set pszOut \<or> length pszOut < cbOut \<or> \<not> outLen < cbOut then None
         else if length pszIn < cbOut - outLen then
           (let src = take (cbOut - outLen - 1) pszIn
            in Some (True, take outLen pszOut @ src @ [NUL]
                             @ drop (outLen + length src + 1) pszOut))
         else Some (False, pszOut))"

section \<open>Expanding control characters for the log\<close>

text \<open>\<open>char\<close> is signed on the x86 target: a byte from 0x80 on is negative.\<close>

definition signed_char :: "char \<Rightarrow> int" where
  "signed_char c = (if code c < 128 then int (code c) else int (code c) - 256)"

text \<open>\<open>snprintf (szTmp, 5, "[%02X]", c)\<close>: the argument is promoted to \<open>int\<close>, cut to four.\<close>

definition upper_hex :: "nat \<Rightarrow> char" where
  "upper_hex d = char_of (if d < 10 then 48 + d else 55 + d)"

definition bracket_hex :: "char \<Rightarrow> string" where
  "bracket_hex c =
     (if code c < 128 then [CHR ''['', upper_hex (code c div 16), upper_hex (code c mod 16), CHR '']'']
      else take 4 (''[FFFFFF'' @ [upper_hex (code c div 16), upper_hex (code c mod 16)] @ '']''))"

definition is_crlf :: "char \<Rightarrow> bool" where
  "is_crlf c \<longleftrightarrow> c = LF \<or> c = CR"

definition printable :: "char \<Rightarrow> bool" where
  "printable c \<longleftrightarrow> signed_char c \<ge> 0x20 \<and> signed_char c \<le> 0x7E"

text \<open>\<open>strncat (s, t, n)\<close> on the text of the zeroed buffer.\<close>

definition strncat :: "string \<Rightarrow> string \<Rightarrow> nat \<Rightarrow> string" where
  "strncat s t n = s @ take n t"

definition crlf_step :: "nat \<Rightarrow> string \<Rightarrow> char \<Rightarrow> string" where
  "crlf_step nNewLen s c =
     (if c = LF then strncat s ''<lf>'' (nNewLen - length s - 1)
      else if c = CR then strncat s ''<cr>'' (nNewLen - length s - 1)
      else if printable c then strncat s [c] 1
      else strncat s (bracket_hex c) (nNewLen - length s - 1))"

definition crlf_new_len :: "string \<Rightarrow> nat" where
  "crlf_new_len pszIn =
     (let nCRLFs = length (filter is_crlf pszIn);
          nOther = length (filter (\<lambda>c. \<not> is_crlf c \<and> (signed_char c < 0x20 \<or> signed_char c > 0x7E)) pszIn)
      in length pszIn + nCRLFs * 3 + nOther * 3 + 1)"

text \<open>The constructor: the expanded text, \<open>None\<close> for a NULL \<open>m_pszString\<close>.\<close>

definition CRLFExpandedString :: "bool \<Rightarrow> string option \<Rightarrow> string option" where
  "CRLFExpandedString mem pszIn =
     (case pszIn of
        None \<Rightarrow> None
      | Some s \<Rightarrow> if \<not> mem then None else Some (foldl (crlf_step (crlf_new_len s)) [] s))"

section \<open>Big endian integers and the clock\<close>

definition htonl :: "u32 \<Rightarrow> u32" where
  "htonl v = push_bit 24 (v AND 0xFF) OR push_bit 8 (v AND 0xFF00)
     OR drop_bit 8 (v AND 0xFF0000) OR drop_bit 24 v"

definition convertIntToByteArrayAt :: "u8 list \<Rightarrow> u32 \<Rightarrow> nat \<Rightarrow> u8 list option" where
  "convertIntToByteArrayAt byteArray value pos =
     (if pos + 4 \<le> length byteArray
      then Some (foldl (\<lambda>a i. a[i + pos := ucast (drop_bit (i * 8) (htonl value) AND 0xFF)])
             byteArray [0..<4])
      else None)"

definition convertIntToByteArray :: "u8 list \<Rightarrow> u32 \<Rightarrow> u8 list option" where
  "convertIntToByteArray byteArray value = convertIntToByteArrayAt byteArray value 0"

definition GetTickCount :: "int \<Rightarrow> int \<Rightarrow> u32" where
  "GetTickCount tv_sec tv_usec = word_of_int (tv_sec * 1000 + tv_usec div 1000)"

section \<open>\<open>CSelfExpandBuffer\<close>\<close>

record expand_buffer =
  m_szBuffer :: "char list option"
  m_uiUsed :: nat
  m_nCapacity :: nat

definition m_nChunkSize :: nat where "m_nChunkSize = 1024"

definition new_buffer :: expand_buffer where
  "new_buffer = \<lparr>m_szBuffer = None, m_uiUsed = 0, m_nCapacity = 0\<rparr>"

function grow :: "nat \<Rightarrow> nat \<Rightarrow> nat \<Rightarrow> nat" where
  "grow nNewSize used nLength =
     (if nNewSize - used \<le> nLength then grow (nNewSize + m_nChunkSize) used nLength else nNewSize)"
  by pat_completeness auto
termination
  by (relation "measure (\<lambda>(n, u, l). Suc (u + l) - n)") (auto simp: m_nChunkSize_def)

declare grow.simps [simp del]

text \<open>
  \<open>mem1\<close> and \<open>mem2\<close>: whether the two allocations return memory; \<open>junk\<close>: what the cells of the
  second one hold before they are written. Outer \<open>None\<close>: a copy leaves a buffer.
\<close>

definition Append ::
    "bool \<Rightarrow> bool \<Rightarrow> char \<Rightarrow> string option \<Rightarrow> nat \<Rightarrow> expand_buffer \<Rightarrow> (bool \<times> expand_buffer) option" where
  "Append mem1 mem2 junk szIn nLength b =
     (case szIn of
        None \<Rightarrow> Some (True, b)
      | Some src \<Rightarrow>
        if nLength = 0 then Some (True, b)
        else if length src < nLength then None
        else if m_szBuffer b = None \<and> \<not> mem1 then Some (False, b)
        else
          (let b = (if m_szBuffer b = None
                    then b\<lparr>m_szBuffer := Some (replicate m_nChunkSize NUL), m_nCapacity := m_nChunkSize\<rparr>
                    else b);
               nNewSize = grow (m_nCapacity b) (m_uiUsed b) nLength
           in if nNewSize \<noteq> m_nCapacity b \<and> \<not> mem2 then Some (False, b)
              else
                (let cells = the (m_szBuffer b);
                     cells = (if nNewSize \<noteq> m_nCapacity b
                              then take (m_uiUsed b) cells @ replicate (nNewSize - m_uiUsed b) junk
                              else cells);
                     used = m_uiUsed b + nLength
                 in if length cells \<le> used then None
                    else Some (True, \<lparr>m_szBuffer = Some (take (m_uiUsed b) cells @ take nLength src
                                        @ [NUL] @ drop (used + 1) cells),
                                      m_uiUsed = used, m_nCapacity = nNewSize\<rparr>))))"

definition Flush :: "expand_buffer \<Rightarrow> expand_buffer" where
  "Flush b = b\<lparr>m_szBuffer := None, m_uiUsed := 0\<rparr>"

text \<open>The bytes held.\<close>

definition payload :: "expand_buffer \<Rightarrow> char list" where
  "payload b = (case m_szBuffer b of None \<Rightarrow> [] | Some cells \<Rightarrow> take (m_uiUsed b) cells)"

text \<open>
  What every operation keeps: without memory nothing is held; otherwise the capacity is the
  number of cells, and the cell behind the bytes held is there and is a terminator.
\<close>

definition buffer_ok :: "expand_buffer \<Rightarrow> bool" where
  "buffer_ok b \<longleftrightarrow>
     (case m_szBuffer b of
        None \<Rightarrow> m_uiUsed b = 0
      | Some cells \<Rightarrow> length cells = m_nCapacity b \<and> m_uiUsed b < m_nCapacity b
          \<and> cells ! m_uiUsed b = NUL)"

lemma grow_spec:
  "nLength < grow n used nLength - used \<and> n \<le> grow n used nLength
    \<and> (\<exists>k. grow n used nLength = n + k * m_nChunkSize)"
proof (induction n used nLength rule: grow.induct)
  case (1 n used nLength)
  show ?case
  proof (cases "n - used \<le> nLength")
    case True
    then obtain k where "grow (n + m_nChunkSize) used nLength = n + m_nChunkSize + k * m_nChunkSize"
      using "1" by blast
    then have "\<exists>k. grow (n + m_nChunkSize) used nLength = n + k * m_nChunkSize"
      by (intro exI [of _ "Suc k"]) simp
    with True "1" show ?thesis by (subst (1 2 3) grow.simps) auto
  next
    case False
    then show ?thesis by (subst (1 2 3) grow.simps) (auto intro: exI [of _ 0])
  qed
qed

lemma grow_stay: "nLength < n - used \<Longrightarrow> grow n used nLength = n"
  by (subst grow.simps) simp

lemma new_buffer_ok [simp]: "buffer_ok new_buffer" "payload new_buffer = []"
  by (simp_all add: buffer_ok_def new_buffer_def payload_def)

lemma Flush_ok [simp]: "buffer_ok (Flush b)" "payload (Flush b) = []"
  by (simp_all add: buffer_ok_def Flush_def payload_def)

lemma payload_length: "buffer_ok b \<Longrightarrow> length (payload b) = m_uiUsed b"
  by (auto simp: buffer_ok_def payload_def split: option.splits)

text \<open>The buffer after the first allocation, and the write into it.\<close>

definition ensure_chunk :: "expand_buffer \<Rightarrow> expand_buffer" where
  "ensure_chunk b =
     (if m_szBuffer b = None
      then b\<lparr>m_szBuffer := Some (replicate m_nChunkSize NUL), m_nCapacity := m_nChunkSize\<rparr> else b)"

lemma ensure_chunk_ok:
  assumes "buffer_ok b"
  shows "buffer_ok (ensure_chunk b)" "payload (ensure_chunk b) = payload b"
    "m_uiUsed (ensure_chunk b) = m_uiUsed b" "m_szBuffer (ensure_chunk b) \<noteq> None"
  using assms
  by (auto simp: ensure_chunk_def buffer_ok_def payload_def m_nChunkSize_def split: option.splits)

lemma Append_grown:
  assumes "length cells = cap" "u + n < cap" "length src = n"
  defines "new \<equiv> take u cells @ take n src @ [NUL] @ drop (u + n + 1) cells"
  shows "length new = cap \<and> new ! (u + n) = NUL \<and> take (u + n) new = take u cells @ src"
  using assms by (simp add: new_def nth_append)

lemma Append_ensured:
  assumes ok: "buffer_ok b" and ne: "m_szBuffer b \<noteq> None" and n: "length src = n" "n \<noteq> 0"
  shows "\<exists>b'. Append mem1 mem2 junk (Some src) n b =
      Some (mem2 \<or> m_uiUsed b + n < m_nCapacity b, b') \<and> buffer_ok b'
    \<and> payload b' = (if mem2 \<or> m_uiUsed b + n < m_nCapacity b then payload b @ src else payload b)"
proof -
  obtain cells where c: "m_szBuffer b = Some cells" "length cells = m_nCapacity b"
    "m_uiUsed b < m_nCapacity b"
    using ok ne by (auto simp: buffer_ok_def split: option.splits)
  define g where "g = grow (m_nCapacity b) (m_uiUsed b) n"
  have g: "m_nCapacity b \<le> g" "m_uiUsed b + n < g"
    using grow_spec [of n "m_nCapacity b" "m_uiUsed b"] by (auto simp: g_def)
  have stay: "g = m_nCapacity b \<longleftrightarrow> m_uiUsed b + n < m_nCapacity b"
    using g grow_stay [of n "m_nCapacity b" "m_uiUsed b"] by (auto simp: g_def)
  define cells' where
    "cells' = (if g \<noteq> m_nCapacity b then take (m_uiUsed b) cells @ replicate (g - m_uiUsed b) junk
               else cells)"
  have c': "length cells' = g" "take (m_uiUsed b) cells' = take (m_uiUsed b) cells"
    using c g by (auto simp: cells'_def)
  note w = Append_grown [OF c'(1) g(2) n(1)]
  show ?thesis
  proof (cases "mem2 \<or> g = m_nCapacity b")
    case True
    have "Append mem1 mem2 junk (Some src) n b =
        Some (True, \<lparr>m_szBuffer = Some (take (m_uiUsed b) cells' @ take n src @ [NUL]
            @ drop (m_uiUsed b + n + 1) cells'), m_uiUsed = m_uiUsed b + n, m_nCapacity = g\<rparr>)"
      using True n c g c' by (auto simp: Append_def Let_def g_def [symmetric] cells'_def)
    then show ?thesis using w True stay c c' g(2)
      by (auto simp: buffer_ok_def payload_def)
  next
    case False
    then show ?thesis using n c ok stay by (simp add: Append_def Let_def g_def [symmetric])
  qed
qed

lemma Append_ensure_chunk:
  assumes "m_szBuffer b \<noteq> None \<or> mem1"
  shows "Append mem1 mem2 junk (Some src) n b =
    (if n = 0 then Some (True, b) else Append mem1 mem2 junk (Some src) n (ensure_chunk b))"
proof (cases "m_szBuffer b")
  case None
  then show ?thesis using assms by (simp add: Append_def ensure_chunk_def Let_def)
next
  case (Some cells)
  then show ?thesis by (simp add: Append_def ensure_chunk_def)
qed

lemma Append_ok:
  assumes "buffer_ok b" "length src = n"
  shows "\<exists>r b'. Append mem1 mem2 junk (Some src) n b = Some (r, b') \<and> buffer_ok b'
    \<and> payload b' = (if r then payload b @ src else payload b) \<and> (mem1 \<and> mem2 \<longrightarrow> r)"
proof (cases "m_szBuffer b \<noteq> None \<or> mem1")
  case True
  show ?thesis
  proof (cases "n = 0")
    case True
    then show ?thesis using assms by (auto simp: Append_def)
  next
    case False
    then show ?thesis
      using Append_ensured [OF ensure_chunk_ok(1) [OF assms(1)] ensure_chunk_ok(4) [OF assms(1)]
          assms(2), of mem1 mem2 junk] True ensure_chunk_ok [OF assms(1)]
      by (auto simp: Append_ensure_chunk [OF True])
  qed
next
  case False
  then show ?thesis using assms by (auto simp: Append_def)
qed

section \<open>The helpers stay in bounds\<close>

lemma cstr_append_hd_NUL: "NUL \<notin> set t \<Longrightarrow> r \<noteq> [] \<Longrightarrow> hd r = NUL \<Longrightarrow> cstr (t @ r) = t"
  by (cases r) (auto simp: cstr_append_NUL)

lemma strncpy_terminated:
  assumes "0 < cb" "cb \<le> length out"
  shows "(strncpy out src cb)[cb - 1 := NUL] =
    take (cb - 1) (src @ replicate cb NUL) @ NUL # drop cb out"
proof -
  obtain k where k: "cb = Suc k" using assms(1) by (cases cb) auto
  have "take (Suc k) (src @ replicate (Suc k) NUL) =
      take k (src @ replicate (Suc k) NUL) @ [(src @ replicate (Suc k) NUL) ! k]"
    by (rule take_Suc_conv_app_nth) simp
  then have "strncpy out src cb =
      take k (src @ replicate (Suc k) NUL) @ (src @ replicate (Suc k) NUL) ! k # drop (Suc k) out"
    by (simp only: strncpy_def k append_assoc append_Cons append_Nil)
  moreover have "length (take k (src @ replicate (Suc k) NUL)) = k" by simp
  ultimately show ?thesis
    by (simp only: k diff_Suc_1 list_update_append) simp
qed

text \<open>
  \<open>CopyStringNullTerminate\<close> copies as much of a string as fits into \<open>cb\<close> cells with a
  terminator: the destination holds the first \<open>cb - 1\<close> characters, cells from \<open>cb\<close> on are
  untouched, and the result says whether the whole string went in.
\<close>

theorem CopyStringNullTerminate_spec:
  assumes "0 < cb" "cb \<le> length out" "NUL \<notin> set src"
  shows "\<exists>out'. CopyStringNullTerminate (Some out) (Some src) cb = Some (length src < cb, Some out')
    \<and> length out' = length out \<and> cstr out' = take (cb - 1) src \<and> drop cb out' = drop cb out"
proof -
  let ?o = "take (cb - 1) (src @ replicate cb NUL) @ NUL # drop cb out"
  have "cstr ?o = take (cb - 1) src"
  proof (cases "length src < cb")
    case True
    then have "?o = src @ (replicate (cb - 1 - length src) NUL @ NUL # drop cb out)" by simp
    moreover have "hd (replicate (cb - 1 - length src) NUL @ NUL # drop cb out) = NUL"
      by (cases "cb - 1 - length src") auto
    ultimately have "cstr ?o = src" using assms(3) by (simp only:) (rule cstr_append_hd_NUL, auto)
    with True show ?thesis by simp
  next
    case False
    then have "?o = take (cb - 1) src @ NUL # drop cb out" by simp
    moreover have "NUL \<notin> set (take (cb - 1) src)" using assms(3) by (meson in_set_takeD)
    ultimately show ?thesis by (metis cstr_append_NUL)
  qed
  moreover have "CopyStringNullTerminate (Some out) (Some src) cb = Some (length src < cb, Some ?o)"
    using assms(1,2)
    by (simp only: CopyStringNullTerminate_def option.case prod.case strncpy_terminated) auto
  moreover have "length (take (cb - 1) (src @ replicate cb NUL)) = cb - 1" by simp
  then have "drop (Suc (cb - 1)) ?o = drop cb out" by (simp only: drop_append) simp
  then have "drop cb ?o = drop cb out" using assms(1) by simp
  moreover have "length ?o = length out" using assms(1,2) by auto
  ultimately show ?thesis by blast
qed

theorem CopyStringNullTerminate_spec_witness:
  "\<exists>out'. CopyStringNullTerminate (Some ''zzzzzz'') (Some ''abcdef'') 4 = Some (False, Some out') \<and>
     cstr out' = ''abc''"
  using CopyStringNullTerminate_spec [of 4 "''zzzzzz''" "''abcdef''"] by (auto simp: numeral_3_eq_3)

lemma length_bracket_hex: "length (bracket_hex c) = 4"
  by (simp add: bracket_hex_def)

definition expand_char :: "char \<Rightarrow> string" where
  "expand_char c = (if c = LF then ''<lf>'' else if c = CR then ''<cr>''
     else if printable c then [c] else bracket_hex c)"

lemma length_expand_char:
  "length (expand_char c) = (if is_crlf c \<or> \<not> printable c then 4 else 1)"
  by (auto simp: expand_char_def is_crlf_def length_bracket_hex printable_def signed_char_def code_def)

lemma expansion_length:
  "length (concat (map expand_char s)) + 1 = crlf_new_len s"
proof (induction s)
  case Nil
  then show ?case by (simp add: crlf_new_len_def)
next
  case (Cons c s)
  then show ?case
    by (auto simp: crlf_new_len_def Let_def length_expand_char printable_def)
qed

lemma crlf_foldl:
  assumes "length s0 + length (concat (map expand_char s)) < L"
  shows "foldl (crlf_step L) s0 s = s0 @ concat (map expand_char s)"
  using assms
proof (induction s arbitrary: s0)
  case Nil
  then show ?case by simp
next
  case (Cons c s)
  have "crlf_step L s0 c = s0 @ expand_char c"
    using Cons.prems length_expand_char [of c]
    by (auto simp: crlf_step_def strncat_def expand_char_def is_crlf_def split: if_splits)
  then show ?case using Cons by simp
qed

lemma CRLFExpandedString_eq:
  "CRLFExpandedString True (Some s) = Some (concat (map expand_char s))"
  using crlf_foldl [of "[]" s "crlf_new_len s"] expansion_length [of s]
  by (simp add: CRLFExpandedString_def)

lemma byte_masks:
  "(0xFF :: u32) = mask 8" "(0xFF00 :: u32) = push_bit 8 (mask 8)"
  "(0xFF0000 :: u32) = push_bit 16 (mask 8)"
  by (simp_all add: mask_eq_exp_minus_1)

lemma bytes_of_htonl:
  assumes "i < 4"
  shows "ucast (drop_bit (i * 8) (htonl v) AND 0xFF) = (ucast (drop_bit (8 * (3 - i)) v) :: u8)"
proof -
  have "i = 0 \<or> i = 1 \<or> i = 2 \<or> i = 3" using assms by linarith
  then show ?thesis
    unfolding htonl_def byte_masks
    by (elim disjE; intro bit_eqI; simp add: bit_simps; linarith?)
qed

section \<open>Properties\<close>

text \<open>A run of appends, with memory available.\<close>

fun append_chunks :: "char \<Rightarrow> string list \<Rightarrow> expand_buffer \<Rightarrow> expand_buffer option" where
  "append_chunks junk [] b = Some b"
| "append_chunks junk (s # ss) b =
     (case Append True True junk (Some s) (length s) b of
        Some (True, b) \<Rightarrow> append_chunks junk ss b
      | _ \<Rightarrow> None)"

text \<open>
  C21. \<open>CSelfExpandBuffer::Append\<close> loses nothing while it grows: from a well formed buffer any
  sequence of appends succeeds, the contents end up as the old contents followed by all the
  pieces in order, whatever chunk boundaries they cross and whatever the fresh memory holds,
  and the buffer is again well formed: the fill level below the capacity and a terminator
  behind the contents.
\<close>

theorem append_chunks_concat:
  assumes "buffer_ok b"
  shows "\<exists>b'. append_chunks junk ss b = Some b' \<and> buffer_ok b' \<and> payload b' = payload b @ concat ss"
  using assms
proof (induction ss arbitrary: b)
  case (Cons s ss)
  obtain b1 where b1: "Append True True junk (Some s) (length s) b = Some (True, b1)"
    "buffer_ok b1" "payload b1 = payload b @ s"
    using Append_ok [OF Cons.prems refl, of True True junk s] by auto
  from Cons.IH [OF b1(2)] show ?case using b1 by auto
qed simp

theorem append_chunks_concat_witness:
  "\<exists>b'. append_chunks CHR ''?'' [replicate 1000 CHR ''a'', replicate 500 CHR ''b''] new_buffer = Some b' \<and>
     payload b' = replicate 1000 CHR ''a'' @ replicate 500 CHR ''b''"
  using append_chunks_concat [of new_buffer "CHR ''?''" "[replicate 1000 CHR ''a'', replicate 500 CHR ''b'']"]
  by auto

text \<open>
  The log expansion is exact: every control character becomes its four character form, no
  other character changes, and the buffer the code allocates is filled to the last cell.
\<close>

theorem CRLF_expansion_exact:
  "CRLFExpandedString True (Some s) = Some (concat (map expand_char s)) \<and>
   Suc (length (concat (map expand_char s))) = crlf_new_len s"
  using expansion_length [of s] by (simp add: CRLFExpandedString_eq)

text \<open>
  \<open>convertIntToByteArrayAt\<close> stores a 32-bit value most significant byte first at the given
  position, and touches no other byte of the array.
\<close>

theorem convertIntToByteArrayAt_big_endian:
  assumes "pos + 4 \<le> length arr"
  shows "convertIntToByteArrayAt arr v pos =
    Some (take pos arr @ [ucast (drop_bit 24 v), ucast (drop_bit 16 v), ucast (drop_bit 8 v), ucast v]
            @ drop (pos + 4) arr)"
proof -
  have "foldl (\<lambda>a i. a[i + pos := (ucast (drop_bit (i * 8) (htonl v) AND 0xFF) :: u8)]) arr [0..<4] =
      arr[pos := ucast (drop_bit 24 v), pos + 1 := ucast (drop_bit 16 v),
          pos + 2 := ucast (drop_bit 8 v), pos + 3 := ucast v]"
    using bytes_of_htonl [of 0 v] bytes_of_htonl [of 1 v] bytes_of_htonl [of 2 v] bytes_of_htonl [of 3 v]
    by (simp add: upt_rec add.commute numeral_3_eq_3)
  also have "\<dots> = take pos arr @ [ucast (drop_bit 24 v), ucast (drop_bit 16 v), ucast (drop_bit 8 v), ucast v]
            @ drop (pos + 4) arr"
    using assms by (intro nth_equalityI) (auto simp: nth_list_update nth_append nth_Cons' not_less)
  finally show ?thesis using assms by (simp add: convertIntToByteArrayAt_def)
qed

theorem convertIntToByteArrayAt_big_endian_witness:
  "convertIntToByteArrayAt [9, 9, 9, 9, 9] 0x01020304 1 = Some [9, 1, 2, 3, 4]"
  using convertIntToByteArrayAt_big_endian [of 1 "[9, 9, 9, 9, 9]" "0x01020304"]
  by simp

end
