(* ===== verification/RilQueue.thy ===== *)
theory RilQueue
  imports RilPrelude "HOL-Library.Multiset"
begin

text \<open>
  Model of \<open>CORE/rilqueue.h\<close>: the priority queue \<open>CRilQueue\<close> of the command and response
  threads, with its linked list of heap nodes and its recursive mutex.

  The heap maps node addresses to nodes; a pointer is an option, NULL is \<open>None\<close>. Following a
  NULL or a deleted pointer gives \<open>None\<close>. The mutex is its recursion depth in the calling
  thread: a method that returns with a greater depth has left the mutex locked. \<open>mem\<close> says
  whether \<open>new\<close> finds memory.
\<close>

section \<open>State\<close>

type_synonym addr = nat

record 'a ListNode =
  m_Element :: 'a
  m_uiPriority :: u32
  m_pNext :: "addr option"

type_synonym 'a heap = "addr \<Rightarrow> 'a ListNode option"

record 'a CRilQueue =
  nodes :: "'a heap"
  top_addr :: addr
  m_pFront :: "addr option"
  m_pBack :: "addr option"
  m_bDestroy :: bool
  m_cMutex :: nat

definition m_uiMinPriority :: u32 where "m_uiMinPriority = 0"

definition new_queue :: "bool \<Rightarrow> 'a CRilQueue" where
  "new_queue bDestroy = \<lparr> nodes = Map.empty, top_addr = 0, m_pFront = None, m_pBack = None,
     m_bDestroy = bDestroy, m_cMutex = 0 \<rparr>"

definition Lock :: "'a CRilQueue \<Rightarrow> 'a CRilQueue" where
  "Lock q = q\<lparr> m_cMutex := Suc (m_cMutex q) \<rparr>"

definition Unlock :: "'a CRilQueue \<Rightarrow> 'a CRilQueue" where
  "Unlock q = q\<lparr> m_cMutex := m_cMutex q - 1 \<rparr>"

definition node_at :: "'a heap \<Rightarrow> addr option \<Rightarrow> 'a ListNode option" where
  "node_at h p = (case p of None \<Rightarrow> None | Some a \<Rightarrow> h a)"

definition set_next :: "'a heap \<Rightarrow> addr option \<Rightarrow> addr option \<Rightarrow> 'a heap option" where
  "set_next h p nx =
     (case p of
        None \<Rightarrow> None
      | Some a \<Rightarrow> (case h a of None \<Rightarrow> None | Some n \<Rightarrow> Some (h(a \<mapsto> n\<lparr> m_pNext := nx \<rparr>))))"

text \<open>\<open>new ListNode (rObj, uiPriority, pNext)\<close>: the node's address and the queue with it.\<close>

definition new_node :: "'a \<Rightarrow> u32 \<Rightarrow> addr option \<Rightarrow> 'a CRilQueue \<Rightarrow> addr \<times> 'a CRilQueue" where
  "new_node x p nx q =
     (top_addr q,
      q\<lparr> nodes := (nodes q)(top_addr q \<mapsto> \<lparr> m_Element = x, m_uiPriority = p, m_pNext = nx \<rparr>),
         top_addr := Suc (top_addr q) \<rparr>)"

section \<open>Operations\<close>

definition IsEmpty :: "'a CRilQueue \<Rightarrow> bool \<times> 'a CRilQueue" where
  "IsEmpty q =
     (let q = Lock q; bIsEmpty = (m_pFront q = None) in (bIsEmpty, Unlock q))"

definition GetFront :: "'a CRilQueue \<Rightarrow> ('a option \<times> 'a CRilQueue) option" where
  "GetFront q =
     (let q = Lock q; (e, q) = IsEmpty q
      in if e then Some (None, Unlock q)
         else (case node_at (nodes q) (m_pFront q) of
                 None \<Rightarrow> None
               | Some n \<Rightarrow> Some (Some (m_Element n), Unlock q)))"

definition Dequeue :: "'a CRilQueue \<Rightarrow> ('a option \<times> 'a CRilQueue) option" where
  "Dequeue q =
     (let q = Lock q in
      case GetFront q of
        None \<Rightarrow> None
      | Some (None, q) \<Rightarrow> Some (None, Unlock q)
      | Some (Some _, q) \<Rightarrow>
          (case m_pFront q of
             None \<Rightarrow> None
           | Some pOld \<Rightarrow>
               (case nodes q pOld of
                  None \<Rightarrow> None
                | Some n \<Rightarrow>
                    (let q = (if m_pFront q = m_pBack q
                              then q\<lparr> m_pFront := None, m_pBack := None \<rparr>
                              else q\<lparr> m_pFront := m_pNext n \<rparr>)
                     in Some (Some (m_Element n),
                          Unlock (q\<lparr> nodes := (nodes q)(pOld := None) \<rparr>))))))"

text \<open>The destroyed objects are collected in the order of their \<open>delete\<close>.\<close>

partial_function (option) MakeEmpty_loop ::
    "'a list \<Rightarrow> 'a CRilQueue \<Rightarrow> ('a list \<times> 'a CRilQueue) option" where
  [code]: "MakeEmpty_loop deleted q =
     (let (e, q) = IsEmpty q in
      if e then Some (deleted, q)
      else Option.bind (Dequeue q) (\<lambda>(obj, q).
             MakeEmpty_loop
               (case obj of Some x \<Rightarrow> if m_bDestroy q then deleted @ [x] else deleted
                          | None \<Rightarrow> deleted) q))"

definition MakeEmpty :: "'a CRilQueue \<Rightarrow> ('a list \<times> 'a CRilQueue) option" where
  "MakeEmpty q =
     (case MakeEmpty_loop [] (Lock q) of
        None \<Rightarrow> None
      | Some (deleted, q) \<Rightarrow> Some (deleted, Unlock q))"

text \<open>\<open>for (node = p; node != NULL; node = node->m_pNext)\<close> with a test that leaves the loop.\<close>

partial_function (option) exists_from ::
    "'a heap \<Rightarrow> 'a \<Rightarrow> addr option \<Rightarrow> bool option" where
  [code]: "exists_from h x node =
     (case node of
        None \<Rightarrow> Some False
      | Some a \<Rightarrow>
          (case h a of
             None \<Rightarrow> None
           | Some n \<Rightarrow> if x = m_Element n then Some True else exists_from h x (m_pNext n)))"

text \<open>The insertion point: \<open>(previous, node)\<close> when the loop over the priorities ends.\<close>

partial_function (option) insertion_point ::
    "'a heap \<Rightarrow> u32 \<Rightarrow> addr option \<Rightarrow> addr option \<Rightarrow> (addr option \<times> addr option) option" where
  [code]: "insertion_point h p previous node =
     (case node of
        None \<Rightarrow> Some (previous, None)
      | Some a \<Rightarrow>
          (case h a of
             None \<Rightarrow> None
           | Some n \<Rightarrow>
               if m_uiPriority n \<ge> p then insertion_point h p node (m_pNext n)
               else Some (previous, node)))"

definition append_node :: "'a \<Rightarrow> u32 \<Rightarrow> 'a CRilQueue \<Rightarrow> 'a CRilQueue option" where
  "append_node x p q =
     (let (a, q) = new_node x p None q
      in case set_next (nodes q) (m_pBack q) (Some a) of
           None \<Rightarrow> None
         | Some h \<Rightarrow> Some (q\<lparr> nodes := h, m_pBack := Some a \<rparr>))"

definition Enqueue ::
    "bool \<Rightarrow> 'a \<Rightarrow> u32 \<Rightarrow> bool \<Rightarrow> 'a CRilQueue \<Rightarrow> (bool \<times> 'a CRilQueue) option" where
  "Enqueue mem rObj uiPriority bFront q =
     (let (e, q) = IsEmpty (Lock q) in
      if e then
        (if \<not> mem then Some (False, Unlock q)
         else (let (a, q) = new_node rObj uiPriority None q
               in Some (True, Unlock (q\<lparr> m_pFront := Some a, m_pBack := Some a \<rparr>))))
      else
        (case exists_from (nodes q) rObj (m_pFront q) of
           None \<Rightarrow> None
         | Some True \<Rightarrow> Some (True, q)
         | Some False \<Rightarrow>
             if bFront then
               (if \<not> mem then Some (False, Unlock q)
                else (let (a, q') = new_node rObj uiPriority (m_pFront q) q
                      in Some (True, Unlock (q'\<lparr> m_pFront := Some a \<rparr>))))
             else if uiPriority = m_uiMinPriority then
               (if \<not> mem then Some (False, Unlock q)
                else map_option (\<lambda>q. (True, Unlock q)) (append_node rObj uiPriority q))
             else
               (case insertion_point (nodes q) uiPriority (m_pFront q) (m_pFront q) of
                  None \<Rightarrow> None
                | Some (previous, node) \<Rightarrow>
                    if \<not> mem then Some (False, Unlock q)
                    else if node = None then
                      map_option (\<lambda>q. (True, Unlock q)) (append_node rObj uiPriority q)
                    else if m_pFront q = node then
                      (let (a, q') = new_node rObj uiPriority (m_pFront q) q
                       in Some (True, Unlock (q'\<lparr> m_pFront := Some a \<rparr>)))
                    else
                      (let (a, q') = new_node rObj uiPriority node q
                       in case set_next (nodes q') previous (Some a) of
                            None \<Rightarrow> None
                          | Some h \<Rightarrow> Some (True, Unlock (q'\<lparr> nodes := h \<rparr>))))))"

text \<open>Both passes of \<open>GetAllQueuedObjects\<close>: the elements from a node on.\<close>

partial_function (option) objects_from :: "'a heap \<Rightarrow> addr option \<Rightarrow> 'a list option" where
  [code]: "objects_from h node =
     (case node of
        None \<Rightarrow> Some []
      | Some a \<Rightarrow>
          (case h a of
             None \<Rightarrow> None
           | Some n \<Rightarrow>
               Option.bind (objects_from h (m_pNext n)) (\<lambda>xs. Some (m_Element n # xs))))"

definition GetAllQueuedObjects ::
    "bool \<Rightarrow> 'a CRilQueue \<Rightarrow> ('a list option \<times> nat \<times> 'a CRilQueue) option" where
  "GetAllQueuedObjects mem q =
     (let (e, q) = IsEmpty (Lock q) in
      if e then Some (None, 0, Unlock q)
      else
        (case objects_from (nodes q) (m_pFront q) of
           None \<Rightarrow> None
         | Some xs \<Rightarrow> Some (if mem then Some xs else None, length xs, Unlock q)))"

partial_function (option) match_from ::
    "'a heap \<Rightarrow> 'a \<Rightarrow> addr option \<Rightarrow> addr option \<Rightarrow> (addr option \<times> addr) option option" where
  [code]: "match_from h x previous node =
     (case node of
        None \<Rightarrow> Some None
      | Some a \<Rightarrow>
          (case h a of
             None \<Rightarrow> None
           | Some n \<Rightarrow>
               if x = m_Element n then Some (Some (previous, a))
               else match_from h x node (m_pNext n)))"

definition DequeueByObj :: "'a \<Rightarrow> 'a CRilQueue \<Rightarrow> (bool \<times> 'a CRilQueue) option" where
  "DequeueByObj rObj q =
     (let (e, q) = IsEmpty (Lock q) in
      if e then Some (False, Unlock q)
      else
        (case match_from (nodes q) rObj (m_pFront q) (m_pFront q) of
           None \<Rightarrow> None
         | Some None \<Rightarrow> Some (False, Unlock q)
         | Some (Some (previous, a)) \<Rightarrow>
             (case nodes q a of
                None \<Rightarrow> None
              | Some n \<Rightarrow>
                  map_option (\<lambda>q. (True, Unlock (q\<lparr> nodes := (nodes q)(a := None) \<rparr>)))
                    (if m_pFront q = Some a then
                       (if m_pBack q = Some a
                        then Some (q\<lparr> m_pFront := None, m_pBack := None \<rparr>)
                        else Some (q\<lparr> m_pFront := m_pNext n \<rparr>))
                     else if m_pBack q = Some a then
                       (case set_next (nodes q) previous None of
                          None \<Rightarrow> None
                        | Some h \<Rightarrow> Some (q\<lparr> m_pBack := previous, nodes := h \<rparr>))
                     else
                       (case set_next (nodes q) previous (m_pNext n) of
                          None \<Rightarrow> None
                        | Some h \<Rightarrow> Some (q\<lparr> nodes := h \<rparr>))))))"

section \<open>The list a queue holds\<close>

text \<open>
  \<open>lseg h p as\<close>: the nodes reached from \<open>p\<close> are those at the addresses \<open>as\<close>, in that order.
\<close>

fun lseg :: "'a heap \<Rightarrow> addr option \<Rightarrow> addr list \<Rightarrow> bool" where
  "lseg h p [] \<longleftrightarrow> p = None"
| "lseg h p (a # as) \<longleftrightarrow> p = Some a \<and> (\<exists>n. h a = Some n \<and> lseg h (m_pNext n) as)"

definition entry :: "'a heap \<Rightarrow> addr \<Rightarrow> 'a \<times> u32" where
  "entry h a = (m_Element (the (h a)), m_uiPriority (the (h a)))"

definition queue_ok :: "'a CRilQueue \<Rightarrow> addr list \<Rightarrow> bool" where
  "queue_ok q as \<longleftrightarrow>
     lseg (nodes q) (m_pFront q) as \<and> distinct as \<and> (\<forall>a \<in> set as. a < top_addr q) \<and>
     m_pBack q = (if as = [] then None else Some (last as))"

definition holds :: "'a CRilQueue \<Rightarrow> ('a \<times> u32) list \<Rightarrow> bool" where
  "holds q xs \<longleftrightarrow> (\<exists>as. queue_ok q as \<and> map (entry (nodes q)) as = xs)"

lemma lseg_frame: "a \<notin> set as \<Longrightarrow> lseg (h(a := v)) p as = lseg h p as"
  by (induction as arbitrary: p) auto

lemma map_entry_frame: "a \<notin> set as \<Longrightarrow> map (entry (h(a := v))) as = map (entry h) as"
  by (auto simp: entry_def)

lemma lseg_dom: "lseg h p as \<Longrightarrow> a \<in> set as \<Longrightarrow> \<exists>n. h a = Some n"
  by (induction as arbitrary: p) auto

lemma lseg_front: "lseg h p as \<Longrightarrow> p = (case as of [] \<Rightarrow> None | a # _ \<Rightarrow> Some a)"
  by (cases as) auto


text \<open>A segment that ends in a given pointer instead of NULL.\<close>

fun lpath :: "'a heap \<Rightarrow> addr option \<Rightarrow> addr list \<Rightarrow> addr option \<Rightarrow> bool" where
  "lpath h p [] e \<longleftrightarrow> p = e"
| "lpath h p (a # as) e \<longleftrightarrow> p = Some a \<and> (\<exists>n. h a = Some n \<and> lpath h (m_pNext n) as e)"

lemma lseg_lpath: "lseg h p as = lpath h p as None"
  by (induction as arbitrary: p) auto

lemma lpath_append: "lpath h p (as @ bs) e \<longleftrightarrow> (\<exists>m. lpath h p as m \<and> lpath h m bs e)"
  by (induction as arbitrary: p) auto

lemma lpath_frame: "a \<notin> set as \<Longrightarrow> lpath (h(a := v)) p as e = lpath h p as e"
  by (induction as arbitrary: p) auto

lemma lpath_relink:
  assumes "lpath h p as e" "as \<noteq> []" "distinct as"
  shows "\<exists>n. h (last as) = Some n \<and> lpath (h(last as \<mapsto> n\<lparr> m_pNext := e' \<rparr>)) p as e'"
  using assms
proof (induction as arbitrary: p rule: rev_induct)
  case (snoc a as)
  then obtain m n where m: "lpath h p as m" "m = Some a" "h a = Some n"
    by (auto simp: lpath_append)
  moreover have "lpath (h(a \<mapsto> n\<lparr> m_pNext := e' \<rparr>)) p as m"
    using m snoc.prems by (simp add: lpath_frame del: fun_upd_apply)
  ultimately show ?case unfolding lpath_append by (intro exI [of _ n]) auto
qed simp

lemma entry_relink: "entry (h(a \<mapsto> (the (h a))\<lparr> m_pNext := e \<rparr>)) = entry h"
  by (rule ext) (auto simp: entry_def)

section \<open>The loops over the list\<close>

lemma exists_from_lseg:
  "lseg h p as \<Longrightarrow> exists_from h x p = Some (x \<in> fst ` entry h ` set as)"
  by (induction as arbitrary: p) (auto simp: exists_from.simps entry_def)

lemma objects_from_lseg:
  "lseg h p as \<Longrightarrow> objects_from h p = Some (map (fst \<circ> entry h) as)"
  by (induction as arbitrary: p) (auto simp: objects_from.simps entry_def)

lemma insertion_point_lseg:
  "lseg h p as \<Longrightarrow>
    insertion_point h pr pv p =
      (let hi = takeWhile (\<lambda>a. snd (entry h a) \<ge> pr) as;
           lo = dropWhile (\<lambda>a. snd (entry h a) \<ge> pr) as
       in Some (if hi = [] then pv else Some (last hi), if lo = [] then None else Some (hd lo)))"
proof (induction as arbitrary: p pv)
  case Nil
  then show ?case by (simp add: insertion_point.simps)
next
  case (Cons a as)
  then obtain n where n: "p = Some a" "h a = Some n" "lseg h (m_pNext n) as" by auto
  show ?case
    by (subst insertion_point.simps) (simp add: n Cons.IH [OF n(3)] entry_def Let_def)
qed

lemma match_from_lseg:
  "lseg h p as \<Longrightarrow>
    match_from h x pv p =
      (let l = takeWhile (\<lambda>a. fst (entry h a) \<noteq> x) as; r = dropWhile (\<lambda>a. fst (entry h a) \<noteq> x) as
       in Some (if r = [] then None else Some (if l = [] then pv else Some (last l), hd r)))"
proof (induction as arbitrary: p pv)
  case Nil
  then show ?case by (simp add: match_from.simps)
next
  case (Cons a as)
  then obtain n where n: "p = Some a" "h a = Some n" "lseg h (m_pNext n) as" by auto
  show ?case
    by (subst match_from.simps) (auto simp add: n Cons.IH [OF n(3)] entry_def Let_def)
qed

section \<open>The operations on the list\<close>

lemma Lock_simps [simp]:
  "nodes (Lock q) = nodes q" "top_addr (Lock q) = top_addr q" "m_pFront (Lock q) = m_pFront q"
  "m_pBack (Lock q) = m_pBack q" "m_bDestroy (Lock q) = m_bDestroy q"
  "m_cMutex (Lock q) = Suc (m_cMutex q)"
  "nodes (Unlock q) = nodes q" "top_addr (Unlock q) = top_addr q" "m_pFront (Unlock q) = m_pFront q"
  "m_pBack (Unlock q) = m_pBack q" "m_bDestroy (Unlock q) = m_bDestroy q"
  "m_cMutex (Unlock q) = m_cMutex q - 1"
  by (simp_all add: Lock_def Unlock_def)

lemma Unlock_Lock [simp]: "Unlock (Lock q) = q"
  by (simp add: Lock_def Unlock_def)

lemma IsEmpty_eq [simp]: "IsEmpty q = (m_pFront q = None, q)"
  by (simp add: IsEmpty_def Let_def)

lemma queue_ok_cong:
  "nodes q = nodes q' \<Longrightarrow> top_addr q = top_addr q' \<Longrightarrow> m_pFront q = m_pFront q' \<Longrightarrow>
    m_pBack q = m_pBack q' \<Longrightarrow> queue_ok q as = queue_ok q' as"
  by (simp add: queue_ok_def)

lemma queue_ok_Lock [simp]: "queue_ok (Lock q) as = queue_ok q as" "queue_ok (Unlock q) as = queue_ok q as"
  by (simp_all add: queue_ok_def)

lemma holds_Lock [simp]: "holds (Lock q) xs = holds q xs" "holds (Unlock q) xs = holds q xs"
  by (simp_all add: holds_def)

lemma queue_ok_empty: "queue_ok q as \<Longrightarrow> m_pFront q = None \<longleftrightarrow> as = []"
  by (cases as) (auto simp: queue_ok_def)

lemma holds_empty: "holds q xs \<Longrightarrow> m_pFront q = None \<longleftrightarrow> xs = []"
  by (auto simp: holds_def queue_ok_empty)

lemma GetFront_holds:
  assumes "holds q xs"
  shows "GetFront q = Some (if xs = [] then None else Some (fst (hd xs)), q)"
proof -
  from assms obtain as where as: "queue_ok q as" "map (entry (nodes q)) as = xs"
    by (auto simp: holds_def)
  then show ?thesis
    by (cases as) (auto simp: queue_ok_def GetFront_def node_at_def entry_def)
qed

lemma Dequeue_holds:
  assumes "holds q xs"
  shows "\<exists>q'. Dequeue q = Some (if xs = [] then None else Some (fst (hd xs)), q') \<and>
    holds q' (tl xs) \<and> m_cMutex q' = m_cMutex q \<and> m_bDestroy q' = m_bDestroy q"
proof -
  from assms obtain as where ok: "queue_ok q as" and xs: "map (entry (nodes q)) as = xs"
    by (auto simp: holds_def)
  note F = GetFront_holds [of "Lock q" xs]
  show ?thesis
  proof (cases as)
    case Nil
    then show ?thesis using F assms xs by (auto simp: Dequeue_def Let_def)
  next
    case (Cons a as')
    then obtain n where n: "m_pFront q = Some a" "nodes q a = Some n" "lseg (nodes q) (m_pNext n) as'"
      "a \<notin> set as'" "distinct as'" "\<forall>b \<in> set as'. b < top_addr q"
      "m_pBack q = Some (last as)" using ok by (auto simp: queue_ok_def)
    let ?q = "Lock q"
    let ?q1 = "(if m_pFront ?q = m_pBack ?q then ?q\<lparr> m_pFront := None, m_pBack := None \<rparr>
                else ?q\<lparr> m_pFront := m_pNext n \<rparr>)"
    let ?q' = "Unlock (?q1\<lparr> nodes := (nodes ?q1)(a := None) \<rparr>)"
    have "Dequeue q = Some (Some (m_Element n), ?q')"
      using F assms xs n Cons by (auto simp: Dequeue_def Let_def)
    moreover have "m_pFront q = m_pBack q \<longleftrightarrow> as' = []"
      using n Cons by (auto dest: last_in_set)
    then have "queue_ok ?q' as'" using n Cons lseg_front [OF n(3)]
      by (auto simp: queue_ok_def lseg_frame)
    moreover have "map (entry (nodes ?q')) as' = tl xs"
      using n Cons xs by (auto simp: map_entry_frame)
    moreover have "m_Element n = fst (hd xs)" "xs \<noteq> []" using xs Cons n by (auto simp: entry_def)
    ultimately show ?thesis by (auto simp: holds_def)
  qed
qed


lemma MakeEmpty_loop_holds:
  "holds q xs \<Longrightarrow>
    \<exists>q'. MakeEmpty_loop ds q = Some (ds @ (if m_bDestroy q then map fst xs else []), q') \<and>
      holds q' [] \<and> m_cMutex q' = m_cMutex q \<and> m_bDestroy q' = m_bDestroy q"
proof (induction xs arbitrary: q ds)
  case Nil
  then show ?case by (subst MakeEmpty_loop.simps) (auto simp: holds_empty)
next
  case (Cons x xs)
  from Dequeue_holds [OF Cons.prems] obtain q' where q': "Dequeue q = Some (Some (fst x), q')"
    "holds q' xs" "m_cMutex q' = m_cMutex q" "m_bDestroy q' = m_bDestroy q" by auto
  have "m_pFront q \<noteq> None" using holds_empty [OF Cons.prems] by simp
  then show ?case
    using Cons.IH [OF q'(2), of "if m_bDestroy q then ds @ [fst x] else ds"] q'
    by (subst MakeEmpty_loop.simps) (auto split: if_splits)
qed

lemma MakeEmpty_holds:
  assumes "holds q xs"
  shows "\<exists>q'. MakeEmpty q = Some (if m_bDestroy q then map fst xs else [], q') \<and> holds q' [] \<and>
    m_cMutex q' = m_cMutex q"
  using MakeEmpty_loop_holds [of "Lock q" xs "[]"] assms by (auto simp: MakeEmpty_def)

lemma GetAllQueuedObjects_holds:
  assumes "holds q xs"
  shows "GetAllQueuedObjects mem q =
    Some (if xs = [] \<or> \<not> mem then None else Some (map fst xs), length xs, q)"
proof -
  from assms obtain as where as: "queue_ok q as" "map (entry (nodes q)) as = xs"
    by (auto simp: holds_def)
  then show ?thesis
    using objects_from_lseg [of "nodes q" "m_pFront q" as] queue_ok_empty [OF as(1)]
    by (auto simp: GetAllQueuedObjects_def Let_def queue_ok_def)
qed

text \<open>What \<open>Enqueue\<close> and \<open>DequeueByObj\<close> do to the list.\<close>

definition enq :: "'a \<Rightarrow> u32 \<Rightarrow> bool \<Rightarrow> ('a \<times> u32) list \<Rightarrow> ('a \<times> u32) list" where
  "enq x p front xs =
     (if x \<in> fst ` set xs then xs
      else if front then (x, p) # xs
      else takeWhile (\<lambda>e. snd e \<ge> p) xs @ (x, p) # dropWhile (\<lambda>e. snd e \<ge> p) xs)"

fun deq_obj :: "'a \<Rightarrow> ('a \<times> u32) list \<Rightarrow> ('a \<times> u32) list" where
  "deq_obj x [] = []"
| "deq_obj x (e # es) = (if fst e = x then es else e # deq_obj x es)"

lemma queue_ok_fresh: "queue_ok q as \<Longrightarrow> top_addr q \<notin> set as"
  by (auto simp: queue_ok_def)

lemma push_front_ok:
  assumes "queue_ok q as" and "as \<noteq> []"
  shows "queue_ok ((snd (new_node x p (m_pFront q) q))\<lparr> m_pFront := Some (top_addr q) \<rparr>)
           (top_addr q # as)"
  using assms queue_ok_fresh [OF assms(1)]
  by (auto simp: queue_ok_def new_node_def lseg_frame fun_upd_same simp del: fun_upd_apply intro: less_SucI)

lemma insert_after_ok:
  assumes ok: "queue_ok q (l @ r)" and l: "l \<noteq> []"
    and nx: "nx = (if r = [] then None else Some (hd r))"
  shows "\<exists>h. set_next (nodes (snd (new_node x p nx q))) (Some (last l)) (Some (top_addr q)) = Some h \<and>
    queue_ok ((snd (new_node x p nx q))
        \<lparr> nodes := h, m_pBack := (if r = [] then Some (top_addr q) else m_pBack q) \<rparr>)
      (l @ top_addr q # r) \<and>
    map (entry h) (l @ top_addr q # r) =
      map (entry (nodes q)) l @ (x, p) # map (entry (nodes q)) r"
proof -
  let ?a = "top_addr q"
  let ?n = "\<lparr> m_Element = x, m_uiPriority = p, m_pNext = nx \<rparr>"
  let ?h1 = "(nodes q)(?a \<mapsto> ?n)"
  have fresh: "?a \<notin> set (l @ r)" by (rule queue_ok_fresh [OF ok])
  from ok obtain m where m: "lpath (nodes q) (m_pFront q) l m" "lpath (nodes q) m r None"
    and d: "distinct (l @ r)" "\<forall>a \<in> set (l @ r). a < top_addr q"
      "m_pBack q = (if l @ r = [] then None else Some (last (l @ r)))"
    by (auto simp: queue_ok_def lseg_lpath lpath_append)
  have mnx: "m = nx" using m(2) nx by (cases r) auto
  have m1: "lpath ?h1 (m_pFront q) l m" using m(1) fresh by (simp add: lpath_frame del: fun_upd_apply)
  have "distinct l" using d by simp
  then obtain nl where nl: "?h1 (last l) = Some nl"
    "lpath (?h1(last l \<mapsto> nl\<lparr> m_pNext := Some ?a \<rparr>)) (m_pFront q) l (Some ?a)"
    using lpath_relink [OF m1 l] by blast
  let ?h = "?h1(last l \<mapsto> nl\<lparr> m_pNext := Some ?a \<rparr>)"
  have la: "last l \<noteq> ?a" "last l \<notin> set r" using fresh d(1) l by (auto dest: last_in_set)
  have "lpath ?h nx r None"
    using m(2) la fresh by (simp add: lpath_frame mnx del: fun_upd_apply)
  then have "lseg ?h (m_pFront q) (l @ ?a # r)"
    using nl(2) la by (auto simp: lseg_lpath lpath_append)
  moreover have "distinct (l @ ?a # r)" "\<forall>a \<in> set (l @ ?a # r). a < Suc (top_addr q)"
    using d fresh by (auto intro: less_SucI)
  ultimately have "queue_ok ((snd (new_node x p nx q))
        \<lparr> nodes := ?h, m_pBack := (if r = [] then Some ?a else m_pBack q) \<rparr>) (l @ ?a # r)"
    using d(3) by (auto simp: queue_ok_def new_node_def)
  moreover have "map (entry ?h) (l @ ?a # r) =
      map (entry (nodes q)) l @ (x, p) # map (entry (nodes q)) r"
    using nl(1) la fresh by (auto simp: entry_def)
  moreover have "set_next (nodes (snd (new_node x p nx q))) (Some (last l)) (Some ?a) = Some ?h"
    using nl(1) by (simp add: set_next_def new_node_def)
  ultimately show ?thesis by blast
qed


lemma takeWhile_map_entry:
  "takeWhile P (map f xs) = map f (takeWhile (P \<circ> f) xs)"
  "dropWhile P (map f xs) = map f (dropWhile (P \<circ> f) xs)"
  by (simp_all add: takeWhile_map dropWhile_map)

lemma append_node_ok:
  assumes "queue_ok q as" "as \<noteq> []"
  shows "\<exists>q'. append_node x p q = Some q' \<and> queue_ok q' (as @ [top_addr q]) \<and>
    map (entry (nodes q')) (as @ [top_addr q]) = map (entry (nodes q)) as @ [(x, p)] \<and>
    m_cMutex q' = m_cMutex q"
proof -
  have b: "m_pBack q = Some (last as)" using assms by (simp add: queue_ok_def)
  from insert_after_ok [of q as "[]" None x p] assms obtain h where
    "set_next (nodes (snd (new_node x p None q))) (Some (last as)) (Some (top_addr q)) = Some h"
    "queue_ok ((snd (new_node x p None q))\<lparr> nodes := h, m_pBack := Some (top_addr q) \<rparr>)
       (as @ [top_addr q])"
    "map (entry h) (as @ [top_addr q]) = map (entry (nodes q)) as @ [(x, p)]" by auto
  then show ?thesis using b by (auto simp: append_node_def new_node_def)
qed

lemma Enqueue_holds:
  assumes "holds q xs"
  shows "\<exists>q'. Enqueue True x p front q = Some (True, q') \<and> holds q' (enq x p front xs) \<and>
    m_cMutex q' = (if x \<in> fst ` set xs then Suc (m_cMutex q) else m_cMutex q)"
proof -
  from assms obtain as where ok: "queue_ok q as" and xs: "map (entry (nodes q)) as = xs"
    by (auto simp: holds_def)
  have seg: "lseg (nodes q) (m_pFront q) as" using ok by (simp add: queue_ok_def)
  have ok': "queue_ok (Lock q) as" using ok by simp
  show ?thesis
  proof (cases "as = []")
    case True
    then have e: "m_pFront q = None" "xs = []" using ok xs queue_ok_empty by auto
    let ?q = "Unlock ((snd (new_node x p None (Lock q)))
      \<lparr> m_pFront := Some (top_addr q), m_pBack := Some (top_addr q) \<rparr>)"
    have "queue_ok ?q [top_addr q]" by (simp add: queue_ok_def new_node_def)
    moreover have "map (entry (nodes ?q)) [top_addr q] = enq x p front xs"
      using e by (simp add: entry_def enq_def new_node_def)
    ultimately show ?thesis using e by (auto simp: Enqueue_def holds_def new_node_def Let_def)
  next
    case False
    then have ne: "m_pFront q \<noteq> None" using ok queue_ok_empty by auto
    have ex: "exists_from (nodes q) x (m_pFront q) = Some (x \<in> fst ` set xs)"
      using exists_from_lseg [OF seg] by (simp add: xs [symmetric])
    show ?thesis
    proof (cases "x \<in> fst ` set xs")
      case True
      then show ?thesis using ne ex assms
        by (auto simp: Enqueue_def Let_def enq_def)
    next
      case new: False
      define hi where "hi = takeWhile (\<lambda>a. snd (entry (nodes q) a) \<ge> p) as"
      define lo where "lo = dropWhile (\<lambda>a. snd (entry (nodes q) a) \<ge> p) as"
      have sp: "hi @ lo = as" by (simp add: hi_def lo_def)
      have front: "holds (Unlock ((snd (new_node x p (m_pFront q) (Lock q)))
            \<lparr> m_pFront := Some (top_addr q) \<rparr>)) ((x, p) # xs)"
        using push_front_ok [OF ok' False, of x p] xs queue_ok_fresh [OF ok]
        unfolding holds_def queue_ok_Lock
        by (intro exI [of _ "top_addr q # as"]) (auto simp: new_node_def entry_def)
      have enq: "enq x p front xs = (if front then (x, p) # xs
          else map (entry (nodes q)) hi @ (x, p) # map (entry (nodes q)) lo)"
        using new xs by (auto simp: enq_def takeWhile_map_entry comp_def hi_def lo_def)
      from append_node_ok [OF ok' False, of x p] obtain qa where
        qa: "append_node x p (Lock q) = Some qa" "queue_ok qa (as @ [top_addr q])"
          "map (entry (nodes qa)) (as @ [top_addr q]) = map (entry (nodes q)) as @ [(x, p)]"
          "m_cMutex qa = Suc (m_cMutex q)" by auto
      have atback: "holds (Unlock qa) (xs @ [(x, p)])"
        using qa xs unfolding holds_def queue_ok_Lock by (intro exI [of _ "as @ [top_addr q]"]) auto
      have ip: "insertion_point (nodes q) p (m_pFront q) (m_pFront q) =
          Some (if hi = [] then m_pFront q else Some (last hi),
                if lo = [] then None else Some (hd lo))"
        using insertion_point_lseg [OF seg] by (simp add: Let_def hi_def lo_def)
      consider (f) "front" | (min) "\<not> front" "p = m_uiMinPriority" | (at_end) "\<not> front" "p \<noteq> m_uiMinPriority" "lo = []"
        | (first) "\<not> front" "p \<noteq> m_uiMinPriority" "hi = []" "lo \<noteq> []"
        | (mid) "\<not> front" "p \<noteq> m_uiMinPriority" "hi \<noteq> []" "lo \<noteq> []" by blast
      then show ?thesis
      proof cases
        case f
        then show ?thesis using ne ex new front enq
          by (auto simp: Enqueue_def Let_def new_node_def)
      next
        case min
        then have e: "hi = as" "lo = []" by (auto simp: m_uiMinPriority_def hi_def lo_def)
        have "enq x p front xs = xs @ [(x, p)]"
          unfolding enq e xs using min(1) by simp
        then show ?thesis using ne ex new atback qa min
          by (auto simp: Enqueue_def Let_def)
      next
        case at_end
        then have e: "hi = as" using sp by simp
        have "enq x p front xs = xs @ [(x, p)]"
          unfolding enq e at_end(3) xs using at_end(1) by simp
        then show ?thesis using ne ex new atback qa at_end ip
          by (auto simp: Enqueue_def Let_def)
      next
        case first
        then have lo: "lo = as" using sp by simp
        then have "m_pFront q = Some (hd lo)" using seg False lseg_front by (cases as) auto
        then show ?thesis using ne ex new front enq first xs ip lo
          by (auto simp: Enqueue_def Let_def new_node_def)
      next
        case mid
        have "queue_ok (Lock q) (hi @ lo)" using ok' sp by simp
        from insert_after_ok [OF this mid(3), of "Some (hd lo)" x p] mid(4) obtain h where
          h: "set_next (nodes (snd (new_node x p (Some (hd lo)) (Lock q)))) (Some (last hi))
               (Some (top_addr q)) = Some h"
            "queue_ok ((snd (new_node x p (Some (hd lo)) (Lock q)))\<lparr> nodes := h,
               m_pBack := m_pBack q \<rparr>) (hi @ top_addr q # lo)"
            "map (entry h) (hi @ top_addr q # lo) =
               map (entry (nodes q)) hi @ (x, p) # map (entry (nodes q)) lo" by auto
        have "m_pFront q \<noteq> Some (hd lo)"
        proof -
          have "distinct (hi @ lo)" using ok sp by (simp add: queue_ok_def)
          moreover have "m_pFront q = Some (hd hi)" using seg lseg_front mid(3) sp by (cases hi) auto
          moreover have "hd hi \<in> set hi" "hd lo \<in> set lo" using mid by auto
          ultimately show ?thesis by auto
        qed
        moreover have "holds (Unlock ((snd (new_node x p (Some (hd lo)) (Lock q)))\<lparr> nodes := h \<rparr>))
            (enq x p front xs)"
          using h(2,3) enq mid(1) unfolding holds_def
          by (intro exI [of _ "hi @ top_addr q # lo"]) (simp add: queue_ok_def new_node_def)
        ultimately show ?thesis using ne ex new mid ip h(1)
          by (auto simp: Enqueue_def Let_def new_node_def)
      qed
    qed
  qed
qed


lemma deq_obj_split:
  "deq_obj x xs = takeWhile (\<lambda>e. fst e \<noteq> x) xs @ tl (dropWhile (\<lambda>e. fst e \<noteq> x) xs)"
  by (induction xs) auto

lemma remove_after_ok:
  assumes ok: "queue_ok q (l @ a # r)" and l: "l \<noteq> []"
    and n: "nodes q a = Some n" and nx: "nx = (if r = [] then None else Some (hd r))"
  shows "m_pNext n = nx \<and> (\<exists>h. set_next (nodes q) (Some (last l)) nx = Some h \<and>
    queue_ok (q\<lparr> nodes := h(a := None), m_pBack := (if r = [] then Some (last l) else m_pBack q) \<rparr>)
      (l @ r) \<and>
    map (entry (h(a := None))) (l @ r) = map (entry (nodes q)) (l @ r))"
proof -
  from ok obtain m where m: "lpath (nodes q) (m_pFront q) l m" "m = Some a"
      "lpath (nodes q) (m_pNext n) r None"
    and d: "distinct (l @ a # r)" "\<forall>b \<in> set (l @ a # r). b < top_addr q"
      "m_pBack q = Some (last (l @ a # r))"
    using n by (auto simp: queue_ok_def lseg_lpath lpath_append)
  have mnx: "m_pNext n = nx" using m(3) nx by (cases r) auto
  have "distinct l" using d by simp
  then obtain nl where nl: "nodes q (last l) = Some nl"
    "lpath ((nodes q)(last l \<mapsto> nl\<lparr> m_pNext := nx \<rparr>)) (m_pFront q) l nx"
    using lpath_relink [OF m(1) l] by blast
  let ?h = "(nodes q)(last l \<mapsto> nl\<lparr> m_pNext := nx \<rparr>)"
  have la: "last l \<noteq> a" "last l \<notin> set r" "a \<notin> set l" "a \<notin> set r"
    using d(1) l by (auto dest: last_in_set)
  have "lpath (?h(a := None)) nx r None"
    using m(3) la by (simp add: lpath_frame mnx del: fun_upd_apply)
  moreover have "lpath (?h(a := None)) (m_pFront q) l nx"
    using nl(2) la by (simp add: lpath_frame del: fun_upd_apply)
  ultimately have "lseg (?h(a := None)) (m_pFront q) (l @ r)"
    unfolding lseg_lpath lpath_append by blast
  then have "queue_ok (q\<lparr> nodes := ?h(a := None),
      m_pBack := (if r = [] then Some (last l) else m_pBack q) \<rparr>) (l @ r)"
    using d l by (auto simp: queue_ok_def)
  moreover have "map (entry (?h(a := None))) (l @ r) = map (entry (nodes q)) (l @ r)"
    using nl(1) la by (auto simp: entry_def)
  moreover have "set_next (nodes q) (Some (last l)) nx = Some ?h"
    using nl(1) by (simp add: set_next_def)
  ultimately show ?thesis using mnx by blast
qed

lemma DequeueByObj_holds:
  assumes "holds q xs"
  shows "\<exists>q'. DequeueByObj x q = Some (x \<in> fst ` set xs, q') \<and> holds q' (deq_obj x xs) \<and>
    m_cMutex q' = m_cMutex q"
proof -
  from assms obtain as where ok: "queue_ok q as" and xs: "map (entry (nodes q)) as = xs"
    by (auto simp: holds_def)
  have seg: "lseg (nodes q) (m_pFront q) as" using ok by (simp add: queue_ok_def)
  let ?P = "\<lambda>a. fst (entry (nodes q) a) \<noteq> x"
  let ?l = "takeWhile ?P as" let ?r = "dropWhile ?P as"
  have deq: "deq_obj x xs = map (entry (nodes q)) (?l @ tl ?r)"
    by (simp add: deq_obj_split xs [symmetric] takeWhile_map_entry comp_def map_tl)
  have mf: "match_from (nodes q) x (m_pFront q) (m_pFront q) =
      Some (if ?r = [] then None else Some (if ?l = [] then m_pFront q else Some (last ?l), hd ?r))"
    using match_from_lseg [OF seg] by (simp add: Let_def)
  have found: "x \<in> fst ` set xs \<longleftrightarrow> ?r \<noteq> []"
    by (auto simp: xs [symmetric] dropWhile_eq_Nil_conv image_iff)
  show ?thesis
  proof (cases "?r = []")
    case True
    then have l: "?l = as" by (metis append.right_neutral takeWhile_dropWhile_id)
    have deq: "deq_obj x xs = xs" using deq l xs unfolding True by simp
    show ?thesis
    proof (cases "m_pFront q = None")
      case True
      then have "xs = []" using holds_empty [OF assms] by simp
      then show ?thesis using True assms by (auto simp: DequeueByObj_def Let_def)
    next
      case False
      then show ?thesis using True mf found deq l assms xs
        by (auto simp: DequeueByObj_def Let_def)
    qed
  next
    case False
    then obtain a r where r: "?r = a # r" by (cases ?r) auto
    have as: "as = ?l @ a # r" using r by (metis takeWhile_dropWhile_id)
    have ne: "m_pFront q \<noteq> None" using ok queue_ok_empty as by (metis append_is_Nil_conv list.discI)
    have "lseg (nodes q) (m_pFront q) (?l @ a # r)" using seg as by simp
    then obtain n where n: "nodes q a = Some n" using lseg_dom [of _ _ _ a] by (metis in_set_conv_decomp)
    have okl: "queue_ok (Lock q) (?l @ a # r)" using ok as by simp
    show ?thesis
    proof (cases "?l = []")
      case True
      then have as1: "as = a # r" using as by simp
      then have f: "m_pFront q = Some a" "lseg (nodes q) (m_pNext n) r" "a \<notin> set r" "distinct r"
        "\<forall>b \<in> set r. b < top_addr q" "m_pBack q = Some (last (a # r))"
        using ok n by (auto simp: queue_ok_def)
      have one: "m_pBack q = Some a \<longleftrightarrow> r = []" using f by (auto dest: last_in_set)
      let ?q = "Unlock ((if m_pBack q = Some a then (Lock q)\<lparr> m_pFront := None, m_pBack := None \<rparr>
        else (Lock q)\<lparr> m_pFront := m_pNext n \<rparr>)\<lparr> nodes := (nodes q)(a := None) \<rparr>)"
      have "queue_ok ?q r" using f one lseg_front [OF f(2)] by (auto simp: queue_ok_def lseg_frame)
      moreover have "map (entry (nodes ?q)) r = deq_obj x xs"
        using f deq True r by (auto simp: map_entry_frame)
      ultimately have "holds ?q (deq_obj x xs)" unfolding holds_def by blast
      moreover have "DequeueByObj x q = Some (True, ?q)"
        using ne mf True False r n f one by (auto simp: DequeueByObj_def Let_def)
      ultimately show ?thesis using found False by auto
    next
      case l: False
      from remove_after_ok [OF okl l, of n "if r = [] then None else Some (hd r)"] n obtain h where
        h: "m_pNext n = (if r = [] then None else Some (hd r))"
          "set_next (nodes q) (Some (last ?l)) (if r = [] then None else Some (hd r)) = Some h"
          "queue_ok ((Lock q)\<lparr> nodes := h(a := None),
             m_pBack := (if r = [] then Some (last ?l) else m_pBack (Lock q)) \<rparr>) (?l @ r)"
          "map (entry (h(a := None))) (?l @ r) = map (entry (nodes q)) (?l @ r)" by auto
      have d: "distinct (?l @ a # r)" using ok as by (simp add: queue_ok_def)
      have front: "m_pFront q \<noteq> Some a"
      proof -
        have "m_pFront q = Some (hd ?l)" using seg lseg_front l by (cases as) (auto split: if_splits)
        moreover have "hd ?l \<in> set ?l" using l by simp
        ultimately show ?thesis using d by auto
      qed
      have "m_pBack q = Some (last (?l @ a # r))" using okl by (simp add: queue_ok_def)
      then have atback: "m_pBack q = Some a \<longleftrightarrow> r = []" using d by (auto dest: last_in_set)
      let ?q = "Unlock ((Lock q)\<lparr> nodes := h(a := None),
             m_pBack := (if r = [] then Some (last ?l) else m_pBack q) \<rparr>)"
      have "holds ?q (deq_obj x xs)"
        using h(3,4) deq r unfolding holds_def by (intro exI [of _ "?l @ r"]) (cases "r = []"; auto)
      moreover have "DequeueByObj x q = Some (True, ?q)"
        using ne mf l r n front atback h(1,2) by (auto simp: DequeueByObj_def Let_def)
      ultimately show ?thesis using found False by auto
    qed
  qed
qed

section \<open>The order of the list\<close>

abbreviation desc :: "('a \<times> u32) list \<Rightarrow> bool" where
  "desc xs \<equiv> sorted_wrt (\<lambda>a b. snd a \<ge> snd b) xs"

lemma enq_set: "fst ` set (enq x p f xs) = insert x (fst ` set xs)"
proof -
  have "set xs = set (takeWhile P xs) \<union> set (dropWhile P xs)" for P
    by (metis set_append takeWhile_dropWhile_id)
  from this [of "\<lambda>e. snd e \<ge> p"] show ?thesis by (auto simp: enq_def image_Un)
qed

lemma enq_mset: "x \<notin> fst ` set xs \<Longrightarrow> mset (enq x p f xs) = add_mset (x, p) (mset xs)"
proof -
  have "mset xs = mset (takeWhile P xs) + mset (dropWhile P xs)" for P
    by (metis mset_append takeWhile_dropWhile_id)
  from this [of "\<lambda>e. snd e \<ge> p"] show "x \<notin> fst ` set xs \<Longrightarrow> ?thesis" by (simp add: enq_def)
qed

lemma enq_distinct:
  assumes "distinct (map fst xs)"
  shows "distinct (map fst (enq x p f xs))"
proof (cases "x \<in> fst ` set xs")
  case False
  then have "mset (map fst (enq x p f xs)) = mset (x # map fst xs)"
    by (simp add: enq_mset)
  then have "distinct (map fst (enq x p f xs)) = distinct (x # map fst xs)"
    by (rule mset_eq_imp_distinct_iff)
  then show ?thesis using assms False by simp
qed (use assms in \<open>simp add: enq_def\<close>)

lemma enq_desc: "desc xs \<Longrightarrow> desc (enq x p False xs)"
proof (induction xs)
  case (Cons e es)
  show ?case
  proof (cases "x \<in> fst ` set (e # es)")
    case False
    have "\<forall>c \<in> set (e # es). snd c \<le> snd e" using Cons.prems by auto
    moreover have "desc (enq x p False es)" using Cons by simp
    moreover have "set (enq x p False es) = insert (x, p) (set es)"
      using enq_mset [of x es p False] False by (metis image_insert insert_iff list.simps(15) set_mset_add_mset_insert set_mset_mset)
    ultimately show ?thesis using False Cons.prems
      by (auto simp: enq_def split: if_splits)
  qed (use Cons.prems in \<open>simp add: enq_def\<close>)
qed (simp add: enq_def)

lemma enq_filter:
  assumes "desc xs" "x \<notin> fst ` set xs"
  shows "filter (\<lambda>e. snd e = k) (enq x p False xs) =
    filter (\<lambda>e. snd e = k) xs @ (if p = k then [(x, p)] else [])"
  using assms
proof (induction xs)
  case (Cons e es)
  then have IH: "filter (\<lambda>e. snd e = k) (enq x p False es) =
    filter (\<lambda>e. snd e = k) es @ (if p = k then [(x, p)] else [])" by simp
  show ?case
  proof (cases "snd e \<ge> p")
    case True
    then have "enq x p False (e # es) = e # enq x p False es" using Cons.prems by (simp add: enq_def)
    then show ?thesis using IH by simp
  next
    case False
    then have "\<forall>c \<in> set (e # es). snd c \<noteq> p" using Cons.prems by fastforce
    then have "p = k \<Longrightarrow> filter (\<lambda>e. snd e = k) (e # es) = []" by (auto simp: filter_empty_conv)
    then show ?thesis using False Cons.prems by (auto simp: enq_def)
  qed
qed (simp add: enq_def)

text \<open>Enqueueing one after the other is a stable sort by descending priority.\<close>

definition rank :: "'a \<times> u32 \<Rightarrow> int" where
  "rank e = - uint (snd e)"

lemma rank_sorted: "sorted (map rank xs) \<longleftrightarrow> desc xs"
  by (simp add: sorted_wrt_map rank_def word_le_def)

lemma rank_eq: "rank k = rank e \<longleftrightarrow> snd e = snd k"
  by (auto simp: rank_def word_uint_eq_iff)

lemma foldl_enq_sort:
  assumes "distinct (map fst es)"
  shows "foldl (\<lambda>xs e. enq (fst e) (snd e) False xs) [] es = sort_key rank es"
proof -
  let ?f = "\<lambda>xs e. enq (fst e) (snd e) False xs"
  have "desc (foldl ?f [] es) \<and> mset (foldl ?f [] es) = mset es \<and>
    (\<forall>k. filter (\<lambda>e. snd e = k) (foldl ?f [] es) = filter (\<lambda>e. snd e = k) es)"
    using assms
  proof (induction es rule: rev_induct)
    case (snoc e es)
    have d: "distinct (map fst es)" and new: "fst e \<notin> fst ` set es" using snoc.prems by simp_all
    note IH = snoc.IH [OF d, THEN conjunct1] snoc.IH [OF d, THEN conjunct2, THEN conjunct1]
      snoc.IH [OF d, THEN conjunct2, THEN conjunct2]
    have "set (foldl ?f [] es) = set es" using IH(2) by (rule mset_eq_setD)
    then have "fst e \<notin> fst ` set (foldl ?f [] es)" using new by simp
    with IH enq_filter [OF IH(1) this] show ?case by (simp add: enq_desc enq_mset)
  qed simp
  then have "desc (foldl ?f [] es)" "mset (foldl ?f [] es) = mset es"
    "filter (\<lambda>e. rank k = rank e) (foldl ?f [] es) = filter (\<lambda>e. rank k = rank e) es" for k
    by (simp_all add: rank_eq)
  then show ?thesis
    by (intro properties_for_sort_key [symmetric]) (simp_all only: rank_sorted)
qed

section \<open>The interface the threads use\<close>

fun enqueue_all ::
    "('a \<Rightarrow> u32 \<Rightarrow> bool \<Rightarrow> 'q \<Rightarrow> (bool \<times> 'q) option) \<Rightarrow> ('a \<times> u32) list \<Rightarrow> 'q \<Rightarrow> 'q option" where
  "enqueue_all enqf [] q = Some q"
| "enqueue_all enqf (e # es) q =
     (case enqf (fst e) (snd e) False q of
        Some (True, q) \<Rightarrow> enqueue_all enqf es q
      | _ \<Rightarrow> None)"

fun drain :: "('q \<Rightarrow> ('a option \<times> 'q) option) \<Rightarrow> nat \<Rightarrow> 'q \<Rightarrow> ('a list \<times> 'q) option" where
  "drain deqf 0 q = Some ([], q)"
| "drain deqf (Suc n) q =
     (case deqf q of
        Some (Some x, q) \<Rightarrow> map_option (\<lambda>(xs, q). (x # xs, q)) (drain deqf n q)
      | _ \<Rightarrow> None)"

locale prio_queue =
  fixes rep :: "'q \<Rightarrow> ('a \<times> u32) list \<Rightarrow> bool"
    and enqueue :: "'a \<Rightarrow> u32 \<Rightarrow> bool \<Rightarrow> 'q \<Rightarrow> (bool \<times> 'q) option"
    and dequeue :: "'q \<Rightarrow> ('a option \<times> 'q) option"
  assumes enqueue_rep: "rep q xs \<Longrightarrow>
      \<exists>q'. enqueue x p f q = Some (True, q') \<and> rep q' (enq x p f xs)"
    and dequeue_rep: "rep q xs \<Longrightarrow>
      \<exists>q'. dequeue q = Some (if xs = [] then None else Some (fst (hd xs)), q') \<and> rep q' (tl xs)"
begin

lemma enqueue_all_rep:
  "rep q xs \<Longrightarrow> \<exists>q'. enqueue_all enqueue es q = Some q' \<and>
     rep q' (foldl (\<lambda>xs e. enq (fst e) (snd e) False xs) xs es)"
proof (induction es arbitrary: q xs)
  case (Cons e es)
  from enqueue_rep [OF Cons.prems, of "fst e" "snd e" False] obtain q1 where
    "enqueue (fst e) (snd e) False q = Some (True, q1)"
    "rep q1 (enq (fst e) (snd e) False xs)" by blast
  with Cons.IH [of q1] show ?case by simp
qed simp

lemma drain_rep:
  "rep q xs \<Longrightarrow> \<exists>q'. drain dequeue (length xs) q = Some (map fst xs, q') \<and> rep q' []"
proof (induction xs arbitrary: q)
  case (Cons x xs)
  from dequeue_rep [OF Cons.prems] obtain q1 where
    "dequeue q = Some (Some (fst x), q1)" "rep q1 xs" by auto
  with Cons.IH [of q1] show ?case by auto
qed auto

lemma served_in_order:
  assumes "rep q []" "distinct (map fst es)"
  shows "\<exists>q1 q2. enqueue_all enqueue es q = Some q1 \<and>
    drain dequeue (length es) q1 = Some (map fst (sort_key rank es), q2) \<and> rep q2 []"
proof -
  from enqueue_all_rep [OF assms(1), of es] foldl_enq_sort [OF assms(2)] obtain q1 where
    "enqueue_all enqueue es q = Some q1" "rep q1 (sort_key rank es)" by auto
  with drain_rep [of q1 "sort_key rank es"] show ?thesis by auto
qed

end

interpretation rilqueue: prio_queue holds "Enqueue True" Dequeue
proof unfold_locales
  show "\<exists>q'. Enqueue True x p f q = Some (True, q') \<and> holds q' (enq x p f xs)"
    if "holds q xs" for q :: "'a CRilQueue" and xs x p f
    using Enqueue_holds [OF that, of x p f] by blast
  show "\<exists>q'. Dequeue q = Some (if xs = [] then None else Some (fst (hd xs)), q') \<and> holds q' (tl xs)"
    if "holds q xs" for q :: "'a CRilQueue" and xs
    using Dequeue_holds [OF that] by blast
qed

lemma holds_new: "holds (new_queue d) []"
  by (auto simp: holds_def queue_ok_def new_queue_def)

section \<open>Properties\<close>

text \<open>
  C6. The queue is a stable priority queue: requests with distinct objects that are enqueued
  into a fresh queue in any order of priorities come out by falling priority, and in the
  order they came in where the priority is the same; each exactly once, and the emptied
  queue is well formed. (Every operation terminates and follows only live nodes.)
\<close>

theorem queue_serves_by_priority:
  assumes "distinct (map fst es)"
  shows "\<exists>q1 q2. enqueue_all (Enqueue True) es (new_queue d) = Some q1 \<and>
    drain Dequeue (length es) q1 = Some (map fst (sort_key rank es), q2) \<and> holds q2 []"
  using rilqueue.served_in_order [OF holds_new assms] .

theorem queue_serves_by_priority_witness:
  "\<exists>q1 q2. enqueue_all (Enqueue True) [(''a'', 1), (''b'', 7), (''c'', 1), (''d'', 7)] (new_queue False) = Some q1 \<and>
    drain Dequeue 4 q1 = Some ([''b'', ''d'', ''a'', ''c''], q2)"
proof -
  let ?es = "[(''a'', 1), (''b'', 7), (''c'', 1), (''d'', 7 :: u32)]"
  have o: "map fst (sort_key rank ?es) = [''b'', ''d'', ''a'', ''c'']" and l: "length ?es = 4" "distinct (map fst ?es)"
    by (simp_all add: rank_def)
  show ?thesis using queue_serves_by_priority [OF l(2), of False] unfolding o l(1) by blast
qed

text \<open>
  Enqueuing an object that is already queued leaves the contents alone and reports
  success, but the path returns without the \<open>Unlock\<close> every other path has: the recursive
  mutex stays one level deeper, so no other thread can take it again.
\<close>

theorem Enqueue_existing_keeps_lock:
  assumes "holds q xs" "x \<in> fst ` set xs"
  shows "\<exists>q'. Enqueue True x p front q = Some (True, q') \<and> holds q' xs \<and> m_cMutex q' = Suc (m_cMutex q)"
  using Enqueue_holds [OF assms(1), of x p front] assms(2) by (auto simp: enq_def)

theorem Enqueue_existing_keeps_lock_witness:
  "\<exists>q q'. Enqueue True ''a'' 5 False (new_queue False) = Some (True, q) \<and> m_cMutex q = 0 \<and>
     Enqueue True ''a'' 3 False q = Some (True, q') \<and> m_cMutex q' = 1"
proof -
  obtain q where q: "Enqueue True ''a'' 5 False (new_queue False) = Some (True, q)" "holds q [(''a'', 5)]"
    "m_cMutex q = 0"
    using Enqueue_holds [OF holds_new, of "''a''" 5 False False] by (auto simp: enq_def new_queue_def)
  with Enqueue_existing_keeps_lock [of q "[(''a'', 5)]" "''a''" 3 False] show ?thesis by auto
qed

lemma deq_obj_filter:
  "distinct (map fst xs) \<Longrightarrow> deq_obj x xs = filter (\<lambda>e. fst e \<noteq> x) xs"
proof (induction xs)
  case (Cons e es)
  have "fst e \<notin> fst ` set es \<Longrightarrow> filter (\<lambda>a. fst a \<noteq> fst e) es = es"
    by (auto simp: filter_id_conv image_iff)
  with Cons show ?case by auto
qed simp

text \<open>
  C17. \<open>DequeueByObj\<close> takes exactly the given object out of the list, wherever it is (front,
  middle, back or the only node), reports whether it was there, keeps the order of the others,
  and releases the lock it took; and \<open>GetAllQueuedObjects\<close> then lists exactly the others.
\<close>

theorem DequeueByObj_removes:
  assumes "holds q xs" "distinct (map fst xs)"
  shows "\<exists>q'. DequeueByObj x q = Some (x \<in> fst ` set xs, q') \<and> m_cMutex q' = m_cMutex q \<and>
    holds q' (filter (\<lambda>e. fst e \<noteq> x) xs) \<and>
    GetAllQueuedObjects True q' =
      Some (let ys = filter (\<lambda>y. y \<noteq> x) (map fst xs) in (if ys = [] then None else Some ys, length ys, q'))"
proof -
  obtain q' where q': "DequeueByObj x q = Some (x \<in> fst ` set xs, q')" "m_cMutex q' = m_cMutex q"
    and h: "holds q' (filter (\<lambda>e. fst e \<noteq> x) xs)"
    using DequeueByObj_holds [OF assms(1), of x] deq_obj_filter [OF assms(2), of x] by auto
  from GetAllQueuedObjects_holds [OF h, of True] q' h show ?thesis
    by (simp add: filter_map o_def Let_def)
qed

theorem DequeueByObj_removes_witness:
  "\<exists>q q'. Enqueue True ''a'' 5 False (new_queue False) = Some (True, q) \<and>
     DequeueByObj ''a'' q = Some (True, q') \<and> holds q' [] \<and> m_cMutex q' = 0"
proof -
  obtain q where q: "Enqueue True ''a'' 5 False (new_queue False) = Some (True, q)" "holds q [(''a'', 5)]"
    "m_cMutex q = 0"
    using Enqueue_holds [OF holds_new, of "''a''" 5 False False] by (auto simp: enq_def new_queue_def)
  with DequeueByObj_removes [of q "[(''a'', 5)]" "''a''"] show ?thesis by auto
qed

end
