(* ===== verification/Requests.thy ===== *)
theory Requests
  imports RilPrelude
begin

text \<open>
  The requests the radio interface layer serves: their numbers, the tables of names and
  channels (\<open>CORE/request_info.cpp\<close>), and the lookup of the time a request may take, with its
  cache (\<open>CORE/request_info_table.cpp\<close>). The repository file the timeouts come from and the
  product configuration are fields of \<open>request_config\<close>.

  A request number is the position of the request in \<open>libril/ril_commands.h\<close>, which is how
  \<open>libril\<close> indexes that table.
\<close>

section \<open>Channels and request numbers\<close>

abbreviation (input) RIL_CHANNEL_ATCMD :: nat where "RIL_CHANNEL_ATCMD \<equiv> 0"
abbreviation (input) RIL_CHANNEL_DLC2 :: nat where "RIL_CHANNEL_DLC2 \<equiv> 1"
abbreviation (input) RIL_CHANNEL_DLC6 :: nat where "RIL_CHANNEL_DLC6 \<equiv> 2"
abbreviation (input) RIL_CHANNEL_DLC8 :: nat where "RIL_CHANNEL_DLC8 \<equiv> 3"
abbreviation (input) RIL_CHANNEL_URC :: nat where "RIL_CHANNEL_URC \<equiv> 4"
abbreviation (input) RIL_CHANNEL_OEM :: nat where "RIL_CHANNEL_OEM \<equiv> 5"
abbreviation (input) RIL_CHANNEL_DLC22 :: nat where "RIL_CHANNEL_DLC22 \<equiv> 6"
abbreviation (input) RIL_CHANNEL_DLC23 :: nat where "RIL_CHANNEL_DLC23 \<equiv> 7"
abbreviation (input) RIL_CHANNEL_SMS :: nat where "RIL_CHANNEL_SMS \<equiv> 8"
abbreviation (input) RIL_CHANNEL_DATA1 :: nat where "RIL_CHANNEL_DATA1 \<equiv> 9"
abbreviation (input) RIL_CHANNEL_MAX :: nat where "RIL_CHANNEL_MAX \<equiv> 14"
abbreviation (input) RIL_CHANNEL_RESERVED :: nat where "RIL_CHANNEL_RESERVED \<equiv> 555"

abbreviation (input) RIL_REQUEST_GET_SIM_STATUS :: int where "RIL_REQUEST_GET_SIM_STATUS \<equiv> 1"
abbreviation (input) RIL_REQUEST_ENTER_SIM_PIN :: int where "RIL_REQUEST_ENTER_SIM_PIN \<equiv> 2"
abbreviation (input) RIL_REQUEST_ENTER_SIM_PUK :: int where "RIL_REQUEST_ENTER_SIM_PUK \<equiv> 3"
abbreviation (input) RIL_REQUEST_ENTER_SIM_PIN2 :: int where "RIL_REQUEST_ENTER_SIM_PIN2 \<equiv> 4"
abbreviation (input) RIL_REQUEST_ENTER_SIM_PUK2 :: int where "RIL_REQUEST_ENTER_SIM_PUK2 \<equiv> 5"
abbreviation (input) RIL_REQUEST_CHANGE_SIM_PIN :: int where "RIL_REQUEST_CHANGE_SIM_PIN \<equiv> 6"
abbreviation (input) RIL_REQUEST_CHANGE_SIM_PIN2 :: int where "RIL_REQUEST_CHANGE_SIM_PIN2 \<equiv> 7"
abbreviation (input) RIL_REQUEST_ENTER_NETWORK_DEPERSONALIZATION :: int where
  "RIL_REQUEST_ENTER_NETWORK_DEPERSONALIZATION \<equiv> 8"
abbreviation (input) RIL_REQUEST_GET_CURRENT_CALLS :: int where "RIL_REQUEST_GET_CURRENT_CALLS \<equiv> 9"
abbreviation (input) RIL_REQUEST_DIAL :: int where "RIL_REQUEST_DIAL \<equiv> 10"
abbreviation (input) RIL_REQUEST_GET_IMSI :: int where "RIL_REQUEST_GET_IMSI \<equiv> 11"
abbreviation (input) RIL_REQUEST_HANGUP :: int where "RIL_REQUEST_HANGUP \<equiv> 12"
abbreviation (input) RIL_REQUEST_HANGUP_WAITING_OR_BACKGROUND :: int where
  "RIL_REQUEST_HANGUP_WAITING_OR_BACKGROUND \<equiv> 13"
abbreviation (input) RIL_REQUEST_HANGUP_FOREGROUND_RESUME_BACKGROUND :: int where
  "RIL_REQUEST_HANGUP_FOREGROUND_RESUME_BACKGROUND \<equiv> 14"
abbreviation (input) RIL_REQUEST_SWITCH_WAITING_OR_HOLDING_AND_ACTIVE :: int where
  "RIL_REQUEST_SWITCH_WAITING_OR_HOLDING_AND_ACTIVE \<equiv> 15"
abbreviation (input) RIL_REQUEST_CONFERENCE :: int where "RIL_REQUEST_CONFERENCE \<equiv> 16"
abbreviation (input) RIL_REQUEST_UDUB :: int where "RIL_REQUEST_UDUB \<equiv> 17"
abbreviation (input) RIL_REQUEST_LAST_CALL_FAIL_CAUSE :: int where
  "RIL_REQUEST_LAST_CALL_FAIL_CAUSE \<equiv> 18"
abbreviation (input) RIL_REQUEST_SIGNAL_STRENGTH :: int where "RIL_REQUEST_SIGNAL_STRENGTH \<equiv> 19"
abbreviation (input) RIL_REQUEST_VOICE_REGISTRATION_STATE :: int where
  "RIL_REQUEST_VOICE_REGISTRATION_STATE \<equiv> 20"
abbreviation (input) RIL_REQUEST_DATA_REGISTRATION_STATE :: int where
  "RIL_REQUEST_DATA_REGISTRATION_STATE \<equiv> 21"
abbreviation (input) RIL_REQUEST_OPERATOR :: int where "RIL_REQUEST_OPERATOR \<equiv> 22"
abbreviation (input) RIL_REQUEST_RADIO_POWER :: int where "RIL_REQUEST_RADIO_POWER \<equiv> 23"
abbreviation (input) RIL_REQUEST_DTMF :: int where "RIL_REQUEST_DTMF \<equiv> 24"
abbreviation (input) RIL_REQUEST_SEND_SMS :: int where "RIL_REQUEST_SEND_SMS \<equiv> 25"
abbreviation (input) RIL_REQUEST_SEND_SMS_EXPECT_MORE :: int where
  "RIL_REQUEST_SEND_SMS_EXPECT_MORE \<equiv> 26"
abbreviation (input) RIL_REQUEST_SETUP_DATA_CALL :: int where "RIL_REQUEST_SETUP_DATA_CALL \<equiv> 27"
abbreviation (input) RIL_REQUEST_SIM_IO :: int where "RIL_REQUEST_SIM_IO \<equiv> 28"
abbreviation (input) RIL_REQUEST_SEND_USSD :: int where "RIL_REQUEST_SEND_USSD \<equiv> 29"
abbreviation (input) RIL_REQUEST_CANCEL_USSD :: int where "RIL_REQUEST_CANCEL_USSD \<equiv> 30"
abbreviation (input) RIL_REQUEST_GET_CLIR :: int where "RIL_REQUEST_GET_CLIR \<equiv> 31"
abbreviation (input) RIL_REQUEST_SET_CLIR :: int where "RIL_REQUEST_SET_CLIR \<equiv> 32"
abbreviation (input) RIL_REQUEST_QUERY_CALL_FORWARD_STATUS :: int where
  "RIL_REQUEST_QUERY_CALL_FORWARD_STATUS \<equiv> 33"
abbreviation (input) RIL_REQUEST_SET_CALL_FORWARD :: int where "RIL_REQUEST_SET_CALL_FORWARD \<equiv> 34"
abbreviation (input) RIL_REQUEST_QUERY_CALL_WAITING :: int where "RIL_REQUEST_QUERY_CALL_WAITING \<equiv> 35"
abbreviation (input) RIL_REQUEST_SET_CALL_WAITING :: int where "RIL_REQUEST_SET_CALL_WAITING \<equiv> 36"
abbreviation (input) RIL_REQUEST_SMS_ACKNOWLEDGE :: int where "RIL_REQUEST_SMS_ACKNOWLEDGE \<equiv> 37"
abbreviation (input) RIL_REQUEST_GET_IMEI :: int where "RIL_REQUEST_GET_IMEI \<equiv> 38"
abbreviation (input) RIL_REQUEST_GET_IMEISV :: int where "RIL_REQUEST_GET_IMEISV \<equiv> 39"
abbreviation (input) RIL_REQUEST_ANSWER :: int where "RIL_REQUEST_ANSWER \<equiv> 40"
abbreviation (input) RIL_REQUEST_DEACTIVATE_DATA_CALL :: int where
  "RIL_REQUEST_DEACTIVATE_DATA_CALL \<equiv> 41"
abbreviation (input) RIL_REQUEST_QUERY_FACILITY_LOCK :: int where
  "RIL_REQUEST_QUERY_FACILITY_LOCK \<equiv> 42"
abbreviation (input) RIL_REQUEST_SET_FACILITY_LOCK :: int where "RIL_REQUEST_SET_FACILITY_LOCK \<equiv> 43"
abbreviation (input) RIL_REQUEST_CHANGE_BARRING_PASSWORD :: int where
  "RIL_REQUEST_CHANGE_BARRING_PASSWORD \<equiv> 44"
abbreviation (input) RIL_REQUEST_QUERY_NETWORK_SELECTION_MODE :: int where
  "RIL_REQUEST_QUERY_NETWORK_SELECTION_MODE \<equiv> 45"
abbreviation (input) RIL_REQUEST_SET_NETWORK_SELECTION_AUTOMATIC :: int where
  "RIL_REQUEST_SET_NETWORK_SELECTION_AUTOMATIC \<equiv> 46"
abbreviation (input) RIL_REQUEST_SET_NETWORK_SELECTION_MANUAL :: int where
  "RIL_REQUEST_SET_NETWORK_SELECTION_MANUAL \<equiv> 47"
abbreviation (input) RIL_REQUEST_QUERY_AVAILABLE_NETWORKS :: int where
  "RIL_REQUEST_QUERY_AVAILABLE_NETWORKS \<equiv> 48"
abbreviation (input) RIL_REQUEST_DTMF_START :: int where "RIL_REQUEST_DTMF_START \<equiv> 49"
abbreviation (input) RIL_REQUEST_DTMF_STOP :: int where "RIL_REQUEST_DTMF_STOP \<equiv> 50"
abbreviation (input) RIL_REQUEST_BASEBAND_VERSION :: int where "RIL_REQUEST_BASEBAND_VERSION \<equiv> 51"
abbreviation (input) RIL_REQUEST_SEPARATE_CONNECTION :: int where
  "RIL_REQUEST_SEPARATE_CONNECTION \<equiv> 52"
abbreviation (input) RIL_REQUEST_SET_MUTE :: int where "RIL_REQUEST_SET_MUTE \<equiv> 53"
abbreviation (input) RIL_REQUEST_GET_MUTE :: int where "RIL_REQUEST_GET_MUTE \<equiv> 54"
abbreviation (input) RIL_REQUEST_QUERY_CLIP :: int where "RIL_REQUEST_QUERY_CLIP \<equiv> 55"
abbreviation (input) RIL_REQUEST_LAST_DATA_CALL_FAIL_CAUSE :: int where
  "RIL_REQUEST_LAST_DATA_CALL_FAIL_CAUSE \<equiv> 56"
abbreviation (input) RIL_REQUEST_DATA_CALL_LIST :: int where "RIL_REQUEST_DATA_CALL_LIST \<equiv> 57"
abbreviation (input) RIL_REQUEST_RESET_RADIO :: int where "RIL_REQUEST_RESET_RADIO \<equiv> 58"
abbreviation (input) RIL_REQUEST_OEM_HOOK_RAW :: int where "RIL_REQUEST_OEM_HOOK_RAW \<equiv> 59"
abbreviation (input) RIL_REQUEST_OEM_HOOK_STRINGS :: int where "RIL_REQUEST_OEM_HOOK_STRINGS \<equiv> 60"
abbreviation (input) RIL_REQUEST_SCREEN_STATE :: int where "RIL_REQUEST_SCREEN_STATE \<equiv> 61"
abbreviation (input) RIL_REQUEST_SET_SUPP_SVC_NOTIFICATION :: int where
  "RIL_REQUEST_SET_SUPP_SVC_NOTIFICATION \<equiv> 62"
abbreviation (input) RIL_REQUEST_WRITE_SMS_TO_SIM :: int where "RIL_REQUEST_WRITE_SMS_TO_SIM \<equiv> 63"
abbreviation (input) RIL_REQUEST_DELETE_SMS_ON_SIM :: int where "RIL_REQUEST_DELETE_SMS_ON_SIM \<equiv> 64"
abbreviation (input) RIL_REQUEST_SET_BAND_MODE :: int where "RIL_REQUEST_SET_BAND_MODE \<equiv> 65"
abbreviation (input) RIL_REQUEST_QUERY_AVAILABLE_BAND_MODE :: int where
  "RIL_REQUEST_QUERY_AVAILABLE_BAND_MODE \<equiv> 66"
abbreviation (input) RIL_REQUEST_STK_GET_PROFILE :: int where "RIL_REQUEST_STK_GET_PROFILE \<equiv> 67"
abbreviation (input) RIL_REQUEST_STK_SET_PROFILE :: int where "RIL_REQUEST_STK_SET_PROFILE \<equiv> 68"
abbreviation (input) RIL_REQUEST_STK_SEND_ENVELOPE_COMMAND :: int where
  "RIL_REQUEST_STK_SEND_ENVELOPE_COMMAND \<equiv> 69"
abbreviation (input) RIL_REQUEST_STK_SEND_TERMINAL_RESPONSE :: int where
  "RIL_REQUEST_STK_SEND_TERMINAL_RESPONSE \<equiv> 70"
abbreviation (input) RIL_REQUEST_STK_HANDLE_CALL_SETUP_REQUESTED_FROM_SIM :: int where
  "RIL_REQUEST_STK_HANDLE_CALL_SETUP_REQUESTED_FROM_SIM \<equiv> 71"
abbreviation (input) RIL_REQUEST_EXPLICIT_CALL_TRANSFER :: int where
  "RIL_REQUEST_EXPLICIT_CALL_TRANSFER \<equiv> 72"
abbreviation (input) RIL_REQUEST_SET_PREFERRED_NETWORK_TYPE :: int where
  "RIL_REQUEST_SET_PREFERRED_NETWORK_TYPE \<equiv> 73"
abbreviation (input) RIL_REQUEST_GET_PREFERRED_NETWORK_TYPE :: int where
  "RIL_REQUEST_GET_PREFERRED_NETWORK_TYPE \<equiv> 74"
abbreviation (input) RIL_REQUEST_GET_NEIGHBORING_CELL_IDS :: int where
  "RIL_REQUEST_GET_NEIGHBORING_CELL_IDS \<equiv> 75"
abbreviation (input) RIL_REQUEST_SET_LOCATION_UPDATES :: int where
  "RIL_REQUEST_SET_LOCATION_UPDATES \<equiv> 76"
abbreviation (input) RIL_REQUEST_CDMA_SET_SUBSCRIPTION_SOURCE :: int where
  "RIL_REQUEST_CDMA_SET_SUBSCRIPTION_SOURCE \<equiv> 77"
abbreviation (input) RIL_REQUEST_CDMA_SET_ROAMING_PREFERENCE :: int where
  "RIL_REQUEST_CDMA_SET_ROAMING_PREFERENCE \<equiv> 78"
abbreviation (input) RIL_REQUEST_CDMA_QUERY_ROAMING_PREFERENCE :: int where
  "RIL_REQUEST_CDMA_QUERY_ROAMING_PREFERENCE \<equiv> 79"
abbreviation (input) RIL_REQUEST_SET_TTY_MODE :: int where "RIL_REQUEST_SET_TTY_MODE \<equiv> 80"
abbreviation (input) RIL_REQUEST_QUERY_TTY_MODE :: int where "RIL_REQUEST_QUERY_TTY_MODE \<equiv> 81"
abbreviation (input) RIL_REQUEST_CDMA_SET_PREFERRED_VOICE_PRIVACY_MODE :: int where
  "RIL_REQUEST_CDMA_SET_PREFERRED_VOICE_PRIVACY_MODE \<equiv> 82"
abbreviation (input) RIL_REQUEST_CDMA_QUERY_PREFERRED_VOICE_PRIVACY_MODE :: int where
  "RIL_REQUEST_CDMA_QUERY_PREFERRED_VOICE_PRIVACY_MODE \<equiv> 83"
abbreviation (input) RIL_REQUEST_CDMA_FLASH :: int where "RIL_REQUEST_CDMA_FLASH \<equiv> 84"
abbreviation (input) RIL_REQUEST_CDMA_BURST_DTMF :: int where "RIL_REQUEST_CDMA_BURST_DTMF \<equiv> 85"
abbreviation (input) RIL_REQUEST_CDMA_VALIDATE_AND_WRITE_AKEY :: int where
  "RIL_REQUEST_CDMA_VALIDATE_AND_WRITE_AKEY \<equiv> 86"
abbreviation (input) RIL_REQUEST_CDMA_SEND_SMS :: int where "RIL_REQUEST_CDMA_SEND_SMS \<equiv> 87"
abbreviation (input) RIL_REQUEST_CDMA_SMS_ACKNOWLEDGE :: int where
  "RIL_REQUEST_CDMA_SMS_ACKNOWLEDGE \<equiv> 88"
abbreviation (input) RIL_REQUEST_GSM_GET_BROADCAST_SMS_CONFIG :: int where
  "RIL_REQUEST_GSM_GET_BROADCAST_SMS_CONFIG \<equiv> 89"
abbreviation (input) RIL_REQUEST_GSM_SET_BROADCAST_SMS_CONFIG :: int where
  "RIL_REQUEST_GSM_SET_BROADCAST_SMS_CONFIG \<equiv> 90"
abbreviation (input) RIL_REQUEST_GSM_SMS_BROADCAST_ACTIVATION :: int where
  "RIL_REQUEST_GSM_SMS_BROADCAST_ACTIVATION \<equiv> 91"
abbreviation (input) RIL_REQUEST_CDMA_GET_BROADCAST_SMS_CONFIG :: int where
  "RIL_REQUEST_CDMA_GET_BROADCAST_SMS_CONFIG \<equiv> 92"
abbreviation (input) RIL_REQUEST_CDMA_SET_BROADCAST_SMS_CONFIG :: int where
  "RIL_REQUEST_CDMA_SET_BROADCAST_SMS_CONFIG \<equiv> 93"
abbreviation (input) RIL_REQUEST_CDMA_SMS_BROADCAST_ACTIVATION :: int where
  "RIL_REQUEST_CDMA_SMS_BROADCAST_ACTIVATION \<equiv> 94"
abbreviation (input) RIL_REQUEST_CDMA_SUBSCRIPTION :: int where "RIL_REQUEST_CDMA_SUBSCRIPTION \<equiv> 95"
abbreviation (input) RIL_REQUEST_CDMA_WRITE_SMS_TO_RUIM :: int where
  "RIL_REQUEST_CDMA_WRITE_SMS_TO_RUIM \<equiv> 96"
abbreviation (input) RIL_REQUEST_CDMA_DELETE_SMS_ON_RUIM :: int where
  "RIL_REQUEST_CDMA_DELETE_SMS_ON_RUIM \<equiv> 97"
abbreviation (input) RIL_REQUEST_DEVICE_IDENTITY :: int where "RIL_REQUEST_DEVICE_IDENTITY \<equiv> 98"
abbreviation (input) RIL_REQUEST_EXIT_EMERGENCY_CALLBACK_MODE :: int where
  "RIL_REQUEST_EXIT_EMERGENCY_CALLBACK_MODE \<equiv> 99"
abbreviation (input) RIL_REQUEST_GET_SMSC_ADDRESS :: int where "RIL_REQUEST_GET_SMSC_ADDRESS \<equiv> 100"
abbreviation (input) RIL_REQUEST_SET_SMSC_ADDRESS :: int where "RIL_REQUEST_SET_SMSC_ADDRESS \<equiv> 101"
abbreviation (input) RIL_REQUEST_REPORT_SMS_MEMORY_STATUS :: int where
  "RIL_REQUEST_REPORT_SMS_MEMORY_STATUS \<equiv> 102"
abbreviation (input) RIL_REQUEST_REPORT_STK_SERVICE_IS_RUNNING :: int where
  "RIL_REQUEST_REPORT_STK_SERVICE_IS_RUNNING \<equiv> 103"
abbreviation (input) RIL_REQUEST_CDMA_GET_SUBSCRIPTION_SOURCE :: int where
  "RIL_REQUEST_CDMA_GET_SUBSCRIPTION_SOURCE \<equiv> 104"
abbreviation (input) RIL_REQUEST_ISIM_AUTHENTICATION :: int where
  "RIL_REQUEST_ISIM_AUTHENTICATION \<equiv> 105"
abbreviation (input) RIL_REQUEST_ACKNOWLEDGE_INCOMING_GSM_SMS_WITH_PDU :: int where
  "RIL_REQUEST_ACKNOWLEDGE_INCOMING_GSM_SMS_WITH_PDU \<equiv> 106"
abbreviation (input) RIL_REQUEST_STK_SEND_ENVELOPE_WITH_STATUS :: int where
  "RIL_REQUEST_STK_SEND_ENVELOPE_WITH_STATUS \<equiv> 107"
abbreviation (input) RIL_REQUEST_VOICE_RADIO_TECH :: int where "RIL_REQUEST_VOICE_RADIO_TECH \<equiv> 108"
abbreviation (input) RIL_REQUEST_GET_CELL_INFO_LIST :: int where "RIL_REQUEST_GET_CELL_INFO_LIST \<equiv> 109"
abbreviation (input) RIL_REQUEST_SET_UNSOL_CELL_INFO_LIST_RATE :: int where
  "RIL_REQUEST_SET_UNSOL_CELL_INFO_LIST_RATE \<equiv> 110"
abbreviation (input) RIL_REQUEST_SET_INITIAL_ATTACH_APN :: int where
  "RIL_REQUEST_SET_INITIAL_ATTACH_APN \<equiv> 111"
abbreviation (input) RIL_REQUEST_IMS_REGISTRATION_STATE :: int where
  "RIL_REQUEST_IMS_REGISTRATION_STATE \<equiv> 112"
abbreviation (input) RIL_REQUEST_IMS_SEND_SMS :: int where "RIL_REQUEST_IMS_SEND_SMS \<equiv> 113"
abbreviation (input) RIL_REQUEST_SIM_TRANSMIT_APDU_BASIC :: int where
  "RIL_REQUEST_SIM_TRANSMIT_APDU_BASIC \<equiv> 114"
abbreviation (input) RIL_REQUEST_SIM_OPEN_CHANNEL :: int where "RIL_REQUEST_SIM_OPEN_CHANNEL \<equiv> 115"
abbreviation (input) RIL_REQUEST_SIM_CLOSE_CHANNEL :: int where "RIL_REQUEST_SIM_CLOSE_CHANNEL \<equiv> 116"
abbreviation (input) RIL_REQUEST_SIM_TRANSMIT_APDU_CHANNEL :: int where
  "RIL_REQUEST_SIM_TRANSMIT_APDU_CHANNEL \<equiv> 117"
abbreviation (input) RIL_REQUEST_SIM_AUTHENTICATION :: int where "RIL_REQUEST_SIM_AUTHENTICATION \<equiv> 125"
abbreviation (input) RIL_REQUEST_SET_DATA_PROFILE :: int where "RIL_REQUEST_SET_DATA_PROFILE \<equiv> 128"
abbreviation (input) RIL_REQUEST_SHUTDOWN :: int where "RIL_REQUEST_SHUTDOWN \<equiv> 129"
abbreviation (input) RIL_REQUEST_SWITCH_HOLDING_AND_ACTIVE :: int where
  "RIL_REQUEST_SWITCH_HOLDING_AND_ACTIVE \<equiv> 15"

abbreviation (input) REQ_ID_NONE :: int where "REQ_ID_NONE \<equiv> - 1"
abbreviation (input) INTERNAL_REQ_ID_START :: int where "INTERNAL_REQ_ID_START \<equiv> 500"
abbreviation (input) E_REQ_ID_INTERNAL_SILENT_PIN_ENTRY :: int where
  "E_REQ_ID_INTERNAL_SILENT_PIN_ENTRY \<equiv> 500"
abbreviation (input) E_REQ_ID_INTERNAL_QUERY_SIM_SMS_STORE_STATUS :: int where
  "E_REQ_ID_INTERNAL_QUERY_SIM_SMS_STORE_STATUS \<equiv> 501"
abbreviation (input) E_REQ_ID_INTERNAL_SET_PROFILE_DOWNLOAD_FOR_NEXT_UICC_STARTUP :: int where
  "E_REQ_ID_INTERNAL_SET_PROFILE_DOWNLOAD_FOR_NEXT_UICC_STARTUP \<equiv> 502"
abbreviation (input) E_REQ_ID_INTERNAL_CONFIGURE_USAT_PROFILE_DOWNLOAD :: int where
  "E_REQ_ID_INTERNAL_CONFIGURE_USAT_PROFILE_DOWNLOAD \<equiv> 503"
abbreviation (input) E_REQ_ID_INTERNAL_QUERY_UICC_STATE :: int where
  "E_REQ_ID_INTERNAL_QUERY_UICC_STATE \<equiv> 504"
abbreviation (input) E_REQ_ID_INTERNAL_READ_USAT_PROFILES :: int where
  "E_REQ_ID_INTERNAL_READ_USAT_PROFILES \<equiv> 505"
abbreviation (input) E_REQ_ID_INTERNAL_WRITE_USAT_PROFILE :: int where
  "E_REQ_ID_INTERNAL_WRITE_USAT_PROFILE \<equiv> 506"
abbreviation (input) E_REQ_ID_INTERNAL_RESET_UICC :: int where
  "E_REQ_ID_INTERNAL_RESET_UICC \<equiv> 507"
abbreviation (input) E_REQ_ID_INTERNAL_ENABLE_PROFILE_FACILITY_HANDLING :: int where
  "E_REQ_ID_INTERNAL_ENABLE_PROFILE_FACILITY_HANDLING \<equiv> 508"

section \<open>The tables\<close>

record REQ_INFO =
  szName :: string
  uiChannel :: nat
  uiTimeout :: u32

definition req_info :: "string \<Rightarrow> nat \<Rightarrow> REQ_INFO" where
  "req_info name channel = \<lparr> szName = name, uiChannel = channel, uiTimeout = 0 \<rparr>"

definition g_ReqInternal :: "REQ_INFO list" where
  "g_ReqInternal =
    [req_info ''SilentPinEntry'' RIL_CHANNEL_DLC8,
     req_info ''QuerySimSmsStoreStatus'' RIL_CHANNEL_OEM,
     req_info ''SetProfileDownloadForNextUiccStartup'' RIL_CHANNEL_URC,
     req_info ''ConfigureUsatProfileDownload'' RIL_CHANNEL_URC,
     req_info ''QueryUiccState'' RIL_CHANNEL_DLC8,
     req_info ''ReadUsatProfiles'' RIL_CHANNEL_DLC8,
     req_info ''WriteUsatProfile'' RIL_CHANNEL_DLC8,
     req_info ''ResetUicc'' RIL_CHANNEL_DLC8,
     req_info ''EnableProfileHandlingFacility'' RIL_CHANNEL_URC]"

definition g_ReqInfoDefault :: "REQ_INFO list" where
  "g_ReqInfoDefault =
    [req_info [] RIL_CHANNEL_RESERVED,
     req_info ''GetSimStatus'' RIL_CHANNEL_DLC8,
     req_info ''EnterSimPin'' RIL_CHANNEL_DLC8,
     req_info ''EnterSimPuk'' RIL_CHANNEL_DLC8,
     req_info ''EnterSimPin2'' RIL_CHANNEL_DLC8,
     req_info ''EnterSimPuk2'' RIL_CHANNEL_DLC8,
     req_info ''ChangeSimPin'' RIL_CHANNEL_DLC8,
     req_info ''ChangeSimPin2'' RIL_CHANNEL_DLC8,
     req_info ''EnterNetworkDepersonalization'' RIL_CHANNEL_DLC2,
     req_info ''GetCurrentCalls'' RIL_CHANNEL_ATCMD,
     req_info ''Dial'' RIL_CHANNEL_DLC6,
     req_info ''GetIMSI'' RIL_CHANNEL_DLC8,
     req_info ''Hangup'' RIL_CHANNEL_DLC6,
     req_info ''HangupWaitingOrBackground'' RIL_CHANNEL_DLC6,
     req_info ''HangupForegroundResumeBackground'' RIL_CHANNEL_DLC6,
     req_info ''SwitchHoldingAndActive'' RIL_CHANNEL_DLC6,
     req_info ''Conference'' RIL_CHANNEL_ATCMD,
     req_info ''UDUB'' RIL_CHANNEL_DLC6,
     req_info ''LastCallFailCause'' RIL_CHANNEL_ATCMD,
     req_info ''SignalStrength'' RIL_CHANNEL_DLC2,
     req_info ''RegistrationState'' RIL_CHANNEL_DLC2,
     req_info ''GprsRegistrationState'' RIL_CHANNEL_DLC2,
     req_info ''Operator'' RIL_CHANNEL_DLC8,
     req_info ''RadioPower'' RIL_CHANNEL_ATCMD,
     req_info ''Dtmf'' RIL_CHANNEL_DLC6,
     req_info ''SendSms'' RIL_CHANNEL_SMS,
     req_info ''SendSmsExpectMore'' RIL_CHANNEL_SMS,
     req_info ''SetupDefaultPDP'' RIL_CHANNEL_DATA1,
     req_info ''SimIO'' RIL_CHANNEL_DLC8,
     req_info ''SendUSSD'' RIL_CHANNEL_DLC6,
     req_info ''CancelUSSD'' RIL_CHANNEL_DLC6,
     req_info ''GetCLIR'' RIL_CHANNEL_DLC6,
     req_info ''SetCLIR'' RIL_CHANNEL_DLC6,
     req_info ''QueryCallForwardStatus'' RIL_CHANNEL_DLC6,
     req_info ''SetCallForward'' RIL_CHANNEL_DLC6,
     req_info ''QueryCallWaiting'' RIL_CHANNEL_DLC6,
     req_info ''SetCallWaiting'' RIL_CHANNEL_DLC6,
     req_info ''SmsAcknowledge'' RIL_CHANNEL_SMS,
     req_info ''GetIMEI'' RIL_CHANNEL_DLC8,
     req_info ''GetIMEISV'' RIL_CHANNEL_DLC8,
     req_info ''Answer'' RIL_CHANNEL_ATCMD,
     req_info ''DeactivateDataCall'' RIL_CHANNEL_DLC2,
     req_info ''QueryFacilityLock'' RIL_CHANNEL_DLC6,
     req_info ''SetFacilityLock'' RIL_CHANNEL_DLC6,
     req_info ''ChangeBarringPassword'' RIL_CHANNEL_DLC8,
     req_info ''QueryNetworkSelectionMode'' RIL_CHANNEL_DLC2,
     req_info ''SetNetworkSelectionAutomatic'' RIL_CHANNEL_DLC22,
     req_info ''SetNetworkSelectionManual'' RIL_CHANNEL_DLC22,
     req_info ''QueryAvailableNetworks'' RIL_CHANNEL_DLC2,
     req_info ''RequestDtmfStart'' RIL_CHANNEL_ATCMD,
     req_info ''RequestDtmfStop'' RIL_CHANNEL_ATCMD,
     req_info ''BasebandVersion'' RIL_CHANNEL_DLC8,
     req_info ''SeperateConnection'' RIL_CHANNEL_ATCMD,
     req_info ''SetMute'' RIL_CHANNEL_ATCMD,
     req_info ''GetMute'' RIL_CHANNEL_ATCMD,
     req_info ''QueryCLIP'' RIL_CHANNEL_DLC6,
     req_info ''LastPdpFailCause'' RIL_CHANNEL_DLC2,
     req_info ''PdpContextList'' RIL_CHANNEL_ATCMD,
     req_info ''ResetRadio'' RIL_CHANNEL_ATCMD,
     req_info ''OemHookRaw'' RIL_CHANNEL_ATCMD,
     req_info ''OemHookStrings'' RIL_CHANNEL_ATCMD,
     req_info ''ScreenState'' RIL_CHANNEL_URC,
     req_info ''SetSuppSvcNotification'' RIL_CHANNEL_DLC6,
     req_info ''WriteSmsToSim'' RIL_CHANNEL_DLC8,
     req_info ''DeleteSmsOnSim'' RIL_CHANNEL_DLC8,
     req_info ''SetBandMode'' RIL_CHANNEL_DLC2,
     req_info ''QueryAvailableBandMode'' RIL_CHANNEL_DLC2,
     req_info ''StkGetProfile'' RIL_CHANNEL_DLC8,
     req_info ''StkSetProfile'' RIL_CHANNEL_DLC8,
     req_info ''StkSendEnvelopeCommand'' RIL_CHANNEL_DLC8,
     req_info ''StkSendTerminalResponse'' RIL_CHANNEL_DLC8,
     req_info ''StkHandleCallSetupRequestedFromSim'' RIL_CHANNEL_DLC8,
     req_info ''ExplicitCallTransfer'' RIL_CHANNEL_ATCMD,
     req_info ''SetPreferredNetworkType'' RIL_CHANNEL_DLC2,
     req_info ''GetPreferredNetworkType'' RIL_CHANNEL_DLC2,
     req_info ''GetNeighboringCellIDs'' RIL_CHANNEL_OEM,
     req_info ''SetLocationUpdates'' RIL_CHANNEL_URC,
     req_info ''CdmaSetSubscription'' RIL_CHANNEL_RESERVED,
     req_info ''CdmaSetRoamingPreference'' RIL_CHANNEL_RESERVED,
     req_info ''CdmaQueryRoamingPreference'' RIL_CHANNEL_RESERVED,
     req_info ''SetTtyMode'' RIL_CHANNEL_ATCMD,
     req_info ''QueryTtyMode'' RIL_CHANNEL_ATCMD,
     req_info ''CdmaSetPreferredVoicePrivacyMode'' RIL_CHANNEL_RESERVED,
     req_info ''CdmaQueryPreferredVoicePrivacyMode'' RIL_CHANNEL_RESERVED,
     req_info ''CdmaFlash'' RIL_CHANNEL_RESERVED,
     req_info ''CdmaBurstDtmf'' RIL_CHANNEL_RESERVED,
     req_info ''CdmaValidateKey'' RIL_CHANNEL_RESERVED,
     req_info ''CdmaSendSms'' RIL_CHANNEL_RESERVED,
     req_info ''CdmaSmsAcknowledge'' RIL_CHANNEL_RESERVED,
     req_info ''GetBroadcastSmsConfig'' RIL_CHANNEL_SMS,
     req_info ''SetBroadcastSmsConfig'' RIL_CHANNEL_SMS,
     req_info ''SmsBroadcastActivation'' RIL_CHANNEL_SMS,
     req_info ''CdmaGetBroadcastSmsConfig'' RIL_CHANNEL_RESERVED,
     req_info ''CdmaSetBroadcastSmsConfig'' RIL_CHANNEL_RESERVED,
     req_info ''CdmaSmsBroadcastActivation'' RIL_CHANNEL_RESERVED,
     req_info ''CdmaSubscription'' RIL_CHANNEL_RESERVED,
     req_info ''CdmaWriteSmsToRuim'' RIL_CHANNEL_RESERVED,
     req_info ''CdmaDeleteSmsOnRuim'' RIL_CHANNEL_RESERVED,
     req_info ''DeviceIdentity'' RIL_CHANNEL_DLC8,
     req_info ''ExitEmergencyCallBackMode'' RIL_CHANNEL_RESERVED,
     req_info ''GetSmscAddress'' RIL_CHANNEL_DLC8,
     req_info ''SetSmscAddress'' RIL_CHANNEL_DLC8,
     req_info ''ReportSmsMemoryStatus'' RIL_CHANNEL_DLC8,
     req_info ''ReportStkServiceIsRunning'' RIL_CHANNEL_URC,
     req_info ''GetSubscriptionSource'' RIL_CHANNEL_RESERVED,
     req_info ''IsimAuthentication'' RIL_CHANNEL_DLC8,
     req_info ''AckIncomingSmsWithPdu'' RIL_CHANNEL_SMS,
     req_info ''StkSendEnvelopeWithStatus'' RIL_CHANNEL_DLC8,
     req_info ''VoiceRadioTech'' RIL_CHANNEL_DLC2,
     req_info ''GetCellInfoList'' RIL_CHANNEL_OEM,
     req_info ''SetCellInfoListRate'' RIL_CHANNEL_OEM,
     req_info ''SetInitialAttachApn'' RIL_CHANNEL_DLC22,
     req_info ''GetImsRegistrationState'' RIL_CHANNEL_RESERVED,
     req_info ''SendImsSms'' RIL_CHANNEL_RESERVED,
     req_info ''SimTransmitBasic'' RIL_CHANNEL_DLC8,
     req_info ''SimOpenChannel'' RIL_CHANNEL_DLC8,
     req_info ''SimCloseChannel'' RIL_CHANNEL_DLC8,
     req_info ''SimTransmitChannel'' RIL_CHANNEL_DLC8,
     req_info ''NVReadItem'' RIL_CHANNEL_RESERVED,
     req_info ''NVWriteItem'' RIL_CHANNEL_RESERVED,
     req_info ''NVWriteCdmaPRL'' RIL_CHANNEL_RESERVED,
     req_info ''NVResetConfig'' RIL_CHANNEL_RESERVED,
     req_info ''SetUiccSubscription'' RIL_CHANNEL_RESERVED,
     req_info ''AllowData'' RIL_CHANNEL_RESERVED,
     req_info ''GetHardwareConfig'' RIL_CHANNEL_RESERVED,
     req_info ''SimAuthentication'' RIL_CHANNEL_DLC8,
     req_info ''GetDcRtInfo'' RIL_CHANNEL_RESERVED,
     req_info ''SetDcRtInfo'' RIL_CHANNEL_RESERVED,
     req_info ''SetDataProfile'' RIL_CHANNEL_RESERVED,
     req_info ''Shutdown'' RIL_CHANNEL_ATCMD]"

abbreviation (input) REQ_ID_TOTAL :: int where "REQ_ID_TOTAL \<equiv> int (length g_ReqInfoDefault)"
abbreviation (input) INTERNAL_REQ_ID_TOTAL :: int where
  "INTERNAL_REQ_ID_TOTAL \<equiv> int (length g_ReqInternal)"

section \<open>The lookup\<close>

abbreviation (input) WAIT_FOREVER :: u32 where "WAIT_FOREVER \<equiv> 0xFFFFFFFF"

text \<open>
  What the lookup reads from outside: \<open>CRepository::Read\<close> of an integer (group, key), the
  default of \<open>CTE\<close>, whether the product has several SIMs, whether an allocation succeeds.
\<close>

record request_config =
  repository_Read :: "string \<Rightarrow> string \<Rightarrow> int option"
  m_uiTimeoutAPIDefault :: u32
  IsMultiSIM :: bool
  memory :: bool

definition at_index :: "'a list \<Rightarrow> int \<Rightarrow> 'a option" where
  "at_index xs i = (if 0 \<le> i \<and> i < int (length xs) then Some (xs ! nat i) else None)"

definition zero_info :: REQ_INFO where "zero_info = req_info [] 0"

text \<open>\<open>RequestTimeouts\<close> and \<open>InternalRequestTimeouts\<close> of the repository file.\<close>

definition read_timeout :: "request_config \<Rightarrow> string \<Rightarrow> string \<Rightarrow> u32" where
  "read_timeout cfg grp name =
     (case repository_Read cfg grp name of
        Some iTemp \<Rightarrow> word_of_int iTemp
      | None \<Rightarrow> m_uiTimeoutAPIDefault cfg)"

definition extended_timeout :: "int \<Rightarrow> u32 \<Rightarrow> u32" where
  "extended_timeout requestID timeout =
     (if requestID \<in> {RIL_REQUEST_SETUP_DATA_CALL, RIL_REQUEST_DEACTIVATE_DATA_CALL}
      then 2 * timeout + 50000
      else if requestID \<in>
    {RIL_REQUEST_QUERY_CALL_FORWARD_STATUS, RIL_REQUEST_SET_CALL_FORWARD,
     RIL_REQUEST_QUERY_CALL_WAITING, RIL_REQUEST_SET_CALL_WAITING, RIL_REQUEST_RADIO_POWER,
     RIL_REQUEST_DATA_CALL_LIST, RIL_REQUEST_HANGUP,
     RIL_REQUEST_HANGUP_WAITING_OR_BACKGROUND,
     RIL_REQUEST_HANGUP_FOREGROUND_RESUME_BACKGROUND,
     RIL_REQUEST_SWITCH_WAITING_OR_HOLDING_AND_ACTIVE, RIL_REQUEST_CONFERENCE,
     RIL_REQUEST_UDUB, RIL_REQUEST_SEPARATE_CONNECTION, RIL_REQUEST_EXPLICIT_CALL_TRANSFER,
     RIL_REQUEST_ENTER_NETWORK_DEPERSONALIZATION, RIL_REQUEST_QUERY_FACILITY_LOCK,
     RIL_REQUEST_SET_FACILITY_LOCK, RIL_REQUEST_GET_CLIR, RIL_REQUEST_SET_CLIR,
     RIL_REQUEST_SEND_SMS, RIL_REQUEST_SMS_ACKNOWLEDGE, RIL_REQUEST_OPERATOR,
     RIL_REQUEST_QUERY_NETWORK_SELECTION_MODE, RIL_REQUEST_QUERY_AVAILABLE_NETWORKS,
     RIL_REQUEST_SET_NETWORK_SELECTION_AUTOMATIC, RIL_REQUEST_SET_NETWORK_SELECTION_MANUAL,
     RIL_REQUEST_SEND_USSD, RIL_REQUEST_CANCEL_USSD,
     RIL_REQUEST_STK_HANDLE_CALL_SETUP_REQUESTED_FROM_SIM, RIL_REQUEST_DTMF_START,
     RIL_REQUEST_DTMF_STOP, RIL_REQUEST_DIAL, RIL_REQUEST_DELETE_SMS_ON_SIM,
     RIL_REQUEST_SEND_SMS_EXPECT_MORE, RIL_REQUEST_GSM_GET_BROADCAST_SMS_CONFIG,
     RIL_REQUEST_GSM_SMS_BROADCAST_ACTIVATION, RIL_REQUEST_GET_NEIGHBORING_CELL_IDS,
     RIL_REQUEST_GET_CELL_INFO_LIST, RIL_REQUEST_REPORT_SMS_MEMORY_STATUS}
      then 2 * timeout + 10000
      else timeout)"

definition request_timeout :: "request_config \<Rightarrow> int \<Rightarrow> string \<Rightarrow> u32" where
  "request_timeout cfg requestID name =
     (let timeout = read_timeout cfg ''RequestTimeouts'' name
      in if timeout = 0 then WAIT_FOREVER
         else if IsMultiSIM cfg then extended_timeout requestID timeout
         else timeout)"

text \<open>
  \<open>CRequestInfoTable::GetRequestInfo\<close>. The cache is an array of \<open>REQ_ID_TOTAL\<close> pointers, absent
  when its allocation failed. The mutex it takes around the insertion is released on every
  path; between the two tests of the entry no other thread is modelled.
\<close>

type_synonym request_table = "REQ_INFO option list option"

definition new_table :: request_table where
  "new_table = Some (replicate (length g_ReqInfoDefault) None)"

definition GetRequestInfo ::
    "request_config \<Rightarrow> int \<Rightarrow> REQ_INFO \<Rightarrow> request_table \<Rightarrow> (REQ_INFO \<times> request_table) option" where
  "GetRequestInfo cfg requestID rReqInfo m_rgpRequestInfos =
     (let rReqInfo = rReqInfo\<lparr> uiTimeout := m_uiTimeoutAPIDefault cfg \<rparr> in
      case m_rgpRequestInfos of
        None \<Rightarrow> Some (rReqInfo, m_rgpRequestInfos)
      | Some infos \<Rightarrow>
          if requestID = REQ_ID_NONE then Some (rReqInfo, m_rgpRequestInfos)
          else if (requestID \<ge> REQ_ID_TOTAL \<and> requestID < INTERNAL_REQ_ID_START) \<or> requestID < 0
          then Some (rReqInfo, m_rgpRequestInfos)
          else if requestID \<ge> INTERNAL_REQ_ID_START then
            (let index = requestID - INTERNAL_REQ_ID_START;
                 info = zero_info\<lparr> uiTimeout := m_uiTimeoutAPIDefault cfg \<rparr>
             in if index < INTERNAL_REQ_ID_TOTAL then
                  (case at_index g_ReqInternal index of
                     None \<Rightarrow> None
                   | Some e \<Rightarrow>
                       Some (info\<lparr> uiTimeout :=
                                read_timeout cfg ''InternalRequestTimeouts'' (szName e) \<rparr>,
                             m_rgpRequestInfos))
                else Some (info, m_rgpRequestInfos))
          else
            (case at_index infos requestID of
               None \<Rightarrow> None
             | Some (Some info) \<Rightarrow> Some (info, m_rgpRequestInfos)
             | Some None \<Rightarrow>
                 (case at_index g_ReqInfoDefault requestID of
                    None \<Rightarrow> None
                  | Some e \<Rightarrow>
                      (let info = zero_info
                             \<lparr> uiTimeout := request_timeout cfg requestID (szName e) \<rparr>
                       in Some (info,
                            if memory cfg then Some (infos[nat requestID := Some info])
                            else m_rgpRequestInfos)))))"

section \<open>Lemmas\<close>

lemma length_tables [simp]: "length g_ReqInfoDefault = 130" "length g_ReqInternal = 9"
  by (simp_all add: g_ReqInfoDefault_def g_ReqInternal_def)

lemma at_index_Some: "at_index xs i = Some x \<longleftrightarrow> 0 \<le> i \<and> i < int (length xs) \<and> x = xs ! nat i"
  by (auto simp: at_index_def)

lemma at_index_inside: "0 \<le> i \<Longrightarrow> i < int (length xs) \<Longrightarrow> at_index xs i = Some (xs ! nat i)"
  by (simp add: at_index_def)

text \<open>Every request goes to one of the nine command channels or to the first data channel, or is reserved.\<close>

lemma request_channels:
  "e \<in> set g_ReqInfoDefault \<Longrightarrow> uiChannel e \<le> RIL_CHANNEL_DATA1 \<or> uiChannel e = RIL_CHANNEL_RESERVED"
  by (auto simp: g_ReqInfoDefault_def req_info_def)

definition request_table_ok :: "request_table \<Rightarrow> bool" where
  "request_table_ok tab \<longleftrightarrow> (\<forall>infos. tab = Some infos \<longrightarrow> length infos = length g_ReqInfoDefault)"

lemma request_table_ok_new: "request_table_ok new_table"
  by (simp add: request_table_ok_def new_table_def)

definition cached :: "request_table \<Rightarrow> int \<Rightarrow> REQ_INFO option" where
  "cached tab i = (case tab of None \<Rightarrow> None | Some infos \<Rightarrow> infos ! nat i)"

lemma GetRequestInfo_ril:
  assumes "length infos = length g_ReqInfoDefault" "0 \<le> i" "i < REQ_ID_TOTAL"
  shows "GetRequestInfo cfg i r (Some infos) =
    (case infos ! nat i of
       Some info \<Rightarrow> Some (info, Some infos)
     | None \<Rightarrow>
         (let info = zero_info\<lparr> uiTimeout := request_timeout cfg i (szName (g_ReqInfoDefault ! nat i)) \<rparr>
          in Some (info, Some (if memory cfg then infos[nat i := Some info] else infos))))"
  using assms by (auto simp: GetRequestInfo_def at_index_inside Let_def split: option.split)

lemma GetRequestInfo_other:
  assumes "\<not> (tab \<noteq> None \<and> 0 \<le> i \<and> i < REQ_ID_TOTAL)"
  shows "\<exists>info. GetRequestInfo cfg i r tab = Some (info, tab)"
proof (cases tab)
  case None
  then show ?thesis by (simp add: GetRequestInfo_def)
next
  case (Some infos)
  then show ?thesis
    using assms by (auto simp: GetRequestInfo_def at_index_inside Let_def split: option.split)
qed

lemma GetRequestInfo_total:
  assumes "request_table_ok tab"
  shows "\<exists>info tab'. GetRequestInfo cfg i r tab = Some (info, tab') \<and> request_table_ok tab'"
proof (cases "tab \<noteq> None \<and> 0 \<le> i \<and> i < REQ_ID_TOTAL")
  case True
  then show ?thesis
    using assms GetRequestInfo_ril [of "the tab" i cfg r]
    by (auto simp: request_table_ok_def Let_def split: option.splits)
next
  case False
  then show ?thesis
    using assms GetRequestInfo_other [of tab i cfg r] by blast
qed

text \<open>
  The lookup of a request's timeout never leaves its tables, whatever the request number.
  For a request of the framework it answers from the cache, or with the configured timeout,
  which it then keeps: the next lookup gives the same answer even when the repository file,
  the default or the memory situation has changed, and no other entry is touched.
\<close>

theorem GetRequestInfo_cached:
  assumes "request_table_ok tab"
  shows "\<exists>info tab'. GetRequestInfo cfg i r tab = Some (info, tab') \<and> request_table_ok tab' \<and>
    (tab \<noteq> None \<and> 0 \<le> i \<and> i < REQ_ID_TOTAL \<longrightarrow>
       info = (case cached tab i of
                 Some old \<Rightarrow> old
               | None \<Rightarrow> zero_info\<lparr> uiTimeout := request_timeout cfg i (szName (g_ReqInfoDefault ! nat i)) \<rparr>) \<and>
       (memory cfg \<longrightarrow> (\<forall>cfg' r'. GetRequestInfo cfg' i r' tab' = Some (info, tab')))) \<and>
    (\<forall>j. 0 \<le> j \<and> j < REQ_ID_TOTAL \<and> j \<noteq> i \<longrightarrow> cached tab' j = cached tab j)"
proof (cases "tab \<noteq> None \<and> 0 \<le> i \<and> i < REQ_ID_TOTAL")
  case False
  then show ?thesis using assms GetRequestInfo_other [OF False, of cfg r] by auto
next
  case True
  then obtain infos where tab: "tab = Some infos" by auto
  have len: "length infos = length g_ReqInfoDefault" using assms tab by (simp add: request_table_ok_def)
  have i: "0 \<le> i" "i < REQ_ID_TOTAL" using True by auto
  show ?thesis
  proof (cases "infos ! nat i")
    case (Some info)
    then show ?thesis
      using assms GetRequestInfo_ril [OF len i] by (auto simp: tab cached_def)
  next
    case None
    let ?info = "zero_info\<lparr> uiTimeout := request_timeout cfg i (szName (g_ReqInfoDefault ! nat i)) \<rparr>"
    let ?infos = "if memory cfg then infos[nat i := Some ?info] else infos"
    have len': "length ?infos = length g_ReqInfoDefault" using len by simp
    have hit: "memory cfg \<Longrightarrow> ?infos ! nat i = Some ?info" using len i by (simp add: nat_less_iff)
    have "GetRequestInfo cfg i r tab = Some (?info, Some ?infos)"
      using GetRequestInfo_ril [OF len i, of cfg r] None by (simp add: tab Let_def)
    moreover have "memory cfg \<Longrightarrow> GetRequestInfo cfg' i r' (Some ?infos) = Some (?info, Some ?infos)" for cfg' r'
      using GetRequestInfo_ril [OF len' i, of cfg' r'] hit by simp
    moreover have "cached (Some ?infos) j = cached tab j" if "0 \<le> j" "j \<noteq> i" for j
      using that i by (simp add: cached_def tab nat_eq_iff)
    ultimately show ?thesis
      using len' None i by (auto simp: request_table_ok_def tab cached_def)
  qed
qed

theorem GetRequestInfo_cached_witness:
  "\<exists>info tab. GetRequestInfo \<lparr> repository_Read = (\<lambda>_ name. if name = ''GetSimStatus'' then Some 4000 else None),
       m_uiTimeoutAPIDefault = 10000, IsMultiSIM = False, memory = True \<rparr> RIL_REQUEST_GET_SIM_STATUS
       zero_info new_table = Some (info, tab) \<and> uiTimeout info = 4000"
proof -
  let ?cfg = "\<lparr> repository_Read = (\<lambda>_ name. if name = ''GetSimStatus'' then Some 4000 else None),
     m_uiTimeoutAPIDefault = 10000, IsMultiSIM = False, memory = True \<rparr>"
  have "cached new_table 1 = None" by (simp add: cached_def new_table_def)
  moreover have "request_timeout ?cfg 1 (szName (g_ReqInfoDefault ! nat 1)) = 4000"
    by (simp add: request_timeout_def read_timeout_def g_ReqInfoDefault_def req_info_def)
  ultimately show ?thesis
    using GetRequestInfo_cached [OF request_table_ok_new, of ?cfg 1 zero_info] by (auto simp: new_table_def)
qed

lemma extended_timeout_longer:
  assumes "uint t < 2 ^ 30"
  shows "uint t \<le> uint (extended_timeout i t) \<and> (t \<noteq> 0 \<longrightarrow> extended_timeout i t \<noteq> 0)"
proof -
  have a: "uint (2 * t + c) = 2 * uint t + uint c" if "uint c < 2 ^ 20" for c :: u32
    using assms that by (simp add: uint_word_ariths mod_pos_pos_trivial)
  have "uint (2 * t + 50000) = 2 * uint t + 50000" "uint (2 * t + 10000) = 2 * uint t + 10000"
    using a [of 50000] a [of 10000] by simp_all
  then have "uint t \<le> uint (2 * t + 50000) \<and> uint (2 * t + 50000) \<noteq> 0"
    "uint t \<le> uint (2 * t + 10000) \<and> uint (2 * t + 10000) \<noteq> 0"
    using uint_ge_0 [of t] by linarith+
  then have b: "uint t \<le> uint (2 * t + 50000) \<and> 2 * t + 50000 \<noteq> 0"
    "uint t \<le> uint (2 * t + 10000) \<and> 2 * t + 10000 \<noteq> 0"
    by (metis uint_0_eq)+
  have "extended_timeout i t = 2 * t + 50000 \<or> extended_timeout i t = 2 * t + 10000 \<or>
    extended_timeout i t = t"
    unfolding extended_timeout_def by metis
  then show ?thesis using b by auto
qed

end
