(* ===== verification/Command.thy ===== *)
theory Command
  imports Requests RilQueue
begin

text \<open>
  A command on its way to the modem: the object (\<open>CORE/command.cpp\<close>, \<open>CORE/command.h\<close>), the data
  a request prepares for it (\<open>INC/rril_OEM.h\<close>), and the queues the command threads read. What
  the program tells Android (\<open>RIL_onRequestComplete\<close>, \<open>RIL_onUnsolicitedResponse\<close>,
  \<open>RIL_requestTimedCallback\<close>) and the modem manager (\<open>DO_REQUEST_CLEAN_UP\<close>) is a list of effects.

  A pointer to a command is modelled by the command itself with the number of the object, so
  that equality of two elements of a queue is equality of pointers. Pointers to functions of
  \<open>CTE\<close> are their names. A token is the address Android passes with a request, \<open>None\<close> for NULL.
\<close>

section \<open>Results and effects\<close>

datatype result_code =
    RIL_E_SUCCESS | RIL_E_GENERIC_FAILURE | RIL_E_ILLEGAL_SIM_OR_ME | ResultCode u32

abbreviation RRIL_RESULT_OK :: result_code where "RRIL_RESULT_OK \<equiv> RIL_E_SUCCESS"
abbreviation (input) RRIL_RESULT_ERROR :: result_code where
  "RRIL_RESULT_ERROR \<equiv> RIL_E_GENERIC_FAILURE"
abbreviation (input) RIL_E_RADIO_NOT_AVAILABLE :: result_code where
  "RIL_E_RADIO_NOT_AVAILABLE \<equiv> ResultCode 1"
abbreviation (input) RIL_E_REQUEST_NOT_SUPPORTED :: result_code where
  "RIL_E_REQUEST_NOT_SUPPORTED \<equiv> ResultCode 6"
abbreviation (input) RIL_E_OP_NOT_ALLOWED_BEFORE_REG_TO_NW :: result_code where
  "RIL_E_OP_NOT_ALLOWED_BEFORE_REG_TO_NW \<equiv> ResultCode 9"
abbreviation (input) RRIL_RESULT_OK_IMMEDIATE :: result_code where
  "RRIL_RESULT_OK_IMMEDIATE \<equiv> ResultCode 0x10"
abbreviation (input) RRIL_E_UNKNOWN_ERROR :: result_code where
  "RRIL_E_UNKNOWN_ERROR \<equiv> ResultCode 0x1000"
abbreviation (input) RRIL_E_MODEM_RESET :: result_code where
  "RRIL_E_MODEM_RESET \<equiv> ResultCode 0x1008"

type_synonym RIL_Token = "nat option"

datatype effect =
    OnUnsolicitedResponse result_code "u8 list option" nat
  | RequestComplete RIL_Token result_code "u8 list option" nat
  | RequestCleanUp
  | TimedCallback string RIL_Token nat nat  \<comment> \<open>function, parameter, seconds, microseconds\<close>

section \<open>Request data and commands\<close>

text \<open>\<open>szCmd1\<close> and \<open>szCmd2\<close> are the texts in the two buffers.\<close>

record REQUEST_DATA =
  szCmd1 :: string
  szCmd2 :: string
  uiTimeout :: u32
  fForceParse :: bool
  pContextData :: "u8 list option"
  cbContextData :: nat
  pContextData2 :: "u8 list option"
  cbContextData2 :: nat

definition no_request_data :: REQUEST_DATA where
  "no_request_data = \<lparr> szCmd1 = [], szCmd2 = [], uiTimeout = 0, fForceParse = False,
     pContextData = None, cbContextData = 0, pContextData2 = None, cbContextData2 = 0 \<rparr>"

record CCommand =
  m_object :: nat
  m_uiChannel :: nat
  m_token :: RIL_Token
  m_reqId :: int
  m_pszATCmd1 :: "string option"
  m_pszATCmd2 :: "string option"
  m_pParseFcn :: "string option"
  m_pPostCmdHandlerFcn :: "string option"
  m_uiTimeout :: u32
  m_fAlwaysParse :: bool
  m_fHighPriority :: bool
  m_fIsInitCommand :: bool
  m_pContext :: bool
  m_pContextData :: "u8 list option"
  m_cbContextData :: nat
  m_pContextData2 :: "u8 list option"
  m_cbContextData2 :: nat
  m_callId :: int

record system_config = request_config +
  IsInitializationSuccessful :: bool
  g_uiRilChannelCurMax :: nat

definition at_command :: "string option \<Rightarrow> string option" where
  "at_command s = (case s of None \<Rightarrow> None | Some t \<Rightarrow> if t = [] then None else Some t)"

text \<open>The three constructors; the object number is that of the freshly allocated memory.\<close>

definition CCommand_two ::
    "system_config \<Rightarrow> nat \<Rightarrow> nat \<Rightarrow> RIL_Token \<Rightarrow> int \<Rightarrow> string option \<Rightarrow> string option
      \<Rightarrow> string option \<Rightarrow> string option \<Rightarrow> CCommand" where
  "CCommand_two cfg object channel token reqId pszATCmd1 pszATCmd2 pParseFcn pHandlerFcn =
     \<lparr> m_object = object,
       m_uiChannel = (if channel < g_uiRilChannelCurMax cfg then channel else RIL_CHANNEL_ATCMD),
       m_token = token, m_reqId = reqId,
       m_pszATCmd1 = at_command pszATCmd1, m_pszATCmd2 = at_command pszATCmd2,
       m_pParseFcn = pParseFcn, m_pPostCmdHandlerFcn = pHandlerFcn,
       m_uiTimeout = 0, m_fAlwaysParse = False, m_fHighPriority = False, m_fIsInitCommand = False,
       m_pContext = False, m_pContextData = None, m_cbContextData = 0,
       m_pContextData2 = None, m_cbContextData2 = 0, m_callId = - 1 \<rparr>"

definition CCommand_one ::
    "system_config \<Rightarrow> nat \<Rightarrow> nat \<Rightarrow> RIL_Token \<Rightarrow> int \<Rightarrow> string option
      \<Rightarrow> string option \<Rightarrow> string option \<Rightarrow> CCommand" where
  "CCommand_one cfg object channel token reqId pszATCmd pParseFcn pHandlerFcn =
     \<lparr> m_object = object,
       m_uiChannel = (if channel < g_uiRilChannelCurMax cfg then channel else RIL_CHANNEL_ATCMD),
       m_token = token, m_reqId = reqId,
       m_pszATCmd1 = at_command pszATCmd, m_pszATCmd2 = None,
       m_pParseFcn = pParseFcn, m_pPostCmdHandlerFcn = pHandlerFcn,
       m_uiTimeout = 0, m_fAlwaysParse = False, m_fHighPriority = False, m_fIsInitCommand = False,
       m_pContext = False, m_pContextData = None, m_cbContextData = 0,
       m_pContextData2 = None, m_cbContextData2 = 0, m_callId = - 1 \<rparr>"

definition CCommand_data ::
    "system_config \<Rightarrow> nat \<Rightarrow> nat \<Rightarrow> RIL_Token \<Rightarrow> int \<Rightarrow> REQUEST_DATA
      \<Rightarrow> string option \<Rightarrow> string option \<Rightarrow> CCommand" where
  "CCommand_data cfg object channel token reqId reqData pParseFcn pHandlerFcn =
     \<lparr> m_object = object,
       m_uiChannel = (if channel < g_uiRilChannelCurMax cfg then channel else RIL_CHANNEL_ATCMD),
       m_token = token, m_reqId = reqId,
       m_pszATCmd1 = at_command (Some (szCmd1 reqData)),
       m_pszATCmd2 = at_command (Some (szCmd2 reqData)),
       m_pParseFcn = pParseFcn, m_pPostCmdHandlerFcn = pHandlerFcn,
       m_uiTimeout = uiTimeout reqData, m_fAlwaysParse = fForceParse reqData,
       m_fHighPriority = False, m_fIsInitCommand = False,
       m_pContext = False, m_pContextData = pContextData reqData,
       m_cbContextData = cbContextData reqData, m_pContextData2 = pContextData2 reqData,
       m_cbContextData2 = cbContextData2 reqData, m_callId = - 1 \<rparr>"

definition FreeContextData :: "CCommand \<Rightarrow> CCommand" where
  "FreeContextData cmd =
     (let cmd = (if m_cbContextData cmd > 0 then cmd\<lparr> m_pContextData := None \<rparr> else cmd)
      in if m_cbContextData2 cmd > 0 then cmd\<lparr> m_pContextData2 := None \<rparr> else cmd)"

section \<open>The queues to the command threads\<close>

record tx_state =
  g_pTxQueue :: "nat \<Rightarrow> CCommand CRilQueue option"
  g_TxQueueEvent :: "nat \<Rightarrow> bool"
  request_infos :: request_table

definition fill_timeout ::
    "system_config \<Rightarrow> CCommand \<Rightarrow> tx_state \<Rightarrow> (CCommand \<times> tx_state) option" where
  "fill_timeout cfg cmd st =
     (case GetRequestInfo (request_config.truncate cfg) (m_reqId cmd) zero_info (request_infos st) of
        None \<Rightarrow> None
      | Some (reqInfo, tab) \<Rightarrow>
          Some (if m_uiTimeout cmd = 0 then cmd\<lparr> m_uiTimeout := REQ_INFO.uiTimeout reqInfo \<rparr> else cmd,
                st\<lparr> request_infos := tab \<rparr>))"

text \<open>
  \<open>CCommand::AddCmdToQueue\<close>: the second component is what the caller's pointer holds
  afterwards, NULL when the queue owns the command.
\<close>

definition AddCmdToQueue ::
    "system_config \<Rightarrow> CCommand option \<Rightarrow> bool \<Rightarrow> tx_state
      \<Rightarrow> (bool \<times> CCommand option \<times> tx_state) option" where
  "AddCmdToQueue cfg rpCmd bFront st =
     (case rpCmd of
        None \<Rightarrow> Some (False, rpCmd, st)
      | Some cmd \<Rightarrow>
          if \<not> IsInitializationSuccessful cfg then Some (False, rpCmd, st)
          else
            (case fill_timeout cfg cmd st of
               None \<Rightarrow> None
             | Some (cmd, st) \<Rightarrow>
                 (case g_pTxQueue st (m_uiChannel cmd) of
                    None \<Rightarrow> None
                  | Some q \<Rightarrow>
                      (case Enqueue (memory cfg) cmd (if m_fHighPriority cmd then 1 else 0) bFront q of
                         None \<Rightarrow> None
                       | Some (True, q) \<Rightarrow>
                           Some (True, None,
                             st\<lparr> g_pTxQueue := (g_pTxQueue st)(m_uiChannel cmd \<mapsto> q),
                                g_TxQueueEvent := (g_TxQueueEvent st)(m_uiChannel cmd := True) \<rparr>)
                       | Some (False, q) \<Rightarrow>
                           Some (False, Some cmd,
                             st\<lparr> g_pTxQueue := (g_pTxQueue st)(m_uiChannel cmd \<mapsto> q) \<rparr>)))))"

section \<open>Lemmas\<close>

lemma fill_timeout_ok:
  assumes "request_table_ok (request_infos st)"
  shows "\<exists>t tab. fill_timeout cfg cmd st =
      Some (cmd\<lparr> m_uiTimeout := t \<rparr>, st\<lparr> request_infos := tab \<rparr>) \<and> request_table_ok tab \<and>
    (m_uiTimeout cmd \<noteq> 0 \<longrightarrow> t = m_uiTimeout cmd)"
proof -
  obtain info tab where i: "GetRequestInfo (request_config.truncate cfg) (m_reqId cmd) zero_info
      (request_infos st) = Some (info, tab)" "request_table_ok tab"
    using GetRequestInfo_total [OF assms] by blast
  show ?thesis
    using i by (intro exI [of _ "if m_uiTimeout cmd = 0 then REQ_INFO.uiTimeout info else m_uiTimeout cmd"]
        exI [of _ tab]) (simp add: fill_timeout_def)
qed

definition prio_of :: "CCommand \<Rightarrow> u32" where
  "prio_of cmd = (if m_fHighPriority cmd then 1 else 0)"

text \<open>A queue of commands: what it holds, and that the new object is not among it.\<close>

definition fresh_object :: "nat \<Rightarrow> (CCommand \<times> u32) list \<Rightarrow> bool" where
  "fresh_object n xs \<longleftrightarrow> (\<forall>e \<in> set xs. m_object (fst e) \<noteq> n)"

lemma fresh_object_enq:
  "fresh_object n xs \<Longrightarrow> m_object cmd \<noteq> n \<Longrightarrow> fresh_object n (enq cmd p f xs)"
  by (auto simp: fresh_object_def enq_def dest: set_takeWhileD set_dropWhileD)

lemma fresh_not_in: "fresh_object (m_object cmd) xs \<Longrightarrow> cmd \<notin> fst ` set xs"
  by (auto simp: fresh_object_def)

text \<open>A configuration and a command for the witnesses.\<close>

definition sample_config :: system_config where
  "sample_config = \<lparr> repository_Read = (\<lambda>_ _. None), m_uiTimeoutAPIDefault = 10000, IsMultiSIM = False,
     memory = True, IsInitializationSuccessful = True, g_uiRilChannelCurMax = 14 \<rparr>"

definition sample_command :: "nat \<Rightarrow> RIL_Token \<Rightarrow> int \<Rightarrow> CCommand" where
  "sample_command object token reqId =
     CCommand_one sample_config object RIL_CHANNEL_ATCMD token reqId (Some ''AT'') None None"

lemma AddCmdToQueue_enqueues:
  assumes up: "IsInitializationSuccessful cfg" and mem: "memory cfg"
    and tab: "request_table_ok (request_infos st)"
    and q: "g_pTxQueue st (m_uiChannel cmd) = Some q" "holds q xs"
    and fresh: "fresh_object (m_object cmd) xs"
  shows "\<exists>t tab q'. AddCmdToQueue cfg (Some cmd) front st = Some (True, None,
      st\<lparr> request_infos := tab, g_pTxQueue := (g_pTxQueue st)(m_uiChannel cmd \<mapsto> q'),
          g_TxQueueEvent := (g_TxQueueEvent st)(m_uiChannel cmd := True) \<rparr>) \<and>
    holds q' (enq (cmd\<lparr> m_uiTimeout := t \<rparr>) (prio_of cmd) front xs) \<and> m_cMutex q' = m_cMutex q \<and>
    fill_timeout cfg cmd st = Some (cmd\<lparr> m_uiTimeout := t \<rparr>, st\<lparr> request_infos := tab \<rparr>) \<and>
    request_table_ok tab"
proof -
  obtain t tab' where t: "fill_timeout cfg cmd st =
      Some (cmd\<lparr> m_uiTimeout := t \<rparr>, st\<lparr> request_infos := tab' \<rparr>)" "request_table_ok tab'"
    "m_uiTimeout cmd \<noteq> 0 \<longrightarrow> t = m_uiTimeout cmd"
    using fill_timeout_ok [OF tab] by blast
  have notin: "cmd\<lparr> m_uiTimeout := t \<rparr> \<notin> fst ` set xs"
    using fresh fresh_not_in [of "cmd\<lparr> m_uiTimeout := t \<rparr>" xs] by simp
  obtain q' where "Enqueue True (cmd\<lparr> m_uiTimeout := t \<rparr>) (prio_of cmd) front q = Some (True, q')"
    "holds q' (enq (cmd\<lparr> m_uiTimeout := t \<rparr>) (prio_of cmd) front xs)" "m_cMutex q' = m_cMutex q"
    using Enqueue_holds [OF q(2), of "cmd\<lparr> m_uiTimeout := t \<rparr>" "prio_of cmd" front] notin by auto
  then show ?thesis
    using t up mem q(1)
    by - (rule exI [of _ t], rule exI [of _ tab'], rule exI [of _ q'],
      simp add: AddCmdToQueue_def prio_of_def [symmetric])
qed


text \<open>
  The queues to the command threads of all channels in use are well formed, and hold only
  objects allocated before the \<open>n\<close>-th.
\<close>

definition queues_ok :: "system_config \<Rightarrow> nat \<Rightarrow> tx_state \<Rightarrow> bool" where
  "queues_ok cfg n st \<longleftrightarrow> 0 < g_uiRilChannelCurMax cfg \<and> request_table_ok (request_infos st) \<and>
     (\<forall>ch < g_uiRilChannelCurMax cfg. \<exists>q xs. g_pTxQueue st ch = Some q \<and> holds q xs \<and>
        (\<forall>e \<in> set xs. m_object (fst e) < n))"

lemma AddCmdToQueue_ok:
  assumes ok: "queues_ok cfg n st" and mem: "memory cfg"
    and cmd: "m_object cmd = n" "m_uiChannel cmd < g_uiRilChannelCurMax cfg"
  shows "\<exists>p st'. AddCmdToQueue cfg (Some cmd) front st = Some (IsInitializationSuccessful cfg, p, st') \<and>
    queues_ok cfg (Suc n) st'"
proof (cases "IsInitializationSuccessful cfg")
  case False
  have "queues_ok cfg (Suc n) st" using ok by (fastforce simp: queues_ok_def)
  then show ?thesis using False by (simp add: AddCmdToQueue_def)
next
  case True
  obtain q xs where q: "g_pTxQueue st (m_uiChannel cmd) = Some q" "holds q xs" "\<forall>e \<in> set xs. m_object (fst e) < n"
    and tab: "request_table_ok (request_infos st)"
    using ok cmd(2) by (fastforce simp: queues_ok_def)
  have fresh: "fresh_object (m_object cmd) xs" using q(3) cmd(1) by (auto simp: fresh_object_def)
  obtain t tab' q' where a: "AddCmdToQueue cfg (Some cmd) front st = Some (True, None,
      st\<lparr> request_infos := tab', g_pTxQueue := (g_pTxQueue st)(m_uiChannel cmd \<mapsto> q'),
          g_TxQueueEvent := (g_TxQueueEvent st)(m_uiChannel cmd := True) \<rparr>)"
    "holds q' (enq (cmd\<lparr> m_uiTimeout := t \<rparr>) (prio_of cmd) front xs)" "request_table_ok tab'"
    using AddCmdToQueue_enqueues [OF True mem tab q(1,2) fresh, of front] by blast
  have "\<forall>x \<in> fst ` set (enq (cmd\<lparr> m_uiTimeout := t \<rparr>) (prio_of cmd) front xs). m_object x < Suc n"
    unfolding enq_set using q(3) cmd(1) by fastforce
  then have "queues_ok cfg (Suc n) (st\<lparr> request_infos := tab', g_pTxQueue := (g_pTxQueue st)(m_uiChannel cmd \<mapsto> q'),
          g_TxQueueEvent := (g_TxQueueEvent st)(m_uiChannel cmd := True) \<rparr>)"
    using ok a(2,3) by (fastforce simp: queues_ok_def)
  then show ?thesis using a(1) True by simp
qed

text \<open>
  The timeout of a request as the repository file and the table of the requests give it: of a request
  of the framework the one the table has kept, otherwise the configured one (0 is forever; with
  several SIMs some requests get more), of an internal request the configured one, and the default of
  \<open>CTE\<close> for any other number and when there is no table.
\<close>

definition configured_timeout :: "system_config \<Rightarrow> int \<Rightarrow> u32" where
  "configured_timeout cfg req =
     (let v = (case repository_Read cfg ''RequestTimeouts'' (szName (g_ReqInfoDefault ! nat req)) of
                 None \<Rightarrow> m_uiTimeoutAPIDefault cfg | Some i \<Rightarrow> word_of_int i)
      in if v = 0 then 0xFFFFFFFF else if IsMultiSIM cfg then extended_timeout req v else v)"

definition timeout_of :: "system_config \<Rightarrow> request_table \<Rightarrow> int \<Rightarrow> u32" where
  "timeout_of cfg tab req =
     (case tab of
        None \<Rightarrow> m_uiTimeoutAPIDefault cfg
      | Some infos \<Rightarrow>
          if 0 \<le> req \<and> req < 130 then
            (case infos ! nat req of Some info \<Rightarrow> REQ_INFO.uiTimeout info | None \<Rightarrow> configured_timeout cfg req)
          else if INTERNAL_REQ_ID_START \<le> req \<and> req < INTERNAL_REQ_ID_START + 9 then
            (case repository_Read cfg ''InternalRequestTimeouts'' (szName (g_ReqInternal ! nat (req - INTERNAL_REQ_ID_START))) of
               None \<Rightarrow> m_uiTimeoutAPIDefault cfg | Some i \<Rightarrow> word_of_int i)
          else m_uiTimeoutAPIDefault cfg)"

lemma request_timeout_value:
  assumes "GetRequestInfo (request_config.truncate cfg) req r tab = Some (info, tab')" "request_table_ok tab"
  shows "REQ_INFO.uiTimeout info = timeout_of cfg tab req"
proof (cases tab)
  case None
  then show ?thesis using assms(1) by (auto simp: GetRequestInfo_def timeout_of_def request_config.defs)
next
  case (Some infos)
  have len: "length infos = length g_ReqInfoDefault" using assms(2) Some by (simp add: request_table_ok_def)
  consider (ril) "0 \<le> req" "req < 130" | (internal) "500 \<le> req" "req < 509" | (other) "req < 0 \<or> 130 \<le> req" "req < 500 \<or> 509 \<le> req"
    by linarith
  then show ?thesis
  proof cases
    case ril
    then show ?thesis
      using assms(1) GetRequestInfo_ril [OF len, of req "request_config.truncate cfg" r] Some
      by (cases "infos ! nat req")
        (auto simp: timeout_of_def configured_timeout_def request_timeout_def read_timeout_def request_config.defs Let_def
          split: option.splits)
  next
    case internal
    then show ?thesis
      using assms(1) Some
      by (auto simp: GetRequestInfo_def timeout_of_def read_timeout_def request_config.defs at_index_inside Let_def
          split: option.splits)
  next
    case other
    then show ?thesis
      using assms(1) Some
      by (auto simp: GetRequestInfo_def timeout_of_def request_config.defs Let_def split: if_splits)
  qed
qed

lemma fill_timeout_value:
  assumes "request_table_ok (request_infos st)" "fill_timeout cfg cmd st = Some (cmd', st')"
  shows "m_uiTimeout cmd' =
    (if m_uiTimeout cmd \<noteq> 0 then m_uiTimeout cmd else timeout_of cfg (request_infos st) (m_reqId cmd))"
  using assms request_timeout_value by (auto simp: fill_timeout_def split: option.splits)

text \<open>
  C14. A command handed to \<open>AddCmdToQueue\<close> while the system is up is stored in the queue of its
  own channel at the place its priority gives it (at the front when asked for), the command
  thread of that channel, and no other, is signalled, and the command has a timeout: its own where
  it has one, and otherwise the one of its request, which the table of the requests and the
  repository file give. The caller's pointer is NULL afterwards and no lock is kept.
\<close>

theorem AddCmdToQueue_queues:
  assumes up: "IsInitializationSuccessful cfg" and mem: "memory cfg"
    and tab: "request_table_ok (request_infos st)"
    and q: "g_pTxQueue st (m_uiChannel cmd) = Some q" "holds q xs"
    and fresh: "fresh_object (m_object cmd) xs"
  shows "\<exists>tab q'. AddCmdToQueue cfg (Some cmd) front st = Some (True, None,
      st\<lparr> request_infos := tab, g_pTxQueue := (g_pTxQueue st)(m_uiChannel cmd \<mapsto> q'),
          g_TxQueueEvent := (g_TxQueueEvent st)(m_uiChannel cmd := True) \<rparr>) \<and>
    holds q' (enq (cmd\<lparr> m_uiTimeout := (if m_uiTimeout cmd \<noteq> 0 then m_uiTimeout cmd
        else timeout_of cfg (request_infos st) (m_reqId cmd)) \<rparr>) (prio_of cmd) front xs) \<and>
    m_cMutex q' = m_cMutex q \<and> request_table_ok tab"
proof -
  obtain t tab' q' where t: "AddCmdToQueue cfg (Some cmd) front st = Some (True, None,
      st\<lparr> request_infos := tab', g_pTxQueue := (g_pTxQueue st)(m_uiChannel cmd \<mapsto> q'),
          g_TxQueueEvent := (g_TxQueueEvent st)(m_uiChannel cmd := True) \<rparr>)"
    "holds q' (enq (cmd\<lparr> m_uiTimeout := t \<rparr>) (prio_of cmd) front xs)" "m_cMutex q' = m_cMutex q"
    "request_table_ok tab'"
    and fill: "fill_timeout cfg cmd st = Some (cmd\<lparr> m_uiTimeout := t \<rparr>, st\<lparr> request_infos := tab' \<rparr>)"
    using AddCmdToQueue_enqueues [OF assms, of front] by blast
  have "t = (if m_uiTimeout cmd \<noteq> 0 then m_uiTimeout cmd else timeout_of cfg (request_infos st) (m_reqId cmd))"
    using fill_timeout_value [OF tab fill] by simp
  then show ?thesis using t by blast
qed

theorem AddCmdToQueue_queues_witness:
  "\<exists>st' q. AddCmdToQueue sample_config (Some (sample_command 5 (Some 7) 19)) False
       \<lparr> g_pTxQueue = (\<lambda>_. Some (new_queue True)), g_TxQueueEvent = (\<lambda>_. False),
         request_infos = new_table \<rparr> = Some (True, None, st') \<and>
     g_pTxQueue st' 0 = Some q \<and> holds q [((sample_command 5 (Some 7) 19)\<lparr> m_uiTimeout := 10000 \<rparr>, 0)]"
proof -
  let ?st = "\<lparr> g_pTxQueue = (\<lambda>_. Some (new_queue True)), g_TxQueueEvent = (\<lambda>_. False),
    request_infos = new_table \<rparr>" and ?c = "sample_command 5 (Some 7) 19"
  have c: "m_uiChannel ?c = 0" "m_fHighPriority ?c = False" "m_uiTimeout ?c = 0" "m_reqId ?c = 19"
    by (simp_all add: sample_command_def CCommand_one_def sample_config_def)
  have t: "timeout_of sample_config new_table 19 = 10000"
    by (simp add: timeout_of_def new_table_def configured_timeout_def sample_config_def Let_def)
  have "\<exists>tab q'. AddCmdToQueue sample_config (Some ?c) False ?st = Some (True, None,
      ?st\<lparr> request_infos := tab, g_pTxQueue := (g_pTxQueue ?st)(m_uiChannel ?c \<mapsto> q'),
          g_TxQueueEvent := (g_TxQueueEvent ?st)(m_uiChannel ?c := True) \<rparr>) \<and>
    holds q' (enq (?c\<lparr> m_uiTimeout := (if m_uiTimeout ?c \<noteq> 0 then m_uiTimeout ?c
        else timeout_of sample_config (request_infos ?st) (m_reqId ?c)) \<rparr>) (prio_of ?c) False []) \<and>
    m_cMutex q' = m_cMutex (new_queue True :: CCommand CRilQueue) \<and> request_table_ok tab"
    by (rule AddCmdToQueue_queues)
      (simp_all add: holds_new request_table_ok_new fresh_object_def, simp_all add: sample_config_def)
  then show ?thesis using c t by (auto simp: prio_of_def enq_def)
qed

end
