(* ===== verification/Response.thy ===== *)
theory Response
  imports Extract StringUtil Command
begin

text \<open>
  Model of \<open>CORE/response.cpp\<close>, \<open>CORE/silo.cpp\<close> and of
  \<open>CChannelBase::ParseUnsolicitedResponse\<close>: how the bytes a channel has received are recognised
  as a response, and cut off from what follows them.

  A \<open>CResponse\<close> extends \<open>CSelfExpandBuffer\<close> (theory StringUtil); the text the recognisers see is
  the buffer up to its first NUL, and an end marker is an offset into it. Result \<open>None\<close> is an
  access outside the buffer. Memory comes from \<open>mem\<close>. The parse functions in the tables of the
  silos are arguments: functions of the response and of the pointer they move.
\<close>

section \<open>State\<close>

record CResponse =
  base :: expand_buffer
  m_uiResultCode :: result_code
  m_uiErrorCode :: u32
  m_pData :: "u8 list option"
  m_uiDataSize :: nat
  m_uiResponseEndMarker :: nat
  m_uiFlags :: u32

definition m_szNewLine :: string where "m_szNewLine = [CR, LF]"
definition pszOkResponse :: string where "pszOkResponse = ''OK''"
definition pszErrorResponse :: string where "pszErrorResponse = ''ERROR''"
definition pszSMSResponse :: string where "pszSMSResponse = ''> ''"
definition pszCMEError :: string where "pszCMEError = ''+CME ERROR:''"
definition pszCMSError :: string where "pszCMSError = ''+CMS ERROR:''"
definition pszConnectResponse :: string where "pszConnectResponse = ''CONNECT''"
definition pszAborted :: string where "pszAborted = ''ABORTED''"

definition CME_ERROR_ILLEGAL_MS :: u32 where "CME_ERROR_ILLEGAL_MS = 103"
definition CME_ERROR_ILLEGAL_ME :: u32 where "CME_ERROR_ILLEGAL_ME = 106"

definition new_response :: CResponse where
  "new_response = \<lparr> base = new_buffer, m_uiResultCode = RRIL_RESULT_OK, m_uiErrorCode = 0,
     m_pData = None, m_uiDataSize = 0, m_uiResponseEndMarker = 0, m_uiFlags = 0 \<rparr>"

definition E_RSP_FLAG_UNSOLICITED :: u32 where "E_RSP_FLAG_UNSOLICITED = 0x01"
definition E_RSP_FLAG_UNRECOGNIZED :: u32 where "E_RSP_FLAG_UNRECOGNIZED = 0x02"
definition E_RSP_FLAG_CORRUPT :: u32 where "E_RSP_FLAG_CORRUPT = 0x04"
definition E_RSP_FLAG_TIMEDOUT :: u32 where "E_RSP_FLAG_TIMEDOUT = 0x08"
definition E_RSP_FLAG_IGNORE :: u32 where "E_RSP_FLAG_IGNORE = 0x10"

definition IsFlag :: "u32 \<Rightarrow> CResponse \<Rightarrow> bool" where
  "IsFlag f r \<longleftrightarrow> m_uiFlags r AND f \<noteq> 0"

definition SetFlag :: "u32 \<Rightarrow> bool \<Rightarrow> CResponse \<Rightarrow> CResponse" where
  "SetFlag f b r = r\<lparr> m_uiFlags := (if b then m_uiFlags r OR f else m_uiFlags r AND NOT f) \<rparr>"

abbreviation "IsUnsolicitedFlag \<equiv> IsFlag E_RSP_FLAG_UNSOLICITED"
abbreviation "SetUnsolicitedFlag \<equiv> SetFlag E_RSP_FLAG_UNSOLICITED"
abbreviation "IsUnrecognizedFlag \<equiv> IsFlag E_RSP_FLAG_UNRECOGNIZED"
abbreviation "SetUnrecognizedFlag \<equiv> SetFlag E_RSP_FLAG_UNRECOGNIZED"
abbreviation "IsCorruptFlag \<equiv> IsFlag E_RSP_FLAG_CORRUPT"
abbreviation "SetCorruptFlag \<equiv> SetFlag E_RSP_FLAG_CORRUPT"
abbreviation "IsTimedOutFlag \<equiv> IsFlag E_RSP_FLAG_TIMEDOUT"
abbreviation "SetTimedOutFlag \<equiv> SetFlag E_RSP_FLAG_TIMEDOUT"
abbreviation "IsIgnoreFlag \<equiv> IsFlag E_RSP_FLAG_IGNORE"
abbreviation "SetIgnoreFlag \<equiv> SetFlag E_RSP_FLAG_IGNORE"

definition FreeData :: "CResponse \<Rightarrow> CResponse" where
  "FreeData r = r\<lparr> m_pData := None, m_uiDataSize := 0, m_uiResponseEndMarker := 0 \<rparr>"

text \<open>The cells of the buffer, and the text in them.\<close>

definition cells_of :: "CResponse \<Rightarrow> char list" where
  "cells_of r = (case m_szBuffer (base r) of None \<Rightarrow> [] | Some cells \<Rightarrow> cells)"

definition text_of :: "CResponse \<Rightarrow> string" where
  "text_of r = cstr (cells_of r)"

text \<open>\<open>m_uiResponseEndMarker = szPointer - m_szBuffer\<close>.\<close>

definition set_end :: "string \<Rightarrow> CResponse \<Rightarrow> CResponse" where
  "set_end szPointer r = r\<lparr> m_uiResponseEndMarker := length (text_of r) - length szPointer \<rparr>"

section \<open>The silos: parsers for unsolicited responses\<close>

type_synonym parser = "CResponse \<Rightarrow> string \<Rightarrow> bool \<times> CResponse \<times> string"

text \<open>A row \<open>None\<close> stands for a NULL prefix, a table \<open>None\<close> for a NULL table.\<close>

type_synonym ATRSPTABLE = "(string option \<times> parser) list"

record CSilo =
  m_pATRspTable :: "ATRSPTABLE option"
  m_pATRspTableExt :: "ATRSPTABLE option"

definition ParseNULL :: parser where
  "ParseNULL pResponse rszPointer = (True, pResponse, rszPointer)"

definition ParseUnrecognized :: parser where
  "ParseUnrecognized pResponse rszPointer =
     (True, SetUnrecognizedFlag True (SetUnsolicitedFlag True pResponse), rszPointer)"

text \<open>
  The scan of \<open>pRspTable\<close> from row \<open>nRow\<close>: the matching row's number, and the pointer. Outer
  \<open>None\<close>: the scan runs over the end of a table without an end mark.
\<close>

fun FindParser_loop :: "ATRSPTABLE \<Rightarrow> nat \<Rightarrow> string \<Rightarrow> (nat option \<times> string) option" where
  "FindParser_loop [] nRow pszStr = None"
| "FindParser_loop ((szATRsp, fct) # rows) nRow pszStr =
     (case szATRsp of
        None \<Rightarrow> Some (None, pszStr)
      | Some s \<Rightarrow>
          if s = [] then Some (None, pszStr)
          else (case SkipString pszStr s of
                  (True, pszStr) \<Rightarrow> Some (Some nRow, pszStr)
                | (False, pszStr) \<Rightarrow> FindParser_loop rows (Suc nRow) pszStr))"

definition FindParser ::
    "CSilo \<Rightarrow> ATRSPTABLE option \<Rightarrow> string \<Rightarrow> (parser option \<times> string) option" where
  "FindParser silo pRspTable pszStr =
     (case pRspTable of
        None \<Rightarrow> Some (None, pszStr)
      | Some table \<Rightarrow>
          (case FindParser_loop table 0 pszStr of
             None \<Rightarrow> None
           | Some (None, pszStr) \<Rightarrow> Some (None, pszStr)
           | Some (Some nRow, pszStr) \<Rightarrow>
               (case m_pATRspTable silo of
                  None \<Rightarrow> None
                | Some main \<Rightarrow>
                    if nRow < length main then Some (Some (snd (main ! nRow)), pszStr) else None)))"

text \<open>Result: handled, \<open>fGotoError\<close>, the response, the pointer.\<close>

definition CSilo_ParseUnsolicitedResponse ::
    "CSilo \<Rightarrow> CResponse \<Rightarrow> string \<Rightarrow> bool \<Rightarrow> (bool \<times> bool \<times> CResponse \<times> string) option" where
  "CSilo_ParseUnsolicitedResponse silo pResponse szPointer fGotoError =
     (case FindParser silo (m_pATRspTable silo) szPointer of
        None \<Rightarrow> None
      | Some (fct, szPointer) \<Rightarrow>
          (case (case fct of
                   Some f \<Rightarrow> Some (Some f, szPointer)
                 | None \<Rightarrow> FindParser silo (m_pATRspTableExt silo) szPointer) of
             None \<Rightarrow> None
           | Some (None, szPointer) \<Rightarrow> Some (False, fGotoError, pResponse, szPointer)
           | Some (Some f, szPointer) \<Rightarrow>
               (case f pResponse szPointer of
                  (False, pResponse, szPointer) \<Rightarrow> Some (False, True, pResponse, szPointer)
                | (True, pResponse, szPointer) \<Rightarrow> Some (True, fGotoError, pResponse, szPointer))))"

text \<open>A NULL silo of the container is \<open>None\<close>.\<close>

fun ParseUnsolicitedResponse ::
    "CSilo option list \<Rightarrow> CResponse \<Rightarrow> string \<Rightarrow> bool
      \<Rightarrow> (bool \<times> bool \<times> CResponse \<times> string) option" where
  "ParseUnsolicitedResponse [] pResponse rszPointer fGotoError =
     Some (False, fGotoError, pResponse, rszPointer)"
| "ParseUnsolicitedResponse (None # silos) pResponse rszPointer fGotoError =
     ParseUnsolicitedResponse silos pResponse rszPointer fGotoError"
| "ParseUnsolicitedResponse (Some pSilo # silos) pResponse rszPointer fGotoError =
     (case CSilo_ParseUnsolicitedResponse pSilo pResponse rszPointer fGotoError of
        None \<Rightarrow> None
      | Some (True, fGotoError, pResponse, rszPointer) \<Rightarrow>
          Some (True, fGotoError, pResponse, rszPointer)
      | Some (False, fGotoError, pResponse, rszPointer) \<Rightarrow>
          if fGotoError then Some (False, True, pResponse, rszPointer)
          else ParseUnsolicitedResponse silos pResponse rszPointer fGotoError)"

section \<open>Recognising a response\<close>

definition IsUnsolicitedResponse ::
    "CSilo option list \<Rightarrow> CResponse \<Rightarrow> (bool \<times> CResponse) option" where
  "IsUnsolicitedResponse silos r =
     (let (_, szPointer) = SkipRspStart (text_of r) m_szNewLine;
          r = SetUnsolicitedFlag False r
      in case ParseUnsolicitedResponse silos r szPointer False of
           None \<Rightarrow> None
         | Some (_, _, r, szPointer) \<Rightarrow>
             Some (if IsUnsolicitedFlag r then
                     (case FindAndSkipRspEnd szPointer m_szNewLine of
                        (False, _) \<Rightarrow> (True, r)
                      | (True, szPointer) \<Rightarrow> (True, set_end szPointer r))
                   else (False, r)))"

text \<open>\<open>nCode\<close> is not initialised by the caller; its old value is never used.\<close>

definition RetrieveErrorCode :: "CResponse \<Rightarrow> string \<Rightarrow> bool \<times> CResponse \<times> string" where
  "RetrieveErrorCode r rszPointer =
     (case FindAndSkipString rszPointer [CR] of
        (False, _) \<Rightarrow> (False, r, rszPointer)
      | (True, _) \<Rightarrow>
          (case ExtractUInt32 rszPointer 0 of
             (False, _, rszPointer) \<Rightarrow> (False, r, rszPointer)
           | (True, nCode, rszPointer) \<Rightarrow>
               (True,
                SetUnsolicitedFlag False
                  (r\<lparr> m_uiResultCode :=
                        (if nCode = CME_ERROR_ILLEGAL_MS \<or> nCode = CME_ERROR_ILLEGAL_ME
                         then RIL_E_ILLEGAL_SIM_OR_ME else RIL_E_GENERIC_FAILURE),
                      m_uiErrorCode := nCode \<rparr>),
                rszPointer)))"

definition IsExtendedError :: "string \<Rightarrow> CResponse \<Rightarrow> bool \<times> CResponse" where
  "IsExtendedError pszToken r =
     (case FindAndSkipString (text_of r) pszToken of
        (False, _) \<Rightarrow> (False, r)
      | (True, szPointer) \<Rightarrow>
          (case RetrieveErrorCode r szPointer of
             (False, r, szPointer) \<Rightarrow>
               (True, SetUnrecognizedFlag True
                  (case SkipRspEnd szPointer m_szNewLine of
                     (False, _) \<Rightarrow> r\<lparr> m_uiResponseEndMarker := m_uiUsed (base r) \<rparr>
                   | (True, szPointer) \<Rightarrow> set_end szPointer r))
           | (True, r, szPointer) \<Rightarrow>
               (case SkipRspEnd szPointer m_szNewLine of
                  (False, _) \<Rightarrow> (False, r)
                | (True, szPointer) \<Rightarrow> (True, set_end szPointer r))))"

text \<open>\<open>FindAndSkipString\<close> for the token, and the fields a final result sets.\<close>

definition found_token :: "string \<Rightarrow> result_code \<Rightarrow> CResponse \<Rightarrow> bool \<times> CResponse" where
  "found_token szPointer result r =
     (True, (set_end szPointer (SetUnsolicitedFlag False r))\<lparr> m_uiResultCode := result \<rparr>)"

definition IsOkResponse :: "CResponse \<Rightarrow> bool \<times> CResponse" where
  "IsOkResponse r =
     (case FindAndSkipString (text_of r) (m_szNewLine @ pszOkResponse @ m_szNewLine) of
        (True, szPointer) \<Rightarrow> found_token szPointer RIL_E_SUCCESS r
      | (False, szPointer) \<Rightarrow>
          (case FindAndSkipString szPointer (pszOkResponse @ m_szNewLine) of
             (True, szPointer) \<Rightarrow> found_token szPointer RIL_E_SUCCESS r
           | (False, szPointer) \<Rightarrow>
               (case SkipRspStart szPointer m_szNewLine of
                  (False, _) \<Rightarrow> (False, r)
                | (True, szPointer) \<Rightarrow>
                    (case SkipString szPointer pszSMSResponse of
                       (False, _) \<Rightarrow> (False, r)
                     | (True, szPointer) \<Rightarrow> found_token szPointer RIL_E_SUCCESS r))))"

definition IsErrorResponse :: "CResponse \<Rightarrow> bool \<times> CResponse" where
  "IsErrorResponse r =
     (case FindAndSkipString (text_of r) (m_szNewLine @ pszErrorResponse @ m_szNewLine) of
        (False, _) \<Rightarrow> (False, r)
      | (True, szPointer) \<Rightarrow> found_token szPointer RIL_E_GENERIC_FAILURE r)"

definition IsConnectResponse :: "CResponse \<Rightarrow> bool \<times> CResponse" where
  "IsConnectResponse r =
     (case FindAndSkipString (text_of r) (m_szNewLine @ pszConnectResponse @ m_szNewLine) of
        (False, _) \<Rightarrow> (False, r)
      | (True, szPointer) \<Rightarrow> found_token szPointer RIL_E_SUCCESS r)"

definition IsAbortedResponse :: "CResponse \<Rightarrow> bool \<times> CResponse" where
  "IsAbortedResponse r =
     (case FindAndSkipString (text_of r) (m_szNewLine @ pszAborted @ m_szNewLine) of
        (False, _) \<Rightarrow> (False, r)
      | (True, szPointer) \<Rightarrow> found_token szPointer RIL_E_SUCCESS r)"

text \<open>
  \<open>szPointer + 1\<close> steps over a character of the text, or over its terminator; then it points at
  whatever the buffer holds behind.
\<close>

definition text_after :: "CResponse \<Rightarrow> string \<Rightarrow> string option" where
  "text_after r szPointer =
     (let i = length (text_of r) - length szPointer + 1
      in if i < length (cells_of r) \<and> NUL \<in> set (drop i (cells_of r))
         then Some (cstr (drop i (cells_of r))) else None)"

definition IsCorruptResponse :: "CResponse \<Rightarrow> (bool \<times> CResponse) option" where
  "IsCorruptResponse r =
     (if \<not> IsCorruptFlag r then Some (False, r)
      else
        (let r = SetCorruptFlag False r in
         case FindAndSkipString (text_of r) [CR] of
           (False, _) \<Rightarrow> Some (False, r)
         | (True, szPointer) \<Rightarrow>
             (case SkipString szPointer [LF] of
                (False, _) \<Rightarrow> Some (False, r)
              | (True, szPointer) \<Rightarrow>
                  (case text_after r szPointer of
                     None \<Rightarrow> None
                   | Some t \<Rightarrow>
                       Some (if fst (SkipString t [CR])
                             then (True, set_end szPointer (SetUnrecognizedFlag True r))
                             else (False, r))))))"

text \<open>\<open>m_szBuffer[m_uiUsed] = 0\<close>.\<close>

definition terminate_buffer :: "CResponse \<Rightarrow> CResponse option" where
  "terminate_buffer r =
     (case m_szBuffer (base r) of
        None \<Rightarrow> None
      | Some cells \<Rightarrow>
          if m_uiUsed (base r) < length cells
          then Some (r\<lparr> base := (base r)\<lparr> m_szBuffer := Some (cells[m_uiUsed (base r) := NUL]) \<rparr> \<rparr>)
          else None)"

text \<open>The final responses, tried in this order.\<close>

definition final_checks :: "(CResponse \<Rightarrow> bool \<times> CResponse) list" where
  "final_checks = [IsExtendedError pszCMEError, IsExtendedError pszCMSError, IsOkResponse,
     IsErrorResponse, IsConnectResponse, IsAbortedResponse]"

fun first_of :: "(CResponse \<Rightarrow> bool \<times> CResponse) list \<Rightarrow> CResponse \<Rightarrow> bool \<times> CResponse" where
  "first_of [] r = (False, r)"
| "first_of (f # fs) r = (case f r of (True, r) \<Rightarrow> (True, r) | (False, r) \<Rightarrow> first_of fs r)"

definition IsCompleteResponse ::
    "CSilo option list \<Rightarrow> CResponse \<Rightarrow> (bool \<times> CResponse) option" where
  "IsCompleteResponse silos r =
     (if m_uiUsed (base r) = 0 then Some (False, r)
      else
        (case terminate_buffer r of
           None \<Rightarrow> None
         | Some r \<Rightarrow>
             (case IsUnsolicitedResponse silos r of
                None \<Rightarrow> None
              | Some (True, r) \<Rightarrow> Some (True, r)
              | Some (False, r) \<Rightarrow>
                  (case first_of final_checks r of
                     (True, r) \<Rightarrow> Some (True, r)
                   | (False, r) \<Rightarrow> IsCorruptResponse r))))"

section \<open>Cutting a response off\<close>

text \<open>
  The buffer of the new response, which keeps the remainder, and the new \<open>m_uiUsed\<close> of the old
  one. The result of \<open>Append\<close> is not looked at.
\<close>

definition remainder :: "bool \<Rightarrow> char \<Rightarrow> CResponse \<Rightarrow> (expand_buffer \<times> nat) option" where
  "remainder mem junk r =
     (let used = m_uiUsed (base r); mark = m_uiResponseEndMarker r
      in if mark < used then
           map_option (\<lambda>(_, b). (b, mark))
             (Append mem mem junk (Some (drop mark (cells_of r))) (used - mark) new_buffer)
         else Some (new_buffer, used))"

text \<open>The result, the new \<open>rpRspIn\<close> and \<open>rpRspOut\<close>.\<close>

definition TransferData ::
    "bool \<Rightarrow> bool \<Rightarrow> char \<Rightarrow> CResponse option \<Rightarrow> CResponse option
      \<Rightarrow> (bool \<times> CResponse option \<times> CResponse option) option" where
  "TransferData new_ok mem junk rpRspIn rpRspOut =
     (case rpRspIn of
        None \<Rightarrow> Some (False, rpRspIn, rpRspOut)
      | Some r \<Rightarrow>
          if rpRspOut \<noteq> None \<or> m_uiUsed (base r) = 0 \<or> m_uiResponseEndMarker r = 0
          then Some (False, rpRspIn, rpRspOut)
          else if \<not> new_ok then Some (False, rpRspIn, rpRspOut)
          else
            (case remainder mem junk r of
               None \<Rightarrow> None
             | Some (b, used) \<Rightarrow>
                 (case terminate_buffer (r\<lparr> base := (base r)\<lparr> m_uiUsed := used \<rparr> \<rparr>) of
                    None \<Rightarrow> None
                  | Some rspOut \<Rightarrow> Some (True, Some (new_response\<lparr> base := b \<rparr>), Some rspOut))))"

definition SetData ::
    "bool \<Rightarrow> u8 list option \<Rightarrow> nat \<Rightarrow> bool \<Rightarrow> CResponse \<Rightarrow> (bool \<times> CResponse) option" where
  "SetData mem pData nSize fCpyMem r =
     (let r = r\<lparr> m_pData := None, m_uiDataSize := 0 \<rparr> in
      if nSize = 0 then Some (True, r)
      else
        (case pData of
           None \<Rightarrow> Some (False, r)
         | Some d \<Rightarrow>
             if fCpyMem then
               (if \<not> mem then Some (False, r)
                else if length d < nSize then None
                else Some (True, r\<lparr> m_pData := Some (take nSize d), m_uiDataSize := nSize \<rparr>))
             else Some (True, r\<lparr> m_pData := Some d, m_uiDataSize := nSize \<rparr>)))"

text \<open>The part of \<open>RESPONSE_DATA\<close> a parser of the modem abstraction reads and writes.\<close>

record RESPONSE_DATA =
  szResponse :: string
  uiResultCode :: result_code
  uiErrorCode :: u32
  pContextData :: "u8 list option"
  pContextData2 :: "u8 list option"
  pData :: "u8 list option"
  uiDataSize :: nat

text \<open>
  \<open>CResponse::ParseResponse\<close>. The parse functions of the modem abstraction are an argument, a
  function of their name.
\<close>

type_synonym parse_table = "string \<Rightarrow> RESPONSE_DATA \<Rightarrow> result_code \<times> RESPONSE_DATA"

definition CResponse_ParseResponse ::
    "parse_table \<Rightarrow> CCommand \<Rightarrow> CResponse \<Rightarrow> bool \<times> CResponse" where
  "CResponse_ParseResponse parse rpCmd r =
     (case m_pParseFcn rpCmd of
        None \<Rightarrow> (True, r)
      | Some parser \<Rightarrow>
          (let r = r\<lparr> m_pData := None, m_uiDataSize := 0 \<rparr>;
               (resCode, rspData) = parse parser \<lparr> szResponse = text_of r,
                  uiResultCode = m_uiResultCode r, uiErrorCode = m_uiErrorCode r,
                  pContextData = m_pContextData rpCmd, pContextData2 = m_pContextData2 rpCmd,
                  pData = None, uiDataSize = 0 \<rparr>;
               r = r\<lparr> m_pData := pData rspData, m_uiDataSize := uiDataSize rspData \<rparr>
           in (True,
               if resCode \<noteq> RIL_E_SUCCESS
               then SetUnsolicitedFlag False (r\<lparr> m_uiResultCode := resCode \<rparr>)
               else r\<lparr> m_uiResultCode := uiResultCode rspData \<rparr>)))"

text \<open>The last part of the result is the call \<open>GetContext()->Execute\<close>, where there is a context.\<close>

definition ParseResponse ::
    "parse_table \<Rightarrow> CCommand option \<Rightarrow> CResponse option
      \<Rightarrow> bool \<times> CResponse option \<times> (bool \<times> u32) option" where
  "ParseResponse parse rpCmd rpRsp =
     (case (rpCmd, rpRsp) of
        (Some cmd, Some rsp) \<Rightarrow>
          (let rsp = (if m_uiResultCode rsp = RIL_E_SUCCESS \<or> m_fAlwaysParse cmd
                      then snd (CResponse_ParseResponse parse cmd rsp) else rsp)
               in (True, Some rsp,
              if m_pContext cmd
              then Some (m_uiResultCode rsp = RIL_E_SUCCESS, m_uiErrorCode rsp) else None))
      | _ \<Rightarrow> (False, rpRsp, None))"

section \<open>Flags and frames\<close>

lemmas flag_defs = E_RSP_FLAG_UNSOLICITED_def E_RSP_FLAG_UNRECOGNIZED_def E_RSP_FLAG_CORRUPT_def
  E_RSP_FLAG_TIMEDOUT_def E_RSP_FLAG_IGNORE_def

lemma IsFlag_bit: "IsFlag f r \<longleftrightarrow> (\<exists>n < 32. bit (m_uiFlags r) n \<and> bit f n)"
proof -
  have "m_uiFlags r AND f = 0 \<longleftrightarrow> (\<forall>n < 32. \<not> (bit (m_uiFlags r) n \<and> bit f n))"
    by (auto simp: bit_eq_iff bit_simps dest: bit_imp_le_length)
  then show ?thesis by (auto simp: IsFlag_def)
qed

lemma IsFlag_SetFlag_same: "f \<noteq> 0 \<Longrightarrow> IsFlag f (SetFlag f b r) = b"
proof -
  assume "f \<noteq> 0"
  then obtain n where "bit f n" "n < 32" by (auto simp: bit_eq_iff dest: bit_imp_le_length)
  then show ?thesis by (auto simp: IsFlag_bit SetFlag_def bit_simps)
qed

lemma IsFlag_SetFlag_other:
  assumes "f AND g = 0"
  shows "IsFlag f (SetFlag g b r) = IsFlag f r"
proof -
  have "\<not> (bit f n \<and> bit g n)" for n using assms by (metis bit_0_eq bit_and_iff bot_apply bot_bool_def)
  then show ?thesis by (auto simp: IsFlag_bit SetFlag_def bit_simps)
qed

lemma flags_distinct [simp]:
  "E_RSP_FLAG_UNSOLICITED AND E_RSP_FLAG_CORRUPT = 0" "E_RSP_FLAG_CORRUPT AND E_RSP_FLAG_UNSOLICITED = 0"
  "E_RSP_FLAG_UNSOLICITED AND E_RSP_FLAG_UNRECOGNIZED = 0"
  "E_RSP_FLAG_UNRECOGNIZED AND E_RSP_FLAG_UNSOLICITED = 0"
  "E_RSP_FLAG_UNRECOGNIZED AND E_RSP_FLAG_CORRUPT = 0" "E_RSP_FLAG_CORRUPT AND E_RSP_FLAG_UNRECOGNIZED = 0"
  "E_RSP_FLAG_IGNORE AND E_RSP_FLAG_UNSOLICITED = 0" "E_RSP_FLAG_IGNORE AND E_RSP_FLAG_UNRECOGNIZED = 0"
  "E_RSP_FLAG_TIMEDOUT AND E_RSP_FLAG_UNSOLICITED = 0" "E_RSP_FLAG_IGNORE AND E_RSP_FLAG_CORRUPT = 0"
  "E_RSP_FLAG_UNSOLICITED \<noteq> 0" "E_RSP_FLAG_UNRECOGNIZED \<noteq> 0" "E_RSP_FLAG_CORRUPT \<noteq> 0"
  "E_RSP_FLAG_TIMEDOUT \<noteq> 0" "E_RSP_FLAG_IGNORE \<noteq> 0"
  by (simp_all add: flag_defs)

lemmas flag_simps = IsFlag_SetFlag_same IsFlag_SetFlag_other

lemma SetFlag_frame [frame_simps]:
  "base (SetFlag f b r) = base r" "m_uiResponseEndMarker (SetFlag f b r) = m_uiResponseEndMarker r"
  "m_uiResultCode (SetFlag f b r) = m_uiResultCode r" "m_uiErrorCode (SetFlag f b r) = m_uiErrorCode r"
  "CResponse.m_pData (SetFlag f b r) = CResponse.m_pData r" "m_uiDataSize (SetFlag f b r) = m_uiDataSize r"
  by (simp_all add: SetFlag_def)

lemma text_of_cong: "base r = base r' \<Longrightarrow> text_of r = text_of r'"
  by (simp add: text_of_def cells_of_def)

lemma text_of_simps [simp]:
  "text_of (SetFlag f b r) = text_of r" "text_of (set_end p r) = text_of r"
  "text_of (r\<lparr> m_uiResponseEndMarker := k \<rparr>) = text_of r"
  "text_of (r\<lparr> m_uiResultCode := c \<rparr>) = text_of r" "text_of (r\<lparr> m_uiErrorCode := e \<rparr>) = text_of r"
  by (simp_all add: text_of_def cells_of_def SetFlag_def set_end_def)

lemma set_end_frame [frame_simps]:
  "base (set_end p r) = base r" "m_uiFlags (set_end p r) = m_uiFlags r"
  "IsFlag f (set_end p r) = IsFlag f r" "m_uiResultCode (set_end p r) = m_uiResultCode r"
  by (simp_all add: set_end_def IsFlag_def)

lemma IsFlag_frame [frame_simps]:
  "IsFlag f (r\<lparr> m_uiResultCode := c \<rparr>) = IsFlag f r" "IsFlag f (r\<lparr> m_uiErrorCode := e \<rparr>) = IsFlag f r"
  "IsFlag f (r\<lparr> m_uiResponseEndMarker := k \<rparr>) = IsFlag f r" "IsFlag f (r\<lparr> base := b \<rparr>) = IsFlag f r"
  by (simp_all add: IsFlag_def)

section \<open>The contract of a parser\<close>

text \<open>
  What the channel relies on: a parser of an unsolicited response moves the pointer forward in
  the text, and leaves the buffer, the end marker and the corrupt mark alone.
\<close>

locale unsol_parser =
  fixes parse :: parser
  assumes in_text: "suffix (snd (snd (parse r s))) s"
    and keeps_buffer: "base (fst (snd (parse r s))) = base r"
    and keeps_marker: "m_uiResponseEndMarker (fst (snd (parse r s))) = m_uiResponseEndMarker r"
    and keeps_corrupt: "IsCorruptFlag (fst (snd (parse r s))) = IsCorruptFlag r"
begin

lemma keeps_text: "text_of (fst (snd (parse r s))) = text_of r"
  using keeps_buffer by (rule text_of_cong)

end

interpretation null_parser: unsol_parser ParseNULL
  by unfold_locales (simp_all add: ParseNULL_def)

interpretation unrecognized_parser: unsol_parser ParseUnrecognized
  by unfold_locales (simp_all add: ParseUnrecognized_def frame_simps flag_simps)

text \<open>
  A table ends in a row with an empty prefix, and every row before it has a parser that meets the
  contract; no extension table is in use.
\<close>

definition table_ok :: "ATRSPTABLE \<Rightarrow> bool" where
  "table_ok t \<longleftrightarrow> (\<exists>row \<in> set t. fst row = None \<or> fst row = Some []) \<and>
     (\<forall>row \<in> set t. unsol_parser (snd row))"

definition silo_ok :: "CSilo \<Rightarrow> bool" where
  "silo_ok silo \<longleftrightarrow> m_pATRspTableExt silo = None \<and>
     (\<forall>t. m_pATRspTable silo = Some t \<longrightarrow> table_ok t)"

lemma FindParser_loop_ok:
  "\<exists>row \<in> set t. fst row = None \<or> fst row = Some [] \<Longrightarrow>
    \<exists>n p. FindParser_loop t k s = Some (n, p) \<and> suffix p s \<and>
      (\<forall>i. n = Some i \<longrightarrow> k \<le> i \<and> i < k + length t)"
proof (induction t k s rule: FindParser_loop.induct)
  case (2 a fct rows nRow pszStr)
  show ?case
  proof (cases "a = None \<or> a = Some []")
    case False
    then obtain c where a: "a = Some c" "c \<noteq> []" by auto
    obtain b p where p: "SkipString pszStr c = (b, p)" by fastforce
    have sp: "suffix p pszStr" using SkipString_suffix [of pszStr c] p by simp
    show ?thesis
    proof (cases b)
      case True
      then show ?thesis using a p sp by simp
    next
      case F: False
      have "\<exists>n q. FindParser_loop rows (Suc nRow) p = Some (n, q) \<and> suffix q p \<and>
          (\<forall>i. n = Some i \<longrightarrow> Suc nRow \<le> i \<and> i < Suc nRow + length rows)"
        using "2.IH" [OF a(1,2) p [symmetric, unfolded F]] "2.prems" False F p by auto
      then show ?thesis using a p F sp by (auto intro: suffix_order.trans)
    qed
  qed auto
qed simp

lemma FindParser_main_ok:
  assumes "silo_ok silo"
  shows "\<exists>f p. FindParser silo (m_pATRspTable silo) s = Some (f, p) \<and> suffix p s \<and>
    (\<forall>g. f = Some g \<longrightarrow> unsol_parser g)"
proof (cases "m_pATRspTable silo")
  case None
  then show ?thesis by (simp add: FindParser_def)
next
  case (Some t)
  then have t: "table_ok t" using assms by (simp add: silo_ok_def)
  then obtain n p where "FindParser_loop t 0 s = Some (n, p)" "suffix p s"
    "\<forall>i. n = Some i \<longrightarrow> i < length t"
    using FindParser_loop_ok [of t 0 s] by (auto simp: table_ok_def)
  then show ?thesis using t Some by (cases n) (auto simp: FindParser_def table_ok_def)
qed

text \<open>The frame of a response through the parsers.\<close>

definition parse_frame :: "CResponse \<Rightarrow> string \<Rightarrow> CResponse \<Rightarrow> string \<Rightarrow> bool" where
  "parse_frame r s r' s' \<longleftrightarrow> suffix s' s \<and> base r' = base r \<and>
     m_uiResponseEndMarker r' = m_uiResponseEndMarker r \<and> (IsCorruptFlag r' \<longleftrightarrow> IsCorruptFlag r)"

lemma parse_frame_trans:
  "parse_frame r s r1 s1 \<Longrightarrow> parse_frame r1 s1 r2 s2 \<Longrightarrow> parse_frame r s r2 s2"
  by (auto simp: parse_frame_def intro: suffix_order.trans)

lemma parser_frame:
  assumes "unsol_parser g" "suffix p s" "g r p = (b, r', s')"
  shows "parse_frame r s r' s'"
  using unsol_parser.in_text [OF assms(1), of r p] unsol_parser.keeps_buffer [OF assms(1), of r p]
    unsol_parser.keeps_marker [OF assms(1), of r p] unsol_parser.keeps_corrupt [OF assms(1), of r p]
    assms(2,3)
  by (auto simp: parse_frame_def intro: suffix_order.trans)

definition framed ::
    "CResponse \<Rightarrow> string \<Rightarrow> (bool \<times> bool \<times> CResponse \<times> string) option \<Rightarrow> bool" where
  "framed r s res \<longleftrightarrow> (case res of None \<Rightarrow> False | Some (_, _, r', s') \<Rightarrow> parse_frame r s r' s')"

lemma CSilo_parse_ok:
  assumes "silo_ok silo"
  shows "framed r s (CSilo_ParseUnsolicitedResponse silo r s e)"
proof -
  from FindParser_main_ok [OF assms] obtain f p where f: "FindParser silo (m_pATRspTable silo) s = Some (f, p)"
    "suffix p s" "\<forall>g. f = Some g \<longrightarrow> unsol_parser g" by blast
  have x: "FindParser silo (m_pATRspTableExt silo) p = Some (None, p)"
    using assms by (simp add: silo_ok_def FindParser_def)
  show ?thesis
  proof (cases f)
    case None
    then show ?thesis using f x
      by (simp add: CSilo_ParseUnsolicitedResponse_def framed_def parse_frame_def)
  next
    case (Some g)
    obtain b r' s' where g: "g r p = (b, r', s')" by (cases "g r p") auto
    have "parse_frame r s r' s'" using parser_frame [of g p s r b r' s'] f(2,3) g Some by simp
    then show ?thesis using f Some g
      by (cases b) (simp_all add: CSilo_ParseUnsolicitedResponse_def framed_def)
  qed
qed

lemma parse_frame_refl: "parse_frame r s r s"
  by (simp add: parse_frame_def)

lemma ParseUnsolicitedResponse_ok:
  "\<forall>silo. Some silo \<in> set silos \<longrightarrow> silo_ok silo \<Longrightarrow>
    framed r s (ParseUnsolicitedResponse silos r s e)"
proof (induction silos arbitrary: r s e)
  case Nil
  then show ?case by (simp add: framed_def parse_frame_refl)
next
  case (Cons a silos)
  show ?case
  proof (cases a)
    case None
    then show ?thesis using Cons by simp
  next
    case (Some silo)
    then have "framed r s (CSilo_ParseUnsolicitedResponse silo r s e)" using Cons.prems CSilo_parse_ok by simp
    then obtain b g r1 s1 where c: "CSilo_ParseUnsolicitedResponse silo r s e = Some (b, g, r1, s1)"
      "parse_frame r s r1 s1" by (auto simp: framed_def split: option.splits)
    have "framed r1 s1 (ParseUnsolicitedResponse silos r1 s1 g)" using Cons by simp
    then show ?thesis using c Some
      by (cases b; cases g) (auto simp: framed_def split: option.splits elim: parse_frame_trans)
  qed
qed

section \<open>The recognisers\<close>

text \<open>The buffer of a response between two operations, and the text it shows.\<close>

definition response_ok :: "CResponse \<Rightarrow> bool" where
  "response_ok r \<longleftrightarrow> buffer_ok (base r) \<and> \<not> IsCorruptFlag r"

definition bytes_of :: "CResponse \<Rightarrow> char list" where
  "bytes_of r = payload (base r)"

lemma cstr_take: "k < length cells \<Longrightarrow> cells ! k = NUL \<Longrightarrow> cstr cells = cstr (take k cells)"
proof (induction cells arbitrary: k)
  case (Cons c cs)
  then show ?case by (cases k) (auto simp: cstr_def)
qed simp

lemma text_of_bytes: "buffer_ok (base r) \<Longrightarrow> text_of r = cstr (bytes_of r)"
  using cstr_take [of "m_uiUsed (base r)" "the (m_szBuffer (base r))"]
  by (auto simp: text_of_def cells_of_def bytes_of_def payload_def buffer_ok_def cstr_def
      split: option.splits)

lemma length_bytes_of: "buffer_ok (base r) \<Longrightarrow> length (bytes_of r) = m_uiUsed (base r)"
  by (auto simp: bytes_of_def payload_def buffer_ok_def split: option.splits)

lemma length_text_of: "buffer_ok (base r) \<Longrightarrow> length (text_of r) \<le> m_uiUsed (base r)"
  using length_cstr [of "bytes_of r"] by (simp add: text_of_bytes length_bytes_of)

lemma rebase_id: "m_szBuffer (base r) = Some c \<Longrightarrow> r\<lparr> base := (base r)\<lparr> m_szBuffer := Some c \<rparr> \<rparr> = r"
  by (cases r; cases "base r") simp

lemma terminate_id:
  assumes "buffer_ok (base r)" "m_uiUsed (base r) \<noteq> 0"
  shows "terminate_buffer r = Some r"
proof -
  from assms obtain c where c: "m_szBuffer (base r) = Some c" "m_uiUsed (base r) < length c"
    "c ! m_uiUsed (base r) = NUL" by (auto simp: buffer_ok_def split: option.splits)
  then have "c[m_uiUsed (base r) := NUL] = c" by (metis list_update_id)
  with c show ?thesis by (simp add: terminate_buffer_def rebase_id)
qed

text \<open>What a recogniser leaves: the buffer as it was; the marker in the text where it succeeds.\<close>

definition recognised :: "CResponse \<Rightarrow> bool \<times> CResponse \<Rightarrow> bool" where
  "recognised r res \<longleftrightarrow> base (snd res) = base r \<and> (IsCorruptFlag (snd res) \<longleftrightarrow> IsCorruptFlag r) \<and>
     (if fst res
      then 0 < m_uiResponseEndMarker (snd res) \<and> m_uiResponseEndMarker (snd res) \<le> m_uiUsed (base r)
      else m_uiResponseEndMarker (snd res) = m_uiResponseEndMarker r)"

lemma recognised_end:
  assumes ok: "buffer_ok (base r)" and l: "length p < length (text_of r)" and b: "base r' = base r"
    and c: "IsCorruptFlag r' = IsCorruptFlag r"
  shows "recognised r (True, set_end p r')"
proof -
  have t: "text_of r' = text_of r" using b by (rule text_of_cong)
  have "m_uiResponseEndMarker (set_end p r') = length (text_of r) - length p"
    by (simp add: set_end_def t)
  then show ?thesis using l length_text_of [OF ok]
    by (simp add: recognised_def frame_simps b c)
qed

lemma recognised_found:
  assumes "buffer_ok (base r)" "length p < length (text_of r)"
  shows "recognised r (found_token p c r)"
  using recognised_end [OF assms, of "SetUnsolicitedFlag False r"]
  by (simp add: found_token_def recognised_def frame_simps flag_simps)

lemma recognised_not: "recognised r (False, r)"
  by (simp add: recognised_def)

lemma search_shorter:
  "FindAndSkipString s k = (True, p) \<Longrightarrow> k \<noteq> [] \<Longrightarrow> length p < length s"
  "SkipString s k = (True, p) \<Longrightarrow> k \<noteq> [] \<Longrightarrow> length p < length s"
  using FindAndSkipString_True_length [of s k p] SkipString_True_length [of s k p]
  by (cases k; auto)+

lemma tokens_nonempty [simp]:
  "m_szNewLine \<noteq> []" "pszCMEError \<noteq> []" "pszCMSError \<noteq> []" "pszOkResponse \<noteq> []"
  "pszErrorResponse \<noteq> []" "pszSMSResponse \<noteq> []" "pszConnectResponse \<noteq> []" "pszAborted \<noteq> []"
  by (simp_all add: m_szNewLine_def pszCMEError_def pszCMSError_def pszOkResponse_def
      pszErrorResponse_def pszSMSResponse_def pszConnectResponse_def pszAborted_def)

lemma search_le: "length (snd (FindAndSkipString s k)) \<le> length s" "length (snd (SkipString s k)) \<le> length s"
  by (simp_all add: suffix_length_le FindAndSkipString_suffix SkipString_suffix)

lemma IsOkResponse_recognised:
  assumes ok: "buffer_ok (base r)"
  shows "recognised r (IsOkResponse r)"
proof -
  let ?t = "text_of r"
  obtain b1 p1 where 1: "FindAndSkipString ?t (m_szNewLine @ pszOkResponse @ m_szNewLine) = (b1, p1)"
    by fastforce
  obtain b2 p2 where 2: "FindAndSkipString p1 (pszOkResponse @ m_szNewLine) = (b2, p2)" by fastforce
  obtain b3 p3 where 3: "SkipString p2 m_szNewLine = (b3, p3)" by fastforce
  obtain b4 p4 where 4: "SkipString p3 pszSMSResponse = (b4, p4)" by fastforce
  have l: "length p1 \<le> length ?t" "length p2 \<le> length p1" "length p3 \<le> length p2"
    using search_le [of ?t] search_le [of p1] search_le [of p2] 1 2 3 by (metis snd_conv)+
  have s: "b1 \<Longrightarrow> length p1 < length ?t" "b2 \<Longrightarrow> length p2 < length p1" "b4 \<Longrightarrow> length p4 < length p3"
    using search_shorter(1) [of ?t _ p1] search_shorter(1) [of p1 _ p2] search_shorter(2) [of p3 _ p4] 1 2 4
    by auto
  consider (first) b1 | (second) "\<not> b1" b2 | (prompt) "\<not> b1" "\<not> b2" b3 b4
    | (none) "\<not> b1" "\<not> b2" "\<not> b3 \<or> \<not> b4" by blast
  then show ?thesis
  proof cases
    case first
    with s(1) recognised_found [OF ok, of p1] 1 show ?thesis by (simp add: IsOkResponse_def)
  next
    case second
    with s(2) l recognised_found [OF ok, of p2] 1 2 show ?thesis by (simp add: IsOkResponse_def)
  next
    case prompt
    with s(3) l have "length p4 < length ?t" by simp
    from recognised_found [OF ok this] prompt 1 2 3 4 show ?thesis
      by (simp add: IsOkResponse_def cursor_simps)
  next
    case none
    with recognised_not [of r] 1 2 3 4 show ?thesis
      by (cases b3) (simp_all add: IsOkResponse_def cursor_simps)
  qed
qed

lemma token_recognised:
  assumes "buffer_ok (base r)" "k \<noteq> []"
  shows "recognised r (case FindAndSkipString (text_of r) k of
    (False, _) \<Rightarrow> (False, r) | (True, p) \<Rightarrow> found_token p c r)"
  using recognised_found [OF assms(1)] recognised_not search_shorter(1) [of "text_of r" k] assms(2)
  by (auto split: prod.split bool.split)

lemma RetrieveErrorCode_frame:
  assumes "RetrieveErrorCode r s = (b, r', s')"
  shows "suffix s' s \<and> base r' = base r \<and> IsCorruptFlag r' = IsCorruptFlag r \<and>
    m_uiResponseEndMarker r' = m_uiResponseEndMarker r"
proof -
  obtain f v p where e: "ExtractUInt32 s 0 = (f, v, p)" by (cases "ExtractUInt32 s 0") auto
  have "suffix p s" using ExtractUInt32_suffix [of s 0] e by simp
  then show ?thesis using assms e
    by (auto simp: RetrieveErrorCode_def frame_simps flag_simps split: prod.splits bool.splits)
qed

lemma IsExtendedError_recognised:
  assumes ok: "buffer_ok (base r)" and k: "k \<noteq> []"
  shows "recognised r (IsExtendedError k r)"
proof -
  let ?t = "text_of r"
  obtain b1 p1 where 1: "FindAndSkipString ?t k = (b1, p1)" by fastforce
  obtain b2 r2 p2 where 2: "RetrieveErrorCode r p1 = (b2, r2, p2)" by (cases "RetrieveErrorCode r p1") auto
  obtain b3 p3 where 3: "SkipString p2 m_szNewLine = (b3, p3)" by fastforce
  show ?thesis
  proof (cases b1)
    case False
    then show ?thesis using 1 recognised_not by (simp add: IsExtendedError_def)
  next
    case True
    have f: "suffix p2 p1" "base r2 = base r" "IsCorruptFlag r2 = IsCorruptFlag r"
      "m_uiResponseEndMarker r2 = m_uiResponseEndMarker r" using RetrieveErrorCode_frame [OF 2] by simp_all
    have "length p1 < length ?t" using search_shorter(1) 1 True k by simp
    moreover have "length p3 \<le> length p2" using search_le(2) [of p2 m_szNewLine] 3 by simp
    moreover have "length p2 \<le> length p1" using f(1) by (rule suffix_length_le)
    ultimately have l: "length p3 < length ?t" by simp
    then have u: "0 < m_uiUsed (base r)" using length_text_of [OF ok] by simp
    have t: "text_of r2 = text_of r" using f(2) by (rule text_of_cong)
    have e: "recognised r (True, set_end p3 r2)" using recognised_end [OF ok l f(2,3)] .
    have e': "recognised r (True, SetUnrecognizedFlag True (set_end p3 r2))"
      using e by (simp add: recognised_def frame_simps flag_simps)
    have w: "recognised r (True, SetUnrecognizedFlag True
        (r2\<lparr> m_uiResponseEndMarker := m_uiUsed (base r) \<rparr>))"
      using u f by (simp add: recognised_def frame_simps flag_simps)
    have n: "recognised r (False, r2)" using f by (simp add: recognised_def)
    show ?thesis
    proof (cases b2)
      case True
      with 1 2 3 \<open>b1\<close> e n show ?thesis
        by (cases b3) (simp_all add: IsExtendedError_def cursor_simps)
    next
      case False
      with 1 2 3 \<open>b1\<close> e' w f(2) show ?thesis
        by (cases b3) (simp_all add: IsExtendedError_def cursor_simps)
    qed
  qed
qed

lemma first_of_recognised:
  assumes "\<And>f r. f \<in> set fs \<Longrightarrow> buffer_ok (base r) \<Longrightarrow> recognised r (f r)" and "buffer_ok (base r)"
  shows "recognised r (first_of fs r)"
  using assms
proof (induction fs arbitrary: r)
  case Nil
  then show ?case by (simp add: recognised_not)
next
  case (Cons f fs)
  obtain b r1 where f: "f r = (b, r1)" by fastforce
  have r1: "recognised r (b, r1)" using Cons.prems(1) [of f r] Cons.prems(2) f by simp
  then have "base r1 = base r" by (simp add: recognised_def)
  then have "recognised r1 (first_of fs r1)" using Cons by simp
  then show ?case using r1 f by (cases b) (auto simp: recognised_def split: if_splits)
qed

lemma final_checks_recognised:
  "buffer_ok (base r) \<Longrightarrow> recognised r (first_of final_checks r)"
  by (rule first_of_recognised)
    (auto simp: final_checks_def IsExtendedError_recognised IsOkResponse_recognised
      IsErrorResponse_def IsConnectResponse_def IsAbortedResponse_def intro!: token_recognised)

definition silos_ok :: "CSilo option list \<Rightarrow> bool" where
  "silos_ok silos \<longleftrightarrow> (\<forall>silo. Some silo \<in> set silos \<longrightarrow> silo_ok silo)"

lemma IsUnsolicitedResponse_ok:
  assumes "silos_ok silos" "buffer_ok (base r)"
  shows "\<exists>b r'. IsUnsolicitedResponse silos r = Some (b, r') \<and> base r' = base r \<and>
    (IsCorruptFlag r' \<longleftrightarrow> IsCorruptFlag r) \<and>
    (m_uiResponseEndMarker r' = m_uiResponseEndMarker r \<or>
     b \<and> 0 < m_uiResponseEndMarker r' \<and> m_uiResponseEndMarker r' \<le> m_uiUsed (base r))"
proof -
  let ?p = "snd (SkipRspStart (text_of r) m_szNewLine)"
  let ?r = "SetUnsolicitedFlag False r"
  have "framed ?r ?p (ParseUnsolicitedResponse silos ?r ?p False)"
    using ParseUnsolicitedResponse_ok assms(1) by (simp add: silos_ok_def)
  then obtain h g r1 s1 where p: "ParseUnsolicitedResponse silos ?r ?p False = Some (h, g, r1, s1)"
    "parse_frame ?r ?p r1 s1" by (auto simp: framed_def split: option.splits)
  have f: "base r1 = base r" "IsCorruptFlag r1 = IsCorruptFlag r" "suffix s1 ?p"
    "m_uiResponseEndMarker r1 = m_uiResponseEndMarker r"
    using p(2) by (simp_all add: parse_frame_def frame_simps flag_simps)
  have l: "length s1 \<le> length (text_of r)"
    using suffix_length_le [OF f(3)] search_le(2) [of "text_of r" m_szNewLine] by (simp add: cursor_simps)
  obtain b2 p2 where 2: "FindAndSkipString s1 m_szNewLine = (b2, p2)" by fastforce
  show ?thesis
  proof (cases "IsUnsolicitedFlag r1 \<and> b2")
    case True
    then have "length p2 < length (text_of r)" using search_shorter(1) [of s1 _ p2] 2 l by fastforce
    from recognised_end [OF assms(2) this f(1,2)] True 2 p(1) show ?thesis
      by (intro exI [of _ True] exI [of _ "set_end p2 r1"])
        (simp add: IsUnsolicitedResponse_def cursor_simps recognised_def split_beta)
  next
    case False
    then show ?thesis using 2 p(1) f
      by (cases b2) (auto simp: IsUnsolicitedResponse_def cursor_simps split_beta)
  qed
qed

lemma IsCompleteResponse_ok:
  assumes s: "silos_ok silos" and r: "response_ok r" "m_uiResponseEndMarker r = 0"
  shows "\<exists>b r'. IsCompleteResponse silos r = Some (b, r') \<and> base r' = base r \<and> \<not> IsCorruptFlag r' \<and>
    (if b then m_uiResponseEndMarker r' \<le> m_uiUsed (base r) else m_uiResponseEndMarker r' = 0) \<and>
    (b \<longrightarrow> m_uiUsed (base r) \<noteq> 0)"
proof (cases "m_uiUsed (base r) = 0")
  case True
  then show ?thesis using r
    by (intro exI [of _ False] exI [of _ r]) (simp add: IsCompleteResponse_def response_ok_def)
next
  case False
  have ok: "buffer_ok (base r)" "\<not> IsCorruptFlag r" using r by (simp_all add: response_ok_def)
  note t = terminate_id [OF ok(1) False]
  obtain b r1 where u: "IsUnsolicitedResponse silos r = Some (b, r1)" "base r1 = base r"
    "\<not> IsCorruptFlag r1"
    "m_uiResponseEndMarker r1 = 0 \<or>
     b \<and> 0 < m_uiResponseEndMarker r1 \<and> m_uiResponseEndMarker r1 \<le> m_uiUsed (base r)"
    using IsUnsolicitedResponse_ok [OF s ok(1)] ok(2) unfolding r(2) by blast
  show ?thesis
  proof (cases b)
    case True
    then have "IsCompleteResponse silos r = Some (True, r1)" using u t False
      by (simp add: IsCompleteResponse_def)
    moreover have "m_uiResponseEndMarker r1 \<le> m_uiUsed (base r)" using u(4) by linarith
    ultimately show ?thesis using u(2,3) False
      by (intro exI [of _ True] exI [of _ r1]) simp
  next
    case no: False
    obtain b2 r2 where 2: "first_of final_checks r1 = (b2, r2)" by fastforce
    have rec: "recognised r1 (b2, r2)" using final_checks_recognised [of r1] ok(1) u(2) 2 by simp
    have r2: "base r2 = base r" "\<not> IsCorruptFlag r2"
      "if b2 then 0 < m_uiResponseEndMarker r2 \<and> m_uiResponseEndMarker r2 \<le> m_uiUsed (base r)
       else m_uiResponseEndMarker r2 = 0"
      using rec u no by (simp_all add: recognised_def split: if_splits)
    have "IsCompleteResponse silos r = Some (b2, r2)"
      using u t False no 2 r2(2) by (cases b2) (simp_all add: IsCompleteResponse_def IsCorruptResponse_def)
    then show ?thesis using r2 False
      by (intro exI [of _ b2] exI [of _ r2]) (cases b2; simp)
  qed
qed

section \<open>Cutting\<close>

lemma Append_take:
  "n \<le> length src \<Longrightarrow>
    Append m1 m2 j (Some src) n b = Append m1 m2 j (Some (take n src)) n b"
  by (simp add: Append_def Let_def)

lemma bytes_of_new [simp]: "bytes_of (new_response\<lparr> base := b \<rparr>) = payload b"
  by (simp add: bytes_of_def)

lemma TransferData_ok:
  assumes r: "response_ok r" and m: "0 < m_uiResponseEndMarker r"
    "m_uiResponseEndMarker r \<le> m_uiUsed (base r)"
  shows "\<exists>i out. TransferData True True junk (Some r) None = Some (True, Some i, Some out) \<and>
    bytes_of out = take (m_uiResponseEndMarker r) (bytes_of r) \<and>
    bytes_of i = drop (m_uiResponseEndMarker r) (bytes_of r) \<and>
    response_ok i \<and> m_uiResponseEndMarker i = 0 \<and> out = r\<lparr> base := base out \<rparr>"
proof -
  let ?m = "m_uiResponseEndMarker r" and ?u = "m_uiUsed (base r)"
  obtain c where c: "m_szBuffer (base r) = Some c" "length c = m_nCapacity (base r)"
    "?u < length c" "c ! ?u = NUL"
    using r m by (auto simp: response_ok_def buffer_ok_def split: option.splits)
  have bytes: "bytes_of r = take ?u c" using c by (simp add: bytes_of_def payload_def)
  have cells: "cells_of r = c" using c by (simp add: cells_of_def)
  have nb: "buffer_ok new_buffer" "payload new_buffer = []"
    by (simp_all add: new_buffer_def buffer_ok_def payload_def)
  obtain b where cut: "remainder True junk r = Some (b, ?m)"
    and b: "buffer_ok b" "payload b = drop ?m (take ?u c)"
  proof (cases "?m < ?u")
    case True
    have t: "take (?u - ?m) (drop ?m c) = drop ?m (take ?u c)" by (simp add: drop_take)
    have l: "length (drop ?m (take ?u c)) = ?u - ?m" using c by simp
    obtain b where "Append True True junk (Some (drop ?m c)) (?u - ?m) new_buffer = Some (True, b)"
      "buffer_ok b" "payload b = drop ?m (take ?u c)"
      using Append_ok [OF nb(1) l, of True True junk] Append_take [of "?u - ?m" "drop ?m c"] c t nb(2)
      by auto
    with that [of b] True cells show ?thesis by (simp add: remainder_def)
  next
    case False
    with m(2) have "?m = ?u" by simp
    with that [of new_buffer] nb show ?thesis by (simp add: remainder_def)
  qed
  let ?r' = "r\<lparr> base := (base r)\<lparr> m_uiUsed := ?m \<rparr> \<rparr>"
  let ?out = "?r'\<lparr> base := (base ?r')\<lparr> m_szBuffer := Some (c[?m := NUL]) \<rparr> \<rparr>"
  have "terminate_buffer ?r' = Some ?out" using c m by (simp add: terminate_buffer_def)
  then have "TransferData True True junk (Some r) None = Some (True, Some (new_response\<lparr> base := b \<rparr>), Some ?out)"
    using m cut by (simp add: TransferData_def)
  moreover have "bytes_of ?out = take ?m (bytes_of r)"
    using m c by (simp add: bytes bytes_of_def payload_def min_def)
  moreover have "bytes_of (new_response\<lparr> base := b \<rparr>) = drop ?m (bytes_of r)"
    using b bytes by simp
  moreover have "response_ok (new_response\<lparr> base := b \<rparr>)"
    using b by (simp add: response_ok_def IsFlag_def new_response_def)
  moreover have "m_uiResponseEndMarker (new_response\<lparr> base := b \<rparr>) = 0"
    by (simp add: new_response_def)
  moreover have "?out = r\<lparr> base := base ?out \<rparr>" by simp
  ultimately show ?thesis by blast
qed

lemma TransferData_no_marker:
  "m_uiResponseEndMarker r = 0 \<Longrightarrow> TransferData a b junk (Some r) None = Some (False, Some r, None)"
  by (simp add: TransferData_def)

section \<open>What is recognised\<close>

lemma search_none:
  "\<not> sublist k s \<Longrightarrow> s = [] \<or> hd s \<noteq> SPC \<Longrightarrow> FindAndSkipString s k = (False, s)"
  by (simp add: FindAndSkipString_def Let_def cursor_simps strstr_None_iff [symmetric])

text \<open>
  C5. Framing of a final answer: when no component takes the text for a notification and the
  received bytes are an answer, \<open>OK\<close> on a line of its own, and anything behind it, then
  \<open>IsCompleteResponse\<close> finds the response complete with result success, solicited, and its end
  marker is right behind that line, not further into what follows.
\<close>

theorem complete_ok_response:
  assumes s: "silos_ok silos" and unsol: "IsUnsolicitedResponse silos r = Some (False, r1)"
    and r: "response_ok r" and t: "bytes_of r = body @ m_szNewLine @ pszOkResponse @ m_szNewLine @ tail"
    and nul: "NUL \<notin> set (bytes_of r)" and hd: "body = [] \<or> hd body \<noteq> SPC"
    and first: "\<And>i. i < length body \<Longrightarrow>
      \<not> prefix (m_szNewLine @ pszOkResponse @ m_szNewLine) (drop i (bytes_of r))"
    and err: "\<not> sublist pszCMEError (bytes_of r)" "\<not> sublist pszCMSError (bytes_of r)"
  shows "\<exists>r'. IsCompleteResponse silos r = Some (True, r') \<and> m_uiResultCode r' = RIL_E_SUCCESS \<and>
    \<not> IsUnsolicitedFlag r' \<and> m_uiResponseEndMarker r' = length body + 6"
proof -
  have ok: "buffer_ok (base r)" using r by (simp add: response_ok_def)
  have used: "m_uiUsed (base r) \<noteq> 0"
    using length_bytes_of [OF ok] t by (simp add: m_szNewLine_def)
  have tx: "text_of r = bytes_of r" using text_of_bytes [OF ok] cstr_id [OF nul] by simp
  have h: "bytes_of r = [] \<or> hd (bytes_of r) \<noteq> SPC"
    using hd t by (cases body) (auto simp: m_szNewLine_def)
  have b: "base r1 = base r" using IsUnsolicitedResponse_ok [OF s ok] unsol by auto
  have tx1: "text_of r1 = bytes_of r" using text_of_cong [OF b] tx by simp
  have "FindAndSkipString (bytes_of r) (m_szNewLine @ pszOkResponse @ m_szNewLine) = (True, tail)"
    using FindAndSkipString_append [of body "m_szNewLine @ pszOkResponse @ m_szNewLine" tail] first h
    by (simp add: t)
  then have "first_of final_checks r1 = found_token tail RIL_E_SUCCESS r1"
    using search_none [OF err(1) h] search_none [OF err(2) h]
    by (simp add: final_checks_def IsExtendedError_def IsOkResponse_def tx1 found_token_def)
  then have "IsCompleteResponse silos r = Some (found_token tail RIL_E_SUCCESS r1)"
    using used terminate_id [OF ok used]
    by (simp add: IsCompleteResponse_def unsol found_token_def)
  then show ?thesis
    by (simp add: found_token_def tx1 frame_simps flag_simps)
      (simp add: set_end_def tx1 t m_szNewLine_def pszOkResponse_def)
qed


lemma find_cme: "FindAndSkipString (m_szNewLine @ pszCMEError @ s) pszCMEError = (True, s)"
  by (simp add: FindAndSkipString_def Let_def cursor_simps m_szNewLine_def pszCMEError_def)

lemma word_of_nat_eq_numeral:
  "n < 2 ^ 32 \<Longrightarrow> m < 2 ^ 32 \<Longrightarrow> (word_of_nat n :: u32) = word_of_nat m \<longleftrightarrow> n = m"
  by (simp add: word_of_nat_eq_iff take_bit_nat_eq_self)

text \<open>
  C23. An error line \<open>+CME ERROR: n\<close> yields the error code \<open>n\<close>, the result code for a refused SIM
  or handset exactly for the codes 103 and 106 and a generic failure for every other one, and
  the end marker behind the line.
\<close>

theorem cme_error_code:
  assumes t: "text_of r = m_szNewLine @ pszCMEError @ SPC # dec_string n @ m_szNewLine @ tail"
    and n: "n < 2 ^ 32"
  shows "\<exists>r'. IsExtendedError pszCMEError r = (True, r') \<and> m_uiErrorCode r' = word_of_nat n \<and>
    m_uiResultCode r' = (if n = 103 \<or> n = 106 then RIL_E_ILLEGAL_SIM_OR_ME else RIL_E_GENERIC_FAILURE) \<and>
    drop (m_uiResponseEndMarker r') (text_of r) = tail"
proof -
  let ?s = "SPC # dec_string n @ m_szNewLine @ tail"
  let ?c = "if n = 103 \<or> n = 106 then RIL_E_ILLEGAL_SIM_OR_ME else RIL_E_GENERIC_FAILURE"
  have 1: "FindAndSkipString (text_of r) pszCMEError = (True, ?s)" unfolding t by (rule find_cme)
  have 2: "fst (FindAndSkipString ?s [CR])"
    by (auto simp: FindAndSkipString_char Let_def dropWhile_eq_Nil_conv m_szNewLine_def dropWhile_append)
  have 3: "ExtractUInt32 ?s 0 = (True, word_of_nat n, m_szNewLine @ tail)"
    using ExtractUInt32_dec_string [OF n, of "m_szNewLine @ tail" 1 0]
    by (simp add: m_szNewLine_def isdigit_c_def code_def)
  have 4: "SkipString (m_szNewLine @ tail) m_szNewLine = (True, tail)"
    by (simp add: SkipString_def Let_def cursor_simps m_szNewLine_def)
  have code: "(word_of_nat n = CME_ERROR_ILLEGAL_MS \<or> word_of_nat n = CME_ERROR_ILLEGAL_ME)
      \<longleftrightarrow> n = 103 \<or> n = 106"
    using word_of_nat_eq_numeral [OF n, of 103] word_of_nat_eq_numeral [OF n, of 106]
    by (simp add: CME_ERROR_ILLEGAL_MS_def CME_ERROR_ILLEGAL_ME_def)
  let ?r = "SetUnsolicitedFlag False (r\<lparr> m_uiResultCode := ?c, m_uiErrorCode := word_of_nat n \<rparr>)"
  have "RetrieveErrorCode r ?s = (True, ?r, m_szNewLine @ tail)"
    using 2 3 code by (auto simp: RetrieveErrorCode_def split: prod.split bool.split)
  then have "IsExtendedError pszCMEError r = (True, set_end tail ?r)"
    using 1 4 by (simp add: IsExtendedError_def cursor_simps)
  moreover have "suffix tail (text_of r)" unfolding t by (auto simp: suffix_def)
  then have "drop (m_uiResponseEndMarker (set_end tail ?r)) (text_of r) = tail"
    by (simp add: set_end_def suffix_drop_length)
  ultimately show ?thesis by (auto simp: set_end_def SetFlag_def)
qed


text \<open>
  An error line that has only partly arrived is thrown away: with no end of line in the
  buffer yet, \<open>IsExtendedError\<close> reports a complete, unrecognized response that covers all that
  was received, so the rest of the line will be read as a new response.
\<close>

theorem split_error_discarded:
  assumes r: "buffer_ok (base r)" and t: "text_of r = m_szNewLine @ pszCMEError @ s" "CR \<notin> set s"
  shows "\<exists>r'. IsExtendedError pszCMEError r = (True, r') \<and> IsUnrecognizedFlag r' \<and>
    m_uiResponseEndMarker r' = m_uiUsed (base r)"
proof -
  have "FindAndSkipString (text_of r) pszCMEError = (True, s)"
    unfolding t by (rule find_cme)
  moreover have "FindAndSkipString s [CR] = (False, dropWhile (\<lambda>c. c = SPC) s)"
    using t(2) by (auto simp: FindAndSkipString_def Let_def cursor_simps strstr_char dropWhile_eq_Nil_conv
        dest: set_dropWhileD)
  moreover have "CR \<notin> set (dropWhile (\<lambda>c. c = SPC) s)" using t(2) by (auto dest: set_dropWhileD)
  then have "\<not> fst (SkipString s m_szNewLine)"
    by (auto simp: SkipString_def Let_def cursor_simps m_szNewLine_def prefix_def)
  ultimately show ?thesis
    by (auto simp: IsExtendedError_def RetrieveErrorCode_def cursor_simps flag_simps frame_simps
        split: prod.split bool.split)
qed

section \<open>Concrete responses\<close>

text \<open>A response whose buffer holds the given bytes.\<close>

definition received :: "string \<Rightarrow> CResponse" where
  "received s = new_response\<lparr> base := \<lparr> m_szBuffer = Some (s @ [NUL]), m_uiUsed = length s,
     m_nCapacity = Suc (length s) \<rparr> \<rparr>"

lemma received_ok: "response_ok (received s)" "bytes_of (received s) = s"
  by (simp_all add: received_def response_ok_def buffer_ok_def new_response_def IsFlag_def bytes_of_def
      payload_def)

lemma text_of_received: "NUL \<notin> set s \<Longrightarrow> text_of (received s) = s"
  by (simp add: received_def text_of_def cells_of_def cstr_append_NUL)

text \<open>A component that answers to one notification.\<close>

definition ring_silo :: CSilo where
  "ring_silo = \<lparr> m_pATRspTable = Some [(Some ''RING'', ParseUnrecognized), (None, ParseNULL)],
     m_pATRspTableExt = None \<rparr>"

lemma ring_silo_ok: "silos_ok [None, Some ring_silo]"
  by (simp add: silos_ok_def silo_ok_def ring_silo_def table_ok_def null_parser.unsol_parser_axioms
      unrecognized_parser.unsol_parser_axioms)

theorem complete_ok_response_witness:
  "\<exists>r'. IsCompleteResponse [None, Some ring_silo]
       (received (''+CSQ: 9'' @ [CR, LF] @ ''OK'' @ [CR, LF] @ ''rest'')) = Some (True, r') \<and>
     m_uiResultCode r' = RIL_E_SUCCESS \<and> m_uiResponseEndMarker r' = 13"
proof -
  let ?body = "''+CSQ: 9''" and ?t = "''+CSQ: 9'' @ [CR, LF] @ ''OK'' @ [CR, LF] @ ''rest''"
  have p: "\<not> prefix (m_szNewLine @ pszOkResponse @ m_szNewLine) (drop i ?t)" if "i < length ?body" for i
    using that by (auto simp: less_Suc_eq m_szNewLine_def pszOkResponse_def numeral_eq_Suc)
  have e: "\<not> sublist pszCMEError ?t" "\<not> sublist pszCMSError ?t"
    by (simp_all add: pszCMEError_def pszCMSError_def sublist_Cons_right)
  have u: "IsUnsolicitedResponse [None, Some ring_silo] (received ?t) =
      Some (False, SetUnsolicitedFlag False (received ?t))"
    by code_simp
  show ?thesis
    using complete_ok_response [OF ring_silo_ok u, of ?body "''rest''"] p e
    by (simp add: received_ok m_szNewLine_def pszOkResponse_def) blast
qed

theorem cme_error_code_witness:
  "\<exists>r'. IsExtendedError pszCMEError (received (m_szNewLine @ pszCMEError @ SPC # dec_string 103 @ m_szNewLine @ ''x'')) =
      (True, r') \<and> m_uiErrorCode r' = 103 \<and> m_uiResultCode r' = RIL_E_ILLEGAL_SIM_OR_ME"
proof -
  have "NUL \<notin> set (m_szNewLine @ pszCMEError @ SPC # dec_string 103 @ m_szNewLine @ ''x'')"
    by code_simp
  from text_of_received [OF this] show ?thesis
    using cme_error_code [of _ 103 "''x''"] by fastforce
qed

theorem split_error_discarded_witness:
  "\<exists>r'. IsExtendedError pszCMEError (received (m_szNewLine @ pszCMEError @ '' 10'')) = (True, r') \<and>
     IsUnrecognizedFlag r' \<and> m_uiResponseEndMarker r' = 16"
proof -
  let ?t = "m_szNewLine @ pszCMEError @ '' 10''"
  have "NUL \<notin> set ?t" "CR \<notin> set '' 10''" by (simp_all add: m_szNewLine_def pszCMEError_def)
  with text_of_received [of ?t] split_error_discarded [of "received ?t" "'' 10''"] received_ok [of ?t]
  have "\<exists>r'. IsExtendedError pszCMEError (received ?t) = (True, r') \<and> IsUnrecognizedFlag r' \<and>
    m_uiResponseEndMarker r' = m_uiUsed (base (received ?t))" by (simp add: response_ok_def)
  moreover have "m_uiUsed (base (received ?t)) = 16"
    by (simp add: received_def m_szNewLine_def pszCMEError_def)
  ultimately show ?thesis by simp
qed

end
