(* ===== verification/Channel.thy ===== *)
theory Channel
  imports Response RilQueue
begin

text \<open>
  Model of the receive side of a channel: \<open>CChannel::ProcessModemData\<close>, \<open>ProcessResponse\<close>,
  \<open>ReadQueue\<close>, \<open>FlushResponse\<close>, \<open>ProcessNoop\<close>, \<open>FindIdenticalRequestsAndSendResponses\<close>
  (\<open>CORE/ND/channel_nd.cpp\<close>) and \<open>CChannelBase::ResponseThread\<close> (\<open>CORE/channelbase.cpp\<close>).

  A response in the receive queue is an object with an identity, so the queue holds pairs of an
  address and a response. What the code hands to the framework or to the modem manager is a
  list of effects.
\<close>

section \<open>State\<close>

record channel =
  m_pResponse :: "CResponse option"
  m_bTimeoutWaitingForResponse :: bool
  m_bCmdThreadBlockedOnRxQueue :: bool
  g_pRxQueue :: "(nat \<times> CResponse) CRilQueue"
  g_RxQueueEvent :: bool
  next_object :: nat
  effects :: "effect list"

definition emit :: "effect \<Rightarrow> channel \<Rightarrow> channel" where
  "emit e ch = ch\<lparr> effects := effects ch @ [e] \<rparr>"

section \<open>The response thread's side\<close>

definition ProcessResponse :: "bool \<Rightarrow> CResponse \<Rightarrow> channel \<Rightarrow> (bool \<times> channel) option" where
  "ProcessResponse mem rpResponse ch =
     (if IsIgnoreFlag rpResponse then Some (True, ch)
      else if IsUnrecognizedFlag rpResponse then Some (True, ch)
      else if IsUnsolicitedFlag rpResponse then
        Some (True,
          if m_uiResultCode rpResponse \<noteq> RRIL_RESULT_OK
          then emit (OnUnsolicitedResponse (m_uiResultCode rpResponse) (CResponse.m_pData rpResponse)
                       (m_uiDataSize rpResponse)) ch
          else ch)
      else if m_bCmdThreadBlockedOnRxQueue ch then
        (let ch = ch\<lparr> m_bCmdThreadBlockedOnRxQueue := False, next_object := Suc (next_object ch) \<rparr>
         in case Enqueue mem (next_object ch, rpResponse) m_uiMinPriority False (g_pRxQueue ch) of
              None \<Rightarrow> None
            | Some (False, q) \<Rightarrow> Some (False, ch\<lparr> g_pRxQueue := q \<rparr>)
            | Some (True, q) \<Rightarrow> Some (True, ch\<lparr> g_pRxQueue := q, g_RxQueueEvent := True \<rparr>))
      else Some (True, ch))"

partial_function (option) process_loop ::
    "bool \<Rightarrow> char \<Rightarrow> CSilo option list \<Rightarrow> channel \<Rightarrow> (bool \<times> channel) option" where
  [code]: "process_loop mem junk silos ch =
     (case m_pResponse ch of
        None \<Rightarrow> None
      | Some r \<Rightarrow>
          (case IsCompleteResponse silos r of
             None \<Rightarrow> None
           | Some (complete, r) \<Rightarrow>
               if \<not> complete then Some (True, ch\<lparr> m_pResponse := Some r \<rparr>)
               else
                 (case TransferData mem mem junk (Some r) None of
                    None \<Rightarrow> None
                  | Some (ok, rspIn, rspOut) \<Rightarrow>
                      if \<not> ok then Some (False, ch\<lparr> m_pResponse := rspIn \<rparr>)
                      else
                        (case rspOut of
                           None \<Rightarrow> None
                         | Some pResponse \<Rightarrow>
                             Option.bind (ProcessResponse mem pResponse (ch\<lparr> m_pResponse := rspIn \<rparr>))
                               (\<lambda>(ok, ch). if ok then process_loop mem junk silos ch
                                           else Some (False, ch))))))"

definition ProcessModemData ::
    "bool \<Rightarrow> char \<Rightarrow> CSilo option list \<Rightarrow> char list \<Rightarrow> channel \<Rightarrow> (bool \<times> channel) option" where
  "ProcessModemData mem junk silos szRxBytes ch =
     (if szRxBytes = [] then Some (False, ch)
      else if m_pResponse ch = None \<and> \<not> mem then Some (False, emit RequestCleanUp ch)
      else
        (let r = (case m_pResponse ch of None \<Rightarrow> new_response | Some r \<Rightarrow> r) in
         case Append mem mem junk (Some szRxBytes) (length szRxBytes) (base r) of
           None \<Rightarrow> None
         | Some (ok, b) \<Rightarrow>
             (let r = r\<lparr> base := b \<rparr> in
              if \<not> ok then Some (False, ch\<lparr> m_pResponse := Some r \<rparr>)
              else
                process_loop mem junk silos
                  (if m_bTimeoutWaitingForResponse ch
                   then ch\<lparr> m_pResponse := Some (SetCorruptFlag True r),
                            m_bTimeoutWaitingForResponse := False \<rparr>
                   else ch\<lparr> m_pResponse := Some r \<rparr>))))"

definition FlushResponse :: "channel \<Rightarrow> channel" where
  "FlushResponse ch =
     (case m_pResponse ch of
        None \<Rightarrow> ch
      | Some r \<Rightarrow>
          (let r = (if m_uiDataSize r \<noteq> 0 then FreeData r else r);
               r = (if m_szBuffer (base r) \<noteq> None then r\<lparr> base := Flush (base r) \<rparr> else r)
           in ch\<lparr> m_pResponse := Some r \<rparr>))"

text \<open>
  The thread. What the port does is an input: for each turn of the outer loop, whether waiting
  fails (and in which state of the system), or what the reads of the inner loop return. Once
  the inputs are used up the thread is still running.
\<close>

datatype read_result =
    ReadFails bool bool  \<comment> \<open>spoof mode, \<open>m_bPossibleInvalidFD\<close>\<close>
  | ReadBytes "char list" bool bool  \<comment> \<open>the bytes, spoof mode, \<open>m_bReadThreadBlocked\<close>\<close>

datatype turn =
    WaitFails bool bool bool  \<comment> \<open>shutdown or spoof, \<open>m_bPossibleInvalidFD\<close>, \<open>IsPortOpen\<close>\<close>
  | DataAvailable "read_result list"

datatype thread = Running nat channel | Exited channel

definition MAX_READERROR :: nat where "MAX_READERROR = 3"

fun read_turn ::
    "bool \<Rightarrow> char \<Rightarrow> CSilo option list \<Rightarrow> bool \<Rightarrow> read_result list \<Rightarrow> nat \<Rightarrow> channel
      \<Rightarrow> thread option" where
  "read_turn mem junk silos bFirstRead [] uiReadError ch = Some (Running uiReadError ch)"
| "read_turn mem junk silos bFirstRead (ReadFails spoof invalidFD # rs) uiReadError ch =
     Some (if spoof then Exited ch
           else if invalidFD then Running uiReadError ch
           else Exited (emit RequestCleanUp ch))"
| "read_turn mem junk silos bFirstRead (ReadBytes szData spoof blocked # rs) uiReadError ch =
     (if szData = [] then
        Some (if bFirstRead \<and> spoof then Exited ch else Running uiReadError ch)
      else if blocked then Some (Running 0 ch)
      else
        (case ProcessModemData mem junk silos szData ch of
           None \<Rightarrow> None
         | Some (False, ch) \<Rightarrow> Some (Running 0 ch)
         | Some (True, ch) \<Rightarrow> read_turn mem junk silos False rs 0 ch))"

fun ResponseThread ::
    "bool \<Rightarrow> char \<Rightarrow> CSilo option list \<Rightarrow> turn list \<Rightarrow> nat \<Rightarrow> channel \<Rightarrow> thread option" where
  "ResponseThread mem junk silos [] uiReadError ch =
     Some (if uiReadError \<ge> MAX_READERROR then Exited (emit RequestCleanUp ch)
           else Running uiReadError ch)"
| "ResponseThread mem junk silos (t # ts) uiReadError ch =
     (if uiReadError \<ge> MAX_READERROR then Some (Exited (emit RequestCleanUp ch))
      else
        (case t of
           WaitFails ending invalidFD open \<Rightarrow>
             if ending then Some (Exited ch)
             else if invalidFD then ResponseThread mem junk silos ts uiReadError ch
             else if open then ResponseThread mem junk silos ts (Suc uiReadError) ch
             else Some (Exited (emit RequestCleanUp ch))
         | DataAvailable rs \<Rightarrow>
             (case read_turn mem junk silos True rs uiReadError ch of
                None \<Rightarrow> None
              | Some (Exited ch) \<Rightarrow> Some (Exited ch)
              | Some (Running uiReadError ch) \<Rightarrow> ResponseThread mem junk silos ts uiReadError ch)))"

section \<open>The command thread's side\<close>

definition ProcessNoop :: "bool \<Rightarrow> bool \<times> CResponse option \<times> effect list" where
  "ProcessNoop mem =
     (if \<not> mem then (False, None, [RequestCleanUp])
      else (True, Some (SetUnsolicitedFlag False (new_response\<lparr> m_uiResultCode := RIL_E_SUCCESS \<rparr>)), []))"

datatype wait_result = WAIT_EVENT_0_SIGNALED | CancelSignaled | WAIT_TIMEDOUT | WaitOther

text \<open>
  \<open>wait\<close>: the outcome of \<open>WaitForAnyEvent\<close> and the channel afterwards (the response thread runs
  meanwhile). Result: the code, the response, the channel.
\<close>

definition read_dequeue ::
    "CResponse option \<Rightarrow> channel \<Rightarrow> (result_code \<times> CResponse option \<times> channel) option" where
  "read_dequeue rpResponse ch =
     (case Dequeue (g_pRxQueue ch) of
        None \<Rightarrow> None
      | Some (None, q) \<Rightarrow> Some (RIL_E_GENERIC_FAILURE, rpResponse, ch\<lparr> g_pRxQueue := q \<rparr>)
      | Some (Some r, q) \<Rightarrow>
          Some (RIL_E_SUCCESS, Some (snd r), ch\<lparr> g_pRxQueue := q, g_RxQueueEvent := False \<rparr>))"

definition ReadQueue ::
    "bool \<Rightarrow> (channel \<Rightarrow> wait_result \<times> channel) \<Rightarrow> CResponse option \<Rightarrow> channel
      \<Rightarrow> (result_code \<times> CResponse option \<times> channel) option" where
  "ReadQueue mem wait rpResponse ch =
     (case IsEmpty (g_pRxQueue ch) of
        (False, q) \<Rightarrow> read_dequeue rpResponse (ch\<lparr> g_pRxQueue := q \<rparr>)
      | (True, q) \<Rightarrow>
          (case wait (ch\<lparr> g_pRxQueue := q \<rparr>) of
             (WAIT_EVENT_0_SIGNALED, ch) \<Rightarrow> read_dequeue rpResponse ch
           | (WAIT_TIMEDOUT, ch) \<Rightarrow>
               Some (RIL_E_GENERIC_FAILURE,
                 if mem
                 then Some (SetTimedOutFlag True (SetUnsolicitedFlag False
                              (new_response\<lparr> m_uiResultCode := RIL_E_GENERIC_FAILURE \<rparr>)))
                 else None, ch)
           | (_, ch) \<Rightarrow> Some (RIL_E_GENERIC_FAILURE, rpResponse, ch)))"

fun complete_identical ::
    "int \<Rightarrow> result_code \<Rightarrow> u8 list option \<Rightarrow> nat \<Rightarrow> int \<Rightarrow> CCommand list
      \<Rightarrow> CCommand CRilQueue \<Rightarrow> nat \<Rightarrow> effect list
      \<Rightarrow> (nat \<times> effect list \<times> CCommand CRilQueue) option" where
  "complete_identical reqID uiCode pResponse responseLen callId [] q n es = Some (n, es, q)"
| "complete_identical reqID uiCode pResponse responseLen callId (c # cs) q n es =
     (if m_reqId c = reqID \<and> m_callId c = callId then
        (case DequeueByObj c q of
           None \<Rightarrow> None
         | Some (False, q) \<Rightarrow>
             complete_identical reqID uiCode pResponse responseLen callId cs q n es
         | Some (True, q) \<Rightarrow>
             (case m_token c of
                None \<Rightarrow> complete_identical reqID uiCode pResponse responseLen callId cs q n es
              | Some _ \<Rightarrow>
                  complete_identical reqID uiCode pResponse responseLen callId cs q (Suc n)
                    (es @ [RequestComplete (m_token c) uiCode pResponse responseLen])))
      else complete_identical reqID uiCode pResponse responseLen callId cs q n es)"

definition FindIdenticalRequestsAndSendResponses ::
    "bool \<Rightarrow> int \<Rightarrow> result_code \<Rightarrow> u8 list option \<Rightarrow> nat \<Rightarrow> int \<Rightarrow> CCommand CRilQueue
      \<Rightarrow> (nat \<times> effect list \<times> CCommand CRilQueue) option" where
  "FindIdenticalRequestsAndSendResponses mem reqID uiCode pResponse responseLen callId q =
     (case GetAllQueuedObjects mem q of
        None \<Rightarrow> None
      | Some (None, n, q) \<Rightarrow> if n = 0 then Some (0, [], q) else None
      | Some (Some cmds, _, q) \<Rightarrow>
          complete_identical reqID uiCode pResponse responseLen callId cmds q 0 [])"

section \<open>Nothing of the stream is lost\<close>

definition rx_queue_ok :: "channel \<Rightarrow> bool" where
  "rx_queue_ok ch \<longleftrightarrow>
     (\<exists>xs. holds (g_pRxQueue ch) xs \<and> (\<forall>e \<in> set xs. fst (fst e) \<le> next_object ch))"

definition channel_ok :: "channel \<Rightarrow> bool" where
  "channel_ok ch \<longleftrightarrow> \<not> m_bTimeoutWaitingForResponse ch \<and> rx_queue_ok ch \<and>
     (\<forall>r. m_pResponse ch = Some r \<longrightarrow> response_ok r \<and> m_uiResponseEndMarker r = 0)"

definition pending :: "channel \<Rightarrow> char list" where
  "pending ch = (case m_pResponse ch of None \<Rightarrow> [] | Some r \<Rightarrow> bytes_of r)"

fun process_all :: "bool \<Rightarrow> CResponse list \<Rightarrow> channel \<Rightarrow> (bool \<times> channel) option" where
  "process_all mem [] ch = Some (True, ch)"
| "process_all mem (r # rs) ch =
     (case ProcessResponse mem r ch of
        None \<Rightarrow> None
      | Some (ok, ch) \<Rightarrow> if ok then process_all mem rs ch else Some (False, ch))"

lemma emit_frame [frame_simps]:
  "m_pResponse (emit e ch) = m_pResponse ch" "g_pRxQueue (emit e ch) = g_pRxQueue ch"
  "next_object (emit e ch) = next_object ch"
  "m_bTimeoutWaitingForResponse (emit e ch) = m_bTimeoutWaitingForResponse ch"
  "emit e (ch\<lparr> m_pResponse := p \<rparr>) = (emit e ch)\<lparr> m_pResponse := p \<rparr>"
  by (simp_all add: emit_def)

lemma Enqueue_response:
  assumes "rx_queue_ok ch"
  shows "\<exists>q. Enqueue True (Suc (next_object ch), r) m_uiMinPriority False (g_pRxQueue ch) = Some (True, q) \<and>
    (\<exists>xs. holds q xs \<and> (\<forall>e \<in> set xs. fst (fst e) \<le> Suc (next_object ch)))"
proof -
  from assms obtain xs where xs: "holds (g_pRxQueue ch) xs" "\<forall>e \<in> set xs. fst (fst e) \<le> next_object ch"
    by (auto simp: rx_queue_ok_def)
  let ?x = "(Suc (next_object ch), r)"
  have "?x \<notin> fst ` set xs" using xs(2) by force
  then have "mset (enq ?x m_uiMinPriority False xs) = add_mset (?x, m_uiMinPriority) (mset xs)"
    by (rule enq_mset)
  then have "set (enq ?x m_uiMinPriority False xs) = insert (?x, m_uiMinPriority) (set xs)"
    by (metis set_mset_add_mset_insert set_mset_mset)
  with Enqueue_holds [OF xs(1), of ?x m_uiMinPriority False] xs(2) show ?thesis
    by (fastforce intro: le_SucI)
qed

lemma ProcessResponse_ok:
  assumes "channel_ok ch"
  shows "\<exists>ch'. (\<forall>p. ProcessResponse True r (ch\<lparr> m_pResponse := p \<rparr>) = Some (True, ch'\<lparr> m_pResponse := p \<rparr>)) \<and>
    channel_ok ch' \<and> m_pResponse ch' = m_pResponse ch"
proof (cases "\<not> IsIgnoreFlag r \<and> \<not> IsUnrecognizedFlag r \<and> \<not> IsUnsolicitedFlag r
    \<and> m_bCmdThreadBlockedOnRxQueue ch")
  case True
  obtain q where q: "Enqueue True (Suc (next_object ch), r) m_uiMinPriority False (g_pRxQueue ch) = Some (True, q)"
    "\<exists>xs. holds q xs \<and> (\<forall>e \<in> set xs. fst (fst e) \<le> Suc (next_object ch))"
    using Enqueue_response assms unfolding channel_ok_def by blast
  let ?ch = "ch\<lparr> m_bCmdThreadBlockedOnRxQueue := False, next_object := Suc (next_object ch),
    g_pRxQueue := q, g_RxQueueEvent := True \<rparr>"
  have "channel_ok ?ch" using assms q(2) by (simp add: channel_ok_def rx_queue_ok_def)
  moreover have "\<forall>p. ProcessResponse True r (ch\<lparr> m_pResponse := p \<rparr>) = Some (True, ?ch\<lparr> m_pResponse := p \<rparr>)"
    using True q(1) by (simp add: ProcessResponse_def Let_def)
  ultimately show ?thesis by (intro exI [of _ ?ch]) simp
next
  case False
  define ch' where "ch' = (if \<not> IsIgnoreFlag r \<and> \<not> IsUnrecognizedFlag r \<and> IsUnsolicitedFlag r
      \<and> m_uiResultCode r \<noteq> RRIL_RESULT_OK
    then emit (OnUnsolicitedResponse (m_uiResultCode r) (CResponse.m_pData r) (m_uiDataSize r)) ch else ch)"
  have "channel_ok ch'" "m_pResponse ch' = m_pResponse ch"
    using assms by (simp_all add: ch'_def channel_ok_def rx_queue_ok_def frame_simps)
  moreover have "\<forall>p. ProcessResponse True r (ch\<lparr> m_pResponse := p \<rparr>) = Some (True, ch'\<lparr> m_pResponse := p \<rparr>)"
    using False by (auto simp: ProcessResponse_def ch'_def frame_simps)
  ultimately show ?thesis by blast
qed

lemma process_all_frame:
  "channel_ok ch \<Longrightarrow> process_all True rs ch = Some (True, ch') \<Longrightarrow>
    process_all True rs (ch\<lparr> m_pResponse := p \<rparr>) = Some (True, ch'\<lparr> m_pResponse := p \<rparr>)"
proof (induction rs arbitrary: ch)
  case (Cons r rs)
  from ProcessResponse_ok [OF Cons.prems(1), of r] obtain ch1 where
    1: "\<forall>p. ProcessResponse True r (ch\<lparr> m_pResponse := p \<rparr>) = Some (True, ch1\<lparr> m_pResponse := p \<rparr>)"
    "channel_ok ch1" "m_pResponse ch1 = m_pResponse ch" by blast
  have "ProcessResponse True r ch = Some (True, ch1)"
    using 1(1) [rule_format, of "m_pResponse ch"] 1(3) by simp
  with 1 Cons show ?case by simp
qed simp


lemma channel_ok_response:
  "channel_ok ch \<Longrightarrow> response_ok r \<Longrightarrow> m_uiResponseEndMarker r = 0 \<Longrightarrow>
    channel_ok (ch\<lparr> m_pResponse := Some r \<rparr>)"
  by (simp add: channel_ok_def rx_queue_ok_def)

lemma channel_id: "m_pResponse ch = p \<Longrightarrow> ch\<lparr> m_pResponse := p \<rparr> = ch"
  by (cases ch) simp

text \<open>One turn of the loop: it ends, or hands a non-empty prefix on.\<close>

lemma process_loop_turn:
  assumes ch: "channel_ok ch" "m_pResponse ch = Some r" and s: "silos_ok silos"
  shows "(\<exists>ok r'. process_loop True junk silos ch = Some (ok, ch\<lparr> m_pResponse := Some r' \<rparr>) \<and>
      response_ok r' \<and> m_uiResponseEndMarker r' = 0 \<and> bytes_of r' = bytes_of r) \<or>
    (\<exists>out i ch1. ProcessResponse True out ch = Some (True, ch1\<lparr> m_pResponse := Some r \<rparr>) \<and>
      bytes_of out \<noteq> [] \<and> bytes_of out @ bytes_of i = bytes_of r \<and> channel_ok ch1 \<and>
      m_pResponse ch1 = Some i \<and>
      process_loop True junk silos ch = process_loop True junk silos ch1)"
proof -
  have r: "response_ok r" "m_uiResponseEndMarker r = 0" using ch by (auto simp: channel_ok_def)
  from IsCompleteResponse_ok [OF s r] obtain b r1 where
    1: "IsCompleteResponse silos r = Some (b, r1)" "base r1 = base r" "\<not> IsCorruptFlag r1"
      "if b then m_uiResponseEndMarker r1 \<le> m_uiUsed (base r) else m_uiResponseEndMarker r1 = 0"
    by blast
  have r1: "response_ok r1" "bytes_of r1 = bytes_of r"
    using 1 r by (simp_all add: response_ok_def bytes_of_def)
  show ?thesis
  proof (cases "b \<and> m_uiResponseEndMarker r1 \<noteq> 0")
    case False
    then have m: "m_uiResponseEndMarker r1 = 0" using 1(4) by (cases b) simp_all
    have "process_loop True junk silos ch = Some (\<not> b, ch\<lparr> m_pResponse := Some r1 \<rparr>)"
      using ch(2) 1(1) TransferData_no_marker [OF m, of True True junk]
      by (subst process_loop.simps) (cases b; simp)
    then show ?thesis using r1 m by blast
  next
    case True
    then have m: "0 < m_uiResponseEndMarker r1" "m_uiResponseEndMarker r1 \<le> m_uiUsed (base r1)"
      using 1 by simp_all
    from TransferData_ok [OF r1(1) m] obtain i out where
      t: "TransferData True True junk (Some r1) None = Some (True, Some i, Some out)"
        "bytes_of out = take (m_uiResponseEndMarker r1) (bytes_of r1)"
        "bytes_of i = drop (m_uiResponseEndMarker r1) (bytes_of r1)"
        "response_ok i" "m_uiResponseEndMarker i = 0" by blast
    let ?ch = "ch\<lparr> m_pResponse := Some i \<rparr>"
    from ProcessResponse_ok [OF channel_ok_response [OF ch(1) t(4,5)], of out] obtain ch1 where
      p: "\<forall>p. ProcessResponse True out (?ch\<lparr> m_pResponse := p \<rparr>) = Some (True, ch1\<lparr> m_pResponse := p \<rparr>)"
        "channel_ok ch1" "m_pResponse ch1 = Some i" by auto
    have "ProcessResponse True out ch = Some (True, ch1\<lparr> m_pResponse := Some r \<rparr>)"
      using p(1) [rule_format, of "Some r"] by (simp add: channel_id [OF ch(2)])
    moreover have "length (bytes_of r1) = m_uiUsed (base r1)"
      using r1(1) by (simp add: response_ok_def length_bytes_of)
    then have "bytes_of out \<noteq> []" using t(2) m by auto
    moreover have "bytes_of out @ bytes_of i = bytes_of r" using t r1 by simp
    moreover have "ProcessResponse True out ?ch = Some (True, ch1)"
      using p(1) [rule_format, of "Some i"] by (simp add: channel_id [OF p(3)])
    then have "process_loop True junk silos ch = process_loop True junk silos ch1"
      using ch(2) 1(1) t(1) True by (subst process_loop.simps) simp
    ultimately show ?thesis using p(2,3) by blast
  qed
qed

lemma process_loop_ok:
  assumes "channel_ok ch" "m_pResponse ch = Some r" "silos_ok silos"
  shows "\<exists>ok ch' rs. process_loop True junk silos ch = Some (ok, ch') \<and> channel_ok ch' \<and>
    concat (map bytes_of rs) @ pending ch' = bytes_of r \<and> (\<forall>x \<in> set rs. bytes_of x \<noteq> []) \<and>
    process_all True rs ch = Some (True, ch'\<lparr> m_pResponse := Some r \<rparr>)"
  using assms
proof (induction "length (bytes_of r)" arbitrary: ch r rule: less_induct)
  case less
  from process_loop_turn [OF less.prems, of junk] consider
    (stop) ok r' where "process_loop True junk silos ch = Some (ok, ch\<lparr> m_pResponse := Some r' \<rparr>)"
      "response_ok r'" "m_uiResponseEndMarker r' = 0" "bytes_of r' = bytes_of r"
    | (go) out i ch1 where "ProcessResponse True out ch = Some (True, ch1\<lparr> m_pResponse := Some r \<rparr>)"
      "bytes_of out \<noteq> []" "bytes_of out @ bytes_of i = bytes_of r" "channel_ok ch1"
      "m_pResponse ch1 = Some i" "process_loop True junk silos ch = process_loop True junk silos ch1"
    by blast
  then show ?case
  proof cases
    case stop
    then show ?thesis using less.prems
      by (intro exI [of _ ok] exI [of _ "ch\<lparr> m_pResponse := Some r' \<rparr>"] exI [of _ "[]"])
        (simp add: pending_def channel_ok_response)
  next
    case go
    have "length (bytes_of i) < length (bytes_of r)" using go(2,3) by (metis length_append length_greater_0_conv less_add_same_cancel2)
    from less.hyps [OF this go(4,5) less.prems(3)] obtain ok ch' rs where
      ih: "process_loop True junk silos ch1 = Some (ok, ch')" "channel_ok ch'"
        "concat (map bytes_of rs) @ pending ch' = bytes_of i" "\<forall>x \<in> set rs. bytes_of x \<noteq> []"
        "process_all True rs ch1 = Some (True, ch'\<lparr> m_pResponse := Some i \<rparr>)" by blast
    have "process_all True rs (ch1\<lparr> m_pResponse := Some r \<rparr>) = Some (True, ch'\<lparr> m_pResponse := Some r \<rparr>)"
      using process_all_frame [OF go(4) ih(5), of "Some r"] by simp
    then have "process_all True (out # rs) ch = Some (True, ch'\<lparr> m_pResponse := Some r \<rparr>)"
      using go(1) by simp
    moreover have "concat (map bytes_of (out # rs)) @ pending ch' = bytes_of r" using ih(3) go(3) by simp
    ultimately show ?thesis using ih(1,2,4) go(2,6)
      by (intro exI [of _ ok] exI [of _ ch'] exI [of _ "out # rs"]) simp
  qed
qed

lemma ProcessModemData_ok:
  assumes ch: "channel_ok ch" and s: "silos_ok silos" and rx: "szRxBytes \<noteq> []"
  shows "\<exists>ok ch' rs. ProcessModemData True junk silos szRxBytes ch = Some (ok, ch') \<and> channel_ok ch' \<and>
    concat (map bytes_of rs) @ pending ch' = pending ch @ szRxBytes \<and>
    (\<forall>x \<in> set rs. bytes_of x \<noteq> []) \<and>
    (\<exists>p. process_all True rs ch = Some (True, ch'\<lparr> m_pResponse := p \<rparr>))"
proof -
  define r where "r = (case m_pResponse ch of None \<Rightarrow> new_response | Some r \<Rightarrow> r)"
  have r: "response_ok r" "m_uiResponseEndMarker r = 0" "bytes_of r = pending ch"
    using ch by (auto simp: r_def channel_ok_def pending_def response_ok_def new_response_def
        new_buffer_def buffer_ok_def IsFlag_def bytes_of_def payload_def split: option.splits)
  have "buffer_ok (base r)" using r(1) by (simp add: response_ok_def)
  from Append_ok [OF this refl, of True True junk szRxBytes] obtain b where
    b: "Append True True junk (Some szRxBytes) (length szRxBytes) (base r) = Some (True, b)"
      "buffer_ok b" "payload b = payload (base r) @ szRxBytes" by auto
  let ?r = "r\<lparr> base := b \<rparr>" and ?ch = "ch\<lparr> m_pResponse := Some (r\<lparr> base := b \<rparr>) \<rparr>"
  have r': "response_ok ?r" "m_uiResponseEndMarker ?r = 0" "bytes_of ?r = pending ch @ szRxBytes"
    using r b by (simp_all add: response_ok_def frame_simps bytes_of_def)
  have ch': "channel_ok ?ch" using channel_ok_response [OF ch r'(1,2)] .
  have "ProcessModemData True junk silos szRxBytes ch = process_loop True junk silos ?ch"
    using rx b(1) ch by (simp add: ProcessModemData_def r_def [symmetric] channel_ok_def)
  moreover obtain ok ch1 rs where l: "process_loop True junk silos ?ch = Some (ok, ch1)" "channel_ok ch1"
    "concat (map bytes_of rs) @ pending ch1 = bytes_of ?r" "\<forall>x \<in> set rs. bytes_of x \<noteq> []"
    "process_all True rs ?ch = Some (True, ch1\<lparr> m_pResponse := Some ?r \<rparr>)"
    using process_loop_ok [OF ch' _ s, of ?r junk] by auto
  moreover have "process_all True rs ch = Some (True, ch1\<lparr> m_pResponse := m_pResponse ch \<rparr>)"
    using process_all_frame [OF ch' l(5), of "m_pResponse ch"] by simp
  ultimately show ?thesis using r'(3) by auto
qed

text \<open>A NUL in front of the received bytes hides everything behind it.\<close>

lemma SkipString_Nil: "k \<noteq> [] \<Longrightarrow> SkipString [] k = (False, [])"
  by (simp add: SkipString_def Let_def cursor_simps)

lemma FindAndSkipString_Nil: "k \<noteq> [] \<Longrightarrow> FindAndSkipString [] k = (False, [])"
  by (simp add: FindAndSkipString_def Let_def cursor_simps)

lemma FindParser_loop_Nil:
  "\<exists>row \<in> set t. fst row = None \<or> fst row = Some [] \<Longrightarrow> FindParser_loop t k [] = Some (None, [])"
  by (induction t k "[] :: string" rule: FindParser_loop.induct)
    (auto simp: SkipString_Nil split: option.splits)

lemma ParseUnsolicitedResponse_Nil:
  "\<forall>silo. Some silo \<in> set silos \<longrightarrow> silo_ok silo \<Longrightarrow>
    ParseUnsolicitedResponse silos r [] False = Some (False, False, r, [])"
proof (induction silos)
  case (Cons a silos)
  have "CSilo_ParseUnsolicitedResponse silo r [] False = Some (False, False, r, [])" if "silo_ok silo" for silo
    using that FindParser_loop_Nil
    by (auto simp: CSilo_ParseUnsolicitedResponse_def silo_ok_def FindParser_def table_ok_def
        split: option.splits)
  with Cons show ?case by (cases a) auto
qed simp

text \<open>
  A NUL byte in front of the collected bytes blocks the channel: whatever follows it, even
  complete answers, \<open>IsCompleteResponse\<close> sees the empty text, never finds a complete response
  and leaves the bytes in place, so no later read gets past them either.
\<close>

theorem NUL_blocks:
  assumes s: "silos_ok silos" and r: "response_ok r" and b: "bytes_of r = NUL # rest"
  shows "IsCompleteResponse silos r = Some (False, SetUnsolicitedFlag False r)"
proof -
  have ok: "buffer_ok (base r)" "\<not> IsCorruptFlag r" using r by (simp_all add: response_ok_def)
  have used: "m_uiUsed (base r) \<noteq> 0" using length_bytes_of [OF ok(1)] b by simp
  have tx: "text_of r = []" using text_of_bytes [OF ok(1)] b by (simp add: cstr_def)
  have "IsUnsolicitedResponse silos r = Some (False, SetUnsolicitedFlag False r)"
    using s by (simp add: IsUnsolicitedResponse_def tx cursor_simps SkipString_Nil silos_ok_def
        ParseUnsolicitedResponse_Nil flag_simps)
  then show ?thesis
    using terminate_id [OF ok(1) used] used ok(2)
    by (simp add: IsCompleteResponse_def final_checks_def IsExtendedError_def IsOkResponse_def
        IsErrorResponse_def IsConnectResponse_def IsAbortedResponse_def IsCorruptResponse_def tx
        FindAndSkipString_Nil SkipString_Nil cursor_simps flag_simps)
qed


section \<open>Identical requests\<close>

definition identical :: "int \<Rightarrow> int \<Rightarrow> CCommand \<Rightarrow> bool" where
  "identical reqID callId c \<longleftrightarrow> m_reqId c = reqID \<and> m_callId c = callId"

lemma complete_identical_ok:
  assumes "holds q xs" "distinct (map fst xs)" "distinct cs" "set cs \<subseteq> fst ` set xs"
  shows "\<exists>q'. complete_identical reqID rc d l callId cs q n es =
      Some (n + length [c \<leftarrow> cs. identical reqID callId c \<and> m_token c \<noteq> None],
        es @ map (\<lambda>c. RequestComplete (m_token c) rc d l)
               [c \<leftarrow> cs. identical reqID callId c \<and> m_token c \<noteq> None], q') \<and>
    holds q' [e \<leftarrow> xs. \<not> (identical reqID callId (fst e) \<and> fst e \<in> set cs)] \<and>
    m_cMutex q' = m_cMutex q"
  using assms
proof (induction cs arbitrary: q xs n es)
  case Nil
  then show ?case by auto
next
  case (Cons c cs)
  show ?case
  proof (cases "identical reqID callId c")
    case False
    have d: "distinct cs" "set cs \<subseteq> fst ` set xs" using Cons.prems(3,4) by simp_all
    have f: "[e \<leftarrow> xs. \<not> (identical reqID callId (fst e) \<and> fst e \<in> set cs)] =
        [e \<leftarrow> xs. \<not> (identical reqID callId (fst e) \<and> fst e \<in> set (c # cs))]"
      using False by (intro filter_cong) auto
    have "complete_identical reqID rc d l callId (c # cs) q n es = complete_identical reqID rc d l callId cs q n es"
      using False by (auto simp: identical_def)
    then show ?thesis using Cons.IH [OF Cons.prems(1,2) d, of n es] False unfolding f by simp
  next
    case True
    from DequeueByObj_holds [OF Cons.prems(1), of c] obtain q1 where
      q1: "DequeueByObj c q = Some (True, q1)" "holds q1 (deq_obj c xs)" "m_cMutex q1 = m_cMutex q"
      using Cons.prems(4) by auto
    let ?xs = "filter (\<lambda>e. fst e \<noteq> c) xs"
    have xs: "holds q1 ?xs" "distinct (map fst ?xs)"
      using q1(2) deq_obj_filter [OF Cons.prems(2)] Cons.prems(2) by (auto simp: distinct_map_filter)
    have "fst ` set ?xs = fst ` set xs - {c}" by force
    then have sub: "set cs \<subseteq> fst ` set ?xs" using Cons.prems(3,4) by auto
    have f: "[e \<leftarrow> ?xs. \<not> (identical reqID callId (fst e) \<and> fst e \<in> set cs)] =
        [e \<leftarrow> xs. \<not> (identical reqID callId (fst e) \<and> fst e \<in> set (c # cs))]"
      using True by (auto simp: filter_filter intro: filter_cong)
    have d: "distinct cs" using Cons.prems(3) by simp
    show ?thesis
    proof (cases "m_token c")
      case None
      then have "complete_identical reqID rc d l callId (c # cs) q n es =
          complete_identical reqID rc d l callId cs q1 n es"
        using True q1(1) by (simp add: identical_def)
      with Cons.IH [OF xs d sub, of n es] q1(3) None show ?thesis unfolding f by simp
    next
      case (Some t)
      then have "complete_identical reqID rc d l callId (c # cs) q n es =
          complete_identical reqID rc d l callId cs q1 (Suc n) (es @ [RequestComplete (Some t) rc d l])"
        using True q1(1) by (simp add: identical_def)
      with Cons.IH [OF xs d sub, of "Suc n" "es @ [RequestComplete (Some t) rc d l]"] q1(3) Some True
      show ?thesis unfolding f by simp
    qed
  qed
qed

text \<open>
  C18. Answering identical requests: every queued command with this request id and call id is
  taken out of the transmit queue, exactly one completion is sent for each of them that
  carries a token, in queue order and with the given result, the other commands stay as they
  are, and the queue's lock is free again.
\<close>

theorem FindIdenticalRequests_ok:
  assumes "holds q xs" "distinct (map fst xs)"
  shows "\<exists>q'. FindIdenticalRequestsAndSendResponses True reqID rc d l callId q =
      Some (length [e \<leftarrow> xs. identical reqID callId (fst e) \<and> m_token (fst e) \<noteq> None],
        map (\<lambda>e. RequestComplete (m_token (fst e)) rc d l)
          [e \<leftarrow> xs. identical reqID callId (fst e) \<and> m_token (fst e) \<noteq> None], q') \<and>
    holds q' [e \<leftarrow> xs. \<not> identical reqID callId (fst e)] \<and> m_cMutex q' = m_cMutex q"
proof -
  have f: "[e \<leftarrow> xs. \<not> (identical reqID callId (fst e) \<and> fst e \<in> set (map fst xs))] =
      [e \<leftarrow> xs. \<not> identical reqID callId (fst e)]" by (intro filter_cong) auto
  have m: "filter P (map fst xs) = map fst (filter (P \<circ> fst) xs)" for P
    by (rule filter_map)
  show ?thesis
  proof (cases "xs = []")
    case True
    then show ?thesis using assms
      by (simp add: FindIdenticalRequestsAndSendResponses_def GetAllQueuedObjects_holds)
  next
    case False
    have "set (map fst xs) \<subseteq> fst ` set xs" by simp
    from complete_identical_ok [OF assms assms(2) this, of reqID rc d l callId 0 "[]"] False assms(1)
    show ?thesis
      unfolding f m
      by (simp add: FindIdenticalRequestsAndSendResponses_def GetAllQueuedObjects_holds comp_def)
  qed
qed


section \<open>The thread gives up\<close>

text \<open>Three failed waits in a row, on an open and valid port, request the clean up; two do not.\<close>

lemma ResponseThread_gives_up:
  "ResponseThread mem junk silos (WaitFails False False True # WaitFails False False True
     # WaitFails False False True # ts) 0 ch = Some (Exited (emit RequestCleanUp ch))"
  by (cases ts) (simp_all add: MAX_READERROR_def)

fun thread_channel :: "thread \<Rightarrow> channel" where
  "thread_channel (Running e ch) = ch"
| "thread_channel (Exited ch) = ch"

lemma channel_ok_emit [simp]: "channel_ok (emit e ch) = channel_ok ch"
  by (simp add: channel_ok_def rx_queue_ok_def frame_simps)

lemma read_turn_ok:
  "silos_ok silos \<Longrightarrow> channel_ok ch \<Longrightarrow>
    \<exists>t. read_turn True junk silos first rs e ch = Some t \<and> channel_ok (thread_channel t)"
proof (induction "True" junk silos first rs e ch rule: read_turn.induct)
  case (3 junk silos first szData spoof blocked rs e ch)
  show ?case
  proof (cases "szData = [] \<or> blocked")
    case False
    then obtain ok ch' where "ProcessModemData True junk silos szData ch = Some (ok, ch')" "channel_ok ch'"
      using ProcessModemData_ok [OF "3.prems"(2,1), of szData junk] by auto
    with 3 False show ?thesis by (cases ok) auto
  qed (use 3 in auto)
qed auto

text \<open>
  C2. The reader thread never fails: for every sequence of waits and reads, with any read
  sizes, errors and bytes, each turn of \<open>ResponseThread\<close> returns and keeps the channel well
  formed (no pointer outside a buffer is read, no cleared response is used).
\<close>

theorem ResponseThread_ok:
  "silos_ok silos \<Longrightarrow> channel_ok ch \<Longrightarrow>
    \<exists>t. ResponseThread True junk silos ts e ch = Some t \<and> channel_ok (thread_channel t)"
proof (induction ts arbitrary: e ch)
  case (Cons t ts)
  show ?case
  proof (cases t)
    case (DataAvailable rs)
    from read_turn_ok [OF Cons.prems, of junk True rs e] obtain u where
      "read_turn True junk silos True rs e ch = Some u" "channel_ok (thread_channel u)" by blast
    with Cons DataAvailable show ?thesis by (cases u) auto
  qed (use Cons in auto)
qed auto

section \<open>Properties\<close>

lemma process_all_append:
  assumes "process_all True rs ch = Some (True, ch1)"
  shows "process_all True (rs @ rs') ch = process_all True rs' ch1"
  using assms by (induction rs arbitrary: ch) (auto split: option.splits if_splits)

text \<open>The calls of \<open>ProcessModemData\<close> for a sequence of reads from the port.\<close>

fun feed :: "char \<Rightarrow> CSilo option list \<Rightarrow> string list \<Rightarrow> channel \<Rightarrow> channel option" where
  "feed junk silos [] ch = Some ch"
| "feed junk silos (rx # rxs) ch =
     (case ProcessModemData True junk silos rx ch of
        None \<Rightarrow> None
      | Some (_, ch) \<Rightarrow> feed junk silos rxs ch)"

text \<open>
  C1. Nothing the modem sends is lost, duplicated or reordered on its way through the channel.
  However the byte stream is cut into reads, every call of \<open>ProcessModemData\<close> returns, and the
  bytes of the responses handed to \<open>ProcessResponse\<close>, in order, followed by what is still
  pending, are the bytes that were pending before followed by all the bytes read. No empty
  response is ever made, the channel is well formed after every read, and apart from the
  response being collected its state is that of processing these responses one after another.
\<close>

theorem received_bytes_conserved:
  assumes "silos_ok silos" "channel_ok ch" "[] \<notin> set reads"
  shows "\<exists>ch' rs p. feed junk silos reads ch = Some ch' \<and> channel_ok ch' \<and>
    concat (map bytes_of rs) @ pending ch' = pending ch @ concat reads \<and>
    (\<forall>x \<in> set rs. bytes_of x \<noteq> []) \<and>
    process_all True rs ch = Some (True, ch'\<lparr> m_pResponse := p \<rparr>)"
  using assms(2,3)
proof (induction reads arbitrary: ch)
  case Nil
  then show ?case by (intro exI [of _ ch] exI [of _ "[]"] exI [of _ "m_pResponse ch"]) simp
next
  case (Cons rx reads)
  from Cons.prems have rx: "rx \<noteq> []" by auto
  from ProcessModemData_ok [OF Cons.prems(1) assms(1) rx, of junk] obtain ok ch1 rs p where
    1: "ProcessModemData True junk silos rx ch = Some (ok, ch1)" "channel_ok ch1"
      "concat (map bytes_of rs) @ pending ch1 = pending ch @ rx" "\<forall>x \<in> set rs. bytes_of x \<noteq> []"
      "process_all True rs ch = Some (True, ch1\<lparr> m_pResponse := p \<rparr>)" by blast
  from Cons.IH [OF 1(2)] Cons.prems obtain ch2 rs' p' where
    2: "feed junk silos reads ch1 = Some ch2" "channel_ok ch2"
      "concat (map bytes_of rs') @ pending ch2 = pending ch1 @ concat reads"
      "\<forall>x \<in> set rs'. bytes_of x \<noteq> []"
      "process_all True rs' ch1 = Some (True, ch2\<lparr> m_pResponse := p' \<rparr>)" by auto
  have "process_all True (rs @ rs') ch = Some (True, ch2\<lparr> m_pResponse := p \<rparr>)"
    using process_all_append [OF 1(5), of rs'] process_all_frame [OF 1(2) 2(5), of p] by simp
  moreover have "concat (map bytes_of (rs @ rs')) @ pending ch2 = pending ch @ concat (rx # reads)"
    using 1(3) 2(3) by simp
  ultimately show ?case
    using 1(1,4) 2(1,2,4) by - (rule exI [of _ ch2], rule exI [of _ "rs @ rs'"], rule exI [of _ p], auto)
qed

text \<open>A channel before the first byte arrives.\<close>

definition fresh_channel :: channel where
  "fresh_channel = \<lparr> m_pResponse = None, m_bTimeoutWaitingForResponse = False,
     m_bCmdThreadBlockedOnRxQueue = False, g_pRxQueue = new_queue False, g_RxQueueEvent = False,
     next_object = 0, effects = [] \<rparr>"

lemma fresh_channel_ok: "channel_ok fresh_channel"
  using holds_new [of False] by (auto simp: channel_ok_def rx_queue_ok_def fresh_channel_def)

theorem received_bytes_conserved_witness:
  "\<exists>ch' rs. feed NUL [None, Some ring_silo] [''RI'', ''NG'' @ [CR, LF]] fresh_channel = Some ch' \<and>
    concat (map bytes_of rs) @ pending ch' = ''RING'' @ [CR, LF]"
  using received_bytes_conserved [OF ring_silo_ok fresh_channel_ok, of "[''RI'', ''NG'' @ [CR, LF]]" NUL]
  by (auto simp: pending_def fresh_channel_def)

theorem NUL_blocks_witness:
  "IsCompleteResponse [None, Some ring_silo] (received (NUL # ''OK'')) =
     Some (False, SetUnsolicitedFlag False (received (NUL # ''OK'')))"
  by (rule NUL_blocks [OF ring_silo_ok received_ok(1) received_ok(2)])

theorem FindIdenticalRequests_ok_witness:
  "\<exists>q q'. enqueue_all (Enqueue True) [(sample_command 1 (Some 11) 7, 0), (sample_command 2 (Some 12) 8, 0)]
       (new_queue False) = Some q \<and>
     FindIdenticalRequestsAndSendResponses True 7 RIL_E_SUCCESS None 0 (- 1) q =
       Some (1, [RequestComplete (Some 11) RIL_E_SUCCESS None 0], q') \<and>
     holds q' [(sample_command 2 (Some 12) 8, 0)]"
proof -
  let ?a = "sample_command 1 (Some 11) 7" and ?b = "sample_command 2 (Some 12) 8"
  have ne: "?a \<noteq> ?b" by (simp add: sample_command_def CCommand_one_def)
  obtain q where q: "enqueue_all (Enqueue True) [(?a, 0), (?b, 0)] (new_queue False) = Some q"
    "holds q [(?a, 0), (?b, 0)]"
    using rilqueue.enqueue_all_rep [OF holds_new, of "[(?a, 0), (?b, 0)]"] ne by (auto simp: enq_def)
  have "distinct (map fst [(?a, 0 :: u32), (?b, 0)])" using ne by simp
  from FindIdenticalRequests_ok [OF q(2) this, of 7 RIL_E_SUCCESS None 0 "- 1"] q(1) show ?thesis
    by (auto simp: identical_def sample_command_def CCommand_one_def)
qed

theorem ResponseThread_ok_witness:
  "\<exists>t. ResponseThread True NUL [None, Some ring_silo]
      [DataAvailable [ReadBytes ''RI'' False False, ReadBytes (''NG'' @ [CR, LF]) False False],
       WaitFails False True True] 0 fresh_channel = Some t \<and> channel_ok (thread_channel t)"
  by (rule ResponseThread_ok [OF ring_silo_ok fresh_channel_ok])

end
