(* ===== verification/Transmit.thy ===== *)
theory Transmit
  imports Channel
begin

text \<open>
  Model of the send side of a channel (\<open>CORE/ND/channel_nd.cpp\<close>): \<open>CChannel::SendCommand\<close> with its
  retries, \<open>GetResponse\<close>, the handling of a timeout (abort, ping, request to restart the
  modem) and the indefinite wait of \<open>WaitForResponse\<close>.

  The command thread of a channel runs alone except while it waits for its receive queue: what
  the reader thread does to the channel until the \<open>n\<close>-th wait ends is the argument \<open>react n\<close>, and
  \<open>cancelled n\<close> says whether the event that ends the daemon's waits is set by then. The results
  of writing to the port are an argument too. \<open>WaitForResponse\<close> repeats without a bound in the
  code; here it gets a number of rounds and says whether it is still waiting after them.
\<close>

section \<open>State and surroundings\<close>

record tx_env =
  react :: "nat \<Rightarrow> u32 \<Rightarrow> channel \<Rightarrow> channel"  \<comment> \<open>of the wait and its timeout\<close>
  cancelled :: "nat \<Rightarrow> bool"
  port :: "nat \<Rightarrow> string \<Rightarrow> bool \<times> nat"  \<comment> \<open>success and bytes written of the n-th write\<close>
  parse :: parse_table
  m_uiTimeoutThresholdForRetry :: u32
  config :: system_config
  m_uiRilChannel :: nat

record POST_CMD_HANDLER_DATA =
  post_channel :: nat
  pRilToken :: RIL_Token
  post_ContextData :: "u8 list option"
  uiContextDataSize :: nat
  requestId :: int
  post_ResultCode :: result_code
  post_ErrorCode :: u32
  post_Data :: "u8 list option"
  post_DataSize :: nat

text \<open>
  \<open>posted\<close> lists the calls of post command handlers, each with the name of the handler, or none
  for \<open>PostCmdHandlerCompleteRequest\<close>; \<open>written\<close> is what went to the port.
\<close>

record transmitter =
  chan :: channel
  tx :: tx_state
  next_command :: nat
  clock :: nat
  written :: "string list"
  posted :: "(string option \<times> POST_CMD_HANDLER_DATA) list"

definition WaitForAnyEvent :: "bool \<Rightarrow> channel \<Rightarrow> wait_result \<times> channel" where
  "WaitForAnyEvent cancel ch =
     (if g_RxQueueEvent ch then (WAIT_EVENT_0_SIGNALED, ch\<lparr> g_RxQueueEvent := False \<rparr>)
      else if cancel then (CancelSignaled, ch)
      else (WAIT_TIMEDOUT, ch))"

definition read_queue ::
    "tx_env \<Rightarrow> u32 \<Rightarrow> CResponse option \<Rightarrow> transmitter
      \<Rightarrow> (result_code \<times> CResponse option \<times> transmitter) option" where
  "read_queue env timeout rpResponse s =
     (case ReadQueue (memory (config env))
             (\<lambda>ch. WaitForAnyEvent (cancelled env (clock s)) (react env (clock s) timeout ch))
             rpResponse (chan s) of
        None \<Rightarrow> None
      | Some (resCode, rpResponse, ch) \<Rightarrow>
          Some (resCode, rpResponse, s\<lparr> chan := ch, clock := Suc (clock s) \<rparr>))"

definition WriteToPort :: "tx_env \<Rightarrow> string \<Rightarrow> transmitter \<Rightarrow> bool \<times> nat \<times> transmitter" where
  "WriteToPort env data s =
     (case port env (length (written s)) data of
        (ok, n) \<Rightarrow> (ok, n, s\<lparr> written := written s @ [data] \<rparr>))"

definition SetCmdThreadBlockedOnRxQueue :: "transmitter \<Rightarrow> transmitter" where
  "SetCmdThreadBlockedOnRxQueue s = s\<lparr> chan := (chan s)\<lparr> m_bCmdThreadBlockedOnRxQueue := True \<rparr> \<rparr>"

definition ClearCmdThreadBlockedOnRxQueue :: "transmitter \<Rightarrow> transmitter" where
  "ClearCmdThreadBlockedOnRxQueue s = s\<lparr> chan := (chan s)\<lparr> m_bCmdThreadBlockedOnRxQueue := False \<rparr> \<rparr>"

definition empty_rx_queue :: "transmitter \<Rightarrow> transmitter option" where
  "empty_rx_queue s =
     (case MakeEmpty (g_pRxQueue (chan s)) of
        None \<Rightarrow> None
      | Some (_, q) \<Rightarrow> Some (s\<lparr> chan := (chan s)\<lparr> g_pRxQueue := q \<rparr> \<rparr>))"

definition request_clean_up :: "transmitter \<Rightarrow> transmitter" where
  "request_clean_up s = s\<lparr> chan := emit RequestCleanUp (chan s) \<rparr>"

section \<open>Which requests are aborted, and how the modem is pinged\<close>

definition GetAbortTimeout :: "int \<Rightarrow> u32" where
  "GetAbortTimeout reqID =
     (if reqID \<in> {RIL_REQUEST_QUERY_NETWORK_SELECTION_MODE, RIL_REQUEST_QUERY_AVAILABLE_NETWORKS}
      then 22000
      else if reqID \<in> {RIL_REQUEST_OPERATOR, RIL_REQUEST_SET_NETWORK_SELECTION_AUTOMATIC,
                       RIL_REQUEST_SET_NETWORK_SELECTION_MANUAL}
      then 42000
      else if reqID \<in> {RIL_REQUEST_QUERY_CALL_FORWARD_STATUS, RIL_REQUEST_SET_CALL_FORWARD} then 37000
      else if reqID = RIL_REQUEST_QUERY_CLIP then 37000
      else if reqID \<in> {RIL_REQUEST_GET_CLIR, RIL_REQUEST_SET_CLIR} then 37000
      else if reqID = RIL_REQUEST_DATA_CALL_LIST then 2000
      else if reqID = RIL_REQUEST_DEACTIVATE_DATA_CALL then 2000
      else 500)"

definition IsReqIDAbortable :: "int \<Rightarrow> bool" where
  "IsReqIDAbortable reqID \<longleftrightarrow>
     reqID \<in> {RIL_REQUEST_QUERY_NETWORK_SELECTION_MODE, RIL_REQUEST_QUERY_AVAILABLE_NETWORKS,
       RIL_REQUEST_OPERATOR, RIL_REQUEST_QUERY_CALL_FORWARD_STATUS, RIL_REQUEST_SET_CALL_FORWARD,
       RIL_REQUEST_QUERY_CLIP, RIL_REQUEST_GET_CLIR, RIL_REQUEST_SET_CLIR,
       RIL_REQUEST_DATA_CALL_LIST, RIL_REQUEST_DEACTIVATE_DATA_CALL}"

definition ReqIDSpecialPing :: "int \<Rightarrow> bool" where
  "ReqIDSpecialPing reqID \<longleftrightarrow>
     reqID \<in> {RIL_REQUEST_SET_NETWORK_SELECTION_AUTOMATIC, RIL_REQUEST_SET_NETWORK_SELECTION_MANUAL}"

definition SendCommandPhase2 :: "result_code \<Rightarrow> int \<Rightarrow> bool" where
  "SendCommandPhase2 uiResCode reqID \<longleftrightarrow>
     (if reqID \<in> {RIL_REQUEST_SEND_USSD, RIL_REQUEST_GET_CLIR, RIL_REQUEST_SET_CLIR,
           RIL_REQUEST_QUERY_CALL_FORWARD_STATUS, RIL_REQUEST_SET_CALL_FORWARD,
           RIL_REQUEST_QUERY_CALL_WAITING, RIL_REQUEST_SET_CALL_WAITING,
           RIL_REQUEST_QUERY_FACILITY_LOCK, RIL_REQUEST_SET_FACILITY_LOCK,
           RIL_REQUEST_CHANGE_BARRING_PASSWORD, RIL_REQUEST_QUERY_CLIP,
           RIL_REQUEST_SETUP_DATA_CALL}
      then uiResCode \<noteq> RIL_E_SUCCESS
      else uiResCode = RIL_E_SUCCESS)"

definition PING_TIMEOUT :: u32 where "PING_TIMEOUT = 3000"
definition szABORTCmd :: string where "szABORTCmd = ''AT'' @ [CHR 0x1B, CR]"
definition szPINGCmd :: string where "szPINGCmd = ''ATE0V1;+CMEE=1'' @ [CR]"
definition szSimplePINGCmd :: string where "szSimplePINGCmd = ''ATE0V1'' @ [CR]"

text \<open>The abort; the first component says whether the ping follows.\<close>

definition send_abort :: "tx_env \<Rightarrow> int \<Rightarrow> transmitter \<Rightarrow> (bool \<times> transmitter) option" where
  "send_abort env reqID s =
     (if \<not> IsReqIDAbortable reqID then Some (True, s)
      else
        (let (_, _, s) = WriteToPort env szABORTCmd s in
         case read_queue env (GetAbortTimeout reqID) None s of
           None \<Rightarrow> None
         | Some (resTmp, pRspTemp, s) \<Rightarrow>
             if pRspTemp \<noteq> None \<and> IsTimedOutFlag (the pRspTemp) then Some (True, s)
             else Some (resTmp = RIL_E_SUCCESS, s)))"

text \<open>The ping on the same channel; the first component asks for a restart of the modem.\<close>

definition ping_channel :: "tx_env \<Rightarrow> transmitter \<Rightarrow> (bool \<times> transmitter) option" where
  "ping_channel env s =
     (case empty_rx_queue (SetCmdThreadBlockedOnRxQueue s) of
        None \<Rightarrow> None
      | Some s \<Rightarrow>
          (let s = s\<lparr> chan := FlushResponse (chan s) \<rparr>;
               (_, _, s) = WriteToPort env szPINGCmd s
           in case read_queue env PING_TIMEOUT None s of
                None \<Rightarrow> None
              | Some (resTmp, pRspTemp, s) \<Rightarrow>
                  if pRspTemp \<noteq> None \<and> IsTimedOutFlag (the pRspTemp) then Some (True, s)
                  else Some (resTmp \<noteq> RIL_E_SUCCESS, s)))"

text \<open>The ping as a command of its own on the channel \<open>RIL_CHANNEL_ATCMD\<close>.\<close>

definition ping_other ::
    "tx_env \<Rightarrow> transmitter \<Rightarrow> (bool \<times> transmitter) option" where
  "ping_other env s =
     (if m_uiRilChannel env = RIL_CHANNEL_ATCMD then Some (True, s)
      else if \<not> memory (config env) then Some (False, s)
      else
        (let pCmd = (CCommand_one (config env) (next_command s) RIL_CHANNEL_ATCMD None REQ_ID_NONE
                       (Some szSimplePINGCmd) None None)
                    \<lparr> m_uiTimeout := PING_TIMEOUT, m_fHighPriority := True \<rparr>;
             s = s\<lparr> next_command := Suc (next_command s) \<rparr>
         in case AddCmdToQueue (config env) (Some pCmd) False (tx s) of
              None \<Rightarrow> None
            | Some (ok, _, t) \<Rightarrow> Some (\<not> ok, s\<lparr> tx := t \<rparr>)))"

definition HandleTimeout :: "tx_env \<Rightarrow> CCommand \<Rightarrow> transmitter \<Rightarrow> (bool \<times> transmitter) option" where
  "HandleTimeout env rpCmd s =
     (case send_abort env (m_reqId rpCmd) s of
        None \<Rightarrow> None
      | Some (False, s) \<Rightarrow> Some (True, request_clean_up s)
      | Some (True, s) \<Rightarrow>
          (case (if \<not> ReqIDSpecialPing (m_reqId rpCmd) then ping_channel env s else ping_other env s) of
             None \<Rightarrow> None
           | Some (bNeedModemCleanUp, s) \<Rightarrow>
               Some (bNeedModemCleanUp, if bNeedModemCleanUp then request_clean_up s else s)))"

section \<open>Sending a command\<close>

text \<open>A response that timed out, or one that was read: the end of \<open>GetResponse\<close> for one command.\<close>

definition timed_out :: "CResponse option \<Rightarrow> bool" where
  "timed_out r \<longleftrightarrow> (case r of None \<Rightarrow> False | Some r \<Rightarrow> IsTimedOutFlag r)"

definition handle_if_timed_out ::
    "tx_env \<Rightarrow> CCommand \<Rightarrow> result_code \<Rightarrow> CResponse option \<Rightarrow> transmitter
      \<Rightarrow> (result_code \<times> CResponse option \<times> transmitter) option" where
  "handle_if_timed_out env rpCmd resCode rpResponse s =
     (if timed_out rpResponse then
        (case HandleTimeout env rpCmd s of
           None \<Rightarrow> None
         | Some (reset, s) \<Rightarrow> Some (if reset then RRIL_E_MODEM_RESET else resCode, rpResponse, s))
      else Some (resCode, rpResponse, s))"

definition GetResponse ::
    "tx_env \<Rightarrow> CCommand \<Rightarrow> CResponse option \<Rightarrow> transmitter
      \<Rightarrow> (result_code \<times> CResponse option \<times> transmitter) option" where
  "GetResponse env rpCmd rpResponse s =
     (case read_queue env (m_uiTimeout rpCmd) rpResponse s of
        None \<Rightarrow> None
      | Some (resCode, rpResponse, s) \<Rightarrow>
          if timed_out rpResponse then handle_if_timed_out env rpCmd resCode rpResponse s
          else if resCode \<noteq> RIL_E_SUCCESS then Some (resCode, rpResponse, s)
          else
            (case (m_pszATCmd2 rpCmd, rpResponse) of
               (Some pATCommand, Some r) \<Rightarrow>
                 if SendCommandPhase2 (m_uiResultCode r) (m_reqId rpCmd) then
                   (let (_, _, s) = WriteToPort env pATCommand (SetCmdThreadBlockedOnRxQueue s) in
                    case read_queue env (m_uiTimeout rpCmd) None s of
                      None \<Rightarrow> None
                    | Some (resCode, rpResponse, s) \<Rightarrow>
                        handle_if_timed_out env rpCmd resCode rpResponse s)
                 else Some (resCode, rpResponse, s)
             | _ \<Rightarrow> Some (resCode, rpResponse, s)))"

fun WaitForResponse ::
    "nat \<Rightarrow> tx_env \<Rightarrow> CCommand \<Rightarrow> CResponse option \<Rightarrow> transmitter
      \<Rightarrow> (bool \<times> CResponse option \<times> transmitter) option" where
  "WaitForResponse 0 env rpCmd pResponse s = Some (False, pResponse, s)"
| "WaitForResponse (Suc n) env rpCmd pResponse s =
     (case GetResponse env rpCmd pResponse (SetCmdThreadBlockedOnRxQueue s) of
        None \<Rightarrow> None
      | Some (_, pResponse, s) \<Rightarrow>
          (let s = ClearCmdThreadBlockedOnRxQueue s in
           if timed_out pResponse then WaitForResponse n env rpCmd pResponse s
           else Some (True, pResponse, s)))"

text \<open>One transmission of the first AT command and the response to it.\<close>

definition transmit ::
    "tx_env \<Rightarrow> CCommand \<Rightarrow> string \<Rightarrow> CResponse option \<Rightarrow> transmitter
      \<Rightarrow> (result_code \<times> CResponse option \<times> transmitter) option" where
  "transmit env rpCmd pATCommand pResponse s =
     (case empty_rx_queue (SetCmdThreadBlockedOnRxQueue s) of
        None \<Rightarrow> None
      | Some s \<Rightarrow>
          (let s = s\<lparr> chan := (chan s)\<lparr> m_pResponse := map_option FreeData (m_pResponse (chan s)) \<rparr> \<rparr>;
               (bSuccess, _, s) = WriteToPort env pATCommand s;
               s = (if bSuccess then s else request_clean_up s)
           in map_option (\<lambda>(resCode, r, s). (resCode, r, ClearCmdThreadBlockedOnRxQueue s))
                (GetResponse env rpCmd pResponse s)))"

text \<open>How the retry loop ends: at the label \<open>Error\<close>, behind the loop, or not within the rounds.\<close>

datatype loop_exit = AtError | AfterLoop | StillWaiting

fun send_loop ::
    "nat \<Rightarrow> tx_env \<Rightarrow> CCommand \<Rightarrow> string \<Rightarrow> nat \<Rightarrow> CResponse option \<Rightarrow> transmitter
      \<Rightarrow> (loop_exit \<times> CResponse option \<times> transmitter) option" where
  "send_loop rounds env rpCmd pATCommand numRetries pResponse s =
     (case transmit env rpCmd pATCommand pResponse s of
        None \<Rightarrow> None
      | Some (resCode, None, s) \<Rightarrow> Some (AtError, None, s)
      | Some (resCode, Some r, s) \<Rightarrow>
          if \<not> IsTimedOutFlag r then Some (AfterLoop, Some r, s)
          else if resCode = RRIL_E_MODEM_RESET then Some (AfterLoop, Some r, s)
          else if ReqIDSpecialPing (m_reqId rpCmd) then
            map_option (\<lambda>(finished, r, s). (if finished then AfterLoop else StillWaiting, r, s))
              (WaitForResponse rounds env rpCmd (Some r) s)
          else
            (case numRetries of
               Suc k \<Rightarrow> send_loop rounds env rpCmd pATCommand k (Some r) s
             | 0 \<Rightarrow>
                 if m_fIsInitCommand rpCmd then Some (AtError, Some r, request_clean_up s)
                 else Some (AfterLoop, Some r, s)))"

definition post_data :: "CCommand \<Rightarrow> result_code \<Rightarrow> CResponse option \<Rightarrow> POST_CMD_HANDLER_DATA" where
  "post_data rpCmd defaultCode pResponse =
     (let d = \<lparr> post_channel = CCommand.m_uiChannel rpCmd, pRilToken = m_token rpCmd,
            post_ContextData = CCommand.m_pContextData rpCmd,
            uiContextDataSize = m_cbContextData rpCmd, requestId = m_reqId rpCmd,
            post_ResultCode = defaultCode, post_ErrorCode = 0,
            post_Data = None, post_DataSize = 0 \<rparr>
      in case pResponse of
           None \<Rightarrow> d
         | Some r \<Rightarrow>
             d\<lparr> post_ErrorCode := m_uiErrorCode r, post_ResultCode := m_uiResultCode r,
                post_Data := CResponse.m_pData r, post_DataSize := m_uiDataSize r \<rparr>)"

definition post_command :: "CCommand \<Rightarrow> CResponse option \<Rightarrow> transmitter \<Rightarrow> transmitter" where
  "post_command rpCmd pResponse s =
     (case m_pPostCmdHandlerFcn rpCmd of
        Some h \<Rightarrow> s\<lparr> posted := posted s @ [(Some h, post_data rpCmd RRIL_RESULT_OK pResponse)] \<rparr>
      | None \<Rightarrow> s\<lparr> posted := posted s @ [(None, post_data rpCmd RRIL_RESULT_ERROR pResponse)] \<rparr>)"

text \<open>\<open>CTE::PostCmdHandlerCompleteRequest\<close>.\<close>

definition PostCmdHandlerCompleteRequest :: "POST_CMD_HANDLER_DATA \<Rightarrow> effect list" where
  "PostCmdHandlerCompleteRequest rData =
     (if pRilToken rData = None then []
      else [RequestComplete (pRilToken rData) (post_ResultCode rData) (post_Data rData)
              (post_DataSize rData)])"

definition retries :: "tx_env \<Rightarrow> CCommand \<Rightarrow> nat" where
  "retries env rpCmd =
     (let threshold = m_uiTimeoutThresholdForRetry env
      in if threshold = 0 then 0 else if m_uiTimeout rpCmd \<le> threshold then 1 else 0)"

text \<open>The result of \<open>SendCommand\<close>; \<open>None\<close> inside when it is still in the indefinite wait.\<close>

definition SendCommand ::
    "nat \<Rightarrow> tx_env \<Rightarrow> CCommand option \<Rightarrow> transmitter \<Rightarrow> (bool option \<times> transmitter) option" where
  "SendCommand rounds env rpCmd s =
     (case rpCmd of
        None \<Rightarrow> Some (Some False, s)
      | Some cmd \<Rightarrow>
          (case m_pszATCmd1 cmd of
             None \<Rightarrow> Some (Some True, post_command cmd None s)
           | Some pATCommand \<Rightarrow>
               (case send_loop rounds env cmd pATCommand (retries env cmd) None s of
                  None \<Rightarrow> None
                | Some (StillWaiting, _, s) \<Rightarrow> Some (None, s)
                | Some (AtError, r, s) \<Rightarrow> Some (Some False, post_command cmd r s)
                | Some (AfterLoop, r, s) \<Rightarrow>
                    if r = None \<or> timed_out r then Some (Some False, post_command cmd r s)
                    else
                      (case ParseResponse (parse env) (Some cmd) r of
                         (ok, r, _) \<Rightarrow> Some (Some ok, post_command cmd r s)))))"

section \<open>What every step keeps\<close>

definition env_ok :: "tx_env \<Rightarrow> bool" where
  "env_ok env \<longleftrightarrow> (\<forall>n t ch. rx_queue_ok ch \<longrightarrow> rx_queue_ok (react env n t ch))"

definition tx_queue_ok :: "transmitter \<Rightarrow> bool" where
  "tx_queue_ok s \<longleftrightarrow> request_table_ok (request_infos (tx s)) \<and>
     (\<exists>q xs. g_pTxQueue (tx s) RIL_CHANNEL_ATCMD = Some q \<and> holds q xs \<and>
        (\<forall>e \<in> set xs. m_object (fst e) < next_command s))"

definition transmitter_ok :: "transmitter \<Rightarrow> bool" where
  "transmitter_ok s \<longleftrightarrow> rx_queue_ok (chan s) \<and> tx_queue_ok s"

text \<open>From \<open>s\<close> to \<open>s'\<close> without an answer to the framework and with at most \<open>n\<close> waits.\<close>

definition advances :: "nat \<Rightarrow> transmitter \<Rightarrow> transmitter \<Rightarrow> bool" where
  "advances n s s' \<longleftrightarrow> transmitter_ok s' \<and> posted s' = posted s \<and> clock s' \<le> clock s + n"

lemma advances_refl: "transmitter_ok s \<Longrightarrow> advances n s s"
  by (simp add: advances_def)

lemma advances_trans: "advances m s s1 \<Longrightarrow> advances n s1 s2 \<Longrightarrow> advances (m + n) s s2"
  by (simp add: advances_def)

lemma advances_ok: "advances n s s' \<Longrightarrow> transmitter_ok s'"
  by (simp add: advances_def)

lemma advances_mono: "advances m s s' \<Longrightarrow> m \<le> n \<Longrightarrow> advances n s s'"
  by (simp add: advances_def)

lemma rx_queue_ok_cong:
  "g_pRxQueue ch = g_pRxQueue ch' \<Longrightarrow> next_object ch = next_object ch' \<Longrightarrow> rx_queue_ok ch = rx_queue_ok ch'"
  by (simp add: rx_queue_ok_def)

lemma tx_queue_ok_cong:
  "tx s = tx s' \<Longrightarrow> next_command s = next_command s' \<Longrightarrow> tx_queue_ok s = tx_queue_ok s'"
  by (simp add: tx_queue_ok_def)

lemma quiet_advances:
  assumes "transmitter_ok s" "g_pRxQueue (chan s') = g_pRxQueue (chan s)"
    "next_object (chan s') = next_object (chan s)" "tx s' = tx s" "next_command s' = next_command s"
    "posted s' = posted s" "clock s' = clock s"
  shows "advances n s s'"
  using assms rx_queue_ok_cong [of "chan s'" "chan s"] tx_queue_ok_cong [of s' s]
  by (simp add: advances_def transmitter_ok_def)

lemma FlushResponse_frame [frame_simps]:
  "g_pRxQueue (FlushResponse ch) = g_pRxQueue ch" "next_object (FlushResponse ch) = next_object ch"
  "g_RxQueueEvent (FlushResponse ch) = g_RxQueueEvent ch"
  "m_bCmdThreadBlockedOnRxQueue (FlushResponse ch) = m_bCmdThreadBlockedOnRxQueue ch"
  by (simp_all add: FlushResponse_def Let_def split: option.split)

lemma set_clear_advances [simp]:
  "transmitter_ok s \<Longrightarrow> advances n s (SetCmdThreadBlockedOnRxQueue s)"
  "transmitter_ok s \<Longrightarrow> advances n s (ClearCmdThreadBlockedOnRxQueue s)"
  "transmitter_ok s \<Longrightarrow> advances n s (request_clean_up s)"
  by (simp_all add: quiet_advances SetCmdThreadBlockedOnRxQueue_def ClearCmdThreadBlockedOnRxQueue_def
      request_clean_up_def frame_simps)

lemma WriteToPort_advances:
  assumes "transmitter_ok s"
  shows "\<exists>ok n s'. WriteToPort env data s = (ok, n, s') \<and> advances k s s'"
  using assms by (auto simp: WriteToPort_def quiet_advances split: prod.split)

lemma WaitForAnyEvent_queue:
  "WaitForAnyEvent c ch = (w, ch') \<Longrightarrow> rx_queue_ok ch \<Longrightarrow> rx_queue_ok ch'"
  by (auto simp: WaitForAnyEvent_def rx_queue_ok_def split: if_splits)

lemma read_dequeue_ok:
  assumes "rx_queue_ok ch"
  shows "\<exists>res r' ch'. read_dequeue r ch = Some (res, r', ch') \<and> rx_queue_ok ch'"
proof -
  obtain xs where q: "holds (g_pRxQueue ch) xs" "\<forall>e \<in> set xs. fst (fst e) \<le> next_object ch"
    using assms by (auto simp: rx_queue_ok_def)
  obtain q' where "Dequeue (g_pRxQueue ch) = Some (if xs = [] then None else Some (fst (hd xs)), q')"
    "holds q' (tl xs)" using Dequeue_holds [OF q(1)] by blast
  then show ?thesis
    using q(2) by (cases xs) (auto simp: read_dequeue_def rx_queue_ok_def)
qed

lemma same_queue [simp]: "ch\<lparr> g_pRxQueue := g_pRxQueue ch \<rparr> = (ch :: channel)"
  by simp

lemma ReadQueue_waits:
  "m_pFront (g_pRxQueue ch) = None \<Longrightarrow> ReadQueue mem wait r ch =
     (case wait ch of
        (WAIT_EVENT_0_SIGNALED, ch) \<Rightarrow> read_dequeue r ch
      | (WAIT_TIMEDOUT, ch) \<Rightarrow>
          Some (RIL_E_GENERIC_FAILURE,
            if mem
            then Some (SetTimedOutFlag True (SetUnsolicitedFlag False
                         (new_response\<lparr> m_uiResultCode := RIL_E_GENERIC_FAILURE \<rparr>)))
            else None, ch)
      | (_, ch) \<Rightarrow> Some (RIL_E_GENERIC_FAILURE, r, ch))"
  "m_pFront (g_pRxQueue ch) \<noteq> None \<Longrightarrow> ReadQueue mem wait r ch = read_dequeue r ch"
  by (simp_all only: ReadQueue_def IsEmpty_eq prod.case bool.case simp_thms same_queue)

lemma ReadQueue_ok:
  assumes ch: "rx_queue_ok ch" and w: "\<And>ch. rx_queue_ok ch \<Longrightarrow> rx_queue_ok (snd (wait ch))"
  shows "\<exists>res r' ch'. ReadQueue mem wait r ch = Some (res, r', ch') \<and> rx_queue_ok ch'"
proof (cases "m_pFront (g_pRxQueue ch) = None")
  case False
  then show ?thesis using read_dequeue_ok [OF ch, of r] by (simp add: ReadQueue_waits)
next
  case True
  obtain k ch1 where k: "wait ch = (k, ch1)" by fastforce
  have ch1: "rx_queue_ok ch1" using w [OF ch] k by simp
  show ?thesis
    using True k ch1 read_dequeue_ok [OF ch1, of r]
    by (cases k) (auto simp: ReadQueue_waits)
qed

lemma read_queue_advances:
  assumes "env_ok env" "transmitter_ok s"
  shows "\<exists>res r' s'. read_queue env t r s = Some (res, r', s') \<and> advances 1 s s'"
proof -
  let ?w = "\<lambda>ch. WaitForAnyEvent (cancelled env (clock s)) (react env (clock s) t ch)"
  have "rx_queue_ok (snd (?w ch))" if "rx_queue_ok ch" for ch
    using that assms(1) WaitForAnyEvent_queue [of "cancelled env (clock s)" "react env (clock s) t ch"]
    by (cases "?w ch") (auto simp: env_ok_def)
  then obtain res r' ch' where "ReadQueue (memory (config env)) ?w r (chan s) = Some (res, r', ch')"
    "rx_queue_ok ch'"
    using ReadQueue_ok [of "chan s" ?w "memory (config env)" r] assms(2)
    by (auto simp: transmitter_ok_def)
  then show ?thesis
    using assms(2) tx_queue_ok_cong [of "s\<lparr> chan := ch', clock := Suc (clock s) \<rparr>" s]
    by (auto simp: read_queue_def advances_def transmitter_ok_def)
qed

lemma empty_rx_queue_advances:
  assumes "transmitter_ok s"
  shows "\<exists>s'. empty_rx_queue s = Some s' \<and> advances n s s' \<and> holds (g_pRxQueue (chan s')) [] \<and>
    written s' = written s \<and> clock s' = clock s \<and> (\<exists>q. chan s' = (chan s)\<lparr> g_pRxQueue := q \<rparr>)"
proof -
  obtain xs where q: "holds (g_pRxQueue (chan s)) xs"
    using assms by (auto simp: transmitter_ok_def rx_queue_ok_def)
  obtain q' where "MakeEmpty (g_pRxQueue (chan s)) =
      Some (if m_bDestroy (g_pRxQueue (chan s)) then map fst xs else [], q')" "holds q' []"
    using MakeEmpty_holds [OF q] by blast
  then show ?thesis
    using assms tx_queue_ok_cong [of "s\<lparr> chan := (chan s)\<lparr> g_pRxQueue := q' \<rparr> \<rparr>" s]
    by (auto simp: empty_rx_queue_def advances_def transmitter_ok_def rx_queue_ok_def
        intro!: exI [of _ "[]"])
qed

lemma send_abort_advances:
  assumes "env_ok env" "transmitter_ok s"
  shows "\<exists>go s'. send_abort env reqID s = Some (go, s') \<and> advances 1 s s'"
proof (cases "IsReqIDAbortable reqID")
  case False
  then show ?thesis using assms by (simp add: send_abort_def advances_refl)
next
  case True
  obtain ok n s1 where w: "WriteToPort env szABORTCmd s = (ok, n, s1)" "advances 0 s s1"
    using WriteToPort_advances [OF assms(2)] by blast
  obtain res r s2 where "read_queue env (GetAbortTimeout reqID) None s1 = Some (res, r, s2)"
    "advances 1 s1 s2"
    using read_queue_advances [OF assms(1) advances_ok [OF w(2)]] by blast
  then show ?thesis
    using True w advances_trans [OF w(2), of 1 s2] by (auto simp: send_abort_def)
qed

lemma ping_channel_advances:
  assumes env: "env_ok env" and s: "transmitter_ok s"
  shows "\<exists>need s'. ping_channel env s = Some (need, s') \<and> advances 1 s s'"
proof -
  let ?s = "SetCmdThreadBlockedOnRxQueue s"
  have 1: "advances 0 s ?s" using s by simp
  obtain s1 where 2: "empty_rx_queue ?s = Some s1" "advances 0 ?s s1"
    using empty_rx_queue_advances [OF advances_ok [OF 1]] by blast
  let ?s1 = "s1\<lparr> chan := FlushResponse (chan s1) \<rparr>"
  have 3: "advances 0 s1 ?s1"
    using advances_ok [OF 2(2)] by (simp add: quiet_advances frame_simps)
  obtain ok n s2 where 4: "WriteToPort env szPINGCmd ?s1 = (ok, n, s2)" "advances 0 ?s1 s2"
    using WriteToPort_advances [OF advances_ok [OF 3]] by blast
  obtain res r s3 where 5: "read_queue env PING_TIMEOUT None s2 = Some (res, r, s3)" "advances 1 s2 s3"
    using read_queue_advances [OF env advances_ok [OF 4(2)]] by blast
  have "advances 1 s s3"
    using advances_trans [OF 1 advances_trans [OF 2(2) advances_trans [OF 3 advances_trans [OF 4(2) 5(2)]]]]
    by simp
  then show ?thesis using 2(1) 4(1) 5(1) by (auto simp: ping_channel_def Let_def)
qed

lemma AddCmdToQueue_total:
  assumes tab: "request_table_ok (request_infos st)" and m: "memory cfg"
    and q: "g_pTxQueue st (CCommand.m_uiChannel cmd) = Some q" "holds q xs"
    and fresh: "fresh_object (m_object cmd) xs"
  shows "\<exists>ok p st' q' ys. AddCmdToQueue cfg (Some cmd) front st = Some (ok, p, st') \<and>
    request_table_ok (request_infos st') \<and>
    g_pTxQueue st' = (g_pTxQueue st)(CCommand.m_uiChannel cmd \<mapsto> q') \<and> holds q' ys \<and>
    m_object ` fst ` set ys \<subseteq> insert (m_object cmd) (m_object ` fst ` set xs)"
proof (cases "IsInitializationSuccessful cfg")
  case False
  have "(g_pTxQueue st)(CCommand.m_uiChannel cmd \<mapsto> q) = g_pTxQueue st" using q(1) by auto
  then show ?thesis using False tab q(2)
    by - (rule exI [of _ False], rule exI [of _ "Some cmd"], rule exI [of _ st], rule exI [of _ q],
      rule exI [of _ xs], auto simp: AddCmdToQueue_def)
next
  case True
  from AddCmdToQueue_enqueues [OF True m tab q fresh, of front] obtain t tab' q' where
    a: "AddCmdToQueue cfg (Some cmd) front st = Some (True, None,
      st\<lparr> request_infos := tab', g_pTxQueue := (g_pTxQueue st)(CCommand.m_uiChannel cmd \<mapsto> q'),
          g_TxQueueEvent := (g_TxQueueEvent st)(CCommand.m_uiChannel cmd := True) \<rparr>)"
    and h: "holds q' (enq (cmd\<lparr> m_uiTimeout := t \<rparr>) (prio_of cmd) front xs)"
    and tab': "request_table_ok tab'"
    by blast
  have "m_object ` fst ` set (enq (cmd\<lparr> m_uiTimeout := t \<rparr>) (prio_of cmd) front xs) \<subseteq>
      insert (m_object cmd) (m_object ` fst ` set xs)"
    by (simp add: enq_set)
  with a h tab' show ?thesis
    by - (rule exI [of _ True], rule exI [of _ None], rule exI, rule exI [of _ q'], rule exI, intro conjI,
      assumption, simp, simp, assumption, assumption)
qed

lemma ping_other_advances:
  assumes "transmitter_ok s"
  shows "\<exists>need s'. ping_other env s = Some (need, s') \<and> advances n s s'"
proof -
  define c where "c = (CCommand_one (config env) (next_command s) RIL_CHANNEL_ATCMD None REQ_ID_NONE
    (Some szSimplePINGCmd) None None)\<lparr> m_uiTimeout := PING_TIMEOUT, m_fHighPriority := True \<rparr>"
  have c: "CCommand.m_uiChannel c = RIL_CHANNEL_ATCMD" "m_object c = next_command s"
    by (simp_all add: c_def CCommand_one_def)
  obtain q xs where q: "g_pTxQueue (tx s) (CCommand.m_uiChannel c) = Some q" "holds q xs"
    "\<forall>e \<in> set xs. m_object (fst e) < next_command s" and tab: "request_table_ok (request_infos (tx s))"
    using assms by (auto simp: transmitter_ok_def tx_queue_ok_def c)
  have fresh: "fresh_object (m_object c) xs" unfolding c fresh_object_def using q(3) by auto
  show ?thesis
  proof (cases "memory (config env)")
    case True
    from AddCmdToQueue_total [OF tab True q(1,2) fresh, of False]
    obtain ok p st q' ys where a: "AddCmdToQueue (config env) (Some c) False (tx s) = Some (ok, p, st)"
      "request_table_ok (request_infos st)" "g_pTxQueue st = (g_pTxQueue (tx s))(RIL_CHANNEL_ATCMD \<mapsto> q')"
      "holds q' ys" "m_object ` fst ` set ys \<subseteq> insert (next_command s) (m_object ` fst ` set xs)"
      unfolding c by blast
    have "\<forall>e \<in> set ys. m_object (fst e) < Suc (next_command s)"
      using a(5) q(3) by fastforce
    then have "advances n s (s\<lparr> next_command := Suc (next_command s), tx := st \<rparr>)"
      using assms a(2,3,4) by (auto simp: advances_def transmitter_ok_def tx_queue_ok_def)
    then show ?thesis using a(1) assms True
      by (auto simp: ping_other_def Let_def advances_refl simp flip: c_def)
  next
    case False
    then show ?thesis using assms by (auto simp: ping_other_def advances_refl)
  qed
qed

lemma HandleTimeout_advances:
  assumes env: "env_ok env" and s: "transmitter_ok s"
  shows "\<exists>reset s'. HandleTimeout env cmd s = Some (reset, s') \<and> advances 2 s s'"
proof -
  obtain go s1 where 1: "send_abort env (m_reqId cmd) s = Some (go, s1)" "advances 1 s s1"
    using send_abort_advances [OF env s] by blast
  note ok = advances_ok [OF 1(2)]
  let ?ping = "if \<not> ReqIDSpecialPing (m_reqId cmd) then ping_channel env s1 else ping_other env s1"
  obtain need s2 where 2: "?ping = Some (need, s2)" "advances 1 s1 s2"
    using ping_channel_advances [OF env ok] ping_other_advances [OF ok, of env 1]
    by (cases "ReqIDSpecialPing (m_reqId cmd)") (simp_all only: simp_thms if_True if_False, blast+)
  have 3: "advances 0 s2 (request_clean_up s2)" "advances 1 s1 (request_clean_up s1)"
    using advances_ok [OF 2(2)] ok by simp_all
  have "advances 2 s s2" "advances 2 s (request_clean_up s2)" "advances 2 s (request_clean_up s1)"
    using advances_trans [OF 1(2) 2(2)] advances_trans [OF 1(2) advances_trans [OF 2(2) 3(1)]]
      advances_trans [OF 1(2) 3(2)] by (simp_all add: numeral_eq_Suc)
  then show ?thesis using 1(1) 2(1) by (cases go) (auto simp: HandleTimeout_def)
qed

lemma handle_if_timed_out_advances:
  assumes "env_ok env" "transmitter_ok s"
  shows "\<exists>res s'. handle_if_timed_out env cmd resCode r s = Some (res, r, s') \<and> advances 2 s s'"
  using HandleTimeout_advances [OF assms, of cmd] assms(2)
  by (cases "timed_out r") (auto simp: handle_if_timed_out_def advances_refl)

lemma GetResponse_advances:
  assumes env: "env_ok env" and s: "transmitter_ok s"
  shows "\<exists>res r' s'. GetResponse env cmd r s = Some (res, r', s') \<and> advances 4 s s'"
proof -
  obtain res r1 s1 where 1: "read_queue env (m_uiTimeout cmd) r s = Some (res, r1, s1)" "advances 1 s s1"
    using read_queue_advances [OF env s] by blast
  note ok1 = advances_ok [OF 1(2)]
  have skip: "advances 4 s s1" using advances_mono [OF 1(2)] by simp
  show ?thesis
  proof (cases "timed_out r1")
    case True
    obtain res' s2 where "handle_if_timed_out env cmd res r1 s1 = Some (res', r1, s2)" "advances 2 s1 s2"
      using handle_if_timed_out_advances [OF env ok1] by blast
    then show ?thesis
      using 1 True advances_mono [OF advances_trans [OF 1(2)], of 2 s2 4] by (auto simp: GetResponse_def)
  next
    case False
    show ?thesis
    proof (cases "\<exists>at2 rsp. res = RIL_E_SUCCESS \<and> m_pszATCmd2 cmd = Some at2 \<and> r1 = Some rsp \<and>
        SendCommandPhase2 (m_uiResultCode rsp) (m_reqId cmd)")
      case False
      then show ?thesis
        using 1(1) skip \<open>\<not> timed_out r1\<close> by (auto simp: GetResponse_def split: option.split)
    next
      case True
      then obtain at2 rsp where c: "res = RIL_E_SUCCESS" "m_pszATCmd2 cmd = Some at2" "r1 = Some rsp"
        "SendCommandPhase2 (m_uiResultCode rsp) (m_reqId cmd)" by auto
      let ?s1 = "SetCmdThreadBlockedOnRxQueue s1"
      have 2: "advances 0 s1 ?s1" using ok1 by simp
      obtain ok n s2 where 3: "WriteToPort env at2 ?s1 = (ok, n, s2)" "advances 0 ?s1 s2"
        using WriteToPort_advances [OF advances_ok [OF 2]] by blast
      obtain res2 r2 s3 where 4: "read_queue env (m_uiTimeout cmd) None s2 = Some (res2, r2, s3)"
        "advances 1 s2 s3"
        using read_queue_advances [OF env advances_ok [OF 3(2)]] by blast
      obtain res3 s4 where 5: "handle_if_timed_out env cmd res2 r2 s3 = Some (res3, r2, s4)"
        "advances 2 s3 s4"
        using handle_if_timed_out_advances [OF env advances_ok [OF 4(2)]] by blast
      have "advances 4 s s4"
        using advances_trans [OF 1(2) advances_trans [OF 2 advances_trans [OF 3(2)
                advances_trans [OF 4(2) 5(2)]]]] by (simp add: numeral_eq_Suc)
      then show ?thesis
        using 1(1) 3(1) 4(1) 5(1) c \<open>\<not> timed_out r1\<close> by (auto simp: GetResponse_def)
    qed
  qed
qed

lemma transmit_advances:
  assumes env: "env_ok env" and s: "transmitter_ok s"
  shows "\<exists>res r' s'. transmit env cmd at1 r s = Some (res, r', s') \<and> advances 4 s s'"
proof -
  let ?s = "SetCmdThreadBlockedOnRxQueue s"
  have 1: "advances 0 s ?s" using s by simp
  obtain s1 where 2: "empty_rx_queue ?s = Some s1" "advances 0 ?s s1"
    using empty_rx_queue_advances [OF advances_ok [OF 1]] by blast
  let ?s1 = "s1\<lparr> chan := (chan s1)\<lparr> m_pResponse := map_option FreeData (m_pResponse (chan s1)) \<rparr> \<rparr>"
  have 3: "advances 0 s1 ?s1" using advances_ok [OF 2(2)] by (simp add: quiet_advances)
  obtain ok n s2 where 4: "WriteToPort env at1 ?s1 = (ok, n, s2)" "advances 0 ?s1 s2"
    using WriteToPort_advances [OF advances_ok [OF 3]] by blast
  let ?s2 = "if ok then s2 else request_clean_up s2"
  have 5: "advances 0 s2 ?s2" using advances_ok [OF 4(2)] by (simp add: advances_refl)
  obtain res r' s3 where 6: "GetResponse env cmd r ?s2 = Some (res, r', s3)" "advances 4 ?s2 s3"
    using GetResponse_advances [OF env advances_ok [OF 5]] by blast
  have 7: "advances 0 s3 (ClearCmdThreadBlockedOnRxQueue s3)" using advances_ok [OF 6(2)] by simp
  have "advances 4 s (ClearCmdThreadBlockedOnRxQueue s3)"
    using advances_trans [OF 1 advances_trans [OF 2(2) advances_trans [OF 3 advances_trans [OF 4(2)
            advances_trans [OF 5 advances_trans [OF 6(2) 7]]]]]] by simp
  then show ?thesis using 2(1) 4(1) 6(1) by (auto simp: transmit_def Let_def)
qed

lemma WaitForResponse_advances:
  assumes env: "env_ok env" and "transmitter_ok s"
  shows "\<exists>fin r' s'. WaitForResponse n env cmd r s = Some (fin, r', s') \<and> advances (4 * n) s s' \<and>
    (fin \<longrightarrow> \<not> timed_out r')"
  using assms(2)
proof (induction n arbitrary: r s)
  case 0
  then show ?case by (auto intro: advances_refl)
next
  case (Suc n)
  have 1: "advances 0 s (SetCmdThreadBlockedOnRxQueue s)" using Suc.prems by simp
  obtain res r1 s1 where 2: "GetResponse env cmd r (SetCmdThreadBlockedOnRxQueue s) = Some (res, r1, s1)"
    "advances 4 (SetCmdThreadBlockedOnRxQueue s) s1"
    using GetResponse_advances [OF env advances_ok [OF 1]] by blast
  let ?s1 = "ClearCmdThreadBlockedOnRxQueue s1"
  have 3: "advances 0 s1 ?s1" using advances_ok [OF 2(2)] by simp
  have 4: "advances 4 s ?s1" using advances_trans [OF 1 advances_trans [OF 2(2) 3]] by simp
  show ?case
  proof (cases "timed_out r1")
    case True
    obtain fin r' s' where "WaitForResponse n env cmd r1 ?s1 = Some (fin, r', s')"
      "advances (4 * n) ?s1 s'" "fin \<longrightarrow> \<not> timed_out r'"
      using Suc.IH [OF advances_ok [OF 3]] by blast
    then show ?thesis using 2(1) True advances_trans [OF 4] by fastforce
  next
    case False
    then show ?thesis using 2(1) advances_mono [OF 4, of "4 * Suc n"] by simp
  qed
qed

declare send_loop.simps [simp del]

lemma post_data_simps [simp]:
  "pRilToken (post_data cmd c r) = m_token cmd" "requestId (post_data cmd c r) = m_reqId cmd"
  by (simp_all add: post_data_def Let_def split: option.split)

abbreviation posting :: "CCommand \<Rightarrow> CResponse option \<Rightarrow> string option \<times> POST_CMD_HANDLER_DATA" where
  "posting cmd r \<equiv> (m_pPostCmdHandlerFcn cmd,
     post_data cmd (if m_pPostCmdHandlerFcn cmd = None then RRIL_RESULT_ERROR else RRIL_RESULT_OK) r)"

lemma post_command_simps [simp]:
  "posted (post_command cmd r s) = posted s @ [posting cmd r]" "chan (post_command cmd r s) = chan s"
  "tx (post_command cmd r s) = tx s" "next_command (post_command cmd r s) = next_command s"
  "clock (post_command cmd r s) = clock s" "written (post_command cmd r s) = written s"
  by (simp_all add: post_command_def split: option.split)

lemma post_command_ok [simp]: "transmitter_ok (post_command cmd r s) = transmitter_ok s"
  by (simp add: transmitter_ok_def tx_queue_ok_def)

text \<open>
  The retry loop: at most \<open>4\<close> waits per attempt, and the indefinite wait only for the requests
  that are pinged on another channel.
\<close>

lemma send_loop_advances:
  assumes env: "env_ok env" and "transmitter_ok s"
  shows "\<exists>e r' s'. send_loop rounds env cmd at1 n r s = Some (e, r', s') \<and>
    transmitter_ok s' \<and> posted s' = posted s \<and>
    (e = StillWaiting \<longrightarrow> ReqIDSpecialPing (m_reqId cmd)) \<and>
    (\<not> ReqIDSpecialPing (m_reqId cmd) \<longrightarrow> clock s' \<le> clock s + 4 * Suc n)"
  using assms(2)
proof (induction n arbitrary: r s)
  case (0 r s)
  obtain res r1 s1 where 1: "transmit env cmd at1 r s = Some (res, r1, s1)" "advances 4 s s1"
    using transmit_advances [OF env 0] by blast
  note ok1 = advances_ok [OF 1(2)]
  obtain fin r2 s2 where 2: "WaitForResponse rounds env cmd r1 s1 = Some (fin, r2, s2)"
    "advances (4 * rounds) s1 s2"
    using WaitForResponse_advances [OF env ok1] by blast
  have 3: "advances 0 s1 (request_clean_up s1)" using ok1 by simp
  show ?case using 1 2 3 by (cases r1) (auto simp: advances_def send_loop.simps)
next
  case (Suc n r s)
  obtain res r1 s1 where 1: "transmit env cmd at1 r s = Some (res, r1, s1)" "advances 4 s s1"
    using transmit_advances [OF env Suc.prems] by blast
  note ok1 = advances_ok [OF 1(2)]
  obtain fin r2 s2 where 2: "WaitForResponse rounds env cmd r1 s1 = Some (fin, r2, s2)"
    "advances (4 * rounds) s1 s2"
    using WaitForResponse_advances [OF env ok1] by blast
  show ?case
  proof (cases "\<exists>rsp. r1 = Some rsp \<and> IsTimedOutFlag rsp \<and> res \<noteq> RRIL_E_MODEM_RESET \<and>
      \<not> ReqIDSpecialPing (m_reqId cmd)")
    case True
    then have "send_loop rounds env cmd at1 (Suc n) r s = send_loop rounds env cmd at1 n r1 s1"
      using 1(1) by (auto simp: send_loop.simps)
    with Suc.IH [OF ok1, of r1] 1(2) show ?thesis by (fastforce simp: advances_def)
  next
    case False
    then show ?thesis using 1 2 by (cases r1) (auto simp: advances_def send_loop.simps)
  qed
qed

end
