(* ===== verification/Dialogue.thy ===== *)
theory Dialogue
  imports Transmit
begin

text \<open>
  Runs of \<open>SendCommand\<close> (theory Transmit) against a modem that answers, one that does not, and
  one that is slow but alive; and two runs the code does not handle.
\<close>

section \<open>A modem that answers\<close>

text \<open>The reader thread hands a response to the command thread.\<close>

definition deliver :: "CResponse \<Rightarrow> channel \<Rightarrow> channel" where
  "deliver r ch = (case ProcessResponse True r ch of None \<Rightarrow> ch | Some (_, ch') \<Rightarrow> ch')"

definition solicited :: "CResponse \<Rightarrow> bool" where
  "solicited r \<longleftrightarrow> \<not> IsIgnoreFlag r \<and> \<not> IsUnrecognizedFlag r \<and> \<not> IsUnsolicitedFlag r \<and> \<not> IsTimedOutFlag r"

definition expects_response :: "channel \<Rightarrow> bool" where
  "expects_response ch \<longleftrightarrow> holds (g_pRxQueue ch) [] \<and> m_bCmdThreadBlockedOnRxQueue ch"

lemma deliver_read:
  assumes "expects_response ch" "solicited r"
  shows "\<exists>q. ReadQueue mem (\<lambda>ch. WaitForAnyEvent c (deliver r ch)) r0 ch = Some (RIL_E_SUCCESS, Some r,
      ch\<lparr> m_bCmdThreadBlockedOnRxQueue := False, next_object := Suc (next_object ch), g_pRxQueue := q,
         g_RxQueueEvent := False \<rparr>) \<and> holds q []"
proof -
  have q: "holds (g_pRxQueue ch) []" and b: "m_bCmdThreadBlockedOnRxQueue ch"
    using assms(1) by (auto simp: expects_response_def)
  have front: "m_pFront (g_pRxQueue ch) = None" using holds_empty [OF q] by simp
  obtain q1 where q1: "Enqueue True (Suc (next_object ch), r) m_uiMinPriority False (g_pRxQueue ch) = Some (True, q1)"
    "holds q1 [((Suc (next_object ch), r), m_uiMinPriority)]"
    using Enqueue_holds [OF q, of "(Suc (next_object ch), r)" m_uiMinPriority False] by (auto simp: enq_def)
  obtain q2 where q2: "Dequeue q1 = Some (Some (Suc (next_object ch), r), q2)" "holds q2 []"
    using Dequeue_holds [OF q1(2)] by auto
  have d: "deliver r ch = ch\<lparr> m_bCmdThreadBlockedOnRxQueue := False, next_object := Suc (next_object ch),
      g_pRxQueue := q1, g_RxQueueEvent := True \<rparr>"
    using q1(1) b assms(2) by (simp add: deliver_def ProcessResponse_def solicited_def Let_def)
  show ?thesis
    using q2 by (auto simp: ReadQueue_waits(1) [OF front] d WaitForAnyEvent_def read_dequeue_def)
qed

lemma deliver_read_queue:
  assumes "expects_response (chan s)" "solicited r" "react env (clock s) t (chan s) = deliver r (chan s)"
  shows "\<exists>ch. read_queue env t r0 s = Some (RIL_E_SUCCESS, Some r, s\<lparr> chan := ch, clock := Suc (clock s) \<rparr>) \<and>
    holds (g_pRxQueue ch) [] \<and> g_RxQueueEvent ch = False \<and> effects ch = effects (chan s)"
proof -
  have "m_pFront (g_pRxQueue (chan s)) = None"
    using assms(1) holds_empty by (auto simp: expects_response_def)
  note front = this
  have "ReadQueue m (\<lambda>ch. WaitForAnyEvent c (react env (clock s) t ch)) r0 (chan s) =
      ReadQueue m (\<lambda>ch. WaitForAnyEvent c (deliver r ch)) r0 (chan s)" for m c
    by (simp only: ReadQueue_waits(1) [OF front] assms(3))
  then show ?thesis
    using deliver_read [OF assms(1,2), of "memory (config env)" "cancelled env (clock s)" r0]
    by (auto simp: read_queue_def)
qed

lemma set_clear_ok [simp]:
  "transmitter_ok s \<Longrightarrow> transmitter_ok (SetCmdThreadBlockedOnRxQueue s)"
  "transmitter_ok s \<Longrightarrow> transmitter_ok (ClearCmdThreadBlockedOnRxQueue s)"
  "transmitter_ok s \<Longrightarrow> transmitter_ok (request_clean_up s)"
  using advances_ok set_clear_advances by blast+

text \<open>What \<open>transmit\<close> has done when it comes to \<open>GetResponse\<close>; a write that fails asks for a restart.\<close>

definition write_effects :: "tx_env \<Rightarrow> string \<Rightarrow> transmitter \<Rightarrow> effect list" where
  "write_effects env data s = (if fst (port env (length (written s)) data) then [] else [RequestCleanUp])"

lemma transmit_sends:
  assumes "transmitter_ok s"
  shows "\<exists>s1. transmit env cmd at1 r s =
      map_option (\<lambda>(resCode, r, s). (resCode, r, ClearCmdThreadBlockedOnRxQueue s)) (GetResponse env cmd r s1) \<and>
    expects_response (chan s1) \<and> written s1 = written s @ [at1] \<and> clock s1 = clock s \<and>
    posted s1 = posted s \<and> g_RxQueueEvent (chan s1) = g_RxQueueEvent (chan s) \<and> transmitter_ok s1 \<and>
    effects (chan s1) = effects (chan s) @ write_effects env at1 s"
proof -
  have ok: "transmitter_ok (SetCmdThreadBlockedOnRxQueue s)"
    using assms by simp
  obtain s1 where 1: "empty_rx_queue (SetCmdThreadBlockedOnRxQueue s) = Some s1"
    "advances 0 (SetCmdThreadBlockedOnRxQueue s) s1" "holds (g_pRxQueue (chan s1)) []"
    "written s1 = written (SetCmdThreadBlockedOnRxQueue s)" "clock s1 = clock (SetCmdThreadBlockedOnRxQueue s)"
    "\<exists>q. chan s1 = (chan (SetCmdThreadBlockedOnRxQueue s))\<lparr> g_pRxQueue := q \<rparr>"
    using empty_rx_queue_advances [OF ok, of 0] by blast
  let ?s1 = "s1\<lparr> chan := (chan s1)\<lparr> m_pResponse := map_option FreeData (m_pResponse (chan s1)) \<rparr> \<rparr>"
  obtain w n s2 where 2: "WriteToPort env at1 ?s1 = (w, n, s2)" by (cases "WriteToPort env at1 ?s1") auto
  then have s2: "s2 = ?s1\<lparr> written := written ?s1 @ [at1] \<rparr>"
    by (auto simp: WriteToPort_def split: prod.splits)
  let ?s2 = "if w then s2 else request_clean_up s2"
  have eq: "chan ?s2 = (chan ?s1)\<lparr> effects := effects (chan ?s2) \<rparr>" "written ?s2 = written s @ [at1]"
    "clock ?s2 = clock s" "posted ?s2 = posted s1" "tx ?s2 = tx s1" "next_command ?s2 = next_command s1"
    using 1(4,5) by (auto simp: s2 request_clean_up_def emit_def SetCmdThreadBlockedOnRxQueue_def)
  have c: "expects_response (chan ?s2)" "g_RxQueueEvent (chan ?s2) = g_RxQueueEvent (chan s)"
    using 1(3,6) by (subst eq(1); auto simp: expects_response_def SetCmdThreadBlockedOnRxQueue_def)+
  have "g_pRxQueue (chan ?s2) = g_pRxQueue (chan s1)" "next_object (chan ?s2) = next_object (chan s1)"
    by (simp_all add: s2 request_clean_up_def emit_def)
  then have okf: "transmitter_ok ?s2"
    using 1(2) eq(5,6) rx_queue_ok_cong [of "chan ?s2" "chan s1"] tx_queue_ok_cong [of ?s2 s1]
    by (simp add: advances_def transmitter_ok_def)
  have w: "w = fst (port env (length (written s)) at1)"
    using 2 1(4) by (auto simp: WriteToPort_def SetCmdThreadBlockedOnRxQueue_def split: prod.splits)
  have "effects (chan s1) = effects (chan s)" using 1(6) by (auto simp: SetCmdThreadBlockedOnRxQueue_def)
  then have eff: "effects (chan ?s2) = effects (chan s) @ write_effects env at1 s"
    by (simp add: w s2 write_effects_def request_clean_up_def emit_def)
  have "posted s1 = posted s" using 1(2) by (simp add: advances_def SetCmdThreadBlockedOnRxQueue_def)
  then show ?thesis
    using 1(1) 2 c okf eq(2-4) eff by (intro exI [of _ ?s2]) (simp add: transmit_def Let_def)
qed


text \<open>
  The second AT string of a command follows the first response: for most requests when it reports
  success, for the ones below when it reports a failure. What the post handler is given is the
  result and the data of the parser, where the command has one and the response is to be parsed,
  and those of the response itself otherwise.
\<close>

definition sent_after_failure :: "int set" where
  "sent_after_failure =
     {RIL_REQUEST_SEND_USSD, RIL_REQUEST_GET_CLIR, RIL_REQUEST_SET_CLIR, RIL_REQUEST_QUERY_CALL_FORWARD_STATUS,
      RIL_REQUEST_SET_CALL_FORWARD, RIL_REQUEST_QUERY_CALL_WAITING, RIL_REQUEST_SET_CALL_WAITING,
      RIL_REQUEST_QUERY_FACILITY_LOCK, RIL_REQUEST_SET_FACILITY_LOCK, RIL_REQUEST_CHANGE_BARRING_PASSWORD,
      RIL_REQUEST_QUERY_CLIP, RIL_REQUEST_SETUP_DATA_CALL}"

definition sends_second :: "CCommand \<Rightarrow> CResponse \<Rightarrow> bool" where
  "sends_second cmd r \<longleftrightarrow> m_pszATCmd2 cmd \<noteq> None \<and>
     (m_uiResultCode r = RIL_E_SUCCESS) \<noteq> (m_reqId cmd \<in> sent_after_failure)"

definition reply_of :: "parse_table \<Rightarrow> CCommand \<Rightarrow> CResponse \<Rightarrow> result_code \<times> u8 list option \<times> nat" where
  "reply_of parser cmd r =
     (case m_pParseFcn cmd of
        None \<Rightarrow> (m_uiResultCode r, CResponse.m_pData r, m_uiDataSize r)
      | Some f \<Rightarrow>
          if m_uiResultCode r \<noteq> RIL_E_SUCCESS \<and> \<not> m_fAlwaysParse cmd
          then (m_uiResultCode r, CResponse.m_pData r, m_uiDataSize r)
          else
            (case parser f \<lparr> szResponse = text_of r, uiResultCode = m_uiResultCode r, uiErrorCode = m_uiErrorCode r,
                    pContextData = CCommand.m_pContextData cmd, pContextData2 = m_pContextData2 cmd,
                    pData = None, uiDataSize = 0 \<rparr> of
               (res, d) \<Rightarrow> (if res = RIL_E_SUCCESS then uiResultCode d else res, pData d, uiDataSize d)))"

lemma SendCommandPhase2_eq:
  "SendCommandPhase2 res req \<longleftrightarrow> (res = RIL_E_SUCCESS) \<noteq> (req \<in> sent_after_failure)"
  by (simp add: SendCommandPhase2_def sent_after_failure_def)

lemma ParseResponse_reply:
  "\<exists>rsp e. ParseResponse parser (Some cmd) (Some r) = (True, Some rsp, e) \<and>
     (m_uiResultCode rsp, CResponse.m_pData rsp, m_uiDataSize rsp) = reply_of parser cmd r \<and>
     m_uiErrorCode rsp = m_uiErrorCode r"
proof (cases "m_pParseFcn cmd")
  case None
  then show ?thesis by (simp add: ParseResponse_def CResponse_ParseResponse_def reply_of_def)
next
  case (Some f)
  obtain res d where "parser f \<lparr> szResponse = text_of r, uiResultCode = m_uiResultCode r, uiErrorCode = m_uiErrorCode r,
      pContextData = CCommand.m_pContextData cmd, pContextData2 = m_pContextData2 cmd, pData = None, uiDataSize = 0 \<rparr> = (res, d)"
    by fastforce
  then show ?thesis
    using Some by (simp add: ParseResponse_def CResponse_ParseResponse_def reply_of_def SetFlag_def text_of_def cells_of_def Let_def)
qed

text \<open>The response to the first string, and the second exchange where there is one.\<close>

lemma GetResponse_delivers:
  assumes ch: "expects_response (chan s)"
    and r: "solicited r" "react env (clock s) (m_uiTimeout cmd) = deliver r"
    and r2: "sends_second cmd r \<Longrightarrow> solicited r2 \<and> react env (Suc (clock s)) (m_uiTimeout cmd) = deliver r2"
  shows "\<exists>s'. GetResponse env cmd r0 s = Some (RIL_E_SUCCESS, Some (if sends_second cmd r then r2 else r), s') \<and>
    written s' = written s @ (if sends_second cmd r then [the (m_pszATCmd2 cmd)] else []) \<and> posted s' = posted s"
proof -
  obtain ch1 where 1: "read_queue env (m_uiTimeout cmd) r0 s =
      Some (RIL_E_SUCCESS, Some r, s\<lparr> chan := ch1, clock := Suc (clock s) \<rparr>)" "holds (g_pRxQueue ch1) []"
    using deliver_read_queue [OF ch r(1), of env "m_uiTimeout cmd" r0] r(2) by auto
  let ?s1 = "s\<lparr> chan := ch1, clock := Suc (clock s) \<rparr>"
  have t: "\<not> IsTimedOutFlag r" using r(1) by (simp add: solicited_def)
  show ?thesis
  proof (cases "sends_second cmd r")
    case False
    then show ?thesis
      using 1 t by (cases "m_pszATCmd2 cmd")
        (auto simp: GetResponse_def timed_out_def SendCommandPhase2_eq sends_second_def)
  next
    case True
    then obtain at2 where at2: "m_pszATCmd2 cmd = Some at2" "SendCommandPhase2 (m_uiResultCode r) (m_reqId cmd)"
      by (auto simp: sends_second_def SendCommandPhase2_eq)
    let ?s2 = "snd (snd (WriteToPort env at2 (SetCmdThreadBlockedOnRxQueue ?s1)))"
    have s2: "expects_response (chan ?s2)" "clock ?s2 = Suc (clock s)" "posted ?s2 = posted s"
      "written ?s2 = written s @ [at2]"
      using 1(2) by (auto simp: WriteToPort_def SetCmdThreadBlockedOnRxQueue_def expects_response_def split: prod.split)
    have r2: "solicited r2" "react env (clock ?s2) (m_uiTimeout cmd) (chan ?s2) = deliver r2 (chan ?s2)"
      using assms(4) True s2(2) by simp_all
    obtain ch2 where 2: "read_queue env (m_uiTimeout cmd) None ?s2 =
        Some (RIL_E_SUCCESS, Some r2, ?s2\<lparr> chan := ch2, clock := Suc (clock ?s2) \<rparr>)"
      using deliver_read_queue [OF s2(1) r2, of None] by blast
    have "\<not> IsTimedOutFlag r2" using r2(1) by (simp add: solicited_def)
    then have "GetResponse env cmd r0 s = Some (RIL_E_SUCCESS, Some r2, ?s2\<lparr> chan := ch2, clock := Suc (clock ?s2) \<rparr>)"
      using 1(1) 2 t at2 by (simp add: GetResponse_def timed_out_def handle_if_timed_out_def Let_def split_beta)
    then show ?thesis using True at2(1) s2(3,4) by simp
  qed
qed

text \<open>
  C11. A command the modem answers. The first AT string is written to the port once; when the command
  has a second string and the first response is one it follows, that is written too, once. Nothing
  else is written. The response the reader thread queues for the last string written (and no older
  one) is parsed with the parser of the command, and its post handler is called once, with the
  token and the request of the command and with the result, the error code and the data parsed.
\<close>

theorem SendCommand_delivers:
  assumes s: "transmitter_ok s" and cmd: "m_pszATCmd1 cmd = Some at1"
    and r: "solicited r" "react env (clock s) (m_uiTimeout cmd) = deliver r"
    and r2: "sends_second cmd r \<Longrightarrow> solicited r2 \<and> react env (Suc (clock s)) (m_uiTimeout cmd) = deliver r2"
  shows "\<exists>s' d. SendCommand rounds env (Some cmd) s = Some (Some True, s') \<and>
    written s' = written s @ at1 # (if sends_second cmd r then [the (m_pszATCmd2 cmd)] else []) \<and>
    posted s' = posted s @ [(m_pPostCmdHandlerFcn cmd, d)] \<and> pRilToken d = m_token cmd \<and> requestId d = m_reqId cmd \<and>
    (post_ResultCode d, post_Data d, post_DataSize d) =
      reply_of (parse env) cmd (if sends_second cmd r then r2 else r) \<and>
    post_ErrorCode d = m_uiErrorCode (if sends_second cmd r then r2 else r)"
proof -
  let ?last = "if sends_second cmd r then r2 else r"
  obtain s1 where 1: "transmit env cmd at1 None s =
      map_option (\<lambda>(resCode, r, s). (resCode, r, ClearCmdThreadBlockedOnRxQueue s)) (GetResponse env cmd None s1)"
    "expects_response (chan s1)" "written s1 = written s @ [at1]" "clock s1 = clock s" "posted s1 = posted s"
    using transmit_sends [OF s] by blast
  obtain s2 where 2: "GetResponse env cmd None s1 = Some (RIL_E_SUCCESS, Some ?last, s2)"
    "written s2 = written s1 @ (if sends_second cmd r then [the (m_pszATCmd2 cmd)] else [])" "posted s2 = posted s1"
    using GetResponse_delivers [OF 1(2) r(1), of env cmd r2 None] r(2) r2 1(4) by auto
  have t: "\<not> IsTimedOutFlag ?last" using r(1) r2 by (simp add: solicited_def)
  have "transmit env cmd at1 None s = Some (RIL_E_SUCCESS, Some ?last, ClearCmdThreadBlockedOnRxQueue s2)"
    using 1(1) 2(1) by simp
  then have l: "send_loop rounds env cmd at1 (retries env cmd) None s =
      Some (AfterLoop, Some ?last, ClearCmdThreadBlockedOnRxQueue s2)"
    using t by (subst send_loop.simps) simp
  obtain rsp e where p: "ParseResponse (parse env) (Some cmd) (Some ?last) = (True, Some rsp, e)"
    "(m_uiResultCode rsp, CResponse.m_pData rsp, m_uiDataSize rsp) = reply_of (parse env) cmd ?last"
    "m_uiErrorCode rsp = m_uiErrorCode ?last"
    using ParseResponse_reply by blast
  have "SendCommand rounds env (Some cmd) s =
      Some (Some True, post_command cmd (Some rsp) (ClearCmdThreadBlockedOnRxQueue s2))"
    using cmd t l p(1) by (simp add: SendCommand_def timed_out_def)
  then show ?thesis
    using 1(3,5) 2(2,3) p(2,3)
    by - (rule exI [of _ "post_command cmd (Some rsp) (ClearCmdThreadBlockedOnRxQueue s2)"],
      rule exI [of _ "snd (posting cmd (Some rsp))"],
      simp add: ClearCmdThreadBlockedOnRxQueue_def post_data_def Let_def)
qed


section \<open>A modem that does not answer\<close>

definition timeout_response :: CResponse where
  "timeout_response = SetTimedOutFlag True (SetUnsolicitedFlag False
     (new_response\<lparr> m_uiResultCode := RIL_E_GENERIC_FAILURE \<rparr>))"

lemma timeout_response_simps [simp]:
  "IsTimedOutFlag timeout_response" "m_uiResultCode timeout_response = RIL_E_GENERIC_FAILURE"
  by (simp_all add: timeout_response_def flag_simps frame_simps)

definition no_event :: "channel \<Rightarrow> bool" where
  "no_event ch \<longleftrightarrow> expects_response ch \<and> \<not> g_RxQueueEvent ch"

lemma silent_read_queue:
  assumes "no_event (chan s)" "react env (clock s) t (chan s) = chan s"
    "\<not> cancelled env (clock s)" "memory (config env)"
  shows "read_queue env t r0 s = Some (RIL_E_GENERIC_FAILURE, Some timeout_response, s\<lparr> clock := Suc (clock s) \<rparr>)"
proof -
  have "m_pFront (g_pRxQueue (chan s)) = None"
    using assms(1) holds_empty by (auto simp: no_event_def expects_response_def)
  then show ?thesis
    using assms by (simp add: read_queue_def ReadQueue_waits(1) WaitForAnyEvent_def no_event_def
        timeout_response_def)
qed

text \<open>The ping after a timeout: what it sends, and what the modem answers decides.\<close>

lemma ping_channel_prepares:
  assumes "transmitter_ok s"
  shows "\<exists>s1. (ping_channel env s =
      (case read_queue env PING_TIMEOUT None s1 of
         None \<Rightarrow> None
       | Some (resTmp, pRspTemp, s) \<Rightarrow>
           if timed_out pRspTemp then Some (True, s) else Some (resTmp \<noteq> RIL_E_SUCCESS, s))) \<and>
    expects_response (chan s1) \<and> g_RxQueueEvent (chan s1) = g_RxQueueEvent (chan s) \<and>
    written s1 = written s @ [szPINGCmd] \<and> clock s1 = clock s \<and> transmitter_ok s1 \<and> posted s1 = posted s \<and>
    effects (chan s1) = effects (chan s)"
proof -
  have ok: "transmitter_ok (SetCmdThreadBlockedOnRxQueue s)"
    using assms by simp
  obtain s1 where 1: "empty_rx_queue (SetCmdThreadBlockedOnRxQueue s) = Some s1"
    "advances 0 (SetCmdThreadBlockedOnRxQueue s) s1" "holds (g_pRxQueue (chan s1)) []"
    "written s1 = written (SetCmdThreadBlockedOnRxQueue s)" "clock s1 = clock (SetCmdThreadBlockedOnRxQueue s)"
    "\<exists>q. chan s1 = (chan (SetCmdThreadBlockedOnRxQueue s))\<lparr> g_pRxQueue := q \<rparr>"
    using empty_rx_queue_advances [OF ok, of 0] by blast
  let ?s1 = "s1\<lparr> chan := FlushResponse (chan s1) \<rparr>"
  obtain w n s2 where 2: "WriteToPort env szPINGCmd ?s1 = (w, n, s2)"
    by (cases "WriteToPort env szPINGCmd ?s1") auto
  then have s2: "s2 = ?s1\<lparr> written := written ?s1 @ [szPINGCmd] \<rparr>"
    by (auto simp: WriteToPort_def split: prod.splits)
  have "transmitter_ok s2"
    using 1(2) rx_queue_ok_cong [of "chan s2" "chan s1"] tx_queue_ok_cong [of s2 s1]
    by (simp add: advances_def transmitter_ok_def s2 frame_simps)
  moreover have "posted s1 = posted s" using 1(2) by (simp add: advances_def SetCmdThreadBlockedOnRxQueue_def)
  moreover have "effects (chan s2) = effects (chan s)"
    using 1(6) by (auto simp: s2 FlushResponse_def SetCmdThreadBlockedOnRxQueue_def Let_def split: option.split)
  ultimately show ?thesis
    using 1 2 by (intro exI [of _ s2])
      (auto simp: ping_channel_def s2 expects_response_def frame_simps timed_out_def
        SetCmdThreadBlockedOnRxQueue_def split: option.splits)
qed

definition silent :: "tx_env \<Rightarrow> bool" where
  "silent env \<longleftrightarrow> memory (config env) \<and> (\<forall>n t ch. react env n t ch = ch \<and> \<not> cancelled env n)"


lemma transmitter_ok_clock [simp]: "transmitter_ok (s\<lparr> clock := k \<rparr>) = transmitter_ok s"
  by (simp add: transmitter_ok_def tx_queue_ok_def)

lemma transmitter_ok_written [simp]: "transmitter_ok (s\<lparr> written := w \<rparr>) = transmitter_ok s"
  by (simp add: transmitter_ok_def tx_queue_ok_def)

lemma silent_reads:
  assumes "silent env" "no_event (chan s)"
  shows "read_queue env t r0 s = Some (RIL_E_GENERIC_FAILURE, Some timeout_response, s\<lparr> clock := Suc (clock s) \<rparr>)"
  using assms by (simp add: silent_read_queue silent_def)

lemma WriteToPort_eq: "snd (snd (WriteToPort env data s)) = s\<lparr> written := written s @ [data] \<rparr>"
  by (simp add: WriteToPort_def split: prod.split)

abbreviation "abort_text cmd \<equiv> (if IsReqIDAbortable (m_reqId cmd) then [szABORTCmd] else [])"

lemma quiet_abort:
  assumes "memory (config env)" "no_event (chan s)"
    "\<not> cancelled env (clock s) \<and> react env (clock s) (GetAbortTimeout (m_reqId cmd)) (chan s) = chan s"
  shows "send_abort env (m_reqId cmd) s = Some (True, s\<lparr> clock := clock s + length (abort_text cmd),
    written := written s @ abort_text cmd \<rparr>)"
proof (cases "IsReqIDAbortable (m_reqId cmd)")
  case False
  then show ?thesis by (simp add: send_abort_def)
next
  case True
  obtain w n where w: "WriteToPort env szABORTCmd s = (w, n, s\<lparr> written := written s @ [szABORTCmd] \<rparr>)"
    using WriteToPort_eq [of env szABORTCmd s] by (cases "WriteToPort env szABORTCmd s") auto
  show ?thesis
    using True w assms silent_read_queue [of "s\<lparr> written := written s @ [szABORTCmd] \<rparr>" env]
    by (simp add: send_abort_def)
qed

lemma silent_transmit:
  assumes env: "silent env" and s: "transmitter_ok s" "\<not> g_RxQueueEvent (chan s)"
    and sp: "\<not> ReqIDSpecialPing (m_reqId cmd)"
  shows "\<exists>s'. transmit env cmd at1 r s = Some (RRIL_E_MODEM_RESET, Some timeout_response, s') \<and>
    written s' = written s @ [at1] @ abort_text cmd @ [szPINGCmd] \<and>
    posted s' = posted s \<and> effects (chan s') = effects (chan s) @ write_effects env at1 s @ [RequestCleanUp]"
proof -
  obtain s1 where 1: "transmit env cmd at1 r s =
      map_option (\<lambda>(resCode, r, s). (resCode, r, ClearCmdThreadBlockedOnRxQueue s)) (GetResponse env cmd r s1)"
    "expects_response (chan s1)" "written s1 = written s @ [at1]" "posted s1 = posted s"
    "g_RxQueueEvent (chan s1) = g_RxQueueEvent (chan s)" "transmitter_ok s1"
    "effects (chan s1) = effects (chan s) @ write_effects env at1 s"
    using transmit_sends [OF s(1)] by blast
  have ne: "no_event (chan s1)" using 1(2,5) s(2) by (simp add: no_event_def)
  let ?s1 = "s1\<lparr> clock := Suc (clock s1) \<rparr>"
  let ?s2 = "?s1\<lparr> clock := clock ?s1 + length (abort_text cmd), written := written ?s1 @ abort_text cmd \<rparr>"
  have 2: "send_abort env (m_reqId cmd) ?s1 = Some (True, ?s2)"
    using quiet_abort [of env ?s1 cmd] env ne by (simp add: silent_def)
  have ok2: "transmitter_ok ?s2" using 1(6) by simp
  obtain s3 where 3: "ping_channel env ?s2 =
      (case read_queue env PING_TIMEOUT None s3 of
         None \<Rightarrow> None
       | Some (resTmp, pRspTemp, s) \<Rightarrow>
           if timed_out pRspTemp then Some (True, s) else Some (resTmp \<noteq> RIL_E_SUCCESS, s))"
    "expects_response (chan s3)" "g_RxQueueEvent (chan s3) = g_RxQueueEvent (chan ?s2)"
    "written s3 = written ?s2 @ [szPINGCmd]" "posted s3 = posted ?s2" "effects (chan s3) = effects (chan ?s2)"
    using ping_channel_prepares [OF ok2, of env] by blast
  have "no_event (chan s3)" using 3(2,3) ne by (simp add: no_event_def)
  then have ping: "ping_channel env ?s2 = Some (True, s3\<lparr> clock := Suc (clock s3) \<rparr>)"
    using 3(1) silent_reads [OF env] by (simp add: timed_out_def)
  let ?s4 = "request_clean_up (s3\<lparr> clock := Suc (clock s3) \<rparr>)"
  have "HandleTimeout env cmd ?s1 = Some (True, ?s4)"
    using 2 ping sp by (simp add: HandleTimeout_def)
  then have "GetResponse env cmd r s1 = Some (RRIL_E_MODEM_RESET, Some timeout_response, ?s4)"
    using silent_reads [OF env ne, of "m_uiTimeout cmd" r]
    by (simp add: GetResponse_def handle_if_timed_out_def timed_out_def)
  then show ?thesis
    using 1(1,3,4,7) 3(4-6) by (auto simp: ClearCmdThreadBlockedOnRxQueue_def request_clean_up_def emit_def)
qed

text \<open>
  C12. A modem that no longer answers. The command is written once; after its timeout the modem is told
  to abort it, when its request is one that can be aborted, and is pinged, also when the abort is not
  answered. Then exactly one restart of the modem is requested (a second one only when the port had
  refused the command itself), the command is not sent again, and its post handler is called once,
  with its token and a failure.
\<close>

theorem SendCommand_dead_modem:
  assumes env: "silent env" and s: "transmitter_ok s" "\<not> g_RxQueueEvent (chan s)"
    and cmd: "m_pszATCmd1 cmd = Some at1" "\<not> ReqIDSpecialPing (m_reqId cmd)"
  shows "\<exists>s' d. SendCommand rounds env (Some cmd) s = Some (Some False, s') \<and>
    written s' = written s @ [at1] @ (if IsReqIDAbortable (m_reqId cmd) then [szABORTCmd] else []) @ [szPINGCmd] \<and>
    effects (chan s') = effects (chan s) @
      (if fst (port env (length (written s)) at1) then [] else [RequestCleanUp]) @ [RequestCleanUp] \<and>
    posted s' = posted s @ [(m_pPostCmdHandlerFcn cmd, d)] \<and> pRilToken d = m_token cmd \<and>
    requestId d = m_reqId cmd \<and> post_ResultCode d = RIL_E_GENERIC_FAILURE"
proof -
  obtain s1 where 1: "transmit env cmd at1 None s = Some (RRIL_E_MODEM_RESET, Some timeout_response, s1)"
    "written s1 = written s @ [at1] @ abort_text cmd @ [szPINGCmd]"
    "posted s1 = posted s" "effects (chan s1) = effects (chan s) @ write_effects env at1 s @ [RequestCleanUp]"
    using silent_transmit [OF env s cmd(2)] by blast
  have "send_loop rounds env cmd at1 (retries env cmd) None s = Some (AfterLoop, Some timeout_response, s1)"
    using 1(1) by (subst send_loop.simps) simp
  then have "SendCommand rounds env (Some cmd) s = Some (Some False, post_command cmd (Some timeout_response) s1)"
    using cmd(1) by (simp add: SendCommand_def timed_out_def)
  then show ?thesis
    using 1(2-4)
    by - (rule exI [of _ "post_command cmd (Some timeout_response) s1"],
      rule exI [of _ "snd (posting cmd (Some timeout_response))"], simp add: write_effects_def post_data_def Let_def)
qed


section \<open>A slow command on a living modem\<close>

text \<open>
  The port works, and from the \<open>n\<close>-th wait on the modem answers nothing but the pings: an attempt
  waits for the command, for the abort where there is one, and for the ping.
\<close>

definition answers_only_pings :: "CResponse \<Rightarrow> CCommand \<Rightarrow> tx_env \<Rightarrow> nat \<Rightarrow> bool" where
  "answers_only_pings pong cmd env n \<longleftrightarrow> memory (config env) \<and> solicited pong \<and> (\<forall>k d. fst (port env k d)) \<and>
     (\<forall>k t. \<not> cancelled env (n + k) \<and> react env (n + k) t =
        (if Suc k mod (if IsReqIDAbortable (m_reqId cmd) then 3 else 2) = 0 then deliver pong else id))"

lemma answers_only_pings_later:
  assumes "answers_only_pings pong cmd env n"
  shows "answers_only_pings pong cmd env (n + (2 + length (abort_text cmd)))"
proof -
  let ?p = "2 + length (abort_text cmd)"
  have p: "(if IsReqIDAbortable (m_reqId cmd) then 3 else 2 :: nat) = ?p" by simp
  have "\<not> cancelled env (n + (?p + k)) \<and> react env (n + (?p + k)) t = (if Suc k mod ?p = 0 then deliver pong else id)" for k t
    using assms unfolding answers_only_pings_def p by (metis add_Suc_right mod_add_self1)
  then show ?thesis
    using assms unfolding answers_only_pings_def p by (simp only: add.assoc simp_thms)
qed

lemma slow_transmit:
  assumes env: "answers_only_pings pong cmd env (clock s)" and s: "transmitter_ok s" "\<not> g_RxQueueEvent (chan s)"
    and cmd: "\<not> ReqIDSpecialPing (m_reqId cmd)"
  shows "\<exists>s'. transmit env cmd at1 r s = Some (RIL_E_GENERIC_FAILURE, Some timeout_response, s') \<and>
    written s' = written s @ at1 # abort_text cmd @ [szPINGCmd] \<and> posted s' = posted s \<and> transmitter_ok s' \<and>
    \<not> g_RxQueueEvent (chan s') \<and> effects (chan s') = effects (chan s) \<and>
    clock s' = clock s + (2 + length (abort_text cmd))"
proof -
  let ?n = "length (abort_text cmd)"
  have mem: "memory (config env)" and pong: "solicited pong" and port: "write_effects env d s = []" for d
    using env by (simp_all add: answers_only_pings_def write_effects_def)
  have quiet: "react env (clock s + k) t = id \<and> \<not> cancelled env (clock s + k)" if "k \<le> ?n" for k t
    using env that by (auto simp: answers_only_pings_def split: if_splits)
  have ping: "react env (clock s + Suc ?n) t = deliver pong" for t
    using env by (auto simp: answers_only_pings_def numeral_2_eq_2 numeral_3_eq_3 simp del: add_Suc_right split: if_splits)
  obtain s1 where 1: "transmit env cmd at1 r s =
      map_option (\<lambda>(resCode, r, s). (resCode, r, ClearCmdThreadBlockedOnRxQueue s)) (GetResponse env cmd r s1)"
    "expects_response (chan s1)" "written s1 = written s @ [at1]" "posted s1 = posted s"
    "g_RxQueueEvent (chan s1) = g_RxQueueEvent (chan s)" "transmitter_ok s1" "clock s1 = clock s"
    "effects (chan s1) = effects (chan s)"
    using transmit_sends [OF s(1), of env cmd at1 r] port by auto
  have ne: "no_event (chan s1)" using 1(2,5) s(2) by (simp add: no_event_def)
  have rd: "read_queue env (m_uiTimeout cmd) r s1 =
      Some (RIL_E_GENERIC_FAILURE, Some timeout_response, s1\<lparr> clock := Suc (clock s1) \<rparr>)"
    using quiet [of 0] mem 1(7) by (intro silent_read_queue [OF ne]) auto
  let ?s1 = "s1\<lparr> clock := Suc (clock s1) \<rparr>"
  let ?s2 = "?s1\<lparr> clock := clock ?s1 + ?n, written := written ?s1 @ abort_text cmd \<rparr>"
  have 2: "send_abort env (m_reqId cmd) ?s1 = Some (True, ?s2)"
  proof (cases "IsReqIDAbortable (m_reqId cmd)")
    case True
    then show ?thesis using quiet_abort [of env ?s1 cmd] quiet [of 1] mem ne 1(7) by simp
  qed (simp add: send_abort_def)
  have ok2: "transmitter_ok ?s2" using 1(6) by simp
  obtain s3 where 3: "ping_channel env ?s2 =
      (case read_queue env PING_TIMEOUT None s3 of
         None \<Rightarrow> None
       | Some (resTmp, pRspTemp, s) \<Rightarrow>
           if timed_out pRspTemp then Some (True, s) else Some (resTmp \<noteq> RIL_E_SUCCESS, s))"
    "expects_response (chan s3)" "written s3 = written ?s2 @ [szPINGCmd]" "posted s3 = posted ?s2"
    "transmitter_ok s3" "effects (chan s3) = effects (chan ?s2)" "clock s3 = clock ?s2"
    using ping_channel_prepares [OF ok2, of env] by blast
  have "react env (clock s3) PING_TIMEOUT = deliver pong" using ping 3(7) 1(7) by simp
  then obtain ch where 4: "read_queue env PING_TIMEOUT None s3 =
      Some (RIL_E_SUCCESS, Some pong, s3\<lparr> chan := ch, clock := Suc (clock s3) \<rparr>)"
    "holds (g_pRxQueue ch) []" "g_RxQueueEvent ch = False" "effects ch = effects (chan s3)"
    using deliver_read_queue [OF 3(2) pong, of env PING_TIMEOUT None] by auto
  let ?s4 = "s3\<lparr> chan := ch, clock := Suc (clock s3) \<rparr>"
  have ok4: "transmitter_ok ?s4"
    using 3(5) 4(2) tx_queue_ok_cong [of ?s4 s3]
    by (auto simp: transmitter_ok_def rx_queue_ok_def intro!: exI [of _ "[]"])
  have "\<not> IsTimedOutFlag pong" using pong by (simp add: solicited_def)
  then have "HandleTimeout env cmd ?s1 = Some (False, ?s4)"
    using cmd 2 3(1) 4(1) by (simp add: HandleTimeout_def timed_out_def)
  then have "GetResponse env cmd r s1 = Some (RIL_E_GENERIC_FAILURE, Some timeout_response, ?s4)"
    using rd by (simp add: GetResponse_def handle_if_timed_out_def timed_out_def)
  moreover have "transmitter_ok (ClearCmdThreadBlockedOnRxQueue ?s4)"
    using ok4 by simp
  ultimately show ?thesis
    using 1(1,3,4,7,8) 3(3,4,6,7) 4(3,4) by (simp add: ClearCmdThreadBlockedOnRxQueue_def)
qed

lemma slow_loop:
  assumes "answers_only_pings pong cmd env (clock s)" "transmitter_ok s" "\<not> g_RxQueueEvent (chan s)"
    and cmd: "\<not> ReqIDSpecialPing (m_reqId cmd)"
  shows "\<exists>s'. send_loop rounds env cmd at1 n r s =
      Some (if m_fIsInitCommand cmd then AtError else AfterLoop, Some timeout_response, s') \<and>
    written s' = written s @ concat (replicate (Suc n) (at1 # abort_text cmd @ [szPINGCmd])) \<and> posted s' = posted s \<and>
    effects (chan s') = effects (chan s) @ (if m_fIsInitCommand cmd then [RequestCleanUp] else [])"
  using assms(1-3)
proof (induction n arbitrary: r s)
  case (0 r s)
  then show ?case
    using slow_transmit [OF 0 cmd, of at1 r] cmd(1)
    by (auto simp: send_loop.simps request_clean_up_def emit_def)
next
  case (Suc n r s)
  obtain s1 where 1: "transmit env cmd at1 r s = Some (RIL_E_GENERIC_FAILURE, Some timeout_response, s1)"
    "written s1 = written s @ at1 # abort_text cmd @ [szPINGCmd]" "posted s1 = posted s" "transmitter_ok s1"
    "\<not> g_RxQueueEvent (chan s1)" "effects (chan s1) = effects (chan s)"
    "clock s1 = clock s + (2 + length (abort_text cmd))"
    using slow_transmit [OF Suc.prems cmd] by blast
  have later: "answers_only_pings pong cmd env (clock s1)"
    unfolding 1(7) by (rule answers_only_pings_later [OF Suc.prems(1)])
  have "send_loop rounds env cmd at1 (Suc n) r s = send_loop rounds env cmd at1 n (Some timeout_response) s1"
    using 1(1) cmd(1) by (subst send_loop.simps) simp
  with Suc.IH [OF later 1(4,5), of "Some timeout_response"] 1(2,3,6) show ?case by auto
qed

text \<open>
  C13. A command that times out on a modem that answers the pings, and nothing else: it is sent twice
  when the threshold for retries is set and the timeout of the command is not above it, and once
  otherwise, each time followed by an abort where its request can be aborted and by a ping. Then
  its post handler is called once, with its token and a failure; a restart of the modem is requested
  for an initialisation command, once, and for no other. The network selection requests, whose ping
  goes to another channel, are left out.
\<close>

theorem SendCommand_retries:
  assumes env: "answers_only_pings pong cmd env (clock s)" and s: "transmitter_ok s" "\<not> g_RxQueueEvent (chan s)"
    and cmd: "m_pszATCmd1 cmd = Some at1" "\<not> ReqIDSpecialPing (m_reqId cmd)"
  shows "\<exists>s' d. SendCommand rounds env (Some cmd) s = Some (Some False, s') \<and>
    written s' = written s @
      (let attempt = at1 # (if IsReqIDAbortable (m_reqId cmd) then [szABORTCmd] else []) @ [szPINGCmd]
       in if m_uiTimeoutThresholdForRetry env \<noteq> 0 \<and> m_uiTimeout cmd \<le> m_uiTimeoutThresholdForRetry env
          then attempt @ attempt else attempt) \<and>
    effects (chan s') = effects (chan s) @ (if m_fIsInitCommand cmd then [RequestCleanUp] else []) \<and>
    posted s' = posted s @ [(m_pPostCmdHandlerFcn cmd, d)] \<and> pRilToken d = m_token cmd \<and>
    requestId d = m_reqId cmd \<and> post_ResultCode d = RIL_E_GENERIC_FAILURE"
proof -
  obtain s1 where 1: "send_loop rounds env cmd at1 (retries env cmd) None s =
      Some (if m_fIsInitCommand cmd then AtError else AfterLoop, Some timeout_response, s1)"
    "written s1 = written s @ concat (replicate (Suc (retries env cmd)) (at1 # abort_text cmd @ [szPINGCmd]))"
    "posted s1 = posted s" "effects (chan s1) = effects (chan s) @ (if m_fIsInitCommand cmd then [RequestCleanUp] else [])"
    using slow_loop [OF env s cmd(2)] by blast
  have "SendCommand rounds env (Some cmd) s = Some (Some False, post_command cmd (Some timeout_response) s1)"
    using cmd(1) 1(1) by (simp add: SendCommand_def timed_out_def)
  then show ?thesis
    using 1(2-4)
    by - (rule exI [of _ "post_command cmd (Some timeout_response) s1"],
      rule exI [of _ "snd (posting cmd (Some timeout_response))"],
      simp add: retries_def post_data_def Let_def)
qed

section \<open>Two ways the wait goes wrong\<close>

text \<open>
  A modem that answers the ping as long as somebody waits: the reader thread queues the answer during
  the wait, but a wait that ends at once, since its event is set already, is over before.
\<close>

definition answers_in_time :: "CResponse \<Rightarrow> channel \<Rightarrow> channel" where
  "answers_in_time pong ch = (if g_RxQueueEvent ch then ch else deliver pong ch)"

lemma deliver_late:
  assumes "expects_response ch" "solicited r" "rx_queue_ok ch"
  shows "g_RxQueueEvent (deliver r ch)" "rx_queue_ok (deliver r ch)" "effects (deliver r ch) = effects ch"
proof -
  have q: "holds (g_pRxQueue ch) []" and b: "m_bCmdThreadBlockedOnRxQueue ch"
    using assms(1) by (auto simp: expects_response_def)
  obtain q1 where q1: "Enqueue True (Suc (next_object ch), r) m_uiMinPriority False (g_pRxQueue ch) = Some (True, q1)"
    "holds q1 [((Suc (next_object ch), r), m_uiMinPriority)]"
    using Enqueue_holds [OF q, of "(Suc (next_object ch), r)" m_uiMinPriority False] by (auto simp: enq_def)
  have d: "deliver r ch = ch\<lparr> m_bCmdThreadBlockedOnRxQueue := False, next_object := Suc (next_object ch),
      g_pRxQueue := q1, g_RxQueueEvent := True \<rparr>"
    using q1(1) b assms(2) by (simp add: deliver_def ProcessResponse_def solicited_def Let_def)
  show "g_RxQueueEvent (deliver r ch)" "effects (deliver r ch) = effects ch" by (simp_all add: d)
  show "rx_queue_ok (deliver r ch)"
    using q1(2) by (auto simp: d rx_queue_ok_def intro!: exI [of _ "[((Suc (next_object ch), r), m_uiMinPriority)]"])
qed

text \<open>The ping in a state with the event set, and in one without.\<close>

lemma ping_in_time:
  assumes s: "transmitter_ok s" and pong: "solicited pong"
    and env: "react env (clock s) PING_TIMEOUT = answers_in_time pong"
    and cmd: "\<not> ReqIDSpecialPing (m_reqId cmd)" "\<not> IsReqIDAbortable (m_reqId cmd)"
  shows "\<exists>s'. HandleTimeout env cmd s = Some (g_RxQueueEvent (chan s), s') \<and> written s' = written s @ [szPINGCmd] \<and>
    effects (chan s') = effects (chan s) @ (if g_RxQueueEvent (chan s) then [RequestCleanUp] else [])"
proof -
  obtain s1 where 1: "ping_channel env s =
      (case read_queue env PING_TIMEOUT None s1 of
         None \<Rightarrow> None
       | Some (resTmp, pRspTemp, s) \<Rightarrow>
           if timed_out pRspTemp then Some (True, s) else Some (resTmp \<noteq> RIL_E_SUCCESS, s))"
    "expects_response (chan s1)" "g_RxQueueEvent (chan s1) = g_RxQueueEvent (chan s)" "clock s1 = clock s"
    "written s1 = written s @ [szPINGCmd]" "effects (chan s1) = effects (chan s)"
    using ping_channel_prepares [OF s, of env] by blast
  show ?thesis
  proof (cases "g_RxQueueEvent (chan s)")
    case True
    have q: "holds (g_pRxQueue (chan s1)) []" and e: "g_RxQueueEvent (chan s1)"
      using 1(2,3) True by (auto simp: expects_response_def)
    obtain q' where d: "Dequeue (g_pRxQueue (chan s1)) = Some (None, q')" using Dequeue_holds [OF q] by auto
    have "\<exists>ch. read_queue env PING_TIMEOUT None s1 =
        Some (RIL_E_GENERIC_FAILURE, None, s1\<lparr> chan := ch, clock := Suc (clock s1) \<rparr>) \<and> effects ch = effects (chan s1)"
      using holds_empty [OF q] e d env 1(4)
      by (auto simp: read_queue_def ReadQueue_waits(1) WaitForAnyEvent_def read_dequeue_def answers_in_time_def)
    then show ?thesis
      using 1(1,5,6) cmd True
      by (auto simp: HandleTimeout_def send_abort_def timed_out_def request_clean_up_def emit_def)
  next
    case False
    have r: "react env (clock s1) PING_TIMEOUT (chan s1) = deliver pong (chan s1)"
      using env 1(3,4) False by (simp add: answers_in_time_def)
    obtain ch where "read_queue env PING_TIMEOUT None s1 =
        Some (RIL_E_SUCCESS, Some pong, s1\<lparr> chan := ch, clock := Suc (clock s1) \<rparr>)" "effects ch = effects (chan s1)"
      using deliver_read_queue [OF 1(2) pong r, of None] by blast
    then show ?thesis
      using 1(1,5,6) cmd False pong by (auto simp: HandleTimeout_def send_abort_def timed_out_def solicited_def)
  qed
qed

text \<open>
  C15. A response that arrives between a timeout and the ping brings down a modem that is alive. The
  modem answers the ping in time, as the second part shows: without the late response the ping succeeds
  and no restart is requested. With it, the ping empties the queue but leaves the event of the
  response set; the wait for the answer ends at once and finds nothing, and a restart is requested.
\<close>

theorem late_response_restarts_modem:
  assumes s: "transmitter_ok s" "no_event (chan s)" and late: "solicited late" and pong: "solicited pong"
    and env: "react env (clock s) PING_TIMEOUT = answers_in_time pong"
    and cmd: "\<not> ReqIDSpecialPing (m_reqId cmd)" "\<not> IsReqIDAbortable (m_reqId cmd)"
  shows "(\<exists>s'. HandleTimeout env cmd (s\<lparr> chan := deliver late (chan s) \<rparr>) = Some (True, s') \<and>
      written s' = written s @ [szPINGCmd] \<and> effects (chan s') = effects (chan s) @ [RequestCleanUp]) \<and>
    (\<exists>s'. HandleTimeout env cmd s = Some (False, s') \<and>
      written s' = written s @ [szPINGCmd] \<and> effects (chan s') = effects (chan s))"
proof -
  let ?s = "s\<lparr> chan := deliver late (chan s) \<rparr>"
  have e: "expects_response (chan s)" "\<not> g_RxQueueEvent (chan s)" using s(2) by (auto simp: no_event_def)
  have rx: "rx_queue_ok (chan s)" using s(1) by (simp add: transmitter_ok_def)
  note d = deliver_late [OF e(1) late rx]
  have ok: "transmitter_ok ?s" using s(1) d(2) tx_queue_ok_cong [of ?s s] by (simp add: transmitter_ok_def)
  have env': "react env (clock ?s) PING_TIMEOUT = answers_in_time pong" using env by simp
  show ?thesis
    using ping_in_time [OF ok pong env' cmd] ping_in_time [OF s(1) pong env cmd] d e(2) by simp
qed


lemma ping_other_frame:
  "ping_other env s = Some (need, s') \<Longrightarrow> chan s' = chan s \<and> clock s' = clock s \<and> posted s' = posted s"
  by (auto simp: ping_other_def Let_def split: if_splits option.splits)

lemma cancelled_read:
  assumes "holds (g_pRxQueue (chan s)) []" "\<not> g_RxQueueEvent (chan s)"
    "react env (clock s) t (chan s) = chan s" "cancelled env (clock s)"
  shows "read_queue env t r s = Some (RIL_E_GENERIC_FAILURE, r, s\<lparr> clock := Suc (clock s) \<rparr>)"
  using assms holds_empty [OF assms(1)]
  by (simp add: read_queue_def ReadQueue_waits(1) WaitForAnyEvent_def)

text \<open>
  C16. The indefinite wait does not end with the daemon: once the event that ends all waits is
  set, each round reads the timed out response of the round before as its own result, so
  \<open>WaitForResponse\<close> is still waiting after any number of rounds.
\<close>

theorem cancelled_wait_never_ends:
  assumes "transmitter_ok s" "holds (g_pRxQueue (chan s)) []" "\<not> g_RxQueueEvent (chan s)"
    and cmd: "ReqIDSpecialPing (m_reqId cmd)" and r: "timed_out r"
    and env: "\<forall>n t ch. n \<ge> clock s \<longrightarrow> cancelled env n \<and> react env n t ch = ch"
  shows "\<exists>s'. WaitForResponse rounds env cmd r s = Some (False, r, s')"
  using assms(1-3) env
proof (induction rounds arbitrary: s)
  case 0
  then show ?case by simp
next
  case (Suc n)
  let ?s = "SetCmdThreadBlockedOnRxQueue s"
  have ok: "transmitter_ok ?s" using Suc.prems(1) by simp
  have s: "holds (g_pRxQueue (chan ?s)) []" "\<not> g_RxQueueEvent (chan ?s)" "clock ?s = clock s"
    using Suc.prems(2,3) by (auto simp: SetCmdThreadBlockedOnRxQueue_def)
  let ?s1 = "?s\<lparr> clock := Suc (clock s) \<rparr>"
  have rd: "read_queue env (m_uiTimeout cmd) r ?s = Some (RIL_E_GENERIC_FAILURE, r, ?s1)"
    using cancelled_read [OF s(1,2), of env "m_uiTimeout cmd" r] Suc.prems(4) s(3) by simp
  have ok1: "transmitter_ok ?s1" using ok by simp
  obtain need s2 where p: "ping_other env ?s1 = Some (need, s2)" "advances 0 ?s1 s2"
    using ping_other_advances [OF ok1] by blast
  have na: "\<not> IsReqIDAbortable (m_reqId cmd)"
    using cmd by (auto simp: ReqIDSpecialPing_def IsReqIDAbortable_def)
  let ?s3 = "if need then request_clean_up s2 else s2"
  have g: "\<exists>res. GetResponse env cmd r ?s = Some (res, r, ?s3)"
    using rd r cmd na p(1)
    by (auto simp: GetResponse_def handle_if_timed_out_def HandleTimeout_def send_abort_def)
  let ?s4 = "ClearCmdThreadBlockedOnRxQueue ?s3"
  have "transmitter_ok ?s4" using advances_ok [OF p(2)] by simp
  moreover have "holds (g_pRxQueue (chan ?s4)) []" "\<not> g_RxQueueEvent (chan ?s4)" "clock ?s4 \<ge> clock s"
    using ping_other_frame [OF p(1)] s
    by (auto simp: ClearCmdThreadBlockedOnRxQueue_def request_clean_up_def emit_def)
  ultimately have "\<exists>s'. WaitForResponse n env cmd r ?s4 = Some (False, r, s')"
    using Suc.IH [of ?s4] Suc.prems(4) by auto
  then show ?case using g r by (auto simp: Let_def)
qed

section \<open>Examples\<close>

definition sample_env :: tx_env where
  "sample_env = \<lparr> react = (\<lambda>_ _ ch. ch), cancelled = (\<lambda>_. False), port = (\<lambda>_ s. (True, length s)),
     parse = (\<lambda>_ d. (RIL_E_SUCCESS, d)), m_uiTimeoutThresholdForRetry = 10000,
     config = sample_config, m_uiRilChannel = RIL_CHANNEL_DLC2 \<rparr>"

definition sample_transmitter :: transmitter where
  "sample_transmitter = \<lparr> chan = fresh_channel,
     tx = \<lparr> g_pTxQueue = (\<lambda>_. Some (new_queue True)), g_TxQueueEvent = (\<lambda>_. False),
            request_infos = new_table \<rparr>,
     next_command = 0, clock = 0, written = [], posted = [] \<rparr>"

lemma sample_transmitter_ok: "transmitter_ok sample_transmitter"
  using holds_new [of False] holds_new [of True] request_table_ok_new
  by (auto simp: sample_transmitter_def transmitter_ok_def rx_queue_ok_def tx_queue_ok_def fresh_channel_def
      intro!: exI [of _ "[]"])

lemma sample_event: "\<not> g_RxQueueEvent (chan sample_transmitter)"
  by (simp add: sample_transmitter_def fresh_channel_def)

lemma sample_command_simps [simp]:
  "m_pszATCmd1 (sample_command n t i) = Some ''AT''" "m_pszATCmd2 (sample_command n t i) = None"
  "m_reqId (sample_command n t i) = i" "m_token (sample_command n t i) = t"
  "m_pPostCmdHandlerFcn (sample_command n t i) = None" "m_uiTimeout (sample_command n t i) = 0"
  "m_fIsInitCommand (sample_command n t i) = False"
  by (simp_all add: sample_command_def CCommand_one_def at_command_def)

text \<open>
  C10. Every command handed to a channel is answered exactly once. Whatever the modem and the
  reader thread do meanwhile, \<open>SendCommand\<close> runs without touching memory it does not own, keeps
  the queues well formed, and ends after at most \<open>4 * (retries + 1)\<close> waits with one call of the
  command's post handler (or of the default one) carrying the command's token and request
  number. Only a network selection request may still be waiting, and is then not answered yet.
\<close>

theorem SendCommand_answers_once:
  assumes env: "env_ok env" and s: "transmitter_ok s"
  shows "\<exists>res s'. SendCommand rounds env (Some cmd) s = Some (res, s') \<and> transmitter_ok s' \<and>
    (case res of
       None \<Rightarrow> ReqIDSpecialPing (m_reqId cmd) \<and> posted s' = posted s
     | Some ok \<Rightarrow> (\<exists>d. posted s' = posted s @ [(m_pPostCmdHandlerFcn cmd, d)] \<and>
         pRilToken d = m_token cmd \<and> requestId d = m_reqId cmd)) \<and>
    (\<not> ReqIDSpecialPing (m_reqId cmd) \<longrightarrow> clock s' \<le> clock s + 4 * Suc (retries env cmd))"
proof -
  show ?thesis
  proof (cases "m_pszATCmd1 cmd")
    case None
    then show ?thesis using s by (simp add: SendCommand_def)
  next
    case (Some at1)
    obtain e r s1 where l: "send_loop rounds env cmd at1 (retries env cmd) None s = Some (e, r, s1)"
      "transmitter_ok s1" "posted s1 = posted s" "e = StillWaiting \<longrightarrow> ReqIDSpecialPing (m_reqId cmd)"
      "\<not> ReqIDSpecialPing (m_reqId cmd) \<longrightarrow> clock s1 \<le> clock s + 4 * Suc (retries env cmd)"
      using send_loop_advances [OF env s] by blast
    show ?thesis
      using Some l by (cases e) (auto simp: SendCommand_def split: prod.split)
  qed
qed

theorem SendCommand_answers_once_witness:
  "\<exists>res s'. SendCommand 0 sample_env (Some (sample_command 1 (Some 7) RIL_REQUEST_SIGNAL_STRENGTH))
      sample_transmitter = Some (res, s') \<and> transmitter_ok s' \<and> clock s' \<le> 8"
proof -
  have "env_ok sample_env" by (simp add: env_ok_def sample_env_def)
  moreover have "retries sample_env (sample_command 1 (Some 7) RIL_REQUEST_SIGNAL_STRENGTH) = 1"
    by (simp add: retries_def sample_env_def Let_def)
  moreover have "clock sample_transmitter = 0" by (simp add: sample_transmitter_def)
  ultimately show ?thesis
    using SendCommand_answers_once [OF _ sample_transmitter_ok, of sample_env 0
        "sample_command 1 (Some 7) RIL_REQUEST_SIGNAL_STRENGTH"]
    by (auto simp: ReqIDSpecialPing_def)
qed

theorem SendCommand_delivers_witness:
  "\<exists>s'. SendCommand 0 (sample_env\<lparr> react := (\<lambda>_ _. deliver (received ''OK'')) \<rparr>)
      (Some ((sample_command 1 (Some 7) RIL_REQUEST_SIGNAL_STRENGTH)\<lparr> m_pszATCmd2 := Some ''ATZ'' \<rparr>)) sample_transmitter =
      Some (Some True, s') \<and> written s' = [''AT'', ''ATZ'']"
proof -
  let ?cmd = "(sample_command 1 (Some 7) RIL_REQUEST_SIGNAL_STRENGTH)\<lparr> m_pszATCmd2 := Some ''ATZ'' \<rparr>"
  have sol: "solicited (received ''OK'')" and ok: "m_uiResultCode (received ''OK'') = RIL_E_SUCCESS"
    by (simp_all add: solicited_def received_def new_response_def IsFlag_def)
  have "sends_second ?cmd (received ''OK'')"
    by (simp add: sends_second_def sent_after_failure_def ok)
  then show ?thesis
    using SendCommand_delivers [OF sample_transmitter_ok, of ?cmd "''AT''" "received ''OK''"
        "sample_env\<lparr> react := (\<lambda>_ _. deliver (received ''OK'')) \<rparr>" "received ''OK''" 0] sol
    by (auto simp: sample_transmitter_def)
qed

theorem SendCommand_dead_modem_witness:
  "\<exists>s'. SendCommand 0 sample_env (Some (sample_command 1 (Some 7) RIL_REQUEST_QUERY_CLIP)) sample_transmitter =
      Some (Some False, s') \<and> written s' = [''AT'', szABORTCmd, szPINGCmd]"
proof -
  have "silent sample_env" by (simp add: silent_def sample_env_def sample_config_def)
  from SendCommand_dead_modem [OF this sample_transmitter_ok sample_event,
      of "sample_command 1 (Some 7) RIL_REQUEST_QUERY_CLIP" "''AT''" 0]
  show ?thesis by (auto simp: ReqIDSpecialPing_def IsReqIDAbortable_def sample_transmitter_def)
qed

lemma sample_solicited [simp]: "solicited (received ''OK'')"
  by (simp add: solicited_def received_def new_response_def IsFlag_def)

theorem SendCommand_retries_witness:
  "\<exists>s'. SendCommand 0 (sample_env\<lparr> react := (\<lambda>n _. if Suc n mod 2 = 0 then deliver (received ''OK'') else id) \<rparr>)
      (Some (sample_command 1 (Some 7) RIL_REQUEST_SIGNAL_STRENGTH)) sample_transmitter = Some (Some False, s') \<and>
    written s' = [''AT'', szPINGCmd, ''AT'', szPINGCmd] \<and> effects (chan s') = effects (chan sample_transmitter)"
proof -
  let ?env = "sample_env\<lparr> react := (\<lambda>n _. if Suc n mod 2 = 0 then deliver (received ''OK'') else id) \<rparr>"
  have "answers_only_pings (received ''OK'') (sample_command 1 (Some 7) RIL_REQUEST_SIGNAL_STRENGTH) ?env (clock sample_transmitter)"
    by (simp add: answers_only_pings_def sample_env_def sample_config_def sample_transmitter_def IsReqIDAbortable_def)
  from SendCommand_retries [OF this sample_transmitter_ok sample_event, of "''AT''" 0]
  show ?thesis
    by (auto simp: ReqIDSpecialPing_def IsReqIDAbortable_def sample_transmitter_def sample_env_def Let_def)
qed

theorem late_response_restarts_modem_witness:
  "\<exists>s'. HandleTimeout (sample_env\<lparr> react := (\<lambda>_ _. answers_in_time (received ''OK'')) \<rparr>)
      (sample_command 1 (Some 7) RIL_REQUEST_SIGNAL_STRENGTH)
      (SetCmdThreadBlockedOnRxQueue sample_transmitter
        \<lparr> chan := deliver (received ''OK'') (chan (SetCmdThreadBlockedOnRxQueue sample_transmitter)) \<rparr>) = Some (True, s')"
proof -
  let ?s = "SetCmdThreadBlockedOnRxQueue sample_transmitter"
  have "transmitter_ok ?s" using sample_transmitter_ok by simp
  moreover have "no_event (chan ?s)"
    using holds_new by (simp add: no_event_def expects_response_def SetCmdThreadBlockedOnRxQueue_def
        sample_transmitter_def fresh_channel_def)
  ultimately show ?thesis
    using late_response_restarts_modem [of ?s "received ''OK''" "received ''OK''"
        "sample_env\<lparr> react := (\<lambda>_ _. answers_in_time (received ''OK'')) \<rparr>"
        "sample_command 1 (Some 7) RIL_REQUEST_SIGNAL_STRENGTH"]
    by (auto simp: ReqIDSpecialPing_def IsReqIDAbortable_def)
qed

theorem cancelled_wait_never_ends_witness:
  "\<exists>s'. WaitForResponse 1000 (sample_env\<lparr> cancelled := (\<lambda>_. True) \<rparr>)
      (sample_command 1 (Some 7) RIL_REQUEST_SET_NETWORK_SELECTION_AUTOMATIC) (Some timeout_response)
      sample_transmitter = Some (False, Some timeout_response, s')"
proof -
  have "holds (g_pRxQueue (chan sample_transmitter)) []"
    using holds_new by (simp add: sample_transmitter_def fresh_channel_def)
  from cancelled_wait_never_ends [OF sample_transmitter_ok this sample_event,
      of "sample_command 1 (Some 7) RIL_REQUEST_SET_NETWORK_SELECTION_AUTOMATIC" "Some timeout_response"
        "sample_env\<lparr> cancelled := (\<lambda>_. True) \<rparr>" 1000]
  show ?thesis by (simp add: ReqIDSpecialPing_def timed_out_def sample_env_def)
qed

end
