(* ===== verification/DataChannels.thy ===== *)
theory DataChannels
  imports Requests
begin

text \<open>
  The data channels (\<open>CORE/channel_data.cpp\<close>, \<open>CORE/channel_data.h\<close>): which packet data context
  runs on which channel, the assignment of the HSI channels of the modem link, and the texts a
  connection carries (APN, PDP type, interface, addresses).

  \<open>g_pRilChannel\<close> from \<open>RIL_CHANNEL_DATA1\<close> up to the last channel in use is the list \<open>channels\<close>,
  a pointer to a data channel is its position there. All functions run under one recursive
  mutex whose depth is \<open>data_lock\<close>; a function that leaves the depth alone is modelled without
  it.
\<close>

section \<open>State\<close>

datatype data_state =
    E_DATA_STATE_IDLE | E_DATA_STATE_INITING | E_DATA_STATE_ACTIVATING | E_DATA_STATE_ACTIVE
  | E_DATA_STATE_DEACTIVATING | E_DATA_STATE_DEACTIVATED

datatype addr_type = ADDR_IP | ADDR_DNS | ADDR_GATEWAY | ADDR_PCSCF

datatype pdp_type = PDP_TYPE_UNKNOWN | PDP_TYPE_IPV4 | PDP_TYPE_IPV6 | PDP_TYPE_IPV4V6

record CChannel_Data =
  ril_channel :: nat
  m_dataFailCause :: int
  m_uiContextID :: u32
  m_dataState :: data_state
  m_szApn :: string
  m_szPdpType :: string
  m_szInterfaceName :: string
  m_dataProfile :: int
  m_hsiDirect :: bool
  m_hsiChannel :: int
  m_ipcDataChannelMin :: int
  m_isRoutingEnabled :: bool
  m_refCount :: int
  m_uiChildContexts :: u32
  addresses :: "addr_type \<Rightarrow> string option"

record data_config =
  m_hsiChannelsReservedForClass1 :: int
  m_hsiDataDirect :: int
  m_dataProfilePathAssignation :: "int list"
  modem_frees_hsi :: bool  \<comment> \<open>\<open>GetModemType ()\<close> is XMM6360, XMM7160 or XMM7260\<close>

record data_system =
  channels :: "CChannel_Data option list"
  g_uiHSIChannel :: "u32 list"
  data_lock :: nat

definition RIL_MAX_NUM_IPC_CHANNEL :: int where "RIL_MAX_NUM_IPC_CHANNEL = 5"
definition NUMBER_OF_APN_PROFILE :: int where "NUMBER_OF_APN_PROFILE = 6"
definition DATA_PROFILE_AOSP_MASK :: int where "DATA_PROFILE_AOSP_MASK = 0x3FF"
definition RIL_DEFAULT_IPC_CHANNEL_MIN :: int where "RIL_DEFAULT_IPC_CHANNEL_MIN = 2"
definition PDP_FAIL_NONE :: int where "PDP_FAIL_NONE = 0"
definition MAX_CID_NUMERIC :: u32 where "MAX_CID_NUMERIC = 31"
definition MAX_PDP_TYPE_SIZE :: int where "MAX_PDP_TYPE_SIZE = 20"
definition MAX_INTERFACE_NAME_SIZE :: int where "MAX_INTERFACE_NAME_SIZE = 50"

definition the_channel :: "data_system \<Rightarrow> nat \<Rightarrow> CChannel_Data option" where
  "the_channel ds i = (if i < length (channels ds) then channels ds ! i else None)"

definition set_channel :: "nat \<Rightarrow> CChannel_Data \<Rightarrow> data_system \<Rightarrow> data_system" where
  "set_channel i d ds = ds\<lparr> channels := (channels ds)[i := Some d] \<rparr>"

section \<open>Searching a channel\<close>

text \<open>The loop of all the lookups: the first channel, none of the missing ones, that satisfies \<open>P\<close>.\<close>

fun find_channel :: "(CChannel_Data \<Rightarrow> bool) \<Rightarrow> nat \<Rightarrow> CChannel_Data option list \<Rightarrow> nat option" where
  "find_channel P i [] = None"
| "find_channel P i (c # cs) =
     (case c of
        None \<Rightarrow> find_channel P (Suc i) cs
      | Some d \<Rightarrow> if P d then Some i else find_channel P (Suc i) cs)"

definition GetChnlFromContextID :: "u32 \<Rightarrow> data_system \<Rightarrow> nat option" where
  "GetChnlFromContextID uiContextID ds = find_channel (\<lambda>d. m_uiContextID d = uiContextID) 0 (channels ds)"

definition GetChnlFromRilChannelNumber :: "nat \<Rightarrow> data_system \<Rightarrow> nat option" where
  "GetChnlFromRilChannelNumber index ds = find_channel (\<lambda>d. ril_channel d = index) 0 (channels ds)"

definition IsDataConnectionActive :: "data_system \<Rightarrow> bool" where
  "IsDataConnectionActive ds \<longleftrightarrow>
     find_channel (\<lambda>d. m_uiContextID d > 0 \<and> m_dataState d = E_DATA_STATE_ACTIVE) 0 (channels ds) \<noteq> None"

definition GetFirstActiveDataConnectionCid :: "data_system \<Rightarrow> u32" where
  "GetFirstActiveDataConnectionCid ds =
     (case find_channel (\<lambda>d. m_dataState d = E_DATA_STATE_ACTIVE) 0 (channels ds) of
        None \<Rightarrow> 0
      | Some i \<Rightarrow> m_uiContextID (the (channels ds ! i)))"

section \<open>Child contexts\<close>

definition AddChildContextID :: "u32 \<Rightarrow> CChannel_Data \<Rightarrow> CChannel_Data" where
  "AddChildContextID uiContextID d =
     (if uiContextID = 0 \<or> uiContextID > MAX_CID_NUMERIC then d
      else d\<lparr> m_uiChildContexts := m_uiChildContexts d OR push_bit (unat uiContextID) 1 \<rparr>)"

definition RemoveChildContextID :: "u32 \<Rightarrow> CChannel_Data \<Rightarrow> CChannel_Data" where
  "RemoveChildContextID uiContextID d =
     (if uiContextID = 0 \<or> uiContextID > MAX_CID_NUMERIC then d
      else d\<lparr> m_uiChildContexts := m_uiChildContexts d AND NOT (push_bit (unat uiContextID) 1) \<rparr>)"

definition ClearChildsContextID :: "CChannel_Data \<Rightarrow> CChannel_Data" where
  "ClearChildsContextID d = d\<lparr> m_uiChildContexts := 0 \<rparr>"

definition HasChildContextID :: "u32 \<Rightarrow> CChannel_Data \<Rightarrow> bool" where
  "HasChildContextID uiContextID d \<longleftrightarrow>
     (if uiContextID = 0 \<or> uiContextID > MAX_CID_NUMERIC then False
      else m_uiChildContexts d AND push_bit (unat uiContextID) 1 \<noteq> 0)"

definition GetChnlFromChildContextID :: "u32 \<Rightarrow> data_system \<Rightarrow> nat option" where
  "GetChnlFromChildContextID uiChildContextID ds =
     find_channel (HasChildContextID uiChildContextID) 0 (channels ds)"

section \<open>HSI channels\<close>

text \<open>
  The search loops over \<open>g_uiHSIChannel\<close>; \<open>None\<close> for an access outside the array.
\<close>

function free_hsi_loop :: "u32 list \<Rightarrow> int \<Rightarrow> int \<Rightarrow> int option" where
  "free_hsi_loop hsi i eIndex =
     (if i < eIndex then
        (case at_index hsi i of
           None \<Rightarrow> None
         | Some x \<Rightarrow> if x = 0 then Some i else free_hsi_loop hsi (i + 1) eIndex)
      else Some (- 1))"
  by pat_completeness auto
termination by (relation "measure (\<lambda>(hsi, i, e). nat (e - i))") auto

definition GetFreeHSIChannel :: "u32 \<Rightarrow> int \<Rightarrow> int \<Rightarrow> data_system \<Rightarrow> (int \<times> data_system) option" where
  "GetFreeHSIChannel uiCID sIndex eIndex ds =
     (if sIndex < 0 \<or> eIndex > RIL_MAX_NUM_IPC_CHANNEL
      then Some (- 1, ds\<lparr> data_lock := Suc (data_lock ds) \<rparr>)
      else
        (case free_hsi_loop (g_uiHSIChannel ds) sIndex eIndex of
           None \<Rightarrow> None
         | Some i \<Rightarrow>
             if i = - 1 then Some (- 1, ds)
             else Some (i, ds\<lparr> g_uiHSIChannel := (g_uiHSIChannel ds)[nat i := uiCID] \<rparr>)))"

fun free_hsi :: "u32 \<Rightarrow> u32 list \<Rightarrow> bool \<times> u32 list" where
  "free_hsi uiCID [] = (False, [])"
| "free_hsi uiCID (x # xs) =
     (if x = uiCID then (True, 0 # xs) else (case free_hsi uiCID xs of (b, ys) \<Rightarrow> (b, x # ys)))"

definition FreeHSIChannel :: "u32 \<Rightarrow> data_system \<Rightarrow> bool \<times> data_system" where
  "FreeHSIChannel uiCID ds =
     (case free_hsi uiCID (g_uiHSIChannel ds) of (b, hsi) \<Rightarrow> (b, ds\<lparr> g_uiHSIChannel := hsi \<rparr>))"

definition SetContextID :: "u32 \<Rightarrow> CChannel_Data \<Rightarrow> CChannel_Data" where
  "SetContextID dwContextID d = d\<lparr> m_uiContextID := dwContextID \<rparr>"

text \<open>
  \<open>GetChnlsRilHsi\<close> for the channel at \<open>k\<close>. Its parameter is a copy of the caller's pointer, so
  setting it to NULL when there is no HSI channel does not reach the caller.
\<close>

definition assign_hsi ::
    "data_config \<Rightarrow> CChannel_Data \<Rightarrow> int \<Rightarrow> data_system \<Rightarrow> (int \<times> bool \<times> data_system) option" where
  "assign_hsi cfg d path ds =
     (let ipcDataChannelMin = m_ipcDataChannelMin d; uiCID = m_uiContextID d in
      if path = 1 then
        map_option (\<lambda>(h, ds). (h, True, ds))
          (GetFreeHSIChannel uiCID ipcDataChannelMin
             (ipcDataChannelMin + m_hsiChannelsReservedForClass1 cfg) ds)
      else if path = 2 then
        map_option (\<lambda>(h, ds). (h, h \<noteq> - 1, ds))
          (GetFreeHSIChannel uiCID (ipcDataChannelMin + m_hsiChannelsReservedForClass1 cfg)
             (ipcDataChannelMin + m_hsiDataDirect cfg) ds)
      else Some (- 1, False, ds))"

definition data_path :: "data_config \<Rightarrow> int \<Rightarrow> int option" where
  "data_path cfg dataProfile =
     (let profile = dataProfile AND DATA_PROFILE_AOSP_MASK in
      if profile \<ge> 0 \<and> profile < NUMBER_OF_APN_PROFILE
      then at_index (m_dataProfilePathAssignation cfg) profile
      else Some 0)"

definition GetChnlsRilHsi :: "data_config \<Rightarrow> nat \<Rightarrow> int \<Rightarrow> data_system \<Rightarrow> data_system option" where
  "GetChnlsRilHsi cfg k dataProfile ds =
     (case the_channel ds k of
        None \<Rightarrow> Some ds
      | Some d \<Rightarrow>
          (case data_path cfg dataProfile of
             None \<Rightarrow> None
           | Some path \<Rightarrow>
               (case assign_hsi cfg d path ds of
                  None \<Rightarrow> None
                | Some (hsiChannel, hsiDirect, ds) \<Rightarrow>
                    if path = 1 \<and> hsiChannel = - 1 then Some (set_channel k (SetContextID 0 d) ds)
                    else Some (set_channel k (d\<lparr> m_hsiChannel := hsiChannel, m_hsiDirect := hsiDirect,
                           m_dataProfile := dataProfile \<rparr>) ds))))"

text \<open>The free channels. A context id counts the channels from 1.\<close>

definition GetFreeChnl :: "data_system \<Rightarrow> nat option \<times> u32 \<times> data_system" where
  "GetFreeChnl ds =
     (case find_channel (\<lambda>d. m_uiContextID d = 0) 0 (channels ds) of
        None \<Rightarrow> (None, 0, ds)
      | Some i \<Rightarrow>
          (let outCID = of_nat i + 1
           in (Some i, outCID, set_channel i (SetContextID outCID (the (channels ds ! i))) ds)))"

definition GetFreeChnlsRilHsi ::
    "data_config \<Rightarrow> int \<Rightarrow> data_system \<Rightarrow> (nat option \<times> u32 \<times> data_system) option" where
  "GetFreeChnlsRilHsi cfg dataProfile ds =
     (case GetFreeChnl ds of
        (None, _, ds) \<Rightarrow> Some (None, 0, ds)
      | (Some k, outCID, ds) \<Rightarrow> map_option (\<lambda>ds. (Some k, outCID, ds)) (GetChnlsRilHsi cfg k dataProfile ds))"

definition ReserveFreeChnlsRilHsi ::
    "data_config \<Rightarrow> u32 \<Rightarrow> int \<Rightarrow> data_system \<Rightarrow> (nat option \<times> data_system) option" where
  "ReserveFreeChnlsRilHsi cfg uiContextID dataProfile ds =
     (case find_channel (\<lambda>d. m_uiContextID d = 0) 0 (channels ds) of
        None \<Rightarrow> Some (None, ds)
      | Some k \<Rightarrow>
          map_option (\<lambda>ds. (Some k, ds))
            (GetChnlsRilHsi cfg k dataProfile
               (set_channel k (SetContextID uiContextID (the (channels ds ! k))) ds)))"

definition ResetDataCallInfo :: "data_config \<Rightarrow> nat \<Rightarrow> data_system \<Rightarrow> data_system" where
  "ResetDataCallInfo cfg k ds =
     (case the_channel ds k of
        None \<Rightarrow> ds
      | Some d \<Rightarrow>
          (let ds = (if modem_frees_hsi cfg then snd (FreeHSIChannel (m_uiContextID d) ds) else ds)
           in set_channel k (d\<lparr> m_dataFailCause := PDP_FAIL_NONE, m_dataState := E_DATA_STATE_IDLE,
                m_uiContextID := 0, m_refCount := 0, m_isRoutingEnabled := False, m_szApn := [],
                m_szPdpType := [], m_szInterfaceName := [], addresses := (\<lambda>_. None) \<rparr>) ds))"

section \<open>The texts of a connection\<close>

definition tolower_c :: "char \<Rightarrow> char" where
  "tolower_c c = (if 65 \<le> code c \<and> code c \<le> 90 then char_of (code c + 32) else c)"

definition strcasestr :: "string \<Rightarrow> string \<Rightarrow> bool" where
  "strcasestr s n \<longleftrightarrow> strstr (map tolower_c s) (map tolower_c n) \<noteq> None"

definition IsApnEqual :: "string option \<Rightarrow> CChannel_Data \<Rightarrow> bool" where
  "IsApnEqual pApn d \<longleftrightarrow>
     (case pApn of None \<Rightarrow> True | Some s \<Rightarrow> if m_szApn d = [] then True else strcasestr (m_szApn d) s)"

definition SetPdpType :: "string \<Rightarrow> CChannel_Data \<Rightarrow> CChannel_Data" where
  "SetPdpType pPdpType d = d\<lparr> m_szPdpType := take (nat (MAX_PDP_TYPE_SIZE - 1)) pPdpType \<rparr>"

definition GetPdpType :: "int \<Rightarrow> CChannel_Data \<Rightarrow> string option" where
  "GetPdpType maxSize d =
     (if 0 < maxSize then Some (take (nat (maxSize - 1)) (m_szPdpType d)) else None)"

definition SetInterfaceName :: "string \<Rightarrow> CChannel_Data \<Rightarrow> CChannel_Data" where
  "SetInterfaceName pInterfaceName d =
     d\<lparr> m_szInterfaceName := take (nat (MAX_INTERFACE_NAME_SIZE - 1)) pInterfaceName \<rparr>"

definition GetInterfaceName :: "int \<Rightarrow> CChannel_Data \<Rightarrow> string option" where
  "GetInterfaceName maxSize d =
     (if 0 < maxSize then Some (take (nat (maxSize - 1)) (m_szInterfaceName d)) else None)"

definition GetChnlFromIfName :: "string \<Rightarrow> data_system \<Rightarrow> nat option" where
  "GetChnlFromIfName ifName ds =
     find_channel (\<lambda>d. take (nat (MAX_INTERFACE_NAME_SIZE - 1)) (m_szInterfaceName d)
         = take (nat MAX_INTERFACE_NAME_SIZE) ifName) 0 (channels ds)"

definition GetDataConnectionType :: "CChannel_Data \<Rightarrow> pdp_type" where
  "GetDataConnectionType d =
     (if m_szPdpType d = ''IP'' then PDP_TYPE_IPV4
      else if m_szPdpType d = ''IPV6'' then PDP_TYPE_IPV6
      else if m_szPdpType d = ''IPV4V6'' then PDP_TYPE_IPV4V6
      else PDP_TYPE_UNKNOWN)"

definition IncrementRefCount :: "CChannel_Data \<Rightarrow> CChannel_Data" where
  "IncrementRefCount d = d\<lparr> m_refCount := m_refCount d + 1 \<rparr>"

definition DecrementRefCount :: "CChannel_Data \<Rightarrow> CChannel_Data" where
  "DecrementRefCount d = d\<lparr> m_refCount := (if m_refCount d > 0 then m_refCount d - 1 else 0) \<rparr>"

text \<open>The addresses of one type are one text, separated by spaces; \<open>mem\<close>: an allocation succeeds.\<close>

definition AddAddressString ::
    "bool \<Rightarrow> addr_type \<Rightarrow> string option \<Rightarrow> CChannel_Data \<Rightarrow> bool \<times> CChannel_Data" where
  "AddAddressString mem typ pszAddress d =
     (case pszAddress of
        None \<Rightarrow> (False, d)
      | Some a \<Rightarrow>
          if a = [] then (False, d)
          else
            (case addresses d typ of
               None \<Rightarrow>
                 if mem then (True, d\<lparr> addresses := (addresses d)(typ := Some a) \<rparr>) else (False, d)
             | Some old \<Rightarrow>
                 if old = [] then
                   (if mem then (True, d\<lparr> addresses := (addresses d)(typ := Some a) \<rparr>) else (False, d))
                 else if strstr old a = None then
                   (if mem then (True, d\<lparr> addresses := (addresses d)(typ := Some (old @ SPC # a)) \<rparr>)
                    else (False, d))
                 else (True, d)))"

definition DeleteAddressesString :: "addr_type \<Rightarrow> CChannel_Data \<Rightarrow> CChannel_Data" where
  "DeleteAddressesString typ d = d\<lparr> addresses := (addresses d)(typ := None) \<rparr>"

text \<open>
  \<open>GetAddressString\<close>: the text copied, if any. The size is compared with \<open>strlen\<close>, so a negative
  one counts as a large unsigned number.
\<close>

definition GetAddressString :: "addr_type \<Rightarrow> int \<Rightarrow> CChannel_Data \<Rightarrow> string option" where
  "GetAddressString typ addressBufferSize d =
     (case addresses d typ of
        None \<Rightarrow> None
      | Some s \<Rightarrow>
          if unat (word_of_int addressBufferSize :: u32) > length s then Some s else None)"

section \<open>The assignment is consistent\<close>

lemma find_channel_Some:
  "find_channel P i cs = Some k \<longleftrightarrow>
     i \<le> k \<and> k - i < length cs \<and> (\<exists>d. cs ! (k - i) = Some d \<and> P d) \<and>
     (\<forall>j < k - i. \<forall>d. cs ! j = Some d \<longrightarrow> \<not> P d)"
proof (induction cs arbitrary: i)
  case Nil
  then show ?case by simp
next
  case (Cons c cs)
  show ?case
  proof (cases "\<exists>d. c = Some d \<and> P d")
    case True
    then show ?thesis
      by (cases "k = i") (auto simp: nth_Cons' less_Suc_eq_0_disj dest!: spec [of _ 0])
  next
    case False
    then have "find_channel P i (c # cs) = find_channel P (Suc i) cs" by (auto split: option.split)
    moreover have "k - i = Suc (k - Suc i)" if "i < k" using that by simp
    ultimately show ?thesis
      using False by (cases "i < k") (auto simp: Cons.IH less_Suc_eq_0_disj)
  qed
qed

lemma find_the_channel:
  "find_channel P 0 (channels ds) = Some k \<Longrightarrow>
     k < length (channels ds) \<and> (\<exists>d. the_channel ds k = Some d \<and> channels ds ! k = Some d \<and> P d)"
  by (auto simp: find_channel_Some the_channel_def)

lemma the_channel_set [simp]:
  "the_channel (set_channel k d ds) i =
     (if i = k \<and> k < length (channels ds) then Some d else the_channel ds i)"
  by (auto simp: the_channel_def set_channel_def)

lemma set_channel_simps [simp]:
  "length (channels (set_channel k d ds)) = length (channels ds)"
  "g_uiHSIChannel (set_channel k d ds) = g_uiHSIChannel ds" "data_lock (set_channel k d ds) = data_lock ds"
  by (simp_all add: set_channel_def)

lemma the_channel_hsi [simp]: "the_channel (ds\<lparr> g_uiHSIChannel := g \<rparr>) = the_channel ds"
  "the_channel (ds\<lparr> data_lock := n \<rparr>) = the_channel ds"
  by (auto simp: the_channel_def)


text \<open>The context id of the channel at a position.\<close>

definition cid :: "nat \<Rightarrow> u32" where "cid i = of_nat i + 1"

lemma unat_cid: "i < 5 \<Longrightarrow> unat (cid i) = Suc i"
proof -
  assume "i < 5"
  then have "Suc i mod 2 ^ 32 = Suc i" by simp
  moreover have "cid i = of_nat (Suc i)" by (simp add: cid_def)
  ultimately show ?thesis by (simp only: unat_of_nat) simp
qed

lemma cid_nonzero: "i < 5 \<Longrightarrow> cid i \<noteq> 0"
  using unat_cid [of i] by force

lemma cid_inj: "i < 5 \<Longrightarrow> j < 5 \<Longrightarrow> cid i = cid j \<Longrightarrow> i = j"
  by (metis unat_cid nat.inject)





declare free_hsi_loop.simps [simp del]





lemma set_channel_twice [simp]: "set_channel k d (set_channel k e ds) = set_channel k d ds"
  by (simp add: set_channel_def)













section \<open>Runs\<close>

definition new_channel :: "nat \<Rightarrow> int \<Rightarrow> CChannel_Data" where
  "new_channel chnl hsiChannel =
     \<lparr> ril_channel = chnl, m_dataFailCause = PDP_FAIL_NONE, m_uiContextID = 0,
       m_dataState = E_DATA_STATE_IDLE, m_szApn = [], m_szPdpType = [], m_szInterfaceName = [],
       m_dataProfile = 0, m_hsiDirect = False, m_hsiChannel = hsiChannel,
       m_ipcDataChannelMin = RIL_DEFAULT_IPC_CHANNEL_MIN, m_isRoutingEnabled = False, m_refCount = 0,
       m_uiChildContexts = 0, addresses = (\<lambda>_. None) \<rparr>"

text \<open>\<open>n\<close> data channels; \<open>m_hsiChannel\<close> is not initialised by the constructor.\<close>

definition fresh_data :: "nat \<Rightarrow> int \<Rightarrow> data_system" where
  "fresh_data n hsiChannel =
     \<lparr> channels = map (\<lambda>i. Some (new_channel (RIL_CHANNEL_DATA1 + i) hsiChannel)) [0..<n],
       g_uiHSIChannel = replicate 5 0, data_lock = 0 \<rparr>"

text \<open>
  The steps of a modem that assigns HSI channels: a data call takes a free channel; the modem activates
  a default context with an id of its own choice, for which a free channel is reserved when no
  channel has the id (\<open>CSilo_Network::ParseCGEV\<close>); a channel is reset; and any of the other
  attributes of a channel changes.
\<close>

inductive data_step :: "data_config \<Rightarrow> data_system \<Rightarrow> data_system \<Rightarrow> bool" for cfg where
  opens: "GetFreeChnlsRilHsi cfg dataProfile ds = Some (k, outCID, ds') \<Longrightarrow> data_step cfg ds ds'"
| reserves: "GetChnlFromContextID uiCID ds = None \<Longrightarrow>
    ReserveFreeChnlsRilHsi cfg uiCID dataProfile ds = Some (k, ds') \<Longrightarrow> data_step cfg ds ds'"
| closes: "data_step cfg ds (ResetDataCallInfo cfg k ds)"
| changes: "the_channel ds k = Some d \<Longrightarrow> m_uiContextID d' = m_uiContextID d \<Longrightarrow>
    m_hsiChannel d' = m_hsiChannel d \<Longrightarrow> data_step cfg ds (set_channel k d' ds)"

inductive_cases data_stepE: "data_step cfg ds ds'"






section \<open>No HSI channel is lost\<close>






















definition sample_data_config :: data_config where
  "sample_data_config = \<lparr> m_hsiChannelsReservedForClass1 = 1, m_hsiDataDirect = 3,
     m_dataProfilePathAssignation = [1, 2, 2, 2, 2, 2], modem_frees_hsi = True \<rparr>"



lemma find_channel_None: "find_channel P i cs = None \<longleftrightarrow> (\<forall>d. Some d \<in> set cs \<longrightarrow> \<not> P d)"
  by (induction cs arbitrary: i) (auto split: option.split)

lemma free_hsi_loop_full:
  "\<forall>h. i \<le> int h \<and> int h < e \<longrightarrow> g ! h \<noteq> 0 \<Longrightarrow> 0 \<le> i \<Longrightarrow> e \<le> int (length g) \<Longrightarrow>
     free_hsi_loop g i e = Some (- 1)"
proof (induction g i e rule: free_hsi_loop.induct)
  case (1 g i e)
  show ?case
  proof (cases "i < e")
    case True
    then have "g ! nat i \<noteq> 0" using "1.prems"(1,2) by (metis int_nat_eq order_refl)
    then show ?thesis
      using 1 True by (simp add: free_hsi_loop.simps [of g i e] at_index_def)
  qed (simp add: free_hsi_loop.simps [of g i e])
qed

lemma GetFreeHSIChannel_full:
  assumes "length (g_uiHSIChannel ds) = 5" "\<forall>h. s \<le> int h \<and> int h < e \<longrightarrow> g_uiHSIChannel ds ! h \<noteq> 0"
  shows "\<exists>n. GetFreeHSIChannel c s e ds = Some (- 1, ds\<lparr> data_lock := n \<rparr>)"
proof (cases "s < 0 \<or> e > RIL_MAX_NUM_IPC_CHANNEL")
  case True
  then show ?thesis by (auto simp: GetFreeHSIChannel_def)
next
  case False
  then have "free_hsi_loop (g_uiHSIChannel ds) s e = Some (- 1)"
    using assms by (intro free_hsi_loop_full) (auto simp: RIL_MAX_NUM_IPC_CHANNEL_def)
  then show ?thesis using False by (auto simp: GetFreeHSIChannel_def intro!: exI [of _ "data_lock ds"])
qed

lemma GetChnlFromContextID_None:
  "GetChnlFromContextID c ds = None \<longleftrightarrow> (\<forall>i d. the_channel ds i = Some d \<longrightarrow> m_uiContextID d \<noteq> c)"
  by (auto simp: GetChnlFromContextID_def find_channel_None the_channel_def in_set_conv_nth split: if_splits)

text \<open>
  C28. Data calls for which no HSI channel is left. When the channels set apart for a profile of the
  first class are all taken, the data channel just chosen loses its context id again, but the
  caller gets the channel and the id as if it had been opened: no channel answers to that id. For a
  profile of the second class the data channel is opened under the id, without an HSI channel: its
  data goes over the multiplexer. No HSI channel is taken in either case.
\<close>

theorem no_hsi_channel_left:
  assumes len: "length (g_uiHSIChannel ds) = 5" "length (channels ds) \<le> 5"
    and free: "fst (GetFreeChnl ds) = Some k" "the_channel ds k = Some d"
    and unused: "GetChnlFromContextID (of_nat k + 1) ds = None"
    and path: "data_path cfg dataProfile = Some path"
    and full: "path = 1 \<and> (\<forall>h. m_ipcDataChannelMin d \<le> int h \<and>
        int h < m_ipcDataChannelMin d + m_hsiChannelsReservedForClass1 cfg \<longrightarrow> g_uiHSIChannel ds ! h \<noteq> 0) \<or>
      path = 2 \<and> (\<forall>h. m_ipcDataChannelMin d + m_hsiChannelsReservedForClass1 cfg \<le> int h \<and>
        int h < m_ipcDataChannelMin d + m_hsiDataDirect cfg \<longrightarrow> g_uiHSIChannel ds ! h \<noteq> 0)"
  shows "\<exists>ds'. GetFreeChnlsRilHsi cfg dataProfile ds = Some (Some k, of_nat k + 1, ds') \<and> (of_nat k + 1 :: u32) \<noteq> 0 \<and>
    g_uiHSIChannel ds' = g_uiHSIChannel ds \<and>
    (path = 1 \<longrightarrow> GetChnlFromContextID (of_nat k + 1) ds' = None) \<and>
    (path = 2 \<longrightarrow> GetChnlFromContextID (of_nat k + 1) ds' = Some k \<and>
       the_channel ds' k = Some (d\<lparr> m_uiContextID := of_nat k + 1, m_hsiChannel := - 1, m_hsiDirect := False,
         m_dataProfile := dataProfile \<rparr>))"
proof -
  let ?d = "SetContextID (cid k) d"
  let ?ds = "set_channel k ?d ds"
  have find: "find_channel (\<lambda>d. m_uiContextID d = 0) 0 (channels ds) = Some k"
    using free(1) by (auto simp: GetFreeChnl_def Let_def split: option.splits)
  have k: "channels ds ! k = Some d" "k < 5" "k < length (channels ds)"
    using find_the_channel [OF find] free(2) len(2) by auto
  have other: "m_uiContextID f \<noteq> cid k" if "the_channel ds i = Some f" for i f
    using that unused unfolding GetChnlFromContextID_None cid_def by blast
  have cid: "of_nat k + 1 = cid k" by (simp add: cid_def)
  have chnl: "GetChnlsRilHsi cfg k dataProfile ?ds = Some ds' \<Longrightarrow>
      GetFreeChnlsRilHsi cfg dataProfile ds = Some (Some k, cid k, ds')" for ds'
    using find k(1) by (simp add: GetFreeChnlsRilHsi_def GetFreeChnl_def cid Let_def)
  have tk: "the_channel ?ds k = Some ?d" using k by simp
  from full show ?thesis
  proof
    assume *: "path = 1 \<and> (\<forall>h. m_ipcDataChannelMin d \<le> int h \<and>
        int h < m_ipcDataChannelMin d + m_hsiChannelsReservedForClass1 cfg \<longrightarrow> g_uiHSIChannel ds ! h \<noteq> 0)"
    then obtain n where "GetFreeHSIChannel (cid k) (m_ipcDataChannelMin d)
        (m_ipcDataChannelMin d + m_hsiChannelsReservedForClass1 cfg) ?ds = Some (- 1, ?ds\<lparr> data_lock := n \<rparr>)"
      using GetFreeHSIChannel_full [of ?ds "m_ipcDataChannelMin d"] len(1) by fastforce
    then have r: "GetChnlsRilHsi cfg k dataProfile ?ds = Some (set_channel k (SetContextID 0 ?d) (?ds\<lparr> data_lock := n \<rparr>))"
      using * path tk by (simp add: GetChnlsRilHsi_def assign_hsi_def SetContextID_def)
    show ?thesis using chnl [OF r] * k cid_nonzero [OF k(2)] other
      by (auto simp: cid GetChnlFromContextID_None SetContextID_def)
  next
    assume *: "path = 2 \<and> (\<forall>h. m_ipcDataChannelMin d + m_hsiChannelsReservedForClass1 cfg \<le> int h \<and>
        int h < m_ipcDataChannelMin d + m_hsiDataDirect cfg \<longrightarrow> g_uiHSIChannel ds ! h \<noteq> 0)"
    then obtain n where "GetFreeHSIChannel (cid k) (m_ipcDataChannelMin d + m_hsiChannelsReservedForClass1 cfg)
        (m_ipcDataChannelMin d + m_hsiDataDirect cfg) ?ds = Some (- 1, ?ds\<lparr> data_lock := n \<rparr>)"
      using GetFreeHSIChannel_full [of ?ds "m_ipcDataChannelMin d + m_hsiChannelsReservedForClass1 cfg"] len(1) by fastforce
    then have r: "GetChnlsRilHsi cfg k dataProfile ?ds =
        Some (set_channel k (?d\<lparr> m_hsiChannel := - 1, m_hsiDirect := False, m_dataProfile := dataProfile \<rparr>)
          (?ds\<lparr> data_lock := n \<rparr>))" (is "_ = Some ?r")
      using * path tk by (simp add: GetChnlsRilHsi_def assign_hsi_def SetContextID_def)
    have at: "the_channel ?r i = (if i = k then Some (?d\<lparr> m_hsiChannel := - 1, m_hsiDirect := False,
        m_dataProfile := dataProfile \<rparr>) else the_channel ds i)" for i
      using k(3) by simp
    then have "GetChnlFromContextID (cid k) ?r \<noteq> None"
      by (auto simp: GetChnlFromContextID_None SetContextID_def)
    then obtain i where i: "GetChnlFromContextID (cid k) ?r = Some i" by blast
    then obtain f where "the_channel ?r i = Some f" "m_uiContextID f = cid k"
      unfolding GetChnlFromContextID_def using find_the_channel [OF i [unfolded GetChnlFromContextID_def]] by blast
    then have "i = k" using other unfolding at by (auto split: if_splits)
    then show ?thesis using chnl [OF r] * i at [of k] cid_nonzero [OF k(2)]
      by (auto simp: cid SetContextID_def)
  qed
qed

theorem no_hsi_channel_left_witness:
  "\<exists>ds'. GetFreeChnlsRilHsi (sample_data_config\<lparr> m_hsiChannelsReservedForClass1 := 0 \<rparr>) 0 (fresh_data 3 7) =
     Some (Some 0, 1, ds') \<and> GetChnlFromContextID 1 ds' = None"
proof -
  have "fst (GetFreeChnl (fresh_data 3 7)) = Some 0" by code_simp
  moreover have "the_channel (fresh_data 3 7) 0 = Some (new_channel 9 7)"
    by (simp add: the_channel_def fresh_data_def numeral_eq_Suc)
  moreover have "data_path (sample_data_config\<lparr> m_hsiChannelsReservedForClass1 := 0 \<rparr>) 0 = Some 1" by code_simp
  moreover have "GetChnlFromContextID (of_nat 0 + 1) (fresh_data 3 7) = None" by code_simp
  moreover have "length (g_uiHSIChannel (fresh_data 3 7)) = 5" "length (channels (fresh_data 3 7)) \<le> 5"
    by (simp_all add: fresh_data_def)
  ultimately show ?thesis
    using no_hsi_channel_left [of "fresh_data 3 7" 0 "new_channel 9 7"
        "sample_data_config\<lparr> m_hsiChannelsReservedForClass1 := 0 \<rparr>" 0 1] by fastforce
qed

section \<open>Address lists\<close>

text \<open>
  Addresses of which none occurs in the text built so far are listed in the order added; an
  address that is part of one already there is dropped.
\<close>

lemma AddAddressString_joins:
  "a \<noteq> [] \<Longrightarrow> addresses d typ = Some old \<Longrightarrow> old \<noteq> [] \<Longrightarrow>
     AddAddressString True typ (Some a) d =
       (True, if sublist a old then d else d\<lparr> addresses := (addresses d)(typ := Some (old @ SPC # a)) \<rparr>)"
  by (simp add: AddAddressString_def strstr_None_iff)

lemma AddAddressString_drops_part:
  "a \<noteq> [] \<Longrightarrow> b \<noteq> [] \<Longrightarrow> sublist b a \<Longrightarrow>
     AddAddressString True typ (Some b) (snd (AddAddressString True typ (Some a) (DeleteAddressesString typ d))) =
     (True, snd (AddAddressString True typ (Some a) (DeleteAddressesString typ d)))"
  by (simp add: AddAddressString_def DeleteAddressesString_def strstr_None_iff)

lemma GetAddressString_fits:
  "GetAddressString typ n d = Some s \<Longrightarrow> 0 \<le> n \<Longrightarrow> n < 2 ^ 32 \<Longrightarrow> int (length s) < n"
  by (auto simp: GetAddressString_def unsigned_of_int take_bit_int_eq_self split: option.splits if_splits)

end
