(* ===== verification/TeState.thy ===== *)
theory TeState
  imports Channel DataChannels
begin

text \<open>
  The terminal equipment object \<open>CTE\<close> (\<open>CORE/ND/te.cpp\<close>) as far as it decides what happens to a
  request of the framework: its state, the tests which requests are allowed in which state, and
  the answers given without asking the modem. The request handlers are in theory TeHandlers,
  the entry points in TeDispatch.

  The modem specific object \<open>m_pTEBaseInstance\<close> is a class hierarchy of its own. Its state is the
  record \<open>te_base\<close>; what \<open>CTEBase\<close> does with the calls, the radio state and the network selection is
  defined here. Its virtual functions, which turn the data of a request into AT commands, are
  the fields of \<open>te_env\<close>: functions of the data of the request and the state of the program. They
  get no token (but for \<open>HandleSetupDefaultPDN\<close>), so they cannot answer the request; the contract
  \<open>virtual_ok\<close> says so. The images of Android's structures that answers carry are functions of
  the state.
\<close>

section \<open>State\<close>

datatype modem_event =
    MODEM_STATE_UNKNOWN | E_MMGR_EVENT_MODEM_UP | E_MMGR_EVENT_MODEM_DOWN
  | E_MMGR_EVENT_MODEM_OUT_OF_SERVICE | E_MMGR_NOTIFY_PLATFORM_REBOOT
  | E_MMGR_NOTIFY_MODEM_SHUTDOWN | E_MMGR_NOTIFY_CORE_DUMP | OtherModemEvent nat

datatype radio_state = RADIO_STATE_OFF | RADIO_STATE_UNAVAILABLE | RADIO_STATE_ON

datatype app_state = RIL_APPSTATE_UNKNOWN | RIL_APPSTATE_READY | OtherAppState nat

datatype pin_state = RIL_PINSTATE_ENABLED_NOT_VERIFIED | OtherPinState nat

datatype selection_mode =
    E_NETWORK_SELECTION_MODE_AUTOMATIC | E_NETWORK_SELECTION_MODE_MANUAL | NoSelectionMode

datatype radio_off_reason =
    E_RADIO_OFF_REASON_NONE | E_RADIO_OFF_REASON_SHUTDOWN | E_RADIO_OFF_REASON_AIRPLANE_MODE

datatype pdp_fail = PDP_FAIL_ERROR_UNSPECIFIED | PDP_FAIL_RADIO_POWER_OFF | PDP_FAIL_SIGNAL_LOST

datatype dtmf_state = E_DTMF_STATE_STOP | E_DTMF_STATE_START

text \<open>
  The structures of Android's interface the data of a request points to (the order of their fields
  is that of the sources' uses); a \<open>char*\<close> field is a string or NULL.
\<close>

record call_forward =
  cf_status :: int
  cf_reason :: int
  serviceClass :: int
  toa :: int
  cf_number :: "string option"
  timeSeconds :: int

record sim_apdu =
  sessionid :: int
  cla :: int
  instruction :: int
  apdu_p1 :: int
  apdu_p2 :: int
  apdu_p3 :: int
  apdu_data :: "string option"

record sim_io =
  io_command :: int
  fileid :: int
  io_p1 :: int
  io_p2 :: int
  io_p3 :: int
  io_data :: "string option"
  io_pin2 :: "string option"

record broadcast_config =
  fromServiceId :: int
  toServiceId :: int
  fromCodeScheme :: int
  toCodeScheme :: int
  selected :: bool

text \<open>
  The data of a request, by the type its handler gives the pointer: an array of \<open>int\<close>, an array of
  strings, a string, or one of the structures.
\<close>

datatype request_data =
    NULL_DATA | Ints "int list" | Strings "string option list" | Text string
  | Dial "string option" int  \<comment> \<open>\<open>address\<close>, \<open>clir\<close>\<close>
  | CallForward call_forward
  | SmsWrite int "string option" "string option"  \<comment> \<open>\<open>status\<close>, \<open>pdu\<close>, \<open>smsc\<close>\<close>
  | Apdu sim_apdu
  | SimIo sim_io
  | BroadcastConfigs "broadcast_config list"
  | DataProfiles "(int \<times> string option) list"  \<comment> \<open>\<open>profileId\<close>, \<open>apn\<close>\<close>
  | OtherData "u8 list"

record voice_call =
  call_id :: int
  call_state :: int
  bDtmfAllowed :: bool

record te_base =
  m_RadioState :: radio_state
  m_SimAppState :: app_state
  m_SimPinState :: pin_state
  m_VoiceCallInfo :: "voice_call list"
  m_SelectionMode :: selection_mode
  m_szOperatorNumeric :: string
  m_szPIN :: string
  incoming_callId :: u32  \<comment> \<open>\<open>m_IncomingCallInfo\<close>\<close>
  isAnswerReqSent :: bool
  incoming_status :: int
  m_vBroadcastSmsConfigInfo :: "broadcast_config list"
  m_vDataProfileInfos :: "(int \<times> string) list"

text \<open>\<open>SystemCall\<close> is a call of the system manager, which talks to the modem manager.\<close>

datatype te_event = Effect effect | Enqueued CCommand | SystemCall string

record te =
  m_pTEBase :: te_base
  m_LastModemEvent :: modem_event
  m_bSpoofCommandsStatus :: bool
  m_bRadioRequestPending :: bool
  m_bRestrictedMode :: bool
  m_bIsManualNetworkSearchOn :: bool
  m_bIsDataSuspended :: bool
  m_bIsSetupDataCallOngoing :: bool
  m_bCSStatusCached :: bool
  m_bPSStatusCached :: bool
  csStat :: string  \<comment> \<open>\<open>m_sCSStatus.szStat\<close>\<close>
  psStat :: string
  epsStat :: string
  m_enableLocationUpdates :: int
  m_ScreenState :: int
  m_pPrefNetTypeReqInfo :: "(RIL_Token \<times> int \<times> nat) option"
  m_RequestedRadioPower :: int
  m_RadioOffReason :: radio_off_reason
  s_bIsShutDownRequested :: bool
  m_uiDefaultPDNCid :: u32
  m_uiDtmfState :: dtmf_state
  m_bCellInfoEnabled :: bool
  m_bVoiceCapable :: bool
  m_CbsActivate :: int
  m_bCbsActivationTimerRunning :: bool
  m_nCellInfoListRate :: u32
  m_bIsCellInfoTimerRunning :: bool
  config_att :: bool  \<comment> \<open>\<open>m_ProductConfig == CONFIG_ATT\<close>\<close>
  data_calls :: data_system
  queues :: tx_state
  next_cmd :: nat
  trace :: "te_event list"

record te_env =
  te_config :: system_config
  te_data_config :: data_config
  Core :: "string \<Rightarrow> request_data \<Rightarrow> nat \<Rightarrow> te \<Rightarrow> (result_code \<times> REQUEST_DATA \<times> te) option"
  CoreRef ::  \<comment> \<open>of the functions with a number passed by reference\<close>
    "string \<Rightarrow> request_data \<Rightarrow> nat \<Rightarrow> u32 \<Rightarrow> te \<Rightarrow> (result_code \<times> REQUEST_DATA \<times> u32 \<times> te) option"
  HandleSetupDefaultPDN :: "RIL_Token \<Rightarrow> nat \<Rightarrow> te \<Rightarrow> (result_code \<times> te) option"
  IsRequestSupported :: "int \<Rightarrow> bool"
  property_get :: "string \<Rightarrow> string option"
  RIL_VERSION :: nat
  RIL_RESTRICTED_STATE_CS_PS_ALL :: int  \<comment> \<open>\<open>RIL_RESTRICTED_STATE_CS_ALL | RIL_RESTRICTED_STATE_PS_ALL\<close>\<close>
  data_call_image :: "pdp_fail \<Rightarrow> int \<Rightarrow> u8 list"
  active_call_image :: "u32 \<Rightarrow> te \<Rightarrow> u8 list"
  call_list_image :: "te \<Rightarrow> u8 list option"
  card_status_image :: "te_base \<Rightarrow> u8 list"
  registration_image :: "bool \<Rightarrow> te \<Rightarrow> u8 list"
  cell_info_image :: "te \<Rightarrow> u8 list"

section \<open>Answers\<close>

definition RIL_onRequestComplete ::
    "RIL_Token \<Rightarrow> result_code \<Rightarrow> u8 list option \<Rightarrow> te \<Rightarrow> te" where
  "RIL_onRequestComplete token res d te =
     te\<lparr> trace := trace te @ [Effect (RequestComplete token res d
        (case d of None \<Rightarrow> 0 | Some bytes \<Rightarrow> length bytes))] \<rparr>"

definition RIL_requestTimedCallback :: "string \<Rightarrow> RIL_Token \<Rightarrow> nat \<Rightarrow> nat \<Rightarrow> te \<Rightarrow> te" where
  "RIL_requestTimedCallback f token s us te =
     te\<lparr> trace := trace te @ [Effect (TimedCallback f token s us)] \<rparr>"

definition te_unsolicited :: "u32 \<Rightarrow> u8 list option \<Rightarrow> te \<Rightarrow> te" where
  "te_unsolicited i d te =
     te\<lparr> trace := trace te @ [Effect (OnUnsolicitedResponse (ResultCode i) d
        (case d of None \<Rightarrow> 0 | Some bytes \<Rightarrow> length bytes))] \<rparr>"

definition DO_REQUEST_CLEAN_UP :: "te \<Rightarrow> te" where
  "DO_REQUEST_CLEAN_UP te = te\<lparr> trace := trace te @ [Effect RequestCleanUp] \<rparr>"

abbreviation "GetRadioState te \<equiv> m_RadioState (m_pTEBase te)"
abbreviation "GetSimAppState te \<equiv> m_SimAppState (m_pTEBase te)"

definition set_base :: "te_base \<Rightarrow> te \<Rightarrow> te" where
  "set_base b te = te\<lparr> m_pTEBase := b \<rparr>"

definition SetRadioStateAndNotify :: "radio_state \<Rightarrow> te \<Rightarrow> te" where
  "SetRadioStateAndNotify eRadioState te =
     (if GetRadioState te \<noteq> eRadioState then
        te_unsolicited 1000 None (te\<lparr> m_pTEBase := (m_pTEBase te)\<lparr> m_RadioState := eRadioState \<rparr> \<rparr>)
      else te)"

definition system_call :: "string \<Rightarrow> te \<Rightarrow> te" where
  "system_call name te = te\<lparr> trace := trace te @ [SystemCall name] \<rparr>"

section \<open>The voice calls\<close>

text \<open>\<open>memset (&m_VoiceCallInfo, -1, ...)\<close> sets every byte, the flag becomes TRUE.\<close>

definition RRIL_MAX_CALL_ID_COUNT :: nat where "RRIL_MAX_CALL_ID_COUNT = 10"

definition no_call :: voice_call where
  "no_call = \<lparr> call_id = - 1, call_state = - 1, bDtmfAllowed = True \<rparr>"

definition no_calls :: "voice_call list" where
  "no_calls = replicate RRIL_MAX_CALL_ID_COUNT no_call"

abbreviation (input) E_CALL_STATUS_ACTIVE :: int where "E_CALL_STATUS_ACTIVE \<equiv> 0"
abbreviation (input) E_CALL_STATUS_HELD :: int where "E_CALL_STATUS_HELD \<equiv> 1"
abbreviation (input) E_CALL_STATUS_DIALING :: int where "E_CALL_STATUS_DIALING \<equiv> 2"
abbreviation (input) E_CALL_STATUS_ALERTING :: int where "E_CALL_STATUS_ALERTING \<equiv> 3"
abbreviation (input) E_CALL_STATUS_DISCONNECTED :: int where "E_CALL_STATUS_DISCONNECTED \<equiv> 6"
abbreviation (input) E_CALL_STATUS_CONNECTED :: int where "E_CALL_STATUS_CONNECTED \<equiv> 7"

fun GetCurrentCallId :: "voice_call list \<Rightarrow> int" where
  "GetCurrentCallId [] = - 1"
| "GetCurrentCallId (c # cs) =
     (if call_state c \<in> {E_CALL_STATUS_DIALING, E_CALL_STATUS_ALERTING, E_CALL_STATUS_ACTIVE,
                        E_CALL_STATUS_CONNECTED}
      then call_id c else GetCurrentCallId cs)"

fun IsDtmfAllowed :: "int \<Rightarrow> voice_call list \<Rightarrow> bool" where
  "IsDtmfAllowed callId [] = False"
| "IsDtmfAllowed callId (c # cs) =
     (if callId = call_id c then bDtmfAllowed c else IsDtmfAllowed callId cs)"

fun IsInCall :: "voice_call list \<Rightarrow> bool" where
  "IsInCall [] = False"
| "IsInCall (c # cs) = (call_state c \<noteq> - 1 \<and> call_state c \<noteq> E_CALL_STATUS_DISCONNECTED \<or> IsInCall cs)"

fun SetDtmfAllowed :: "int \<Rightarrow> bool \<Rightarrow> voice_call list \<Rightarrow> voice_call list" where
  "SetDtmfAllowed callId b [] = []"
| "SetDtmfAllowed callId b (c # cs) =
     (if callId = call_id c then c\<lparr> bDtmfAllowed := b \<rparr> # cs else c # SetDtmfAllowed callId b cs)"

text \<open>\<open>SetDtmfAllowed (GetCurrentCallId (), FALSE)\<close>.\<close>

definition forbid_dtmf :: "te \<Rightarrow> te" where
  "forbid_dtmf te =
     (let calls = m_VoiceCallInfo (m_pTEBase te) in
      te\<lparr> m_pTEBase := (m_pTEBase te)\<lparr> m_VoiceCallInfo := SetDtmfAllowed (GetCurrentCallId calls) False calls \<rparr> \<rparr>)"

section \<open>Registration\<close>

definition registered_stat :: "string \<Rightarrow> bool" where
  "registered_stat s \<longleftrightarrow> fst (strto (- (2 ^ 31)) (2 ^ 31 - 1) 10 s) \<in> {1, 5}"

definition IsRegistered :: "te \<Rightarrow> bool" where
  "IsRegistered te \<longleftrightarrow> registered_stat (csStat te) \<or> registered_stat (psStat te) \<or> registered_stat (epsStat te)"

definition base_IsRequestSupported :: "int \<Rightarrow> bool" where
  "base_IsRequestSupported requestId \<longleftrightarrow>
     requestId \<notin> {RIL_REQUEST_CDMA_SET_SUBSCRIPTION_SOURCE, RIL_REQUEST_CDMA_SET_ROAMING_PREFERENCE,
       RIL_REQUEST_CDMA_QUERY_ROAMING_PREFERENCE, RIL_REQUEST_CDMA_SET_PREFERRED_VOICE_PRIVACY_MODE,
       RIL_REQUEST_CDMA_QUERY_PREFERRED_VOICE_PRIVACY_MODE, RIL_REQUEST_CDMA_FLASH,
       RIL_REQUEST_CDMA_BURST_DTMF, RIL_REQUEST_CDMA_VALIDATE_AND_WRITE_AKEY,
       RIL_REQUEST_CDMA_SEND_SMS, RIL_REQUEST_CDMA_SMS_ACKNOWLEDGE,
       RIL_REQUEST_CDMA_GET_BROADCAST_SMS_CONFIG, RIL_REQUEST_CDMA_SET_BROADCAST_SMS_CONFIG,
       RIL_REQUEST_CDMA_SMS_BROADCAST_ACTIVATION, RIL_REQUEST_CDMA_SUBSCRIPTION,
       RIL_REQUEST_CDMA_WRITE_SMS_TO_RUIM, RIL_REQUEST_CDMA_DELETE_SMS_ON_RUIM,
       RIL_REQUEST_DEVICE_IDENTITY, RIL_REQUEST_EXIT_EMERGENCY_CALLBACK_MODE,
       RIL_REQUEST_CDMA_GET_SUBSCRIPTION_SOURCE, RIL_REQUEST_RESET_RADIO}"

section \<open>Which requests are allowed\<close>

definition IsRequestAllowedInSpoofState :: "te \<Rightarrow> int \<Rightarrow> bool" where
  "IsRequestAllowedInSpoofState te requestId \<longleftrightarrow>
     (if requestId \<in> {RIL_REQUEST_RADIO_POWER, RIL_REQUEST_SHUTDOWN} then
        m_LastModemEvent te \<noteq> E_MMGR_EVENT_MODEM_OUT_OF_SERVICE \<and>
        m_LastModemEvent te \<noteq> E_MMGR_NOTIFY_PLATFORM_REBOOT
      else requestId \<in> {RIL_REQUEST_SCREEN_STATE, RIL_REQUEST_SET_INITIAL_ATTACH_APN,
             RIL_REQUEST_OEM_HOOK_STRINGS})"

definition IsRequestAllowedInRadioOff :: "te \<Rightarrow> int \<Rightarrow> bool" where
  "IsRequestAllowedInRadioOff te requestId \<longleftrightarrow>
     (if requestId \<in> {RIL_REQUEST_RADIO_POWER, RIL_REQUEST_SCREEN_STATE,
           RIL_REQUEST_SET_INITIAL_ATTACH_APN, RIL_REQUEST_SET_UNSOL_CELL_INFO_LIST_RATE,
           RIL_REQUEST_OEM_HOOK_STRINGS, RIL_REQUEST_SHUTDOWN}
      then True
      else if requestId \<in> {RIL_REQUEST_GET_IMEI, RIL_REQUEST_GET_IMEISV,
           RIL_REQUEST_BASEBAND_VERSION, RIL_REQUEST_SET_TTY_MODE, RIL_REQUEST_QUERY_TTY_MODE,
           RIL_REQUEST_SET_PREFERRED_NETWORK_TYPE, RIL_REQUEST_GET_SIM_STATUS}
      then m_LastModemEvent te = E_MMGR_EVENT_MODEM_UP
      else if requestId \<in> {RIL_REQUEST_ENTER_SIM_PIN, RIL_REQUEST_ENTER_SIM_PUK,
           RIL_REQUEST_ENTER_SIM_PIN2, RIL_REQUEST_ENTER_SIM_PUK2, RIL_REQUEST_CHANGE_SIM_PIN,
           RIL_REQUEST_CHANGE_SIM_PIN2, RIL_REQUEST_QUERY_FACILITY_LOCK,
           RIL_REQUEST_SET_FACILITY_LOCK, RIL_REQUEST_GET_IMSI, RIL_REQUEST_SIM_IO,
           RIL_REQUEST_SIM_TRANSMIT_APDU_BASIC, RIL_REQUEST_SIM_OPEN_CHANNEL,
           RIL_REQUEST_SIM_CLOSE_CHANNEL, RIL_REQUEST_SIM_TRANSMIT_APDU_CHANNEL,
           RIL_REQUEST_WRITE_SMS_TO_SIM, RIL_REQUEST_DELETE_SMS_ON_SIM,
           RIL_REQUEST_GET_SMSC_ADDRESS, RIL_REQUEST_SET_SMSC_ADDRESS,
           RIL_REQUEST_SIM_AUTHENTICATION, RIL_REQUEST_ISIM_AUTHENTICATION,
           RIL_REQUEST_STK_SEND_ENVELOPE_COMMAND, RIL_REQUEST_STK_SEND_TERMINAL_RESPONSE,
           RIL_REQUEST_REPORT_STK_SERVICE_IS_RUNNING, RIL_REQUEST_STK_SEND_ENVELOPE_WITH_STATUS}
      then GetSimAppState te \<noteq> RIL_APPSTATE_UNKNOWN
      else False)"

definition IsRequestAllowedInSimNotReady :: "int \<Rightarrow> bool" where
  "IsRequestAllowedInSimNotReady requestId \<longleftrightarrow>
     requestId \<notin> {RIL_REQUEST_GET_IMSI, RIL_REQUEST_SIM_IO, RIL_REQUEST_SIM_TRANSMIT_APDU_BASIC,
       RIL_REQUEST_SIM_OPEN_CHANNEL, RIL_REQUEST_SIM_CLOSE_CHANNEL,
       RIL_REQUEST_SIM_TRANSMIT_APDU_CHANNEL, RIL_REQUEST_WRITE_SMS_TO_SIM,
       RIL_REQUEST_DELETE_SMS_ON_SIM, RIL_REQUEST_GET_SMSC_ADDRESS, RIL_REQUEST_SET_SMSC_ADDRESS,
       RIL_REQUEST_SIM_AUTHENTICATION, RIL_REQUEST_ISIM_AUTHENTICATION,
       RIL_REQUEST_STK_SEND_ENVELOPE_COMMAND, RIL_REQUEST_STK_SEND_TERMINAL_RESPONSE,
       RIL_REQUEST_REPORT_STK_SERVICE_IS_RUNNING, RIL_REQUEST_STK_SEND_ENVELOPE_WITH_STATUS}"

definition IsRequestAllowedWhenNotRegistered :: "int \<Rightarrow> bool" where
  "IsRequestAllowedWhenNotRegistered requestId \<longleftrightarrow>
     requestId \<notin> {RIL_REQUEST_OPERATOR, RIL_REQUEST_GET_CELL_INFO_LIST,
       RIL_REQUEST_GET_NEIGHBORING_CELL_IDS}"

definition RIL_OEM_HOOK_STRING_NOTIFY_RELEASE_MODEM :: u32 where
  "RIL_OEM_HOOK_STRING_NOTIFY_RELEASE_MODEM = 0xB0"

text \<open>
  \<open>sscanf (s, "%u", &uiCommand)\<close>: \<open>None\<close> for \<open>EOF\<close>, which is reported when only white space is
  left; a text without a numeral leaves the command at 0.
\<close>

definition scan_unsigned :: "string \<Rightarrow> u32 option" where
  "scan_unsigned s =
     (if dropWhile isspace_c s = [] then None
      else Some (word_of_int (fst (strto (- (2 ^ 32 - 1)) (2 ^ 32 - 1) 10 s))))"

definition IsOemHookPossible :: "te \<Rightarrow> int \<Rightarrow> request_data \<Rightarrow> nat \<Rightarrow> bool option" where
  "IsOemHookPossible te requestId pdata datalen =
     (if requestId \<noteq> RIL_REQUEST_OEM_HOOK_STRINGS then Some False
      else
        (case pdata of
           NULL_DATA \<Rightarrow> Some False
         | Strings (Some s # _) \<Rightarrow>
             if s = [] then Some False
             else if datalen < 4 \<or> datalen mod 4 \<noteq> 0 then Some False
             else
               (case scan_unsigned s of
                  None \<Rightarrow> Some False
                | Some uiCommand \<Rightarrow>
                    Some (uiCommand = RIL_OEM_HOOK_STRING_NOTIFY_RELEASE_MODEM \<and>
                      m_LastModemEvent te \<noteq> E_MMGR_EVENT_MODEM_OUT_OF_SERVICE \<and>
                      m_LastModemEvent te \<noteq> E_MMGR_NOTIFY_PLATFORM_REBOOT))
         | _ \<Rightarrow> None))"

definition IsInternalRequestsAllowedInRadioOff :: "te \<Rightarrow> int \<Rightarrow> bool" where
  "IsInternalRequestsAllowedInRadioOff te requestId \<longleftrightarrow>
     (if requestId = E_REQ_ID_INTERNAL_SILENT_PIN_ENTRY then m_SimPinState (m_pTEBase te) = RIL_PINSTATE_ENABLED_NOT_VERIFIED
      else if requestId = E_REQ_ID_INTERNAL_QUERY_SIM_SMS_STORE_STATUS
      then GetSimAppState te \<noteq> RIL_APPSTATE_UNKNOWN
      else requestId \<in> {E_REQ_ID_INTERNAL_SET_PROFILE_DOWNLOAD_FOR_NEXT_UICC_STARTUP,
             E_REQ_ID_INTERNAL_CONFIGURE_USAT_PROFILE_DOWNLOAD, E_REQ_ID_INTERNAL_QUERY_UICC_STATE,
             E_REQ_ID_INTERNAL_READ_USAT_PROFILES, E_REQ_ID_INTERNAL_WRITE_USAT_PROFILE,
             E_REQ_ID_INTERNAL_RESET_UICC, E_REQ_ID_INTERNAL_ENABLE_PROFILE_FACILITY_HANDLING})"

section \<open>Answers without the modem\<close>

definition CompleteGetSimStatusRequest :: "te_env \<Rightarrow> RIL_Token \<Rightarrow> te \<Rightarrow> te" where
  "CompleteGetSimStatusRequest env token te =
     (let te = RIL_onRequestComplete token RIL_E_SUCCESS (Some (card_status_image env (m_pTEBase te))) te
      in if GetSimAppState te = RIL_APPSTATE_UNKNOWN
         then te\<lparr> m_pTEBase := (m_pTEBase te)\<lparr> m_SelectionMode := NoSelectionMode, m_szOperatorNumeric := [] \<rparr> \<rparr>
         else te)"

definition HandleRequestWhenNoModem :: "te_env \<Rightarrow> int \<Rightarrow> RIL_Token \<Rightarrow> te \<Rightarrow> result_code \<times> te" where
  "HandleRequestWhenNoModem env requestId token te =
     (if requestId \<in> {RIL_REQUEST_GET_CURRENT_CALLS, RIL_REQUEST_DEACTIVATE_DATA_CALL} then
        (RIL_E_SUCCESS, RIL_onRequestComplete token RIL_E_SUCCESS None te)
      else if requestId = RIL_REQUEST_SETUP_DATA_CALL then
        (RIL_E_SUCCESS, RIL_onRequestComplete token RIL_E_SUCCESS
           (Some (data_call_image env PDP_FAIL_SIGNAL_LOST (2 ^ 31 - 1))) te)
      else if requestId = RIL_REQUEST_GET_SIM_STATUS then
        (RIL_E_SUCCESS, CompleteGetSimStatusRequest env token te)
      else (RIL_E_RADIO_NOT_AVAILABLE, te))"

definition HandleRequestInRadioOff :: "te_env \<Rightarrow> int \<Rightarrow> RIL_Token \<Rightarrow> te \<Rightarrow> result_code \<times> te" where
  "HandleRequestInRadioOff env requestId token te =
     (if requestId \<in> {RIL_REQUEST_GET_CURRENT_CALLS, RIL_REQUEST_DEACTIVATE_DATA_CALL} then
        (RIL_E_SUCCESS, RIL_onRequestComplete token RIL_E_SUCCESS None te)
      else if requestId = RIL_REQUEST_SETUP_DATA_CALL then
        (RIL_E_SUCCESS, RIL_onRequestComplete token RIL_E_SUCCESS
           (Some (data_call_image env PDP_FAIL_RADIO_POWER_OFF (2 ^ 31 - 1))) te)
      else if requestId \<in> {RIL_REQUEST_VOICE_REGISTRATION_STATE, RIL_REQUEST_DATA_REGISTRATION_STATE,
           RIL_REQUEST_OPERATOR, RIL_REQUEST_QUERY_NETWORK_SELECTION_MODE,
           RIL_REQUEST_OEM_HOOK_STRINGS, RIL_REQUEST_SET_NETWORK_SELECTION_AUTOMATIC,
           RIL_REQUEST_SET_NETWORK_SELECTION_MANUAL} then
        (RIL_E_RADIO_NOT_AVAILABLE, te)
      else if requestId = RIL_REQUEST_GET_SIM_STATUS then
        (RIL_E_SUCCESS, CompleteGetSimStatusRequest env token te)
      else (RIL_E_GENERIC_FAILURE, te))"

definition HandleRequestWhenNotRegistered :: "int \<Rightarrow> result_code" where
  "HandleRequestWhenNotRegistered requestId =
     (if requestId = RIL_REQUEST_OPERATOR then RIL_E_OP_NOT_ALLOWED_BEFORE_REG_TO_NW
      else RIL_E_GENERIC_FAILURE)"

section \<open>Commands of a request\<close>

abbreviation request_channel :: "int \<Rightarrow> nat" where
  "request_channel requestId \<equiv> REQ_INFO.uiChannel (g_ReqInfoDefault ! nat requestId)"

definition SetHighPriority :: "CCommand \<Rightarrow> CCommand" where
  "SetHighPriority cmd = cmd\<lparr> m_fHighPriority := True \<rparr>"

definition SetAlwaysParse :: "CCommand \<Rightarrow> CCommand" where
  "SetAlwaysParse cmd = cmd\<lparr> m_fAlwaysParse := True \<rparr>"

definition SetCallId :: "int \<Rightarrow> CCommand \<Rightarrow> CCommand" where
  "SetCallId i cmd = cmd\<lparr> m_callId := i \<rparr>"

text \<open>
  The end of every handler: the new command, with its attributes set, goes to the queue of its
  channel; without memory or place the result is \<open>RIL_E_GENERIC_FAILURE\<close>.
\<close>

definition queue_command :: "te_env \<Rightarrow> CCommand \<Rightarrow> bool \<Rightarrow> te \<Rightarrow> (result_code \<times> te) option" where
  "queue_command env pCmd bFront te =
     (if \<not> memory (te_config env) then Some (RIL_E_GENERIC_FAILURE, te)
      else
        (case AddCmdToQueue (te_config env) (Some pCmd) bFront (queues te) of
           None \<Rightarrow> None
         | Some (True, _, st) \<Rightarrow>
             Some (RRIL_RESULT_OK, te\<lparr> queues := st, next_cmd := Suc (next_cmd te),
               trace := trace te @ [Enqueued pCmd] \<rparr>)
         | Some (False, _, st) \<Rightarrow>
             Some (RIL_E_GENERIC_FAILURE, te\<lparr> queues := st, next_cmd := Suc (next_cmd te) \<rparr>)))"

definition request_command ::
    "te_env \<Rightarrow> int \<Rightarrow> nat \<Rightarrow> RIL_Token \<Rightarrow> REQUEST_DATA \<Rightarrow> string option \<Rightarrow> string option \<Rightarrow> te
      \<Rightarrow> CCommand" where
  "request_command env requestId chnl token reqData parse post te =
     CCommand_data (te_config env) (next_cmd te) chnl token requestId reqData parse post"

text \<open>
  The body most handlers share: the virtual function makes the AT command of the data, and on
  \<open>RRIL_RESULT_OK\<close> the command of the request is queued.
\<close>

definition std_request ::
    "te_env \<Rightarrow> int \<Rightarrow> string \<Rightarrow> string option \<Rightarrow> string option \<Rightarrow> (CCommand \<Rightarrow> CCommand) \<Rightarrow> bool
      \<Rightarrow> RIL_Token \<Rightarrow> request_data \<Rightarrow> nat \<Rightarrow> te \<Rightarrow> (result_code \<times> te) option" where
  "std_request env requestId core parse post attributes bFront rilToken pdata datalen te =
     (case Core env core pdata datalen te of
        None \<Rightarrow> None
      | Some (res, reqData, te) \<Rightarrow>
          if res \<noteq> RRIL_RESULT_OK then Some (res, te)
          else queue_command env
                 (attributes (request_command env requestId (request_channel requestId) rilToken
                    reqData parse post te)) bFront te)"

type_synonym request_handler = "RIL_Token \<Rightarrow> request_data \<Rightarrow> nat \<Rightarrow> te \<Rightarrow> (result_code \<times> te) option"

end
