(* ===== verification/TeHandlers.thy ===== *)
theory TeHandlers
  imports TeState
begin

text \<open>
  The request handlers of \<open>CTE\<close> (\<open>CORE/ND/te.cpp\<close>) that follow one pattern, \<open>std_request\<close>. They
  differ in the virtual function, the parser and the post command handler (by name), the
  priority and the place in the queue. The other handlers are in theory TeSpecial.
\<close>

definition RequestGetSimStatus :: "te_env \<Rightarrow> request_handler" where
  "RequestGetSimStatus env =
     std_request env RIL_REQUEST_GET_SIM_STATUS ''CoreGetSimStatus''
       (Some ''ParseGetSimStatus'') (Some ''PostGetSimStatusCmdHandler'') SetHighPriority False"

definition RequestEnterSimPin :: "te_env \<Rightarrow> request_handler" where
  "RequestEnterSimPin env =
     std_request env RIL_REQUEST_ENTER_SIM_PIN ''CoreEnterSimPin''
       (Some ''ParseEnterSimPin'') (Some ''PostSimPinCmdHandler'') SetHighPriority False"

definition RequestEnterSimPuk :: "te_env \<Rightarrow> request_handler" where
  "RequestEnterSimPuk env =
     std_request env RIL_REQUEST_ENTER_SIM_PUK ''CoreEnterSimPuk''
       (Some ''ParseEnterSimPuk'') (Some ''PostSimPinCmdHandler'') SetHighPriority False"

definition RequestEnterSimPin2 :: "te_env \<Rightarrow> request_handler" where
  "RequestEnterSimPin2 env =
     std_request env RIL_REQUEST_ENTER_SIM_PIN2 ''CoreEnterSimPin2''
       (Some ''ParseEnterSimPin2'') (Some ''PostSimPin2CmdHandler'') SetHighPriority False"

definition RequestEnterSimPuk2 :: "te_env \<Rightarrow> request_handler" where
  "RequestEnterSimPuk2 env =
     std_request env RIL_REQUEST_ENTER_SIM_PUK2 ''CoreEnterSimPuk2''
       (Some ''ParseEnterSimPuk2'') (Some ''PostSimPin2CmdHandler'') SetHighPriority False"

definition RequestChangeSimPin :: "te_env \<Rightarrow> request_handler" where
  "RequestChangeSimPin env =
     std_request env RIL_REQUEST_CHANGE_SIM_PIN ''CoreChangeSimPin''
       (Some ''ParseChangeSimPin'') (Some ''PostSimPinCmdHandler'') SetHighPriority False"

definition RequestChangeSimPin2 :: "te_env \<Rightarrow> request_handler" where
  "RequestChangeSimPin2 env =
     std_request env RIL_REQUEST_CHANGE_SIM_PIN2 ''CoreChangeSimPin2''
       (Some ''ParseChangeSimPin2'') (Some ''PostSimPin2CmdHandler'') SetHighPriority False"

definition RequestEnterNetworkDepersonalization :: "te_env \<Rightarrow> request_handler" where
  "RequestEnterNetworkDepersonalization env =
     std_request env RIL_REQUEST_ENTER_NETWORK_DEPERSONALIZATION ''CoreEnterNetworkDepersonalization''
       (Some ''ParseEnterNetworkDepersonalization'') (Some ''PostNtwkPersonalizationCmdHandler'') SetHighPriority False"

definition RequestGetCurrentCalls :: "te_env \<Rightarrow> request_handler" where
  "RequestGetCurrentCalls env =
     std_request env RIL_REQUEST_GET_CURRENT_CALLS ''CoreGetCurrentCalls''
       (Some ''ParseGetCurrentCalls'') (Some ''PostGetCurrentCallsCmdHandler'') SetHighPriority False"

definition RequestDial :: "te_env \<Rightarrow> request_handler" where
  "RequestDial env =
     std_request env RIL_REQUEST_DIAL ''CoreDial''
       (Some ''ParseDial'') (Some ''PostDialCmdHandler'') SetHighPriority False"

definition RequestGetImsi :: "te_env \<Rightarrow> request_handler" where
  "RequestGetImsi env =
     std_request env RIL_REQUEST_GET_IMSI ''CoreGetImsi''
       (Some ''ParseGetImsi'') None id False"

definition RequestHangupWaitingOrBackground :: "te_env \<Rightarrow> request_handler" where
  "RequestHangupWaitingOrBackground env =
     std_request env RIL_REQUEST_HANGUP_WAITING_OR_BACKGROUND ''CoreHangupWaitingOrBackground''
       (Some ''ParseHangupWaitingOrBackground'') None SetHighPriority True"

definition RequestUdub :: "te_env \<Rightarrow> request_handler" where
  "RequestUdub env =
     std_request env RIL_REQUEST_UDUB ''CoreUdub''
       (Some ''ParseUdub'') None SetHighPriority False"

definition RequestLastCallFailCause :: "te_env \<Rightarrow> request_handler" where
  "RequestLastCallFailCause env =
     std_request env RIL_REQUEST_LAST_CALL_FAIL_CAUSE ''CoreLastCallFailCause''
       (Some ''ParseLastCallFailCause'') None SetHighPriority False"

definition RequestSignalStrength :: "te_env \<Rightarrow> request_handler" where
  "RequestSignalStrength env =
     std_request env RIL_REQUEST_SIGNAL_STRENGTH ''CoreSignalStrength''
       (Some ''ParseSignalStrength'') None id False"

definition RequestOperator :: "te_env \<Rightarrow> request_handler" where
  "RequestOperator env =
     std_request env RIL_REQUEST_OPERATOR ''CoreOperator''
       (Some ''ParseOperator'') (Some ''PostOperator'') id False"

definition RequestDtmf :: "te_env \<Rightarrow> request_handler" where
  "RequestDtmf env =
     std_request env RIL_REQUEST_DTMF ''CoreDtmf''
       (Some ''ParseDtmf'') None id False"

definition RequestSendSms :: "te_env \<Rightarrow> request_handler" where
  "RequestSendSms env =
     std_request env RIL_REQUEST_SEND_SMS ''CoreSendSms''
       (Some ''ParseSendSms'') (Some ''PostSendSmsCmdHandler'') id False"

definition RequestSendSmsExpectMore :: "te_env \<Rightarrow> request_handler" where
  "RequestSendSmsExpectMore env =
     std_request env RIL_REQUEST_SEND_SMS_EXPECT_MORE ''CoreSendSmsExpectMore''
       (Some ''ParseSendSmsExpectMore'') (Some ''PostSendSmsCmdHandler'') id False"

definition RequestSendUssd :: "te_env \<Rightarrow> request_handler" where
  "RequestSendUssd env =
     std_request env RIL_REQUEST_SEND_USSD ''CoreSendUssd''
       (Some ''ParseSendUssd'') None id False"

definition RequestCancelUssd :: "te_env \<Rightarrow> request_handler" where
  "RequestCancelUssd env =
     std_request env RIL_REQUEST_CANCEL_USSD ''CoreCancelUssd''
       (Some ''ParseCancelUssd'') None id False"

definition RequestGetClir :: "te_env \<Rightarrow> request_handler" where
  "RequestGetClir env =
     std_request env RIL_REQUEST_GET_CLIR ''CoreGetClir''
       (Some ''ParseGetClir'') None id False"

definition RequestSetClir :: "te_env \<Rightarrow> request_handler" where
  "RequestSetClir env =
     std_request env RIL_REQUEST_SET_CLIR ''CoreSetClir''
       (Some ''ParseSetClir'') None id False"

definition RequestQueryCallForwardStatus :: "te_env \<Rightarrow> request_handler" where
  "RequestQueryCallForwardStatus env =
     std_request env RIL_REQUEST_QUERY_CALL_FORWARD_STATUS ''CoreQueryCallForwardStatus''
       (Some ''ParseQueryCallForwardStatus'') None id False"

definition RequestSetCallForward :: "te_env \<Rightarrow> request_handler" where
  "RequestSetCallForward env =
     std_request env RIL_REQUEST_SET_CALL_FORWARD ''CoreSetCallForward''
       (Some ''ParseSetCallForward'') None id False"

definition RequestQueryCallWaiting :: "te_env \<Rightarrow> request_handler" where
  "RequestQueryCallWaiting env =
     std_request env RIL_REQUEST_QUERY_CALL_WAITING ''CoreQueryCallWaiting''
       (Some ''ParseQueryCallWaiting'') None id False"

definition RequestSetCallWaiting :: "te_env \<Rightarrow> request_handler" where
  "RequestSetCallWaiting env =
     std_request env RIL_REQUEST_SET_CALL_WAITING ''CoreSetCallWaiting''
       (Some ''ParseSetCallWaiting'') None id False"

definition RequestSmsAcknowledge :: "te_env \<Rightarrow> request_handler" where
  "RequestSmsAcknowledge env =
     std_request env RIL_REQUEST_SMS_ACKNOWLEDGE ''CoreSmsAcknowledge''
       (Some ''ParseSmsAcknowledge'') None id False"

definition RequestGetImei :: "te_env \<Rightarrow> request_handler" where
  "RequestGetImei env =
     std_request env RIL_REQUEST_GET_IMEI ''CoreGetImei''
       (Some ''ParseGetImei'') None id False"

definition RequestISimAuthenticate :: "te_env \<Rightarrow> request_handler" where
  "RequestISimAuthenticate env =
     std_request env RIL_REQUEST_ISIM_AUTHENTICATION ''CoreISimAuthenticate''
       (Some ''ParseISimAuthenticate'') None id False"

definition RequestGetImeisv :: "te_env \<Rightarrow> request_handler" where
  "RequestGetImeisv env =
     std_request env RIL_REQUEST_GET_IMEISV ''CoreGetImeisv''
       (Some ''ParseGetImeisv'') None id False"

definition RequestAnswer :: "te_env \<Rightarrow> request_handler" where
  "RequestAnswer env =
     std_request env RIL_REQUEST_ANSWER ''CoreAnswer''
       (Some ''ParseAnswer'') None SetHighPriority False"

definition RequestQueryFacilityLock :: "te_env \<Rightarrow> request_handler" where
  "RequestQueryFacilityLock env =
     std_request env RIL_REQUEST_QUERY_FACILITY_LOCK ''CoreQueryFacilityLock''
       (Some ''ParseQueryFacilityLock'') None SetHighPriority False"

definition RequestChangeBarringPassword :: "te_env \<Rightarrow> request_handler" where
  "RequestChangeBarringPassword env =
     std_request env RIL_REQUEST_CHANGE_BARRING_PASSWORD ''CoreChangeBarringPassword''
       (Some ''ParseChangeBarringPassword'') None id False"

definition RequestQueryNetworkSelectionMode :: "te_env \<Rightarrow> request_handler" where
  "RequestQueryNetworkSelectionMode env =
     std_request env RIL_REQUEST_QUERY_NETWORK_SELECTION_MODE ''CoreQueryNetworkSelectionMode''
       (Some ''ParseQueryNetworkSelectionMode'') (Some ''PostNetworkInfoCmdHandler'') id False"

definition RequestBasebandVersion :: "te_env \<Rightarrow> request_handler" where
  "RequestBasebandVersion env =
     std_request env RIL_REQUEST_BASEBAND_VERSION ''CoreBasebandVersion''
       (Some ''ParseBasebandVersion'') None id False"

definition RequestSetMute :: "te_env \<Rightarrow> request_handler" where
  "RequestSetMute env =
     std_request env RIL_REQUEST_SET_MUTE ''CoreSetMute''
       (Some ''ParseSetMute'') None SetHighPriority False"

definition RequestGetMute :: "te_env \<Rightarrow> request_handler" where
  "RequestGetMute env =
     std_request env RIL_REQUEST_GET_MUTE ''CoreGetMute''
       (Some ''ParseGetMute'') None id False"

definition RequestQueryClip :: "te_env \<Rightarrow> request_handler" where
  "RequestQueryClip env =
     std_request env RIL_REQUEST_QUERY_CLIP ''CoreQueryClip''
       (Some ''ParseQueryClip'') None id False"

definition RequestLastDataCallFailCause :: "te_env \<Rightarrow> request_handler" where
  "RequestLastDataCallFailCause env =
     std_request env RIL_REQUEST_LAST_DATA_CALL_FAIL_CAUSE ''CoreLastDataCallFailCause''
       (Some ''ParseLastDataCallFailCause'') None id False"

definition RequestResetRadio :: "te_env \<Rightarrow> request_handler" where
  "RequestResetRadio env =
     std_request env RIL_REQUEST_RESET_RADIO ''CoreResetRadio''
       (Some ''ParseResetRadio'') None id False"

definition RequestSetSuppSvcNotification :: "te_env \<Rightarrow> request_handler" where
  "RequestSetSuppSvcNotification env =
     std_request env RIL_REQUEST_SET_SUPP_SVC_NOTIFICATION ''CoreSetSuppSvcNotification''
       (Some ''ParseSetSuppSvcNotification'') None id False"

definition RequestWriteSmsToSim :: "te_env \<Rightarrow> request_handler" where
  "RequestWriteSmsToSim env =
     std_request env RIL_REQUEST_WRITE_SMS_TO_SIM ''CoreWriteSmsToSim''
       (Some ''ParseWriteSmsToSim'') (Some ''PostWriteSmsToSimCmdHandler'') id False"

definition RequestDeleteSmsOnSim :: "te_env \<Rightarrow> request_handler" where
  "RequestDeleteSmsOnSim env =
     std_request env RIL_REQUEST_DELETE_SMS_ON_SIM ''CoreDeleteSmsOnSim''
       (Some ''ParseDeleteSmsOnSim'') None id False"

definition RequestSetBandMode :: "te_env \<Rightarrow> request_handler" where
  "RequestSetBandMode env =
     std_request env RIL_REQUEST_SET_BAND_MODE ''CoreSetBandMode''
       (Some ''ParseSetBandMode'') None id False"

definition RequestQueryAvailableBandMode :: "te_env \<Rightarrow> request_handler" where
  "RequestQueryAvailableBandMode env =
     std_request env RIL_REQUEST_QUERY_AVAILABLE_BAND_MODE ''CoreQueryAvailableBandMode''
       (Some ''ParseQueryAvailableBandMode'') None id False"

definition RequestStkGetProfile :: "te_env \<Rightarrow> request_handler" where
  "RequestStkGetProfile env =
     std_request env RIL_REQUEST_STK_GET_PROFILE ''CoreStkGetProfile''
       (Some ''ParseStkGetProfile'') None id False"

definition RequestStkSetProfile :: "te_env \<Rightarrow> request_handler" where
  "RequestStkSetProfile env =
     std_request env RIL_REQUEST_STK_SET_PROFILE ''CoreStkSetProfile''
       (Some ''ParseStkSetProfile'') None id False"

definition RequestStkSendEnvelopeCommand :: "te_env \<Rightarrow> request_handler" where
  "RequestStkSendEnvelopeCommand env =
     std_request env RIL_REQUEST_STK_SEND_ENVELOPE_COMMAND ''CoreStkSendEnvelopeCommand''
       (Some ''ParseStkSendEnvelopeCommand'') None id False"

definition RequestStkSendTerminalResponse :: "te_env \<Rightarrow> request_handler" where
  "RequestStkSendTerminalResponse env =
     std_request env RIL_REQUEST_STK_SEND_TERMINAL_RESPONSE ''CoreStkSendTerminalResponse''
       (Some ''ParseStkSendTerminalResponse'') None id False"

definition RequestStkHandleCallSetupRequestedFromSim :: "te_env \<Rightarrow> request_handler" where
  "RequestStkHandleCallSetupRequestedFromSim env =
     std_request env RIL_REQUEST_STK_HANDLE_CALL_SETUP_REQUESTED_FROM_SIM ''CoreStkHandleCallSetupRequestedFromSim''
       (Some ''ParseStkHandleCallSetupRequestedFromSim'') None id False"

definition RequestExplicitCallTransfer :: "te_env \<Rightarrow> request_handler" where
  "RequestExplicitCallTransfer env =
     std_request env RIL_REQUEST_EXPLICIT_CALL_TRANSFER ''CoreExplicitCallTransfer''
       (Some ''ParseExplicitCallTransfer'') None SetHighPriority False"

definition RequestGetPreferredNetworkType :: "te_env \<Rightarrow> request_handler" where
  "RequestGetPreferredNetworkType env =
     std_request env RIL_REQUEST_GET_PREFERRED_NETWORK_TYPE ''CoreGetPreferredNetworkType''
       (Some ''ParseGetPreferredNetworkType'') None id False"

definition RequestGetNeighboringCellIDs :: "te_env \<Rightarrow> request_handler" where
  "RequestGetNeighboringCellIDs env =
     std_request env RIL_REQUEST_GET_NEIGHBORING_CELL_IDS ''CoreGetNeighboringCellIDs''
       (Some ''ParseGetNeighboringCellIDs'') (Some ''PostGetNeighboringCellIDs'') id False"

definition RequestCdmaSetSubscription :: "te_env \<Rightarrow> request_handler" where
  "RequestCdmaSetSubscription env =
     std_request env RIL_REQUEST_CDMA_SET_SUBSCRIPTION_SOURCE ''CoreCdmaSetSubscription''
       (Some ''ParseCdmaSetSubscription'') None id False"

definition RequestCdmaSetRoamingPreference :: "te_env \<Rightarrow> request_handler" where
  "RequestCdmaSetRoamingPreference env =
     std_request env RIL_REQUEST_CDMA_SET_ROAMING_PREFERENCE ''CoreCdmaSetRoamingPreference''
       (Some ''ParseCdmaSetRoamingPreference'') None id False"

definition RequestCdmaQueryRoamingPreference :: "te_env \<Rightarrow> request_handler" where
  "RequestCdmaQueryRoamingPreference env =
     std_request env RIL_REQUEST_CDMA_QUERY_ROAMING_PREFERENCE ''CoreCdmaQueryRoamingPreference''
       (Some ''ParseCdmaQueryRoamingPreference'') None id False"

definition RequestSetTtyMode :: "te_env \<Rightarrow> request_handler" where
  "RequestSetTtyMode env =
     std_request env RIL_REQUEST_SET_TTY_MODE ''CoreSetTtyMode''
       (Some ''ParseSetTtyMode'') None id False"

definition RequestQueryTtyMode :: "te_env \<Rightarrow> request_handler" where
  "RequestQueryTtyMode env =
     std_request env RIL_REQUEST_QUERY_TTY_MODE ''CoreQueryTtyMode''
       (Some ''ParseQueryTtyMode'') None id False"

definition RequestGsmGetBroadcastSmsConfig :: "te_env \<Rightarrow> request_handler" where
  "RequestGsmGetBroadcastSmsConfig env =
     std_request env RIL_REQUEST_GSM_GET_BROADCAST_SMS_CONFIG ''CoreGsmGetBroadcastSmsConfig''
       (Some ''ParseGsmGetBroadcastSmsConfig'') None id False"

definition RequestGetSmscAddress :: "te_env \<Rightarrow> request_handler" where
  "RequestGetSmscAddress env =
     std_request env RIL_REQUEST_GET_SMSC_ADDRESS ''CoreGetSmscAddress''
       (Some ''ParseGetSmscAddress'') None id False"

definition RequestSetSmscAddress :: "te_env \<Rightarrow> request_handler" where
  "RequestSetSmscAddress env =
     std_request env RIL_REQUEST_SET_SMSC_ADDRESS ''CoreSetSmscAddress''
       (Some ''ParseSetSmscAddress'') None id False"

definition RequestReportSmsMemoryStatus :: "te_env \<Rightarrow> request_handler" where
  "RequestReportSmsMemoryStatus env =
     std_request env RIL_REQUEST_REPORT_SMS_MEMORY_STATUS ''CoreReportSmsMemoryStatus''
       (Some ''ParseReportSmsMemoryStatus'') None id False"

definition RequestAckIncomingGsmSmsWithPdu :: "te_env \<Rightarrow> request_handler" where
  "RequestAckIncomingGsmSmsWithPdu env =
     std_request env RIL_REQUEST_ACKNOWLEDGE_INCOMING_GSM_SMS_WITH_PDU ''CoreAckIncomingGsmSmsWithPdu''
       (Some ''ParseAckIncomingGsmSmsWithPdu'') None id False"

definition RequestStkSendEnvelopeWithStatus :: "te_env \<Rightarrow> request_handler" where
  "RequestStkSendEnvelopeWithStatus env =
     std_request env RIL_REQUEST_STK_SEND_ENVELOPE_WITH_STATUS ''CoreStkSendEnvelopeCommand''
       (Some ''ParseStkSendEnvelopeWithStatus'') None id False"

definition RequestSimTransmitApduBasic :: "te_env \<Rightarrow> request_handler" where
  "RequestSimTransmitApduBasic env =
     std_request env RIL_REQUEST_SIM_TRANSMIT_APDU_BASIC ''CoreSimTransmitApduBasic''
       (Some ''ParseSimTransmitApduBasic'') None id False"

definition RequestSimOpenChannel :: "te_env \<Rightarrow> request_handler" where
  "RequestSimOpenChannel env =
     std_request env RIL_REQUEST_SIM_OPEN_CHANNEL ''CoreSimOpenChannel''
       (Some ''ParseSimOpenChannel'') None id False"

definition RequestSimCloseChannel :: "te_env \<Rightarrow> request_handler" where
  "RequestSimCloseChannel env =
     std_request env RIL_REQUEST_SIM_CLOSE_CHANNEL ''CoreSimCloseChannel''
       (Some ''ParseSimCloseChannel'') None id False"

definition RequestSimTransmitApduChannel :: "te_env \<Rightarrow> request_handler" where
  "RequestSimTransmitApduChannel env =
     std_request env RIL_REQUEST_SIM_TRANSMIT_APDU_CHANNEL ''CoreSimTransmitApduChannel''
       (Some ''ParseSimTransmitApduChannel'') None id False"

definition RequestDeviceIdentity :: request_handler where
  "RequestDeviceIdentity rilToken pdata datalen te = Some (RIL_E_REQUEST_NOT_SUPPORTED, te)"

definition RequestExitEmergencyCallbackMode :: request_handler where
  "RequestExitEmergencyCallbackMode rilToken pdata datalen te = Some (RIL_E_REQUEST_NOT_SUPPORTED, te)"

end
