(* ===== verification/TeSpecial.thy ===== *)
theory TeSpecial
  imports TeHandlers
begin

text \<open>
  The request handlers of \<open>CTE\<close> (\<open>CORE/ND/te.cpp\<close>) with more to them than \<open>std_request\<close>: those
  that change the state of \<open>CTE\<close>, answer at once, defer the request, or choose a channel.
\<close>

section \<open>Parts they share\<close>

definition after_ok :: "(te \<Rightarrow> te) \<Rightarrow> (result_code \<times> te) option \<Rightarrow> (result_code \<times> te) option" where
  "after_ok f r = map_option (\<lambda>(res, te). (res, if res = RRIL_RESULT_OK then f te else te)) r"

text \<open>A virtual function that may say that the request is done: \<open>RRIL_RESULT_OK_IMMEDIATE\<close>.\<close>

definition immediate_request ::
    "te_env \<Rightarrow> int \<Rightarrow> string \<Rightarrow> string option \<Rightarrow> string option \<Rightarrow> (CCommand \<Rightarrow> CCommand)
      \<Rightarrow> (REQUEST_DATA \<Rightarrow> te \<Rightarrow> u8 list option) \<Rightarrow> request_handler" where
  "immediate_request env requestId core parse post attributes answer rilToken pdata datalen te =
     (case Core env core pdata datalen te of
        None \<Rightarrow> None
      | Some (res, reqData, te) \<Rightarrow>
          if res = RRIL_RESULT_OK_IMMEDIATE then
            Some (RRIL_RESULT_OK, RIL_onRequestComplete rilToken RIL_E_SUCCESS (answer reqData te) te)
          else if res \<noteq> RRIL_RESULT_OK then Some (res, te)
          else queue_command env
                 (attributes (request_command env requestId (request_channel requestId) rilToken
                    reqData parse post te)) False te)"

abbreviation no_answer :: "REQUEST_DATA \<Rightarrow> te \<Rightarrow> u8 list option" where
  "no_answer \<equiv> (\<lambda>_ _. None)"

text \<open>The bytes of an \<open>int\<close>, least significant first.\<close>

definition int_image :: "int \<Rightarrow> u8 list" where
  "int_image i = map (\<lambda>k. word_of_int (i div 256 ^ k)) [0..<4]"

section \<open>Calls\<close>

definition RequestHangup :: "te_env \<Rightarrow> request_handler" where
  "RequestHangup env rilToken pdata datalen te =
     after_ok forbid_dtmf
       (std_request env RIL_REQUEST_HANGUP ''CoreHangup'' (Some ''ParseHangup'')
          (Some ''PostHangupCmdHandler'') SetHighPriority True rilToken pdata datalen te)"

definition RequestHangupForegroundResumeBackground :: "te_env \<Rightarrow> request_handler" where
  "RequestHangupForegroundResumeBackground env rilToken pdata datalen te =
     after_ok forbid_dtmf
       (std_request env RIL_REQUEST_HANGUP_FOREGROUND_RESUME_BACKGROUND
          ''CoreHangupForegroundResumeBackground'' (Some ''ParseHangupForegroundResumeBackground'')
          (Some ''PostHangupCmdHandler'') SetHighPriority True rilToken pdata datalen te)"

definition RequestSwitchHoldingAndActive :: "te_env \<Rightarrow> request_handler" where
  "RequestSwitchHoldingAndActive env rilToken pdata datalen te =
     after_ok forbid_dtmf
       (std_request env RIL_REQUEST_SWITCH_WAITING_OR_HOLDING_AND_ACTIVE ''CoreSwitchHoldingAndActive''
          (Some ''ParseSwitchHoldingAndActive'') (Some ''PostSwitchHoldingAndActiveCmdHandler'')
          SetHighPriority False rilToken pdata datalen te)"

definition RequestConference :: "te_env \<Rightarrow> request_handler" where
  "RequestConference env rilToken pdata datalen te =
     after_ok forbid_dtmf
       (std_request env RIL_REQUEST_CONFERENCE ''CoreConference'' (Some ''ParseConference'')
          (Some ''PostConferenceCmdHandler'') SetHighPriority False rilToken pdata datalen te)"

definition RequestSeparateConnection :: "te_env \<Rightarrow> request_handler" where
  "RequestSeparateConnection env rilToken pdata datalen te =
     after_ok forbid_dtmf
       (std_request env RIL_REQUEST_SEPARATE_CONNECTION ''CoreSeparateConnection''
          (Some ''ParseSeparateConnection'') None SetHighPriority False rilToken pdata datalen te)"

text \<open>The command has no token: the request is answered when it is queued.\<close>

definition RequestDtmfStart :: "te_env \<Rightarrow> request_handler" where
  "RequestDtmfStart env rilToken pdata datalen te =
     (case Core env ''CoreDtmfStart'' pdata datalen te of
        None \<Rightarrow> None
      | Some (res, reqData, te) \<Rightarrow>
          if res \<noteq> RRIL_RESULT_OK then Some (res, te)
          else after_ok (RIL_onRequestComplete rilToken RIL_E_SUCCESS None)
                 (queue_command env
                    (SetCallId (GetCurrentCallId (m_VoiceCallInfo (m_pTEBase te)))
                       (request_command env RIL_REQUEST_DTMF_START (request_channel RIL_REQUEST_DTMF_START)
                          None reqData (Some ''ParseDtmfStart'') (Some ''PostDtmfStart'') te)) False te))"

definition RequestDtmfStop :: "te_env \<Rightarrow> request_handler" where
  "RequestDtmfStop env rilToken pdata datalen te =
     (case Core env ''CoreDtmfStop'' pdata datalen te of
        None \<Rightarrow> None
      | Some (res, reqData, te) \<Rightarrow>
          if res \<noteq> RRIL_RESULT_OK then Some (res, te)
          else after_ok (RIL_onRequestComplete rilToken RIL_E_SUCCESS None)
                 (queue_command env
                    (SetCallId (GetCurrentCallId (m_VoiceCallInfo (m_pTEBase te)))
                       (request_command env RIL_REQUEST_DTMF_STOP (request_channel RIL_REQUEST_DTMF_STOP)
                          None reqData (Some ''ParseDtmfStop'') (Some ''PostDtmfStop'') te)) False te))"

section \<open>Network\<close>

definition RequestRegistrationState :: "te_env \<Rightarrow> request_handler" where
  "RequestRegistrationState env rilToken pdata datalen te =
     (if m_bCSStatusCached te \<and> m_enableLocationUpdates te = 0 then
        Some (RRIL_RESULT_OK, RIL_onRequestComplete rilToken RIL_E_SUCCESS
          (Some (registration_image env False te)) te)
      else
        std_request env RIL_REQUEST_VOICE_REGISTRATION_STATE ''CoreRegistrationState''
          (Some ''ParseRegistrationState'') (Some ''PostNetworkInfoCmdHandler'') id False
          rilToken pdata datalen te)"

definition RequestGPRSRegistrationState :: "te_env \<Rightarrow> request_handler" where
  "RequestGPRSRegistrationState env rilToken pdata datalen te =
     (if m_bPSStatusCached te \<and> m_enableLocationUpdates te = 0 then
        Some (RRIL_RESULT_OK, RIL_onRequestComplete rilToken RIL_E_SUCCESS
          (Some (registration_image env True te)) te)
      else
        (case Core env ''CoreGPRSRegistrationState'' pdata datalen te of
           None \<Rightarrow> None
         | Some (res, reqData, te) \<Rightarrow>
             if res = RRIL_RESULT_OK_IMMEDIATE then
               Some (res, RIL_onRequestComplete rilToken RIL_E_SUCCESS None te)
             else if res \<noteq> RRIL_RESULT_OK then Some (res, te)
             else queue_command env
                    (request_command env RIL_REQUEST_DATA_REGISTRATION_STATE
                       (request_channel RIL_REQUEST_DATA_REGISTRATION_STATE) rilToken reqData
                       (Some ''ParseGPRSRegistrationState'') (Some ''PostNetworkInfoCmdHandler'') te)
                    False te))"

text \<open>
  \<open>CTEBase::RestoreSavedNetworkSelectionMode\<close> builds its own AT command, without the data of a
  request; without a saved mode it does nothing and reports success. An operator number that
  does not fit the buffer of 1024 characters is an error.
\<close>

definition restore_command :: "bool \<Rightarrow> te_base \<Rightarrow> (int \<times> string option) option" where
  "restore_command voice b =
     (if m_SelectionMode b = E_NETWORK_SELECTION_MODE_AUTOMATIC then
        Some (RIL_REQUEST_SET_NETWORK_SELECTION_AUTOMATIC,
          Some ((if voice then ''AT+COPS=0'' else ''AT+CGATT=1'') @ [CR]))
      else if m_SelectionMode b = E_NETWORK_SELECTION_MODE_MANUAL \<and> length (m_szOperatorNumeric b) > 0 then
        (let cmd = ''AT+COPS=1,2,'' @ [QUOTE] @ m_szOperatorNumeric b @ [QUOTE, CR] in
         Some (RIL_REQUEST_SET_NETWORK_SELECTION_MANUAL, if length cmd < 1024 then Some cmd else None))
      else None)"

definition RestoreSavedNetworkSelectionMode ::
    "te_env \<Rightarrow> RIL_Token \<Rightarrow> nat \<Rightarrow> string option \<Rightarrow> string option \<Rightarrow> te \<Rightarrow> (result_code \<times> te) option" where
  "RestoreSavedNetworkSelectionMode env rilToken chnl pParseFcn pHandlerFcn te =
     (case restore_command (m_bVoiceCapable te) (m_pTEBase te) of
        None \<Rightarrow> Some (RRIL_RESULT_OK, te)
      | Some (requestId, None) \<Rightarrow> Some (RRIL_RESULT_ERROR, te)
      | Some (requestId, Some szCmd) \<Rightarrow>
          queue_command env
            (SetHighPriority (CCommand_one (te_config env) (next_cmd te) chnl rilToken requestId
               (Some szCmd) pParseFcn pHandlerFcn)) False te)"

definition finish_immediate :: "RIL_Token \<Rightarrow> (result_code \<times> te) option \<Rightarrow> (result_code \<times> te) option" where
  "finish_immediate rilToken r =
     map_option (\<lambda>(res, te). if res = RRIL_RESULT_OK_IMMEDIATE
         then (RRIL_RESULT_OK, RIL_onRequestComplete rilToken RIL_E_SUCCESS None te) else (res, te)) r"

definition RequestSetNetworkSelectionAutomatic :: "te_env \<Rightarrow> request_handler" where
  "RequestSetNetworkSelectionAutomatic env rilToken pdata datalen te =
     (if config_att te \<and> m_SelectionMode (m_pTEBase te) = E_NETWORK_SELECTION_MODE_AUTOMATIC then
        Some (RRIL_RESULT_OK, RIL_onRequestComplete rilToken RIL_E_SUCCESS None te)
      else
        (case Core env ''CoreSetNetworkSelectionAutomatic'' pdata datalen te of
           None \<Rightarrow> None
         | Some (res, _, te) \<Rightarrow>
             finish_immediate rilToken
               (if res = RRIL_RESULT_OK then
                  RestoreSavedNetworkSelectionMode env rilToken
                    (request_channel RIL_REQUEST_SET_NETWORK_SELECTION_AUTOMATIC)
                    (Some ''ParseSetNetworkSelectionAutomatic'')
                    (Some ''PostSetNetworkSelectionCmdHandler'') te
                else Some (res, te))))"

definition RequestSetNetworkSelectionManual :: "te_env \<Rightarrow> request_handler" where
  "RequestSetNetworkSelectionManual env rilToken pdata datalen te =
     (case Core env ''CoreSetNetworkSelectionManual'' pdata datalen te of
        None \<Rightarrow> None
      | Some (res, _, te) \<Rightarrow>
          finish_immediate rilToken
            (if res = RRIL_RESULT_OK then
               RestoreSavedNetworkSelectionMode env rilToken
                 (request_channel RIL_REQUEST_SET_NETWORK_SELECTION_MANUAL)
                 (Some ''ParseSetNetworkSelectionManual'')
                 (Some ''PostSetNetworkSelectionCmdHandler'') te
             else Some (res, te)))"

definition RequestQueryAvailableNetworks :: "te_env \<Rightarrow> request_handler" where
  "RequestQueryAvailableNetworks env rilToken pdata datalen te =
     (if m_bIsSetupDataCallOngoing te then
        Some (RRIL_RESULT_OK, RIL_requestTimedCallback ''triggerManualNetworkSearch'' rilToken 1 0 te)
      else
        map_option (\<lambda>(res, te). (res, te\<lparr> m_bIsManualNetworkSearchOn := (res = RRIL_RESULT_OK) \<rparr>))
          (std_request env RIL_REQUEST_QUERY_AVAILABLE_NETWORKS ''CoreQueryAvailableNetworks''
             (Some ''ParseQueryAvailableNetworks'') (Some ''PostQueryAvailableNetworksCmdHandler'')
             SetHighPriority False rilToken pdata datalen te))"

definition RequestSetPreferredNetworkType :: "te_env \<Rightarrow> request_handler" where
  "RequestSetPreferredNetworkType env =
     immediate_request env RIL_REQUEST_SET_PREFERRED_NETWORK_TYPE ''CoreSetPreferredNetworkType''
       (Some ''ParseSetPreferredNetworkType'') None id no_answer"

definition RequestSetLocationUpdates :: "te_env \<Rightarrow> request_handler" where
  "RequestSetLocationUpdates env rilToken pdata datalen te =
     (case pdata of
        NULL_DATA \<Rightarrow> Some (RRIL_RESULT_ERROR, te)
      | Ints (enableLocationUpdates # _) \<Rightarrow>
          after_ok (\<lambda>te. te\<lparr> m_enableLocationUpdates := enableLocationUpdates \<rparr>)
            (std_request env RIL_REQUEST_SET_LOCATION_UPDATES ''CoreSetLocationUpdates''
               (Some ''ParseSetLocationUpdates'') (Some ''PostSetLocationUpdates'') id False
               rilToken pdata datalen te)
      | _ \<Rightarrow> None)"

definition RequestVoiceRadioTech :: "te_env \<Rightarrow> request_handler" where
  "RequestVoiceRadioTech env rilToken pdata datalen te =
     (if GetRadioState te \<noteq> RADIO_STATE_ON then Some (RIL_E_RADIO_NOT_AVAILABLE, te)
      else Some (RRIL_RESULT_OK, RIL_onRequestComplete rilToken RIL_E_SUCCESS (Some (int_image 16)) te))"

definition RequestGetCellInfoList :: "te_env \<Rightarrow> request_handler" where
  "RequestGetCellInfoList env =
     immediate_request env RIL_REQUEST_GET_CELL_INFO_LIST ''CoreGetCellInfoList''
       (Some ''ParseGetCellInfoList'') (Some ''PostGetCellInfoList'') id
       (\<lambda>_ te. Some (cell_info_image env te))"

definition RequestSetCellInfoListRate :: "te_env \<Rightarrow> request_handler" where
  "RequestSetCellInfoListRate env rilToken pdata datalen te =
     map_option (\<lambda>(res, _, te). (res,
         if res = RRIL_RESULT_OK then RIL_onRequestComplete rilToken RRIL_RESULT_OK None te else te))
       (Core env ''CoreSetCellInfoListRate'' pdata datalen te)"

section \<open>Radio power\<close>

text \<open>\<open>property_get (name, buffer, default)\<close>: an unset or empty property has the default.\<close>

definition property_or :: "te_env \<Rightarrow> string \<Rightarrow> string \<Rightarrow> string" where
  "property_or env name dflt =
     (case property_get env name of None \<Rightarrow> dflt | Some v \<Rightarrow> if v = [] then dflt else v)"

definition IsPlatformShutDownRequested :: "te_env \<Rightarrow> te \<Rightarrow> bool \<times> te" where
  "IsPlatformShutDownRequested env te =
     (if s_bIsShutDownRequested te then (True, te)
      else
        (let v = property_or env ''sys.shutdown.requested'' [];
             shut = (v \<noteq> [] \<and> (hd v = CHR ''0'' \<or> hd v = CHR ''1'')) \<or>
               m_RadioOffReason te = E_RADIO_OFF_REASON_SHUTDOWN
         in (shut, te\<lparr> s_bIsShutDownRequested := shut \<rparr>)))"

definition radio_power_done :: "te_env \<Rightarrow> RIL_Token \<Rightarrow> result_code \<Rightarrow> te \<Rightarrow> result_code \<times> te" where
  "radio_power_done env rilToken res te =
     (let te = (if res = RRIL_RESULT_OK then te_unsolicited 1023 (Some (int_image 0)) te
                else
                  (let te = RIL_requestTimedCallback ''triggerRadioOffInd'' None 1 0
                              (SetRadioStateAndNotify RADIO_STATE_UNAVAILABLE te)
                   in if m_bRestrictedMode te
                      then te_unsolicited 1023 (Some (int_image (RIL_RESTRICTED_STATE_CS_PS_ALL env))) te
                      else te))
      in (RRIL_RESULT_OK,
          RIL_onRequestComplete rilToken RRIL_RESULT_OK None (te\<lparr> m_bRadioRequestPending := False \<rparr>)))"

definition RequestRadioPower :: "te_env \<Rightarrow> request_handler" where
  "RequestRadioPower env rilToken pdata datalen te =
     (case pdata of
        NULL_DATA \<Rightarrow> Some (radio_power_done env rilToken RRIL_RESULT_OK te)
      | Ints (i # _) \<Rightarrow>
          (let bTurnRadioOn = (i \<noteq> 0);
               te = (if bTurnRadioOn then te\<lparr> m_RadioOffReason := E_RADIO_OFF_REASON_NONE \<rparr>
                     else
                       (case IsPlatformShutDownRequested env te of
                          (True, te) \<Rightarrow> te\<lparr> m_RadioOffReason := E_RADIO_OFF_REASON_SHUTDOWN \<rparr>
                        | (False, te) \<Rightarrow> te))
           in if take 5 (property_or env ''gsm.radioreset'' ''false'') \<noteq> ''false'' \<and> \<not> bTurnRadioOn then
                Some (radio_power_done env rilToken RRIL_RESULT_OK (DO_REQUEST_CLEAN_UP te))
              else
                map_option (\<lambda>(res, _, te). radio_power_done env rilToken res te)
                  (Core env ''CoreRadioPower'' pdata datalen
                     (te\<lparr> m_bRadioRequestPending := True,
                        m_RequestedRadioPower := (if bTurnRadioOn then 1 else 0) \<rparr>)))
      | _ \<Rightarrow> None)"

definition RequestShutdown :: "te_env \<Rightarrow> request_handler" where
  "RequestShutdown env rilToken pdata datalen te =
     map_option (\<lambda>(_, _, te). (RRIL_RESULT_OK, RIL_onRequestComplete rilToken RRIL_RESULT_OK None te))
       (Core env ''CoreShutdown'' pdata datalen (te\<lparr> m_RadioOffReason := E_RADIO_OFF_REASON_SHUTDOWN \<rparr>))"

definition RequestScreenState :: "te_env \<Rightarrow> request_handler" where
  "RequestScreenState env rilToken pdata datalen te =
     (let finish = (\<lambda>te. (RRIL_RESULT_OK, RIL_onRequestComplete rilToken RRIL_RESULT_OK None te)) in
      case pdata of
        NULL_DATA \<Rightarrow> Some (finish te)
      | Ints (i # _) \<Rightarrow>
          if i \<noteq> 0 \<and> i \<noteq> 1 then Some (finish te)
          else
            (let te = te\<lparr> m_ScreenState := i \<rparr> in
             if m_LastModemEvent te = E_MMGR_EVENT_MODEM_UP then
               map_option (\<lambda>(_, _, te). finish te) (Core env ''CoreScreenState'' pdata datalen te)
             else Some (finish te))
      | _ \<Rightarrow> None)"

section \<open>Data calls\<close>

definition IsSetupDataCallAllowed :: "te \<Rightarrow> bool \<times> int" where
  "IsSetupDataCallAllowed te =
     (if m_bIsManualNetworkSearchOn te then (False, 10000)
      else if m_bIsDataSuspended te then (False, 3000)
      else (True, - 1))"

definition IsPdpTypeCompatible :: "string \<Rightarrow> string \<Rightarrow> bool" where
  "IsPdpTypeCompatible pszPdpType1 pszPdpType2 \<longleftrightarrow>
     pszPdpType1 = ''IPV4V6'' \<or> pszPdpType2 = ''IPV4V6'' \<or> pszPdpType1 = pszPdpType2"

definition HandleSetupDataCallSuccess :: "te_env \<Rightarrow> u32 \<Rightarrow> RIL_Token \<Rightarrow> te \<Rightarrow> te" where
  "HandleSetupDataCallSuccess env uiCID rilToken te =
     (let te = te\<lparr> m_bIsSetupDataCallOngoing := False \<rparr> in
      if rilToken \<noteq> None then
        RIL_onRequestComplete rilToken RIL_E_SUCCESS
          (Some (case GetChnlFromContextID uiCID (data_calls te) of
                   None \<Rightarrow> data_call_image env PDP_FAIL_ERROR_UNSPECIFIED (- 1)
                 | Some _ \<Rightarrow> active_call_image env uiCID te)) te
      else te)"

definition setup_error :: "te_env \<Rightarrow> nat option \<Rightarrow> te \<Rightarrow> te" where
  "setup_error env pChannelData te =
     (let te = te\<lparr> m_bIsSetupDataCallOngoing := False \<rparr> in
      case pChannelData of
        None \<Rightarrow> te
      | Some k \<Rightarrow> te\<lparr> data_calls := ResetDataCallInfo (te_data_config env) k (data_calls te) \<rparr>)"

text \<open>
  The attempt to share the default connection: the request is done, or goes on to a connection
  of its own (\<open>Inr\<close>).
\<close>

definition share_default_pdn ::
    "te_env \<Rightarrow> RIL_Token \<Rightarrow> string option \<Rightarrow> string option \<Rightarrow> te
      \<Rightarrow> ((result_code \<times> te) + te) option" where
  "share_default_pdn env rilToken apn pszReqPdpType te =
     (case GetChnlFromContextID (m_uiDefaultPDNCid te) (data_calls te) of
        None \<Rightarrow> Some (Inr te)
      | Some k \<Rightarrow>
          (let d = the (channels (data_calls te) ! k);
               szDefaultPdpType = the (GetPdpType MAX_PDP_TYPE_SIZE d)
           in if m_dataState d = E_DATA_STATE_ACTIVE \<and> IsApnEqual apn d \<and> pszReqPdpType \<noteq> None \<and>
                 IsPdpTypeCompatible szDefaultPdpType (the pszReqPdpType)
              then
                (if m_isRoutingEnabled d \<and> m_refCount d > 0 then
                   Some (Inl (RRIL_RESULT_OK,
                     HandleSetupDataCallSuccess env (m_uiDefaultPDNCid te) rilToken
                       (te\<lparr> data_calls := set_channel k (IncrementRefCount d) (data_calls te) \<rparr>)))
                 else
                   map_option (\<lambda>(res, te). if res = RRIL_RESULT_OK then Inl (res, te) else Inr te)
                     (HandleSetupDefaultPDN env rilToken k te))
              else Some (Inr te)))"

definition setup_new_call :: "te_env \<Rightarrow> request_handler" where
  "setup_new_call env rilToken pdata datalen te =
     (case CoreRef env ''CoreSetupDataCall'' pdata datalen 0 te of
        None \<Rightarrow> None
      | Some (res, reqData, uiCID, te) \<Rightarrow>
          if res \<noteq> RRIL_RESULT_OK then Some (res, setup_error env None te)
          else
            (case GetChnlFromContextID uiCID (data_calls te) of
               None \<Rightarrow> Some (res, te\<lparr> m_bIsSetupDataCallOngoing := True \<rparr>)
             | Some k \<Rightarrow>
                 map_option (\<lambda>(res, te). (res, if res \<noteq> RRIL_RESULT_OK then setup_error env (Some k) te
                                                  else te\<lparr> m_bIsSetupDataCallOngoing := True \<rparr>))
                   (queue_command env
                      (request_command env RIL_REQUEST_SETUP_DATA_CALL
                         (ril_channel (the (channels (data_calls te) ! k))) rilToken reqData
                         (Some ''ParseSetupDataCall'') (Some ''PostSetupDataCallCmdHandler'') te) False te)))"

definition RequestSetupDataCall :: "te_env \<Rightarrow> request_handler" where
  "RequestSetupDataCall env rilToken pdata datalen te =
     (case pdata of
        NULL_DATA \<Rightarrow> Some (RRIL_RESULT_ERROR, setup_error env None te)
      | Strings args \<Rightarrow>
          if datalen < 6 * 4 then Some (RRIL_RESULT_ERROR, setup_error env None te)
          else if RIL_VERSION env \<ge> 6 \<and> length args \<le> 6 then None
          else
            (let pszReqPdpType = (if RIL_VERSION env \<ge> 6 then args ! 6 else None);
                 (bAllowed, retryTime) = IsSetupDataCallAllowed te
             in if \<not> bAllowed then
                  Some (RRIL_RESULT_OK, RIL_onRequestComplete rilToken RIL_E_SUCCESS
                    (Some (data_call_image env PDP_FAIL_ERROR_UNSPECIFIED retryTime)) te)
                else if length args \<le> 2 then None
                else
                  (case share_default_pdn env rilToken (args ! 2) pszReqPdpType te of
                     None \<Rightarrow> None
                   | Some (Inl r) \<Rightarrow> Some r
                   | Some (Inr te) \<Rightarrow> setup_new_call env rilToken pdata datalen te))
      | _ \<Rightarrow> None)"

definition RequestDeactivateDataCall :: "te_env \<Rightarrow> request_handler" where
  "RequestDeactivateDataCall env rilToken pdata datalen te =
     (if m_bIsManualNetworkSearchOn te then
        Some (RRIL_RESULT_OK, RIL_onRequestComplete rilToken RIL_E_SUCCESS None te)
      else
        immediate_request env RIL_REQUEST_DEACTIVATE_DATA_CALL ''CoreDeactivateDataCall''
          (Some ''ParseDeactivateDataCall'') (Some ''PostDeactivateDataCallCmdHandler'')
          SetHighPriority no_answer rilToken pdata datalen te)"

definition RequestDataCallList :: "te_env \<Rightarrow> request_handler" where
  "RequestDataCallList env rilToken pdata datalen te =
     Some (RRIL_RESULT_OK, RIL_onRequestComplete rilToken RIL_E_SUCCESS (call_list_image env te) te)"

definition RequestSetInitialAttachApn :: "te_env \<Rightarrow> request_handler" where
  "RequestSetInitialAttachApn env =
     immediate_request env RIL_REQUEST_SET_INITIAL_ATTACH_APN ''CoreSetInitialAttachApn''
       (Some ''ParseSetInitialAttachApn'') (Some ''PostSetInitialAttachApnCmdHandler'')
       SetHighPriority no_answer"

definition RequestSetDataProfile :: "te_env \<Rightarrow> request_handler" where
  "RequestSetDataProfile env rilToken pdata datalen te =
     map_option (\<lambda>(_, _, te). (RRIL_RESULT_OK, RIL_onRequestComplete rilToken RRIL_RESULT_OK None te))
       (Core env ''CoreSetDataProfile'' pdata datalen te)"

section \<open>SIM, SMS and vendor requests\<close>

definition RequestSimIo :: "te_env \<Rightarrow> request_handler" where
  "RequestSimIo env =
     std_request env RIL_REQUEST_SIM_IO ''CoreSimIo'' (Some ''ParseSimIo'')
       (Some ''PostSimIOCmdHandler'') id False"

definition RequestSetFacilityLock :: "te_env \<Rightarrow> request_handler" where
  "RequestSetFacilityLock env =
     std_request env RIL_REQUEST_SET_FACILITY_LOCK ''CoreSetFacilityLock'' (Some ''ParseSetFacilityLock'')
       (Some ''PostSetFacilityLockCmdHandler'') SetHighPriority False"

definition RequestSimAuthentication :: "te_env \<Rightarrow> request_handler" where
  "RequestSimAuthentication env =
     std_request env RIL_REQUEST_SIM_AUTHENTICATION ''CoreSimAuthentication''
       (Some ''ParseSimAuthentication'') (Some ''PostSimAuthentication'') id False"

definition RequestReportStkServiceRunning :: "te_env \<Rightarrow> request_handler" where
  "RequestReportStkServiceRunning env =
     immediate_request env RIL_REQUEST_REPORT_STK_SERVICE_IS_RUNNING ''CoreReportStkServiceRunning''
       (Some ''ParseReportStkServiceRunning'') None SetAlwaysParse no_answer"

definition RequestGsmSetBroadcastSmsConfig :: "te_env \<Rightarrow> request_handler" where
  "RequestGsmSetBroadcastSmsConfig env =
     immediate_request env RIL_REQUEST_GSM_SET_BROADCAST_SMS_CONFIG ''CoreGsmSetBroadcastSmsConfig''
       (Some ''ParseGsmSetBroadcastSmsConfig'') None id no_answer"

definition RequestGsmSmsBroadcastActivation :: "te_env \<Rightarrow> request_handler" where
  "RequestGsmSmsBroadcastActivation env rilToken pdata datalen te =
     (if datalen \<noteq> 4 then Some (RRIL_RESULT_ERROR, te)
      else
        (case pdata of
           NULL_DATA \<Rightarrow> Some (RRIL_RESULT_ERROR, te)
         | Ints (activate # _) \<Rightarrow>
             if activate \<noteq> 0 \<and> activate \<noteq> 1 then Some (RRIL_RESULT_ERROR, te)
             else
               (let te = te\<lparr> m_CbsActivate := activate \<rparr>;
                    te = (if GetSimAppState te = RIL_APPSTATE_READY \<and> \<not> m_bCbsActivationTimerRunning te
                          then RIL_requestTimedCallback ''triggerCellBroadcastActivation'' None 0 100000
                                 (te\<lparr> m_bCbsActivationTimerRunning := True \<rparr>)
                          else te)
                in Some (RRIL_RESULT_OK, RIL_onRequestComplete rilToken RRIL_RESULT_OK None te))
         | _ \<Rightarrow> None))"

definition RequestHookRaw :: "te_env \<Rightarrow> request_handler" where
  "RequestHookRaw env rilToken pdata datalen te =
     (case CoreRef env ''CoreHookRaw'' pdata datalen (of_nat (request_channel RIL_REQUEST_OEM_HOOK_RAW)) te of
        None \<Rightarrow> None
      | Some (res, reqData, uiRilChannel, te) \<Rightarrow>
          if res \<noteq> RRIL_RESULT_OK then Some (res, te)
          else queue_command env
                 (request_command env RIL_REQUEST_OEM_HOOK_RAW (unat uiRilChannel) rilToken reqData
                    (Some ''ParseHookRaw'') None te) False te)"

definition RequestHookStrings :: "te_env \<Rightarrow> request_handler" where
  "RequestHookStrings env rilToken pdata datalen te =
     (case CoreRef env ''CoreHookStrings'' pdata datalen
             (of_nat (request_channel RIL_REQUEST_OEM_HOOK_STRINGS)) te of
        None \<Rightarrow> None
      | Some (res, reqData, uiRilChannel, te) \<Rightarrow>
          if res = RRIL_RESULT_OK_IMMEDIATE then
            Some (RRIL_RESULT_OK, RIL_onRequestComplete rilToken RRIL_RESULT_OK
              (REQUEST_DATA.pContextData2 reqData) te)
          else if res \<noteq> RRIL_RESULT_OK then Some (res, te)
          else queue_command env
                 (request_command env RIL_REQUEST_OEM_HOOK_STRINGS (unat uiRilChannel) rilToken reqData
                    (Some ''ParseHookStrings'') (Some ''PostHookStrings'') te) False te)"

end
