(* ===== verification/TeDispatch.thy ===== *)
theory TeDispatch
  imports TeSpecial
begin

text \<open>
  The entry points of \<open>CTE\<close> (\<open>CORE/ND/te.cpp\<close>): \<open>HandleRequest\<close> takes a request of the framework,
  \<open>IsRequestAllowed\<close> decides about a queued command when its turn comes. Every request must be
  answered exactly once: the contract \<open>handled\<close> of the handlers, and what it gives for
  \<open>HandleRequest\<close>.
\<close>

section \<open>Requests\<close>

definition not_supported :: request_handler where
  "not_supported rilToken pdata datalen te =
     Some (RIL_E_SUCCESS, RIL_onRequestComplete rilToken RIL_E_REQUEST_NOT_SUPPORTED None te)"

definition if_cell_info :: "request_handler \<Rightarrow> request_handler" where
  "if_cell_info h rilToken pdata datalen te =
     (if m_bCellInfoEnabled te then h rilToken pdata datalen te
      else not_supported rilToken pdata datalen te)"

definition DelaySetPrefNetTypeRequest :: "te_env \<Rightarrow> request_data \<Rightarrow> nat \<Rightarrow> RIL_Token \<Rightarrow> te \<Rightarrow> (result_code \<times> te) option" where
  "DelaySetPrefNetTypeRequest env pdata datalen hRilToken te =
     (case pdata of
        NULL_DATA \<Rightarrow> Some (RIL_E_GENERIC_FAILURE, te)
      | Ints (typ # _) \<Rightarrow>
          if datalen = 4 \<and> m_pPrefNetTypeReqInfo te = None \<and> memory (te_config env)
          then Some (RIL_E_SUCCESS, te\<lparr> m_pPrefNetTypeReqInfo := Some (hRilToken, typ, datalen) \<rparr>)
          else Some (RIL_E_GENERIC_FAILURE, te)
      | _ \<Rightarrow> None)"

definition set_preferred_network_type :: "te_env \<Rightarrow> request_handler" where
  "set_preferred_network_type env hRilToken pdata datalen te =
     (if GetRadioState te = RADIO_STATE_OFF then DelaySetPrefNetTypeRequest env pdata datalen hRilToken te
      else RequestSetPreferredNetworkType env hRilToken pdata datalen te)"

text \<open>The request saved while the radio was off is handled when it is on.\<close>

definition SendSetPrefNetTypeRequest :: "te_env \<Rightarrow> te \<Rightarrow> te option" where
  "SendSetPrefNetTypeRequest env te =
     (case m_pPrefNetTypeReqInfo te of
        None \<Rightarrow> Some (RIL_onRequestComplete None RIL_E_GENERIC_FAILURE None te)
      | Some (rilToken, typ, datalen) \<Rightarrow>
          (case RequestSetPreferredNetworkType env rilToken (Ints [typ]) datalen te of
             None \<Rightarrow> None
           | Some (res, te) \<Rightarrow>
               (let te = te\<lparr> m_pPrefNetTypeReqInfo := None \<rparr> in
                Some (if res \<noteq> RIL_E_SUCCESS then RIL_onRequestComplete rilToken res None te else te))))"

text \<open>The cases of the switch.\<close>

definition handlers_1 :: "te_env \<Rightarrow> (int \<times> request_handler) list" where
  "handlers_1 env =
     [(RIL_REQUEST_GET_SIM_STATUS, RequestGetSimStatus env),
      (RIL_REQUEST_ENTER_SIM_PIN, RequestEnterSimPin env),
      (RIL_REQUEST_ENTER_SIM_PUK, RequestEnterSimPuk env),
      (RIL_REQUEST_ENTER_SIM_PIN2, RequestEnterSimPin2 env),
      (RIL_REQUEST_ENTER_SIM_PUK2, RequestEnterSimPuk2 env),
      (RIL_REQUEST_CHANGE_SIM_PIN, RequestChangeSimPin env),
      (RIL_REQUEST_CHANGE_SIM_PIN2, RequestChangeSimPin2 env),
      (RIL_REQUEST_ENTER_NETWORK_DEPERSONALIZATION, RequestEnterNetworkDepersonalization env),
      (RIL_REQUEST_GET_CURRENT_CALLS, RequestGetCurrentCalls env),
      (RIL_REQUEST_DIAL, RequestDial env),
      (RIL_REQUEST_GET_IMSI, RequestGetImsi env),
      (RIL_REQUEST_HANGUP, RequestHangup env),
      (RIL_REQUEST_HANGUP_WAITING_OR_BACKGROUND, RequestHangupWaitingOrBackground env),
      (RIL_REQUEST_HANGUP_FOREGROUND_RESUME_BACKGROUND, RequestHangupForegroundResumeBackground env),
      (RIL_REQUEST_SWITCH_HOLDING_AND_ACTIVE, RequestSwitchHoldingAndActive env),
      (RIL_REQUEST_CONFERENCE, RequestConference env),
      (RIL_REQUEST_UDUB, RequestUdub env),
      (RIL_REQUEST_LAST_CALL_FAIL_CAUSE, RequestLastCallFailCause env),
      (RIL_REQUEST_SIGNAL_STRENGTH, RequestSignalStrength env),
      (RIL_REQUEST_VOICE_REGISTRATION_STATE, RequestRegistrationState env),
      (RIL_REQUEST_DATA_REGISTRATION_STATE, RequestGPRSRegistrationState env),
      (RIL_REQUEST_OPERATOR, RequestOperator env),
      (RIL_REQUEST_RADIO_POWER, RequestRadioPower env),
      (RIL_REQUEST_DTMF, RequestDtmf env),
      (RIL_REQUEST_SEND_SMS, RequestSendSms env),
      (RIL_REQUEST_SEND_SMS_EXPECT_MORE, RequestSendSmsExpectMore env),
      (RIL_REQUEST_SETUP_DATA_CALL, RequestSetupDataCall env),
      (RIL_REQUEST_SIM_IO, RequestSimIo env),
      (RIL_REQUEST_SEND_USSD, RequestSendUssd env),
      (RIL_REQUEST_CANCEL_USSD, RequestCancelUssd env),
      (RIL_REQUEST_GET_CLIR, RequestGetClir env),
      (RIL_REQUEST_SET_CLIR, RequestSetClir env)]"

definition handlers_2 :: "te_env \<Rightarrow> (int \<times> request_handler) list" where
  "handlers_2 env =
     [(RIL_REQUEST_QUERY_CALL_FORWARD_STATUS, RequestQueryCallForwardStatus env),
      (RIL_REQUEST_SET_CALL_FORWARD, RequestSetCallForward env),
      (RIL_REQUEST_QUERY_CALL_WAITING, RequestQueryCallWaiting env),
      (RIL_REQUEST_SET_CALL_WAITING, RequestSetCallWaiting env),
      (RIL_REQUEST_SMS_ACKNOWLEDGE, RequestSmsAcknowledge env),
      (RIL_REQUEST_GET_IMEI, RequestGetImei env),
      (RIL_REQUEST_GET_IMEISV, RequestGetImeisv env),
      (RIL_REQUEST_ANSWER, RequestAnswer env),
      (RIL_REQUEST_DEACTIVATE_DATA_CALL, RequestDeactivateDataCall env),
      (RIL_REQUEST_QUERY_FACILITY_LOCK, RequestQueryFacilityLock env),
      (RIL_REQUEST_SET_FACILITY_LOCK, RequestSetFacilityLock env),
      (RIL_REQUEST_CHANGE_BARRING_PASSWORD, RequestChangeBarringPassword env),
      (RIL_REQUEST_QUERY_NETWORK_SELECTION_MODE, RequestQueryNetworkSelectionMode env),
      (RIL_REQUEST_SET_NETWORK_SELECTION_AUTOMATIC, RequestSetNetworkSelectionAutomatic env),
      (RIL_REQUEST_SET_NETWORK_SELECTION_MANUAL, RequestSetNetworkSelectionManual env),
      (RIL_REQUEST_QUERY_AVAILABLE_NETWORKS, RequestQueryAvailableNetworks env),
      (RIL_REQUEST_DTMF_START, RequestDtmfStart env),
      (RIL_REQUEST_DTMF_STOP, RequestDtmfStop env),
      (RIL_REQUEST_BASEBAND_VERSION, RequestBasebandVersion env),
      (RIL_REQUEST_SEPARATE_CONNECTION, RequestSeparateConnection env),
      (RIL_REQUEST_SET_MUTE, RequestSetMute env),
      (RIL_REQUEST_GET_MUTE, RequestGetMute env),
      (RIL_REQUEST_QUERY_CLIP, RequestQueryClip env),
      (RIL_REQUEST_LAST_DATA_CALL_FAIL_CAUSE, RequestLastDataCallFailCause env),
      (RIL_REQUEST_DATA_CALL_LIST, RequestDataCallList env),
      (RIL_REQUEST_RESET_RADIO, RequestResetRadio env),
      (RIL_REQUEST_OEM_HOOK_RAW, RequestHookRaw env),
      (RIL_REQUEST_OEM_HOOK_STRINGS, RequestHookStrings env),
      (RIL_REQUEST_SCREEN_STATE, RequestScreenState env),
      (RIL_REQUEST_SET_SUPP_SVC_NOTIFICATION, RequestSetSuppSvcNotification env),
      (RIL_REQUEST_WRITE_SMS_TO_SIM, RequestWriteSmsToSim env),
      (RIL_REQUEST_DELETE_SMS_ON_SIM, RequestDeleteSmsOnSim env)]"

definition handlers_3 :: "te_env \<Rightarrow> (int \<times> request_handler) list" where
  "handlers_3 env =
     [(RIL_REQUEST_SET_BAND_MODE, RequestSetBandMode env),
      (RIL_REQUEST_QUERY_AVAILABLE_BAND_MODE, RequestQueryAvailableBandMode env),
      (RIL_REQUEST_STK_GET_PROFILE, RequestStkGetProfile env),
      (RIL_REQUEST_STK_SET_PROFILE, RequestStkSetProfile env),
      (RIL_REQUEST_STK_SEND_ENVELOPE_COMMAND, RequestStkSendEnvelopeCommand env),
      (RIL_REQUEST_STK_SEND_TERMINAL_RESPONSE, RequestStkSendTerminalResponse env),
      (RIL_REQUEST_STK_HANDLE_CALL_SETUP_REQUESTED_FROM_SIM, RequestStkHandleCallSetupRequestedFromSim env),
      (RIL_REQUEST_EXPLICIT_CALL_TRANSFER, RequestExplicitCallTransfer env),
      (RIL_REQUEST_SET_PREFERRED_NETWORK_TYPE, set_preferred_network_type env),
      (RIL_REQUEST_GET_PREFERRED_NETWORK_TYPE, RequestGetPreferredNetworkType env),
      (RIL_REQUEST_GET_NEIGHBORING_CELL_IDS, if_cell_info (RequestGetNeighboringCellIDs env)),
      (RIL_REQUEST_SET_LOCATION_UPDATES, RequestSetLocationUpdates env),
      (RIL_REQUEST_CDMA_SET_SUBSCRIPTION_SOURCE, not_supported),
      (RIL_REQUEST_CDMA_SET_ROAMING_PREFERENCE, not_supported),
      (RIL_REQUEST_CDMA_QUERY_ROAMING_PREFERENCE, not_supported),
      (RIL_REQUEST_SET_TTY_MODE, RequestSetTtyMode env),
      (RIL_REQUEST_QUERY_TTY_MODE, RequestQueryTtyMode env),
      (RIL_REQUEST_CDMA_SET_PREFERRED_VOICE_PRIVACY_MODE, not_supported),
      (RIL_REQUEST_CDMA_QUERY_PREFERRED_VOICE_PRIVACY_MODE, not_supported),
      (RIL_REQUEST_CDMA_FLASH, not_supported),
      (RIL_REQUEST_CDMA_BURST_DTMF, not_supported),
      (RIL_REQUEST_CDMA_VALIDATE_AND_WRITE_AKEY, not_supported),
      (RIL_REQUEST_CDMA_SEND_SMS, not_supported),
      (RIL_REQUEST_CDMA_SMS_ACKNOWLEDGE, not_supported),
      (RIL_REQUEST_GSM_GET_BROADCAST_SMS_CONFIG, RequestGsmGetBroadcastSmsConfig env),
      (RIL_REQUEST_GSM_SET_BROADCAST_SMS_CONFIG, RequestGsmSetBroadcastSmsConfig env),
      (RIL_REQUEST_GSM_SMS_BROADCAST_ACTIVATION, RequestGsmSmsBroadcastActivation env),
      (RIL_REQUEST_CDMA_GET_BROADCAST_SMS_CONFIG, not_supported)]"

definition handlers_4 :: "te_env \<Rightarrow> (int \<times> request_handler) list" where
  "handlers_4 env =
     [(RIL_REQUEST_CDMA_SET_BROADCAST_SMS_CONFIG, not_supported),
      (RIL_REQUEST_CDMA_SMS_BROADCAST_ACTIVATION, not_supported),
      (RIL_REQUEST_CDMA_SUBSCRIPTION, not_supported),
      (RIL_REQUEST_CDMA_WRITE_SMS_TO_RUIM, not_supported),
      (RIL_REQUEST_CDMA_DELETE_SMS_ON_RUIM, not_supported),
      (RIL_REQUEST_DEVICE_IDENTITY, RequestDeviceIdentity),
      (RIL_REQUEST_EXIT_EMERGENCY_CALLBACK_MODE, RequestExitEmergencyCallbackMode),
      (RIL_REQUEST_GET_SMSC_ADDRESS, RequestGetSmscAddress env),
      (RIL_REQUEST_SET_SMSC_ADDRESS, RequestSetSmscAddress env),
      (RIL_REQUEST_REPORT_SMS_MEMORY_STATUS, RequestReportSmsMemoryStatus env),
      (RIL_REQUEST_REPORT_STK_SERVICE_IS_RUNNING, RequestReportStkServiceRunning env),
      (RIL_REQUEST_CDMA_GET_SUBSCRIPTION_SOURCE, not_supported),
      (RIL_REQUEST_ISIM_AUTHENTICATION, RequestISimAuthenticate env),
      (RIL_REQUEST_SIM_AUTHENTICATION, RequestSimAuthentication env),
      (RIL_REQUEST_ACKNOWLEDGE_INCOMING_GSM_SMS_WITH_PDU, RequestAckIncomingGsmSmsWithPdu env),
      (RIL_REQUEST_STK_SEND_ENVELOPE_WITH_STATUS, RequestStkSendEnvelopeWithStatus env),
      (RIL_REQUEST_VOICE_RADIO_TECH, RequestVoiceRadioTech env),
      (RIL_REQUEST_GET_CELL_INFO_LIST, if_cell_info (RequestGetCellInfoList env)),
      (RIL_REQUEST_SET_UNSOL_CELL_INFO_LIST_RATE, if_cell_info (RequestSetCellInfoListRate env)),
      (RIL_REQUEST_SET_INITIAL_ATTACH_APN, RequestSetInitialAttachApn env),
      (RIL_REQUEST_IMS_REGISTRATION_STATE, not_supported),
      (RIL_REQUEST_IMS_SEND_SMS, not_supported),
      (RIL_REQUEST_SIM_TRANSMIT_APDU_BASIC, RequestSimTransmitApduBasic env),
      (RIL_REQUEST_SIM_OPEN_CHANNEL, RequestSimOpenChannel env),
      (RIL_REQUEST_SIM_CLOSE_CHANNEL, RequestSimCloseChannel env),
      (RIL_REQUEST_SIM_TRANSMIT_APDU_CHANNEL, RequestSimTransmitApduChannel env),
      (RIL_REQUEST_SET_DATA_PROFILE, RequestSetDataProfile env),
      (RIL_REQUEST_SHUTDOWN, RequestShutdown env)]"

definition handlers :: "te_env \<Rightarrow> (int \<times> request_handler) list" where
  "handlers env = handlers_1 env @ handlers_2 env @ handlers_3 env @ handlers_4 env"

definition refused :: "te_env \<Rightarrow> int \<Rightarrow> request_data \<Rightarrow> nat \<Rightarrow> te \<Rightarrow> bool \<Rightarrow> bool option" where
  "refused env requestId pdata datalen te notAllowed =
     (if notAllowed then map_option Not (IsOemHookPossible te requestId pdata datalen) else Some False)"

definition run_handler :: "te_env \<Rightarrow> int \<Rightarrow> request_handler" where
  "run_handler env requestId =
     (case map_of (handlers env) requestId of Some h \<Rightarrow> h | None \<Rightarrow> not_supported)"

definition select_handler :: "te_env \<Rightarrow> int \<Rightarrow> request_handler" where
  "select_handler env requestId hRilToken pdata datalen te =
     (if GetSimAppState te = RIL_APPSTATE_UNKNOWN \<and> \<not> IsRequestAllowedInSimNotReady requestId then
        Some (RIL_E_GENERIC_FAILURE, te)
      else if \<not> IsRequestSupported env requestId then Some (RIL_E_REQUEST_NOT_SUPPORTED, te)
      else if \<not> IsRegistered te \<and> \<not> IsRequestAllowedWhenNotRegistered requestId then
        Some (HandleRequestWhenNotRegistered requestId, te)
      else run_handler env requestId hRilToken pdata datalen te)"

definition handle_in_state :: "te_env \<Rightarrow> int \<Rightarrow> request_handler" where
  "handle_in_state env requestId hRilToken pdata datalen te =
     (case refused env requestId pdata datalen te
             ((m_bSpoofCommandsStatus te \<or> GetRadioState te = RADIO_STATE_UNAVAILABLE) \<and>
              \<not> IsRequestAllowedInSpoofState te requestId) of
        None \<Rightarrow> None
      | Some True \<Rightarrow> Some (HandleRequestWhenNoModem env requestId hRilToken te)
      | Some False \<Rightarrow>
          (case refused env requestId pdata datalen te
                  ((m_bRadioRequestPending te \<or> GetRadioState te = RADIO_STATE_OFF) \<and>
                   \<not> IsRequestAllowedInRadioOff te requestId) of
             None \<Rightarrow> None
           | Some True \<Rightarrow> Some (HandleRequestInRadioOff env requestId hRilToken te)
           | Some False \<Rightarrow> select_handler env requestId hRilToken pdata datalen te))"

definition HandleRequest :: "te_env \<Rightarrow> int \<Rightarrow> request_data \<Rightarrow> nat \<Rightarrow> RIL_Token \<Rightarrow> te \<Rightarrow> te option" where
  "HandleRequest env requestId pdata datalen hRilToken te =
     (case handle_in_state env requestId hRilToken pdata datalen te of
        None \<Rightarrow> None
      | Some (eRetVal, te) \<Rightarrow>
          Some (if eRetVal \<noteq> RIL_E_SUCCESS then RIL_onRequestComplete hRilToken eRetVal None te else te))"

end
