(* ===== verification/TeAnswers.thy ===== *)
theory TeAnswers
  imports TeDispatch
begin

text \<open>
  Every request is answered exactly once: the contract \<open>handled\<close> of a request handler, its proof for
  every handler of theories TeHandlers and TeSpecial, and what it gives for \<open>HandleRequest\<close>. The
  three ways in which the code misses the contract are theorems of their own.
\<close>

section \<open>Answers\<close>

text \<open>The token an event takes care of: it is completed, its command is queued, or it is deferred.\<close>

fun token_of :: "te_event \<Rightarrow> RIL_Token" where
  "token_of (Effect (RequestComplete t _ _ _)) = t"
| "token_of (Effect (TimedCallback _ t _ _)) = t"
| "token_of (Effect _) = None"
| "token_of (Enqueued c) = m_token c"
| "token_of (SystemCall _) = None"

definition deferred :: "te \<Rightarrow> RIL_Token" where
  "deferred te = (case m_pPrefNetTypeReqInfo te of None \<Rightarrow> None | Some (t, _) \<Rightarrow> t)"

definition answers :: "nat \<Rightarrow> te \<Rightarrow> nat" where
  "answers t te = length (filter (\<lambda>e. token_of e = Some t) (trace te)) + (if deferred te = Some t then 1 else 0)"

definition te_ok :: "te_env \<Rightarrow> te \<Rightarrow> bool" where
  "te_ok env te \<longleftrightarrow> queues_ok (te_config env) (next_cmd te) (queues te)"

text \<open>From \<open>te\<close> to \<open>te'\<close> with one more answer for \<open>tok\<close>, and none for any other token.\<close>

definition answered :: "te_env \<Rightarrow> RIL_Token \<Rightarrow> te \<Rightarrow> te \<Rightarrow> bool" where
  "answered env tok te te' \<longleftrightarrow>
     te_ok env te' \<and> (\<forall>t. answers t te' = answers t te + (if tok = Some t then 1 else 0))"

text \<open>The contract of a handler: success means answered, any other result means not answered.\<close>

definition handled :: "te_env \<Rightarrow> RIL_Token \<Rightarrow> te \<Rightarrow> (result_code \<times> te) option \<Rightarrow> bool" where
  "handled env tok te r \<longleftrightarrow>
     (\<exists>res te'. r = Some (res, te') \<and> answered env (if res = RRIL_RESULT_OK then tok else None) te te')"

lemma answered_refl [simp]: "te_ok env te \<Longrightarrow> answered env None te te"
  by (simp add: answered_def)

lemma answered_trans:
  "answered env None te te1 \<Longrightarrow> answered env tok te1 te2 \<Longrightarrow> answered env tok te te2"
  "answered env tok te te1 \<Longrightarrow> answered env None te1 te2 \<Longrightarrow> answered env tok te te2"
  by (auto simp: answered_def)

lemma answered_ok: "answered env tok te te' \<Longrightarrow> te_ok env te'"
  by (simp add: answered_def)

text \<open>A step that leaves the queues, the trace and the deferred request alone.\<close>

definition same_answers :: "te \<Rightarrow> te \<Rightarrow> bool" where
  "same_answers te te' \<longleftrightarrow> trace te' = trace te \<and> m_pPrefNetTypeReqInfo te' = m_pPrefNetTypeReqInfo te \<and>
     queues te' = queues te \<and> next_cmd te' = next_cmd te"

lemma same_answers_answered: "te_ok env te \<Longrightarrow> same_answers te te' \<Longrightarrow> answered env None te te'"
  by (simp add: same_answers_def answered_def te_ok_def answers_def deferred_def)

lemma complete_answered: "te_ok env te \<Longrightarrow> answered env tok te (RIL_onRequestComplete tok res d te)"
  by (simp add: answered_def te_ok_def answers_def deferred_def RIL_onRequestComplete_def)

lemma timed_answered: "te_ok env te \<Longrightarrow> answered env tok te (RIL_requestTimedCallback f tok s us te)"
  by (simp add: answered_def te_ok_def answers_def deferred_def RIL_requestTimedCallback_def)

lemma unsolicited_answered: "te_ok env te \<Longrightarrow> answered env None te (te_unsolicited i d te)"
  by (simp add: answered_def te_ok_def answers_def deferred_def te_unsolicited_def)

lemma clean_up_answered: "te_ok env te \<Longrightarrow> answered env None te (DO_REQUEST_CLEAN_UP te)"
  by (simp add: answered_def te_ok_def answers_def deferred_def DO_REQUEST_CLEAN_UP_def)

lemma request_command_simps [simp]:
  "m_object (request_command env r ch tok rd p h te) = next_cmd te"
  "m_token (request_command env r ch tok rd p h te) = tok"
  "0 < g_uiRilChannelCurMax (te_config env) \<Longrightarrow>
     CCommand.m_uiChannel (request_command env r ch tok rd p h te) < g_uiRilChannelCurMax (te_config env)"
  by (simp_all add: request_command_def CCommand_data_def)

lemma attribute_simps [simp]:
  "m_object (SetHighPriority c) = m_object c" "m_token (SetHighPriority c) = m_token c"
  "CCommand.m_uiChannel (SetHighPriority c) = CCommand.m_uiChannel c"
  "m_object (SetAlwaysParse c) = m_object c" "m_token (SetAlwaysParse c) = m_token c"
  "CCommand.m_uiChannel (SetAlwaysParse c) = CCommand.m_uiChannel c"
  "m_object (SetCallId i c) = m_object c" "m_token (SetCallId i c) = m_token c"
  "CCommand.m_uiChannel (SetCallId i c) = CCommand.m_uiChannel c"
  by (simp_all add: SetHighPriority_def SetAlwaysParse_def SetCallId_def)

lemma queue_command_handled:
  assumes ok: "te_ok env te" and cmd: "m_object cmd = next_cmd te"
    "0 < g_uiRilChannelCurMax (te_config env) \<Longrightarrow> CCommand.m_uiChannel cmd < g_uiRilChannelCurMax (te_config env)"
  shows "handled env (m_token cmd) te (queue_command env cmd front te)"
proof (cases "memory (te_config env)")
  case False
  then show ?thesis using ok by (simp add: handled_def queue_command_def)
next
  case True
  have q: "queues_ok (te_config env) (next_cmd te) (queues te)" using ok by (simp add: te_ok_def)
  then have "0 < g_uiRilChannelCurMax (te_config env)" by (simp add: queues_ok_def)
  then obtain p st where a: "AddCmdToQueue (te_config env) (Some cmd) front (queues te) =
      Some (IsInitializationSuccessful (te_config env), p, st)"
    "queues_ok (te_config env) (Suc (next_cmd te)) st"
    using AddCmdToQueue_ok [OF q True cmd(1) cmd(2), of front] by blast
  then show ?thesis
    using True by (cases "IsInitializationSuccessful (te_config env)")
      (simp_all add: handled_def queue_command_def answered_def te_ok_def answers_def deferred_def)
qed

text \<open>
  The contract of a virtual function for the data of a request: it returns, and it answers no
  request. \<open>HandleSetupDefaultPDN\<close> gets the token and answers like a handler.
\<close>

definition core_ok :: "te_env \<Rightarrow> string \<Rightarrow> request_data \<Rightarrow> nat \<Rightarrow> bool" where
  "core_ok env f pdata datalen \<longleftrightarrow>
     (\<forall>te. te_ok env te \<longrightarrow>
        (\<exists>res rd te'. Core env f pdata datalen te = Some (res, rd, te') \<and> answered env None te te'))"

definition ref_ok :: "te_env \<Rightarrow> string \<Rightarrow> request_data \<Rightarrow> nat \<Rightarrow> bool" where
  "ref_ok env f pdata datalen \<longleftrightarrow>
     (\<forall>te. te_ok env te \<longrightarrow>
        (\<forall>i. \<exists>res rd j te'. CoreRef env f pdata datalen i te = Some (res, rd, j, te') \<and> answered env None te te') \<and>
        (\<forall>tok k. handled env tok te (HandleSetupDefaultPDN env tok k te)))"

lemma virtual_Core:
  assumes "core_ok env f pdata datalen" "te_ok env te"
  obtains res rd te' where "Core env f pdata datalen te = Some (res, rd, te')" "answered env None te te'" "te_ok env te'"
  using assms by (meson core_ok_def answered_ok)

lemma virtual_CoreRef:
  assumes "ref_ok env f pdata datalen" "te_ok env te"
  obtains res rd j te' where "CoreRef env f pdata datalen i te = Some (res, rd, j, te')" "answered env None te te'"
    "te_ok env te'"
  using assms by (meson ref_ok_def answered_ok)

lemma handled_after:
  assumes "answered env None te te1" "handled env tok te1 r"
  shows "handled env tok te r"
  using assms by (auto simp: handled_def answered_def split: if_splits)

lemma handled_error: "answered env None te te' \<Longrightarrow> res \<noteq> RRIL_RESULT_OK \<Longrightarrow> handled env tok te (Some (res, te'))"
  by (simp add: handled_def)

lemma handled_success: "answered env tok te te' \<Longrightarrow> handled env tok te (Some (RRIL_RESULT_OK, te'))"
  by (simp add: handled_def)

lemma after_ok_handled:
  assumes "handled env tok te r" "\<And>te. same_answers te (f te)"
  shows "handled env tok te (after_ok f r)"
proof -
  obtain res te' where r: "r = Some (res, te')" "answered env (if res = RRIL_RESULT_OK then tok else None) te te'"
    using assms(1) by (auto simp: handled_def)
  show ?thesis
    using r answered_trans(2) [OF r(2) same_answers_answered [OF answered_ok [OF r(2)] assms(2)]]
    by (auto simp: handled_def after_ok_def)
qed

lemma std_request_handled:
  assumes v: "core_ok env core pdata datalen" and ok: "te_ok env te"
    and attr: "\<And>c. m_object (attributes c) = m_object c" "\<And>c. m_token (attributes c) = m_token c"
      "\<And>c. CCommand.m_uiChannel (attributes c) = CCommand.m_uiChannel c"
  shows "handled env tok te (std_request env r core parse post attributes front tok pdata datalen te)"
proof -
  obtain res rd te1 where c: "Core env core pdata datalen te = Some (res, rd, te1)" "answered env None te te1"
    "te_ok env te1" using virtual_Core [OF v ok] .
  have "handled env tok te1 (queue_command env (attributes (request_command env r (request_channel r) tok
      rd parse post te1)) front te1)"
    using queue_command_handled [OF c(3), of "attributes (request_command env r (request_channel r) tok
      rd parse post te1)" front] by (simp add: attr)
  then show ?thesis
    using c(1) handled_after [OF c(2)] handled_error [OF c(2)] by (simp add: std_request_def)
qed

lemma immediate_request_handled:
  assumes v: "core_ok env core pdata datalen" and ok: "te_ok env te"
    and attr: "\<And>c. m_object (attributes c) = m_object c" "\<And>c. m_token (attributes c) = m_token c"
      "\<And>c. CCommand.m_uiChannel (attributes c) = CCommand.m_uiChannel c"
  shows "handled env tok te (immediate_request env r core parse post attributes answer tok pdata datalen te)"
proof -
  obtain res rd te1 where c: "Core env core pdata datalen te = Some (res, rd, te1)" "answered env None te te1"
    "te_ok env te1" using virtual_Core [OF v ok] .
  have "handled env tok te1 (queue_command env (attributes (request_command env r (request_channel r) tok
      rd parse post te1)) False te1)"
    using queue_command_handled [OF c(3), of "attributes (request_command env r (request_channel r) tok
      rd parse post te1)" False] by (simp add: attr)
  then show ?thesis
    using c(1) handled_after [OF c(2)] handled_error [OF c(2)]
      handled_success [OF answered_trans(1) [OF c(2) complete_answered [OF c(3)]]]
    by (simp add: immediate_request_def)
qed

section \<open>The handlers\<close>

definition handles :: "te_env \<Rightarrow> request_data \<Rightarrow> nat \<Rightarrow> request_handler \<Rightarrow> bool" where
  "handles env pdata datalen h \<longleftrightarrow>
     (\<forall>tok te. te_ok env te \<longrightarrow> tok \<noteq> None \<longrightarrow> handled env tok te (h tok pdata datalen te))"

lemma handlesI [intro]:
  "(\<And>tok te. te_ok env te \<Longrightarrow> tok \<noteq> None \<Longrightarrow> handled env tok te (h tok pdata datalen te)) \<Longrightarrow>
     handles env pdata datalen h"
  by (simp add: handles_def)

lemma attributes_id [simp]:
  "m_object (id c) = m_object c" "m_token (id c) = m_token c" "CCommand.m_uiChannel (id c) = CCommand.m_uiChannel c"
  by simp_all

lemma std_request_handles:
  "core_ok env core pdata datalen \<Longrightarrow> handles env pdata datalen (std_request env r core parse post id front)"
  "core_ok env core pdata datalen \<Longrightarrow> handles env pdata datalen (std_request env r core parse post SetHighPriority front)"
  "core_ok env core pdata datalen \<Longrightarrow> handles env pdata datalen (std_request env r core parse post SetAlwaysParse front)"
  by (rule handlesI, rule std_request_handled; simp)+

lemma immediate_request_handles:
  "core_ok env core pdata datalen \<Longrightarrow> handles env pdata datalen (immediate_request env r core parse post id answer)"
  "core_ok env core pdata datalen \<Longrightarrow> handles env pdata datalen (immediate_request env r core parse post SetHighPriority answer)"
  "core_ok env core pdata datalen \<Longrightarrow> handles env pdata datalen (immediate_request env r core parse post SetAlwaysParse answer)"
  by (rule handlesI, rule immediate_request_handled; simp)+

text \<open>Elementary steps.\<close>

lemma handled_complete:
  "te_ok env te \<Longrightarrow> handled env tok te (Some (RRIL_RESULT_OK, RIL_onRequestComplete tok res d te))"
  by (simp add: handled_def complete_answered)

lemma handled_refuse: "te_ok env te \<Longrightarrow> res \<noteq> RRIL_RESULT_OK \<Longrightarrow> handled env tok te (Some (res, te))"
  by (simp add: handled_def)

lemma handled_same:
  assumes "te_ok env te" "same_answers te te1" "te_ok env te1 \<Longrightarrow> handled env tok te1 r"
  shows "handled env tok te r"
  using assms same_answers_answered [OF assms(1,2)] handled_after answered_ok by blast

lemma handled_Core:
  assumes v: "core_ok env core pdata datalen" and ok: "te_ok env te"
    and k: "\<And>res rd te1. Core env core pdata datalen te = Some (res, rd, te1) \<Longrightarrow> te_ok env te1 \<Longrightarrow>
      handled env tok te1 (k res rd te1)"
  shows "handled env tok te (case Core env core pdata datalen te of None \<Rightarrow> None
    | Some (res, rd, te1) \<Rightarrow> k res rd te1)"
proof -
  obtain res rd te1 where c: "Core env core pdata datalen te = Some (res, rd, te1)" "answered env None te te1"
    "te_ok env te1" using virtual_Core [OF v ok] .
  show ?thesis using handled_after [OF c(2) k [OF c(1,3)]] by (simp add: c(1))
qed

lemma handled_CoreRef:
  assumes v: "ref_ok env core pdata datalen" and ok: "te_ok env te"
    and k: "\<And>res rd j te1. CoreRef env core pdata datalen i te = Some (res, rd, j, te1) \<Longrightarrow> te_ok env te1 \<Longrightarrow>
      handled env tok te1 (k res rd j te1)"
  shows "handled env tok te (case CoreRef env core pdata datalen i te of None \<Rightarrow> None
    | Some (res, rd, j, te1) \<Rightarrow> k res rd j te1)"
proof -
  obtain res rd j te1 where c: "CoreRef env core pdata datalen i te = Some (res, rd, j, te1)"
    "answered env None te te1" "te_ok env te1" using virtual_CoreRef [OF v ok] .
  show ?thesis using handled_after [OF c(2) k [OF c(1,3)]] by (simp add: c(1))
qed

lemma queue_request_handled:
  assumes "te_ok env te"
  shows "handled env tok te (queue_command env (request_command env r chnl tok rd p h te) front te)"
    and "handled env tok te (queue_command env (SetHighPriority (request_command env r chnl tok rd p h te)) front te)"
    and "handled env tok te (queue_command env (SetCallId i (request_command env r chnl tok rd p h te)) front te)"
  using queue_command_handled [OF assms, of "request_command env r chnl tok rd p h te" front]
    queue_command_handled [OF assms, of "SetHighPriority (request_command env r chnl tok rd p h te)" front]
    queue_command_handled [OF assms, of "SetCallId i (request_command env r chnl tok rd p h te)" front]
  by simp_all

lemma same_answers_simps [simp]:
  "same_answers te te" "same_answers te (forbid_dtmf te)"
  "same_answers te (te\<lparr> m_pTEBase := b \<rparr>)" "same_answers te (te\<lparr> m_enableLocationUpdates := i \<rparr>)"
  "same_answers te (te\<lparr> m_bIsManualNetworkSearchOn := t \<rparr>)" "same_answers te (te\<lparr> m_RadioOffReason := e \<rparr>)"
  "same_answers te (te\<lparr> m_ScreenState := i \<rparr>)" "same_answers te (te\<lparr> m_bIsSetupDataCallOngoing := t \<rparr>)"
  "same_answers te (te\<lparr> data_calls := d \<rparr>)" "same_answers te (te\<lparr> m_CbsActivate := i \<rparr>)"
  "same_answers te (te\<lparr> s_bIsShutDownRequested := t \<rparr>)"
  "same_answers te (te\<lparr> m_bRadioRequestPending := t, m_RequestedRadioPower := i \<rparr>)"
  "same_answers te (te\<lparr> m_bRadioRequestPending := t \<rparr>)"
  "same_answers te (te\<lparr> m_bCbsActivationTimerRunning := t \<rparr>)"
  by (simp_all add: same_answers_def forbid_dtmf_def Let_def)

lemma call_handles:
  shows "core_ok env ''CoreHangup'' pdata datalen \<Longrightarrow> handles env pdata datalen (RequestHangup env)"
    and "core_ok env ''CoreHangupForegroundResumeBackground'' pdata datalen \<Longrightarrow> handles env pdata datalen (RequestHangupForegroundResumeBackground env)"
    and "core_ok env ''CoreSwitchHoldingAndActive'' pdata datalen \<Longrightarrow> handles env pdata datalen (RequestSwitchHoldingAndActive env)"
    and "core_ok env ''CoreConference'' pdata datalen \<Longrightarrow> handles env pdata datalen (RequestConference env)"
    and "core_ok env ''CoreSeparateConnection'' pdata datalen \<Longrightarrow> handles env pdata datalen (RequestSeparateConnection env)"
proof -
  have h: "core_ok env core pdata datalen \<Longrightarrow> te_ok env te \<Longrightarrow> handled env tok te (after_ok forbid_dtmf
      (std_request env r core parse post SetHighPriority front tok pdata datalen te))"
    for te tok r core parse post front
    by (rule after_ok_handled) (auto intro: std_request_handled)
  show "core_ok env ''CoreHangup'' pdata datalen \<Longrightarrow> handles env pdata datalen (RequestHangup env)"
    "core_ok env ''CoreHangupForegroundResumeBackground'' pdata datalen \<Longrightarrow> handles env pdata datalen (RequestHangupForegroundResumeBackground env)"
    "core_ok env ''CoreSwitchHoldingAndActive'' pdata datalen \<Longrightarrow> handles env pdata datalen (RequestSwitchHoldingAndActive env)"
    "core_ok env ''CoreConference'' pdata datalen \<Longrightarrow> handles env pdata datalen (RequestConference env)"
    "core_ok env ''CoreSeparateConnection'' pdata datalen \<Longrightarrow> handles env pdata datalen (RequestSeparateConnection env)"
    by (auto simp: RequestHangup_def RequestHangupForegroundResumeBackground_def
        RequestSwitchHoldingAndActive_def RequestConference_def RequestSeparateConnection_def h)
qed

text \<open>A command without token, and then the answer of the request.\<close>

lemma after_ok_complete_handled:
  assumes "handled env None te r"
  shows "handled env tok te (after_ok (RIL_onRequestComplete tok res d) r)"
proof -
  obtain e te' where r: "r = Some (e, te')" "answered env None te te'"
    using assms by (auto simp: handled_def)
  show ?thesis
    using r answered_trans(1) [OF r(2) complete_answered [OF answered_ok [OF r(2)]]]
    by (auto simp: handled_def after_ok_def)
qed

lemma dtmf_handles:
  shows "core_ok env ''CoreDtmfStart'' pdata datalen \<Longrightarrow> handles env pdata datalen (RequestDtmfStart env)"
    "core_ok env ''CoreDtmfStop'' pdata datalen \<Longrightarrow> handles env pdata datalen (RequestDtmfStop env)"
proof -
  show "core_ok env ''CoreDtmfStart'' pdata datalen \<Longrightarrow> handles env pdata datalen (RequestDtmfStart env)"
    unfolding RequestDtmfStart_def
    by (rule handlesI, rule handled_Core, assumption, assumption)
      (auto intro: handled_refuse after_ok_complete_handled queue_request_handled)
  show "core_ok env ''CoreDtmfStop'' pdata datalen \<Longrightarrow> handles env pdata datalen (RequestDtmfStop env)"
    unfolding RequestDtmfStop_def
    by (rule handlesI, rule handled_Core, assumption, assumption)
      (auto intro: handled_refuse after_ok_complete_handled queue_request_handled)
qed

subsection \<open>Network\<close>

lemma registration_handles:
  assumes "core_ok env ''CoreRegistrationState'' pdata datalen"
  shows "handles env pdata datalen (RequestRegistrationState env)"
  by (rule handlesI)
    (auto simp: RequestRegistrationState_def intro: handled_complete std_request_handled assms)

text \<open>The answer of the modem specific function that would be sent twice.\<close>

definition not_immediate :: "te_env \<Rightarrow> string \<Rightarrow> request_data \<Rightarrow> nat \<Rightarrow> bool" where
  "not_immediate env core pdata datalen \<longleftrightarrow>
     (\<forall>te. te_ok env te \<longrightarrow> (\<forall>rd te'. Core env core pdata datalen te \<noteq> Some (RRIL_RESULT_OK_IMMEDIATE, rd, te')))"

lemma GPRS_registration_handles:
  assumes "core_ok env ''CoreGPRSRegistrationState'' pdata datalen" "not_immediate env ''CoreGPRSRegistrationState'' pdata datalen"
  shows "handles env pdata datalen (RequestGPRSRegistrationState env)"
proof
  fix tok te assume ok: "te_ok env te"
  show "handled env tok te (RequestGPRSRegistrationState env tok pdata datalen te)"
  proof (cases "m_bPSStatusCached te \<and> m_enableLocationUpdates te = 0")
    case True
    then show ?thesis using handled_complete [OF ok] by (simp add: RequestGPRSRegistrationState_def)
  next
    case False
    have eq: "RequestGPRSRegistrationState env tok pdata datalen te =
        (case Core env ''CoreGPRSRegistrationState'' pdata datalen te of None \<Rightarrow> None
         | Some (res, rd, te1) \<Rightarrow>
             if res = RRIL_RESULT_OK_IMMEDIATE then
               Some (res, RIL_onRequestComplete tok RIL_E_SUCCESS None te1)
             else if res \<noteq> RRIL_RESULT_OK then Some (res, te1)
             else queue_command env
                    (request_command env RIL_REQUEST_DATA_REGISTRATION_STATE
                       (request_channel RIL_REQUEST_DATA_REGISTRATION_STATE) tok rd
                       (Some ''ParseGPRSRegistrationState'') (Some ''PostNetworkInfoCmdHandler'') te1) False te1)"
      using False by (simp only: RequestGPRSRegistrationState_def if_False)
    show ?thesis unfolding eq
      using assms(2) ok
      by (intro handled_Core [OF assms(1) ok])
        (auto simp: not_immediate_def intro: handled_refuse queue_request_handled)
  qed
qed

text \<open>\<open>RestoreSavedNetworkSelectionMode\<close> reports success without a command when no mode is saved.\<close>

lemma CCommand_one_token [simp]:
  "m_object (CCommand_one cfg n chnl tok r cmd p h) = n" "m_token (CCommand_one cfg n chnl tok r cmd p h) = tok"
  "0 < g_uiRilChannelCurMax cfg \<Longrightarrow> CCommand.m_uiChannel (CCommand_one cfg n chnl tok r cmd p h) < g_uiRilChannelCurMax cfg"
  by (simp_all add: CCommand_one_def)

lemma restore_handled:
  assumes ok: "te_ok env te" and some: "restore_command (m_bVoiceCapable te) (m_pTEBase te) \<noteq> None"
  shows "handled env tok te (RestoreSavedNetworkSelectionMode env tok chnl p h te)"
proof -
  have "handled env tok te (queue_command env (SetHighPriority (CCommand_one (te_config env) (next_cmd te) chnl
      tok r (Some cmd) p h)) False te)" for r cmd
    using queue_command_handled [OF ok, of "SetHighPriority (CCommand_one (te_config env) (next_cmd te) chnl
      tok r (Some cmd) p h)" False] by simp
  then show ?thesis using some ok
    by (auto simp: RestoreSavedNetworkSelectionMode_def handled_refuse split: option.split)
qed

definition mode_saved :: "te_env \<Rightarrow> string \<Rightarrow> request_data \<Rightarrow> nat \<Rightarrow> bool" where
  "mode_saved env core pdata datalen \<longleftrightarrow>
     (\<forall>te. te_ok env te \<longrightarrow> (\<forall>rd te'. Core env core pdata datalen te = Some (RRIL_RESULT_OK, rd, te') \<longrightarrow>
        restore_command (m_bVoiceCapable te') (m_pTEBase te') \<noteq> None))"

lemma not_ok_immediate [simp]: "RRIL_RESULT_OK_IMMEDIATE \<noteq> RRIL_RESULT_OK" "RRIL_RESULT_OK \<noteq> RRIL_RESULT_OK_IMMEDIATE"
  "RIL_E_GENERIC_FAILURE \<noteq> RRIL_RESULT_OK_IMMEDIATE" "RRIL_RESULT_ERROR \<noteq> RRIL_RESULT_OK_IMMEDIATE"
  by simp_all

lemma queue_command_result:
  "queue_command env cmd front te = Some (res, te') \<Longrightarrow> res = RRIL_RESULT_OK \<or> res = RIL_E_GENERIC_FAILURE"
  by (auto simp: queue_command_def split: if_splits option.splits bool.splits)

lemma restore_result:
  "RestoreSavedNetworkSelectionMode env tok chnl p h te = Some (res, te') \<Longrightarrow> res \<noteq> RRIL_RESULT_OK_IMMEDIATE"
  by (auto simp: RestoreSavedNetworkSelectionMode_def dest: queue_command_result split: option.splits)

lemma finish_restore:
  "finish_immediate tok (RestoreSavedNetworkSelectionMode env tok chnl p h te) =
     RestoreSavedNetworkSelectionMode env tok chnl p h te"
  by (cases "RestoreSavedNetworkSelectionMode env tok chnl p h te")
    (auto simp: finish_immediate_def dest: restore_result)

lemma finish_immediate_handled:
  "te_ok env te \<Longrightarrow> res \<noteq> RRIL_RESULT_OK \<Longrightarrow> handled env tok te (finish_immediate tok (Some (res, te)))"
  by (auto simp: finish_immediate_def intro: handled_refuse handled_complete)

lemma network_selection_handled:
  assumes "core_ok env core pdata datalen" "mode_saved env core pdata datalen" "te_ok env te"
  shows "handled env tok te (case Core env core pdata datalen te of None \<Rightarrow> None
    | Some (res, rd, te1) \<Rightarrow> finish_immediate tok
        (if res = RRIL_RESULT_OK then RestoreSavedNetworkSelectionMode env tok chnl p h te1 else Some (res, te1)))"
  using assms(2,3)
  by (intro handled_Core [OF assms(1,3)])
    (auto simp: mode_saved_def finish_restore intro: restore_handled finish_immediate_handled)

lemma network_selection_handles:
  shows "core_ok env ''CoreSetNetworkSelectionAutomatic'' pdata datalen \<Longrightarrow> mode_saved env ''CoreSetNetworkSelectionAutomatic'' pdata datalen \<Longrightarrow>
      handles env pdata datalen (RequestSetNetworkSelectionAutomatic env)"
    and "core_ok env ''CoreSetNetworkSelectionManual'' pdata datalen \<Longrightarrow> mode_saved env ''CoreSetNetworkSelectionManual'' pdata datalen \<Longrightarrow>
      handles env pdata datalen (RequestSetNetworkSelectionManual env)"
  by (rule handlesI, simp add: RequestSetNetworkSelectionAutomatic_def RequestSetNetworkSelectionManual_def
      handled_complete network_selection_handled)+

lemma handled_map_same:
  assumes "handled env tok te r" "\<And>res te. same_answers te (f res te)"
  shows "handled env tok te (map_option (\<lambda>(res, te). (res, f res te)) r)"
proof -
  obtain res te' where r: "r = Some (res, te')" "answered env (if res = RRIL_RESULT_OK then tok else None) te te'"
    using assms(1) by (auto simp: handled_def)
  show ?thesis
    using r answered_trans(2) [OF r(2) same_answers_answered [OF answered_ok [OF r(2)] assms(2)]]
    by (auto simp: handled_def)
qed

lemma timed_handled:
  "te_ok env te \<Longrightarrow> handled env tok te (Some (RRIL_RESULT_OK, RIL_requestTimedCallback f tok s us te))"
  by (simp add: handled_def timed_answered)

lemma network_query_handles:
  shows "core_ok env ''CoreQueryAvailableNetworks'' pdata datalen \<Longrightarrow> handles env pdata datalen (RequestQueryAvailableNetworks env)"
    and "handles env pdata datalen (RequestVoiceRadioTech env)"
    and "handles env pdata datalen (RequestDataCallList env)"
    and "core_ok env ''CoreDeactivateDataCall'' pdata datalen \<Longrightarrow> handles env pdata datalen (RequestDeactivateDataCall env)"
proof -
  show "core_ok env ''CoreQueryAvailableNetworks'' pdata datalen \<Longrightarrow> handles env pdata datalen (RequestQueryAvailableNetworks env)"
    by (rule handlesI)
      (auto simp: RequestQueryAvailableNetworks_def
        intro!: timed_handled std_request_handled
          handled_map_same [where f = "\<lambda>res te. te\<lparr> m_bIsManualNetworkSearchOn := res = RRIL_RESULT_OK \<rparr>"])
  show "handles env pdata datalen (RequestVoiceRadioTech env)"
    by (rule handlesI) (auto simp: RequestVoiceRadioTech_def intro: handled_refuse handled_complete)
  show "handles env pdata datalen (RequestDataCallList env)"
    by (rule handlesI) (auto simp: RequestDataCallList_def intro: handled_complete)
  show "core_ok env ''CoreDeactivateDataCall'' pdata datalen \<Longrightarrow> handles env pdata datalen (RequestDeactivateDataCall env)"
    by (rule handlesI)
      (auto simp: RequestDeactivateDataCall_def intro: handled_complete immediate_request_handled)
qed

lemma immediate_handles:
  shows "core_ok env ''CoreSetPreferredNetworkType'' pdata datalen \<Longrightarrow>
      handles env pdata datalen (RequestSetPreferredNetworkType env)"
    and "core_ok env ''CoreGetCellInfoList'' pdata datalen \<Longrightarrow>
      handles env pdata datalen (RequestGetCellInfoList env)"
    and "core_ok env ''CoreSetInitialAttachApn'' pdata datalen \<Longrightarrow>
      handles env pdata datalen (RequestSetInitialAttachApn env)"
    and "core_ok env ''CoreReportStkServiceRunning'' pdata datalen \<Longrightarrow>
      handles env pdata datalen (RequestReportStkServiceRunning env)"
    and "core_ok env ''CoreGsmSetBroadcastSmsConfig'' pdata datalen \<Longrightarrow>
      handles env pdata datalen (RequestGsmSetBroadcastSmsConfig env)"
  by (simp_all add: RequestSetPreferredNetworkType_def RequestGetCellInfoList_def
      RequestSetInitialAttachApn_def RequestReportStkServiceRunning_def
      RequestGsmSetBroadcastSmsConfig_def immediate_request_handles)

subsection \<open>Radio power and the requests answered at once\<close>

text \<open>The data is a pointer to an \<open>int\<close>, or no data.\<close>

fun int_data :: "request_data \<Rightarrow> bool" where
  "int_data NULL_DATA \<longleftrightarrow> True"
| "int_data (Ints (_ # _)) \<longleftrightarrow> True"
| "int_data _ \<longleftrightarrow> False"

lemma int_data_cases:
  assumes "int_data pdata"
  obtains "pdata = NULL_DATA" | i ints where "pdata = Ints (i # ints)"
  using assms by (cases pdata rule: int_data.cases) auto

lemma location_updates_handles:
  assumes "core_ok env ''CoreSetLocationUpdates'' pdata datalen" "int_data pdata"
  shows "handles env pdata datalen (RequestSetLocationUpdates env)"
proof
  fix tok te assume ok: "te_ok env te"
  show "handled env tok te (RequestSetLocationUpdates env tok pdata datalen te)"
    using assms(2)
  proof (cases pdata rule: int_data_cases)
    case 1
    then show ?thesis using ok by (simp add: RequestSetLocationUpdates_def handled_refuse)
  next
    case (2 i ints)
    have "handled env tok te (after_ok (\<lambda>te. te\<lparr> m_enableLocationUpdates := i \<rparr>)
        (std_request env RIL_REQUEST_SET_LOCATION_UPDATES ''CoreSetLocationUpdates''
           (Some ''ParseSetLocationUpdates'') (Some ''PostSetLocationUpdates'') id False tok pdata datalen te))"
      by (intro after_ok_handled std_request_handled assms ok) simp_all
    then show ?thesis using 2 by (simp only: RequestSetLocationUpdates_def request_data.case list.case)
  qed
qed

lemma answered_steps:
  assumes "te_ok env te"
  shows "answered env None te (te_unsolicited i d te)" "answered env None te (RIL_requestTimedCallback f None s us te)"
    "answered env None te (SetRadioStateAndNotify r te)" "answered env None te (DO_REQUEST_CLEAN_UP te)"
    "answered env tok te (RIL_onRequestComplete tok res d te)"
proof -
  have base: "te_ok env (te\<lparr> m_pTEBase := b \<rparr>)" "answered env None te (te\<lparr> m_pTEBase := b \<rparr>)" for b
    using same_answers_answered [OF assms same_answers_simps(3)] answered_ok by blast+
  show "answered env None te (te_unsolicited i d te)" "answered env None te (RIL_requestTimedCallback f None s us te)"
    "answered env None te (DO_REQUEST_CLEAN_UP te)" "answered env tok te (RIL_onRequestComplete tok res d te)"
    using assms by (simp_all add: unsolicited_answered timed_answered clean_up_answered complete_answered)
  show "answered env None te (SetRadioStateAndNotify r te)"
    using answered_trans(1) [OF base(2) unsolicited_answered [OF base(1)]] assms
    by (auto simp: SetRadioStateAndNotify_def)
qed

lemma radio_power_done_handled:
  assumes ok: "te_ok env te"
  shows "handled env tok te (Some (radio_power_done env tok res te))"
proof -
  let ?te = "if res = RRIL_RESULT_OK then te_unsolicited 1023 (Some (int_image 0)) te
    else (let te = RIL_requestTimedCallback ''triggerRadioOffInd'' None 1 0
                     (SetRadioStateAndNotify RADIO_STATE_UNAVAILABLE te)
          in if m_bRestrictedMode te
             then te_unsolicited 1023 (Some (int_image (RIL_RESTRICTED_STATE_CS_PS_ALL env))) te else te)"
  have a: "answered env None te (RIL_requestTimedCallback ''triggerRadioOffInd'' None 1 0
      (SetRadioStateAndNotify RADIO_STATE_UNAVAILABLE te))"
    using answered_trans(1) [OF answered_steps(3) answered_steps(2)] ok answered_ok [OF answered_steps(3) [OF ok]] by blast
  have b: "answered env None te ?te"
    using a answered_trans(1) [OF a answered_steps(1)] answered_ok [OF a] answered_steps(1) [OF ok] by (simp add: Let_def)
  have c: "answered env None te (?te\<lparr> m_bRadioRequestPending := False \<rparr>)"
    by (rule answered_trans(1) [OF b same_answers_answered [OF answered_ok [OF b]]]) simp
  have "radio_power_done env tok res te = (RRIL_RESULT_OK,
      RIL_onRequestComplete tok RRIL_RESULT_OK None (?te\<lparr> m_bRadioRequestPending := False \<rparr>))"
    by (simp only: radio_power_done_def Let_def)
  then show ?thesis
    using handled_after [OF c handled_complete [OF answered_ok [OF c]]] by simp
qed

lemma shut_down_same: "same_answers te (snd (IsPlatformShutDownRequested env te))"
  by (simp add: IsPlatformShutDownRequested_def Let_def)

lemma same_answers_ok: "te_ok env te \<Longrightarrow> same_answers te te' \<Longrightarrow> te_ok env te'"
  using same_answers_answered answered_ok by blast

lemma same_answers_trans: "same_answers te te1 \<Longrightarrow> same_answers te1 te2 \<Longrightarrow> same_answers te te2"
  by (simp add: same_answers_def)

lemma handled_Core_map:
  assumes v: "core_ok env core pdata datalen" and ok: "te_ok env te"
    and k: "\<And>res rd te1. te_ok env te1 \<Longrightarrow> handled env tok te1 (Some (k res rd te1))"
  shows "handled env tok te (map_option (\<lambda>(res, rd, te1). k res rd te1) (Core env core pdata datalen te))"
proof -
  obtain res rd te1 where c: "Core env core pdata datalen te = Some (res, rd, te1)" "answered env None te te1"
    "te_ok env te1" using virtual_Core [OF v ok] .
  show ?thesis using handled_after [OF c(2) k [OF c(3)]] by (simp add: c(1))
qed

lemma radio_power_handles:
  assumes v: "pdata \<noteq> NULL_DATA \<longrightarrow> core_ok env ''CoreRadioPower'' pdata datalen" and typed: "int_data pdata"
  shows "handles env pdata datalen (RequestRadioPower env)"
proof
  fix tok te assume ok: "te_ok env te"
  show "handled env tok te (RequestRadioPower env tok pdata datalen te)"
    using typed
  proof (cases pdata rule: int_data_cases)
    case 1
    then show ?thesis using radio_power_done_handled [OF ok] by (simp add: RequestRadioPower_def)
  next
    case (2 i ints)
    define te1 where "te1 = (if i \<noteq> 0 then te\<lparr> m_RadioOffReason := E_RADIO_OFF_REASON_NONE \<rparr>
      else (case IsPlatformShutDownRequested env te of
              (True, te) \<Rightarrow> te\<lparr> m_RadioOffReason := E_RADIO_OFF_REASON_SHUTDOWN \<rparr> | (False, te) \<Rightarrow> te))"
    have same: "same_answers te te1"
      using shut_down_same [of te env] same_answers_trans same_answers_simps(6)
      by (auto simp: te1_def split: prod.split bool.split)
    note ok1 = same_answers_ok [OF ok same]
    note ok2 = same_answers_ok [OF ok1 same_answers_simps(12)]
    have clean: "handled env tok te1 (Some (radio_power_done env tok RRIL_RESULT_OK (DO_REQUEST_CLEAN_UP te1)))"
      using answered_steps(4) [OF ok1] radio_power_done_handled answered_ok handled_after by blast
    have core: "handled env tok te1 (map_option (\<lambda>(res, _, te). radio_power_done env tok res te)
        (Core env ''CoreRadioPower'' pdata datalen (te1\<lparr> m_bRadioRequestPending := True, m_RequestedRadioPower := p \<rparr>)))" for p
      by (rule handled_same [OF ok1 same_answers_simps(12)], rule handled_Core_map)
        (use 2 v in \<open>auto intro: radio_power_done_handled\<close>)
    have "RequestRadioPower env tok pdata datalen te =
        (if take 5 (property_or env ''gsm.radioreset'' ''false'') \<noteq> ''false'' \<and> \<not> i \<noteq> 0 then
           Some (radio_power_done env tok RRIL_RESULT_OK (DO_REQUEST_CLEAN_UP te1))
         else map_option (\<lambda>(res, _, te). radio_power_done env tok res te)
           (Core env ''CoreRadioPower'' pdata datalen
              (te1\<lparr> m_bRadioRequestPending := True, m_RequestedRadioPower := (if i \<noteq> 0 then 1 else 0) \<rparr>)))"
      by (simp only: RequestRadioPower_def 2 request_data.case list.case Let_def te1_def)
    then show ?thesis
      using handled_same [OF ok same] clean core by (auto simp only: split: if_split)
  qed
qed

lemma handled_option:
  assumes "core_ok env core pdata datalen" "te_ok env te"
    and "\<And>res rd te1. te_ok env te1 \<Longrightarrow> handled env tok te1 (Some (k res rd te1))"
    and "same_answers te te0"
  shows "handled env tok te (map_option (\<lambda>(res, rd, te1). k res rd te1) (Core env core pdata datalen te0))"
  by (rule handled_same [OF assms(2,4)], rule handled_Core_map [OF assms(1)]) (auto intro: assms(3))

lemma answered_at_once_handles:
  shows "core_ok env ''CoreSetCellInfoListRate'' pdata datalen \<Longrightarrow> handles env pdata datalen (RequestSetCellInfoListRate env)"
    and "core_ok env ''CoreShutdown'' pdata datalen \<Longrightarrow> handles env pdata datalen (RequestShutdown env)"
    and "core_ok env ''CoreSetDataProfile'' pdata datalen \<Longrightarrow> handles env pdata datalen (RequestSetDataProfile env)"
proof -
  show "handles env pdata datalen (RequestSetCellInfoListRate env)" if v: "core_ok env ''CoreSetCellInfoListRate'' pdata datalen"
  proof
    fix tok te assume ok: "te_ok env te"
    show "handled env tok te (RequestSetCellInfoListRate env tok pdata datalen te)"
      unfolding RequestSetCellInfoListRate_def
      by (rule handled_Core_map [OF v ok]) (simp add: handled_complete handled_refuse)
  qed
  show "handles env pdata datalen (RequestShutdown env)" if v: "core_ok env ''CoreShutdown'' pdata datalen"
  proof
    fix tok te assume ok: "te_ok env te"
    show "handled env tok te (RequestShutdown env tok pdata datalen te)"
      unfolding RequestShutdown_def
      by (rule handled_option [OF v ok _ same_answers_simps(6)]) (rule handled_complete)
  qed
  show "handles env pdata datalen (RequestSetDataProfile env)" if v: "core_ok env ''CoreSetDataProfile'' pdata datalen"
  proof
    fix tok te assume ok: "te_ok env te"
    show "handled env tok te (RequestSetDataProfile env tok pdata datalen te)"
      unfolding RequestSetDataProfile_def
      by (rule handled_Core_map [OF v ok]) (rule handled_complete)
  qed
qed

lemma screen_state_handles:
  assumes v: "pdata \<noteq> NULL_DATA \<longrightarrow> core_ok env ''CoreScreenState'' pdata datalen" and typed: "int_data pdata"
  shows "handles env pdata datalen (RequestScreenState env)"
proof
  fix tok te assume ok: "te_ok env te"
  show "handled env tok te (RequestScreenState env tok pdata datalen te)"
    using typed
  proof (cases pdata rule: int_data_cases)
    case 1
    then show ?thesis using handled_complete [OF ok] by (simp add: RequestScreenState_def Let_def)
  next
    case (2 i ints)
    let ?te = "te\<lparr> m_ScreenState := i \<rparr>"
    have core: "handled env tok te (map_option
        (\<lambda>(_, _, te). (RRIL_RESULT_OK, RIL_onRequestComplete tok RRIL_RESULT_OK None te))
        (Core env ''CoreScreenState'' pdata datalen ?te))"
      using 2 v by (intro handled_option [OF _ ok _ same_answers_simps(7)] handled_complete) simp_all
    have plain: "handled env tok te (Some (RRIL_RESULT_OK, RIL_onRequestComplete tok RRIL_RESULT_OK None ?te))"
      by (rule handled_same [OF ok same_answers_simps(7)]) (rule handled_complete)
    show ?thesis
      using core plain handled_complete [OF ok] by (auto simp: RequestScreenState_def Let_def 2)
  qed
qed

lemma broadcast_activation_handles:
  assumes typed: "int_data pdata"
  shows "handles env pdata datalen (RequestGsmSmsBroadcastActivation env)"
proof
  fix tok te assume ok: "te_ok env te"
  have finished: "handled env tok te (Some (RRIL_RESULT_OK, RIL_onRequestComplete tok RRIL_RESULT_OK None
      (if GetSimAppState te1 = RIL_APPSTATE_READY \<and> \<not> m_bCbsActivationTimerRunning te1
       then RIL_requestTimedCallback ''triggerCellBroadcastActivation'' None 0 100000
              (te1\<lparr> m_bCbsActivationTimerRunning := True \<rparr>) else te1)))"
    if same: "same_answers te te1" for te1
  proof -
    note ok1 = same_answers_ok [OF ok same]
    have "handled env tok te1 (Some (RRIL_RESULT_OK, RIL_onRequestComplete tok RRIL_RESULT_OK None
        (RIL_requestTimedCallback ''triggerCellBroadcastActivation'' None 0 100000
           (te1\<lparr> m_bCbsActivationTimerRunning := True \<rparr>))))"
      by (rule handled_same [OF ok1 same_answers_simps(14) [where t = True]])
        (meson answered_ok answered_steps(2) handled_after handled_complete)
    then show ?thesis using handled_same [OF ok same] handled_complete by auto
  qed
  show "handled env tok te (RequestGsmSmsBroadcastActivation env tok pdata datalen te)"
    using typed
  proof (cases pdata rule: int_data_cases)
    case 1
    then show ?thesis using ok by (simp add: RequestGsmSmsBroadcastActivation_def handled_refuse)
  next
    case (2 i ints)
    then show ?thesis
      using finished [OF same_answers_simps(10), of i] ok
      by (simp add: RequestGsmSmsBroadcastActivation_def Let_def handled_refuse)
  qed
qed

lemma hook_handles:
  shows "ref_ok env ''CoreHookRaw'' pdata datalen \<Longrightarrow> handles env pdata datalen (RequestHookRaw env)"
    "ref_ok env ''CoreHookStrings'' pdata datalen \<Longrightarrow> handles env pdata datalen (RequestHookStrings env)"
proof -
  show "ref_ok env ''CoreHookRaw'' pdata datalen \<Longrightarrow> handles env pdata datalen (RequestHookRaw env)"
    unfolding RequestHookRaw_def
    by (rule handlesI, rule handled_CoreRef, assumption, assumption) (auto intro: handled_refuse queue_request_handled)
  show "ref_ok env ''CoreHookStrings'' pdata datalen \<Longrightarrow> handles env pdata datalen (RequestHookStrings env)"
    unfolding RequestHookStrings_def
    by (rule handlesI, rule handled_CoreRef, assumption, assumption) (auto intro: handled_refuse handled_complete queue_request_handled)
qed

subsection \<open>Data calls\<close>

text \<open>
  The data of the request to set up a data call: strings, seven of them where the version of the
  interface has the type of the connection as the seventh.
\<close>

fun setup_data :: "te_env \<Rightarrow> request_data \<Rightarrow> nat \<Rightarrow> bool" where
  "setup_data env NULL_DATA datalen \<longleftrightarrow> True"
| "setup_data env (Strings args) datalen \<longleftrightarrow>
     (datalen < 6 * 4 \<or> (RIL_VERSION env \<ge> 6 \<longrightarrow> length args > 6) \<and> length args > 2)"
| "setup_data env _ datalen \<longleftrightarrow> False"

definition cid_has_channel :: "te_env \<Rightarrow> request_data \<Rightarrow> nat \<Rightarrow> bool" where
  "cid_has_channel env pdata datalen \<longleftrightarrow>
     (\<forall>te. te_ok env te \<longrightarrow> (\<forall>rd i te'. CoreRef env ''CoreSetupDataCall'' pdata datalen 0 te =
        Some (RRIL_RESULT_OK, rd, i, te') \<longrightarrow> GetChnlFromContextID i (data_calls te') \<noteq> None))"

lemma setup_error_same: "same_answers te (setup_error env k te)"
  by (simp add: setup_error_def same_answers_def Let_def split: option.split)

lemma handled_fail_same:
  "te_ok env te \<Longrightarrow> same_answers te te' \<Longrightarrow> res \<noteq> RRIL_RESULT_OK \<Longrightarrow> handled env tok te (Some (res, te'))"
  by (rule handled_same) (auto intro: handled_refuse)

lemma setup_new_call_handled:
  assumes v: "ref_ok env ''CoreSetupDataCall'' pdata datalen" and "cid_has_channel env pdata datalen" and ok: "te_ok env te"
  shows "handled env tok te (setup_new_call env tok pdata datalen te)"
  unfolding setup_new_call_def
proof (rule handled_CoreRef [OF v ok])
  fix res rd j te1
  assume c: "CoreRef env ''CoreSetupDataCall'' pdata datalen 0 te = Some (res, rd, j, te1)" and ok1: "te_ok env te1"
  let ?call = "case GetChnlFromContextID j (data_calls te1) of
      None \<Rightarrow> Some (res, te1\<lparr> m_bIsSetupDataCallOngoing := True \<rparr>)
    | Some k \<Rightarrow> map_option (\<lambda>(res, te). (res, if res \<noteq> RRIL_RESULT_OK then setup_error env (Some k) te
                                            else te\<lparr> m_bIsSetupDataCallOngoing := True \<rparr>))
        (queue_command env (request_command env RIL_REQUEST_SETUP_DATA_CALL
             (ril_channel (the (channels (data_calls te1) ! k))) tok rd
             (Some ''ParseSetupDataCall'') (Some ''PostSetupDataCallCmdHandler'') te1) False te1)"
  have call: "handled env tok te1 ?call" if r: "res = RRIL_RESULT_OK"
  proof -
    obtain k where k: "GetChnlFromContextID j (data_calls te1) = Some k"
      using assms(2) ok c [unfolded r] unfolding cid_has_channel_def by blast
    show ?thesis unfolding k option.case
      by (rule handled_map_same [where f = "\<lambda>res te. if res \<noteq> RRIL_RESULT_OK then setup_error env (Some k) te
            else te\<lparr> m_bIsSetupDataCallOngoing := True \<rparr>", OF queue_request_handled(1) [OF ok1]])
        (simp add: setup_error_same)
  qed
  show "handled env tok te1 (if res \<noteq> RRIL_RESULT_OK then Some (res, setup_error env None te1) else ?call)"
    using call handled_fail_same [OF ok1 setup_error_same] by simp
qed

lemma setup_success_handled:
  assumes "te_ok env te" "tok \<noteq> None"
  shows "handled env tok te (Some (RRIL_RESULT_OK, HandleSetupDataCallSuccess env j tok te))"
  using handled_same [OF assms(1) same_answers_simps(8) [where t = False] handled_complete] assms(2)
  by (simp add: HandleSetupDataCallSuccess_def Let_def)

lemma share_default_pdn_handled:
  assumes v: "ref_ok env f pdata datalen" and ok: "te_ok env te" and tok: "tok \<noteq> None"
  shows "case share_default_pdn env tok apn pdp te of
      None \<Rightarrow> False | Some (Inl r) \<Rightarrow> handled env tok te (Some r) | Some (Inr te') \<Rightarrow> answered env None te te'"
proof (cases "GetChnlFromContextID (m_uiDefaultPDNCid te) (data_calls te)")
  case None
  then show ?thesis using ok by (simp add: share_default_pdn_def)
next
  case (Some k)
  let ?te = "te\<lparr> data_calls := set_channel k (IncrementRefCount (the (channels (data_calls te) ! k))) (data_calls te) \<rparr>"
  have success: "handled env tok te (Some (RRIL_RESULT_OK,
      HandleSetupDataCallSuccess env (m_uiDefaultPDNCid te) tok ?te))"
    by (rule handled_same [OF ok same_answers_simps(9)]) (rule setup_success_handled [OF _ tok])
  obtain res te1 where h: "HandleSetupDefaultPDN env tok k te = Some (res, te1)"
      "answered env (if res = RRIL_RESULT_OK then tok else None) te te1"
    using v ok unfolding ref_ok_def handled_def by blast
  have "handled env tok te (Some (res, te1))" using h(2) by (simp add: handled_def)
  then show ?thesis
    using success h ok by (auto simp: share_default_pdn_def Some Let_def split: if_splits)
qed

lemma setup_data_call_handled:
  assumes v: "ref_ok env ''CoreSetupDataCall'' pdata datalen" and typed: "setup_data env pdata datalen"
    and chnl: "cid_has_channel env pdata datalen" and ok: "te_ok env te" and tok: "tok \<noteq> None"
  shows "handled env tok te (RequestSetupDataCall env tok pdata datalen te)"
proof (cases pdata)
  case NULL_DATA
  then show ?thesis using handled_fail_same [OF ok setup_error_same] by (simp add: RequestSetupDataCall_def)
next
  case (Strings args)
  show ?thesis
  proof (cases "datalen < 6 * 4 \<or> \<not> fst (IsSetupDataCallAllowed te)")
    case True
    then show ?thesis
      using handled_fail_same [OF ok setup_error_same] handled_complete [OF ok] typed Strings
      by (auto simp: RequestSetupDataCall_def Let_def split: prod.split)
  next
    case False
    define pdp where "pdp = (if RIL_VERSION env \<ge> 6 then args ! 6 else None)"
    have eq: "RequestSetupDataCall env tok pdata datalen te =
        (case share_default_pdn env tok (args ! 2) pdp te of
           None \<Rightarrow> None | Some (Inl r) \<Rightarrow> Some r | Some (Inr te) \<Rightarrow> setup_new_call env tok pdata datalen te)"
      using False typed Strings by (auto simp: RequestSetupDataCall_def Let_def pdp_def split: prod.split)
    show ?thesis
      using share_default_pdn_handled [OF v ok tok, of "args ! 2" pdp] handled_after
        setup_new_call_handled [OF v chnl answered_ok]
      unfolding eq by (auto split: option.splits sum.splits)
  qed
qed (use typed in auto)

section \<open>Every request is answered once\<close>

lemmas plain_request_defs =
  RequestGetSimStatus_def RequestEnterSimPin_def RequestEnterSimPuk_def RequestEnterSimPin2_def
  RequestEnterSimPuk2_def RequestChangeSimPin_def RequestChangeSimPin2_def
  RequestEnterNetworkDepersonalization_def RequestGetCurrentCalls_def RequestDial_def
  RequestGetImsi_def RequestHangupWaitingOrBackground_def RequestUdub_def
  RequestLastCallFailCause_def RequestSignalStrength_def RequestOperator_def RequestDtmf_def
  RequestSendSms_def RequestSendSmsExpectMore_def RequestSendUssd_def RequestCancelUssd_def
  RequestGetClir_def RequestSetClir_def RequestQueryCallForwardStatus_def RequestSetCallForward_def
  RequestQueryCallWaiting_def RequestSetCallWaiting_def RequestSmsAcknowledge_def RequestGetImei_def
  RequestISimAuthenticate_def RequestGetImeisv_def RequestAnswer_def RequestQueryFacilityLock_def
  RequestChangeBarringPassword_def RequestQueryNetworkSelectionMode_def RequestBasebandVersion_def
  RequestSetMute_def RequestGetMute_def RequestQueryClip_def RequestLastDataCallFailCause_def
  RequestResetRadio_def RequestSetSuppSvcNotification_def RequestWriteSmsToSim_def
  RequestDeleteSmsOnSim_def RequestSetBandMode_def RequestQueryAvailableBandMode_def
  RequestStkGetProfile_def RequestStkSetProfile_def RequestStkSendEnvelopeCommand_def
  RequestStkSendTerminalResponse_def RequestStkHandleCallSetupRequestedFromSim_def
  RequestExplicitCallTransfer_def RequestGetPreferredNetworkType_def
  RequestGetNeighboringCellIDs_def RequestCdmaSetSubscription_def
  RequestCdmaSetRoamingPreference_def RequestCdmaQueryRoamingPreference_def RequestSetTtyMode_def
  RequestQueryTtyMode_def RequestGsmGetBroadcastSmsConfig_def RequestGetSmscAddress_def
  RequestSetSmscAddress_def RequestReportSmsMemoryStatus_def RequestAckIncomingGsmSmsWithPdu_def
  RequestStkSendEnvelopeWithStatus_def RequestSimTransmitApduBasic_def RequestSimOpenChannel_def
  RequestSimCloseChannel_def RequestSimTransmitApduChannel_def

lemma not_supported_handles:
  "handles env pdata datalen not_supported" "handles env pdata datalen RequestDeviceIdentity"
  "handles env pdata datalen RequestExitEmergencyCallbackMode"
  by (rule handlesI, simp add: not_supported_def RequestDeviceIdentity_def
      RequestExitEmergencyCallbackMode_def handled_complete handled_refuse)+

lemma if_cell_info_handles:
  "handles env pdata datalen h \<Longrightarrow> handles env pdata datalen (if_cell_info h)"
  using not_supported_handles(1) by (auto simp: handles_def if_cell_info_def)

lemma delay_handled:
  assumes ok: "te_ok env te" and typed: "int_data pdata" and tok: "tok \<noteq> None"
  shows "handled env tok te (DelaySetPrefNetTypeRequest env pdata datalen tok te)"
  using typed
proof (cases pdata rule: int_data_cases)
  case 1
  then show ?thesis using ok by (simp add: DelaySetPrefNetTypeRequest_def handled_refuse)
next
  case (2 i ints)
  have "answered env tok te (te\<lparr> m_pPrefNetTypeReqInfo := Some (tok, i, datalen) \<rparr>)"
    if "m_pPrefNetTypeReqInfo te = None"
    using ok that by (simp add: answered_def te_ok_def answers_def deferred_def)
  then show ?thesis using 2 ok by (auto simp: DelaySetPrefNetTypeRequest_def handled_refuse handled_success)
qed

lemma set_preferred_handles:
  assumes "core_ok env ''CoreSetPreferredNetworkType'' pdata datalen" "int_data pdata"
  shows "handles env pdata datalen (set_preferred_network_type env)"
proof
  fix tok :: RIL_Token and te assume ok: "te_ok env te" and tok: "tok \<noteq> None"
  have "handles env pdata datalen (RequestSetPreferredNetworkType env)" by (rule immediate_handles(1) [OF assms(1)])
  then show "handled env tok te (set_preferred_network_type env tok pdata datalen te)"
    using delay_handled [OF ok assms(2) tok] ok tok by (simp add: set_preferred_network_type_def handles_def)
qed

text \<open>The data of a request has the type the interface gives it.\<close>

definition typed_request :: "te_env \<Rightarrow> int \<Rightarrow> request_data \<Rightarrow> nat \<Rightarrow> bool" where
  "typed_request env requestId pdata datalen \<longleftrightarrow>
     (if requestId \<in> {RIL_REQUEST_SET_LOCATION_UPDATES, RIL_REQUEST_RADIO_POWER, RIL_REQUEST_SCREEN_STATE,
           RIL_REQUEST_GSM_SMS_BROADCAST_ACTIVATION, RIL_REQUEST_SET_PREFERRED_NETWORK_TYPE}
      then int_data pdata
      else requestId = RIL_REQUEST_SETUP_DATA_CALL \<longrightarrow> setup_data env pdata datalen)"

text \<open>What the modem specific functions must keep to in the handlers that do not look at all their results.\<close>

definition results_fit :: "te_env \<Rightarrow> int \<Rightarrow> request_data \<Rightarrow> nat \<Rightarrow> bool" where
  "results_fit env requestId pdata datalen \<longleftrightarrow>
     (requestId = RIL_REQUEST_DATA_REGISTRATION_STATE \<longrightarrow>
        not_immediate env ''CoreGPRSRegistrationState'' pdata datalen) \<and>
     (requestId = RIL_REQUEST_SET_NETWORK_SELECTION_AUTOMATIC \<longrightarrow>
        mode_saved env ''CoreSetNetworkSelectionAutomatic'' pdata datalen) \<and>
     (requestId = RIL_REQUEST_SET_NETWORK_SELECTION_MANUAL \<longrightarrow>
        mode_saved env ''CoreSetNetworkSelectionManual'' pdata datalen) \<and>
     (requestId = RIL_REQUEST_SETUP_DATA_CALL \<longrightarrow> cid_has_channel env pdata datalen)"

lemma setup_data_call_handles:
  "ref_ok env ''CoreSetupDataCall'' pdata datalen \<Longrightarrow> setup_data env pdata datalen \<Longrightarrow> cid_has_channel env pdata datalen \<Longrightarrow>
     handles env pdata datalen (RequestSetupDataCall env)"
  by (rule handlesI) (rule setup_data_call_handled)

lemma special_plain_handles:
  shows "core_ok env ''CoreSimIo'' pdata datalen \<Longrightarrow> handles env pdata datalen (RequestSimIo env)" "core_ok env ''CoreSetFacilityLock'' pdata datalen \<Longrightarrow> handles env pdata datalen (RequestSetFacilityLock env)"
    "core_ok env ''CoreSimAuthentication'' pdata datalen \<Longrightarrow> handles env pdata datalen (RequestSimAuthentication env)"
  by (simp_all add: RequestSimIo_def RequestSetFacilityLock_def RequestSimAuthentication_def
      std_request_handles)

lemmas handler_facts = std_request_handles call_handles dtmf_handles registration_handles
  GPRS_registration_handles network_selection_handles network_query_handles immediate_handles
  location_updates_handles radio_power_handles answered_at_once_handles screen_state_handles
  broadcast_activation_handles hook_handles setup_data_call_handles not_supported_handles
  if_cell_info_handles set_preferred_handles special_plain_handles

text \<open>
  The virtual function of a request, in the order of the cases, empty where there is none, and its
  contract for the data of the request.
\<close>

definition core_of_1 :: "(int \<times> string) list" where
  "core_of_1 =
     [(RIL_REQUEST_GET_SIM_STATUS, ''CoreGetSimStatus''),
      (RIL_REQUEST_ENTER_SIM_PIN, ''CoreEnterSimPin''),
      (RIL_REQUEST_ENTER_SIM_PUK, ''CoreEnterSimPuk''),
      (RIL_REQUEST_ENTER_SIM_PIN2, ''CoreEnterSimPin2''),
      (RIL_REQUEST_ENTER_SIM_PUK2, ''CoreEnterSimPuk2''),
      (RIL_REQUEST_CHANGE_SIM_PIN, ''CoreChangeSimPin''),
      (RIL_REQUEST_CHANGE_SIM_PIN2, ''CoreChangeSimPin2''),
      (RIL_REQUEST_ENTER_NETWORK_DEPERSONALIZATION, ''CoreEnterNetworkDepersonalization''),
      (RIL_REQUEST_GET_CURRENT_CALLS, ''CoreGetCurrentCalls''),
      (RIL_REQUEST_DIAL, ''CoreDial''),
      (RIL_REQUEST_GET_IMSI, ''CoreGetImsi''),
      (RIL_REQUEST_HANGUP, ''CoreHangup''),
      (RIL_REQUEST_HANGUP_WAITING_OR_BACKGROUND, ''CoreHangupWaitingOrBackground''),
      (RIL_REQUEST_HANGUP_FOREGROUND_RESUME_BACKGROUND, ''CoreHangupForegroundResumeBackground''),
      (RIL_REQUEST_SWITCH_HOLDING_AND_ACTIVE, ''CoreSwitchHoldingAndActive''),
      (RIL_REQUEST_CONFERENCE, ''CoreConference''),
      (RIL_REQUEST_UDUB, ''CoreUdub''),
      (RIL_REQUEST_LAST_CALL_FAIL_CAUSE, ''CoreLastCallFailCause''),
      (RIL_REQUEST_SIGNAL_STRENGTH, ''CoreSignalStrength''),
      (RIL_REQUEST_VOICE_REGISTRATION_STATE, ''CoreRegistrationState''),
      (RIL_REQUEST_DATA_REGISTRATION_STATE, ''CoreGPRSRegistrationState''),
      (RIL_REQUEST_OPERATOR, ''CoreOperator''),
      (RIL_REQUEST_RADIO_POWER, ''CoreRadioPower''),
      (RIL_REQUEST_DTMF, ''CoreDtmf''),
      (RIL_REQUEST_SEND_SMS, ''CoreSendSms''),
      (RIL_REQUEST_SEND_SMS_EXPECT_MORE, ''CoreSendSmsExpectMore''),
      (RIL_REQUEST_SETUP_DATA_CALL, ''CoreSetupDataCall''),
      (RIL_REQUEST_SIM_IO, ''CoreSimIo''),
      (RIL_REQUEST_SEND_USSD, ''CoreSendUssd''),
      (RIL_REQUEST_CANCEL_USSD, ''CoreCancelUssd''),
      (RIL_REQUEST_GET_CLIR, ''CoreGetClir''),
      (RIL_REQUEST_SET_CLIR, ''CoreSetClir'')]"

definition core_of_2 :: "(int \<times> string) list" where
  "core_of_2 =
     [(RIL_REQUEST_QUERY_CALL_FORWARD_STATUS, ''CoreQueryCallForwardStatus''),
      (RIL_REQUEST_SET_CALL_FORWARD, ''CoreSetCallForward''),
      (RIL_REQUEST_QUERY_CALL_WAITING, ''CoreQueryCallWaiting''),
      (RIL_REQUEST_SET_CALL_WAITING, ''CoreSetCallWaiting''),
      (RIL_REQUEST_SMS_ACKNOWLEDGE, ''CoreSmsAcknowledge''),
      (RIL_REQUEST_GET_IMEI, ''CoreGetImei''),
      (RIL_REQUEST_GET_IMEISV, ''CoreGetImeisv''),
      (RIL_REQUEST_ANSWER, ''CoreAnswer''),
      (RIL_REQUEST_DEACTIVATE_DATA_CALL, ''CoreDeactivateDataCall''),
      (RIL_REQUEST_QUERY_FACILITY_LOCK, ''CoreQueryFacilityLock''),
      (RIL_REQUEST_SET_FACILITY_LOCK, ''CoreSetFacilityLock''),
      (RIL_REQUEST_CHANGE_BARRING_PASSWORD, ''CoreChangeBarringPassword''),
      (RIL_REQUEST_QUERY_NETWORK_SELECTION_MODE, ''CoreQueryNetworkSelectionMode''),
      (RIL_REQUEST_SET_NETWORK_SELECTION_AUTOMATIC, ''CoreSetNetworkSelectionAutomatic''),
      (RIL_REQUEST_SET_NETWORK_SELECTION_MANUAL, ''CoreSetNetworkSelectionManual''),
      (RIL_REQUEST_QUERY_AVAILABLE_NETWORKS, ''CoreQueryAvailableNetworks''),
      (RIL_REQUEST_DTMF_START, ''CoreDtmfStart''),
      (RIL_REQUEST_DTMF_STOP, ''CoreDtmfStop''),
      (RIL_REQUEST_BASEBAND_VERSION, ''CoreBasebandVersion''),
      (RIL_REQUEST_SEPARATE_CONNECTION, ''CoreSeparateConnection''),
      (RIL_REQUEST_SET_MUTE, ''CoreSetMute''),
      (RIL_REQUEST_GET_MUTE, ''CoreGetMute''),
      (RIL_REQUEST_QUERY_CLIP, ''CoreQueryClip''),
      (RIL_REQUEST_LAST_DATA_CALL_FAIL_CAUSE, ''CoreLastDataCallFailCause''),
      (RIL_REQUEST_DATA_CALL_LIST, ''''),
      (RIL_REQUEST_RESET_RADIO, ''CoreResetRadio''),
      (RIL_REQUEST_OEM_HOOK_RAW, ''CoreHookRaw''),
      (RIL_REQUEST_OEM_HOOK_STRINGS, ''CoreHookStrings''),
      (RIL_REQUEST_SCREEN_STATE, ''CoreScreenState''),
      (RIL_REQUEST_SET_SUPP_SVC_NOTIFICATION, ''CoreSetSuppSvcNotification''),
      (RIL_REQUEST_WRITE_SMS_TO_SIM, ''CoreWriteSmsToSim''),
      (RIL_REQUEST_DELETE_SMS_ON_SIM, ''CoreDeleteSmsOnSim'')]"

definition core_of_3 :: "(int \<times> string) list" where
  "core_of_3 =
     [(RIL_REQUEST_SET_BAND_MODE, ''CoreSetBandMode''),
      (RIL_REQUEST_QUERY_AVAILABLE_BAND_MODE, ''CoreQueryAvailableBandMode''),
      (RIL_REQUEST_STK_GET_PROFILE, ''CoreStkGetProfile''),
      (RIL_REQUEST_STK_SET_PROFILE, ''CoreStkSetProfile''),
      (RIL_REQUEST_STK_SEND_ENVELOPE_COMMAND, ''CoreStkSendEnvelopeCommand''),
      (RIL_REQUEST_STK_SEND_TERMINAL_RESPONSE, ''CoreStkSendTerminalResponse''),
      (RIL_REQUEST_STK_HANDLE_CALL_SETUP_REQUESTED_FROM_SIM, ''CoreStkHandleCallSetupRequestedFromSim''),
      (RIL_REQUEST_EXPLICIT_CALL_TRANSFER, ''CoreExplicitCallTransfer''),
      (RIL_REQUEST_SET_PREFERRED_NETWORK_TYPE, ''CoreSetPreferredNetworkType''),
      (RIL_REQUEST_GET_PREFERRED_NETWORK_TYPE, ''CoreGetPreferredNetworkType''),
      (RIL_REQUEST_GET_NEIGHBORING_CELL_IDS, ''CoreGetNeighboringCellIDs''),
      (RIL_REQUEST_SET_LOCATION_UPDATES, ''CoreSetLocationUpdates''),
      (RIL_REQUEST_CDMA_SET_SUBSCRIPTION_SOURCE, ''''),
      (RIL_REQUEST_CDMA_SET_ROAMING_PREFERENCE, ''''),
      (RIL_REQUEST_CDMA_QUERY_ROAMING_PREFERENCE, ''''),
      (RIL_REQUEST_SET_TTY_MODE, ''CoreSetTtyMode''),
      (RIL_REQUEST_QUERY_TTY_MODE, ''CoreQueryTtyMode''),
      (RIL_REQUEST_CDMA_SET_PREFERRED_VOICE_PRIVACY_MODE, ''''),
      (RIL_REQUEST_CDMA_QUERY_PREFERRED_VOICE_PRIVACY_MODE, ''''),
      (RIL_REQUEST_CDMA_FLASH, ''''),
      (RIL_REQUEST_CDMA_BURST_DTMF, ''''),
      (RIL_REQUEST_CDMA_VALIDATE_AND_WRITE_AKEY, ''''),
      (RIL_REQUEST_CDMA_SEND_SMS, ''''),
      (RIL_REQUEST_CDMA_SMS_ACKNOWLEDGE, ''''),
      (RIL_REQUEST_GSM_GET_BROADCAST_SMS_CONFIG, ''CoreGsmGetBroadcastSmsConfig''),
      (RIL_REQUEST_GSM_SET_BROADCAST_SMS_CONFIG, ''CoreGsmSetBroadcastSmsConfig''),
      (RIL_REQUEST_GSM_SMS_BROADCAST_ACTIVATION, ''''),
      (RIL_REQUEST_CDMA_GET_BROADCAST_SMS_CONFIG, '''')]"

definition core_of_4 :: "(int \<times> string) list" where
  "core_of_4 =
     [(RIL_REQUEST_CDMA_SET_BROADCAST_SMS_CONFIG, ''''),
      (RIL_REQUEST_CDMA_SMS_BROADCAST_ACTIVATION, ''''),
      (RIL_REQUEST_CDMA_SUBSCRIPTION, ''''),
      (RIL_REQUEST_CDMA_WRITE_SMS_TO_RUIM, ''''),
      (RIL_REQUEST_CDMA_DELETE_SMS_ON_RUIM, ''''),
      (RIL_REQUEST_DEVICE_IDENTITY, ''''),
      (RIL_REQUEST_EXIT_EMERGENCY_CALLBACK_MODE, ''''),
      (RIL_REQUEST_GET_SMSC_ADDRESS, ''CoreGetSmscAddress''),
      (RIL_REQUEST_SET_SMSC_ADDRESS, ''CoreSetSmscAddress''),
      (RIL_REQUEST_REPORT_SMS_MEMORY_STATUS, ''CoreReportSmsMemoryStatus''),
      (RIL_REQUEST_REPORT_STK_SERVICE_IS_RUNNING, ''CoreReportStkServiceRunning''),
      (RIL_REQUEST_CDMA_GET_SUBSCRIPTION_SOURCE, ''''),
      (RIL_REQUEST_ISIM_AUTHENTICATION, ''CoreISimAuthenticate''),
      (RIL_REQUEST_SIM_AUTHENTICATION, ''CoreSimAuthentication''),
      (RIL_REQUEST_ACKNOWLEDGE_INCOMING_GSM_SMS_WITH_PDU, ''CoreAckIncomingGsmSmsWithPdu''),
      (RIL_REQUEST_STK_SEND_ENVELOPE_WITH_STATUS, ''CoreStkSendEnvelopeCommand''),
      (RIL_REQUEST_VOICE_RADIO_TECH, ''''),
      (RIL_REQUEST_GET_CELL_INFO_LIST, ''CoreGetCellInfoList''),
      (RIL_REQUEST_SET_UNSOL_CELL_INFO_LIST_RATE, ''CoreSetCellInfoListRate''),
      (RIL_REQUEST_SET_INITIAL_ATTACH_APN, ''CoreSetInitialAttachApn''),
      (RIL_REQUEST_IMS_REGISTRATION_STATE, ''''),
      (RIL_REQUEST_IMS_SEND_SMS, ''''),
      (RIL_REQUEST_SIM_TRANSMIT_APDU_BASIC, ''CoreSimTransmitApduBasic''),
      (RIL_REQUEST_SIM_OPEN_CHANNEL, ''CoreSimOpenChannel''),
      (RIL_REQUEST_SIM_CLOSE_CHANNEL, ''CoreSimCloseChannel''),
      (RIL_REQUEST_SIM_TRANSMIT_APDU_CHANNEL, ''CoreSimTransmitApduChannel''),
      (RIL_REQUEST_SET_DATA_PROFILE, ''CoreSetDataProfile''),
      (RIL_REQUEST_SHUTDOWN, ''CoreShutdown'')]"

definition core_of :: "(int \<times> string) list" where
  "core_of = core_of_1 @ core_of_2 @ core_of_3 @ core_of_4"

definition contract :: "te_env \<Rightarrow> int \<Rightarrow> string \<Rightarrow> request_data \<Rightarrow> nat \<Rightarrow> bool" where
  "contract env requestId f pdata datalen \<longleftrightarrow>
     (if f = [] then True
      else if requestId \<in> {RIL_REQUEST_RADIO_POWER, RIL_REQUEST_SCREEN_STATE}
      then pdata \<noteq> NULL_DATA \<longrightarrow> core_ok env f pdata datalen
      else if requestId \<in> {RIL_REQUEST_SETUP_DATA_CALL, RIL_REQUEST_OEM_HOOK_RAW, RIL_REQUEST_OEM_HOOK_STRINGS}
      then ref_ok env f pdata datalen else core_ok env f pdata datalen)"

definition virtual_ok :: "te_env \<Rightarrow> int \<Rightarrow> request_data \<Rightarrow> nat \<Rightarrow> bool" where
  "virtual_ok env requestId pdata datalen \<longleftrightarrow>
     (case map_of core_of requestId of
        None \<Rightarrow> True | Some f \<Rightarrow> contract env requestId f pdata datalen)"

definition case_ok :: "te_env \<Rightarrow> request_data \<Rightarrow> nat \<Rightarrow> int \<times> request_handler \<Rightarrow> int \<times> string \<Rightarrow> bool" where
  "case_ok env pdata datalen c f \<longleftrightarrow>
     fst f = fst c \<and>
     (contract env (fst c) (snd f) pdata datalen \<longrightarrow> typed_request env (fst c) pdata datalen \<longrightarrow>
      results_fit env (fst c) pdata datalen \<longrightarrow> handles env pdata datalen (snd c))"

lemma handlers_cases_ok:
  "list_all2 (case_ok env pdata datalen) (handlers_1 env) core_of_1"
  "list_all2 (case_ok env pdata datalen) (handlers_2 env) core_of_2"
  "list_all2 (case_ok env pdata datalen) (handlers_3 env) core_of_3"
  "list_all2 (case_ok env pdata datalen) (handlers_4 env) core_of_4"
  by (simp_all add: handlers_1_def handlers_2_def handlers_3_def handlers_4_def core_of_1_def core_of_2_def
      core_of_3_def core_of_4_def case_ok_def typed_request_def results_fit_def contract_def
      plain_request_defs handler_facts)

lemma map_of_list_all2:
  assumes "list_all2 P hs cs" "\<And>h c. P h c \<Longrightarrow> fst c = fst h" "map_of hs r = Some h"
  shows "\<exists>c. map_of cs r = Some c \<and> P (r, h) (r, c)"
  using assms(1,3)
proof (induction rule: list_all2_induct)
  case (Cons x xs y ys)
  obtain i g j c where xy: "x = (i, g)" "y = (j, c)" by (cases x, cases y)
  show ?case using Cons assms(2) [OF Cons.hyps(1)] by (auto simp: xy split: if_splits)
qed simp

lemma refused_spoof:
  "refused env requestId pdata datalen te (c \<and> \<not> IsRequestAllowedInSpoofState te requestId) =
     Some (c \<and> \<not> IsRequestAllowedInSpoofState te requestId)"
  by (auto simp: refused_def IsOemHookPossible_def IsRequestAllowedInSpoofState_def)

lemma refused_radio_off:
  "refused env requestId pdata datalen te (c \<and> \<not> IsRequestAllowedInRadioOff te requestId) =
     Some (c \<and> \<not> IsRequestAllowedInRadioOff te requestId)"
  by (auto simp: refused_def IsOemHookPossible_def IsRequestAllowedInRadioOff_def)

lemma sim_status_answered:
  assumes ok: "te_ok env te"
  shows "answered env tok te (CompleteGetSimStatusRequest env tok te)"
proof -
  let ?te = "RIL_onRequestComplete tok RIL_E_SUCCESS (Some (card_status_image env (m_pTEBase te))) te"
  have a: "answered env tok te ?te" by (rule complete_answered [OF ok])
  show ?thesis
    using a answered_trans(2) [OF a same_answers_answered [OF answered_ok [OF a] same_answers_simps(3)]]
    by (auto simp: CompleteGetSimStatusRequest_def Let_def)
qed

lemma no_modem_handled:
  "te_ok env te \<Longrightarrow> handled env tok te (Some (HandleRequestWhenNoModem env requestId tok te))"
  "te_ok env te \<Longrightarrow> handled env tok te (Some (HandleRequestInRadioOff env requestId tok te))"
  by (simp_all add: HandleRequestWhenNoModem_def HandleRequestInRadioOff_def handled_complete
      handled_refuse handled_success sim_status_answered)

lemma run_handler_handles:
  assumes "virtual_ok env requestId pdata datalen" "typed_request env requestId pdata datalen"
    "results_fit env requestId pdata datalen"
  shows "handles env pdata datalen (run_handler env requestId)"
proof (cases "map_of (handlers env) requestId")
  case None
  then show ?thesis by (simp add: run_handler_def not_supported_handles)
next
  case (Some h)
  have "list_all2 (case_ok env pdata datalen) (handlers env) core_of"
    unfolding handlers_def core_of_def by (intro list_all2_appendI handlers_cases_ok)
  then obtain c where "map_of core_of requestId = Some c" "case_ok env pdata datalen (requestId, h) (requestId, c)"
    using map_of_list_all2 [of "case_ok env pdata datalen", OF _ _ Some] by (auto simp: case_ok_def)
  then show ?thesis using assms Some by (simp add: run_handler_def case_ok_def virtual_ok_def)
qed

lemma select_handler_handles:
  assumes "handles env pdata datalen (run_handler env requestId)"
  shows "handles env pdata datalen (select_handler env requestId)"
  using assms unfolding handles_def select_handler_def
  by (simp add: handled_refuse HandleRequestWhenNotRegistered_def)

lemma handle_in_state_handles:
  assumes "handles env pdata datalen (run_handler env requestId)"
  shows "handles env pdata datalen (handle_in_state env requestId)"
  using select_handler_handles [OF assms] unfolding handles_def handle_in_state_def
  by (simp add: refused_spoof refused_radio_off no_modem_handled split: bool.split)

text \<open>Either the state decides, and the request is answered, or the handler is run.\<close>

lemma handle_in_state_runs:
  assumes "te_ok env te"
  shows "handled env tok te (handle_in_state env requestId tok pdata datalen te) \<or>
    handle_in_state env requestId tok pdata datalen te = run_handler env requestId tok pdata datalen te"
  using assms
  by (auto simp: handle_in_state_def select_handler_def refused_spoof refused_radio_off no_modem_handled
      handled_refuse HandleRequestWhenNotRegistered_def split: bool.split)

lemma handled_request_answered:
  assumes "handled env (Some t) te (handle_in_state env requestId (Some t) pdata datalen te)"
  shows "\<exists>te'. HandleRequest env requestId pdata datalen (Some t) te = Some te' \<and> te_ok env te' \<and>
    (\<forall>t'. answers t' te' = answers t' te + (if t' = t then 1 else 0))"
proof -
  obtain res te1 where r: "handle_in_state env requestId (Some t) pdata datalen te = Some (res, te1)"
    "answered env (if res = RRIL_RESULT_OK then Some t else None) te te1"
    using assms by (auto simp: handled_def)
  show ?thesis
  proof (cases "res = RRIL_RESULT_OK")
    case True
    then show ?thesis using r by (auto simp: HandleRequest_def answered_def)
  next
    case False
    then have "answered env None te te1" using r(2) by simp
    then have "answered env (Some t) te (RIL_onRequestComplete (Some t) res None te1)"
      using answered_trans(1) complete_answered answered_ok by blast
    then show ?thesis using r(1) False by (auto simp: HandleRequest_def answered_def)
  qed
qed

lemma HandleRequest_once:
  assumes "te_ok env te" "virtual_ok env requestId pdata datalen" "typed_request env requestId pdata datalen"
    "results_fit env requestId pdata datalen"
  shows "\<exists>te'. HandleRequest env requestId pdata datalen (Some t) te = Some te' \<and> te_ok env te' \<and>
    (\<forall>t'. answers t' te' = answers t' te + (if t' = t then 1 else 0))"
  using handle_in_state_handles [OF run_handler_handles [OF assms(2-4)]] assms(1)
  by (intro handled_request_answered) (simp add: handles_def)

text \<open>
  C3. Requests are answered exactly once, whatever the modem specific object does. In every state of
  the radio, the SIM and the registration, and for every request but the four named below,
  \<open>HandleRequest\<close> returns; the token of the request is then completed, handed to a timer, saved for
  later, or carried by exactly one queued command, and no other token is touched. The modem specific
  functions may do anything but answer requests or break the queues (\<open>virtual_ok\<close>), and five
  requests have their integer (\<open>typed_request\<close>). Left out are the requests whose handlers do not look
  at all the results of such a function: the data registration, the two network selections and the
  setup of a data call. With \<open>CTEBase\<close> as the object they are covered by C4.
\<close>

theorem HandleRequest_answers_once:
  assumes "te_ok env te" "virtual_ok env requestId pdata datalen" "typed_request env requestId pdata datalen"
    "requestId \<notin> {RIL_REQUEST_DATA_REGISTRATION_STATE, RIL_REQUEST_SET_NETWORK_SELECTION_AUTOMATIC,
       RIL_REQUEST_SET_NETWORK_SELECTION_MANUAL, RIL_REQUEST_SETUP_DATA_CALL}"
  shows "\<exists>te'. HandleRequest env requestId pdata datalen (Some t) te = Some te' \<and> te_ok env te' \<and>
    (\<forall>t'. answers t' te' = answers t' te + (if t' = t then 1 else 0))"
  using assms(4) by (intro HandleRequest_once [OF assms(1-3)]) (simp add: results_fit_def)

text \<open>A modem specific object that makes one AT command of every request.\<close>

definition sample_base :: te_base where
  "sample_base = \<lparr> m_RadioState = RADIO_STATE_ON, m_SimAppState = RIL_APPSTATE_READY,
     m_SimPinState = OtherPinState 0, m_VoiceCallInfo = no_calls,
     m_SelectionMode = E_NETWORK_SELECTION_MODE_AUTOMATIC, m_szOperatorNumeric = [],
     m_szPIN = [], incoming_callId = 0, isAnswerReqSent = False, incoming_status = 0,
     m_vBroadcastSmsConfigInfo = [], m_vDataProfileInfos = [] \<rparr>"

definition sample_te :: te where
  "sample_te =
     \<lparr> m_pTEBase = sample_base, m_LastModemEvent = E_MMGR_EVENT_MODEM_UP, m_bSpoofCommandsStatus = False,
       m_bRadioRequestPending = False, m_bRestrictedMode = False, m_bIsManualNetworkSearchOn = False,
       m_bIsDataSuspended = False, m_bIsSetupDataCallOngoing = False, m_bCSStatusCached = False,
       m_bPSStatusCached = False, csStat = ''1'', psStat = ''0'', epsStat = ''0'', m_enableLocationUpdates = 0,
       m_ScreenState = 1, m_pPrefNetTypeReqInfo = None, m_RequestedRadioPower = 1,
       m_RadioOffReason = E_RADIO_OFF_REASON_NONE, s_bIsShutDownRequested = False, m_uiDefaultPDNCid = 0,
       m_uiDtmfState = E_DTMF_STATE_STOP, m_bCellInfoEnabled = True, m_bVoiceCapable = True,
       m_CbsActivate = 0, m_bCbsActivationTimerRunning = False, m_nCellInfoListRate = 0x7FFFFFFF,
       m_bIsCellInfoTimerRunning = False, config_att = False,
       data_calls = fresh_data 5 2,
       queues = \<lparr> g_pTxQueue = (\<lambda>_. Some (new_queue True)), g_TxQueueEvent = (\<lambda>_. False),
         request_infos = new_table \<rparr>,
       next_cmd = 0, trace = [] \<rparr>"

definition sample_env :: te_env where
  "sample_env =
     \<lparr> te_config = sample_config, te_data_config = sample_data_config,
       Core = (\<lambda>_ _ _ te. Some (RRIL_RESULT_OK, no_request_data\<lparr> szCmd1 := ''AT'' @ [CR] \<rparr>, te)),
       CoreRef = (\<lambda>_ _ _ i te. Some (RRIL_RESULT_ERROR, no_request_data, i, te)),
       HandleSetupDefaultPDN = (\<lambda>_ _ te. Some (RRIL_RESULT_ERROR, te)),
       IsRequestSupported = base_IsRequestSupported, property_get = (\<lambda>_. None), RIL_VERSION = 9,
       RIL_RESTRICTED_STATE_CS_PS_ALL = 0x14, data_call_image = (\<lambda>_ _. []), active_call_image = (\<lambda>_ _. []),
       call_list_image = (\<lambda>_. None), card_status_image = (\<lambda>_. []), registration_image = (\<lambda>_ _. []),
       cell_info_image = (\<lambda>_. []) \<rparr>"

lemma sample_ok: "te_ok sample_env sample_te" "virtual_ok sample_env requestId pdata datalen"
  using holds_new request_table_ok_new
  by (auto simp: te_ok_def queues_ok_def sample_env_def sample_te_def sample_config_def virtual_ok_def
      contract_def core_ok_def ref_ok_def answered_def handled_def intro!: exI [of _ "[]"] split: option.split)

theorem HandleRequest_answers_once_witness:
  "\<exists>te'. HandleRequest sample_env RIL_REQUEST_HANGUP (Ints [1]) 4 (Some 7) sample_te = Some te' \<and>
     answers 7 te' = 1 \<and> answers 8 te' = 0"
proof -
  have "typed_request sample_env RIL_REQUEST_HANGUP (Ints [1]) 4" by (simp add: typed_request_def)
  moreover have "answers 7 sample_te = 0" "answers 8 sample_te = 0"
    by (simp_all add: answers_def deferred_def sample_te_def)
  ultimately show ?thesis
    using HandleRequest_answers_once [OF sample_ok, of RIL_REQUEST_HANGUP "Ints [1]" 4 7] by auto
qed

end
