(* ===== verification/AtCommands.thy ===== *)
theory AtCommands
  imports TeAnswers
begin

text \<open>
  The \<open>Core\<close> functions of \<open>CTEBase\<close> (\<open>CORE/ND/te_base.cpp\<close>): how the data of a request becomes the
  AT commands sent to the modem. Each takes the data and its size and gives the result code and
  the request data with the commands in \<open>szCmd1\<close> and \<open>szCmd2\<close>; the ones that change the state take
  and give the state too. Data of another type than the function reads, or shorter than what it
  reads, makes it \<open>None\<close>. The sizes of Android's structures are those of a 32-bit machine. A number
  stored in the pointer \<open>pContextData\<close> is given by its bytes, with size 0.

  Theory TeBase puts the functions together to the table \<open>base_Core\<close> that discharges the contract
  \<open>virtual_ok\<close>.
\<close>

section \<open>Parts they share\<close>

text \<open>
  The two buffers have 1024 cells. \<open>PrintStringNullTerminate\<close> and \<open>CopyStringNullTerminate\<close> cut a
  text that does not fit, and say so.
\<close>

definition CMD_SIZE :: nat where "CMD_SIZE = 1024"

definition command1 :: "string \<Rightarrow> REQUEST_DATA \<Rightarrow> bool \<times> REQUEST_DATA" where
  "command1 t rd = (length t < CMD_SIZE, rd\<lparr> szCmd1 := take (CMD_SIZE - 1) t \<rparr>)"

definition command2 :: "string \<Rightarrow> REQUEST_DATA \<Rightarrow> bool \<times> REQUEST_DATA" where
  "command2 t rd = (length t < CMD_SIZE, rd\<lparr> szCmd2 := take (CMD_SIZE - 1) t \<rparr>)"

type_synonym core_result = "(result_code \<times> REQUEST_DATA) option"

definition one_command :: "string \<Rightarrow> core_result" where
  "one_command t =
     (let (fits, rd) = command1 t no_request_data
      in Some (if fits then RRIL_RESULT_OK else RRIL_RESULT_ERROR, rd))"

definition two_commands :: "string \<Rightarrow> string \<Rightarrow> core_result" where
  "two_commands t1 t2 =
     (let (fits, rd) = command1 t1 no_request_data
      in if \<not> fits then Some (RRIL_RESULT_ERROR, rd)
         else
           (let (fits, rd) = command2 t2 rd
            in Some (if fits then RRIL_RESULT_OK else RRIL_RESULT_ERROR, rd)))"

definition request_error :: core_result where
  "request_error = Some (RRIL_RESULT_ERROR, no_request_data)"

definition request_not_supported :: core_result where
  "request_not_supported = Some (RIL_E_REQUEST_NOT_SUPPORTED, no_request_data)"

definition with_int :: "request_data \<Rightarrow> (int \<Rightarrow> core_result) \<Rightarrow> core_result" where
  "with_int pdata k =
     (case pdata of NULL_DATA \<Rightarrow> request_error | Ints (i # _) \<Rightarrow> k i | _ \<Rightarrow> None)"

definition with_strings :: "request_data \<Rightarrow> (string option list \<Rightarrow> core_result) \<Rightarrow> core_result" where
  "with_strings pdata k =
     (case pdata of NULL_DATA \<Rightarrow> request_error | Strings args \<Rightarrow> k args | _ \<Rightarrow> None)"

definition with_text :: "request_data \<Rightarrow> (string \<Rightarrow> core_result) \<Rightarrow> core_result" where
  "with_text pdata k =
     (case pdata of NULL_DATA \<Rightarrow> request_error | Text s \<Rightarrow> k s | _ \<Rightarrow> None)"

text \<open>Reading the pointer at an index of the array.\<close>

definition arg :: "nat \<Rightarrow> string option list \<Rightarrow> (string option \<Rightarrow> core_result) \<Rightarrow> core_result" where
  "arg i args k = (if i < length args then k (args ! i) else None)"

text \<open>The conversions of the formats; \<open>%s\<close> of NULL is \<open>(null)\<close>.\<close>

definition pct_s :: "string option \<Rightarrow> string" where
  "pct_s s = (case s of None \<Rightarrow> ''(null)'' | Some t \<Rightarrow> t)"

definition pct_u :: "int \<Rightarrow> string" where
  "pct_u i = dec_string (unat (word_of_int i :: u32))"

definition pct_d :: "int \<Rightarrow> string" where
  "pct_d i = (if i < 0 then CHR ''-'' # dec_string (nat (- i)) else dec_string (nat i))"

definition lower_hex_char :: "nat \<Rightarrow> char" where
  "lower_hex_char d = char_of (if d < 10 then 48 + d else 87 + d)"

fun lower_hex :: "nat \<Rightarrow> string" where
  "lower_hex n = (if n < 16 then [lower_hex_char n] else lower_hex (n div 16) @ [lower_hex_char (n mod 16)])"

declare lower_hex.simps [simp del]

definition pct_02x :: "int \<Rightarrow> string" where
  "pct_02x i = (let n = unat (word_of_int i :: u32) in (if n < 16 then ''0'' else []) @ lower_hex n)"

abbreviation SUB :: char where "SUB \<equiv> CHR 0x1A"

definition empty_arg :: "string option \<Rightarrow> bool" where
  "empty_arg s \<longleftrightarrow> s = None \<or> s = Some []"

section \<open>SIM\<close>

definition CoreGetSimStatus :: "request_data \<Rightarrow> nat \<Rightarrow> core_result" where
  "CoreGetSimStatus pdata datalen = one_command (''AT+CPIN?'' @ [CR])"

definition MAX_PIN_SIZE :: nat where "MAX_PIN_SIZE = 9"

definition pin_command :: "string \<Rightarrow> request_data \<Rightarrow> nat \<Rightarrow> core_result" where
  "pin_command name pdata datalen =
     with_strings pdata (\<lambda>args.
       if 4 > datalen then request_error
       else arg 0 args (\<lambda>pszPassword.
         if pszPassword = None then request_error
         else one_command (name @ ''=\"'' @ the pszPassword @ ''\"'' @ [CR])))"

definition CoreEnterSimPin :: "request_data \<Rightarrow> nat \<Rightarrow> te \<Rightarrow> (result_code \<times> REQUEST_DATA \<times> te) option" where
  "CoreEnterSimPin pdata datalen te =
     map_option (\<lambda>(res, rd). (res, rd,
         case pdata of
           Strings (Some pszPassword # _) \<Rightarrow>
             if res = RRIL_RESULT_OK
             then set_base ((m_pTEBase te)\<lparr> m_szPIN := take (MAX_PIN_SIZE - 1) pszPassword \<rparr>) te else te
         | _ \<Rightarrow> te))
       (pin_command ''AT+CPIN'' pdata datalen)"

definition CoreEnterSimPin2 :: "request_data \<Rightarrow> nat \<Rightarrow> core_result" where
  "CoreEnterSimPin2 = pin_command ''AT+CPIN2''"

text \<open>The two strings both must be there.\<close>

definition two_strings :: "request_data \<Rightarrow> nat \<Rightarrow> (string \<Rightarrow> string \<Rightarrow> core_result) \<Rightarrow> core_result" where
  "two_strings pdata datalen k =
     with_strings pdata (\<lambda>args.
       if 2 * 4 > datalen then request_error
       else arg 0 args (\<lambda>a. arg 1 args (\<lambda>b.
         case (a, b) of (Some a, Some b) \<Rightarrow> k a b | _ \<Rightarrow> request_error)))"

definition CoreEnterSimPuk :: "request_data \<Rightarrow> nat \<Rightarrow> core_result" where
  "CoreEnterSimPuk pdata datalen =
     two_strings pdata datalen (\<lambda>pszPUK pszNewPIN.
       one_command (''ATD**05*'' @ pszPUK @ ''*'' @ pszNewPIN @ ''*'' @ pszNewPIN @ ''#'' @ [CR]))"

definition CoreEnterSimPuk2 :: "request_data \<Rightarrow> nat \<Rightarrow> core_result" where
  "CoreEnterSimPuk2 pdata datalen =
     two_strings pdata datalen (\<lambda>pszPUK2 pszNewPIN2.
       one_command (''ATD**052*'' @ pszPUK2 @ ''*'' @ pszNewPIN2 @ ''*'' @ pszNewPIN2 @ ''#'' @ [CR]))"

definition change_pin_command :: "string \<Rightarrow> request_data \<Rightarrow> nat \<Rightarrow> core_result" where
  "change_pin_command facility pdata datalen =
     two_strings pdata datalen (\<lambda>pszOldPIN pszNewPIN.
       one_command (''AT+CPWD=\"'' @ facility @ ''\",\"'' @ pszOldPIN @ ''\",\"'' @ pszNewPIN @ ''\"'' @ [CR]))"

definition CoreChangeSimPin :: "request_data \<Rightarrow> nat \<Rightarrow> te \<Rightarrow> (result_code \<times> REQUEST_DATA \<times> te) option" where
  "CoreChangeSimPin pdata datalen te =
     map_option (\<lambda>(res, rd). (res, rd,
         case pdata of
           Strings (_ # Some pszNewPIN # _) \<Rightarrow>
             if res = RRIL_RESULT_OK
             then set_base ((m_pTEBase te)\<lparr> m_szPIN := take (MAX_PIN_SIZE - 1) pszNewPIN \<rparr>) te else te
         | _ \<Rightarrow> te))
       (change_pin_command ''SC'' pdata datalen)"

definition CoreChangeSimPin2 :: "request_data \<Rightarrow> nat \<Rightarrow> core_result" where
  "CoreChangeSimPin2 = change_pin_command ''P2''"

definition CoreEnterNetworkDepersonalization :: "request_data \<Rightarrow> nat \<Rightarrow> core_result" where
  "CoreEnterNetworkDepersonalization pdata datalen =
     with_strings pdata (\<lambda>args.
       if 4 \<noteq> datalen then request_error
       else arg 0 args (\<lambda>pszPassword.
         if pszPassword = None then request_error
         else one_command (''AT+CLCK=\"PN\",0,\"'' @ the pszPassword @ ''\"'' @ [CR])))"

definition CoreGetImsi :: "request_data \<Rightarrow> nat \<Rightarrow> core_result" where
  "CoreGetImsi pdata datalen = one_command (''AT+CIMI'' @ [CR])"

text \<open>The supplementary services behind a second command that asks for the cause of a failure.\<close>

definition barring_facility :: "string \<Rightarrow> bool" where
  "barring_facility s \<longleftrightarrow> s \<in> {''AO'', ''OI'', ''OX'', ''AI'', ''IR'', ''AB'', ''AG'', ''AC''}"

definition with_CEER :: "string \<Rightarrow> bool \<Rightarrow> core_result" where
  "with_CEER t b = (if b then two_commands t (''AT+CEER'' @ [CR]) else one_command t)"

definition CoreQueryFacilityLock :: "request_data \<Rightarrow> nat \<Rightarrow> core_result" where
  "CoreQueryFacilityLock pdata datalen =
     (if 3 * 4 > datalen then request_error
      else with_strings pdata (\<lambda>args.
        arg 0 args (\<lambda>pszFacility. arg 1 args (\<lambda>pszPassword. arg 2 args (\<lambda>pszClass.
          if pszFacility = None then request_error
          else
            with_CEER
              (if empty_arg pszPassword then
                 if empty_arg pszClass then ''AT+CLCK=\"'' @ the pszFacility @ ''\",2'' @ [CR]
                 else ''AT+CLCK=\"'' @ the pszFacility @ ''\",2,,'' @ the pszClass @ [CR]
               else
                 if empty_arg pszClass then
                   ''AT+CLCK=\"'' @ the pszFacility @ ''\",2,\"'' @ the pszPassword @ ''\"'' @ [CR]
                 else
                   ''AT+CLCK=\"'' @ the pszFacility @ ''\",2,\"'' @ the pszPassword @ ''\",'' @ the pszClass @ [CR])
              (barring_facility (the pszFacility)))))))"

definition MAX_FACILITY_CODE :: nat where "MAX_FACILITY_CODE = 5"

text \<open>
  The context data is a structure of 12 bytes, a result code and the name of the facility in
  \<open>MAX_FACILITY_CODE\<close> cells; \<open>mem\<close> is the memory \<open>malloc\<close> returns, of which the code sets the name.
\<close>

definition bytes_of_text :: "string \<Rightarrow> u8 list" where
  "bytes_of_text s = map (\<lambda>c. word_of_nat (of_char c)) s"

definition facility_context :: "u8 list option \<Rightarrow> string \<Rightarrow> REQUEST_DATA \<Rightarrow> REQUEST_DATA" where
  "facility_context mem pszFacility rd =
     (case mem of
        Some m \<Rightarrow>
          if take 2 pszFacility = ''SC'' \<or> take 2 pszFacility = ''FD''
          then rd\<lparr> REQUEST_DATA.pContextData := Some (take 4 m @
                   bytes_of_text (take (MAX_FACILITY_CODE - 1) (pszFacility @ replicate 4 NUL) @ [NUL]) @ drop 9 m),
                 REQUEST_DATA.cbContextData := 12 \<rparr>
          else rd\<lparr> REQUEST_DATA.pContextData := None \<rparr>
      | None \<Rightarrow> rd\<lparr> REQUEST_DATA.pContextData := None \<rparr>)"

definition set_facility_command :: "string \<Rightarrow> string \<Rightarrow> string option \<Rightarrow> string option \<Rightarrow> string" where
  "set_facility_command pszFacility pszMode pszPassword pszClass =
     ''AT+CLCK=\"'' @ pszFacility @ ''\",'' @ pszMode @
     (if empty_arg pszPassword then []
      else if empty_arg pszClass \<or> hd (the pszClass) = CHR ''0'' then '',\"'' @ the pszPassword @ ''\"''
      else '',\"'' @ the pszPassword @ ''\",'' @ the pszClass) @ [CR]"

definition CoreSetFacilityLock :: "u8 list option \<Rightarrow> request_data \<Rightarrow> nat \<Rightarrow> te \<Rightarrow> (result_code \<times> REQUEST_DATA \<times> te) option" where
  "CoreSetFacilityLock mem pdata datalen te =
     (if 4 * 4 > datalen then Some (RRIL_RESULT_ERROR, no_request_data, te)
      else
        (case pdata of
           NULL_DATA \<Rightarrow> Some (RRIL_RESULT_ERROR, no_request_data, te)
         | Strings (a # b # pszPassword # pszClass # _) \<Rightarrow>
             (case (a, b) of
                (Some pszFacility, Some pszMode) \<Rightarrow>
                  map_option (\<lambda>(res, rd).
                      if res \<noteq> RRIL_RESULT_OK then (res, rd, te)
                      else
                        (RRIL_RESULT_OK, facility_context mem pszFacility rd,
                         if pszFacility = ''SC'' then
                           set_base ((m_pTEBase te)\<lparr> m_szPIN :=
                             (if pszMode = ''1'' \<and> pszPassword \<noteq> None
                              then take (MAX_PIN_SIZE - 1) (the pszPassword) else ''CLR'') \<rparr>) te
                         else te))
                    (with_CEER (set_facility_command pszFacility pszMode pszPassword pszClass)
                       (barring_facility pszFacility))
              | _ \<Rightarrow> Some (RRIL_RESULT_ERROR, no_request_data, te))
         | _ \<Rightarrow> None))"

definition CoreChangeBarringPassword :: "request_data \<Rightarrow> nat \<Rightarrow> core_result" where
  "CoreChangeBarringPassword pdata datalen =
     (if 3 * 4 \<noteq> datalen then request_error
      else with_strings pdata (\<lambda>args.
        arg 0 args (\<lambda>pszFacility. arg 1 args (\<lambda>pszOldPassword. arg 2 args (\<lambda>pszNewPassword.
          two_commands
            (''AT+CPWD=\"'' @ pct_s pszFacility @ ''\",\"'' @ pct_s pszOldPassword @ ''\",\"'' @
               pct_s pszNewPassword @ ''\"'' @ [CR]) (''AT+CEER'' @ [CR]))))))"

section \<open>Calls\<close>

definition CoreGetCurrentCalls :: "request_data \<Rightarrow> nat \<Rightarrow> core_result" where
  "CoreGetCurrentCalls pdata datalen = one_command (''AT+CLCC'' @ [CR])"

text \<open>The structure \<open>RIL_Dial\<close> has 12 bytes.\<close>

definition CoreDial :: "request_data \<Rightarrow> nat \<Rightarrow> core_result" where
  "CoreDial pdata datalen =
     (case pdata of
        NULL_DATA \<Rightarrow> request_error
      | Dial address clir \<Rightarrow>
          if datalen \<noteq> 12 then request_error
          else one_command (''ATD'' @ pct_s address @
                 (if clir = 1 then ''I'' else if clir = 2 then ''i'' else []) @ '';'' @ [CR])
      | _ \<Rightarrow> if datalen \<noteq> 12 then request_error else None)"

definition CoreHangup :: "request_data \<Rightarrow> nat \<Rightarrow> core_result" where
  "CoreHangup pdata datalen =
     (if 4 \<noteq> datalen then request_error
      else with_int pdata (\<lambda>i. one_command (''AT+CHLD=1'' @ pct_u i @ [CR])))"

definition E_CALL_STATUS_INCOMING :: int where "E_CALL_STATUS_INCOMING = 4"
definition E_CALL_STATUS_WAITING :: int where "E_CALL_STATUS_WAITING = 5"

definition CoreHangupWaitingOrBackground :: "te_base \<Rightarrow> request_data \<Rightarrow> nat \<Rightarrow> core_result" where
  "CoreHangupWaitingOrBackground b pdata datalen =
     one_command
       (if incoming_callId b \<noteq> 0 \<and> isAnswerReqSent b \<and> incoming_status b = E_CALL_STATUS_INCOMING
        then ''AT+CHLD=1'' @ dec_string (unat (incoming_callId b)) @ [CR]
        else ''AT+CHLD=0'' @ [CR])"

definition CoreUdub :: "te_base \<Rightarrow> request_data \<Rightarrow> nat \<Rightarrow> core_result" where
  "CoreUdub b pdata datalen =
     one_command
       (if incoming_callId b \<noteq> 0 \<and> isAnswerReqSent b \<and> incoming_status b = E_CALL_STATUS_INCOMING
        then ''AT+CHLD=1'' @ dec_string (unat (incoming_callId b)) @ [CR]
        else ''AT+CHLD=0'' @ [CR])"

definition CoreHangupForegroundResumeBackground :: "request_data \<Rightarrow> nat \<Rightarrow> core_result" where
  "CoreHangupForegroundResumeBackground pdata datalen = one_command (''AT+CHLD=1'' @ [CR])"

text \<open>
  A DTMF tone that is on is stopped first; the wait for its end does not change the state, and
  \<open>CTEBase\<close> itself does nothing in \<open>HandleInternalDtmfStopReq\<close>.
\<close>

definition HandleInternalDtmfStopReq :: "te \<Rightarrow> te" where
  "HandleInternalDtmfStopReq te = te"

definition stop_dtmf :: "te \<Rightarrow> te" where
  "stop_dtmf te = (if m_uiDtmfState te = E_DTMF_STATE_START then HandleInternalDtmfStopReq te else te)"

definition with_state :: "te \<Rightarrow> core_result \<Rightarrow> (result_code \<times> REQUEST_DATA \<times> te) option" where
  "with_state te r = map_option (\<lambda>(res, rd). (res, rd, te)) r"

definition CoreSwitchHoldingAndActive :: "request_data \<Rightarrow> nat \<Rightarrow> te \<Rightarrow> (result_code \<times> REQUEST_DATA \<times> te) option" where
  "CoreSwitchHoldingAndActive pdata datalen te =
     (let te = stop_dtmf te; states = call_state ` set (m_VoiceCallInfo (m_pTEBase te)) in
      with_state te
        (one_command
           ((if E_CALL_STATUS_WAITING \<in> states \<and> E_CALL_STATUS_HELD \<in> states \<and> E_CALL_STATUS_ACTIVE \<in> states
             then ''AT+CHLD=1'' else ''AT+CHLD=2'') @ [CR])))"

definition CoreConference :: "request_data \<Rightarrow> nat \<Rightarrow> te \<Rightarrow> (result_code \<times> REQUEST_DATA \<times> te) option" where
  "CoreConference pdata datalen te = with_state (stop_dtmf te) (one_command (''AT+CHLD=3'' @ [CR]))"

definition CoreSeparateConnection :: "request_data \<Rightarrow> nat \<Rightarrow> te \<Rightarrow> (result_code \<times> REQUEST_DATA \<times> te) option" where
  "CoreSeparateConnection pdata datalen te =
     with_state (if pdata = NULL_DATA then te else stop_dtmf te)
       (with_int pdata (\<lambda>callId. one_command (''AT+CHLD=2'' @ pct_u callId @ [CR])))"

definition CoreLastCallFailCause :: "request_data \<Rightarrow> nat \<Rightarrow> core_result" where
  "CoreLastCallFailCause pdata datalen = one_command (''AT+CEER'' @ [CR])"

definition CoreAnswer :: "request_data \<Rightarrow> nat \<Rightarrow> core_result" where
  "CoreAnswer pdata datalen = one_command (''ATA'' @ [CR])"

definition CoreExplicitCallTransfer :: "request_data \<Rightarrow> nat \<Rightarrow> core_result" where
  "CoreExplicitCallTransfer pdata datalen = one_command (''AT+CHLD=4'' @ [CR])"

text \<open>The first character of the text, which is the terminator of an empty one.\<close>

definition tone_command :: "string \<Rightarrow> request_data \<Rightarrow> nat \<Rightarrow> core_result" where
  "tone_command name pdata datalen =
     with_text pdata (\<lambda>s.
       if datalen \<noteq> 4 then request_error
       else one_command (if s = [] then name else name @ [hd s] @ [CR]))"

definition CoreDtmf :: "request_data \<Rightarrow> nat \<Rightarrow> core_result" where
  "CoreDtmf = tone_command ''AT+VTS=''"

definition CoreDtmfStart :: "request_data \<Rightarrow> nat \<Rightarrow> core_result" where
  "CoreDtmfStart = tone_command ''AT+XVTS=''"

definition CoreDtmfStop :: "request_data \<Rightarrow> nat \<Rightarrow> core_result" where
  "CoreDtmfStop pdata datalen = one_command (''AT+XVTS'' @ [CR])"

definition CoreSetMute :: "request_data \<Rightarrow> nat \<Rightarrow> core_result" where
  "CoreSetMute pdata datalen =
     with_int pdata (\<lambda>nEnable. one_command (''AT+CMUT='' @ pct_d (if nEnable \<noteq> 0 then 1 else 0) @ [CR]))"

definition CoreGetMute :: "request_data \<Rightarrow> nat \<Rightarrow> core_result" where
  "CoreGetMute pdata datalen = one_command (''AT+CMUT?'' @ [CR])"

definition CoreSetTtyMode :: "request_data \<Rightarrow> nat \<Rightarrow> core_result" where
  "CoreSetTtyMode pdata datalen = request_not_supported"

definition CoreQueryTtyMode :: "request_data \<Rightarrow> nat \<Rightarrow> core_result" where
  "CoreQueryTtyMode pdata datalen = request_not_supported"

section \<open>Supplementary services\<close>

definition CoreSendUssd :: "request_data \<Rightarrow> nat \<Rightarrow> core_result" where
  "CoreSendUssd pdata datalen =
     with_text pdata (\<lambda>szUssdString.
       if 4 \<noteq> datalen then request_error
       else if szUssdString = [] then request_error
       else two_commands (''AT+CUSD=0,\"'' @ szUssdString @ ''\",15'' @ [CR]) (''AT+CEER'' @ [CR]))"

definition CoreCancelUssd :: "request_data \<Rightarrow> nat \<Rightarrow> core_result" where
  "CoreCancelUssd pdata datalen = one_command (''AT+CUSD=2'' @ [CR])"

definition CoreGetClir :: "request_data \<Rightarrow> nat \<Rightarrow> core_result" where
  "CoreGetClir pdata datalen = two_commands (''AT+CLIR?'' @ [CR]) (''AT+CEER'' @ [CR])"

definition CoreSetClir :: "request_data \<Rightarrow> nat \<Rightarrow> core_result" where
  "CoreSetClir pdata datalen =
     (if 4 \<noteq> datalen then request_error
      else with_int pdata (\<lambda>i. two_commands (''AT+CLIR='' @ pct_u i @ [CR]) (''AT+CEER'' @ [CR])))"

text \<open>No class, or voice, data and fax together, is left out of the command.\<close>

definition all_classes :: "int \<Rightarrow> bool" where
  "all_classes i \<longleftrightarrow> i = 0 \<or> i = 7"

text \<open>The structure \<open>RIL_CallForwardInfo\<close> has 24 bytes.\<close>

definition CoreQueryCallForwardStatus :: "request_data \<Rightarrow> nat \<Rightarrow> core_result" where
  "CoreQueryCallForwardStatus pdata datalen =
     (if 24 \<noteq> datalen then request_error
      else
        (case pdata of
           NULL_DATA \<Rightarrow> request_error
         | CallForward info \<Rightarrow>
             map_option (\<lambda>(res, rd). (res,
                 if res = RRIL_RESULT_OK
                 then rd\<lparr> REQUEST_DATA.pContextData := Some (int_image (cf_reason info)) \<rparr> else rd))
               (two_commands
                  (if all_classes (serviceClass info)
                   then ''AT+CCFC='' @ pct_u (cf_reason info) @ '',2'' @ [CR]
                   else ''AT+CCFC='' @ pct_u (cf_reason info) @ '',2,,,'' @ pct_u (serviceClass info) @ [CR])
                  (''AT+CEER'' @ [CR]))
         | _ \<Rightarrow> None))"

definition CoreSetCallForward :: "request_data \<Rightarrow> nat \<Rightarrow> core_result" where
  "CoreSetCallForward pdata datalen =
     (if 24 \<noteq> datalen then request_error
      else
        (case pdata of
           NULL_DATA \<Rightarrow> request_error
         | CallForward info \<Rightarrow>
             (let szNumber = (case cf_number info of None \<Rightarrow> [] | Some s \<Rightarrow> take 254 s) in
              two_commands
                (''AT+CCFC='' @ pct_u (cf_reason info) @ '','' @ pct_u (cf_status info) @ '',\"'' @ szNumber @
                 ''\",'' @ pct_u (toa info) @
                 (if serviceClass info \<noteq> 0 then
                    '','' @ pct_u (serviceClass info) @
                    (if timeSeconds info \<noteq> 0 then '',,,'' @ pct_u (timeSeconds info) else [])
                  else if timeSeconds info \<noteq> 0 then '',,,,'' @ pct_u (timeSeconds info) else []) @ [CR])
                (''AT+CEER'' @ [CR]))
         | _ \<Rightarrow> None))"

definition CoreQueryCallWaiting :: "request_data \<Rightarrow> nat \<Rightarrow> core_result" where
  "CoreQueryCallWaiting pdata datalen =
     (if 4 \<noteq> datalen then request_error
      else with_int pdata (\<lambda>nInfoClasses.
        two_commands
          (if all_classes nInfoClasses then ''AT+CCWA=1,2'' @ [CR]
           else ''AT+CCWA=1,2,'' @ pct_u nInfoClasses @ [CR])
          (''AT+CEER'' @ [CR])))"

definition CoreSetCallWaiting :: "request_data \<Rightarrow> nat \<Rightarrow> core_result" where
  "CoreSetCallWaiting pdata datalen =
     (if 2 * 4 \<noteq> datalen then request_error
      else
        (case pdata of
           NULL_DATA \<Rightarrow> request_error
         | Ints (nStatus # nInfoClasses # _) \<Rightarrow>
             two_commands
               (if nInfoClasses = 0 then ''AT+CCWA=1,'' @ pct_u nStatus @ [CR]
                else ''AT+CCWA=1,'' @ pct_u nStatus @ '','' @ pct_u nInfoClasses @ [CR])
               (''AT+CEER'' @ [CR])
         | _ \<Rightarrow> None))"

definition CoreQueryClip :: "request_data \<Rightarrow> nat \<Rightarrow> core_result" where
  "CoreQueryClip pdata datalen = two_commands (''AT+CLIP?'' @ [CR]) (''AT+CEER'' @ [CR])"

definition CoreQueryCnap :: core_result where
  "CoreQueryCnap = one_command (''AT+CNAP?'' @ [CR])"

definition CoreSetSuppSvcNotification :: "request_data \<Rightarrow> nat \<Rightarrow> core_result" where
  "CoreSetSuppSvcNotification pdata datalen =
     (if 4 \<noteq> datalen then request_error
      else with_int pdata (\<lambda>i. one_command (''AT+CSSN='' @ pct_u i @ '','' @ pct_u i @ [CR])))"

section \<open>Short messages\<close>

text \<open>An address that is not there is \<open>00\<close>; the length is that of the PDU in bytes.\<close>

definition send_sms_command :: "string \<Rightarrow> request_data \<Rightarrow> nat \<Rightarrow> core_result" where
  "send_sms_command name pdata datalen =
     with_strings pdata (\<lambda>args.
       if datalen \<noteq> 2 * 4 then request_error
       else arg 0 args (\<lambda>pszSMSAddress. arg 1 args (\<lambda>pszPDU.
         case pszPDU of
           None \<Rightarrow> request_error
         | Some pdu \<Rightarrow>
             two_commands (name @ pct_u (int (length pdu div 2)) @ [CR])
               ((case pszSMSAddress of None \<Rightarrow> ''00'' | Some a \<Rightarrow> a) @ pdu @ [SUB]))))"

definition CoreSendSms :: "request_data \<Rightarrow> nat \<Rightarrow> core_result" where
  "CoreSendSms = send_sms_command ''AT+CMGS=''"

definition CoreSendSmsExpectMore :: "request_data \<Rightarrow> nat \<Rightarrow> core_result" where
  "CoreSendSmsExpectMore = send_sms_command ''AT+CMMS=1;+CMGS=''"

definition CMS_ERROR_MEMORY_CAPACITY_EXCEEDED :: int where "CMS_ERROR_MEMORY_CAPACITY_EXCEEDED = 211"

text \<open>The second number is read whatever the size says.\<close>

definition CoreSmsAcknowledge :: "request_data \<Rightarrow> nat \<Rightarrow> core_result" where
  "CoreSmsAcknowledge pdata datalen =
     (if datalen \<noteq> 4 \<and> datalen \<noteq> 2 * 4 then request_error
      else
        (case pdata of
           NULL_DATA \<Rightarrow> request_error
         | Ints (status # failCause # _) \<Rightarrow>
             if status = 1 then one_command (''AT+CNMA=1'' @ [CR])
             else if status = 0 then
               two_commands (''AT+CNMA=2,'' @ pct_u 3 @ [CR])
                 ((if failCause = CMS_ERROR_MEMORY_CAPACITY_EXCEEDED then ''00D300'' else ''00FF00'') @ [SUB])
             else request_error
         | _ \<Rightarrow> None))"

definition CoreAckIncomingGsmSmsWithPdu :: "request_data \<Rightarrow> nat \<Rightarrow> core_result" where
  "CoreAckIncomingGsmSmsWithPdu pdata datalen =
     with_strings pdata (\<lambda>args.
       if 2 * 4 \<noteq> datalen then request_error
       else arg 0 args (\<lambda>a. arg 1 args (\<lambda>b.
         case (a, b) of
           (Some szStatus, Some szPDU) \<Rightarrow>
             two_commands
               (''AT+CNMA='' @ pct_u (if szStatus = ''1'' then 1 else 2) @ '','' @
                pct_u (int (length szPDU div 2)) @ [CR])
               (szPDU @ [SUB])
         | _ \<Rightarrow> request_error)))"

text \<open>The structure \<open>RIL_SMS_WriteArgs\<close> has 12 bytes; its PDU must be there.\<close>

definition CoreWriteSmsToSim :: "request_data \<Rightarrow> nat \<Rightarrow> core_result" where
  "CoreWriteSmsToSim pdata datalen =
     (if 12 \<noteq> datalen then request_error
      else
        (case pdata of
           NULL_DATA \<Rightarrow> request_error
         | SmsWrite status (Some pdu) smsc \<Rightarrow>
             two_commands
               (''AT+CMGW='' @ pct_u (int (length pdu div 2)) @ '','' @ pct_u status @ [CR])
               ((case smsc of None \<Rightarrow> ''00'' | Some s \<Rightarrow> s) @ pdu @ [SUB])
         | _ \<Rightarrow> None))"

definition CoreDeleteSmsOnSim :: "request_data \<Rightarrow> nat \<Rightarrow> core_result" where
  "CoreDeleteSmsOnSim pdata datalen =
     (if 4 \<noteq> datalen then request_error
      else with_int pdata (\<lambda>i. one_command (''AT+CMGD='' @ pct_u i @ [CR])))"

definition CoreGetSmscAddress :: "request_data \<Rightarrow> nat \<Rightarrow> core_result" where
  "CoreGetSmscAddress pdata datalen = one_command (''AT+CSCA?'' @ [CR])"

definition CoreSetSmscAddress :: "request_data \<Rightarrow> nat \<Rightarrow> core_result" where
  "CoreSetSmscAddress pdata datalen =
     (if 4 \<noteq> datalen then request_error
      else with_text pdata (\<lambda>szSMSC.
        one_command
          ((if szSMSC \<noteq> [] \<and> hd szSMSC = CHR ''+'' then ''AT+CSCA=\"'' else ''AT+CSCA=\"+'') @
           szSMSC @ ''\",145'' @ [CR])))"

definition CoreReportSmsMemoryStatus :: "request_data \<Rightarrow> nat \<Rightarrow> core_result" where
  "CoreReportSmsMemoryStatus pdata datalen = request_not_supported"

definition CoreGsmGetBroadcastSmsConfig :: "request_data \<Rightarrow> nat \<Rightarrow> core_result" where
  "CoreGsmGetBroadcastSmsConfig pdata datalen = one_command (''AT+CSCB?'' @ [CR])"

definition CoreGsmSetBroadcastSmsConfig ::
    "request_data \<Rightarrow> nat \<Rightarrow> te \<Rightarrow> (result_code \<times> REQUEST_DATA \<times> te) option" where
  "CoreGsmSetBroadcastSmsConfig pdata datalen te =
     (let store = (\<lambda>infos. set_base ((m_pTEBase te)\<lparr> m_vBroadcastSmsConfigInfo := infos \<rparr>) te) in
      if datalen mod 4 \<noteq> 0 \<or> (datalen \<noteq> 0 \<and> pdata = NULL_DATA) then
        Some (RRIL_RESULT_ERROR, no_request_data, store [])
      else if datalen = 0 then Some (RRIL_RESULT_OK_IMMEDIATE, no_request_data, store [])
      else
        (case pdata of
           BroadcastConfigs infos \<Rightarrow>
             if datalen div 4 \<le> length infos
             then Some (RRIL_RESULT_OK_IMMEDIATE, no_request_data, store (take (datalen div 4) infos))
             else None
         | _ \<Rightarrow> None))"

text \<open>
  The list of ranges in the command. A range is left out when one of its ends is that of the range
  before (\<open>prev\<close>); the list of services does not remember its first range. A range has at most 21
  characters, so that only appending it can fail.
\<close>

definition range_text :: "int \<times> int \<Rightarrow> string" where
  "range_text r = (if fst r = snd r then pct_u (fst r) else pct_u (fst r) @ ''-'' @ pct_u (snd r))"

fun more_ranges :: "int \<times> int \<Rightarrow> (int \<times> int) list \<Rightarrow> string \<Rightarrow> string option" where
  "more_ranges prev [] s = Some s"
| "more_ranges prev (r # rs) s =
     (if fst prev \<noteq> fst r \<and> snd prev \<noteq> snd r then
        (let t = '','' @ range_text r in
         if length s < CMD_SIZE \<and> length t < CMD_SIZE - length s then more_ranges r rs (s @ t) else None)
      else more_ranges r rs s)"

definition ranges_text :: "bool \<Rightarrow> (int \<times> int) list \<Rightarrow> string option" where
  "ranges_text remember_first rs =
     (case rs of
        [] \<Rightarrow> Some []
      | r # rs \<Rightarrow> more_ranges (if remember_first then r else (0xFFFF, 0xFFFF)) rs (range_text r))"

definition CoreGsmSmsBroadcastActivation :: "broadcast_config list \<Rightarrow> request_data \<Rightarrow> nat \<Rightarrow> core_result" where
  "CoreGsmSmsBroadcastActivation infos pdata datalen =
     (if infos = [] then
        (if 4 \<noteq> datalen then request_error
         else with_int pdata (\<lambda>fBcActivate.
           one_command ((if fBcActivate = 0 then ''AT+CSCB=1'' else ''AT+CSCB=0'') @ [CR])))
      else
        (let accepted = filter selected infos in
         if accepted \<noteq> [] then
           (case (ranges_text False (map (\<lambda>c. (fromServiceId c, toServiceId c)) accepted),
                  ranges_text True (map (\<lambda>c. (fromCodeScheme c, toCodeScheme c)) accepted)) of
              (Some szChannels, Some szLangs) \<Rightarrow>
                one_command (''AT+CSCB='' @ pct_u 0 @ '',\"'' @ szChannels @ ''\",\"'' @ szLangs @ ''\"'' @ [CR])
            | _ \<Rightarrow> request_error)
         else one_command (''AT+CSCB=0,\"\",\"\"'' @ [CR])))"

section \<open>Network\<close>

definition CoreSignalStrength :: "request_data \<Rightarrow> nat \<Rightarrow> core_result" where
  "CoreSignalStrength pdata datalen = one_command (''AT+CSQ'' @ [CR])"

definition GetCsRegistrationReadString :: string where
  "GetCsRegistrationReadString = ''AT+CREG=2;+CREG?;+CREG=0'' @ [CR]"

definition GetPsRegistrationReadString :: string where
  "GetPsRegistrationReadString = ''AT+CGREG=2;+CGREG?;+CGREG=0'' @ [CR]"

definition GetLocationUpdateString :: "bool \<Rightarrow> string" where
  "GetLocationUpdateString bIsLocationUpdateEnabled =
     (if bIsLocationUpdateEnabled then ''AT+CREG=2'' else ''AT+CREG=1'') @ [CR]"

definition CoreRegistrationState :: "request_data \<Rightarrow> nat \<Rightarrow> core_result" where
  "CoreRegistrationState pdata datalen = one_command GetCsRegistrationReadString"

definition CoreGPRSRegistrationState :: "request_data \<Rightarrow> nat \<Rightarrow> core_result" where
  "CoreGPRSRegistrationState pdata datalen = one_command GetPsRegistrationReadString"

definition CoreOperator :: "request_data \<Rightarrow> nat \<Rightarrow> core_result" where
  "CoreOperator pdata datalen =
     one_command (''AT+XCOPS=12;+XCOPS=11;+XCOPS=13;+XCOPS=9;+XCOPS=8'' @ [CR])"

definition CoreQueryNetworkSelectionMode :: "request_data \<Rightarrow> nat \<Rightarrow> core_result" where
  "CoreQueryNetworkSelectionMode pdata datalen = one_command (''AT+COPS?'' @ [CR])"

definition CoreSetNetworkSelectionAutomatic ::
    "request_data \<Rightarrow> nat \<Rightarrow> te \<Rightarrow> (result_code \<times> REQUEST_DATA \<times> te) option" where
  "CoreSetNetworkSelectionAutomatic pdata datalen te =
     Some (RRIL_RESULT_OK, no_request_data,
       set_base ((m_pTEBase te)\<lparr> m_SelectionMode := E_NETWORK_SELECTION_MODE_AUTOMATIC \<rparr>) te)"

definition MAX_OPERATOR_NUMERIC_SIZE :: nat where "MAX_OPERATOR_NUMERIC_SIZE = 10"

definition CoreSetNetworkSelectionManual ::
    "request_data \<Rightarrow> nat \<Rightarrow> te \<Rightarrow> (result_code \<times> REQUEST_DATA \<times> te) option" where
  "CoreSetNetworkSelectionManual pdata datalen te =
     (if 4 \<noteq> datalen then Some (RRIL_RESULT_ERROR, no_request_data, te)
      else
        (case pdata of
           NULL_DATA \<Rightarrow> Some (RRIL_RESULT_ERROR, no_request_data, te)
         | Text pszNumeric \<Rightarrow>
             Some (RRIL_RESULT_OK, no_request_data,
               set_base ((m_pTEBase te)\<lparr> m_SelectionMode := E_NETWORK_SELECTION_MODE_MANUAL,
                 m_szOperatorNumeric := take (MAX_OPERATOR_NUMERIC_SIZE - 1) pszNumeric \<rparr>) te)
         | _ \<Rightarrow> None))"

text \<open>\<open>None\<close> when the queue breaks; every other failure to queue the command is ignored.\<close>

definition DeactivateAllDataCalls :: "te_env \<Rightarrow> te \<Rightarrow> te option" where
  "DeactivateAllDataCalls env te =
     map_option snd
       (queue_command env
          (SetHighPriority (CCommand_one (te_config env) (next_cmd te)
             (request_channel RIL_REQUEST_DEACTIVATE_DATA_CALL) None RIL_REQUEST_DEACTIVATE_DATA_CALL
             (Some (''AT+CGACT=0'' @ [CR])) (Some ''ParseDeactivateAllDataCalls'') None)) False te)"

definition CoreQueryAvailableNetworks ::
    "te_env \<Rightarrow> request_data \<Rightarrow> nat \<Rightarrow> te \<Rightarrow> (result_code \<times> REQUEST_DATA \<times> te) option" where
  "CoreQueryAvailableNetworks env pdata datalen te =
     (case (if \<not> registered_stat (epsStat te) \<and> IsRegistered te then DeactivateAllDataCalls env te else Some te) of
        None \<Rightarrow> None
      | Some te \<Rightarrow> with_state te (one_command (''AT+COPS=?'' @ [CR])))"

definition CoreSetLocationUpdates :: "request_data \<Rightarrow> nat \<Rightarrow> core_result" where
  "CoreSetLocationUpdates pdata datalen =
     with_int pdata (\<lambda>enableLocationUpdates. one_command (GetLocationUpdateString (enableLocationUpdates \<noteq> 0)))"

section \<open>Cells\<close>

definition INT32_MAX :: int where "INT32_MAX = 2 ^ 31 - 1"

definition RestartUnsolCellInfoListTimer :: "int \<Rightarrow> te \<Rightarrow> te" where
  "RestartUnsolCellInfoListTimer newRate te =
     (if newRate > 0 \<and> newRate < INT32_MAX \<and> \<not> m_bIsCellInfoTimerRunning te
      then RIL_requestTimedCallback ''triggerCellInfoList'' None (nat (newRate div 1000)) 0
             (te\<lparr> m_bIsCellInfoTimerRunning := True \<rparr>)
      else te)"

text \<open>\<open>GetReadCellInfoString\<close> is NULL in \<open>CTEBase\<close>: nothing is copied and the command is empty.\<close>

definition GetReadCellInfoString :: "string option" where
  "GetReadCellInfoString = None"

definition requested_rate :: "int \<Rightarrow> int \<Rightarrow> int" where
  "requested_rate previousRate newRate =
     (if newRate < INT32_MAX then
        if previousRate \<noteq> newRate then (if newRate < 5000 then 5000 else newRate) else newRate
      else INT32_MAX)"

definition CoreSetCellInfoListRate ::
    "te_env \<Rightarrow> request_data \<Rightarrow> nat \<Rightarrow> te \<Rightarrow> (result_code \<times> REQUEST_DATA \<times> te) option" where
  "CoreSetCellInfoListRate env pdata datalen te =
     (case pdata of
        NULL_DATA \<Rightarrow> Some (RRIL_RESULT_ERROR, no_request_data, te)
      | Ints (newRate # _) \<Rightarrow>
          if newRate < 0 then Some (RRIL_RESULT_ERROR, no_request_data, te)
          else
            (let newRate = requested_rate (sint (m_nCellInfoListRate te)) newRate;
                 finish = (\<lambda>te. (RRIL_RESULT_OK, no_request_data,
                   RestartUnsolCellInfoListTimer newRate (te\<lparr> m_nCellInfoListRate := word_of_int newRate \<rparr>)))
             in if newRate < INT32_MAX then
                  (let rd = no_request_data\<lparr>
                         szCmd1 := (case GetReadCellInfoString of None \<Rightarrow> [] | Some s \<Rightarrow> take (CMD_SIZE - 1) s),
                         REQUEST_DATA.pContextData := Some (int_image newRate) \<rparr>
                   in if (case GetReadCellInfoString of None \<Rightarrow> False | Some s \<Rightarrow> CMD_SIZE \<le> length s) \<or>
                         \<not> memory (te_config env)
                      then Some (RRIL_RESULT_ERROR, no_request_data, te)
                      else map_option (\<lambda>(_, te). finish te)
                        (queue_command env
                           (request_command env RIL_REQUEST_GET_CELL_INFO_LIST
                              (request_channel RIL_REQUEST_GET_CELL_INFO_LIST) None rd
                              (Some ''ParseUnsolCellInfoListRate'') (Some ''PostUnsolCellInfoListRate'') te)
                           False te))
                else Some (finish te))
      | _ \<Rightarrow> None)"

section \<open>Data\<close>

definition CoreLastDataCallFailCause :: "request_data \<Rightarrow> nat \<Rightarrow> core_result" where
  "CoreLastDataCallFailCause pdata datalen = one_command (''AT+CEER'' @ [CR])"

text \<open>
  \<open>sscanf ("%d")\<close> leaves the number at 0 when there is no numeral. The number is stored in the
  pointer whether the command fits or not.
\<close>

definition scan_int :: "string \<Rightarrow> int option" where
  "scan_int s =
     (if dropWhile isspace_c s = [] then None else Some (fst (strto (- (2 ^ 31)) (2 ^ 31 - 1) 10 s)))"

definition CoreDeactivateDataCall :: "request_data \<Rightarrow> nat \<Rightarrow> core_result" where
  "CoreDeactivateDataCall pdata datalen =
     (if datalen < 4 then request_error
      else with_strings pdata (\<lambda>args.
        arg 0 args (\<lambda>pszCid.
          if empty_arg pszCid then request_error
          else
            (case scan_int (the pszCid) of
               None \<Rightarrow> request_error
             | Some nCid \<Rightarrow>
                 map_option (\<lambda>(res, rd). (res, rd\<lparr> REQUEST_DATA.pContextData := Some (int_image nCid) \<rparr>))
                   (one_command (''AT+CGACT=0,'' @ the pszCid @ '';+CGDCONT='' @ the pszCid @ [CR]))))))"

definition CoreSetInitialAttachApn :: "request_data \<Rightarrow> nat \<Rightarrow> core_result" where
  "CoreSetInitialAttachApn pdata datalen = Some (RRIL_RESULT_OK_IMMEDIATE, no_request_data)"

definition MAX_APN_SIZE :: nat where "MAX_APN_SIZE = 101"

text \<open>The profiles are forgotten first; an APN that is not there leaves an empty one.\<close>

definition CoreSetDataProfile ::
    "request_data \<Rightarrow> nat \<Rightarrow> te \<Rightarrow> (result_code \<times> REQUEST_DATA \<times> te) option" where
  "CoreSetDataProfile pdata datalen te =
     (let store = (\<lambda>infos. Some (RRIL_RESULT_OK, no_request_data,
            set_base ((m_pTEBase te)\<lparr> m_vDataProfileInfos := infos \<rparr>) te)) in
      if datalen = 0 \<or> pdata = NULL_DATA \<or> datalen mod 4 \<noteq> 0 then store []
      else
        (case pdata of
           DataProfiles infos \<Rightarrow>
             if datalen div 4 \<le> length infos
             then store (map (\<lambda>(i, apn). (i, case apn of None \<Rightarrow> [] | Some s \<Rightarrow> take (MAX_APN_SIZE - 1) s))
                    (take (datalen div 4) infos))
             else None
         | _ \<Rightarrow> None))"

section \<open>Device and SIM channels\<close>

definition CoreGetImei :: "request_data \<Rightarrow> nat \<Rightarrow> core_result" where
  "CoreGetImei pdata datalen = one_command (''AT+CGSN'' @ [CR])"

definition CoreGetImeisv :: "request_data \<Rightarrow> nat \<Rightarrow> core_result" where
  "CoreGetImeisv pdata datalen = one_command (''AT+CGMR'' @ [CR])"

definition CoreBasebandVersion :: "request_data \<Rightarrow> nat \<Rightarrow> core_result" where
  "CoreBasebandVersion pdata datalen = one_command (''at@vers:sw_version()'' @ [CR])"

definition CoreSimOpenChannel :: "request_data \<Rightarrow> nat \<Rightarrow> core_result" where
  "CoreSimOpenChannel pdata datalen =
     (if 4 \<noteq> datalen then request_error
      else with_text pdata (\<lambda>szAID. one_command (''AT+CCHO=\"'' @ szAID @ ''\"'' @ [CR])))"

definition CoreSimCloseChannel :: "request_data \<Rightarrow> nat \<Rightarrow> core_result" where
  "CoreSimCloseChannel pdata datalen =
     with_int pdata (\<lambda>sessionId. one_command (''AT+CCHC='' @ pct_d sessionId @ [CR]))"

text \<open>
  The APDU as text: two hexadecimal digits per number, without the third parameter when there is
  no data and it is negative. The structure \<open>RIL_SIM_APDU\<close> has 28 bytes.
\<close>

definition apdu_text :: "sim_apdu \<Rightarrow> string" where
  "apdu_text a =
     pct_02x (cla a) @ pct_02x (instruction a) @ pct_02x (apdu_p1 a) @ pct_02x (apdu_p2 a) @
     (if empty_arg (apdu_data a) then (if apdu_p3 a < 0 then [] else pct_02x (apdu_p3 a))
      else pct_02x (apdu_p3 a) @ the (apdu_data a))"

definition apdu_length :: "sim_apdu \<Rightarrow> int" where
  "apdu_length a =
     (if empty_arg (apdu_data a) then (if apdu_p3 a < 0 then 8 else 10)
      else 10 + int (length (the (apdu_data a))))"

definition CoreSimTransmitApduBasic :: "request_data \<Rightarrow> nat \<Rightarrow> core_result" where
  "CoreSimTransmitApduBasic pdata datalen =
     (case pdata of
        NULL_DATA \<Rightarrow> request_error
      | Apdu a \<Rightarrow>
          if 28 \<noteq> datalen then request_error
          else one_command (''AT+CSIM='' @ pct_d (apdu_length a) @ '',\"'' @ apdu_text a @ ''\"'' @ [CR])
      | _ \<Rightarrow> None)"

definition CoreSimTransmitApduChannel :: "request_data \<Rightarrow> nat \<Rightarrow> core_result" where
  "CoreSimTransmitApduChannel pdata datalen =
     (case pdata of
        NULL_DATA \<Rightarrow> request_error
      | Apdu a \<Rightarrow>
          if 28 \<noteq> datalen then request_error
          else one_command (''AT+CGLA='' @ pct_d (sessionid a) @ '','' @ pct_d (apdu_length a) @ '',\"'' @
                 apdu_text a @ ''\"'' @ [CR])
      | _ \<Rightarrow> None)"

section \<open>Requests only a modem specific class supports\<close>

definition CoreReportStkServiceRunning :: "request_data \<Rightarrow> nat \<Rightarrow> core_result" where
  "CoreReportStkServiceRunning pdata datalen = request_not_supported"

definition CoreISimAuthenticate :: "request_data \<Rightarrow> nat \<Rightarrow> core_result" where
  "CoreISimAuthenticate pdata datalen = request_not_supported"

definition CoreSimAuthentication :: "request_data \<Rightarrow> nat \<Rightarrow> core_result" where
  "CoreSimAuthentication pdata datalen = request_not_supported"

definition CoreGetCellInfoList :: "request_data \<Rightarrow> nat \<Rightarrow> core_result" where
  "CoreGetCellInfoList pdata datalen = request_not_supported"

definition CoreResetRadio :: "request_data \<Rightarrow> nat \<Rightarrow> core_result" where
  "CoreResetRadio pdata datalen = request_not_supported"

definition CoreSetBandMode :: "request_data \<Rightarrow> nat \<Rightarrow> core_result" where
  "CoreSetBandMode pdata datalen = request_not_supported"

definition CoreQueryAvailableBandMode :: "request_data \<Rightarrow> nat \<Rightarrow> core_result" where
  "CoreQueryAvailableBandMode pdata datalen = request_not_supported"

definition CoreStkGetProfile :: "request_data \<Rightarrow> nat \<Rightarrow> core_result" where
  "CoreStkGetProfile pdata datalen = request_not_supported"

definition CoreStkSetProfile :: "request_data \<Rightarrow> nat \<Rightarrow> core_result" where
  "CoreStkSetProfile pdata datalen = request_not_supported"

definition CoreStkSendEnvelopeCommand :: "request_data \<Rightarrow> nat \<Rightarrow> core_result" where
  "CoreStkSendEnvelopeCommand pdata datalen = request_not_supported"

definition CoreStkSendTerminalResponse :: "request_data \<Rightarrow> nat \<Rightarrow> core_result" where
  "CoreStkSendTerminalResponse pdata datalen = request_not_supported"

definition CoreStkHandleCallSetupRequestedFromSim :: "request_data \<Rightarrow> nat \<Rightarrow> core_result" where
  "CoreStkHandleCallSetupRequestedFromSim pdata datalen = request_not_supported"

definition CoreSetPreferredNetworkType :: "request_data \<Rightarrow> nat \<Rightarrow> core_result" where
  "CoreSetPreferredNetworkType pdata datalen = request_not_supported"

definition CoreGetPreferredNetworkType :: "request_data \<Rightarrow> nat \<Rightarrow> core_result" where
  "CoreGetPreferredNetworkType pdata datalen = request_not_supported"

definition CoreGetNeighboringCellIDs :: "request_data \<Rightarrow> nat \<Rightarrow> core_result" where
  "CoreGetNeighboringCellIDs pdata datalen = request_not_supported"

definition CoreHookRaw :: "request_data \<Rightarrow> nat \<Rightarrow> u32 \<Rightarrow> te \<Rightarrow> (result_code \<times> REQUEST_DATA \<times> u32 \<times> te) option" where
  "CoreHookRaw pdata datalen uiRilChannel te =
     Some (RIL_E_REQUEST_NOT_SUPPORTED, no_request_data, uiRilChannel, te)"

definition CoreHookStrings :: "request_data \<Rightarrow> nat \<Rightarrow> u32 \<Rightarrow> te \<Rightarrow> (result_code \<times> REQUEST_DATA \<times> u32 \<times> te) option" where
  "CoreHookStrings pdata datalen uiRilChannel te =
     Some (RIL_E_REQUEST_NOT_SUPPORTED, no_request_data, uiRilChannel, te)"

definition CoreSetupDataCall :: "request_data \<Rightarrow> nat \<Rightarrow> u32 \<Rightarrow> te \<Rightarrow> (result_code \<times> REQUEST_DATA \<times> u32 \<times> te) option" where
  "CoreSetupDataCall pdata datalen uiCID te = Some (RIL_E_REQUEST_NOT_SUPPORTED, no_request_data, uiCID, te)"

text \<open>\<open>CTEBase::HandleScreenStateReq\<close> only reports success; the data is read before.\<close>

definition CoreScreenState :: "request_data \<Rightarrow> nat \<Rightarrow> core_result" where
  "CoreScreenState pdata datalen =
     (case pdata of Ints (_ # _) \<Rightarrow> Some (RRIL_RESULT_OK, no_request_data) | _ \<Rightarrow> None)"

section \<open>Radio power\<close>

text \<open>
  What the system manager and the modem specific class answer. \<open>initialized\<close> is whether the
  initialisation has succeeded when the radio command is queued. The waits for the radio, the modem
  or the end of the daemon do not change the state themselves; what other threads do in them is
  not part of this function.
\<close>

record power_env =
  GetModem :: bool
  SendRequestModemShutdown :: bool
  GetModemOffInFlightModeState :: bool
  basic_init_signaled :: bool
  initialized :: bool
  GetRadioPowerCommand :: "bool \<Rightarrow> radio_off_reason \<Rightarrow> string option"

text \<open>Turning on: whether to go on.\<close>

definition radio_on_check :: "power_env \<Rightarrow> te \<Rightarrow> bool \<times> te" where
  "radio_on_check p te =
     (if m_LastModemEvent te \<in> {E_MMGR_NOTIFY_CORE_DUMP, E_MMGR_EVENT_MODEM_OUT_OF_SERVICE,
           E_MMGR_NOTIFY_PLATFORM_REBOOT} then (False, te)
      else
        (let te = system_call ''GetModem'' te
         in if \<not> GetModem p then (False, te\<lparr> m_bRestrictedMode := True \<rparr>)
            else (True, te\<lparr> m_bRestrictedMode := False \<rparr>)))"

text \<open>Turning off: whether a command for the modem is needed.\<close>

definition radio_off_check :: "power_env \<Rightarrow> te \<Rightarrow> bool \<times> te" where
  "radio_off_check p te =
     (if m_LastModemEvent te = E_MMGR_EVENT_MODEM_UP then
        (if m_RadioOffReason te = E_RADIO_OFF_REASON_SHUTDOWN \<and> GetRadioState te = RADIO_STATE_UNAVAILABLE
         then (False, system_call ''SendRequestModemShutdown'' te)
         else (True, te))
      else if m_LastModemEvent te = E_MMGR_EVENT_MODEM_DOWN then
        (False, SetRadioStateAndNotify RADIO_STATE_OFF
           (if m_RadioOffReason te = E_RADIO_OFF_REASON_SHUTDOWN then system_call ''CloseChannelPorts'' te else te))
      else if m_RadioOffReason te = E_RADIO_OFF_REASON_SHUTDOWN then
        (False, SetRadioStateAndNotify RADIO_STATE_OFF (system_call ''CloseChannelPorts'' te))
      else if m_RadioOffReason te = E_RADIO_OFF_REASON_AIRPLANE_MODE \<and> GetModemOffInFlightModeState p then
        (False, system_call ''ReleaseModem'' te)
      else (False, te))"

definition send_radio_power :: "te_env \<Rightarrow> power_env \<Rightarrow> bool \<Rightarrow> te \<Rightarrow> (result_code \<times> REQUEST_DATA \<times> te) option" where
  "send_radio_power env p bTurnRadioOn te =
     (case GetRadioPowerCommand p bTurnRadioOn (m_RadioOffReason te) of
        None \<Rightarrow> Some (RRIL_RESULT_OK, no_request_data, te)
      | Some szCmd \<Rightarrow>
          if \<not> IsInitializationSuccessful (te_config env) \<and> \<not> basic_init_signaled p then
            Some (RRIL_RESULT_ERROR, no_request_data, te)
          else
            (let env = env\<lparr> te_config := (te_config env)\<lparr> IsInitializationSuccessful :=
                  IsInitializationSuccessful (te_config env) \<or> initialized p \<rparr> \<rparr>
             in map_option (\<lambda>(res, te).
                  (if res = RRIL_RESULT_OK then RRIL_RESULT_OK else RRIL_RESULT_ERROR, no_request_data, te))
                (queue_command env
                   (SetHighPriority (CCommand_one (te_config env) (next_cmd te)
                      (request_channel RIL_REQUEST_RADIO_POWER) None RIL_REQUEST_RADIO_POWER (Some szCmd)
                      (Some ''ParseRadioPower'') (Some ''PostRadioPower''))) False te)))"

definition CoreRadioPower ::
    "te_env \<Rightarrow> power_env \<Rightarrow> request_data \<Rightarrow> nat \<Rightarrow> te \<Rightarrow> (result_code \<times> REQUEST_DATA \<times> te) option" where
  "CoreRadioPower env p pdata datalen te =
     (case pdata of
        Ints (i # _) \<Rightarrow>
          (case (if i \<noteq> 0 then radio_on_check p te else radio_off_check p te) of
             (True, te) \<Rightarrow> send_radio_power env p (i \<noteq> 0) te
           | (False, te) \<Rightarrow> Some (if i \<noteq> 0 then RRIL_RESULT_ERROR else RRIL_RESULT_OK, no_request_data, te))
      | _ \<Rightarrow> None)"

definition CoreCdmaSetSubscription :: "request_data \<Rightarrow> nat \<Rightarrow> core_result" where
  "CoreCdmaSetSubscription pdata datalen = request_not_supported"

definition CoreCdmaSetRoamingPreference :: "request_data \<Rightarrow> nat \<Rightarrow> core_result" where
  "CoreCdmaSetRoamingPreference pdata datalen = request_not_supported"

definition CoreCdmaQueryRoamingPreference :: "request_data \<Rightarrow> nat \<Rightarrow> core_result" where
  "CoreCdmaQueryRoamingPreference pdata datalen = request_not_supported"

section \<open>Restricted SIM access\<close>

text \<open>
  The structure \<open>RIL_SIM_IO_v6\<close> has 36 bytes. With a second PIN the command of the access is the
  second one. The context data is the number of the command in place of a pointer.
\<close>

definition CRSM_command :: "sim_io \<Rightarrow> string" where
  "CRSM_command a =
     ''AT+CRSM='' @ pct_d (io_command a) @ '','' @ pct_d (fileid a) @ '','' @ pct_d (io_p1 a) @ '','' @
     pct_d (io_p2 a) @ '','' @ pct_d (io_p3 a) @
     (case io_data a of None \<Rightarrow> [] | Some d \<Rightarrow> '',\"'' @ d @ ''\"'') @ [CR]"

definition CoreSimIo :: "request_data \<Rightarrow> nat \<Rightarrow> core_result" where
  "CoreSimIo pdata datalen =
     (case pdata of
        NULL_DATA \<Rightarrow> request_error
      | SimIo a \<Rightarrow>
          if 36 \<noteq> datalen then request_error
          else
            map_option (\<lambda>(res, rd). (res,
                if res = RRIL_RESULT_OK
                then rd\<lparr> REQUEST_DATA.pContextData := Some (int_image (io_command a)) \<rparr> else rd))
              (case io_pin2 a of
                 Some pin2 \<Rightarrow> two_commands (''AT+CPIN2=\"'' @ pin2 @ ''\"'' @ [CR]) (CRSM_command a)
               | None \<Rightarrow> one_command (CRSM_command a))
      | _ \<Rightarrow> None)"

section \<open>Shutdown\<close>

text \<open>The wait for the modem to power off does not change the state itself.\<close>

definition HandleShutdownReq :: "te_env \<Rightarrow> power_env \<Rightarrow> int \<Rightarrow> te \<Rightarrow> te option" where
  "HandleShutdownReq env p requestId te =
     (let direct = (m_LastModemEvent te = E_MMGR_EVENT_MODEM_UP \<and> GetRadioState te = RADIO_STATE_UNAVAILABLE);
          te = (if direct then system_call ''SendRequestModemShutdown'' te else te)
      in if direct \<and> SendRequestModemShutdown p then Some te
         else if m_LastModemEvent te = E_MMGR_EVENT_MODEM_UP then
           (case GetRadioPowerCommand p False E_RADIO_OFF_REASON_SHUTDOWN of
              None \<Rightarrow> Some te
            | Some szCmd \<Rightarrow>
                map_option snd
                  (queue_command env
                     (SetHighPriority (CCommand_one (te_config env) (next_cmd te) (request_channel requestId)
                        None requestId (Some szCmd) (Some ''ParseShutdown'') (Some ''PostShutdown''))) False te))
         else if m_LastModemEvent te \<in> {E_MMGR_NOTIFY_MODEM_SHUTDOWN, E_MMGR_EVENT_MODEM_DOWN} then Some te
         else Some (system_call ''CloseChannelPorts'' te))"

definition CoreShutdown ::
    "te_env \<Rightarrow> power_env \<Rightarrow> request_data \<Rightarrow> nat \<Rightarrow> te \<Rightarrow> (result_code \<times> REQUEST_DATA \<times> te) option" where
  "CoreShutdown env p pdata datalen te =
     map_option (\<lambda>te. (RRIL_RESULT_OK, no_request_data, SetRadioStateAndNotify RADIO_STATE_UNAVAILABLE te))
       (HandleShutdownReq env p RIL_REQUEST_SHUTDOWN te)"

end
