(* ===== verification/TeBase.thy ===== *)
theory TeBase
  imports AtCommands
begin

text \<open>
  \<open>CTEBase\<close> as the object behind the virtual functions of \<open>CTE\<close>: the functions of theory AtCommands
  by name, with the type of the data each one reads. The object keeps the contract \<open>virtual_ok\<close> of
  theory TeAnswers for data of that type, so that what theory TeAnswers proves for any modem
  specific class holds for it. The classes of the modems (\<open>MODEMS/te_xmm*.cpp\<close>) replace some of the
  functions.
\<close>

section \<open>The data of each function\<close>

datatype data_shape =
    AnyData | FirstInt | IntData nat | StringData nat | TextData | DialData | CallForwardData | SmsWriteData
  | ApduData | SimIoData | BroadcastData | ProfileData

fun has_shape :: "data_shape \<Rightarrow> request_data \<Rightarrow> nat \<Rightarrow> bool" where
  "has_shape AnyData _ _ \<longleftrightarrow> True"
| "has_shape FirstInt pdata _ \<longleftrightarrow> (case pdata of Ints (_ # _) \<Rightarrow> True | _ \<Rightarrow> False)"
| "has_shape _ NULL_DATA _ \<longleftrightarrow> True"
| "has_shape (IntData n) (Ints is) _ \<longleftrightarrow> n \<le> length is"
| "has_shape (StringData n) (Strings args) _ \<longleftrightarrow> n \<le> length args"
| "has_shape TextData (Text _) _ \<longleftrightarrow> True"
| "has_shape DialData (Dial _ _) _ \<longleftrightarrow> True"
| "has_shape CallForwardData (CallForward _) _ \<longleftrightarrow> True"
| "has_shape SmsWriteData (SmsWrite _ pdu _) _ \<longleftrightarrow> pdu \<noteq> None"
| "has_shape ApduData (Apdu _) _ \<longleftrightarrow> True"
| "has_shape SimIoData (SimIo _) _ \<longleftrightarrow> True"
| "has_shape BroadcastData (BroadcastConfigs infos) datalen \<longleftrightarrow> datalen div 4 \<le> length infos"
| "has_shape ProfileData (DataProfiles infos) datalen \<longleftrightarrow> datalen div 4 \<le> length infos"
| "has_shape _ _ _ \<longleftrightarrow> False"

type_synonym core_function =
  "request_data \<Rightarrow> nat \<Rightarrow> te \<Rightarrow> (result_code \<times> REQUEST_DATA \<times> te) option"

text \<open>The functions that only make commands, and those that look at the state or change it.\<close>

definition plain_core :: "(string \<times> data_shape \<times> (request_data \<Rightarrow> nat \<Rightarrow> core_result)) list" where
  "plain_core =
     [(''CoreGetSimStatus'', AnyData, CoreGetSimStatus),
      (''CoreEnterSimPin2'', StringData 1, CoreEnterSimPin2),
      (''CoreEnterSimPuk'', StringData 2, CoreEnterSimPuk),
      (''CoreEnterSimPuk2'', StringData 2, CoreEnterSimPuk2),
      (''CoreChangeSimPin2'', StringData 2, CoreChangeSimPin2),
      (''CoreEnterNetworkDepersonalization'', StringData 1, CoreEnterNetworkDepersonalization),
      (''CoreGetImsi'', AnyData, CoreGetImsi),
      (''CoreQueryFacilityLock'', StringData 3, CoreQueryFacilityLock),
      (''CoreChangeBarringPassword'', StringData 3, CoreChangeBarringPassword),
      (''CoreGetCurrentCalls'', AnyData, CoreGetCurrentCalls),
      (''CoreDial'', DialData, CoreDial),
      (''CoreHangup'', IntData 1, CoreHangup),
      (''CoreHangupForegroundResumeBackground'', AnyData, CoreHangupForegroundResumeBackground),
      (''CoreLastCallFailCause'', AnyData, CoreLastCallFailCause),
      (''CoreAnswer'', AnyData, CoreAnswer),
      (''CoreExplicitCallTransfer'', AnyData, CoreExplicitCallTransfer),
      (''CoreDtmf'', TextData, CoreDtmf),
      (''CoreDtmfStart'', TextData, CoreDtmfStart),
      (''CoreDtmfStop'', AnyData, CoreDtmfStop),
      (''CoreSetMute'', IntData 1, CoreSetMute),
      (''CoreGetMute'', AnyData, CoreGetMute),
      (''CoreSetTtyMode'', AnyData, CoreSetTtyMode),
      (''CoreQueryTtyMode'', AnyData, CoreQueryTtyMode),
      (''CoreSendUssd'', TextData, CoreSendUssd),
      (''CoreCancelUssd'', AnyData, CoreCancelUssd),
      (''CoreGetClir'', AnyData, CoreGetClir),
      (''CoreSetClir'', IntData 1, CoreSetClir),
      (''CoreQueryCallForwardStatus'', CallForwardData, CoreQueryCallForwardStatus),
      (''CoreSetCallForward'', CallForwardData, CoreSetCallForward),
      (''CoreQueryCallWaiting'', IntData 1, CoreQueryCallWaiting),
      (''CoreSetCallWaiting'', IntData 2, CoreSetCallWaiting),
      (''CoreQueryClip'', AnyData, CoreQueryClip),
      (''CoreSetSuppSvcNotification'', IntData 1, CoreSetSuppSvcNotification),
      (''CoreSendSms'', StringData 2, CoreSendSms),
      (''CoreSendSmsExpectMore'', StringData 2, CoreSendSmsExpectMore),
      (''CoreSmsAcknowledge'', IntData 2, CoreSmsAcknowledge),
      (''CoreAckIncomingGsmSmsWithPdu'', StringData 2, CoreAckIncomingGsmSmsWithPdu),
      (''CoreWriteSmsToSim'', SmsWriteData, CoreWriteSmsToSim),
      (''CoreDeleteSmsOnSim'', IntData 1, CoreDeleteSmsOnSim),
      (''CoreGetSmscAddress'', AnyData, CoreGetSmscAddress),
      (''CoreSetSmscAddress'', TextData, CoreSetSmscAddress),
      (''CoreReportSmsMemoryStatus'', AnyData, CoreReportSmsMemoryStatus),
      (''CoreGsmGetBroadcastSmsConfig'', AnyData, CoreGsmGetBroadcastSmsConfig),
      (''CoreSignalStrength'', AnyData, CoreSignalStrength),
      (''CoreRegistrationState'', AnyData, CoreRegistrationState),
      (''CoreGPRSRegistrationState'', AnyData, CoreGPRSRegistrationState),
      (''CoreOperator'', AnyData, CoreOperator),
      (''CoreQueryNetworkSelectionMode'', AnyData, CoreQueryNetworkSelectionMode),
      (''CoreSetLocationUpdates'', IntData 1, CoreSetLocationUpdates),
      (''CoreLastDataCallFailCause'', AnyData, CoreLastDataCallFailCause),
      (''CoreDeactivateDataCall'', StringData 1, CoreDeactivateDataCall),
      (''CoreSetInitialAttachApn'', AnyData, CoreSetInitialAttachApn),
      (''CoreGetImei'', AnyData, CoreGetImei),
      (''CoreGetImeisv'', AnyData, CoreGetImeisv),
      (''CoreBasebandVersion'', AnyData, CoreBasebandVersion),
      (''CoreSimOpenChannel'', TextData, CoreSimOpenChannel),
      (''CoreSimCloseChannel'', IntData 1, CoreSimCloseChannel),
      (''CoreSimTransmitApduBasic'', ApduData, CoreSimTransmitApduBasic),
      (''CoreSimTransmitApduChannel'', ApduData, CoreSimTransmitApduChannel),
      (''CoreReportStkServiceRunning'', AnyData, CoreReportStkServiceRunning),
      (''CoreISimAuthenticate'', AnyData, CoreISimAuthenticate),
      (''CoreSimAuthentication'', AnyData, CoreSimAuthentication),
      (''CoreGetCellInfoList'', AnyData, CoreGetCellInfoList),
      (''CoreResetRadio'', AnyData, CoreResetRadio),
      (''CoreSetBandMode'', AnyData, CoreSetBandMode),
      (''CoreQueryAvailableBandMode'', AnyData, CoreQueryAvailableBandMode),
      (''CoreStkGetProfile'', AnyData, CoreStkGetProfile),
      (''CoreStkSetProfile'', AnyData, CoreStkSetProfile),
      (''CoreStkSendEnvelopeCommand'', AnyData, CoreStkSendEnvelopeCommand),
      (''CoreStkSendTerminalResponse'', AnyData, CoreStkSendTerminalResponse),
      (''CoreStkHandleCallSetupRequestedFromSim'', AnyData, CoreStkHandleCallSetupRequestedFromSim),
      (''CoreSetPreferredNetworkType'', AnyData, CoreSetPreferredNetworkType),
      (''CoreGetPreferredNetworkType'', AnyData, CoreGetPreferredNetworkType),
      (''CoreGetNeighboringCellIDs'', AnyData, CoreGetNeighboringCellIDs),
      (''CoreScreenState'', FirstInt, CoreScreenState),
      (''CoreCdmaSetSubscription'', AnyData, CoreCdmaSetSubscription),
      (''CoreCdmaSetRoamingPreference'', AnyData, CoreCdmaSetRoamingPreference),
      (''CoreCdmaQueryRoamingPreference'', AnyData, CoreCdmaQueryRoamingPreference),
      (''CoreSimIo'', SimIoData, CoreSimIo)]"

definition state_core ::
    "te_env \<Rightarrow> power_env \<Rightarrow> u8 list option \<Rightarrow> (string \<times> core_function) list" where
  "state_core env p mem =
     [(''CoreEnterSimPin'', CoreEnterSimPin),
      (''CoreChangeSimPin'', CoreChangeSimPin),
      (''CoreSetFacilityLock'', CoreSetFacilityLock mem),
      (''CoreHangupWaitingOrBackground'',
         (\<lambda>pdata datalen te. with_state te (CoreHangupWaitingOrBackground (m_pTEBase te) pdata datalen))),
      (''CoreUdub'', (\<lambda>pdata datalen te. with_state te (CoreUdub (m_pTEBase te) pdata datalen))),
      (''CoreSwitchHoldingAndActive'', CoreSwitchHoldingAndActive),
      (''CoreConference'', CoreConference),
      (''CoreSeparateConnection'', CoreSeparateConnection),
      (''CoreGsmSetBroadcastSmsConfig'', CoreGsmSetBroadcastSmsConfig),
      (''CoreSetNetworkSelectionAutomatic'', CoreSetNetworkSelectionAutomatic),
      (''CoreSetNetworkSelectionManual'', CoreSetNetworkSelectionManual),
      (''CoreQueryAvailableNetworks'', CoreQueryAvailableNetworks env),
      (''CoreSetCellInfoListRate'', CoreSetCellInfoListRate env),
      (''CoreSetDataProfile'', CoreSetDataProfile),
      (''CoreRadioPower'', CoreRadioPower env p),
      (''CoreShutdown'', CoreShutdown env p)]"

definition state_shapes :: "(string \<times> data_shape) list" where
  "state_shapes =
     [(''CoreEnterSimPin'', StringData 1),
      (''CoreChangeSimPin'', StringData 2),
      (''CoreSetFacilityLock'', StringData 4),
      (''CoreHangupWaitingOrBackground'', AnyData),
      (''CoreUdub'', AnyData),
      (''CoreSwitchHoldingAndActive'', AnyData),
      (''CoreConference'', AnyData),
      (''CoreSeparateConnection'', IntData 1),
      (''CoreGsmSetBroadcastSmsConfig'', BroadcastData),
      (''CoreSetNetworkSelectionAutomatic'', AnyData),
      (''CoreSetNetworkSelectionManual'', TextData),
      (''CoreQueryAvailableNetworks'', AnyData),
      (''CoreSetCellInfoListRate'', IntData 1),
      (''CoreSetDataProfile'', ProfileData),
      (''CoreRadioPower'', FirstInt),
      (''CoreShutdown'', AnyData)]"

definition base_Core :: "te_env \<Rightarrow> power_env \<Rightarrow> u8 list option \<Rightarrow> string \<Rightarrow> core_function" where
  "base_Core env p mem f pdata datalen te =
     (case map_of plain_core f of
        Some (_, g) \<Rightarrow> with_state te (g pdata datalen)
      | None \<Rightarrow> (case map_of (state_core env p mem) f of Some g \<Rightarrow> g pdata datalen te | None \<Rightarrow> None))"

definition base_CoreRef ::
    "string \<Rightarrow> request_data \<Rightarrow> nat \<Rightarrow> u32 \<Rightarrow> te \<Rightarrow> (result_code \<times> REQUEST_DATA \<times> u32 \<times> te) option" where
  "base_CoreRef f =
     (if f = ''CoreHookRaw'' then CoreHookRaw
      else if f = ''CoreHookStrings'' then CoreHookStrings
      else if f = ''CoreSetupDataCall'' then CoreSetupDataCall
      else (\<lambda>_ _ _ _. None))"

definition base_HandleSetupDefaultPDN :: "RIL_Token \<Rightarrow> nat \<Rightarrow> te \<Rightarrow> (result_code \<times> te) option" where
  "base_HandleSetupDefaultPDN rilToken k te = Some (RIL_E_REQUEST_NOT_SUPPORTED, te)"

definition base_env :: "te_env \<Rightarrow> power_env \<Rightarrow> u8 list option \<Rightarrow> te_env" where
  "base_env env p mem = env\<lparr> Core := base_Core env p mem, CoreRef := base_CoreRef,
     HandleSetupDefaultPDN := base_HandleSetupDefaultPDN, IsRequestSupported := base_IsRequestSupported \<rparr>"

definition shape_of :: "string \<Rightarrow> data_shape" where
  "shape_of f =
     (case map_of plain_core f of
        Some (s, _) \<Rightarrow> s
      | None \<Rightarrow> (case map_of state_shapes f of Some s \<Rightarrow> s | None \<Rightarrow> AnyData))"

section \<open>No function gets stuck on data of its type\<close>

definition returns :: "'a option \<Rightarrow> bool" where
  "returns r \<longleftrightarrow> r \<noteq> None"

named_theorems returns_intros "when a command builder returns"

lemma commands_return [simp]:
  "returns (one_command t)" "returns (two_commands t u)" "returns (with_CEER t b)"
  "returns request_error" "returns request_not_supported" "returns (Some x)" "\<not> returns None"
  "returns (map_option f r) = returns r" "returns (with_state te r) = returns r"
  by (simp_all add: returns_def one_command_def two_commands_def with_CEER_def request_error_def
      request_not_supported_def with_state_def split: prod.split)

lemma returns_if: "returns (if b then x else y) \<longleftrightarrow> (b \<longrightarrow> returns x) \<and> (\<not> b \<longrightarrow> returns y)"
  by simp

lemma with_int_returns [returns_intros]:
  "has_shape (IntData n) pdata d \<Longrightarrow> 0 < n \<Longrightarrow> (\<And>i. returns (k i)) \<Longrightarrow> returns (with_int pdata k)"
  by (cases pdata) (auto simp: with_int_def split: list.split)

lemma with_strings_returns [returns_intros]:
  "has_shape (StringData n) pdata d \<Longrightarrow> (\<And>args. n \<le> length args \<Longrightarrow> returns (k args)) \<Longrightarrow>
     returns (with_strings pdata k)"
  by (cases pdata) (auto simp: with_strings_def)

lemma with_text_returns [returns_intros]:
  "has_shape TextData pdata d \<Longrightarrow> (\<And>s. returns (k s)) \<Longrightarrow> returns (with_text pdata k)"
  by (cases pdata) (auto simp: with_text_def)

lemma arg_returns [returns_intros]: "i < length args \<Longrightarrow> (\<And>a. returns (k a)) \<Longrightarrow> returns (arg i args k)"
  by (simp add: arg_def)

lemma two_strings_returns [returns_intros]:
  "has_shape (StringData 2) pdata d \<Longrightarrow> (\<And>a b. returns (k a b)) \<Longrightarrow> returns (two_strings pdata datalen k)"
  unfolding two_strings_def
  by (erule with_strings_returns) (auto intro!: arg_returns split: option.split)

text \<open>The functions that take their data apart themselves.\<close>

lemma structure_returns [returns_intros]:
  "has_shape DialData pdata d \<Longrightarrow> returns (CoreDial pdata datalen)"
  "has_shape (IntData 2) pdata d \<Longrightarrow> returns (CoreSetCallWaiting pdata datalen)"
  "has_shape (IntData 2) pdata d \<Longrightarrow> returns (CoreSmsAcknowledge pdata datalen)"
  "has_shape CallForwardData pdata d \<Longrightarrow> returns (CoreQueryCallForwardStatus pdata datalen)"
  "has_shape CallForwardData pdata d \<Longrightarrow> returns (CoreSetCallForward pdata datalen)"
  "has_shape SmsWriteData pdata d \<Longrightarrow> returns (CoreWriteSmsToSim pdata datalen)"
  "has_shape ApduData pdata d \<Longrightarrow> returns (CoreSimTransmitApduBasic pdata datalen)"
  "has_shape ApduData pdata d \<Longrightarrow> returns (CoreSimTransmitApduChannel pdata datalen)"
  "has_shape FirstInt pdata d \<Longrightarrow> returns (CoreScreenState pdata datalen)"
  "has_shape SimIoData pdata d \<Longrightarrow> returns (CoreSimIo pdata datalen)"
  by (cases pdata; auto simp: CoreScreenState_def CoreDial_def CoreSetCallWaiting_def CoreSmsAcknowledge_def CoreQueryCallForwardStatus_def
      CoreSetCallForward_def CoreWriteSmsToSim_def CoreSimTransmitApduBasic_def
      CoreSimTransmitApduChannel_def CoreSimIo_def Let_def numeral_2_eq_2 Suc_le_length_iff split: option.split list.split)+

lemmas builder_defs =
  CoreGetSimStatus_def CoreEnterSimPin2_def CoreEnterSimPuk_def CoreEnterSimPuk2_def
  CoreChangeSimPin2_def CoreEnterNetworkDepersonalization_def CoreGetImsi_def
  CoreQueryFacilityLock_def CoreChangeBarringPassword_def CoreGetCurrentCalls_def 
  CoreHangup_def CoreHangupForegroundResumeBackground_def CoreLastCallFailCause_def CoreAnswer_def
  CoreExplicitCallTransfer_def CoreDtmf_def CoreDtmfStart_def CoreDtmfStop_def CoreSetMute_def
  CoreGetMute_def CoreSetTtyMode_def CoreQueryTtyMode_def CoreSendUssd_def CoreCancelUssd_def
  CoreGetClir_def CoreSetClir_def 
  CoreQueryCallWaiting_def CoreQueryClip_def CoreSetSuppSvcNotification_def
  CoreSendSms_def CoreSendSmsExpectMore_def CoreAckIncomingGsmSmsWithPdu_def
  CoreDeleteSmsOnSim_def CoreGetSmscAddress_def CoreSetSmscAddress_def
  CoreReportSmsMemoryStatus_def CoreGsmGetBroadcastSmsConfig_def CoreSignalStrength_def
  CoreRegistrationState_def CoreGPRSRegistrationState_def CoreOperator_def
  CoreQueryNetworkSelectionMode_def CoreSetLocationUpdates_def CoreLastDataCallFailCause_def
  CoreDeactivateDataCall_def CoreSetInitialAttachApn_def CoreGetImei_def CoreGetImeisv_def
  CoreBasebandVersion_def CoreSimOpenChannel_def CoreSimCloseChannel_def
  CoreReportStkServiceRunning_def
  CoreISimAuthenticate_def CoreSimAuthentication_def CoreGetCellInfoList_def CoreResetRadio_def
  CoreSetBandMode_def CoreQueryAvailableBandMode_def CoreStkGetProfile_def CoreStkSetProfile_def
  CoreStkSendEnvelopeCommand_def CoreStkSendTerminalResponse_def
  CoreStkHandleCallSetupRequestedFromSim_def CoreSetPreferredNetworkType_def
  CoreGetPreferredNetworkType_def CoreGetNeighboringCellIDs_def 
  CoreCdmaSetSubscription_def CoreCdmaSetRoamingPreference_def CoreCdmaQueryRoamingPreference_def
  pin_command_def change_pin_command_def tone_command_def send_sms_command_def

lemma plain_core_returns:
  "list_all (\<lambda>(f, s, g). \<forall>pdata datalen. has_shape s pdata datalen \<longrightarrow> returns (g pdata datalen)) plain_core"
  unfolding plain_core_def list.pred_inject prod.case
  apply (intro conjI allI impI TrueI)
  apply (auto simp: builder_defs intro!: returns_intros split: option.split)
  done

section \<open>No function answers a request\<close>

definition keeps :: "te_env \<Rightarrow> te \<Rightarrow> (result_code \<times> REQUEST_DATA \<times> te) option \<Rightarrow> bool" where
  "keeps env te r \<longleftrightarrow> (\<exists>res rd te'. r = Some (res, rd, te') \<and> answered env None te te')"

lemma keeps_same: "te_ok env te \<Longrightarrow> same_answers te te' \<Longrightarrow> keeps env te (Some (res, rd, te'))"
  by (simp add: keeps_def same_answers_answered)

lemma keeps_answered: "answered env None te te' \<Longrightarrow> keeps env te (Some (res, rd, te'))"
  by (simp add: keeps_def)

lemma keeps_after: "answered env None te te1 \<Longrightarrow> keeps env te1 r \<Longrightarrow> keeps env te r"
  using answered_trans(1) by (fastforce simp: keeps_def)

lemma keeps_map:
  "te_ok env te \<Longrightarrow> returns r \<Longrightarrow> (\<And>res rd. same_answers te (f res rd)) \<Longrightarrow>
     keeps env te (map_option (\<lambda>(res, rd). (res, h rd, f res rd)) r)"
  using same_answers_answered by (auto simp: returns_def keeps_def)

lemma keeps_with_state: "te_ok env te \<Longrightarrow> returns r \<Longrightarrow> keeps env te (with_state te r)"
  by (auto simp: returns_def keeps_def with_state_def)

lemma set_base_same [simp]: "same_answers te (set_base b te)"
  by (simp add: set_base_def same_answers_def)

lemma stop_dtmf_id [simp]: "stop_dtmf te = te"
  by (simp add: stop_dtmf_def HandleInternalDtmfStopReq_def)

lemma pin_command_returns [returns_intros]:
  "has_shape (StringData 1) pdata d \<Longrightarrow> returns (pin_command name pdata datalen)"
  unfolding pin_command_def by (auto intro!: returns_intros)

lemma change_pin_command_returns [returns_intros]:
  "has_shape (StringData 2) pdata d \<Longrightarrow> returns (change_pin_command facility pdata datalen)"
  unfolding change_pin_command_def by (auto intro!: returns_intros)

lemma pin_keeps:
  assumes "te_ok env te"
  shows "has_shape (StringData 1) pdata d \<Longrightarrow> keeps env te (CoreEnterSimPin pdata datalen te)"
    and "has_shape (StringData 2) pdata d \<Longrightarrow> keeps env te (CoreChangeSimPin pdata datalen te)"
  unfolding CoreEnterSimPin_def CoreChangeSimPin_def
  by (rule keeps_map [OF assms, where h = "\<lambda>rd. rd"];
      auto intro: returns_intros split: request_data.split list.split option.split)+

lemma facility_keeps:
  assumes "te_ok env te" "has_shape (StringData 4) pdata d"
  shows "keeps env te (CoreSetFacilityLock mem pdata datalen te)"
proof -
  have "keeps env te (map_option (\<lambda>(res, rd). if res \<noteq> RRIL_RESULT_OK then (res, rd, te)
      else (RRIL_RESULT_OK, facility_context mem pszFacility rd, f)) (with_CEER t b))"
    if "same_answers te f" for f t b pszFacility
    using assms(1) that same_answers_answered [OF assms(1) that]
    by (cases "with_CEER t b") (auto simp: keeps_def dest: arg_cong [where f = returns])
  then show ?thesis
    using assms
    by (cases pdata) (auto simp: CoreSetFacilityLock_def numeral_eq_Suc Suc_le_length_iff keeps_same split: option.split)
qed

lemma call_keeps:
  assumes "te_ok env te"
  shows "keeps env te (with_state te (CoreHangupWaitingOrBackground b pdata datalen))"
    and "keeps env te (with_state te (CoreUdub b pdata datalen))"
    and "keeps env te (CoreSwitchHoldingAndActive pdata datalen te)"
    and "keeps env te (CoreConference pdata datalen te)"
    and "has_shape (IntData 1) pdata d \<Longrightarrow> keeps env te (CoreSeparateConnection pdata datalen te)"
  by (auto simp: CoreHangupWaitingOrBackground_def CoreUdub_def CoreSwitchHoldingAndActive_def
      CoreConference_def CoreSeparateConnection_def Let_def
      intro!: keeps_with_state assms returns_intros)

lemma store_keeps:
  assumes "te_ok env te"
  shows "has_shape BroadcastData pdata datalen \<Longrightarrow> keeps env te (CoreGsmSetBroadcastSmsConfig pdata datalen te)"
    and "has_shape ProfileData pdata datalen \<Longrightarrow> keeps env te (CoreSetDataProfile pdata datalen te)"
    and "has_shape TextData pdata d \<Longrightarrow> keeps env te (CoreSetNetworkSelectionManual pdata datalen te)"
    and "keeps env te (CoreSetNetworkSelectionAutomatic pdata datalen te)"
  by (cases pdata; auto simp: CoreGsmSetBroadcastSmsConfig_def CoreSetDataProfile_def Let_def
      CoreSetNetworkSelectionManual_def CoreSetNetworkSelectionAutomatic_def intro!: keeps_same assms)+

text \<open>A command without a token does not answer a request.\<close>

lemma queue_silent:
  assumes "te_ok env te" "m_object cmd = next_cmd te" "m_token cmd = None"
    "0 < g_uiRilChannelCurMax (te_config env) \<Longrightarrow> CCommand.m_uiChannel cmd < g_uiRilChannelCurMax (te_config env)"
  obtains res te' where "queue_command env cmd front te = Some (res, te')" "answered env None te te'"
  using queue_command_handled [OF assms(1,2,4), of front] assms(3) by (auto simp: handled_def)

lemma silent_command_one:
  assumes "te_ok env te"
  obtains res te' where "queue_command env (SetHighPriority (CCommand_one (te_config env) (next_cmd te) ch None r
      cmd p h)) front te = Some (res, te')" "answered env None te te'"
  by (rule queue_silent [OF assms]) auto

lemma te_ok_init [simp]:
  "te_ok (env\<lparr> te_config := (te_config env)\<lparr> IsInitializationSuccessful := b \<rparr> \<rparr>) te = te_ok env te"
  "answered (env\<lparr> te_config := (te_config env)\<lparr> IsInitializationSuccessful := b \<rparr> \<rparr>) tok te te' = answered env tok te te'"
  by (simp_all add: te_ok_def queues_ok_def answered_def)

lemma system_call_answered: "te_ok env te \<Longrightarrow> answered env None te (system_call name te)"
  by (simp add: answered_def te_ok_def answers_def deferred_def system_call_def)

lemma query_networks_keeps:
  assumes ok: "te_ok env te"
  shows "keeps env te (CoreQueryAvailableNetworks env pdata datalen te)"
proof -
  obtain res te1 where q: "queue_command env (SetHighPriority (CCommand_one (te_config env) (next_cmd te)
      (request_channel RIL_REQUEST_DEACTIVATE_DATA_CALL) None RIL_REQUEST_DEACTIVATE_DATA_CALL
      (Some (''AT+CGACT=0'' @ [CR])) (Some ''ParseDeactivateAllDataCalls'') None)) False te = Some (res, te1)"
    "answered env None te te1" using silent_command_one [OF ok] by metis
  have "keeps env te (with_state te1 (one_command t))" for t
    by (rule keeps_after [OF q(2) keeps_with_state [OF answered_ok [OF q(2)]]]) simp
  then show ?thesis
    using keeps_with_state [OF ok] q(1)
    by (simp add: CoreQueryAvailableNetworks_def DeactivateAllDataCalls_def del: append.simps)
qed

lemma timer_same_or_timed:
  assumes "te_ok env te"
  shows "answered env None te (RestartUnsolCellInfoListTimer newRate te)"
proof -
  have a: "same_answers te (te\<lparr> m_bIsCellInfoTimerRunning := True \<rparr>)" by (simp add: same_answers_def)
  show ?thesis
    using answered_trans(1) [OF same_answers_answered [OF assms a] timed_answered] same_answers_ok [OF assms a] assms
    by (auto simp: RestartUnsolCellInfoListTimer_def)
qed

lemma rate_set_answered:
  assumes "te_ok env te"
  shows "answered env None te (RestartUnsolCellInfoListTimer r (te\<lparr> m_nCellInfoListRate := w \<rparr>))"
proof -
  have a: "same_answers te (te\<lparr> m_nCellInfoListRate := w \<rparr>)" by (simp add: same_answers_def)
  show ?thesis
    by (rule answered_trans(1) [OF same_answers_answered [OF assms a] timer_same_or_timed [OF same_answers_ok [OF assms a]]])
qed

lemma cell_rate_keeps:
  assumes ok: "te_ok env te" and s: "has_shape (IntData 1) pdata d"
  shows "keeps env te (CoreSetCellInfoListRate env pdata datalen te)"
proof (cases "\<exists>i is. pdata = Ints (i # is) \<and> 0 \<le> i")
  case True
  then obtain i "is" where p: "pdata = Ints (i # is)" "0 \<le> i" by blast
  let ?r = "requested_rate (sint (m_nCellInfoListRate te)) i"
  let ?cmd = "request_command env RIL_REQUEST_GET_CELL_INFO_LIST (request_channel RIL_REQUEST_GET_CELL_INFO_LIST)
      None (no_request_data\<lparr> szCmd1 := [], REQUEST_DATA.pContextData := Some (int_image ?r) \<rparr>)
      (Some ''ParseUnsolCellInfoListRate'') (Some ''PostUnsolCellInfoListRate'') te"
  obtain res te1 where q: "queue_command env ?cmd False te = Some (res, te1)" "answered env None te te1"
    by (rule queue_silent [OF ok, of ?cmd False]) auto
  have "answered env None te (RestartUnsolCellInfoListTimer ?r (te1\<lparr> m_nCellInfoListRate := w \<rparr>))" for w
    by (rule answered_trans(1) [OF q(2) rate_set_answered [OF answered_ok [OF q(2)]]])
  then show ?thesis
    using p q(1) rate_set_answered [OF ok] ok
    by (simp add: CoreSetCellInfoListRate_def GetReadCellInfoString_def Let_def keeps_answered)
next
  case False
  then show ?thesis
    using ok s by (cases pdata) (auto simp: CoreSetCellInfoListRate_def Suc_le_length_iff keeps_answered)
qed

lemma radio_checks_answered:
  assumes "te_ok env te"
  shows "answered env None te (snd (radio_on_check p te))" "answered env None te (snd (radio_off_check p te))"
proof -
  have restricted: "same_answers te1 (te1\<lparr> m_bRestrictedMode := b \<rparr>)" for te1 b by (simp add: same_answers_def)
  note sc = system_call_answered [OF assms]
  show "answered env None te (snd (radio_on_check p te))"
    using answered_trans(1) [OF sc same_answers_answered [OF answered_ok [OF sc] restricted]] assms
    by (auto simp: radio_on_check_def Let_def)
  show "answered env None te (snd (radio_off_check p te))"
    using sc answered_steps(3) [OF assms] answered_trans(1) [OF sc answered_steps(3) [OF answered_ok [OF sc]]] assms
    by (auto simp: radio_off_check_def)
qed

lemma send_radio_power_keeps:
  assumes ok: "te_ok env te"
  shows "keeps env te (send_radio_power env p on te)"
proof -
  let ?env = "env\<lparr> te_config := (te_config env)\<lparr> IsInitializationSuccessful :=
      IsInitializationSuccessful (te_config env) \<or> initialized p \<rparr> \<rparr>"
  show ?thesis
  proof (cases "GetRadioPowerCommand p on (m_RadioOffReason te)")
    case None
    then show ?thesis using ok by (simp add: send_radio_power_def keeps_answered)
  next
    case (Some szCmd)
    obtain res te' where "queue_command ?env (SetHighPriority (CCommand_one (te_config ?env) (next_cmd te)
        (request_channel RIL_REQUEST_RADIO_POWER) None RIL_REQUEST_RADIO_POWER (Some szCmd)
        (Some ''ParseRadioPower'') (Some ''PostRadioPower''))) False te = Some (res, te')"
      "answered env None te te'"
      by (rule silent_command_one [of ?env te]) (use ok in auto)
    then show ?thesis using ok by (simp add: send_radio_power_def Some Let_def keeps_answered)
  qed
qed

lemma power_keeps:
  assumes ok: "te_ok env te"
  shows "has_shape FirstInt pdata d \<Longrightarrow> keeps env te (CoreRadioPower env p pdata datalen te)"
    and "keeps env te (CoreShutdown env p pdata datalen te)"
proof -
  assume "has_shape FirstInt pdata d"
  then obtain i "is" where i: "pdata = Ints (i # is)" by (cases pdata) (auto split: list.splits)
  define c where "c = (if i \<noteq> 0 then radio_on_check p te else radio_off_check p te)"
  have a: "answered env None te (snd c)" using radio_checks_answered [OF ok] by (simp add: c_def)
  have "keeps env te (case c of (True, te) \<Rightarrow> send_radio_power env p (i \<noteq> 0) te
      | (False, te) \<Rightarrow> Some (if i \<noteq> 0 then RRIL_RESULT_ERROR else RRIL_RESULT_OK, no_request_data, te))"
    using a keeps_after [OF a send_radio_power_keeps [OF answered_ok [OF a]]]
    by (cases c) (auto simp: keeps_answered split: bool.split)
  then show "keeps env te (CoreRadioPower env p pdata datalen te)"
    by (simp add: CoreRadioPower_def i c_def)
next
  have finish: "keeps env te (map_option (\<lambda>te. (RRIL_RESULT_OK, no_request_data,
      SetRadioStateAndNotify RADIO_STATE_UNAVAILABLE te)) (Some te'))" if "answered env None te te'" for te'
    using answered_trans(1) [OF that answered_steps(3) [OF answered_ok [OF that]]] by (simp add: keeps_answered)
  have "\<exists>te'. HandleShutdownReq env p r te = Some te' \<and> answered env None te te'" for r
  proof -
    define te1 where "te1 = (if m_LastModemEvent te = E_MMGR_EVENT_MODEM_UP \<and>
        GetRadioState te = RADIO_STATE_UNAVAILABLE then system_call ''SendRequestModemShutdown'' te else te)"
    have a: "answered env None te te1" using system_call_answered [OF ok] ok by (simp add: te1_def)
    have e: "m_LastModemEvent te1 = m_LastModemEvent te" by (simp add: te1_def system_call_def)
    have q: "\<exists>te'. (\<exists>res. queue_command env (SetHighPriority (CCommand_one (te_config env) (next_cmd te1) ch None r
        cmd ps h)) False te1 = Some (res, te')) \<and> answered env None te te'" for ch r cmd ps h
      using silent_command_one [OF answered_ok [OF a]] answered_trans(1) [OF a] by (metis (no_types, lifting))
    have cl: "answered env None te (system_call n te1)" for n
      by (rule answered_trans(1) [OF a system_call_answered [OF answered_ok [OF a]]])
    show ?thesis
      using a q [of "request_channel r" r _ "Some ''ParseShutdown''" "Some ''PostShutdown''"] cl
      unfolding HandleShutdownReq_def Let_def te1_def [symmetric] e
      by (auto split: option.split)
  qed
  then show "keeps env te (CoreShutdown env p pdata datalen te)"
    using finish by (metis CoreShutdown_def)
qed

lemma state_core_keeps:
  assumes ok: "te_ok env te"
  shows "list_all2 (\<lambda>(f, g) (f', s). f' = f \<and> (\<forall>pdata datalen. has_shape s pdata datalen \<longrightarrow>
      keeps env te (g pdata datalen te))) (state_core env p mem) state_shapes"
  unfolding state_core_def state_shapes_def list_all2_Cons prod.case
  by (intro conjI allI impI refl pin_keeps facility_keeps call_keeps store_keeps power_keeps
      query_networks_keeps cell_rate_keeps ok list.rel_intros(1); assumption)

section \<open>The contract\<close>

lemma base_env_simps [simp]:
  "te_config (base_env env p mem) = te_config env" "Core (base_env env p mem) = base_Core env p mem"
  "CoreRef (base_env env p mem) = base_CoreRef"
  "HandleSetupDefaultPDN (base_env env p mem) = base_HandleSetupDefaultPDN"
  "te_ok (base_env env p mem) te = te_ok env te"
  "answered (base_env env p mem) tok te te' = answered env tok te te'"
  by (simp_all add: base_env_def te_ok_def answered_def)

definition core_shapes :: "(string \<times> data_shape) list" where
  "core_shapes = map (\<lambda>(f, s, g). (f, s)) plain_core @ state_shapes"

lemma map_of_map_snd: "map_of (map (\<lambda>(f, s, g). (f, s)) xs) f = map_option fst (map_of xs f)"
  by (induction xs) auto

lemma shape_of_core_shapes: "map_of core_shapes f = Some s \<Longrightarrow> shape_of f = s"
  by (auto simp: core_shapes_def shape_of_def map_add_Some_iff map_of_map_snd split: option.split)

lemma base_core_keeps:
  assumes "map_of core_shapes f = Some s" "has_shape s pdata datalen" "te_ok env te"
  shows "keeps env te (base_Core env p mem f pdata datalen te)"
proof (cases "map_of plain_core f")
  case (Some sg)
  then have m: "(f, sg) \<in> set plain_core" by (rule map_of_SomeD)
  have "fst sg = s" using assms(1) Some by (auto simp: core_shapes_def map_of_map_snd)
  then have "returns (snd sg pdata datalen)"
    using plain_core_returns m assms(2) by (auto simp: list_all_iff)
  then show ?thesis
    using Some keeps_with_state [OF assms(3)] by (cases sg) (simp add: base_Core_def)
next
  case None
  then have "map_of state_shapes f = Some s"
    using assms(1) by (auto simp: core_shapes_def map_add_Some_iff map_of_map_snd)
  then obtain k where k: "k < length state_shapes" "state_shapes ! k = (f, s)"
    by (meson in_set_conv_nth map_of_SomeD)
  have l: "length (state_core env p mem) = length state_shapes"
    using list_all2_lengthD [OF state_core_keeps [OF assms(3)]] .
  have names: "map fst (state_core env p mem) = map fst state_shapes"
    by (simp add: state_core_def state_shapes_def)
  have "distinct (map fst state_shapes)" by (simp add: state_shapes_def)
  moreover have "fst (state_core env p mem ! k) = f"
    using names k l by (metis fst_conv nth_map)
  ultimately have "map_of (state_core env p mem) f = Some (snd (state_core env p mem ! k))"
    using k l names by (metis map_of_eq_Some_iff nth_mem prod.collapse)
  moreover have "keeps env te (snd (state_core env p mem ! k) pdata datalen te)"
    using list_all2_nthD [OF state_core_keeps [OF assms(3), of p mem], of k] k l assms(2)
    by (simp add: case_prod_unfold)
  ultimately show ?thesis using None by (simp add: base_Core_def)
qed

text \<open>
  Every virtual function a request uses has a shape. A function that needs its data (no null pointer)
  is that of a request whose handler looks for it first.
\<close>

definition has_core_shape :: "int \<times> string \<Rightarrow> bool" where
  "has_core_shape c \<longleftrightarrow>
     snd c = [] \<or> fst c \<in> {RIL_REQUEST_SETUP_DATA_CALL, RIL_REQUEST_OEM_HOOK_RAW, RIL_REQUEST_OEM_HOOK_STRINGS} \<or>
     map_of core_shapes (snd c) \<noteq> None"

lemma core_of_shapes_1: "list_all has_core_shape core_of_1" by code_simp
lemma core_of_shapes_2: "list_all has_core_shape core_of_2" by code_simp
lemma core_of_shapes_3: "list_all has_core_shape core_of_3" by code_simp
lemma core_of_shapes_4: "list_all has_core_shape core_of_4" by code_simp

lemma core_of_shapes: "list_all has_core_shape core_of"
  using core_of_shapes_1 core_of_shapes_2 core_of_shapes_3 core_of_shapes_4
  by (simp only: core_of_def list_all_append)

text \<open>
  The type of a request for \<open>CTEBase\<close>: what its handler and its virtual function read.
\<close>

definition request_fits :: "te_env \<Rightarrow> int \<Rightarrow> request_data \<Rightarrow> nat \<Rightarrow> bool" where
  "request_fits env requestId pdata datalen \<longleftrightarrow>
     typed_request env requestId pdata datalen \<and>
     (case map_of core_of requestId of
        None \<Rightarrow> True
      | Some f \<Rightarrow>
          requestId \<in> {RIL_REQUEST_RADIO_POWER, RIL_REQUEST_SCREEN_STATE} \<and> pdata = NULL_DATA \<or>
          has_shape (shape_of f) pdata datalen)"

lemma base_core_ok:
  assumes "map_of core_shapes f = Some s" "has_shape s pdata datalen"
  shows "core_ok (base_env env p mem) f pdata datalen"
  using base_core_keeps [OF assms] by (auto simp: core_ok_def keeps_def)

lemma base_ref_returns: 
  assumes "f \<in> {''CoreHookRaw'', ''CoreHookStrings'', ''CoreSetupDataCall''}"
  shows "base_CoreRef f pdata datalen i te = Some (RIL_E_REQUEST_NOT_SUPPORTED, no_request_data, i, te)"
  using assms by (auto simp: base_CoreRef_def CoreHookRaw_def CoreHookStrings_def CoreSetupDataCall_def)

lemma base_ref_ok:
  assumes "f \<in> {''CoreHookRaw'', ''CoreHookStrings'', ''CoreSetupDataCall''}"
  shows "ref_ok (base_env env p mem) f pdata datalen"
  by (simp add: ref_ok_def base_ref_returns [OF assms] base_HandleSetupDefaultPDN_def handled_refuse)

lemma hook_cores:
  "map_of core_of RIL_REQUEST_SETUP_DATA_CALL = Some ''CoreSetupDataCall''"
  "map_of core_of RIL_REQUEST_OEM_HOOK_RAW = Some ''CoreHookRaw''"
  "map_of core_of RIL_REQUEST_OEM_HOOK_STRINGS = Some ''CoreHookStrings''"
  by (simp_all add: core_of_def core_of_1_def core_of_2_def core_of_3_def core_of_4_def del: append.simps)

lemma base_virtual_ok:
  assumes fits: "request_fits env requestId pdata datalen"
  shows "virtual_ok (base_env env p mem) requestId pdata datalen"
proof (cases "map_of core_of requestId")
  case None
  then show ?thesis by (simp add: virtual_ok_def)
next
  case (Some f)
  show ?thesis
  proof (cases "requestId \<in> {RIL_REQUEST_SETUP_DATA_CALL, RIL_REQUEST_OEM_HOOK_RAW, RIL_REQUEST_OEM_HOOK_STRINGS}")
    case True
    then show ?thesis using base_ref_ok hook_cores by (auto simp: virtual_ok_def contract_def)
  next
    case False
    have "has_core_shape (requestId, f)"
      using core_of_shapes map_of_SomeD [OF Some] by (auto simp: list_all_iff)
    then consider "f = []" | s where "map_of core_shapes f = Some s" using False by (auto simp: has_core_shape_def)
    then show ?thesis
    proof cases
      case 2
      have "requestId \<in> {RIL_REQUEST_RADIO_POWER, RIL_REQUEST_SCREEN_STATE} \<and> pdata = NULL_DATA \<or>
          has_shape s pdata datalen"
        using fits Some shape_of_core_shapes [OF 2] by (simp add: request_fits_def)
      then show ?thesis
        using Some False base_core_ok [OF 2] by (auto simp: virtual_ok_def contract_def)
    qed (simp add: virtual_ok_def contract_def Some)
  qed
qed

lemma base_core_selection:
  "base_Core env p mem ''CoreGPRSRegistrationState'' pdata datalen te = with_state te (CoreGPRSRegistrationState pdata datalen)"
  "base_Core env p mem ''CoreSetNetworkSelectionAutomatic'' = CoreSetNetworkSelectionAutomatic"
  "base_Core env p mem ''CoreSetNetworkSelectionManual'' = CoreSetNetworkSelectionManual"
proof -
  show "base_Core env p mem ''CoreSetNetworkSelectionAutomatic'' = CoreSetNetworkSelectionAutomatic"
    "base_Core env p mem ''CoreSetNetworkSelectionManual'' = CoreSetNetworkSelectionManual"
    by (intro ext, simp add: base_Core_def plain_core_def state_core_def)+
qed (simp add: base_Core_def plain_core_def)

lemma base_results_fit:
  assumes "requestId = RIL_REQUEST_SET_NETWORK_SELECTION_MANUAL \<longrightarrow> pdata \<noteq> Text []"
  shows "results_fit (base_env env p mem) requestId pdata datalen"
proof -
  have "not_immediate (base_env env p mem) ''CoreGPRSRegistrationState'' pdata datalen"
    by (auto simp: not_immediate_def base_core_selection with_state_def CoreGPRSRegistrationState_def
        one_command_def command1_def)
  moreover have "mode_saved (base_env env p mem) ''CoreSetNetworkSelectionAutomatic'' pdata datalen"
    by (auto simp: mode_saved_def base_core_selection CoreSetNetworkSelectionAutomatic_def restore_command_def set_base_def)
  moreover have "mode_saved (base_env env p mem) ''CoreSetNetworkSelectionManual'' pdata datalen" if "pdata \<noteq> Text []"
    using that
    by (cases pdata) (auto simp: mode_saved_def base_core_selection CoreSetNetworkSelectionManual_def
        restore_command_def set_base_def MAX_OPERATOR_NUMERIC_SIZE_def Let_def split: if_splits)
  moreover have "cid_has_channel (base_env env p mem) pdata datalen"
    by (simp add: cid_has_channel_def base_ref_returns)
  ultimately show ?thesis using assms by (simp add: results_fit_def)
qed


text \<open>The state after an empty operator number: manual selection is saved, with no operator.\<close>

definition empty_manual :: "te \<Rightarrow> te" where
  "empty_manual te =
     set_base ((m_pTEBase te)\<lparr> m_SelectionMode := E_NETWORK_SELECTION_MODE_MANUAL, m_szOperatorNumeric := [] \<rparr>) te"

lemma empty_manual_ok: "te_ok env te \<Longrightarrow> te_ok env (empty_manual te)"
  by (simp add: te_ok_def empty_manual_def set_base_def)

lemma base_manual_handler:
  "run_handler (base_env env p mem) RIL_REQUEST_SET_NETWORK_SELECTION_MANUAL =
     RequestSetNetworkSelectionManual (base_env env p mem)"
  by (intro ext) (simp add: run_handler_def handlers_def handlers_1_def handlers_2_def handlers_3_def handlers_4_def
      map_add_def)

lemma empty_manual_run:
  "RequestSetNetworkSelectionManual (base_env env p mem) tok (Text []) datalen te =
     (if datalen = 4 then Some (RRIL_RESULT_OK, empty_manual te) else Some (RRIL_RESULT_ERROR, te))"
  by (auto simp: RequestSetNetworkSelectionManual_def base_core_selection CoreSetNetworkSelectionManual_def
      finish_immediate_def RestoreSavedNetworkSelectionMode_def restore_command_def set_base_def empty_manual_def)

text \<open>
  C4. Requests of the right type do not go wrong. With \<open>CTEBase\<close> as the object behind the virtual
  functions, a request whose data has the type its handler and its \<open>Core\<close> function read (the request
  may have no data at all, and a size that contradicts the data is refused) is handled in every
  state: no function reads past its data or takes it for something else, and the token is completed,
  deferred or carried by one queued command, and no other token is touched. The one exception is the
  manual selection of an operator with an empty number, after which nothing has happened but that
  the mode and the number are saved.
\<close>

theorem typed_request_answered_once:
  assumes "te_ok env te" "request_fits env requestId pdata datalen"
  shows "\<exists>te'. HandleRequest (base_env env p mem) requestId pdata datalen (Some t) te = Some te' \<and> te_ok env te' \<and>
    ((\<forall>t'. answers t' te' = answers t' te + (if t' = t then 1 else 0)) \<or>
     requestId = RIL_REQUEST_SET_NETWORK_SELECTION_MANUAL \<and> pdata = Text [] \<and>
     te' = set_base ((m_pTEBase te)\<lparr> m_SelectionMode := E_NETWORK_SELECTION_MODE_MANUAL, m_szOperatorNumeric := [] \<rparr>) te)"
proof -
  have typed: "typed_request (base_env env p mem) requestId pdata datalen"
    using assms(2) by (cases pdata) (auto simp: request_fits_def typed_request_def base_env_def)
  let ?env = "base_env env p mem"
  have ok: "te_ok ?env te" using assms(1) by simp
  show ?thesis
  proof (cases "requestId = RIL_REQUEST_SET_NETWORK_SELECTION_MANUAL \<and> pdata = Text []")
    case False
    then show ?thesis
      using HandleRequest_once [OF ok base_virtual_ok [OF assms(2)] typed base_results_fit, of t] by auto
  next
    case True
    from handle_in_state_runs [OF ok, of "Some t" requestId pdata datalen] show ?thesis
    proof
      assume "handled ?env (Some t) te (handle_in_state ?env requestId (Some t) pdata datalen te)"
      then show ?thesis using handled_request_answered by fastforce
    next
      assume r: "handle_in_state ?env requestId (Some t) pdata datalen te =
        run_handler ?env requestId (Some t) pdata datalen te"
      show ?thesis
      proof (cases "datalen = 4")
        case False
        then have "handled ?env (Some t) te (handle_in_state ?env requestId (Some t) pdata datalen te)"
          using True r ok by (simp add: base_manual_handler empty_manual_run handled_refuse)
        then show ?thesis using handled_request_answered by fastforce
      next
        case 4: True
        then show ?thesis
          using True r assms(1) empty_manual_ok
          by (simp add: HandleRequest_def base_manual_handler empty_manual_run) (simp add: empty_manual_def)
      qed
    qed
  qed
qed

definition sample_power :: power_env where
  "sample_power = \<lparr> GetModem = True, SendRequestModemShutdown = True, GetModemOffInFlightModeState = False,
     basic_init_signaled = True, initialized = True,
     GetRadioPowerCommand = (\<lambda>on reason. Some (if on then ''AT+CFUN=1'' else ''AT+CFUN=4'')) \<rparr>"

theorem typed_request_answered_once_witness:
  "\<exists>te'. HandleRequest (base_env sample_env sample_power None) RIL_REQUEST_HANGUP (Ints [1]) 4 (Some 7) sample_te = Some te' \<and>
     answers 7 te' = 1 \<and> answers 8 te' = 0"
proof -
  have "request_fits sample_env RIL_REQUEST_HANGUP (Ints [1]) 4" by code_simp
  moreover have "answers 7 sample_te = 0" "answers 8 sample_te = 0"
    by (simp_all add: answers_def deferred_def sample_te_def)
  ultimately show ?thesis
    using typed_request_answered_once [OF sample_ok(1), of RIL_REQUEST_HANGUP "Ints [1]" 4 sample_power None 7] by auto
qed

text \<open>
  C29. An empty operator number is never answered. \<open>CoreSetNetworkSelectionManual\<close> stores the empty
  number and reports success; \<open>RestoreSavedNetworkSelectionMode\<close> then finds nothing to send and
  reports success too, so that the request neither completes nor becomes a command. The saved mode
  is manual from then on.
\<close>

theorem empty_numeric_not_answered:
  assumes "GetRadioState te = RADIO_STATE_ON" "\<not> m_bSpoofCommandsStatus te" "\<not> m_bRadioRequestPending te"
    "GetSimAppState te \<noteq> RIL_APPSTATE_UNKNOWN"
  shows "HandleRequest (base_env env p mem) RIL_REQUEST_SET_NETWORK_SELECTION_MANUAL (Text []) 4 (Some t) te =
    Some (set_base ((m_pTEBase te)\<lparr> m_SelectionMode := E_NETWORK_SELECTION_MODE_MANUAL, m_szOperatorNumeric := [] \<rparr>) te)"
proof -
  have a: "te_env.IsRequestSupported (base_env env p mem) RIL_REQUEST_SET_NETWORK_SELECTION_MANUAL"
    "IsRequestAllowedWhenNotRegistered RIL_REQUEST_SET_NETWORK_SELECTION_MANUAL"
    by (simp_all add: base_env_def base_IsRequestSupported_def IsRequestAllowedWhenNotRegistered_def)
  show ?thesis
    using assms a by (simp add: HandleRequest_def handle_in_state_def refused_def select_handler_def
        base_manual_handler empty_manual_run) (simp add: empty_manual_def)
qed

theorem empty_numeric_not_answered_witness:
  "HandleRequest (base_env sample_env sample_power None) RIL_REQUEST_SET_NETWORK_SELECTION_MANUAL (Text []) 4 (Some 7) sample_te =
     Some (set_base ((m_pTEBase sample_te)\<lparr> m_SelectionMode := E_NETWORK_SELECTION_MODE_MANUAL, m_szOperatorNumeric := [] \<rparr>) sample_te)"
  by (rule empty_numeric_not_answered) (simp_all add: sample_te_def sample_base_def)

end
