(* ===== verification/Answers.thy ===== *)
theory Answers
  imports TeState "HOL-Library.Monad_Syntax"
begin

text \<open>
  How \<open>CTEBase\<close> reads the answers of the modem (the \<open>Parse\<close> functions of \<open>CORE/ND/te_base.cpp\<close>): this
  theory has what they share, and the answers about the SIM, short messages and the device. The
  answers about calls and services are in theory CallAnswers, those about networks in
  NetworkAnswers, those about data contexts in ContextAnswers.

  A parser gets the text of the response up to its terminator and gives the result code with the
  data and the size it leaves in \<open>RESPONSE_DATA\<close> (none when it sets none). \<open>None\<close> in the \<open>do\<close> blocks
  is the jump to the label \<open>Error\<close>. \<open>mem\<close> tells whether \<open>malloc\<close> and \<open>new\<close> return memory; sizes are
  those of a 32-bit machine.
\<close>

section \<open>What the parsers share\<close>

definition NL :: string where "NL = [CR, LF]"

text \<open>\<open>m_szNewLine\<close> and \<open>m_cTerminator\<close> are the newline and the carriage return.\<close>

abbreviation RspStart :: "string \<Rightarrow> bool \<times> string" where "RspStart s \<equiv> SkipRspStart s NL"
abbreviation RspEnd :: "string \<Rightarrow> bool \<times> string" where "RspEnd s \<equiv> SkipRspEnd s NL"

text \<open>\<open>if (!f (...)) goto Error\<close>\<close>

definition need :: "bool \<times> 'a \<Rightarrow> 'a option" where
  "need p = (if fst p then Some (snd p) else None)"

definition check :: "bool \<Rightarrow> unit option" where
  "check b = (if b then Some () else None)"

type_synonym 'a parsed = "result_code \<times> ('a \<times> nat) option"

definition parsed :: "nat \<Rightarrow> 'a option \<Rightarrow> 'a parsed" where
  "parsed n r = (case r of None \<Rightarrow> (RRIL_RESULT_ERROR, None) | Some x \<Rightarrow> (RRIL_RESULT_OK, Some (x, n)))"

abbreviation int_of_u32 :: "u32 \<Rightarrow> int" where "int_of_u32 w \<equiv> sint w"

definition PROPERTY_VALUE_MAX :: nat where "PROPERTY_VALUE_MAX = 92"
definition MAX_BUFFER_SIZE :: nat where "MAX_BUFFER_SIZE = 1024"

lemma quoted_memory_suffix: "suffix (snd (snd (snd (ExtractQuotedStringWithAllocatedMemory mem s v n)))) s"
proof -
  define t where "t = dropWhile (\<lambda>c. c = SPC) s"
  have t: "suffix t s" by (simp add: t_def suffix_dropWhile)
  obtain b1 w where w: "SkipString t [QUOTE] = (b1, w)" by fastforce
  obtain b2 e where e: "FindAndSkipString w [QUOTE] = (b2, e)" by fastforce
  have "suffix w s" "suffix e s"
    using cursor_result_suffix(2) [OF w] cursor_result_suffix(1) [OF e] t by (blast intro: suffix_order.trans)+
  then show ?thesis
    using t by (auto simp: ExtractQuotedStringWithAllocatedMemory_def cursor_simps t_def [symmetric] w e Let_def
        split: bool.splits)
qed

lemma find_NL:
  assumes "CR \<notin> set p" "p = [] \<or> hd p \<noteq> SPC"
  shows "FindAndSkipString (p @ NL @ r) NL = (True, r)"
proof (rule FindAndSkipString_append)
  fix i assume i: "i < length p"
  then have d: "drop i (p @ NL @ r) = p ! i # drop (Suc i) p @ NL @ r"
    by (simp add: Cons_nth_drop_Suc [symmetric])
  have "p ! i \<noteq> CR" using assms(1) nth_mem [OF i] by auto
  then show "\<not> prefix NL (drop i (p @ NL @ r))" unfolding d by (simp add: NL_def)
qed (use assms(2) in \<open>auto simp: NL_def hd_append\<close>)

section \<open>State of the SIM\<close>

text \<open>The values of Android's enumerations by name.\<close>

record app_status =
  app_state :: string
  perso_substate :: string
  pin1 :: string
  pin2 :: string

record card_status =
  card_state :: string
  num_applications :: nat
  usim_application :: app_status  \<comment> \<open>\<open>applications[SIM_USIM_APP_INDEX]\<close>\<close>

text \<open>The identifiers are reset to NULL and \<open>pin1_replaced\<close> to 0 in every case.\<close>

definition sim_states :: "(string \<times> app_status) list" where
  "sim_states =
     [(''READY'', \<lparr> app_state = ''RIL_APPSTATE_READY'', perso_substate = ''RIL_PERSOSUBSTATE_READY'',
         pin1 = ''RIL_PINSTATE_UNKNOWN'', pin2 = ''RIL_PINSTATE_UNKNOWN'' \<rparr>),
      (''SIM PIN'', \<lparr> app_state = ''RIL_APPSTATE_PIN'', perso_substate = ''RIL_PERSOSUBSTATE_UNKNOWN'',
         pin1 = ''RIL_PINSTATE_ENABLED_NOT_VERIFIED'', pin2 = ''RIL_PINSTATE_UNKNOWN'' \<rparr>),
      (''SIM PUK'', \<lparr> app_state = ''RIL_APPSTATE_PUK'', perso_substate = ''RIL_PERSOSUBSTATE_UNKNOWN'',
         pin1 = ''RIL_PINSTATE_ENABLED_BLOCKED'', pin2 = ''RIL_PINSTATE_UNKNOWN'' \<rparr>),
      (''PH-NET PIN'', \<lparr> app_state = ''RIL_APPSTATE_SUBSCRIPTION_PERSO'',
         perso_substate = ''RIL_PERSOSUBSTATE_SIM_NETWORK'',
         pin1 = ''RIL_PINSTATE_ENABLED_NOT_VERIFIED'', pin2 = ''RIL_PINSTATE_UNKNOWN'' \<rparr>),
      (''PH-NET PUK'', \<lparr> app_state = ''RIL_APPSTATE_SUBSCRIPTION_PERSO'',
         perso_substate = ''RIL_PERSOSUBSTATE_SIM_NETWORK_PUK'',
         pin1 = ''RIL_PINSTATE_ENABLED_NOT_VERIFIED'', pin2 = ''RIL_PINSTATE_UNKNOWN'' \<rparr>),
      (''SIM PIN2'', \<lparr> app_state = ''RIL_APPSTATE_READY'', perso_substate = ''RIL_PERSOSUBSTATE_UNKNOWN'',
         pin1 = ''RIL_PINSTATE_UNKNOWN'', pin2 = ''RIL_PINSTATE_ENABLED_NOT_VERIFIED'' \<rparr>),
      (''SIM PUK2'', \<lparr> app_state = ''RIL_APPSTATE_READY'', perso_substate = ''RIL_PERSOSUBSTATE_UNKNOWN'',
         pin1 = ''RIL_PINSTATE_UNKNOWN'', pin2 = ''RIL_PINSTATE_ENABLED_BLOCKED'' \<rparr>)]"

text \<open>The state in the answer: what is between the prefix and the terminator.\<close>

definition sim_state_text :: "string \<Rightarrow> string option" where
  "sim_state_text pszRsp = do {
     s \<leftarrow> need (RspStart pszRsp);
     s \<leftarrow> need (SkipString s ''+CPIN: '');
     (szSimState, s) \<leftarrow> need (ExtractUnquotedString_char s CR MAX_BUFFER_SIZE);
     s \<leftarrow> need (RspEnd s);
     Some (cstr szSimState) }"

definition ParseSimPin :: "string \<Rightarrow> card_status \<Rightarrow> result_code \<times> card_status" where
  "ParseSimPin pszRsp cardStatus =
     (case sim_state_text pszRsp of
        None \<Rightarrow> (RRIL_RESULT_ERROR, cardStatus)
      | Some szSimState \<Rightarrow>
          (RRIL_RESULT_OK,
           case map_of sim_states szSimState of
             Some app \<Rightarrow>
               cardStatus\<lparr> card_state := ''RIL_CARDSTATE_PRESENT'', num_applications := 1, usim_application := app \<rparr>
           | None \<Rightarrow> cardStatus\<lparr> card_state := ''RIL_CARDSTATE_ABSENT'', num_applications := 0 \<rparr>))"

text \<open>The answer itself carries a NULL pointer: the status is asked for from the cache later.\<close>

definition ParseGetSimStatus :: "string \<Rightarrow> card_status \<Rightarrow> result_code \<times> card_status" where
  "ParseGetSimStatus pszRsp cardStatus = ParseSimPin pszRsp cardStatus"

text \<open>
  The answers to a PIN or PUK carry the retries, which are not known. Some store the PIN in the
  cache of the daemon (the second component) and forget it.
\<close>

definition no_retries :: "bool \<Rightarrow> int parsed" where
  "no_retries mem = parsed 4 (if mem then Some (-1) else None)"

definition forget_PIN :: "te_base \<Rightarrow> te_base" where
  "forget_PIN b = b\<lparr> m_szPIN := [] \<rparr>"

definition ParseEnterSimPin :: "bool \<Rightarrow> te_base \<Rightarrow> int parsed \<times> string option \<times> te_base" where
  "ParseEnterSimPin mem b =
     (if mem then (no_retries mem, Some (m_szPIN b), forget_PIN b) else (no_retries mem, None, b))"

definition ParseEnterSimPuk :: "bool \<Rightarrow> int parsed" where
  "ParseEnterSimPuk = no_retries"

definition ParseEnterSimPin2 :: "bool \<Rightarrow> int parsed" where
  "ParseEnterSimPin2 = no_retries"

definition ParseEnterSimPuk2 :: "bool \<Rightarrow> int parsed" where
  "ParseEnterSimPuk2 = no_retries"

definition ParseChangeSimPin :: "bool \<Rightarrow> te_base \<Rightarrow> int parsed \<times> string option \<times> te_base" where
  "ParseChangeSimPin mem b =
     (if mem then (no_retries mem, Some (m_szPIN b), forget_PIN b) else (no_retries mem, None, b))"

definition ParseChangeSimPin2 :: "bool \<Rightarrow> int parsed" where
  "ParseChangeSimPin2 = no_retries"

definition ParseEnterNetworkDepersonalization :: "bool \<Rightarrow> int parsed" where
  "ParseEnterNetworkDepersonalization = no_retries"

section \<open>Identities of the device\<close>

text \<open>The lines between the newlines: the text up to the terminator.\<close>

definition line_text :: "string \<Rightarrow> nat \<Rightarrow> (string \<times> string) option" where
  "line_text s cb = map_option (\<lambda>(out, s). (cstr out, s)) (need (ExtractUnquotedString_char s CR cb))"

definition ParseGetImsi :: "bool \<Rightarrow> string \<Rightarrow> string parsed" where
  "ParseGetImsi mem pszRsp = parsed 4 (do {
     _ \<leftarrow> check mem;
     s \<leftarrow> need (RspStart pszRsp);
     (szSerialNumber, s) \<leftarrow> line_text s PROPERTY_VALUE_MAX;
     s \<leftarrow> need (RspEnd s);
     Some szSerialNumber })"

text \<open>
  The IMEI is remembered in a property of the system on the builds for developers, and the property
  is cleared on the others when it is set. The list are the settings. \<open>CheckImeiBlacklist\<close> only
  writes to the log.
\<close>

definition imei_properties :: "(string \<Rightarrow> string option) \<Rightarrow> string \<Rightarrow> (string \<times> string option) list" where
  "imei_properties get_property szIMEI =
     (case get_property ''ro.build.type'' of
        None \<Rightarrow> []
      | Some t \<Rightarrow>
          if t = [] then []
          else if prefix ''eng'' t \<or> prefix ''userdebug'' t then
            [(''persist.radio.device.imei'', Some (take (PROPERTY_VALUE_MAX - 1) szIMEI))]
          else
            (case get_property ''persist.radio.device.imei'' of
               None \<Rightarrow> [] | Some v \<Rightarrow> if v = [] then [] else [(''persist.radio.device.imei'', None)]))"

definition ParseGetImei ::
    "bool \<Rightarrow> (string \<Rightarrow> string option) \<Rightarrow> string \<Rightarrow> string parsed \<times> (string \<times> string option) list" where
  "ParseGetImei mem get_property szRsp =
     (let r = do {
          _ \<leftarrow> check mem;
          s \<leftarrow> need (RspStart szRsp);
          (szIMEI, s) \<leftarrow> line_text s PROPERTY_VALUE_MAX;
          Some szIMEI }
      in (parsed 4 r, case r of None \<Rightarrow> [] | Some szIMEI \<Rightarrow> imei_properties get_property szIMEI))"

text \<open>The last two digits; a missing digit is the terminator of the text.\<close>

definition last_two_digits :: "string \<Rightarrow> string" where
  "last_two_digits szSV =
     (let ds = filter isdigit_c szSV in if length ds > 2 then drop (length ds - 2) ds else ds)"

definition ParseGetImeisv :: "bool \<Rightarrow> string \<Rightarrow> string parsed" where
  "ParseGetImeisv mem szRsp = parsed 4 (do {
     _ \<leftarrow> check mem;
     s \<leftarrow> need (RspStart szRsp);
     (szSV, s) \<leftarrow> line_text (skip_spaces s) MAX_BUFFER_SIZE;
     Some (last_two_digits szSV) })"

definition ParseBasebandVersion :: "bool \<Rightarrow> string \<Rightarrow> string parsed" where
  "ParseBasebandVersion mem pszRsp = parsed 4 (do {
     _ \<leftarrow> check mem;
     s \<leftarrow> need (RspStart pszRsp);
     (szTemp, s) \<leftarrow> line_text (snd (RspStart s)) MAX_BUFFER_SIZE;
     _ \<leftarrow> check (length szTemp < PROPERTY_VALUE_MAX \<and> szTemp \<noteq> []);
     Some szTemp })"

section \<open>Short messages\<close>

record sms_response =
  messageRef :: int
  ackPDU :: "string option"
  errorCode :: int

definition MAX_ACK_PDU_SIZE :: nat where "MAX_ACK_PDU_SIZE = 160"

text \<open>What follows the reference; \<open>b\<close> is whether the PDU of the acknowledgement is read.\<close>

definition sms_response_rest :: "bool \<Rightarrow> string \<Rightarrow> (string option \<times> string) option" where
  "sms_response_rest b s =
     (if b then map_option (\<lambda>(pdu, s). (Some pdu, s)) (line_text s MAX_ACK_PDU_SIZE) else Some (None, s))"

definition ParseSendSms :: "bool \<Rightarrow> string \<Rightarrow> sms_response parsed" where
  "ParseSendSms mem pszRsp = parsed 12 (do {
     _ \<leftarrow> check mem;
     s \<leftarrow> need (RspStart pszRsp);
     s \<leftarrow> need (SkipString (snd (RspStart s)) ''+CMGS: '');
     (uiMsgRef, s) \<leftarrow> need (ExtractUInt32 s 0);
     (pdu, s) \<leftarrow> (case SkipString s '','' of (comma, s) \<Rightarrow> sms_response_rest comma s);
     s \<leftarrow> need (RspEnd s);
     Some \<lparr> messageRef = int_of_u32 uiMsgRef, ackPDU = pdu, errorCode = -1 \<rparr> })"

text \<open>Here the PDU is read when there is no comma.\<close>

definition ParseSendSmsExpectMore :: "bool \<Rightarrow> string \<Rightarrow> sms_response parsed" where
  "ParseSendSmsExpectMore mem pszRsp = parsed 12 (do {
     _ \<leftarrow> check mem;
     s \<leftarrow> need (RspStart pszRsp);
     s \<leftarrow> need (SkipString s ''+CMGS: '');
     (uiMsgRef, s) \<leftarrow> need (ExtractUInt32 s 0);
     (pdu, s) \<leftarrow> (case SkipString s '','' of (comma, s) \<Rightarrow> sms_response_rest (\<not> comma) s);
     s \<leftarrow> need (RspEnd s);
     Some \<lparr> messageRef = int_of_u32 uiMsgRef, ackPDU = pdu, errorCode = -1 \<rparr> })"

definition ParseWriteSmsToSim :: "bool \<Rightarrow> string \<Rightarrow> int parsed" where
  "ParseWriteSmsToSim mem szRsp = parsed 4 (do {
     _ \<leftarrow> check mem;
     s \<leftarrow> need (FindAndSkipString szRsp ''+CMGW: '');
     (index, s) \<leftarrow> need (ExtractUInt32 s 0);
     s \<leftarrow> need (RspEnd s);
     Some (int_of_u32 index) })"

definition ParseGetSmscAddress :: "bool \<Rightarrow> string \<Rightarrow> string parsed" where
  "ParseGetSmscAddress mem szRsp = parsed 4 (do {
     _ \<leftarrow> check mem;
     s \<leftarrow> need (FindAndSkipString (snd (RspStart szRsp)) ''+CSCA: '');
     (szSCAddr, s) \<leftarrow> need (ExtractQuotedString s MAX_BUFFER_SIZE);
     Some (cstr szSCAddr) })"

text \<open>
  At most three memory stores; the one of the SIM ends the search. The second component tells
  whether the framework is told that the store is full. A result of the step without a cursor is
  the end of the search.
\<close>

definition store_status :: "string \<Rightarrow> (bool \<times> bool \<times> string) option" where
  "store_status pszRsp = do {
     (szMemStore, s) \<leftarrow> need (ExtractQuotedString pszRsp 3);
     s \<leftarrow> need (SkipString s '','');
     (uiUsed, s) \<leftarrow> need (ExtractUInt32 s 0);
     s \<leftarrow> need (SkipString s '','');
     (uiTotal, s) \<leftarrow> need (ExtractUInt32 s 0);
     Some (if cstr szMemStore = ''SM'' then (True, uiUsed = uiTotal, s) else (False, False, snd (SkipString s '',''))) }"

fun store_statuses :: "nat \<Rightarrow> string \<Rightarrow> (bool \<times> string) option" where
  "store_statuses 0 s = Some (False, s)"
| "store_statuses (Suc n) s =
     (case store_status s of
        None \<Rightarrow> None
      | Some (True, full, s) \<Rightarrow> Some (full, s)
      | Some (False, _, s) \<Rightarrow> store_statuses n s)"

text \<open>The report is sent before the end of the response is looked for.\<close>

definition ParseQuerySimSmsStoreStatus :: "string \<Rightarrow> result_code \<times> bool" where
  "ParseQuerySimSmsStoreStatus pszRsp =
     (case do { s \<leftarrow> need (RspStart pszRsp); s \<leftarrow> need (SkipString s ''+CPMS: ''); store_statuses 3 s } of
        None \<Rightarrow> (RRIL_RESULT_ERROR, False)
      | Some (full, s) \<Rightarrow>
          (if fst (FindAndSkipRspEnd s NL) then RRIL_RESULT_OK else RRIL_RESULT_ERROR, full))"

section \<open>Access to the SIM\<close>

record sim_io_response =
  sw1 :: u32
  sw2 :: u32
  simResponse :: "string option"

text \<open>\<open>sizeof (RIL_SIM_IO_Response)\<close> is 12. The size the string is given with counts its terminator.\<close>

definition quoted_hex :: "bool \<Rightarrow> string \<Rightarrow> (string option \<times> string) option" where
  "quoted_hex mem s =
     (case ExtractQuotedStringWithAllocatedMemory mem s None 0 of
        (True, Some szResponseString, cb, s) \<Rightarrow> if (cb - 1) mod 2 = 0 then Some (Some szResponseString, s) else None
      | _ \<Rightarrow> None)"

definition ParseSimIo :: "bool \<Rightarrow> string \<Rightarrow> sim_io_response parsed" where
  "ParseSimIo mem pszRsp = parsed 12 (do {
     s \<leftarrow> need (RspStart pszRsp);
     s \<leftarrow> need (SkipString s ''+CRSM: '');
     (uiSW1, s) \<leftarrow> need (ExtractUInt32 s 0);
     s \<leftarrow> need (SkipString s '','');
     (uiSW2, s) \<leftarrow> need (ExtractUInt32 s 0);
     (response, s) \<leftarrow> (case SkipString s '','' of (True, s) \<Rightarrow> quoted_hex mem s | (False, s) \<Rightarrow> Some (None, s));
     _ \<leftarrow> check mem;
     s \<leftarrow> need (RspEnd s);
     Some \<lparr> sw1 = uiSW1, sw2 = uiSW2, simResponse = response \<rparr> })"

text \<open>\<open>sscanf ("%02x")\<close>: white space, then at most two characters of a numeral.\<close>

definition scan_hex2 :: "string \<Rightarrow> (u32 \<times> string) option" where
  "scan_hex2 s =
     (let s = dropWhile isspace_c s; t = take 2 s; (v, e, _) = strto (- (2 ^ 32)) (2 ^ 32) 16 t
      in if length e = length t then None else Some (word_of_int v, drop (length t - length e) s))"

definition scan_status_words :: "string \<Rightarrow> u32 \<times> u32" where
  "scan_status_words s =
     (case scan_hex2 s of
        None \<Rightarrow> (0, 0)
      | Some (v, s) \<Rightarrow> (v, case scan_hex2 s of None \<Rightarrow> 0 | Some (w, _) \<Rightarrow> w))"

text \<open>
  The answer to an APDU: the length, then the response with the two status words at its end, of
  which \<open>payloadSize respLen\<close> characters are copied.
\<close>

definition apdu_response :: "string \<Rightarrow> (nat \<Rightarrow> nat) \<Rightarrow> bool \<Rightarrow> string \<Rightarrow> sim_io_response parsed" where
  "apdu_response name payloadSize mem pszRsp = parsed 12 (do {
     s \<leftarrow> need (SkipString (snd (RspStart pszRsp)) name);
     (len, s) \<leftarrow> need (ExtractInt s 0 s 10);
     s \<leftarrow> need (FindAndSkipString s '','');
     pszResponseString \<leftarrow> (case ExtractQuotedStringWithAllocatedMemory mem s None 0 of
         (True, r, _, _) \<Rightarrow> r | (False, _) \<Rightarrow> None);
     (let respLen = length pszResponseString in
      if respLen < 4 \<or> int respLen \<noteq> len \<or> len mod 2 \<noteq> 0 then None
      else
        (let (w1, w2) = scan_status_words (drop (respLen - 4) pszResponseString) in
         Some \<lparr> sw1 = w1, sw2 = w2, simResponse = Some (take (payloadSize respLen) pszResponseString) \<rparr>)) })"

definition ParseSimTransmitApduBasic :: "bool \<Rightarrow> string \<Rightarrow> sim_io_response parsed" where
  "ParseSimTransmitApduBasic = apdu_response ''+CSIM: '' (\<lambda>respLen. respLen - 4)"

text \<open>Here \<open>payloadSize\<close> keeps its initial value.\<close>

definition ParseSimTransmitApduChannel :: "bool \<Rightarrow> string \<Rightarrow> sim_io_response parsed" where
  "ParseSimTransmitApduChannel = apdu_response ''+CGLA: '' (\<lambda>respLen. 0)"

definition ParseSimOpenChannel :: "bool \<Rightarrow> string \<Rightarrow> int parsed" where
  "ParseSimOpenChannel mem pszRsp = parsed 4 (do {
     _ \<leftarrow> check mem;
     s \<leftarrow> Some (snd (FindAndSkipString (snd (RspStart pszRsp)) ''+CCHO: ''));
     (sessionId, s) \<leftarrow> need (ExtractInt s 0 s 10);
     Some sessionId })"

section \<open>Reading back what is printed\<close>

lemma need_simps [simp]: "need (True, x) = Some x" "need (False, x) = None" "check True = Some ()" "check False = None"
  by (simp_all add: need_def check_def)

lemma parsed_simps [simp]:
  "parsed n None = (RRIL_RESULT_ERROR, None)" "parsed n (Some x) = (RRIL_RESULT_OK, Some (x, n))"
  by (simp_all add: parsed_def)

text \<open>The cursor a successful call leaves is in the text.\<close>

lemma need_cursor [dest]:
  "need (SkipString s k) = Some s' \<Longrightarrow> suffix s' s"
  "need (FindAndSkipString s k) = Some s' \<Longrightarrow> suffix s' s"
  "need (ExtractUInt32 s v) = Some (w, s') \<Longrightarrow> suffix s' s"
  "need (ExtractQuotedString s cb) = Some (buf, s') \<Longrightarrow> suffix s' s"
  using SkipString_suffix [of s k] FindAndSkipString_suffix [of s k] ExtractUInt32_suffix [of s v]
    quoted_cursor.in_text [of s cb]
  by (auto simp: need_def split: if_splits)

lemma SkipString_literal: "k \<noteq> [] \<Longrightarrow> hd k \<noteq> SPC \<Longrightarrow> SkipString (k @ r) k = (True, r)"
  by (cases k) (auto simp: SkipString_def Let_def cursor_simps)

lemma digits_value_dec_string:
  "list_all isdigit_c ds \<Longrightarrow> r = [] \<or> \<not> digit_val (hd r) < 10 \<Longrightarrow>
     digits_value 10 n (ds @ r) = (foldl (\<lambda>n c. n * 10 + (code c - 48)) n ds, r)"
proof (induction ds arbitrary: n)
  case Nil
  then show ?case by (cases r) auto
next
  case (Cons c ds)
  then show ?case by (auto simp: digit_val_def isdigit_c_def)
qed

lemma strto_dec_string:
  assumes "r = [] \<or> \<not> digit_val (hd r) < 10" "int n \<le> hi" "lo \<le> 0"
  shows "strto lo hi 10 (dec_string n @ r) = (int n, r, False)"
proof -
  obtain c cs where c: "dec_string n = c # cs" "isdigit_c c"
    using dec_string_digits [of n] by (cases "dec_string n") auto
  have s: "dropWhile isspace_c (dec_string n @ r) = dec_string n @ r"
    using c by (auto simp: isdigit_c_def isspace_c_def code_def)
  have m: "c \<noteq> CHR ''-''" "c \<noteq> CHR ''+''" using c(2) by (auto simp: isdigit_c_def code_def)
  have b: "strto_base 10 s = (10, s)" for s
    by (auto simp: strto_base_def split: list.split)
  have d: "digits_value 10 0 (dec_string n @ r) = (n, r)"
    using digits_value_dec_string [of "dec_string n" r 0] dec_string_digits [of n] assms(1) dec_value_dec_string [of n]
    by (simp add: dec_value_def)
  have l: "length r \<noteq> length (dec_string n @ r)" using c by simp
  show ?thesis
    unfolding strto_def s Let_def
    using c(1) m d l assms(2,3) by (simp add: b strto_clamp_def)
qed


lemma ExtractInt_dec_string:
  assumes "r = [] \<or> \<not> digit_val (hd r) < 10" "int n \<le> 2 ^ 31 - 1"
  shows "ExtractInt (dec_string n @ r) v e 10 = (True, int n, r)"
proof -
  have "strtoll 10 (dec_string n @ r) = (int n, r, False)"
    unfolding strtoll_def by (rule strto_dec_string) (use assms in auto)
  moreover have "length r \<noteq> length (dec_string n @ r)" using dec_string_digits [of n] by simp
  ultimately show ?thesis using assms(2) by (simp add: ExtractInt_def ExtractLongLong_def)
qed

text \<open>Two hexadecimal digits.\<close>

definition hex2 :: "nat \<Rightarrow> string" where
  "hex2 n = [hex_char (n div 16), hex_char (n mod 16)]"

lemma hex_char_digit:
  "d < 16 \<Longrightarrow> digit_val (hex_char d) = d \<and> \<not> isspace_c (hex_char d) \<and> hex_char d \<notin> {CHR ''-'', CHR ''+'', CHR ''x'', CHR ''X''}"
proof -
  have "list_all (\<lambda>d. digit_val (hex_char d) = d \<and> \<not> isspace_c (hex_char d) \<and>
      hex_char d \<notin> {CHR ''-'', CHR ''+'', CHR ''x'', CHR ''X''}) [0..<16]" by code_simp
  then show "d < 16 \<Longrightarrow> ?thesis" by (simp only: list_all_iff set_upt) auto
qed

lemma scan_hex2_hex2:
  assumes "n < 256"
  shows "scan_hex2 (hex2 n @ r) = Some (word_of_nat n, r)"
proof -
  note h = hex_char_digit [of "n div 16"] hex_char_digit [of "n mod 16"]
  have "n div 16 < 16" using assms by simp
  moreover have "n mod 16 < 16" by simp
  moreover have "strto_base 16 [hex_char (n div 16), hex_char (n mod 16)] = (16, [hex_char (n div 16), hex_char (n mod 16)])"
    by (simp add: strto_base_def)
  ultimately show ?thesis
    using h assms by (simp add: scan_hex2_def hex2_def strto_def strto_clamp_def Let_def)
qed

lemma RspStart_NL [simp]: "SkipRspStart (NL @ r) NL = (True, r)" "SkipRspEnd (NL @ r) NL = (True, r)"
  using SkipString_literal [of NL r] by (simp_all add: SkipRsp_eq NL_def)

lemma quoted_memory:
  assumes "QUOTE \<notin> set body"
  shows "ExtractQuotedStringWithAllocatedMemory True (QUOTE # body @ QUOTE # r) v n = (True, Some body, length body + 1, r)"
  using assms
  by (simp add: ExtractQuotedStringWithAllocatedMemory_def Let_def cursor_simps
      SkipString_char [of _ 0, simplified] FindAndSkipString_char_found)

lemma hex_char_not_quote: "d < 16 \<Longrightarrow> hex_char d \<noteq> QUOTE"
proof -
  have "list_all (\<lambda>d. hex_char d \<noteq> QUOTE) [0..<16]" by code_simp
  then show "d < 16 \<Longrightarrow> ?thesis" by (simp only: list_all_iff set_upt) auto
qed

lemma QUOTE_hex2: "n < 256 \<Longrightarrow> QUOTE \<notin> set (hex2 n)"
  using less_mult_imp_div_less [of n 16 16] hex_char_not_quote [of "n div 16"] hex_char_not_quote [of "n mod 16"] by (auto simp: hex2_def)

lemma length_hex2 [simp]: "length (hex2 n) = 2"
  by (simp add: hex2_def)

text \<open>The answer to an APDU as the modem prints it.\<close>

definition apdu_answer :: "string \<Rightarrow> string \<Rightarrow> nat \<Rightarrow> nat \<Rightarrow> string \<Rightarrow> string" where
  "apdu_answer name body a b rest =
     NL @ name @ dec_string (length body + 4) @ CHR '','' # QUOTE # (body @ hex2 a @ hex2 b) @ QUOTE # rest"

lemma apdu_response_answer:
  assumes "name \<noteq> []" "hd name \<noteq> SPC" "QUOTE \<notin> set body" "even (length body)" "length body < 1000"
    "a < 256" "b < 256"
  shows "apdu_response name f True (apdu_answer name body a b rest) =
    (RRIL_RESULT_OK, Some (\<lparr> sw1 = word_of_nat a, sw2 = word_of_nat b,
       simResponse = Some (take (f (length body + 4)) (body @ hex2 a @ hex2 b)) \<rparr>, 12))"
proof -
  let ?all = "body @ hex2 a @ hex2 b"
  have q: "QUOTE \<notin> set ?all" using assms QUOTE_hex2 by auto
  have n: "SkipRspStart (apdu_answer name body a b rest) NL = (True, name @ dec_string (length body + 4) @
      CHR '','' # QUOTE # ?all @ QUOTE # rest)"
    by (simp add: apdu_answer_def)
  have i: "ExtractInt (dec_string (length body + 4) @ CHR '','' # t) v e 10 = (True, int (length body + 4), CHR '','' # t)" for t v e
    using assms(5) by (intro ExtractInt_dec_string) (auto simp: digit_val_def isdigit_c_def code_def)
  have c: "FindAndSkipString (CHR '','' # t) '','' = (True, t)" for t
    using FindAndSkipString_char_found [of "CHR '',''" "[]" t] by simp
  have w: "scan_status_words (drop (length body) ?all) = (word_of_nat a, word_of_nat b)"
    using assms(6,7) scan_hex2_hex2 [of a "hex2 b"] scan_hex2_hex2 [of b "[]"] by (simp add: scan_status_words_def)
  have k: "SkipString (name @ t) name = (True, t)" for t by (rule SkipString_literal [OF assms(1,2)])
  have qm: "ExtractQuotedStringWithAllocatedMemory True (QUOTE # body @ hex2 a @ hex2 b @ QUOTE # rest) None 0 =
      (True, Some ?all, length ?all + 1, rest)" using quoted_memory [OF q, of rest None 0] by simp
  show ?thesis
    using assms(4) w
    by (simp add: apdu_response_def n k i c qm Let_def)
qed

text \<open>
  C33. The payload of an answer on a logical channel is lost. For every even body and every two
  status words, \<open>ParseSimTransmitApduBasic\<close> hands the framework the payload and the status words the
  modem sent; \<open>ParseSimTransmitApduChannel\<close>, for the same answer to \<open>AT+CGLA\<close>, hands it the status
  words with an empty response.
\<close>

theorem apdu_channel_loses_payload:
  assumes "QUOTE \<notin> set body" "even (length body)" "length body < 1000" "a < 256" "b < 256"
  shows "ParseSimTransmitApduBasic True (apdu_answer ''+CSIM: '' body a b rest) =
      (RRIL_RESULT_OK, Some (\<lparr> sw1 = word_of_nat a, sw2 = word_of_nat b, simResponse = Some body \<rparr>, 12)) \<and>
    ParseSimTransmitApduChannel True (apdu_answer ''+CGLA: '' body a b rest) =
      (RRIL_RESULT_OK, Some (\<lparr> sw1 = word_of_nat a, sw2 = word_of_nat b, simResponse = Some [] \<rparr>, 12))"
  using assms by (simp add: ParseSimTransmitApduBasic_def ParseSimTransmitApduChannel_def apdu_response_answer)

theorem apdu_channel_loses_payload_witness:
  "ParseSimTransmitApduBasic True (apdu_answer ''+CSIM: '' ''6F07'' 0x90 0 [CR]) =
      (RRIL_RESULT_OK, Some (\<lparr> sw1 = 0x90, sw2 = 0, simResponse = Some ''6F07'' \<rparr>, 12)) \<and>
    ParseSimTransmitApduChannel True (apdu_answer ''+CGLA: '' ''6F07'' 0x90 0 [CR]) =
      (RRIL_RESULT_OK, Some (\<lparr> sw1 = 0x90, sw2 = 0, simResponse = Some [] \<rparr>, 12))"
  using apdu_channel_loses_payload [where body = "''6F07''" and a = "0x90" and b = 0 and rest = "[CR]"] by simp

text \<open>The answer to a restricted access to the SIM.\<close>

definition CRSM_answer :: "nat \<Rightarrow> nat \<Rightarrow> string option \<Rightarrow> string \<Rightarrow> string" where
  "CRSM_answer a b response rest =
     NL @ ''+CRSM: '' @ dec_string a @ CHR '','' # dec_string b @
     (case response of None \<Rightarrow> [] | Some r \<Rightarrow> CHR '','' # QUOTE # r @ [QUOTE]) @ NL @ rest"

lemma uint_then: "n < 2 ^ 32 \<Longrightarrow> \<not> isdigit_c c \<Longrightarrow> c \<noteq> SPC \<Longrightarrow>
    ExtractUInt32 (dec_string n @ c # r) v = (True, word_of_nat n, c # r)"
  using ExtractUInt32_dec_string [of n "c # r" 0 v] by (simp add: cursor_simps)

lemma field_chars:
  "c \<in> set (dec_string n) \<Longrightarrow> isdigit_c c"
  using dec_string_digits [of n] by (auto simp: list_all_iff)

lemma quoted_buffer:
  assumes "QUOTE \<notin> set body" "NUL \<notin> set body" "length body < cb"
  shows "\<exists>buf. ExtractQuotedString (QUOTE # body @ QUOTE # t) cb = (True, buf, t) \<and> cstr buf = body"
proof -
  obtain k where "cb - length body = Suc k" using assms(3) by (metis Suc_diff_Suc)
  then show ?thesis
    using ExtractQuotedString_quoted [of body 0 t cb] assms by (simp add: cstr_append_NUL)
qed

lemma skip_char: "c \<noteq> SPC \<Longrightarrow> SkipString (c # r) [c] = (True, r)"
  using SkipString_char [of c 0 r] by simp

lemma skip_other: "d \<noteq> SPC \<Longrightarrow> d \<noteq> c \<Longrightarrow> SkipString (d # r) [c] = (False, d # r)"
  by (simp add: SkipString_def Let_def cursor_simps)

text \<open>
  C32. The answer to a restricted SIM access is read back: the two status words, and the response
  when there is one; one with an odd number of digits is refused.
\<close>

theorem ParseSimIo_answer:
  assumes "a < 2 ^ 32" "b < 2 ^ 32" "\<forall>r. response = Some r \<longrightarrow> QUOTE \<notin> set r"
  shows "ParseSimIo True (CRSM_answer a b response rest) =
    (if \<exists>r. response = Some r \<and> odd (length r) then (RRIL_RESULT_ERROR, None)
     else (RRIL_RESULT_OK, Some (\<lparr> sw1 = word_of_nat a, sw2 = word_of_nat b, simResponse = response \<rparr>, 12)))"
proof -
  have d: "\<not> isdigit_c CR" "\<not> isdigit_c (CHR '','')" by (simp_all add: isdigit_c_def code_def)
  have p: "SkipRspStart (CRSM_answer a b response rest) NL = (True, ''+CRSM: '' @ dec_string a @ CHR '','' # dec_string b @
     (case response of None \<Rightarrow> [] | Some r \<Rightarrow> CHR '','' # QUOTE # r @ [QUOTE]) @ NL @ rest)"
    by (simp only: CRSM_answer_def RspStart_NL append_assoc append_Cons)
  have k: "SkipString (''+CRSM: '' @ t) ''+CRSM: '' = (True, t)" for t by (rule SkipString_literal) simp_all
  have n: "SkipRspEnd (CR # LF # rest) NL = (True, rest)"
    using RspStart_NL(2) [of rest] by (simp add: NL_def)
  show ?thesis
  proof (cases response)
    case None
    have "ExtractUInt32 (dec_string b @ NL @ rest) 0 = (True, word_of_nat b, NL @ rest)"
      using assms(2) d by (simp add: NL_def uint_then)
    moreover have "SkipString (NL @ rest) '','' = (False, NL @ rest)" by (simp add: NL_def skip_other)
    ultimately show ?thesis
      using assms(1) d None p
      by (simp add: ParseSimIo_def k uint_then skip_char n del: append_Cons)
  next
    case (Some r)
    have q: "quoted_hex True (QUOTE # r @ QUOTE # t) = (if odd (length r) then None else Some (Some r, t))" for t
      using assms(3) Some quoted_memory [of r t None 0] by (simp add: quoted_hex_def odd_iff_mod_2_eq_one)
    have p': "SkipRspStart (CRSM_answer a b (Some r) rest) NL = (True, ''+CRSM: '' @ dec_string a @ CHR '','' #
        dec_string b @ CHR '','' # QUOTE # r @ QUOTE # NL @ rest)"
      using p Some by (simp del: append_Cons add: append_Cons [of _ "r @ [QUOTE]"] append_Cons [of _ "[QUOTE]"] append_Cons [of _ "[]"] append_Cons [of "CHR '',''"] append_Cons [of QUOTE])
    show ?thesis
      using assms(1,2) d Some
      by (cases "odd (length r)") (simp_all add: ParseSimIo_def p' k uint_then skip_char q del: append_Cons)
  qed
qed

theorem ParseSimIo_answer_witness:
  "ParseSimIo True (CRSM_answer 0x90 0 (Some ''6F07'') []) =
     (RRIL_RESULT_OK, Some (\<lparr> sw1 = 0x90, sw2 = 0, simResponse = Some ''6F07'' \<rparr>, 12)) \<and>
   ParseSimIo True (CRSM_answer 0x90 0 (Some ''6F0'') []) = (RRIL_RESULT_ERROR, None)"
  using ParseSimIo_answer [where a = "0x90" and b = 0 and response = "Some ''6F07''" and rest = "[]"]
    ParseSimIo_answer [where a = "0x90" and b = 0 and response = "Some ''6F0''" and rest = "[]"] by simp

lemma sint_of_small_nat: "n < 2 ^ 31 \<Longrightarrow> sint (word_of_nat n :: u32) = int n"
  using signed_take_bit_int_eq_self [of 31 "int n"] by (simp add: sint_sbintrunc' signed_of_nat)

text \<open>The answer to a message: its reference, and the PDU of the acknowledgement when there is one.\<close>

definition CMGS_answer :: "nat \<Rightarrow> string option \<Rightarrow> string \<Rightarrow> string" where
  "CMGS_answer n pdu rest =
     NL @ ''+CMGS: '' @ dec_string n @ (case pdu of None \<Rightarrow> [] | Some p \<Rightarrow> CHR '','' # p) @ NL @ rest"

lemma line_text_CR:
  assumes "CR \<notin> set p" "NUL \<notin> set p" "p = [] \<or> hd p \<noteq> SPC" "length p < cb"
  shows "line_text (p @ CR # r) cb = Some (p, CR # r)"
  using ExtractUnquotedString_delimited [of CR p 0 r cb] assms
  by (cases "cb - length p") (auto simp: line_text_def cstr_append_NUL)

lemma RspStart_other: "c \<noteq> SPC \<Longrightarrow> c \<noteq> CR \<Longrightarrow> SkipRspStart (c # r) NL = (False, c # r)"
  by (simp add: cursor_simps SkipString_def Let_def NL_def)

text \<open>
  A message sent with more to come is reported as failed when the network acknowledges it with a
  PDU. \<open>ParseSendSms\<close> reads the reference and the PDU of such an answer; \<open>ParseSendSmsExpectMore\<close>
  refuses the same answer, and gives an empty PDU for an answer without one.
\<close>

theorem expect_more_refuses_PDU:
  assumes "n < 2 ^ 31" "CR \<notin> set p" "NUL \<notin> set p" "p \<noteq> []" "hd p \<noteq> SPC" "length p < 160"
  shows "ParseSendSms True (CMGS_answer n (Some p) rest) =
      (RRIL_RESULT_OK, Some (\<lparr> messageRef = int n, ackPDU = Some p, errorCode = -1 \<rparr>, 12)) \<and>
    ParseSendSmsExpectMore True (CMGS_answer n (Some p) rest) = (RRIL_RESULT_ERROR, None) \<and>
    ParseSendSms True (CMGS_answer n None rest) =
      (RRIL_RESULT_OK, Some (\<lparr> messageRef = int n, ackPDU = None, errorCode = -1 \<rparr>, 12)) \<and>
    ParseSendSmsExpectMore True (CMGS_answer n None rest) =
      (RRIL_RESULT_OK, Some (\<lparr> messageRef = int n, ackPDU = Some [], errorCode = -1 \<rparr>, 12))"
proof -
  have d: "\<not> isdigit_c CR" "\<not> isdigit_c (CHR '','')" by (simp_all add: isdigit_c_def code_def)
  have w: "sint (word_of_nat n :: u32) = int n"
    using assms(1) by (rule sint_of_small_nat)
  have k: "SkipString (''+CMGS: '' @ t) ''+CMGS: '' = (True, t)" for t by (rule SkipString_literal) simp_all
  have o1: "SkipRspStart (''+CMGS: '' @ t) NL = (False, ''+CMGS: '' @ t)" for t
    using RspStart_other [of "CHR ''+''" "''CMGS: '' @ t"] by simp
  have l: "line_text (p @ NL @ rest) 160 = Some (p, NL @ rest)" "line_text (NL @ rest) 160 = Some ([], NL @ rest)"
    using line_text_CR [of p 160 "LF # rest"] line_text_CR [of "[]" 160 "LF # rest"] assms by (simp_all add: NL_def)
  have u: "ExtractUInt32 (dec_string n @ NL @ t) 0 = (True, word_of_nat n, NL @ t)" for t
    using assms(1) d by (simp add: NL_def uint_then)
  have c: "ExtractUInt32 (dec_string n @ CHR '','' # t) 0 = (True, word_of_nat n, CHR '','' # t)" for t
    using assms(1) d by (simp add: uint_then)
  have s: "SkipString (NL @ t) '','' = (False, NL @ t)" for t by (simp add: NL_def skip_other)
  have e: "SkipRspEnd (p @ NL @ rest) NL = (False, p @ NL @ rest)"
    using assms(2,4,5) by (cases p) (auto simp: cursor_simps SkipString_def Let_def NL_def)
  have a: "CMGS_answer n (Some p) rest = NL @ ''+CMGS: '' @ dec_string n @ CHR '','' # p @ NL @ rest"
    "CMGS_answer n None rest = NL @ ''+CMGS: '' @ dec_string n @ NL @ rest"
    by (simp_all add: CMGS_answer_def)
  show ?thesis
    by (simp add: ParseSendSms_def ParseSendSmsExpectMore_def a k o1 u c s e l skip_char sms_response_rest_def
        MAX_ACK_PDU_SIZE_def w del: append_Cons)
qed

theorem expect_more_refuses_PDU_witness:
  "ParseSendSms True (CMGS_answer 7 (Some ''00A1'') []) =
      (RRIL_RESULT_OK, Some (\<lparr> messageRef = 7, ackPDU = Some ''00A1'', errorCode = -1 \<rparr>, 12)) \<and>
    ParseSendSmsExpectMore True (CMGS_answer 7 (Some ''00A1'') []) = (RRIL_RESULT_ERROR, None)"
  using expect_more_refuses_PDU [where n = 7 and p = "''00A1''" and rest = "[]"] by simp

section \<open>Cell broadcast configuration\<close>

definition RIL_MAX_BROADCASTSMSCONFIGINFO_ENTRIES :: nat where
  "RIL_MAX_BROADCASTSMSCONFIGINFO_ENTRIES = 10"

record broadcast_cell =
  from_service :: u32
  to_service :: u32
  from_scheme :: u32
  to_scheme :: u32
  cell_selected :: u8

text \<open>One range \<open>n\<close> or \<open>n-m\<close>; text without a number gives the range from -1 to -1.\<close>

definition broadcast_range :: "string \<Rightarrow> ((u32 \<times> u32) \<times> string) option" where
  "broadcast_range s =
     (case ExtractUInt32 s 0 of
        (False, _, s) \<Rightarrow> Some ((- 1, - 1), s)
      | (True, v, s) \<Rightarrow>
         (case SkipString s ''-'' of
            (False, s) \<Rightarrow> Some ((v, v), s)
          | (True, s) \<Rightarrow> do { (w, s) \<leftarrow> need (ExtractUInt32 s 0); Some ((v, w), s) }))"

text \<open>The first loop: \<open>n\<close> bounds the turns. It gives the text where it stopped as well.\<close>

primrec channel_ranges :: "nat \<Rightarrow> string \<Rightarrow> ((u32 \<times> u32) list \<times> string) option" where
  "channel_ranges 0 s = Some ([], s)"
| "channel_ranges (Suc n) s =
     do { (r, s) \<leftarrow> broadcast_range s;
          (case SkipString s '','' of
             (False, s) \<Rightarrow> Some ([r], s)
           | (True, s) \<Rightarrow> do { (rs, s) \<leftarrow> channel_ranges n s; Some (r # rs, s) }) }"

text \<open>The second loop reads the text \<open>s\<close> of the coding schemes, but looks for the comma that continues
  it in what the first loop left of the chs.\<close>

primrec scheme_ranges :: "nat \<Rightarrow> string \<Rightarrow> string \<Rightarrow> (u32 \<times> u32) list option" where
  "scheme_ranges 0 chs s = Some []"
| "scheme_ranges (Suc n) chs s =
     do { (r, s) \<leftarrow> broadcast_range s;
          (case SkipString chs '','' of
             (False, _) \<Rightarrow> Some [r]
           | (True, chs) \<Rightarrow> do { rs \<leftarrow> scheme_ranges n chs s; Some (r # rs) }) }"

text \<open>The block starts as bytes \<open>0xFF\<close>. A pointer no loop has set is \<open>None\<close>.\<close>

definition broadcast_cell_at ::
  "(u32 \<times> u32) list \<Rightarrow> (u32 \<times> u32) list \<Rightarrow> u32 \<Rightarrow> nat \<Rightarrow> broadcast_cell option" where
  "broadcast_cell_at chs schemes mode i =
     (let c = (if i < length chs then chs ! i else (- 1, - 1));
          l = (if i < length schemes then schemes ! i else (- 1, - 1))
      in if i < length chs \<or> i < length schemes
         then Some \<lparr> from_service = fst c, to_service = snd c, from_scheme = fst l, to_scheme = snd l,
                     cell_selected = ucast mode \<rparr>
         else None)"

definition ParseGsmGetBroadcastSmsConfig :: "bool \<Rightarrow> string \<Rightarrow> broadcast_cell option list parsed" where
  "ParseGsmGetBroadcastSmsConfig mem szRsp =
     (case do {
          _ \<leftarrow> check mem;
          s \<leftarrow> need (RspStart szRsp);
          s \<leftarrow> need (SkipString s ''+CSCB: '');
          (mode, s) \<leftarrow> need (ExtractUInt32 s 0);
          s \<leftarrow> need (SkipString s '','');
          (cbuf, s) \<leftarrow> need (ExtractQuotedString s MAX_BUFFER_SIZE);
          s \<leftarrow> need (SkipString s '','');
          (lbuf, s) \<leftarrow> need (ExtractQuotedString s MAX_BUFFER_SIZE);
          _ \<leftarrow> need (RspEnd s);
          let n = Suc (count_list (cstr cbuf) (CHR '',''));
          let m = Suc (count_list (cstr lbuf) (CHR '',''));
          _ \<leftarrow> check (max n m \<le> RIL_MAX_BROADCASTSMSCONFIGINFO_ENTRIES);
          (chs, rest) \<leftarrow> channel_ranges n (cstr cbuf);
          schemes \<leftarrow> scheme_ranges m rest (cstr lbuf);
          Some (map (broadcast_cell_at chs schemes mode) [0..<max n m]) } of
        None \<Rightarrow> (RRIL_RESULT_ERROR, None)
      | Some cells \<Rightarrow> (RRIL_RESULT_OK, Some (cells, 4 * length cells)))"

definition range_string :: "u32 \<times> u32 \<Rightarrow> string" where
  "range_string r =
     dec_string (unat (fst r)) @ (if fst r = snd r then [] else CHR ''-'' # dec_string (unat (snd r)))"

fun range_list :: "(u32 \<times> u32) list \<Rightarrow> string" where
  "range_list [] = []"
| "range_list [r] = range_string r"
| "range_list (r # rs) = range_string r @ CHR '','' # range_list rs"

definition CSCB_answer :: "nat \<Rightarrow> (u32 \<times> u32) list \<Rightarrow> (u32 \<times> u32) list \<Rightarrow> string" where
  "CSCB_answer mode chs schemes =
     NL @ ''+CSCB: '' @ dec_string mode @ CHR '','' # QUOTE # range_list chs @ QUOTE # CHR '','' #
       QUOTE # range_list schemes @ QUOTE # NL"

definition range_end :: "string \<Rightarrow> bool" where
  "range_end s \<longleftrightarrow> s = [] \<or> hd s = CHR '',''"

lemma broadcast_range_string:
  assumes "range_end s"
  shows "broadcast_range (range_string r @ s) = Some (r, s)"
proof -
  have u: "ExtractUInt32 (dec_string (unat w) @ t) v = (True, w, t)"
    if "range_end t \<or> hd t = CHR ''-''" for w v t
    using that unsigned_less [of w] ExtractUInt32_dec_string [of "unat w" t 0 v]
    by (cases t) (auto simp: range_end_def isdigit_c_def code_def cursor_simps)
  obtain a b where r: "r = (a, b)" by (cases r)
  have m: "SkipString s ''-'' = (False, s)" using assms
    by (cases s) (auto simp: range_end_def SkipString_def Let_def cursor_simps)
  show ?thesis
    using assms u m by (simp add: broadcast_range_def range_string_def r skip_char)
qed

lemma channel_ranges_list:
  assumes "rs \<noteq> []" "length rs \<le> n"
  shows "channel_ranges n (range_list rs) = Some (rs, [])"
  using assms
proof (induction rs arbitrary: n rule: range_list.induct)
  case (2 r)
  then obtain k where "n = Suc k" by (cases n) auto
  then show ?case
    using broadcast_range_string [of "[]" r] by (simp add: range_end_def SkipString_def Let_def cursor_simps)
next
  case (3 r r2 rs)
  then obtain k where "n = Suc k" by (cases n) auto
  then show ?case
    using 3 broadcast_range_string [of "CHR '','' # range_list (r2 # rs)" r] by (simp add: range_end_def skip_char)
qed simp

lemma range_list_chars: "set (range_list rs) \<subseteq> {c. isdigit_c c} \<union> {CHR '','', CHR ''-''}"
  by (induction rs rule: range_list.induct) (auto simp: range_string_def dest: field_chars)

lemma range_list_commas: "rs \<noteq> [] \<Longrightarrow> Suc (count_list (range_list rs) (CHR '','')) = length rs"
proof -
  have d: "count_list (dec_string n) (CHR '','') = 0" for n
    using field_chars [of "CHR '',''" n] by (auto simp: isdigit_c_def code_def intro: count_notin)
  show "rs \<noteq> [] \<Longrightarrow> ?thesis"
    by (induction rs rule: range_list.induct) (simp_all add: range_string_def d)
qed

text \<open>
  C34. The configuration is not read back: of the ranges of coding schemes only the first one is, since
  the loop looks for the commas in the text of the channels, which is used up. The entries of the
  channels are in order, the first with the first range of schemes and the others with the initial -1;
  where there are more ranges of schemes than of channels, an entry is announced for each of them but
  its pointer has never been set. \<open>selected\<close> is the mode, which is 0 for channels that are accepted.
\<close>

theorem broadcast_schemes_lost:
  assumes "mode < 2 ^ 32" "chs \<noteq> []" "schemes \<noteq> []" "length chs \<le> 10" "length schemes \<le> 10"
    and "length (range_list chs) < MAX_BUFFER_SIZE" "length (range_list schemes) < MAX_BUFFER_SIZE"
  shows "\<exists>cells. ParseGsmGetBroadcastSmsConfig True (CSCB_answer mode chs schemes) =
      (RRIL_RESULT_OK, Some (cells, 4 * max (length chs) (length schemes))) \<and>
    length cells = max (length chs) (length schemes) \<and>
    (\<forall>i < length chs. cells ! i = Some \<lparr> from_service = fst (chs ! i), to_service = snd (chs ! i),
        from_scheme = (if i = 0 then fst (hd schemes) else 0xFFFFFFFF),
        to_scheme = (if i = 0 then snd (hd schemes) else 0xFFFFFFFF), cell_selected = word_of_nat mode \<rparr>) \<and>
    (\<forall>i. length chs \<le> i \<longrightarrow> i < length schemes \<longrightarrow> cells ! i = None)"
proof -
  have nq: "QUOTE \<notin> set (range_list rs)" "NUL \<notin> set (range_list rs)" for rs
    using range_list_chars [of rs] by (auto simp: isdigit_c_def code_def)
  obtain cb where cb: "ExtractQuotedString (QUOTE # range_list chs @ QUOTE # CHR '','' # QUOTE # range_list schemes @ QUOTE # NL)
      MAX_BUFFER_SIZE = (True, cb, CHR '','' # QUOTE # range_list schemes @ QUOTE # NL)" "cstr cb = range_list chs"
    using quoted_buffer nq assms by blast
  obtain lb where lb: "ExtractQuotedString (QUOTE # range_list schemes @ QUOTE # NL) MAX_BUFFER_SIZE = (True, lb, NL)"
      "cstr lb = range_list schemes"
    using quoted_buffer nq assms by blast
  obtain r rs where r: "schemes = r # rs" using assms by (cases schemes) auto
  have first: "broadcast_range (range_list schemes) = Some (r, if rs = [] then [] else CHR '','' # range_list rs)"
    using broadcast_range_string [of "if rs = [] then [] else CHR '','' # range_list rs" r]
    by (cases rs) (simp_all add: r range_end_def)
  have s: "scheme_ranges (Suc k) [] (range_list schemes) = Some [r]" for k
    by (simp add: first SkipString_def Let_def cursor_simps)
  have c: "channel_ranges (length chs) (range_list chs) = Some (chs, [])"
    by (rule channel_ranges_list) (use assms in auto)
  have e: "RspEnd NL = (True, [])" using RspStart_NL(2) [of "[]"] by simp
  have sc: "scheme_ranges (length schemes) [] (range_list schemes) = Some [hd schemes]"
    using s [of "length rs"] by (simp add: r)
  have n: "count_list (range_list chs) (CHR '','') \<le> 9" "count_list (range_list schemes) (CHR '','') \<le> 9"
    using range_list_commas [of chs] range_list_commas [of schemes] assms by linarith+
  have p: "SkipString (''+CSCB: '' @ t) ''+CSCB: '' = (True, t)" for t
    by (rule SkipString_literal) simp_all
  let ?n = "max (length chs) (length schemes)"
  let ?cells = "map (broadcast_cell_at chs [hd schemes] (word_of_nat mode)) [0..<?n]"
  have "ParseGsmGetBroadcastSmsConfig True (CSCB_answer mode chs schemes) = (RRIL_RESULT_OK, Some (?cells, 4 * ?n))"
    using assms(1-5)
    by (simp add: ParseGsmGetBroadcastSmsConfig_def CSCB_answer_def p uint_then skip_char isdigit_c_def code_def cb lb e
        range_list_commas c RIL_MAX_BROADCASTSMSCONFIGINFO_ENTRIES_def Let_def sc n
        del: append_Cons max_Suc_Suc channel_ranges.simps scheme_ranges.simps upt_Suc)
  moreover have "?cells ! i = Some \<lparr> from_service = fst (chs ! i), to_service = snd (chs ! i),
        from_scheme = (if i = 0 then fst (hd schemes) else 0xFFFFFFFF),
        to_scheme = (if i = 0 then snd (hd schemes) else 0xFFFFFFFF), cell_selected = word_of_nat mode \<rparr>"
    if "i < length chs" for i
  proof -
    have "i < ?n" using that by simp
    then have "?cells ! i = broadcast_cell_at chs [hd schemes] (word_of_nat mode) i" by simp
    moreover have "(ucast (word_of_nat mode :: u32) :: u8) = word_of_nat mode"
      by (rule bit_word_eqI) (simp add: bit_simps)
    ultimately show ?thesis using that by (simp add: broadcast_cell_at_def Let_def)
  qed
  moreover have "?cells ! i = None" if "length chs \<le> i" "i < length schemes" for i
  proof -
    have "0 < length chs" using assms(2) by simp
    then have "0 < i" using that(1) by (rule less_le_trans)
    then have "i < ?n" "i \<noteq> 0" using that(2) by simp_all
    then have "?cells ! i = broadcast_cell_at chs [hd schemes] (word_of_nat mode) i" "i \<noteq> 0" by simp_all
    then show ?thesis using that by (simp add: broadcast_cell_at_def Let_def)
  qed
  ultimately show ?thesis by (intro exI [of _ ?cells]) simp
qed

theorem broadcast_schemes_lost_witness:
  "\<exists>cells. ParseGsmGetBroadcastSmsConfig True (CSCB_answer 0 [(0, 5)] [(1, 1), (3, 9)]) = (RRIL_RESULT_OK, Some (cells, 8)) \<and>
     cells ! 0 = Some \<lparr> from_service = 0, to_service = 5, from_scheme = 1, to_scheme = 1, cell_selected = 0 \<rparr> \<and>
     cells ! 1 = None"
proof -
  have "length (range_list [(0, 5)]) < MAX_BUFFER_SIZE" "length (range_list [(1, 1), (3, 9)]) < MAX_BUFFER_SIZE"
    by code_simp+
  then show ?thesis
    using broadcast_schemes_lost [of 0 "[(0, 5)]" "[(1, 1), (3, 9)]"]
    by (auto simp del: range_list.simps)
qed

end
