(* ===== verification/CallAnswers.thy ===== *)
theory CallAnswers
  imports Answers
begin

text \<open>
  The answers of the modem about calls and supplementary services, as \<open>CTEBase\<close> reads them
  (\<open>CORE/ND/te_base.cpp\<close>): the list of calls with the state of the calls it updates, the cause of
  a failure behind the answers of services, call forwarding, waiting and the locks.
\<close>

section \<open>The list of calls\<close>

text \<open>What \<open>CTE\<close> knows of the caller from the notifications.\<close>

record caller =
  m_szCnapName :: string
  m_CnapCniValidity :: int
  m_szClipNumber :: string
  m_NumberCliValidity :: int

record ril_call =
  call_index :: int
  isMT :: int
  ril_call_state :: int
  isVoice :: bool
  isMpty :: int
  call_number :: "string option"
  numberPresentation :: int
  call_name :: "string option"
  namePresentation :: int
  call_toa :: int

definition MAX_NUMBER_SIZE :: nat where "MAX_NUMBER_SIZE = 50"
definition MAX_CNAP_NAME_SIZE :: nat where "MAX_CNAP_NAME_SIZE = 81"
definition AT_MAXARGS :: u32 where "AT_MAXARGS = 20"

text \<open>The number and its type: the sixth and seventh field of the line.\<close>

definition call_number_fields :: "caller \<Rightarrow> string list \<Rightarrow> ril_call \<Rightarrow> ril_call" where
  "call_number_fields c args call =
     (if length args < 7 then call
      else
        (case ExtractQuotedString (args ! 5) MAX_NUMBER_SIZE of
           (False, _) \<Rightarrow> call
         | (True, szAddress, _) \<Rightarrow>
             (let call = call\<lparr> call_number := Some (cstr szAddress),
                    numberPresentation :=
                      (if namePresentation call = 1 then 1
                       else if ril_call_state call = 4 \<or> cstr szAddress = m_szClipNumber c then m_NumberCliValidity c
                       else numberPresentation call) \<rparr>
              in case ExtractUpperBoundedUInt32 (args ! 6) 0x100 0 of
                   (True, uiValue, _) \<Rightarrow> call\<lparr> call_toa := int_of_u32 uiValue \<rparr> | (False, _) \<Rightarrow> call)))"

text \<open>The validity of the number: the tenth field.\<close>

definition call_validity_field :: "string list \<Rightarrow> ril_call \<Rightarrow> ril_call" where
  "call_validity_field args call =
     (if length args < 10 then call
      else
        (case ExtractUInt32 (args ! 9) 0 of
           (False, _) \<Rightarrow> call
         | (True, uiValue, _) \<Rightarrow>
             if uiValue = 0 then call\<lparr> numberPresentation := 0 \<rparr>
             else if uiValue = 1 then call\<lparr> numberPresentation := 1, namePresentation := 1 \<rparr>
             else if uiValue = 2 \<or> uiValue = 4 then call\<lparr> numberPresentation := 2 \<rparr>
             else if uiValue = 3 then call\<lparr> numberPresentation := 3 \<rparr>
             else call))"

definition call_of_args :: "caller \<Rightarrow> string list \<Rightarrow> ril_call option" where
  "call_of_args c args = do {
     _ \<leftarrow> check (5 \<le> length args);
     (index, _) \<leftarrow> need (ExtractUInt32 (args ! 0) 0);
     (dir, _) \<leftarrow> need (ExtractUpperBoundedUInt32 (args ! 1) 2 0);
     (stat, _) \<leftarrow> need (ExtractUInt32 (args ! 2) 0);
     (mode, _) \<leftarrow> need (ExtractUInt32 (args ! 3) 0);
     (mpty, _) \<leftarrow> need (ExtractUpperBoundedUInt32 (args ! 4) 2 0);
     (let incoming = int_of_u32 stat = 4;
          call = \<lparr> call_index = int_of_u32 index, isMT = int_of_u32 dir, ril_call_state = int_of_u32 stat,
            isVoice = (mode = 0), isMpty = int_of_u32 mpty, call_number = None, numberPresentation = 0,
            call_name = (if incoming \<and> m_szCnapName c \<noteq> [] then Some (take (MAX_CNAP_NAME_SIZE - 1) (m_szCnapName c)) else None),
            namePresentation = (if incoming then m_CnapCniValidity c else 0), call_toa = 0 \<rparr>
      in Some (call_validity_field args (call_number_fields c args call))) }"

text \<open>The lines from the cursor behind \<open>+CLCC:\<close> on, at most \<open>n\<close> of them.\<close>

fun current_calls :: "caller \<Rightarrow> nat \<Rightarrow> string \<Rightarrow> ril_call list option" where
  "current_calls c 0 s = Some []"
| "current_calls c (Suc n) s =
     (case call_of_args c (FindRspArgs (Some s) (Some NL) False AT_MAXARGS) of
        None \<Rightarrow> None
      | Some call \<Rightarrow>
          (case (if 0 < n then FindAndSkipString s ''+CLCC:'' else (False, s)) of
             (True, s) \<Rightarrow> map_option ((#) call) (current_calls c n s)
           | (False, _) \<Rightarrow> Some [call]))"

definition voice_call_of :: "ril_call \<Rightarrow> voice_call" where
  "voice_call_of call =
     \<lparr> call_id = call_index call, call_state = ril_call_state call,
       bDtmfAllowed = ril_call_state call \<in> {E_CALL_STATUS_DIALING, E_CALL_STATUS_ALERTING,
         E_CALL_STATUS_ACTIVE, E_CALL_STATUS_CONNECTED} \<rparr>"

text \<open>The calls of \<open>CTEBase\<close> are those of the list; the array has a place for ten.\<close>

definition store_calls :: "ril_call list \<Rightarrow> te_base \<Rightarrow> te_base" where
  "store_calls calls b =
     b\<lparr> m_VoiceCallInfo := map voice_call_of calls @ drop (length calls) no_calls \<rparr>"

definition ParseGetCurrentCalls :: "bool \<Rightarrow> caller \<Rightarrow> string \<Rightarrow> te_base \<Rightarrow> ril_call list parsed \<times> te_base" where
  "ParseGetCurrentCalls mem c pszRsp b =
     (case FindAndSkipString pszRsp ''+CLCC:'' of
        (False, _) \<Rightarrow> ((RRIL_RESULT_OK, None), store_calls [] b)
      | (True, s) \<Rightarrow>
          (case do { _ \<leftarrow> check mem; calls \<leftarrow> current_calls c RRIL_MAX_CALL_ID_COUNT s;
                     _ \<leftarrow> check (length calls < RRIL_MAX_CALL_ID_COUNT); Some calls } of
             None \<Rightarrow> ((RRIL_RESULT_ERROR, None), b)
           | Some calls \<Rightarrow> ((RRIL_RESULT_OK, Some (calls, 4 * length calls)), store_calls calls b)))"

section \<open>A listing of calls is read back\<close>

text \<open>A line of the list as the modem prints it.\<close>

record listed_call =
  l_index :: nat
  l_dir :: nat
  l_stat :: nat
  l_mode :: nat
  l_mpty :: nat
  l_number :: "(string \<times> nat) option"

definition listed_fields :: "listed_call \<Rightarrow> string list" where
  "listed_fields l =
     [SPC # dec_string (l_index l), dec_string (l_dir l), dec_string (l_stat l), dec_string (l_mode l), dec_string (l_mpty l)] @
     (case l_number l of None \<Rightarrow> [] | Some (num, ntype) \<Rightarrow> [QUOTE # num @ [QUOTE], dec_string ntype])"

definition CLCC_line :: "listed_call \<Rightarrow> string" where
  "CLCC_line l = ''+CLCC:'' @ join_fields (listed_fields l) @ NL"

definition well_listed :: "listed_call \<Rightarrow> bool" where
  "well_listed l \<longleftrightarrow>
     l_index l < 2 ^ 31 \<and> l_dir l < 2 \<and> l_stat l < 2 ^ 31 \<and> l_mode l < 2 ^ 32 \<and> l_mpty l < 2 \<and>
     (case l_number l of None \<Rightarrow> True
      | Some (num, ntype) \<Rightarrow> set num \<inter> {QUOTE, CHR '','', CR, CHR ''C'', NUL} = {} \<and> length num < MAX_NUMBER_SIZE \<and> ntype < 256)"

definition reported_call :: "caller \<Rightarrow> listed_call \<Rightarrow> ril_call" where
  "reported_call c l =
     (let incoming = (l_stat l = 4); np = (if incoming then m_CnapCniValidity c else 0) in
      \<lparr> call_index = int (l_index l), isMT = int (l_dir l), ril_call_state = int (l_stat l),
        isVoice = (l_mode l = 0), isMpty = int (l_mpty l), call_number = map_option fst (l_number l),
        numberPresentation =
          (case l_number l of None \<Rightarrow> 0
           | Some (num, _) \<Rightarrow>
               if np = 1 then 1 else if incoming \<or> num = m_szClipNumber c then m_NumberCliValidity c else 0),
        call_name = (if incoming \<and> m_szCnapName c \<noteq> [] then Some (take (MAX_CNAP_NAME_SIZE - 1) (m_szCnapName c)) else None),
        namePresentation = np, call_toa = (case l_number l of None \<Rightarrow> 0 | Some (_, ntype) \<Rightarrow> int ntype) \<rparr>)"

lemma uint_field:
  assumes "n < 2 ^ 32" "c \<in> {CHR '','', CR}"
  shows "ExtractUInt32 (dec_string n @ c # r) v = (True, word_of_nat n, c # r)"
    and "ExtractUInt32 (SPC # dec_string n @ c # r) v = (True, word_of_nat n, c # r)"
proof -
  have c: "\<not> isdigit_c c" "c \<noteq> SPC" using assms(2) by (auto simp: isdigit_c_def code_def)
  show "ExtractUInt32 (dec_string n @ c # r) v = (True, word_of_nat n, c # r)"
    using assms(1) c by (simp add: uint_then)
  show "ExtractUInt32 (SPC # dec_string n @ c # r) v = (True, word_of_nat n, c # r)"
    using ExtractUInt32_dec_string [of n "c # r" 1 v] assms(1) c by (simp add: cursor_simps)
qed

lemma bounded_field:
  assumes "n < m" "m < 2 ^ 32" "c \<in> {CHR '','', CR}"
  shows "ExtractUpperBoundedUInt32 (dec_string n @ c # r) (word_of_nat m) v = (True, word_of_nat n, c # r)"
proof -
  obtain x xs where x: "dec_string n = x # xs" "isdigit_c x" using dec_string_digits [of n] by (cases "dec_string n") auto
  then have "skip_spaces (dec_string n @ c # r) = dec_string n @ c # r" by (simp add: cursor_simps digit_not_space)
  moreover have "unat (word_of_nat m :: u32) = m" "unat (word_of_nat n :: u32) = n"
    using assms(1,2) by (simp_all add: unat_of_nat)
  ultimately show ?thesis
    using assms uint_field(1) [of n c r v]
    by (simp add: ExtractUpperBoundedUInt32_def word_le_nat_alt)
qed

lemma quoted_field:
  assumes "QUOTE \<notin> set num" "NUL \<notin> set num" "length num < cb"
  shows "\<exists>buf r. ExtractQuotedString (QUOTE # num @ QUOTE # t) cb = (True, buf, r) \<and> cstr buf = num"
proof -
  obtain k where "cb - length num = Suc k" using assms(3) by (metis Suc_diff_Suc)
  then show ?thesis
    using ExtractQuotedString_quoted [of num 0 t cb] assms by (simp add: cstr_append_NUL)
qed

lemma u32_of_nat_0: "n < 2 ^ 32 \<Longrightarrow> (word_of_nat n :: u32) = 0 \<longleftrightarrow> n = 0"
  by (simp add: word_of_nat_eq_0_iff) (auto dest: dvd_imp_le)

lemma call_of_listed:
  assumes "well_listed l"
  shows "call_of_args c (field_ptrs (listed_fields l) (NL @ tail)) = Some (reported_call c l)"
proof (cases "l_number l")
  case None
  then show ?thesis
    using assms
    by (simp add: well_listed_def listed_fields_def call_of_args_def NL_def uint_field bounded_field [of _ 2, simplified]
        call_number_fields_def call_validity_field_def reported_call_def sint_of_small_nat u32_of_nat_0 Let_def)
next
  case (Some p)
  obtain num ntype where p: "p = (num, ntype)" by fastforce
  obtain t0 t1 t2 t3 t4 t5 t6 where args: "field_ptrs (listed_fields l) (NL @ tail) =
      [SPC # dec_string (l_index l) @ CHR '','' # t0, dec_string (l_dir l) @ CHR '','' # t1,
       dec_string (l_stat l) @ CHR '','' # t2, dec_string (l_mode l) @ CHR '','' # t3, dec_string (l_mpty l) @ CHR '','' # t4,
       QUOTE # num @ QUOTE # t5, dec_string ntype @ CR # t6]"
    by (simp add: listed_fields_def Some p NL_def)
  have w: "l_index l < 2 ^ 31" "l_dir l < 2" "l_stat l < 2 ^ 31" "l_mode l < 2 ^ 32" "l_mpty l < 2"
    "QUOTE \<notin> set num" "NUL \<notin> set num" "length num < MAX_NUMBER_SIZE" "ntype < 256"
    using assms by (auto simp: well_listed_def Some p)
  obtain buf r where q: "ExtractQuotedString (QUOTE # num @ QUOTE # t5) MAX_NUMBER_SIZE = (True, buf, r)" "cstr buf = num"
    using quoted_field [OF w(6-8)] by blast
  have i: "int_of_u32 (word_of_nat n) = int n" if "n < 2 ^ 31" for n using that by (rule sint_of_small_nat)
  have b: "ExtractUpperBoundedUInt32 (dec_string ntype @ CR # t6) 256 0 = (True, word_of_nat ntype, CR # t6)"
    "ExtractUpperBoundedUInt32 (dec_string (l_dir l) @ CHR '','' # t1) 2 0 = (True, word_of_nat (l_dir l), CHR '','' # t1)"
    "ExtractUpperBoundedUInt32 (dec_string (l_mpty l) @ CHR '','' # t4) 2 0 = (True, word_of_nat (l_mpty l), CHR '','' # t4)"
    using bounded_field [of ntype 256 CR t6 0] bounded_field [of "l_dir l" 2 "CHR '',''" t1 0]
      bounded_field [of "l_mpty l" 2 "CHR '',''" t4 0] w by simp_all
  have u: "ExtractUInt32 (SPC # dec_string (l_index l) @ CHR '','' # t0) 0 = (True, word_of_nat (l_index l), CHR '','' # t0)"
    "ExtractUInt32 (dec_string (l_stat l) @ CHR '','' # t2) 0 = (True, word_of_nat (l_stat l), CHR '','' # t2)"
    "ExtractUInt32 (dec_string (l_mode l) @ CHR '','' # t3) 0 = (True, word_of_nat (l_mode l), CHR '','' # t3)"
    using w by (simp_all add: uint_field)
  have z: "int_of_u32 (word_of_nat (l_index l)) = int (l_index l)" "int_of_u32 (word_of_nat (l_stat l)) = int (l_stat l)"
    "int_of_u32 (word_of_nat (l_dir l)) = int (l_dir l)" "int_of_u32 (word_of_nat (l_mpty l)) = int (l_mpty l)"
    "int_of_u32 (word_of_nat ntype) = int ntype" "(word_of_nat (l_mode l) :: u32) = 0 \<longleftrightarrow> l_mode l = 0"
    using w by (simp_all add: i u32_of_nat_0)
  show ?thesis
    unfolding args call_of_args_def
    by (simp add: u b z q call_number_fields_def call_validity_field_def reported_call_def Some p Let_def)
qed

text \<open>The search for the next line passes over text without the letter.\<close>

lemma find_CLCC:
  assumes "CHR ''C'' \<notin> set p"
  shows "FindAndSkipString (p @ ''+CLCC:'' @ r) ''+CLCC:'' = (True, r)"
    and "\<exists>q. FindAndSkipString p ''+CLCC:'' = (False, q)"
proof -
  define d where "d = dropWhile (\<lambda>c. c = SPC) p"
  have d: "CHR ''C'' \<notin> set d" using assms by (auto simp: d_def dest: set_dropWhileD)
  have s: "dropWhile (\<lambda>c. c = SPC) (p @ ''+CLCC:'' @ r) = d @ ''+CLCC:'' @ r"
    using dropWhile_spaces_append [of "CHR ''+''" p "''CLCC:'' @ r"] by (simp add: d_def)
  have "strstr (d @ ''+CLCC:'' @ r) ''+CLCC:'' = Some (''+CLCC:'' @ r)"
  proof (rule strstr_append)
    fix k assume k: "k < length d"
    show "\<not> prefix ''+CLCC:'' (drop k (d @ ''+CLCC:'' @ r))"
    proof
      assume "prefix ''+CLCC:'' (drop k (d @ ''+CLCC:'' @ r))"
      then have "drop k (d @ ''+CLCC:'' @ r) ! 1 = CHR ''C''" by (auto simp: prefix_def)
      moreover have "drop k (d @ ''+CLCC:'' @ r) ! 1 = (if Suc k < length d then d ! Suc k else CHR ''+'')"
        using k by (auto simp: nth_append not_less less_Suc_eq le_less)
      ultimately show False using d nth_mem [of "Suc k" d] by (auto split: if_splits)
    qed
  qed simp
  then show "FindAndSkipString (p @ ''+CLCC:'' @ r) ''+CLCC:'' = (True, r)"
    unfolding FindAndSkipString_def Let_def skip_spaces_eq s by simp
  have "\<not> sublist ''+CLCC:'' d"
    using d set_mono_sublist [of "''+CLCC:''" d] by auto
  then have "strstr (dropWhile (\<lambda>c. c = SPC) p) ''+CLCC:'' = None"
    by (simp add: strstr_None_iff d_def)
  then show "\<exists>q. FindAndSkipString p ''+CLCC:'' = (False, q)"
    by (simp add: FindAndSkipString_def Let_def skip_spaces_eq)
qed

lemma listed_fields_chars:
  assumes "well_listed l" "f \<in> set (listed_fields l)"
  shows "set f \<inter> {CHR '','', CR, CHR ''C''} = {}"
proof -
  have d: "set (dec_string n) \<inter> {CHR '','', CR, CHR ''C''} = {}" for n
    by (auto dest!: field_chars simp: isdigit_c_def code_def)
  show ?thesis
    using assms d by (auto simp: listed_fields_def well_listed_def split: option.splits)
qed

lemma join_fields_chars:
  "(\<And>f. f \<in> set fs \<Longrightarrow> c \<notin> set f) \<Longrightarrow> c \<noteq> CHR '','' \<Longrightarrow> c \<notin> set (join_fields fs)"
  by (induction fs rule: join_fields.induct) auto

lemma args_of_line:
  assumes "well_listed l"
  shows "FindRspArgs (Some (join_fields (listed_fields l) @ NL @ tail)) (Some NL) False AT_MAXARGS =
    field_ptrs (listed_fields l) (NL @ tail)"
proof -
  have l: "listed_fields l \<noteq> []" "length (listed_fields l) < 20" "length (listed_fields l) \<noteq> 1"
    by (auto simp: listed_fields_def split: option.split)
  show ?thesis
    using FindRspArgs_line [of "listed_fields l" CR "[LF]" AT_MAXARGS tail] listed_fields_chars [OF assms] l
    by (auto simp: NL_def AT_MAXARGS_def)
qed

lemma current_calls_listing:
  assumes "\<forall>l \<in> set (l # ls). well_listed l" "0 < n" "CHR ''C'' \<notin> set rest"
  shows "current_calls c n (join_fields (listed_fields l) @ NL @ concat (map CLCC_line ls) @ rest) =
    Some (map (reported_call c) (take n (l # ls)))"
  using assms
proof (induction ls arbitrary: l n)
  case Nil
  obtain m where n: "n = Suc m" using Nil.prems(2) by (cases n) auto
  have "CHR ''C'' \<notin> set (join_fields (listed_fields l) @ NL @ rest)"
    using Nil.prems(1,3) join_fields_chars [of "listed_fields l" "CHR ''C''"] listed_fields_chars [of l] by (auto simp: NL_def)
  then obtain q where "FindAndSkipString (join_fields (listed_fields l) @ NL @ rest) ''+CLCC:'' = (False, q)"
    using find_CLCC(2) by blast
  then show ?case
    using Nil.prems(1) by (simp add: n args_of_line call_of_listed)
next
  case (Cons l' ls)
  obtain m where n: "n = Suc m" using Cons.prems(2) by (cases n) auto
  let ?t = "join_fields (listed_fields l') @ NL @ concat (map CLCC_line ls) @ rest"
  have "CHR ''C'' \<notin> set (join_fields (listed_fields l) @ NL)"
    using Cons.prems(1) join_fields_chars [of "listed_fields l" "CHR ''C''"] listed_fields_chars [of l] by (auto simp: NL_def)
  then have "FindAndSkipString ((join_fields (listed_fields l) @ NL) @ ''+CLCC:'' @ ?t) ''+CLCC:'' = (True, ?t)"
    by (rule find_CLCC(1))
  then have f: "FindAndSkipString (join_fields (listed_fields l) @ NL @ ''+CLCC:'' @ ?t) ''+CLCC:'' = (True, ?t)"
    by (simp only: append_assoc)
  have e: "concat (map CLCC_line (l' # ls)) @ rest = ''+CLCC:'' @ ?t" by (simp add: CLCC_line_def)
  show ?case
  proof (cases "m = 0")
    case True
    then show ?thesis using Cons.prems(1) by (simp add: n args_of_line call_of_listed)
  next
    case False
    then have "current_calls c m ?t = Some (map (reported_call c) (take m (l' # ls)))"
      using Cons.prems by (intro Cons.IH) auto
    then show ?thesis
      using Cons.prems(1) False f unfolding e
      by (simp only: n current_calls.simps args_of_line call_of_listed list.set_intros option.case if_True bool.case prod.case
          option.map list.map ball_simps simp_thms neq0_conv take_Suc_Cons)
  qed
qed

text \<open>
  C30. The list of calls is read back. For every listing of fewer than ten calls with fields of the
  range the standard gives them, \<open>ParseGetCurrentCalls\<close> hands the framework exactly these calls in
  their order, with the name and the presentation of an incoming call taken from the notifications,
  and makes them the calls of \<open>CTEBase\<close>; without a call the list is empty. With ten calls, the
  number the arrays have room for, the whole answer is refused.
\<close>

theorem ParseGetCurrentCalls_listing:
  assumes "\<forall>l \<in> set ls. well_listed l" "CHR ''C'' \<notin> set rest"
  shows "ParseGetCurrentCalls True c (NL @ concat (map CLCC_line ls) @ rest) b =
    (if ls = [] then ((RRIL_RESULT_OK, None), store_calls [] b)
     else if length ls < 10 then
       ((RRIL_RESULT_OK, Some (map (reported_call c) ls, 4 * length ls)), store_calls (map (reported_call c) ls) b)
     else ((RRIL_RESULT_ERROR, None), b))"
proof (cases ls)
  case Nil
  have "CHR ''C'' \<notin> set (NL @ rest)" using assms(2) by (simp add: NL_def)
  then obtain q where "FindAndSkipString (NL @ rest) ''+CLCC:'' = (False, q)" using find_CLCC(2) by blast
  then show ?thesis using Nil by (simp add: ParseGetCurrentCalls_def)
next
  case (Cons l ls')
  let ?t = "join_fields (listed_fields l) @ NL @ concat (map CLCC_line ls') @ rest"
  have "CHR ''C'' \<notin> set NL" by (simp add: NL_def)
  then have f: "FindAndSkipString (NL @ ''+CLCC:'' @ ?t) ''+CLCC:'' = (True, ?t)" by (rule find_CLCC(1))
  have e: "NL @ concat (map CLCC_line ls) @ rest = NL @ ''+CLCC:'' @ ?t" by (simp add: Cons CLCC_line_def)
  have "current_calls c RRIL_MAX_CALL_ID_COUNT ?t = Some (map (reported_call c) (take 10 ls))"
    using assms Cons current_calls_listing [of l ls' 10 rest c] by (simp add: RRIL_MAX_CALL_ID_COUNT_def del: append.simps)
  then show ?thesis
    unfolding e ParseGetCurrentCalls_def f by (simp add: Cons RRIL_MAX_CALL_ID_COUNT_def)
qed

theorem ParseGetCurrentCalls_listing_witness:
  "\<forall>b. fst (ParseGetCurrentCalls True \<lparr> m_szCnapName = ''Ann'', m_CnapCniValidity = 0, m_szClipNumber = ''12'', m_NumberCliValidity = 0 \<rparr>
     (NL @ concat (map CLCC_line [\<lparr> l_index = 1, l_dir = 1, l_stat = 4, l_mode = 0, l_mpty = 0, l_number = Some (''+491'', 145) \<rparr>]) @
      NL @ ''OK'' @ NL) b) =
   (RRIL_RESULT_OK,
    Some ([\<lparr> call_index = 1, isMT = 1, ril_call_state = 4, isVoice = True, isMpty = 0, call_number = Some ''+491'',
       numberPresentation = 0, call_name = Some ''Ann'', namePresentation = 0, call_toa = 145 \<rparr>], 4))"
  by (intro allI, subst ParseGetCurrentCalls_listing)
    (simp_all add: well_listed_def NL_def MAX_NUMBER_SIZE_def reported_call_def MAX_CNAP_NAME_SIZE_def)

section \<open>The cause of a failure\<close>

text \<open>
  The second command of a supplementary service asks for the cause of a failure, which the modem
  only reports when there is one. The cause is 0 when it cannot be read; \<open>None\<close> is a response
  without a report.
\<close>

definition ParseCEER :: "string \<Rightarrow> u32 option" where
  "ParseCEER szRsp =
     (case FindAndSkipString szRsp ''+CEER: '' of
        (False, _) \<Rightarrow> None
      | (True, s) \<Rightarrow>
          Some (case ExtractQuotedString s MAX_BUFFER_SIZE of
                  (False, _) \<Rightarrow> 0
                | (True, _, s) \<Rightarrow>
                    (case SkipString s '','' of
                       (True, s) \<Rightarrow> fst (snd (ExtractUInt32 s 0))
                     | (False, _) \<Rightarrow> 0)))"

abbreviation (input) RRIL_RESULT_FDN_FAILURE :: result_code where
  "RRIL_RESULT_FDN_FAILURE \<equiv> ResultCode 14"

definition CEER_FDN :: u32 where "CEER_FDN = 279"

definition failure_of_cause :: "u32 \<Rightarrow> result_code" where
  "failure_of_cause uiCause = (if uiCause = CEER_FDN then RRIL_RESULT_FDN_FAILURE else RRIL_RESULT_ERROR)"

definition unless_CEER :: "string \<Rightarrow> 'a parsed \<Rightarrow> 'a parsed" where
  "unless_CEER szRsp r =
     (case ParseCEER szRsp of Some uiCause \<Rightarrow> (failure_of_cause uiCause, None) | None \<Rightarrow> r)"

definition only_CEER :: "string \<Rightarrow> result_code" where
  "only_CEER szRsp = (case ParseCEER szRsp of Some uiCause \<Rightarrow> failure_of_cause uiCause | None \<Rightarrow> RRIL_RESULT_OK)"

definition ParseSendUssd :: "string \<Rightarrow> result_code" where "ParseSendUssd = only_CEER"
definition ParseSetClir :: "string \<Rightarrow> result_code" where "ParseSetClir = only_CEER"
definition ParseSetCallForward :: "string \<Rightarrow> result_code" where "ParseSetCallForward = only_CEER"
definition ParseSetCallWaiting :: "string \<Rightarrow> result_code" where "ParseSetCallWaiting = only_CEER"
definition ParseChangeBarringPassword :: "string \<Rightarrow> result_code" where "ParseChangeBarringPassword = only_CEER"

text \<open>The query for the cause on its own never succeeds.\<close>

definition ParseQueryCEER :: "string \<Rightarrow> result_code" where "ParseQueryCEER szRsp = RRIL_RESULT_ERROR"

text \<open>
  The causes of the modem and of Android. The event is sent when dropped calls are reported: 1 for a
  release by the user, 0 for one by the network. The last text of the report is kept.
\<close>

definition call_fail_cause :: "u32 \<Rightarrow> int" where
  "call_fail_cause uiCause =
     (let c = (if uiCause = 279 then 241 else if uiCause = 280 \<or> uiCause = 8 then 240
               else if uiCause \<in> {500, 510, 511} then 16 else uiCause)
      in if c \<in> {16, 17, 34, 68, 240, 241, 242, 243} then int_of_u32 c else 0xFFFF)"

definition last_CEER :: "string \<Rightarrow> string" where
  "last_CEER pszRsp = cstr (fst (snd (ExtractUnquotedString (snd (RspStart pszRsp)) NL 255)))"

definition ParseLastCallFailCause ::
    "bool \<Rightarrow> bool \<Rightarrow> string \<Rightarrow> int parsed \<times> string \<times> nat option" where
  "ParseLastCallFailCause mem dropReporting pszRsp =
     (case ParseCEER pszRsp of
        Some uiCause \<Rightarrow>
          if mem then ((RRIL_RESULT_OK, Some (call_fail_cause uiCause, 4)), last_CEER pszRsp,
              if dropReporting then Some 0 else None)
          else ((RRIL_RESULT_ERROR, None), last_CEER pszRsp, None)
      | None \<Rightarrow> ((RRIL_RESULT_ERROR, None), last_CEER pszRsp, None))"

definition ParseHangup :: "bool \<Rightarrow> result_code \<times> nat option" where
  "ParseHangup dropReporting = (RRIL_RESULT_OK, if dropReporting then Some 1 else None)"

definition ParseNEER :: "string \<Rightarrow> u32 option" where
  "ParseNEER pszRsp = do {
     s \<leftarrow> need (FindAndSkipString pszRsp ''+NEER: '');
     (uiCause, s) \<leftarrow> (case FindAndSkipString s ''#'' of (True, s) \<Rightarrow> need (ExtractUInt32 s 0) | (False, s) \<Rightarrow> Some (0, s));
     s \<leftarrow> need (RspEnd s);
     Some uiCause }"

section \<open>Answers of a single line\<close>

definition ParseGetClir :: "bool \<Rightarrow> string \<Rightarrow> (int \<times> int) parsed" where
  "ParseGetClir mem szRsp = unless_CEER szRsp (parsed 8 (do {
     _ \<leftarrow> check mem;
     s \<leftarrow> need (RspStart szRsp);
     s \<leftarrow> need (SkipString s ''+CLIR: '');
     (v, s) \<leftarrow> need (ExtractUInt32 s 0);
     s \<leftarrow> need (SkipString s '','');
     (w, s) \<leftarrow> need (ExtractUInt32 s 0);
     s \<leftarrow> need (RspEnd s);
     Some (int_of_u32 v, int_of_u32 w) }))"

definition ParseQueryClip :: "bool \<Rightarrow> string \<Rightarrow> int parsed" where
  "ParseQueryClip mem pszRsp = unless_CEER pszRsp (parsed 4 (do {
     _ \<leftarrow> check mem;
     s \<leftarrow> need (RspStart pszRsp);
     s \<leftarrow> need (SkipString s ''+CLIP: '');
     (v, s) \<leftarrow> need (ExtractUInt32 s 0);
     (v, s) \<leftarrow> (case SkipString s '','' of (True, s) \<Rightarrow> need (ExtractUInt32 s v) | (False, s) \<Rightarrow> Some (v, s));
     s \<leftarrow> need (RspEnd s);
     Some (int_of_u32 v) }))"

definition ParseGetMute :: "bool \<Rightarrow> string \<Rightarrow> int parsed" where
  "ParseGetMute mem pszRsp = parsed 4 (do {
     _ \<leftarrow> check mem;
     s \<leftarrow> need (RspStart pszRsp);
     s \<leftarrow> need (SkipString s ''+CMUT: '');
     (v, s) \<leftarrow> need (ExtractUpperBoundedUInt32 s 2 0);
     s \<leftarrow> need (RspEnd s);
     Some (int_of_u32 v) })"

text \<open>Everything behind the comma, the end of the response included, is the state.\<close>

definition ParseQueryCnap :: "bool \<Rightarrow> string \<Rightarrow> string parsed" where
  "ParseQueryCnap mem pszRsp = parsed 4 (do {
     _ \<leftarrow> check mem;
     s \<leftarrow> need (SkipString pszRsp ''+CNAP: '');
     (v, s) \<leftarrow> need (ExtractUInt32 s 0);
     s \<leftarrow> need (SkipString s '','');
     _ \<leftarrow> check (length s < MAX_BUFFER_SIZE);
     _ \<leftarrow> need (FindAndSkipRspEnd s NL);
     Some s })"

text \<open>
  The PIN of a lock on the SIM is stored (the second component) unless the lock was removed; it is
  forgotten in every case. The context data is that of theory AtCommands: a result code, then the name
  of the facility.
\<close>

definition ParseSetFacilityLock :: "bool \<Rightarrow> string \<Rightarrow> string option \<Rightarrow> te_base \<Rightarrow> int parsed \<times> string option \<times> te_base" where
  "ParseSetFacilityLock mem szRsp szFacilityLock b =
     (case ParseCEER szRsp of
        Some uiCause \<Rightarrow> ((failure_of_cause uiCause, None), None, b)
      | None \<Rightarrow>
          if \<not> mem then (parsed 4 None, None, b)
          else (no_retries mem,
            (case szFacilityLock of
               None \<Rightarrow> None
             | Some f \<Rightarrow> if take 2 f = ''SC'' \<and> m_szPIN b \<noteq> ''CLR'' then Some (m_szPIN b) else None),
            forget_PIN b))"

section \<open>Answers of several lines\<close>

text \<open>
  A loop over the lines with a prefix: the body reads a line from behind the prefix, then the cursor
  goes to the end of the line. Each round moves the cursor on.
\<close>

lemma next_line_shorter:
  assumes "FindAndSkipString s (c # k) = (True, s1)" "suffix s2 s1" "FindAndSkipRspEnd s2 NL = (b, s3)"
  shows "length s3 < length s"
  using FindAndSkipString_True_length [OF assms(1)] suffix_length_le [OF assms(2)]
    suffix_length_le [OF FindAndSkipString_suffix [of s2 NL]] assms(3)
  by (simp add: cursor_simps)

lemma next_line_measure:
  assumes "(True, s1) = FindAndSkipString s (c # k)" "(r, s2) = p" "suffix (snd p) s1" "(b, s3) = FindAndSkipRspEnd s2 NL"
  shows "length s3 < length s"
  using assms by (intro next_line_shorter [of s c k s1 s2 b s3]) (auto simp: eq_commute [of "(_, _)"])

text \<open>Call waiting: whether it is on, and the classes it is on for.\<close>

definition waiting_line :: "bool \<times> u32 \<Rightarrow> string \<Rightarrow> (bool \<times> u32) \<times> string" where
  "waiting_line st s =
     (case ExtractUInt32 s 0 of
        (False, _, s) \<Rightarrow> (st, s)
      | (True, nStatus, s) \<Rightarrow>
          (case SkipString s '','' of
             (False, s) \<Rightarrow> (st, s)
           | (True, s) \<Rightarrow>
               (case ExtractUInt32 s 0 of
                  (False, _, s) \<Rightarrow> (st, s)
                | (True, nClass, s) \<Rightarrow> (if nStatus = 1 then (True, snd st OR nClass) else st, s))))"

lemma waiting_line_suffix: "suffix (snd (waiting_line st s)) s"
  using ExtractUInt32_suffix SkipString_suffix
  by (auto simp: waiting_line_def split: prod.split bool.split) (metis snd_conv suffix_order.trans)+

function waiting_lines :: "bool \<times> u32 \<Rightarrow> string \<Rightarrow> (bool \<times> u32) option" where
  "waiting_lines st s =
     (case FindAndSkipString s ''+CCWA: '' of
        (False, _) \<Rightarrow> Some st
      | (True, s1) \<Rightarrow>
          (case waiting_line st s1 of
             (st, s2) \<Rightarrow>
               (case FindAndSkipRspEnd s2 NL of (False, _) \<Rightarrow> None | (True, s3) \<Rightarrow> waiting_lines st s3)))"
  by pat_completeness auto
termination
  by (relation "measure (\<lambda>(st, s). length s)")
    (simp_all add: next_line_measure [OF _ _ waiting_line_suffix])

declare waiting_lines.simps [simp del]

definition ParseQueryCallWaiting :: "bool \<Rightarrow> string \<Rightarrow> int list parsed" where
  "ParseQueryCallWaiting mem szRsp = unless_CEER szRsp
     (case waiting_lines (False, 0) szRsp of
        None \<Rightarrow> (RRIL_RESULT_ERROR, None)
      | Some (on, classes) \<Rightarrow>
          if on then parsed 8 (if mem then Some [1, int_of_u32 classes] else None)
          else parsed 4 (if mem then Some [0] else None))"

text \<open>The locks: the classes a facility is active for; a line without a class is for voice.\<close>

definition lock_line :: "u32 \<Rightarrow> string \<Rightarrow> u32 \<times> string" where
  "lock_line dwServices s =
     (case ExtractUInt32 s 0 of
        (False, _, s) \<Rightarrow> (dwServices, s)
      | (True, dwStatus, s) \<Rightarrow>
          (case SkipString s '','' of
             (False, s) \<Rightarrow> (if dwStatus = 1 then dwServices OR 1 else dwServices, s)
           | (True, s) \<Rightarrow>
               (case ExtractUInt32 s 0 of
                  (False, _, s) \<Rightarrow> (dwServices, s)
                | (True, dwClass, s) \<Rightarrow> (if dwStatus = 1 then dwServices OR dwClass else dwServices, s))))"

lemma lock_line_suffix: "suffix (snd (lock_line w s)) s"
  using ExtractUInt32_suffix SkipString_suffix
  by (auto simp: lock_line_def split: prod.split bool.split) (metis snd_conv suffix_order.trans)+

function lock_lines :: "u32 \<Rightarrow> string \<Rightarrow> u32 option" where
  "lock_lines w s =
     (case FindAndSkipString s ''+CLCK: '' of
        (False, _) \<Rightarrow> Some w
      | (True, s1) \<Rightarrow>
          (case lock_line w s1 of
             (w, s2) \<Rightarrow>
               (case FindAndSkipRspEnd s2 NL of (False, _) \<Rightarrow> None | (True, s3) \<Rightarrow> lock_lines w s3)))"
  by pat_completeness auto
termination
  by (relation "measure (\<lambda>(w, s). length s)")
    (simp_all add: next_line_measure [OF _ _ lock_line_suffix])

declare lock_lines.simps [simp del]

definition ParseQueryFacilityLock :: "bool \<Rightarrow> string \<Rightarrow> int parsed" where
  "ParseQueryFacilityLock mem szRsp = unless_CEER szRsp
     (parsed 4 (do { _ \<leftarrow> check mem; w \<leftarrow> lock_lines 0 szRsp; Some (int_of_u32 w) }))"

text \<open>
  Call forwarding. The entries are cells of an array; \<open>cur\<close> is the cell of the next one. A line that
  cannot be read leaves what it has written in the cell, and the next line continues with it. The
  number is the text in the buffer of the cell, empty at first.
\<close>

definition no_forward :: call_forward where
  "no_forward = \<lparr> cf_status = 0, cf_reason = 0, serviceClass = 0, toa = 0, cf_number = Some [], timeSeconds = 0 \<rparr>"

text \<open>The time is the third field behind the type of the number.\<close>

definition forward_time :: "call_forward \<Rightarrow> string \<Rightarrow> (bool \<times> call_forward) \<times> string" where
  "forward_time cur s =
     (case SkipString s '','' of
        (False, s) \<Rightarrow> ((True, cur), s)
      | (True, s) \<Rightarrow>
          (case FindAndSkipString s '','' of
             (False, s) \<Rightarrow> ((False, cur), s)
           | (True, s) \<Rightarrow>
               (case FindAndSkipString s '','' of
                  (False, s) \<Rightarrow> ((True, cur), s)
                | (True, s) \<Rightarrow>
                    (case ExtractUInt32 s 0 of
                       (False, _, s) \<Rightarrow> ((False, cur), s)
                     | (True, v, s) \<Rightarrow> ((True, cur\<lparr> timeSeconds := int_of_u32 v \<rparr>), s)))))"

definition forward_number :: "call_forward \<Rightarrow> string \<Rightarrow> (bool \<times> call_forward) \<times> string" where
  "forward_number cur s =
     (case ExtractQuotedString s MAX_NUMBER_SIZE of
        (ok, buf, s) \<Rightarrow>
          (let cur = cur\<lparr> cf_number := Some (cstr buf) \<rparr> in
           if \<not> ok then ((False, cur), s)
           else
             (case SkipString s '','' of
                (False, s) \<Rightarrow> ((False, cur), s)
              | (True, s) \<Rightarrow>
                  (case ExtractUpperBoundedUInt32 s 0x100 0 of
                     (ok, v, s) \<Rightarrow> forward_time (cur\<lparr> toa := (if ok then int_of_u32 v else 0) \<rparr>) s))))"

definition forward_line :: "int \<Rightarrow> call_forward \<Rightarrow> string \<Rightarrow> (bool \<times> call_forward) \<times> string" where
  "forward_line reason cur s =
     (let cur = cur\<lparr> cf_reason := reason \<rparr> in
      case ExtractUInt32 s 0 of
        (False, _, s) \<Rightarrow> ((False, cur), s)
      | (True, v, s) \<Rightarrow>
          (let cur = cur\<lparr> cf_status := int_of_u32 v \<rparr> in
           case SkipString s '','' of
             (False, s) \<Rightarrow> ((False, cur), s)
           | (True, s) \<Rightarrow>
               (case ExtractUInt32 s 0 of
                  (False, _, s) \<Rightarrow> ((False, cur), s)
                | (True, v, s) \<Rightarrow>
                    (let cur = cur\<lparr> serviceClass := int_of_u32 v \<rparr> in
                     case SkipString s '','' of
                       (False, s) \<Rightarrow> ((True, cur), s)
                     | (True, s) \<Rightarrow> forward_number cur s))))"

lemma forward_time_suffix: "suffix (snd (forward_time cur s)) s"
  using ExtractUInt32_suffix SkipString_suffix FindAndSkipString_suffix
  by (auto simp: forward_time_def split: prod.split bool.split) (metis snd_conv suffix_order.trans)+

lemma forward_number_suffix: "suffix (snd (forward_number cur s)) s"
  using ExtractBounded_suffix SkipString_suffix quoted_cursor.in_text forward_time_suffix
  by (auto simp: forward_number_def Let_def split: prod.split bool.split) (metis snd_conv suffix_order.trans)+

lemma forward_line_suffix: "suffix (snd (forward_line reason cur s)) s"
  using ExtractUInt32_suffix SkipString_suffix forward_number_suffix
  by (auto simp: forward_line_def Let_def split: prod.split bool.split) (metis snd_conv suffix_order.trans)+

function forward_lines :: "int \<Rightarrow> call_forward \<Rightarrow> string \<Rightarrow> call_forward list option" where
  "forward_lines reason cur s =
     (case FindAndSkipString s ''+CCFC: '' of
        (False, _) \<Rightarrow> Some []
      | (True, s1) \<Rightarrow>
          (case forward_line reason cur s1 of
             ((complete, cur), s2) \<Rightarrow>
               (case FindAndSkipRspEnd s2 NL of
                  (False, _) \<Rightarrow> None
                | (True, s3) \<Rightarrow>
                    if complete then map_option ((#) cur) (forward_lines reason no_forward s3)
                    else forward_lines reason cur s3)))"
  by pat_completeness auto
termination
  by (relation "measure (\<lambda>(r, c, s). length s)")
    (simp_all add: next_line_measure [OF _ _ forward_line_suffix])

declare forward_lines.simps [simp del]

function count_forwards :: "string \<Rightarrow> nat" where
  "count_forwards s =
     (case FindAndSkipString s ''+CCFC: '' of (False, _) \<Rightarrow> 0 | (True, s) \<Rightarrow> Suc (count_forwards s))"
  by pat_completeness auto
termination
  by (relation "measure length") (auto dest!: sym [of "(True, _)"] FindAndSkipString_True_length)

declare count_forwards.simps [simp del]

definition RIL_MAX_CALLFWD_ENTRIES :: nat where "RIL_MAX_CALLFWD_ENTRIES = 10"

definition ParseQueryCallForwardStatus :: "bool \<Rightarrow> int \<Rightarrow> string \<Rightarrow> call_forward list parsed" where
  "ParseQueryCallForwardStatus mem reason szRsp = unless_CEER szRsp
     (if RIL_MAX_CALLFWD_ENTRIES < count_forwards szRsp \<or> \<not> mem then (RRIL_RESULT_ERROR, None)
      else
        (case forward_lines reason no_forward szRsp of
           None \<Rightarrow> (RRIL_RESULT_ERROR, None)
         | Some infos \<Rightarrow> (RRIL_RESULT_OK, Some (infos, 4 * length infos))))"

end
