(* ===== verification/NetworkAnswers.thy ===== *)
theory NetworkAnswers
  imports CallAnswers
begin

text \<open>
  The answers of the modem about networks, as \<open>CTEBase\<close> reads them (\<open>CORE/ND/te_base.cpp\<close>): the
  signal strength, the names of the operator, the mode of the network selection, the list of
  available networks, and the cell broadcast configuration.
\<close>

section \<open>Signal strength and selection mode\<close>

text \<open>The signal strength and bit error rate of GSM and UMTS; the other fields are constants.\<close>

definition ParseQuerySignalStrength :: "bool \<Rightarrow> string \<Rightarrow> (int \<times> int) option" where
  "ParseQuerySignalStrength mem pszRsp = do {
     _ \<leftarrow> check mem;
     s \<leftarrow> need (RspStart pszRsp);
     s \<leftarrow> need (SkipString s ''+CSQ: '');
     (rssi, s) \<leftarrow> need (ExtractInt s 99 s 10);
     s \<leftarrow> need (SkipString s '','');
     (ber, s) \<leftarrow> need (ExtractInt s 99 s 10);
     s \<leftarrow> need (RspEnd s);
     Some (rssi, ber) }"

definition ParseSignalStrength :: "bool \<Rightarrow> string \<Rightarrow> (int \<times> int) parsed" where
  "ParseSignalStrength mem pszRsp = parsed 60 (ParseQuerySignalStrength mem pszRsp)"

text \<open>The second component is what is reported to the framework on its own.\<close>

definition ParseUnsolicitedSignalStrength :: "bool \<Rightarrow> string \<Rightarrow> result_code \<times> (int \<times> int) option" where
  "ParseUnsolicitedSignalStrength mem pszRsp =
     (case ParseQuerySignalStrength mem pszRsp of
        None \<Rightarrow> (RRIL_RESULT_ERROR, None) | Some v \<Rightarrow> (RRIL_RESULT_OK, Some v))"

definition ParseQueryNetworkSelectionMode :: "bool \<Rightarrow> string \<Rightarrow> int parsed" where
  "ParseQueryNetworkSelectionMode mem szRsp =
     (case do { _ \<leftarrow> check mem; s \<leftarrow> need (FindAndSkipString szRsp ''+COPS: ''); need (ExtractUInt32 s 0) } of
        None \<Rightarrow> (RRIL_RESULT_ERROR, None)
      | Some (mode, _) \<Rightarrow>
          if 2 \<le> int_of_u32 mode then (RIL_E_OP_NOT_ALLOWED_BEFORE_REG_TO_NW, None)
          else (RRIL_RESULT_OK, Some (int_of_u32 mode, 4)))"

section \<open>Names of the operator\<close>

definition NAME_SIZE :: nat where "NAME_SIZE = 50"
definition MAX_OP_NAME_LONG :: nat where "MAX_OP_NAME_LONG = 41"
definition MAX_OP_NAME_SHORT :: nat where "MAX_OP_NAME_SHORT = 9"
definition MAX_OP_NAME_NUM :: nat where "MAX_OP_NAME_NUM = 7"

record op_names =
  szOpNameLong :: string
  szOpNameShort :: string
  szOpNameNumeric :: string

record operator_lines_state =
  eons_full :: string
  eons_short :: string
  isEONSAvailable :: bool
  nitz_full :: string
  nitz_short :: string
  isNitzNameAvailable :: bool
  plmn_names :: op_names

definition no_names :: operator_lines_state where
  "no_names = \<lparr> eons_full = [], eons_short = [], isEONSAvailable = False, nitz_full = [], nitz_short = [],
     isNitzNameAvailable = False, plmn_names = \<lparr> szOpNameLong = [], szOpNameShort = [], szOpNameNumeric = [] \<rparr> \<rparr>"

text \<open>The types of the names; a line of another type has no name.\<close>

definition store_name :: "u32 \<Rightarrow> string \<Rightarrow> operator_lines_state \<Rightarrow> operator_lines_state" where
  "store_name uiType name st =
     (if uiType = 9 then st\<lparr> eons_full := name, isEONSAvailable := True \<rparr>
      else if uiType = 8 then st\<lparr> eons_short := name, isEONSAvailable := True \<rparr>
      else if uiType = 6 then st\<lparr> nitz_full := name, isNitzNameAvailable := True \<rparr>
      else if uiType = 5 then st\<lparr> nitz_short := name, isNitzNameAvailable := True \<rparr>
      else if uiType = 12 then st\<lparr> plmn_names := (plmn_names st)\<lparr> szOpNameLong := take (MAX_OP_NAME_LONG - 1) name \<rparr> \<rparr>
      else if uiType = 11 then st\<lparr> plmn_names := (plmn_names st)\<lparr> szOpNameShort := take (MAX_OP_NAME_SHORT - 1) name \<rparr> \<rparr>
      else if uiType = 13 then st\<lparr> plmn_names := (plmn_names st)\<lparr> szOpNameNumeric := take (MAX_OP_NAME_NUM - 1) name \<rparr> \<rparr>
      else st)"

definition operator_line :: "operator_lines_state \<Rightarrow> string \<Rightarrow> (operator_lines_state \<times> string) option" where
  "operator_line st s = do {
     (uiType, s) \<leftarrow> need (ExtractUInt32 s 0);
     (case SkipString s '','' of
        (False, s) \<Rightarrow> Some (st, s)
      | (True, s) \<Rightarrow>
          if uiType \<in> {9, 8, 6, 5, 12, 11, 13}
          then map_option (\<lambda>(buf, s). (store_name uiType (cstr buf) st, s)) (need (ExtractQuotedString s NAME_SIZE))
          else Some (st, s)) }"

lemma operator_line_suffix: "operator_line st s = Some (st', s') \<Longrightarrow> suffix s' s"
proof (cases "need (ExtractUInt32 s 0)")
  case (Some p)
  obtain t s1 where p: "p = (t, s1)" by fastforce
  obtain b s2 where s2: "SkipString s1 '','' = (b, s2)" by fastforce
  assume "operator_line st s = Some (st', s')"
  then have "suffix s' s2"
    using Some s2 by (auto simp: operator_line_def p split: bool.splits if_splits)
  then show ?thesis
    using Some p SkipString_suffix [of s1 "'',''"] s2 by (metis need_cursor(3) snd_conv suffix_order.trans)
qed (simp add: operator_line_def)

lemma next_operator_line_shorter:
  assumes "(True, s1) = SkipString s (c # k)" "suffix s2 s1" "(b, s3) = FindAndSkipRspEnd s2 NL"
  shows "length (snd (RspStart s3)) < length s"
proof -
  have "SkipString s (c # k) = (True, s1)" "FindAndSkipRspEnd s2 NL = (b, s3)" using assms by simp_all
  then show ?thesis
    using SkipString_True_length [of s "c # k" s1] suffix_length_le [OF assms(2)]
      suffix_length_le [OF FindAndSkipString_suffix [of s2 NL]] suffix_length_le [OF SkipString_suffix [of s3 NL]]
    by (simp add: cursor_simps)
qed

function operator_lines :: "operator_lines_state \<Rightarrow> string \<Rightarrow> operator_lines_state option" where
  "operator_lines st s =
     (case SkipString s ''+XCOPS: '' of
        (False, _) \<Rightarrow> Some st
      | (True, s1) \<Rightarrow>
          (case operator_line st s1 of
             None \<Rightarrow> None
           | Some (st, s2) \<Rightarrow>
               (case FindAndSkipRspEnd s2 NL of
                  (False, _) \<Rightarrow> None | (True, s3) \<Rightarrow> operator_lines st (snd (RspStart s3)))))"
  by pat_completeness auto
termination
  by (relation "measure (\<lambda>(st, s). length s)")
    (simp, clarify, unfold in_measure prod.case,
     rule next_operator_line_shorter, assumption, erule operator_line_suffix, assumption)

declare operator_lines.simps [simp del]

text \<open>
  The names of the SIM come first, then those of the network, then the current PLMN. The numeric and
  the short name are kept as the last known network too.
\<close>

definition operator_names :: "operator_lines_state \<Rightarrow> op_names" where
  "operator_names st =
     (if isEONSAvailable st then
        (plmn_names st)\<lparr> szOpNameLong := take (MAX_OP_NAME_LONG - 1) (eons_full st),
          szOpNameShort := take (MAX_OP_NAME_SHORT - 1) (eons_short st) \<rparr>
      else if isNitzNameAvailable st then
        (plmn_names st)\<lparr> szOpNameLong := take (MAX_OP_NAME_LONG - 1) (nitz_full st),
          szOpNameShort := take (MAX_OP_NAME_SHORT - 1) (nitz_short st) \<rparr>
      else plmn_names st)"

definition ParseOperator :: "bool \<Rightarrow> string \<Rightarrow> op_names parsed" where
  "ParseOperator mem pszRsp = parsed 12 (do {
     _ \<leftarrow> check mem;
     s \<leftarrow> need (RspStart pszRsp);
     st \<leftarrow> operator_lines no_names s;
     Some (operator_names st) })"

section \<open>Available networks\<close>

record op_info =
  szOpInfoLong :: string
  szOpInfoShort :: string
  szOpInfoNumeric :: string
  szOpInfoStatus :: string

definition network_status :: "u32 \<Rightarrow> string option" where
  "network_status nValue =
     (if nValue = 0 then Some ''unknown'' else if nValue = 1 then Some ''available''
      else if nValue = 2 then Some ''current'' else if nValue = 3 then Some ''forbidden'' else None)"

text \<open>The short name in memory of its own, of which eight characters are kept.\<close>

definition short_name :: "bool \<Rightarrow> string \<Rightarrow> (string \<times> string) option" where
  "short_name mem s =
     (case ExtractQuotedStringWithAllocatedMemory mem s None 0 of
        (True, Some name, _, s) \<Rightarrow> Some (take (MAX_OP_NAME_SHORT - 1) name, s) | _ \<Rightarrow> None)"

lemma short_name_suffix: "short_name mem s = Some (t, s') \<Longrightarrow> suffix s' s"
  using quoted_memory_suffix [of mem s None 0] by (auto simp: short_name_def split: prod.splits bool.splits option.splits)

definition network_entry :: "bool \<Rightarrow> string \<Rightarrow> (op_info \<times> string) option" where
  "network_entry mem s = do {
     (nValue, s) \<leftarrow> need (ExtractUInt32 s 0);
     status \<leftarrow> network_status nValue;
     s \<leftarrow> need (SkipString s '','');
     (szLong, s) \<leftarrow> need (ExtractQuotedString s MAX_OP_NAME_LONG);
     s \<leftarrow> need (SkipString s '','');
     (szShort, s) \<leftarrow> short_name mem s;
     s \<leftarrow> need (SkipString s '','');
     (szNumeric, s) \<leftarrow> need (ExtractQuotedString s MAX_OP_NAME_NUM);
     s \<leftarrow> need (FindAndSkipString s '')'');
     Some (\<lparr> szOpInfoLong = cstr szLong, szOpInfoShort = szShort, szOpInfoNumeric = cstr szNumeric,
             szOpInfoStatus = status \<rparr>, s) }"

lemma network_entry_suffix: "network_entry mem s = Some (info, s') \<Longrightarrow> suffix s' s"
  unfolding network_entry_def
  by (clarsimp simp: Option.bind_eq_Some_conv) (meson need_cursor short_name_suffix suffix_order.trans)

text \<open>
  The entries up to the one without a comma behind it (the flag), or up to text that is no entry. The
  number of opening parentheses is the number of cells allocated.
\<close>

lemma next_entry_shorter:
  assumes "(True, s1) = SkipString s (c # k)" "suffix s2 s1" "(True, s3) = FindAndSkipString s2 n"
  shows "length s3 < length s"
proof -
  have "SkipString s (c # k) = (True, s1)" "FindAndSkipString s2 n = (True, s3)" using assms by simp_all
  then show ?thesis
    using SkipString_True_length [of s "c # k" s1] suffix_length_le [OF assms(2)]
      suffix_length_le [OF FindAndSkipString_suffix [of s2 n]] by simp
qed

function network_entries :: "bool \<Rightarrow> op_info list \<Rightarrow> string \<Rightarrow> (bool \<times> op_info list \<times> string) option" where
  "network_entries mem infos s =
     (case SkipString s ''('' of
        (False, s) \<Rightarrow> Some (False, infos, s)
      | (True, s1) \<Rightarrow>
          (case network_entry mem s1 of
             None \<Rightarrow> None
           | Some (info, s2) \<Rightarrow>
               (case FindAndSkipString s2 '','' of
                  (False, s3) \<Rightarrow> Some (True, infos @ [info], s3)
                | (True, s3) \<Rightarrow> network_entries mem (infos @ [info]) s3)))"
  by pat_completeness auto
termination
  by (relation "measure (\<lambda>(m, i, s). length s)")
    (simp, clarify, unfold in_measure prod.case,
     rule next_entry_shorter, assumption, erule network_entry_suffix, assumption)

declare network_entries.simps [simp del]

function count_parentheses :: "string \<Rightarrow> nat" where
  "count_parentheses s =
     (case FindAndSkipString s ''('' of (False, _) \<Rightarrow> 0 | (True, s) \<Rightarrow> Suc (count_parentheses s))"
  by pat_completeness auto
termination
  by (relation "measure length") (auto dest!: sym [of "(True, _)"] FindAndSkipString_True_length)

declare count_parentheses.simps [simp del]

text \<open>The first entry of each numeric.\<close>

fun first_of_numeric :: "op_info list \<Rightarrow> op_info list \<Rightarrow> op_info list" where
  "first_of_numeric kept [] = kept"
| "first_of_numeric kept (i # is) =
     (if szOpInfoNumeric i \<in> szOpInfoNumeric ` set kept then first_of_numeric kept is
      else first_of_numeric (kept @ [i]) is)"

text \<open>
  The data is an array of cells, \<open>None\<close> for one with NULL pointers. Its size is that of the entries,
  without repetitions, when the list ends with an entry; otherwise it stays that of all cells.
\<close>

definition ParseQueryAvailableNetworks :: "bool \<Rightarrow> string \<Rightarrow> op_info option list parsed" where
  "ParseQueryAvailableNetworks mem szRsp =
     (case do {
          s \<leftarrow> need (FindAndSkipString (snd (RspStart szRsp)) ''+COPS: '');
          _ \<leftarrow> check mem;
          (ended, infos, s') \<leftarrow> network_entries mem [] s;
          _ \<leftarrow> need (FindAndSkipRspEnd s' NL);
          Some (if ended then map Some (first_of_numeric [] infos)
                else map Some infos @ replicate (count_parentheses s - length infos) None) } of
        None \<Rightarrow> (RRIL_RESULT_ERROR, None)
      | Some cells \<Rightarrow> (RRIL_RESULT_OK, Some (cells, 16 * length cells)))"

section \<open>The list of networks is read back\<close>

lemma count_list_dropWhile: "(\<And>x. x = c \<Longrightarrow> \<not> P x) \<Longrightarrow> count_list (dropWhile P s) c = count_list s c"
  by (induction s) auto

lemma count_parentheses_eq: "count_parentheses s = count_list s (CHR ''('')"
proof (induction s rule: count_parentheses.induct)
  case (1 s)
  let ?t = "dropWhile (\<lambda>x. x \<noteq> CHR ''('') (dropWhile (\<lambda>x. x = SPC) s)"
  have c: "count_list s (CHR ''('') = count_list ?t (CHR ''('')"
    by (simp add: count_list_dropWhile)
  show ?case
  proof (cases "?t")
    case Nil
    then have "count_list s (CHR ''('') = 0" using c by (metis count_list.simps(1))
    then show ?thesis using Nil by (subst count_parentheses.simps) (simp add: FindAndSkipString_char Let_def)
  next
    case (Cons x t)
    then have x: "x = CHR ''(''" using hd_dropWhile [of "\<lambda>x. x \<noteq> CHR ''(''" "dropWhile (\<lambda>x. x = SPC) s"] by auto
    have f: "FindAndSkipString s ''('' = (True, t)" using Cons by (simp add: FindAndSkipString_char Let_def)
    then have "count_parentheses t = count_list t (CHR ''('')" using 1 [of _ t] by simp
    then show ?thesis using c Cons x f by (subst count_parentheses.simps) simp
  qed
qed

definition status_code :: "string \<Rightarrow> nat" where
  "status_code s = (if s = ''unknown'' then 0 else if s = ''available'' then 1 else if s = ''current'' then 2 else 3)"

definition COPS_fields :: "op_info \<Rightarrow> string" where
  "COPS_fields i =
     dec_string (status_code (szOpInfoStatus i)) @ CHR '','' # QUOTE # szOpInfoLong i @ QUOTE # CHR '','' #
     QUOTE # szOpInfoShort i @ QUOTE # CHR '','' # QUOTE # szOpInfoNumeric i @ QUOTE # [CHR '')'']"

definition well_named :: "op_info \<Rightarrow> bool" where
  "well_named i \<longleftrightarrow>
     (\<forall>s \<in> {szOpInfoLong i, szOpInfoShort i, szOpInfoNumeric i}. set s \<inter> {QUOTE, NUL, CHR ''(''} = {}) \<and>
     length (szOpInfoLong i) < MAX_OP_NAME_LONG \<and> length (szOpInfoShort i) < MAX_OP_NAME_SHORT \<and>
     length (szOpInfoNumeric i) < MAX_OP_NAME_NUM \<and>
     szOpInfoStatus i \<in> {''unknown'', ''available'', ''current'', ''forbidden''}"

fun COPS_entries :: "op_info list \<Rightarrow> string" where
  "COPS_entries [] = []"
| "COPS_entries [i] = CHR ''('' # COPS_fields i"
| "COPS_entries (i # is) = CHR ''('' # COPS_fields i @ CHR '','' # COPS_entries is"

lemma network_entry_fields:
  assumes "well_named i"
  shows "network_entry True (COPS_fields i @ t) = Some (i, t)"
proof -
  let ?n = "status_code (szOpInfoStatus i)"
  have n: "?n < 4" by (simp add: status_code_def)
  have st: "network_status (word_of_nat ?n) = Some (szOpInfoStatus i)"
    using assms by (auto simp: well_named_def network_status_def status_code_def)
  let ?r = "QUOTE # szOpInfoNumeric i @ QUOTE # CHR '')'' # t"
  obtain b1 where b1: "ExtractQuotedString (QUOTE # szOpInfoLong i @ QUOTE # CHR '','' # QUOTE # szOpInfoShort i @ QUOTE # CHR '','' # ?r) MAX_OP_NAME_LONG =
      (True, b1, CHR '','' # QUOTE # szOpInfoShort i @ QUOTE # CHR '','' # ?r)" "cstr b1 = szOpInfoLong i"
    using quoted_buffer [of "szOpInfoLong i" MAX_OP_NAME_LONG "CHR '','' # QUOTE # szOpInfoShort i @ QUOTE # CHR '','' # ?r"] assms
    unfolding well_named_def by blast
  obtain b2 where b2: "ExtractQuotedString ?r MAX_OP_NAME_NUM = (True, b2, CHR '')'' # t)" "cstr b2 = szOpInfoNumeric i"
    using quoted_buffer [of "szOpInfoNumeric i" MAX_OP_NAME_NUM "CHR '')'' # t"] assms
    unfolding well_named_def by blast
  have sn: "short_name True (QUOTE # szOpInfoShort i @ QUOTE # CHR '','' # ?r) = Some (szOpInfoShort i, CHR '','' # ?r)"
    using assms quoted_memory [of "szOpInfoShort i" "CHR '','' # ?r" None 0]
    by (auto simp: short_name_def well_named_def MAX_OP_NAME_SHORT_def)
  have e: "FindAndSkipString (CHR '')'' # t) '')'' = (True, t)"
    using FindAndSkipString_char_found [of "CHR '')''" "[]" t] by simp
  have u: "ExtractUInt32 (dec_string ?n @ CHR '','' # r) 0 = (True, word_of_nat ?n, CHR '','' # r)" for r
    using n by (simp add: uint_then isdigit_c_def code_def)
  show ?thesis
    by (simp add: network_entry_def COPS_fields_def u st skip_char b1 b2 sn e)
qed

lemma count_COPS_fields: "well_named i \<Longrightarrow> count_list (COPS_fields i) (CHR ''('') = 0"
proof -
  have "count_list (dec_string n) (CHR ''('') = 0" for n
    using field_chars [of "CHR ''(''" n] by (auto simp: isdigit_c_def code_def intro: count_notin)
  then show "well_named i \<Longrightarrow> ?thesis" by (auto simp: COPS_fields_def well_named_def intro!: count_notin)
qed

lemma count_COPS_entries: "\<forall>i \<in> set is. well_named i \<Longrightarrow> count_list (COPS_entries is) (CHR ''('') = length is"
  by (induction "is" rule: COPS_entries.induct) (auto simp: count_COPS_fields)

lemma find_comma: "FindAndSkipString (CHR '','' # t) '','' = (True, t)"
  using FindAndSkipString_char_found [of "CHR '',''" "[]" t] by simp

text \<open>Without a comma behind the list, and with the lists of modes and formats behind it.\<close>

lemma network_entries_last:
  assumes "\<forall>i \<in> set is. well_named i" "is \<noteq> []" "CHR '','' \<notin> set rest"
  shows "network_entries True acc (COPS_entries is @ rest) = Some (True, acc @ is, dropWhile (\<lambda>x. x = SPC) rest)"
  using assms
proof (induction "is" arbitrary: acc rule: COPS_entries.induct)
  case (2 i)
  then show ?case
    using network_entry_fields [of i rest] FindAndSkipString_char_missing [of "CHR '',''" rest]
    by (subst network_entries.simps) (simp add: skip_char)
next
  case (3 i j js)
  then show ?case
    using network_entry_fields [of i "CHR '','' # COPS_entries (j # js) @ rest"] "3.IH" [of "acc @ [i]"] "3.prems"
    by (subst network_entries.simps) (simp add: skip_char find_comma)
qed simp

lemma network_entries_more:
  assumes "\<forall>i \<in> set is. well_named i" "is \<noteq> []" "c \<noteq> CHR ''(''" "c \<noteq> SPC"
  shows "network_entries True acc (COPS_entries is @ CHR '','' # c # rest) = Some (False, acc @ is, c # rest)"
  using assms
proof (induction "is" arbitrary: acc rule: COPS_entries.induct)
  case (2 i)
  have "network_entries True (acc @ [i]) (c # rest) = Some (False, acc @ [i], c # rest)"
    using 2 by (subst network_entries.simps) (simp add: skip_other)
  then show ?case
    using 2 network_entry_fields [of i "CHR '','' # c # rest"]
    by (subst network_entries.simps) (simp add: skip_char find_comma)
next
  case (3 i j js)
  then show ?case
    using network_entry_fields [of i "CHR '','' # COPS_entries (j # js) @ CHR '','' # c # rest"] "3.IH" [of "acc @ [i]"] "3.prems"
    by (subst network_entries.simps) (simp add: skip_char find_comma)
qed simp

text \<open>What 27.007 puts behind the list: the supported modes and formats.\<close>

definition mode_lists :: string where
  "mode_lists = '',,(0,1,2,3,4),(0,1,2)''"

text \<open>
  The positions of the networks kept: those whose operator number does not occur further in front.
\<close>

definition kept_positions :: "op_info list \<Rightarrow> nat list" where
  "kept_positions is =
     filter (\<lambda>k. \<forall>j < k. szOpInfoNumeric (is ! j) \<noteq> szOpInfoNumeric (is ! k)) [0..<length is]"

lemma first_of_numeric_kept:
  assumes "n \<le> length is" "szOpInfoNumeric ` set kept = szOpInfoNumeric ` set (take n is)"
  shows "first_of_numeric kept (drop n is) = kept @ map ((!) is)
    (filter (\<lambda>k. \<forall>j < k. szOpInfoNumeric (is ! j) \<noteq> szOpInfoNumeric (is ! k)) [n..<length is])"
  using assms
proof (induction "length is - n" arbitrary: n kept)
  case 0
  then show ?case by simp
next
  case (Suc m)
  then have n: "n < length is" by linarith
  have old: "szOpInfoNumeric (is ! n) \<in> szOpInfoNumeric ` set kept \<longleftrightarrow>
      (\<exists>j < n. szOpInfoNumeric (is ! j) = szOpInfoNumeric (is ! n))"
  proof -
    have "set (take n is) = (!) is ` {..<n}" using n nth_image [of n "is"] by (simp add: lessThan_atLeast0)
    then have "x \<in> szOpInfoNumeric ` set (take n is) \<longleftrightarrow> (\<exists>j < n. szOpInfoNumeric (is ! j) = x)" for x by auto
    then show ?thesis unfolding Suc.prems(2) .
  qed
  have step: "m = length is - Suc n" "Suc n \<le> length is" using Suc.hyps(2) n by linarith+
  have ns: "set (take (Suc n) is) = insert (is ! n) (set (take n is))"
    using n by (simp add: take_Suc_conv_app_nth)
  have "[n..<length is] = n # [Suc n..<length is]" using n by (simp add: upt_conv_Cons)
  moreover have "drop n is = is ! n # drop (Suc n) is" using n by (simp add: Cons_nth_drop_Suc)
  moreover have "szOpInfoNumeric ` set kept = szOpInfoNumeric ` set (take (Suc n) is)"
    if "szOpInfoNumeric (is ! n) \<in> szOpInfoNumeric ` set kept"
    using that Suc.prems(2) by (auto simp: ns)
  moreover have "szOpInfoNumeric ` set (kept @ [is ! n]) = szOpInfoNumeric ` set (take (Suc n) is)"
    using Suc.prems(2) by (simp add: ns)
  ultimately show ?case
    using Suc.hyps(1) [OF step, of kept] Suc.hyps(1) [OF step, of "kept @ [is ! n]"] old by auto
qed

text \<open>
  C31. The list of available networks is read back: without text behind the list, the framework gets
  the networks of the listing in its order, of those with the same operator number only the first.
  With the lists of modes and formats that the standard puts behind it, the repetitions stay in the
  list, and the framework is given two entries more, one for each of these lists, whose pointers are
  NULL.
\<close>

theorem networks_listing:
  assumes "\<forall>i \<in> set is. well_named i" "is \<noteq> []"
  shows "ParseQueryAvailableNetworks True (NL @ ''+COPS: '' @ COPS_entries is @ NL) =
      (RRIL_RESULT_OK, Some (map (\<lambda>k. Some (is ! k)) (kept_positions is), 16 * length (kept_positions is))) \<and>
    ParseQueryAvailableNetworks True (NL @ ''+COPS: '' @ COPS_entries is @ mode_lists @ NL) =
      (let cells = map Some is @ [None, None] in (RRIL_RESULT_OK, Some (cells, 16 * length cells)))"
proof -
  have k: "first_of_numeric [] is = map ((!) is) (kept_positions is)"
    using first_of_numeric_kept [of 0 "is" "[]"] by (simp add: kept_positions_def)
  have h: "FindAndSkipString (snd (RspStart (NL @ ''+COPS: '' @ t))) ''+COPS: '' = (True, t)" for t
    using FindAndSkipString_append [of "[]" "''+COPS: ''" t]
    by (simp add: RspStart_NL)
  have l: "network_entries True [] (COPS_entries is @ NL) = Some (True, is, NL)"
    using network_entries_last [where ?is = "is" and rest = NL and acc = "[]"] assms by (simp add: NL_def)
  have m: "network_entries True [] (COPS_entries is @ mode_lists @ NL) =
      Some (False, is, tl mode_lists @ NL)"
    using network_entries_more [where ?is = "is" and c = "CHR '',''" and rest = "''(0,1,2,3,4),(0,1,2)'' @ NL" and acc = "[]"] assms by (simp add: mode_lists_def)
  have c: "count_parentheses (COPS_entries is @ mode_lists @ NL) = length is + 2"
    using count_COPS_entries [OF assms(1)] by (simp add: count_parentheses_eq NL_def mode_lists_def)
  have e: "FindAndSkipRspEnd (u @ NL) NL = (True, [])" if "u = [] \<or> u = tl mode_lists" for u
    using that find_NL [of u "[]"] by (auto simp: cursor_simps mode_lists_def)
  show ?thesis
    unfolding ParseQueryAvailableNetworks_def h
    using e [of "[]"] e [of "tl mode_lists"]
    by (simp add: l m c k need_simps numeral_2_eq_2 comp_def)
qed

definition sample_networks :: "op_info list" where
  "sample_networks =
     [\<lparr> szOpInfoLong = ''Orange F'', szOpInfoShort = ''Orange'', szOpInfoNumeric = ''20801'', szOpInfoStatus = ''current'' \<rparr>,
      \<lparr> szOpInfoLong = ''F SFR'', szOpInfoShort = ''SFR'', szOpInfoNumeric = ''20810'', szOpInfoStatus = ''forbidden'' \<rparr>,
      \<lparr> szOpInfoLong = ''Orange F'', szOpInfoShort = ''Orange'', szOpInfoNumeric = ''20801'', szOpInfoStatus = ''available'' \<rparr>]"

theorem networks_listing_witness:
  "snd (ParseQueryAvailableNetworks True (NL @ ''+COPS: '' @ COPS_entries sample_networks @ NL)) \<noteq>
   snd (ParseQueryAvailableNetworks True (NL @ ''+COPS: '' @ COPS_entries sample_networks @ mode_lists @ NL))"
proof -
  have "\<forall>i \<in> set sample_networks. well_named i" "sample_networks \<noteq> []"
    by (auto simp: sample_networks_def well_named_def MAX_OP_NAME_LONG_def MAX_OP_NAME_SHORT_def
        MAX_OP_NAME_NUM_def NAME_SIZE_def)
  moreover have "length (kept_positions sample_networks) = 2"
    by (simp add: kept_positions_def sample_networks_def upt_rec All_less_Suc numeral_2_eq_2)
  moreover have "length sample_networks = 3" by (simp add: sample_networks_def)
  ultimately show ?thesis
    using networks_listing [of sample_networks] by (auto simp: Let_def simp del: append_Cons)
qed

end
