(* ===== verification/ContextAnswers.thy ===== *)
theory ContextAnswers
  imports CallAnswers AtCommands
begin

text \<open>
  The answers about data contexts (\<open>CTEBase\<close> in \<open>CORE/ND/te_base.cpp\<close>, and the conversion of addresses in
  \<open>CORE/ND/MODEMS/data_util.cpp\<close>). The parsers write into the channels of theory DataChannels, and the
  addresses they find are what the framework gets as the addresses of a connection.
\<close>

section \<open>The cause of a failed data call\<close>

text \<open>Android's names of the causes.\<close>

definition MapErrorCodeToRilDataFailCause :: "u32 \<Rightarrow> string" where
  "MapErrorCodeToRilDataFailCause uiCause =
     (if uiCause = 8 then ''PDP_FAIL_OPERATOR_BARRED''
      else if uiCause = 126 then ''PDP_FAIL_INSUFFICIENT_RESOURCES''
      else if uiCause = 127 then ''PDP_FAIL_MISSING_UKNOWN_APN''
      else if uiCause = 128 then ''PDP_FAIL_UNKNOWN_PDP_ADDRESS_TYPE''
      else if uiCause = 129 then ''PDP_FAIL_USER_AUTHENTICATION''
      else if uiCause = 130 then ''PDP_FAIL_ACTIVATION_REJECT_GGSN''
      else if uiCause = 131 then ''PDP_FAIL_ACTIVATION_REJECT_UNSPECIFIED''
      else if uiCause = 132 then ''PDP_FAIL_SERVICE_OPTION_NOT_SUPPORTED''
      else if uiCause = 133 \<or> uiCause = 33 then ''PDP_FAIL_SERVICE_OPTION_NOT_SUBSCRIBED''
      else if uiCause = 134 then ''PDP_FAIL_SERVICE_OPTION_OUT_OF_ORDER''
      else if uiCause = 135 then ''PDP_FAIL_NSAPI_IN_USE''
      else if uiCause = 149 then ''PDP_FAIL_USER_AUTHENTICATION''
      else ''PDP_FAIL_ERROR_UNSPECIFIED'')"

definition ParseLastDataCallFailCause :: "bool \<Rightarrow> string \<Rightarrow> string parsed" where
  "ParseLastDataCallFailCause mem szRsp = parsed 4 (do {
     uiCause \<leftarrow> ParseCEER szRsp;
     _ \<leftarrow> check mem;
     Some (MapErrorCodeToRilDataFailCause uiCause) })"

section \<open>Addresses\<close>

definition MAX_IPADDR_SIZE :: nat where "MAX_IPADDR_SIZE = 65"

text \<open>
  \<open>sscanf ("%u.%u. ...")\<close> with \<open>n\<close> conversions into cells that are 0: it stops at the first text that
  does not match. The texts scanned here hold a point, so it never gives \<open>EOF\<close>. Negative numerals
  wrap.
\<close>

fun scan_numbers :: "nat \<Rightarrow> string \<Rightarrow> u32 list" where
  "scan_numbers 0 s = []"
| "scan_numbers (Suc n) s =
     (case strto (- (2 ^ 64 - 1)) (2 ^ 64 - 1) 10 s of
        (v, e, _) \<Rightarrow>
          if length e = length s then replicate (Suc n) 0
          else
            word_of_int v #
            (case e of
               [] \<Rightarrow> replicate n 0
             | c # e \<Rightarrow> if c = CHR ''.'' then scan_numbers n e else replicate n 0))"

fun dotted :: "nat list \<Rightarrow> string" where
  "dotted [] = []"
| "dotted [n] = dec_string n"
| "dotted (n # ns) = dec_string n @ CHR ''.'' # dotted ns"

text \<open>
  \<open>inet_ntop (AF_INET6)\<close> of the C library: the groups in hexadecimal, the first of the longest runs of at
  least two zero groups as two colons, and the last four bytes in decimal for an address that embeds
  one of version 4.
\<close>

definition lower_hex :: "nat \<Rightarrow> char" where
  "lower_hex d = (if d < 10 then digit_char d else char_of (87 + d))"

fun hex_group :: "nat \<Rightarrow> string" where
  "hex_group n = (if n < 16 then [lower_hex n] else hex_group (n div 16) @ [lower_hex (n mod 16)])"

fun groups_of :: "nat list \<Rightarrow> nat list" where
  "groups_of (a # b # bs) = (256 * a + b) # groups_of bs"
| "groups_of _ = []"

definition zero_run :: "nat list \<Rightarrow> nat \<Rightarrow> nat" where
  "zero_run ws i = length (takeWhile (\<lambda>w. w = 0) (drop i ws))"

definition best_run :: "nat list \<Rightarrow> nat \<times> nat" where
  "best_run ws =
     fold (\<lambda>i (base, len). if len < zero_run ws i then (i, zero_run ws i) else (base, len)) [0..<length ws] (0, 1)"

definition colons :: "string list \<Rightarrow> string" where
  "colons gs = tl (concat (map (\<lambda>g. CHR '':'' # g) gs))"

definition inet_ntop6 :: "nat list \<Rightarrow> string" where
  "inet_ntop6 bs =
     (let ws = groups_of bs; (base, len) = best_run ws; v4 = dotted (drop 12 bs) in
      if len < 2 then colons (map hex_group ws)
      else if base = 0 \<and> len = 6 then ''::'' @ v4
      else if base = 0 \<and> len = 5 \<and> ws ! 5 = 0xFFFF then ''::ffff:'' @ v4
      else colons (map hex_group (take base ws)) @ ''::'' @ colons (map hex_group (drop (base + len) ws)))"

text \<open>
  The conversion writes its IPv4 and its IPv6 output only when the text has such an address: the
  outputs are the old texts otherwise.
\<close>

definition ConvertIPAddressToAndroidReadable ::
    "string \<Rightarrow> string \<times> string \<Rightarrow> bool \<times> string \<times> string" where
  "ConvertIPAddressToAndroidReadable szIpIn out =
     (let nDotCount = count_list szIpIn (CHR ''.'');
          aIP = map unat (scan_numbers (Suc nDotCount) szIpIn)
      in if nDotCount \<notin> {3, 15, 19} \<or> (\<exists>a \<in> set aIP. 255 < a) then (False, out)
         else if nDotCount = 3 then (True, dotted aIP, snd out)
         else if nDotCount = 15 then (True, fst out, inet_ntop6 aIP)
         else (True, dotted (take 4 aIP), inet_ntop6 (drop 4 aIP)))"

text \<open>
  The text before and behind the fourth point is the address and the mask; a sixteenth point makes it
  the one that counts. Text with fewer points has neither.
\<close>

fun split_point :: "nat \<Rightarrow> string \<Rightarrow> (string \<times> string) option" where
  "split_point k [] = None"
| "split_point k (c # cs) =
     (if c = CHR ''.'' \<and> k \<le> 1 then Some ([], cs)
      else map_option (\<lambda>(x, y). (c # x, y)) (split_point (if c = CHR ''.'' then k - 1 else k) cs))"

definition split_mask :: "string \<Rightarrow> string \<times> string" where
  "split_mask s =
     (case (split_point 16 s, split_point 4 s) of
        (Some (x, y), _) \<Rightarrow> (take (MAX_IPADDR_SIZE - 1) x, take (MAX_IPADDR_SIZE - 1) y)
      | (None, Some (x, y)) \<Rightarrow> (take (MAX_IPADDR_SIZE - 1) x, take (MAX_IPADDR_SIZE - 1) y)
      | (None, None) \<Rightarrow> ([], []))"

definition ExtractLocalAddressAndSubnetMask ::
    "string \<Rightarrow> string \<times> string \<Rightarrow> string \<times> string \<Rightarrow> bool \<times> (string \<times> string) \<times> string \<times> string" where
  "ExtractLocalAddressAndSubnetMask s addr msk =
     (case split_mask s of
        (szAddress, szSubnetMask) \<Rightarrow>
          (case ConvertIPAddressToAndroidReadable szAddress addr of
             (False, addr) \<Rightarrow> (False, addr, msk)
           | (True, addr) \<Rightarrow>
               (case ConvertIPAddressToAndroidReadable szSubnetMask msk of (ok, msk) \<Rightarrow> (ok, addr, msk))))"

section \<open>The parameters of a context\<close>

definition SetApn :: "string \<Rightarrow> CChannel_Data \<Rightarrow> CChannel_Data" where
  "SetApn pApn d = d\<lparr> m_szApn := take (MAX_BUFFER_SIZE - 1) pApn \<rparr>"

definition GetApn :: "nat \<Rightarrow> CChannel_Data \<Rightarrow> string" where
  "GetApn maxSize d = take (maxSize - 1) (m_szApn d)"

text \<open>
  The locals of the loop that live through its turns: the four address buffers, the families seen,
  the context id of the line before and the channel of the last line, with the channels. A line that
  cannot be read ends the parser with what it has written.
\<close>

record context_state =
  v4_first :: string   \<comment> \<open>\<open>szTempAddress1\<close>\<close>
  v6_first :: string   \<comment> \<open>\<open>szTempAddress2\<close>\<close>
  v4_second :: string  \<comment> \<open>\<open>szTempAddress3\<close>\<close>
  v6_second :: string  \<comment> \<open>\<open>szTempAddress4\<close>\<close>
  isIPV4 :: bool
  isIPV6 :: bool
  uiPrevCID :: u32
  pChannelData :: "nat option"
  data_channels :: data_system

definition on_context :: "(CChannel_Data \<Rightarrow> CChannel_Data) \<Rightarrow> context_state \<Rightarrow> context_state" where
  "on_context f st =
     (case pChannelData st of
        None \<Rightarrow> st
      | Some i \<Rightarrow>
          (case the_channel (data_channels st) i of
             None \<Rightarrow> st
           | Some d \<Rightarrow> st\<lparr> data_channels := set_channel i (f d) (data_channels st) \<rparr>))"

definition add_addresses :: "bool \<Rightarrow> addr_type \<Rightarrow> string list \<Rightarrow> context_state \<Rightarrow> context_state" where
  "add_addresses mem t as = on_context (fold (\<lambda>a d. snd (AddAddressString mem t (Some a) d)) as)"

definition delete_addresses :: "context_state \<Rightarrow> context_state" where
  "delete_addresses = on_context (fold DeleteAddressesString [ADDR_IP, ADDR_GATEWAY, ADDR_DNS, ADDR_PCSCF])"

definition quoted_field :: "string \<Rightarrow> nat \<Rightarrow> bool \<times> string \<times> string" where
  "quoted_field s cb =
     (case SkipString s '','' of
        (False, s) \<Rightarrow> (False, [], s)
      | (True, s) \<Rightarrow> (case ExtractQuotedString s cb of (ok, buf, s) \<Rightarrow> (ok, cstr buf, s)))"

definition convert_first :: "string \<Rightarrow> context_state \<Rightarrow> bool \<times> context_state" where
  "convert_first a st =
     (case ConvertIPAddressToAndroidReadable a (v4_first st, v6_first st) of
        (ok, x, y) \<Rightarrow> (ok, st\<lparr> v4_first := x, v6_first := y \<rparr>))"

definition convert_second :: "string \<Rightarrow> context_state \<Rightarrow> bool \<times> context_state" where
  "convert_second a st =
     (case ConvertIPAddressToAndroidReadable a (v4_second st, v6_second st) of
        (ok, x, y) \<Rightarrow> (ok, st\<lparr> v4_second := x, v6_second := y \<rparr>))"

text \<open>
  The body of the loop is a sequence of steps on these locals and the text; a step that fails ends it.
\<close>

type_synonym context_step = "context_state \<Rightarrow> string \<Rightarrow> bool \<times> context_state \<times> string"

definition followed_by :: "context_step \<Rightarrow> context_step \<Rightarrow> context_step" where
  "followed_by f g st s = (case f st s of (False, st, s) \<Rightarrow> (False, st, s) | (True, st, s) \<Rightarrow> g st s)"

fun steps :: "context_step list \<Rightarrow> context_step" where
  "steps [] st s = (True, st, s)"
| "steps (f # fs) st s = followed_by f (steps fs) st s"

definition change :: "(context_state \<Rightarrow> context_state) \<Rightarrow> context_step" where
  "change f st s = (True, f st, s)"

text \<open>A field that must be there, and one that may be missing.\<close>

definition text_field :: "nat \<Rightarrow> (string \<Rightarrow> context_state \<Rightarrow> bool \<times> context_state) \<Rightarrow> context_step" where
  "text_field cb f st s =
     (case quoted_field s cb of
        (False, _, s) \<Rightarrow> (False, st, s)
      | (True, a, s) \<Rightarrow> (case f a st of (ok, st) \<Rightarrow> (ok, st, s)))"

definition optional_field :: "nat \<Rightarrow> (string \<Rightarrow> context_state \<Rightarrow> bool \<times> context_state) \<Rightarrow> context_step" where
  "optional_field cb f st s =
     (case quoted_field s cb of
        (False, _, s) \<Rightarrow> (True, st, s)
      | (True, a, s) \<Rightarrow> (case f a st of (ok, st) \<Rightarrow> (ok, st, s)))"

text \<open>Gateway, primary and secondary DNS server, primary and secondary PCSCF server.\<close>

definition add_servers :: "bool \<Rightarrow> addr_type \<Rightarrow> context_state \<Rightarrow> context_state" where
  "add_servers mem t st = add_addresses mem t [v4_first st, v4_second st, v6_first st, v6_second st] st"

definition context_servers :: "bool \<Rightarrow> context_step list" where
  "context_servers mem =
     [text_field MAX_BUFFER_SIZE convert_first,
      text_field MAX_BUFFER_SIZE convert_first,
      optional_field MAX_BUFFER_SIZE convert_second,
      change (add_servers mem ADDR_DNS),
      optional_field MAX_IPADDR_SIZE convert_first,
      optional_field MAX_IPADDR_SIZE convert_second,
      change (add_servers mem ADDR_PCSCF),
      change (\<lambda>st. st\<lparr> v4_first := [], v6_first := [], v4_second := [], v6_second := [] \<rparr>)]"

text \<open>
  The address of the context and its mask, which stays in the second pair of buffers. The addresses of
  the channel are deleted when the line before was for another context.
\<close>

definition local_address :: "bool \<Rightarrow> u32 \<Rightarrow> string \<Rightarrow> context_state \<Rightarrow> bool \<times> context_state" where
  "local_address mem uiCID a st =
     (let st = (if uiCID \<noteq> uiPrevCID st then delete_addresses st else st)\<lparr> uiPrevCID := uiCID \<rparr> in
      case ExtractLocalAddressAndSubnetMask a (v4_first st, v6_first st) (v4_second st, v6_second st) of
        (ok, (x1, x2), (x3, x4)) \<Rightarrow>
          (let st = st\<lparr> v4_first := x1, v6_first := x2, v4_second := x3, v6_second := x4 \<rparr> in
           if \<not> ok then (False, st)
           else
             (True,
              (add_addresses mem ADDR_IP [x1, x2] st)
                \<lparr> isIPV4 := isIPV4 st \<or> x2 = [], isIPV6 := isIPV6 st \<or> x1 = [] \<rparr>)))"

definition context_apn :: "string \<Rightarrow> context_state \<Rightarrow> bool \<times> context_state" where
  "context_apn apn st = (True, if apn \<noteq> [] then on_context (SetApn apn) st else st)"

definition bearer_field :: context_step where
  "bearer_field st s =
     (case SkipString s '','' of
        (False, s) \<Rightarrow> (False, st, s)
      | (True, s) \<Rightarrow> (case ExtractUInt32 s 0 of (ok, _, s) \<Rightarrow> (ok, st, s)))"

definition context_fields :: "bool \<Rightarrow> u32 \<Rightarrow> context_step list" where
  "context_fields mem uiCID =
     [bearer_field, text_field MAX_BUFFER_SIZE context_apn, text_field MAX_BUFFER_SIZE (local_address mem uiCID)] @
     context_servers mem"

definition context_line :: "bool \<Rightarrow> context_step" where
  "context_line mem st s =
     (case ExtractUInt32 s 0 of
        (False, _, s) \<Rightarrow> (False, st, s)
      | (True, uiCID, s) \<Rightarrow>
          if uiCID = 0 then (False, st, s)
          else
            (let st = st\<lparr> pChannelData := GetChnlFromContextID uiCID (data_channels st) \<rparr> in
             if pChannelData st = None then (False, st, s)
             else steps (context_fields mem uiCID) st s))"

lemma quoted_field_suffix: "suffix (snd (snd (quoted_field s cb))) s"
  using SkipString_suffix [of s "'',''"] quoted_cursor.in_text
  by (auto simp: quoted_field_def split: prod.split bool.split) (metis snd_conv suffix_order.trans)+

definition consumes :: "context_step \<Rightarrow> bool" where
  "consumes f \<longleftrightarrow> (\<forall>st s. suffix (snd (snd (f st s))) s)"

lemma consumes_steps: "\<forall>f \<in> set fs. consumes f \<Longrightarrow> consumes (steps fs)"
proof (induction fs)
  case (Cons f fs)
  then have "suffix (snd (snd (f st s))) s" "suffix (snd (snd (steps fs st' t))) t" for st s st' t
    by (simp_all add: consumes_def)
  then show ?case
    by (auto simp: consumes_def followed_by_def split: prod.split bool.split) (metis snd_conv suffix_order.trans)+
qed (simp add: consumes_def)

lemma consumes_field [simp]: "consumes (text_field cb f)" "consumes (optional_field cb f)"
  using quoted_field_suffix [of _ cb]
  by (auto simp: consumes_def text_field_def optional_field_def split: prod.split bool.split) (metis snd_conv)+

lemma consumes_bearer [simp]: "consumes bearer_field" "consumes (change g)"
  using SkipString_suffix [of _ "'',''"] ExtractUInt32_suffix [of _ 0]
  by (auto simp: consumes_def bearer_field_def change_def split: prod.split bool.split) (metis snd_conv suffix_order.trans)+

lemma context_line_suffix: "suffix (snd (snd (context_line mem st s))) s"
proof -
  have f: "consumes f" if "f \<in> set (context_fields mem c)" for f c
    using that by (auto simp: context_fields_def context_servers_def)
  have c: "suffix (snd (snd (steps (context_fields mem c) st' t))) t" for c st' t
    using consumes_steps f unfolding consumes_def by blast
  obtain ok v t where t: "ExtractUInt32 s 0 = (ok, v, t)" by (cases "ExtractUInt32 s 0")
  then have ts: "suffix t s" using ExtractUInt32_suffix [of s 0] by simp
  have "suffix (snd (snd (steps (context_fields mem v) st' t))) s" for st'
    using c ts by (rule suffix_order.trans)
  then show ?thesis
    using ts unfolding context_line_def t prod.case Let_def by (cases ok) (simp_all only: bool.case snd_conv simp_thms split: if_split)
qed

lemma context_line_rest: "(True, st', s') = context_line mem st s \<Longrightarrow> suffix s' s"
  using context_line_suffix [of mem st s] by (metis snd_conv)

lemma found_shorter: "(True, s1) = FindAndSkipString s (c # k) \<Longrightarrow> suffix s2 s1 \<Longrightarrow> length s2 < length s"
  using FindAndSkipString_True_length [of s "c # k" s1] suffix_length_le [of s2 s1] by simp

function context_lines :: "bool \<Rightarrow> context_state \<Rightarrow> string \<Rightarrow> bool \<times> context_state" where
  "context_lines mem st s =
     (case FindAndSkipString s ''+CGCONTRDP:'' of
        (False, _) \<Rightarrow> (True, st)
      | (True, s1) \<Rightarrow>
          (case context_line mem st s1 of
             (False, st, _) \<Rightarrow> (False, st)
           | (True, st, s2) \<Rightarrow> context_lines mem st s2))"
  by pat_completeness auto
termination
  by (relation "measure (\<lambda>(m, st, s). length s)")
    (simp, clarify, unfold in_measure prod.case, erule found_shorter, erule context_line_rest)

declare context_lines.simps [simp del]

text \<open>The report on the access point of the default connection.\<close>

definition NotifyNetworkApnInfo :: "u32 \<Rightarrow> data_system \<Rightarrow> (string \<times> string option) option" where
  "NotifyNetworkApnInfo defaultPDNCid ds =
     map_option (\<lambda>i. (GetApn MAX_APN_SIZE (the (the_channel ds i)), GetPdpType MAX_PDP_TYPE_SIZE (the (the_channel ds i))))
       (GetChnlFromContextID defaultPDNCid ds)"

definition first_context_state :: "data_system \<Rightarrow> context_state" where
  "first_context_state ds =
     \<lparr> v4_first = [], v6_first = [], v4_second = [], v6_second = [], isIPV4 = False, isIPV6 = False,
       uiPrevCID = 0, pChannelData = None, data_channels = ds \<rparr>"

text \<open>The result, the channels, and the report if one is sent.\<close>

definition ParseReadContextParams ::
    "bool \<Rightarrow> u32 \<Rightarrow> string \<Rightarrow> data_system \<Rightarrow> result_code \<times> data_system \<times> (string \<times> string option) option" where
  "ParseReadContextParams mem defaultPDNCid pszRsp ds =
     (case context_lines mem (first_context_state ds) pszRsp of
        (False, st) \<Rightarrow> (RRIL_RESULT_ERROR, data_channels st, None)
      | (True, st) \<Rightarrow>
          if pChannelData st = None then (RRIL_RESULT_OK, data_channels st, None)
          else
            (let pdp = (if isIPV4 st \<and> isIPV6 st then on_context (SetPdpType ''IPV4V6'')
                        else if isIPV4 st then on_context (SetPdpType ''IP'')
                        else if isIPV6 st then on_context (SetPdpType ''IPV6'')
                        else id);
                 ds = data_channels (pdp st)
             in (RRIL_RESULT_OK, ds, NotifyNetworkApnInfo defaultPDNCid ds)))"

section \<open>Filters and quality of service of a bearer\<close>

record tft_param =
  uiCid :: u32
  uiPacketFilterIdentifier :: u32
  uiEvaluationPrecedenceIndex :: u32
  szSourceIpV4Addr :: string
  szSourceIpV6Addr :: string
  szSourceIpv4SubnetMask :: string
  szSourceIpv6SubnetMask :: string
  uiProtocolNumber :: u32
  szDestinationPortRange :: string
  szSourcePortRange :: string
  uiIpSecParamIndex :: u32
  szTOS :: string
  uiFlowLabel :: u32
  uiDirection :: u32
  uiNwPacketFilterIdentifier :: u32

definition MAX_TFT_PARAMS :: nat where "MAX_TFT_PARAMS = 7"
definition MAX_RANGE_SIZE :: nat where "MAX_RANGE_SIZE = 12"

definition comma :: "string \<Rightarrow> string option" where
  "comma s = need (SkipString s '','')"

definition number_field :: "string \<Rightarrow> (u32 \<times> string) option" where
  "number_field s = do { s \<leftarrow> comma s; need (ExtractUInt32 s 0) }"

definition hex_field :: "string \<Rightarrow> (u32 \<times> string) option" where
  "hex_field s = do { s \<leftarrow> comma s; need (ExtractHexUInt32 s 0) }"

definition range_field :: "string \<Rightarrow> (string \<times> string) option" where
  "range_field s = do {
     s \<leftarrow> comma s;
     (buf, s) \<leftarrow> need (ExtractUnquotedString s '','' MAX_RANGE_SIZE);
     Some (cstr buf, s) }"

definition tft_line :: "string \<Rightarrow> (tft_param \<times> string) option" where
  "tft_line s = do {
     (cid', s) \<leftarrow> need (ExtractUInt32 s 0);
     _ \<leftarrow> check (cid' \<noteq> 0);
     (pfid, s) \<leftarrow> number_field s;
     (epi, s) \<leftarrow> number_field s;
     s \<leftarrow> comma s;
     (abuf, s) \<leftarrow> need (ExtractQuotedString s MAX_BUFFER_SIZE);
     ((a4, a6), (m4, m6)) \<leftarrow> need (ExtractLocalAddressAndSubnetMask (cstr abuf) ([], []) ([], []));
     (proto, s) \<leftarrow> number_field s;
     (dport, s) \<leftarrow> range_field s;
     (sport, s) \<leftarrow> range_field s;
     (ipsec, s) \<leftarrow> hex_field s;
     (tos, s) \<leftarrow> range_field s;
     (flow, s) \<leftarrow> hex_field s;
     (dir, s) \<leftarrow> number_field s;
     (nwid, s) \<leftarrow> number_field s;
     Some (\<lparr> uiCid = cid', uiPacketFilterIdentifier = pfid, uiEvaluationPrecedenceIndex = epi,
             szSourceIpV4Addr = a4, szSourceIpV6Addr = a6, szSourceIpv4SubnetMask = m4, szSourceIpv6SubnetMask = m6,
             uiProtocolNumber = proto, szDestinationPortRange = dport, szSourcePortRange = sport,
             uiIpSecParamIndex = ipsec, szTOS = tos, uiFlowLabel = flow, uiDirection = dir,
             uiNwPacketFilterIdentifier = nwid \<rparr>, s) }"

text \<open>At most \<open>n\<close> filters.\<close>

primrec tft_lines :: "nat \<Rightarrow> string \<Rightarrow> tft_param list option" where
  "tft_lines 0 s = Some []"
| "tft_lines (Suc n) s =
     (case FindAndSkipString s ''+CGTFTRDP:'' of
        (False, _) \<Rightarrow> Some []
      | (True, s) \<Rightarrow> do { (p, s) \<leftarrow> tft_line s; ps \<leftarrow> tft_lines n s; Some (p # ps) })"

record bearer_tft =
  tft_interface :: string
  tft_uiPcid :: u32
  tft_count :: nat
  tft_params :: "tft_param list"  \<comment> \<open>the entries filled in; the others are zero\<close>

definition ParseReadBearerTFTParams :: "bool \<Rightarrow> CChannel_Data \<Rightarrow> string \<Rightarrow> result_code \<times> bearer_tft option" where
  "ParseReadBearerTFTParams mem d pszRsp =
     (case do {
          _ \<leftarrow> check mem;
          ifname \<leftarrow> GetInterfaceName MAX_INTERFACE_NAME_SIZE d;
          _ \<leftarrow> check (ifname \<noteq> []);
          ps \<leftarrow> tft_lines MAX_TFT_PARAMS pszRsp;
          Some \<lparr> tft_interface = ifname, tft_uiPcid = m_uiContextID d,
                 tft_count = (if length ps = MAX_TFT_PARAMS then length ps - 1 else length ps), tft_params = ps \<rparr> } of
        None \<Rightarrow> (RRIL_RESULT_ERROR, None)
      | Some r \<Rightarrow> (RRIL_RESULT_OK, Some r))"

record bearer_qos =
  qos_interface :: string
  qos_uiPcid :: u32
  qos_uiCid :: u32
  uiQci :: u32
  uiDlGbr :: u32
  uiUlGbr :: u32
  uiDlMbr :: u32
  uiUlMbr :: u32

text \<open>The guaranteed and the maximal rates are only there for the first four classes.\<close>

definition qos_rates :: "u32 \<Rightarrow> string \<Rightarrow> (u32 \<times> u32 \<times> u32 \<times> u32) option" where
  "qos_rates qci s =
     (if 1 \<le> qci \<and> qci \<le> 4 then do {
        (a, s) \<leftarrow> number_field s; (b, s) \<leftarrow> number_field s; (c, s) \<leftarrow> number_field s; (d, s) \<leftarrow> number_field s;
        Some (a, b, c, d) }
      else Some (0, 0, 0, 0))"

definition ParseReadBearerQOSParams :: "bool \<Rightarrow> CChannel_Data \<Rightarrow> string \<Rightarrow> result_code \<times> bearer_qos option" where
  "ParseReadBearerQOSParams mem d pszRsp =
     (case do {
          _ \<leftarrow> check mem;
          s \<leftarrow> need (FindAndSkipString pszRsp ''+CGEQOSRDP:'');
          ifname \<leftarrow> GetInterfaceName MAX_INTERFACE_NAME_SIZE d;
          _ \<leftarrow> check (ifname \<noteq> []);
          (cid', s) \<leftarrow> need (ExtractUInt32 s 0);
          _ \<leftarrow> check (cid' \<noteq> 0);
          (qci, s) \<leftarrow> number_field s;
          (dg, ug, dm, um) \<leftarrow> qos_rates qci s;
          Some \<lparr> qos_interface = ifname, qos_uiPcid = m_uiContextID d, qos_uiCid = cid', uiQci = qci,
                 uiDlGbr = dg, uiUlGbr = ug, uiDlMbr = dm, uiUlMbr = um \<rparr> } of
        None \<Rightarrow> (RRIL_RESULT_ERROR, None)
      | Some r \<Rightarrow> (RRIL_RESULT_OK, Some r))"

section \<open>A context with one DNS server\<close>

lemma dec_string_length: "n < 1000 \<Longrightarrow> length (dec_string n) \<le> 3"
  by (subst dec_string.simps, subst dec_string.simps, subst dec_string.simps) auto

lemma dotted_Cons: "ns \<noteq> [] \<Longrightarrow> dotted (n # ns) = dec_string n @ CHR ''.'' # dotted ns"
  by (cases ns) simp_all

lemma dotted_chars: "set (dotted ns) \<subseteq> {c. isdigit_c c} \<union> {CHR ''.''}"
  by (induction ns rule: dotted.induct) (auto dest: field_chars)

lemma no_point_in_dec: "CHR ''.'' \<notin> set (dec_string n)"
  using field_chars [of "CHR ''.''" n] by (auto simp: isdigit_c_def code_def)

lemma dotted_points: "ns \<noteq> [] \<Longrightarrow> count_list (dotted ns) (CHR ''.'') = length ns - 1"
  by (induction ns rule: dotted.induct) (simp_all add: no_point_in_dec)

lemma split_point_append:
  "count_list p (CHR ''.'') = k \<Longrightarrow> split_point (Suc k) (p @ CHR ''.'' # r) = Some (p, r)"
  by (induction p arbitrary: k) (auto split: if_splits)

lemma split_point_None: "count_list s (CHR ''.'') < k \<Longrightarrow> split_point k s = None"
  by (induction s arbitrary: k) (auto split: if_splits)

lemma scan_dotted:
  assumes "\<forall>n \<in> set ns. n < 2 ^ 32" "ns \<noteq> []"
  shows "scan_numbers (length ns) (dotted ns) = map of_nat ns"
  using assms
proof (induction ns rule: dotted.induct)
  case (2 n)
  then show ?case using strto_dec_string [of "[]" n "2 ^ 64 - 1" "- (2 ^ 64 - 1)"] dec_string_digits [of n]
    by simp
next
  case (3 n m ns)
  then show ?case
    using strto_dec_string [of "CHR ''.'' # dotted (m # ns)" n "2 ^ 64 - 1" "- (2 ^ 64 - 1)"] dec_string_digits [of n]
    by (simp add: digit_val_def isdigit_c_def code_def)
qed simp

definition octets :: "nat list \<Rightarrow> bool" where
  "octets ns \<longleftrightarrow> length ns = 4 \<and> (\<forall>n \<in> set ns. n < 256)"

lemma octets_4: "octets ns \<longleftrightarrow> (\<exists>a b c d. ns = [a, b, c, d] \<and> a < 256 \<and> b < 256 \<and> c < 256 \<and> d < 256)"
  by (auto simp: octets_def length_Suc_conv eval_nat_numeral)

lemma octets_length: "octets ns \<Longrightarrow> length (dotted ns) \<le> 15"
proof -
  assume "octets ns"
  then obtain a b c d where n: "ns = [a, b, c, d]" "a < 256" "b < 256" "c < 256" "d < 256" by (auto simp: octets_4)
  show "length (dotted ns) \<le> 15"
    using dec_string_length [of a] dec_string_length [of b] dec_string_length [of c] dec_string_length [of d] n by simp
qed

lemma convert_octets:
  assumes "octets ns"
  shows "ConvertIPAddressToAndroidReadable (dotted ns) out = (True, dotted ns, snd out)"
proof -
  have n: "ns \<noteq> []" "length ns = 4" "\<forall>n \<in> set ns. n < 256" using assms by (auto simp: octets_def)
  have "\<forall>n \<in> set ns. n < 2 ^ 32" using n(3) by force
  then have "map unat (scan_numbers (length ns) (dotted ns)) = map unat (map (of_nat :: nat \<Rightarrow> u32) ns)"
    using scan_dotted n(1) by simp
  also have "\<dots> = ns" unfolding map_map comp_def
    by (rule map_idI) (use n(3) in \<open>force simp: unat_of_nat\<close>)
  finally have "map unat (scan_numbers 4 (dotted ns)) = ns" by (simp add: n)
  moreover have "count_list (dotted ns) (CHR ''.'') = 3" using n by (simp add: dotted_points)
  moreover have "\<not> (\<exists>a \<in> set ns. 255 < a)" using n(3) by (auto simp: not_less)
  ultimately show ?thesis
    unfolding ConvertIPAddressToAndroidReadable_def Let_def by simp
qed

lemma local_octets:
  assumes "octets a" "octets m"
  shows "ExtractLocalAddressAndSubnetMask (dotted a @ CHR ''.'' # dotted m) addr msk =
    (True, (dotted a, snd addr), (dotted m, snd msk))"
proof -
  have n: "a \<noteq> []" "m \<noteq> []" "length a = 4" "length m = 4" using assms by (auto simp: octets_def)
  have "split_point 16 (dotted a @ CHR ''.'' # dotted m) = None"
    by (rule split_point_None) (simp add: dotted_points n)
  moreover have "split_point 4 (dotted a @ CHR ''.'' # dotted m) = Some (dotted a, dotted m)"
    using split_point_append [of "dotted a" 3 "dotted m"] by (simp add: dotted_points n)
  ultimately show ?thesis
    using octets_length [OF assms(1)] octets_length [OF assms(2)]
    by (simp add: ExtractLocalAddressAndSubnetMask_def split_mask_def MAX_IPADDR_SIZE_def convert_octets assms)
qed

lemma quoted_field_text:
  assumes "QUOTE \<notin> set body" "NUL \<notin> set body" "length body < cb"
  shows "quoted_field (CHR '','' # QUOTE # body @ QUOTE # t) cb = (True, body, t)"
  using quoted_buffer [OF assms, of t] by (auto simp: quoted_field_def skip_char)

lemma quoted_field_missing: "quoted_field (CR # t) cb = (False, [], CR # t)"
  by (simp add: quoted_field_def skip_other)

lemma on_context_channel:
  "pChannelData st = Some i \<Longrightarrow> the_channel (data_channels st) i = Some d \<Longrightarrow>
   on_context f st = st\<lparr> data_channels := set_channel i (f d) (data_channels st) \<rparr>"
  by (simp add: on_context_def)

lemma the_channel_updated: "the_channel ds i = Some d \<Longrightarrow> the_channel (set_channel i x ds) i = Some x"
  by (simp add: the_channel_def set_channel_def split: if_splits)

lemma set_channel_set: "set_channel i x (set_channel i y ds) = set_channel i x ds"
  by (simp add: set_channel_def)

text \<open>The answer for one context: access point, local address with its mask, gateway, one DNS server.\<close>

definition CGCONTRDP_line :: "nat \<Rightarrow> nat \<Rightarrow> string \<Rightarrow> nat list \<Rightarrow> nat list \<Rightarrow> nat list \<Rightarrow> nat list \<Rightarrow> string \<Rightarrow> string" where
  "CGCONTRDP_line n b apn a m g d rest =
     ''+CGCONTRDP: '' @ dec_string n @ CHR '','' # dec_string b @
     CHR '','' # QUOTE # apn @ QUOTE # CHR '','' # QUOTE # (dotted a @ CHR ''.'' # dotted m) @ QUOTE #
     CHR '','' # QUOTE # dotted g @ QUOTE # CHR '','' # QUOTE # dotted d @ QUOTE # CR # rest"

definition one_server :: "string \<Rightarrow> nat list \<Rightarrow> nat list \<Rightarrow> nat list \<Rightarrow> CChannel_Data \<Rightarrow> CChannel_Data" where
  "one_server apn a m d c =
     (let c = (if apn = [] then c else SetApn apn c);
          servers = Some (dotted d @ SPC # dotted m)
      in SetPdpType ''IP''
           (c\<lparr> addresses := (\<lambda>_. None)(ADDR_IP := Some (dotted a), ADDR_DNS := servers, ADDR_PCSCF := servers) \<rparr>))"

lemma text_field_step:
  "QUOTE \<notin> set body \<Longrightarrow> NUL \<notin> set body \<Longrightarrow> length body < cb \<Longrightarrow> f body st = (True, st') \<Longrightarrow>
   steps (text_field cb f # fs) st (CHR '','' # QUOTE # body @ QUOTE # t) = steps fs st' t"
  by (simp add: followed_by_def text_field_def quoted_field_text)

lemma optional_field_missing:
  "steps (optional_field cb f # fs) st (CR # t) = steps fs st (CR # t)"
  by (simp add: followed_by_def optional_field_def quoted_field_missing)

lemma change_step: "steps (change f # fs) st s = steps fs (f st) s"
  by (simp add: followed_by_def change_def)

lemma dotted_nonempty: "octets ns \<Longrightarrow> dotted ns \<noteq> []"
  using dec_string_digits by (auto simp: octets_4)

lemma dotted_clean: "QUOTE \<notin> set (dotted ns)" "NUL \<notin> set (dotted ns)"
  using dotted_chars [of ns] by (auto simp: isdigit_c_def code_def)

lemma add_servers_two:
  assumes "pChannelData st = Some i" "the_channel (data_channels st) i = Some c"
    "v6_first st = []" "v6_second st = []" "v4_first st \<noteq> []" "v4_second st \<noteq> []" "addresses c t = None"
    "strstr (v4_first st) (v4_second st) = None"
  shows "add_servers True t st = st\<lparr> data_channels := set_channel i
     (c\<lparr> addresses := (addresses c)(t := Some (v4_first st @ SPC # v4_second st)) \<rparr>) (data_channels st) \<rparr>"
  using assms by (simp add: add_servers_def add_addresses_def on_context_channel [OF assms(1,2)] AddAddressString_def)

lemma servers_step:
  assumes "octets g" "octets d" "octets m" "pChannelData st = Some i" "the_channel (data_channels st) i = Some c"
    "v6_first st = []" "v6_second st = []" "v4_second st = dotted m" "addresses c ADDR_DNS = None" "addresses c ADDR_PCSCF = None"
    "strstr (dotted d) (dotted m) = None"
  shows "\<exists>st'. steps (context_servers True) st
      (CHR '','' # QUOTE # dotted g @ QUOTE # CHR '','' # QUOTE # dotted d @ QUOTE # CR # rest) = (True, st', CR # rest) \<and>
    pChannelData st' = Some i \<and> isIPV4 st' = isIPV4 st \<and> isIPV6 st' = isIPV6 st \<and>
    data_channels st' = set_channel i (c\<lparr> addresses := (addresses c)(ADDR_DNS := Some (dotted d @ SPC # dotted m),
       ADDR_PCSCF := Some (dotted d @ SPC # dotted m)) \<rparr>) (data_channels st)"
proof -
  have f: "steps (text_field MAX_BUFFER_SIZE convert_first # fs) s (CHR '','' # QUOTE # dotted x @ QUOTE # t) =
      steps fs (s\<lparr> v4_first := dotted x \<rparr>) t" if "octets x" for x s t fs
    by (rule text_field_step)
      (use that octets_length [OF that] in \<open>simp_all add: dotted_clean MAX_BUFFER_SIZE_def convert_first_def convert_octets\<close>)
  show ?thesis
    using the_channel_updated [OF assms(5)]
    unfolding context_servers_def f [OF assms(1)] f [OF assms(2)] optional_field_missing change_step steps.simps(1)
    using assms
    by (simp add: add_servers_two [where i = i and c = c] dotted_nonempty set_channel_set
        add_servers_two [where i = i and c = "c\<lparr> addresses := (addresses c)(ADDR_DNS := Some (dotted d @ SPC # dotted m)) \<rparr>"])
qed

lemma local_step:
  assumes "octets a" "octets m" "pChannelData st = Some i" "the_channel (data_channels st) i = Some c"
    "v4_first st = []" "v6_first st = []" "v4_second st = []" "v6_second st = []" "uiCID \<noteq> uiPrevCID st"
  shows "local_address True uiCID (dotted a @ CHR ''.'' # dotted m) st =
    (True, st\<lparr> uiPrevCID := uiCID, v4_first := dotted a, v4_second := dotted m,
       data_channels := set_channel i (c\<lparr> addresses := (\<lambda>_. None)(ADDR_IP := Some (dotted a)) \<rparr>) (data_channels st),
       isIPV4 := True \<rparr>)"
proof -
  have none: "(addresses c)(ADDR_IP := None, ADDR_GATEWAY := None, ADDR_DNS := None, ADDR_PCSCF := None) = (\<lambda>_. None)"
  proof
    fix t show "((addresses c)(ADDR_IP := None, ADDR_GATEWAY := None, ADDR_DNS := None, ADDR_PCSCF := None)) t = None"
      by (cases t) simp_all
  qed
  have d: "delete_addresses st = st\<lparr> data_channels := set_channel i (c\<lparr> addresses := \<lambda>_. None \<rparr>) (data_channels st) \<rparr>"
    by (simp add: delete_addresses_def on_context_channel [OF assms(3,4)] DeleteAddressesString_def none)
  show ?thesis
    using assms the_channel_updated [OF assms(4)]
    by (simp add: local_address_def Let_def d local_octets add_addresses_def AddAddressString_def dotted_nonempty
        on_context_channel [where i = i and d = "c\<lparr> addresses := \<lambda>_. None \<rparr>"] set_channel_set)
qed

lemma CGCONTRDP_fields:
  assumes "octets a" "octets m" "octets g" "octets d" "QUOTE \<notin> set apn" "NUL \<notin> set apn" "length apn < MAX_BUFFER_SIZE"
    "strstr (dotted d) (dotted m) = None" "b < 2 ^ 32" "the_channel ds i = Some c" "uiCID \<noteq> 0"
  shows "\<exists>st'. steps (context_fields True uiCID) ((first_context_state ds)\<lparr> pChannelData := Some i \<rparr>)
      (CHR '','' # dec_string b @
     CHR '','' # QUOTE # apn @ QUOTE # CHR '','' # QUOTE # (dotted a @ CHR ''.'' # dotted m) @ QUOTE #
     CHR '','' # QUOTE # dotted g @ QUOTE # CHR '','' # QUOTE # dotted d @ QUOTE # CR # rest) = (True, st', CR # rest) \<and>
    pChannelData st' = Some i \<and> isIPV4 st' \<and> \<not> isIPV6 st' \<and>
    data_channels st' = set_channel i ((if apn = [] then c else SetApn apn c)
      \<lparr> addresses := (\<lambda>_. None)(ADDR_IP := Some (dotted a), ADDR_DNS := Some (dotted d @ SPC # dotted m),
         ADDR_PCSCF := Some (dotted d @ SPC # dotted m)) \<rparr>) ds"
proof -
  let ?c = "if apn = [] then c else SetApn apn c"
  let ?first = "(first_context_state ds)\<lparr> pChannelData := Some i \<rparr>"
  let ?st = "?first\<lparr> data_channels := if apn = [] then ds else set_channel i ?c ds \<rparr>"
  let ?tail = "CHR '','' # QUOTE # dotted g @ QUOTE # CHR '','' # QUOTE # dotted d @ QUOTE # CR # rest"
  have n: "data_channels ?first = ds" "pChannelData ?first = Some i" by (simp_all add: first_context_state_def)
  have apn: "context_apn apn ?first = (True, ?st)"
  proof (cases "apn = []")
    case True
    then show ?thesis by (simp add: context_apn_def first_context_state_def)
  next
    case False
    then show ?thesis
      using on_context_channel [of ?first i c "SetApn apn"] assms(10) n by (simp add: context_apn_def)
  qed
  have b: "bearer_field ?first (CHR '','' # dec_string b @ CHR '','' # t) = (True, ?first, CHR '','' # t)" for t
    using assms(9) by (simp add: bearer_field_def skip_char uint_then isdigit_c_def code_def)
  have ch: "the_channel (data_channels ?st) i = Some ?c"
    using assms(10) the_channel_updated [OF assms(10)] by simp
  let ?next = "?st\<lparr> uiPrevCID := uiCID, v4_first := dotted a, v4_second := dotted m,
       data_channels := set_channel i (?c\<lparr> addresses := (\<lambda>_. None)(ADDR_IP := Some (dotted a)) \<rparr>) (data_channels ?st),
       isIPV4 := True \<rparr>"
  have l: "local_address True uiCID (dotted a @ CHR ''.'' # dotted m) ?st = (True, ?next)"
    by (rule local_step) (use assms ch in \<open>simp_all add: first_context_state_def\<close>)
  have q: "QUOTE \<notin> set (dotted a @ CHR ''.'' # dotted m)" "NUL \<notin> set (dotted a @ CHR ''.'' # dotted m)"
    "length (dotted a @ CHR ''.'' # dotted m) < MAX_BUFFER_SIZE"
    using octets_length [OF assms(1)] octets_length [OF assms(2)] by (simp_all add: dotted_clean MAX_BUFFER_SIZE_def)
  obtain st' where st': "steps (context_servers True) ?next ?tail = (True, st', CR # rest)" "pChannelData st' = Some i"
      "isIPV4 st' = isIPV4 ?next" "isIPV6 st' = isIPV6 ?next"
      "data_channels st' = set_channel i (?c\<lparr> addresses := (\<lambda>_. None)(ADDR_IP := Some (dotted a), ADDR_DNS := Some (dotted d @ SPC # dotted m),
         ADDR_PCSCF := Some (dotted d @ SPC # dotted m)) \<rparr>) (data_channels ?next)"
    using servers_step [of g d m ?next i "?c\<lparr> addresses := (\<lambda>_. None)(ADDR_IP := Some (dotted a)) \<rparr>" rest]
      assms the_channel_updated [OF ch] by (auto simp: first_context_state_def)
  have e: "steps (context_fields True uiCID) ?first (CHR '','' # dec_string b @ CHR '','' # QUOTE # apn @ QUOTE # CHR '','' # QUOTE #
      (dotted a @ CHR ''.'' # dotted m) @ QUOTE # ?tail) = steps (context_servers True) ?next ?tail"
    unfolding context_fields_def append_Cons append_Nil steps.simps(2) [of bearer_field] followed_by_def b prod.case bool.case
      text_field_step [where f = context_apn, OF assms(5-7) apn]
      text_field_step [where f = "local_address True uiCID", OF q l] ..
  have "data_channels st' = set_channel i (?c\<lparr> addresses := (\<lambda>_. None)(ADDR_IP := Some (dotted a), ADDR_DNS := Some (dotted d @ SPC # dotted m),
         ADDR_PCSCF := Some (dotted d @ SPC # dotted m)) \<rparr>) ds"
    unfolding st'(5) by (simp add: set_channel_set)
  then show ?thesis
    using e st' by (auto simp: first_context_state_def)
qed


text \<open>
  C35. The mask becomes a DNS server. When the modem reports a context with a single DNS server, which
  is all a network has to give, the second address buffers still hold the subnet mask: it is added
  as the second DNS server, and both are added as PCSCF servers although the report has none.
\<close>

theorem mask_becomes_DNS:
  assumes "octets a" "octets m" "octets g" "octets d" "QUOTE \<notin> set apn" "NUL \<notin> set apn" "length apn < MAX_BUFFER_SIZE"
    and "0 < n" "n < 2 ^ 32" "b < 2 ^ 32" "strstr (dotted d) (dotted m) = None"
    and "GetChnlFromContextID (word_of_nat n) ds = Some i" "the_channel ds i = Some c"
    and "fst (FindAndSkipString (CR # rest) ''+CGCONTRDP:'') = False"
  shows "\<exists>notice. ParseReadContextParams True defaultPDNCid (CGCONTRDP_line n b apn a m g d rest) ds =
    (RRIL_RESULT_OK, set_channel i (one_server apn a m d c) ds, notice)"
proof -
  let ?w = "word_of_nat n :: u32"
  let ?tail = "CHR '','' # dec_string b @ CHR '','' # QUOTE # apn @ QUOTE # CHR '','' # QUOTE # (dotted a @ CHR ''.'' # dotted m) @ QUOTE #
     CHR '','' # QUOTE # dotted g @ QUOTE # CHR '','' # QUOTE # dotted d @ QUOTE # CR # rest"
  have w: "?w \<noteq> 0" using assms(8,9) by (simp add: word_of_nat_eq_0_iff nat_dvd_not_less)
  have f: "FindAndSkipString (''+CGCONTRDP: '' @ dec_string n @ ?tail) ''+CGCONTRDP:'' = (True, SPC # dec_string n @ ?tail)"
    using FindAndSkipString_append [of "[]" "''+CGCONTRDP:''" "SPC # dec_string n @ ?tail"] by simp
  have x: "ExtractUInt32 (SPC # dec_string n @ ?tail) 0 = (True, ?w, ?tail)"
    using ExtractUInt32_dec_string [of n ?tail 1 0] assms(9) by (simp add: isdigit_c_def code_def cursor_simps)
  obtain st' where st': "steps (context_fields True ?w) ((first_context_state ds)\<lparr> pChannelData := Some i \<rparr>) ?tail = (True, st', CR # rest)"
      "pChannelData st' = Some i" "isIPV4 st'" "\<not> isIPV6 st'"
      "data_channels st' = set_channel i ((if apn = [] then c else SetApn apn c)
        \<lparr> addresses := (\<lambda>_. None)(ADDR_IP := Some (dotted a), ADDR_DNS := Some (dotted d @ SPC # dotted m),
           ADDR_PCSCF := Some (dotted d @ SPC # dotted m)) \<rparr>) ds"
    using CGCONTRDP_fields [OF assms(1-7) assms(11,10,13) w] by blast
  have line: "context_line True (first_context_state ds) (SPC # dec_string n @ ?tail) = (True, st', CR # rest)"
    unfolding context_line_def x prod.case bool.case Let_def
    using w st'(1) assms(12) by (simp add: first_context_state_def del: steps.simps)
  have ls: "context_lines True (first_context_state ds) (CGCONTRDP_line n b apn a m g d rest) = (True, st')"
    unfolding CGCONTRDP_line_def
    by (subst context_lines.simps, unfold f prod.case bool.case line, subst context_lines.simps)
      (use assms(14) in \<open>auto split: prod.split bool.split\<close>)
  have ch: "the_channel (data_channels st') i \<noteq> None"
    unfolding st'(5) using the_channel_updated [OF assms(13)] by simp
  show ?thesis
    unfolding ParseReadContextParams_def ls
    using st'(2-4) the_channel_updated [OF assms(13)]
    by (simp add: st'(5) Let_def on_context_def set_channel_set one_server_def)
qed

definition sample_context :: CChannel_Data where
  "sample_context = (new_channel 2 0)\<lparr> m_uiContextID := 1 \<rparr>"

definition sample_contexts :: data_system where
  "sample_contexts = \<lparr> channels = [None, None, Some sample_context], g_uiHSIChannel = [], data_lock = 0 \<rparr>"

theorem mask_becomes_DNS_witness:
  "\<exists>notice. ParseReadContextParams True 1
      (CGCONTRDP_line 1 5 ''internet'' [10, 0, 0, 2] [255, 255, 255, 0] [10, 0, 0, 1] [8, 8, 8, 8] (LF # NL @ ''OK'' @ NL)) sample_contexts =
    (RRIL_RESULT_OK, set_channel 2 (one_server ''internet'' [10, 0, 0, 2] [255, 255, 255, 0] [8, 8, 8, 8] sample_context) sample_contexts, notice)"
proof (rule mask_becomes_DNS)
  show "strstr (dotted [8, 8, 8, 8]) (dotted [255, 255, 255, 0]) = None" by code_simp
  show "fst (FindAndSkipString (CR # LF # NL @ ''OK'' @ NL) ''+CGCONTRDP:'') = False" by code_simp
  show "GetChnlFromContextID (word_of_nat 1) sample_contexts = Some 2" by code_simp
qed (auto simp: octets_def code_def MAX_BUFFER_SIZE_def the_channel_def sample_contexts_def)

end
