(* ===== verification/Silo.thy ===== *)
theory Silo
  imports Response GsmUtil Answers
begin

text \<open>
  The silos (\<open>CORE/silo.cpp\<close>, \<open>CORE/ND/silo_*.cpp\<close>): every channel has a list of them, and each has a
  table of prefixes of notifications with the functions that read the rest of the line. Theory
  Response models the search of the tables and states the contract \<open>unsol_parser\<close> the channel
  relies on; this theory has what the functions are written with, and shows that whatever is written
  with it meets the contract.

  A function of a silo works on a context: the response whose flags, result code and data it
  sets, the pointer it moves through the text, the state it reads and writes (fields of the
  silo and of \<open>CTE\<close>), and the calls it makes of other parts. An action ends with the value the
  function returns.
\<close>

section \<open>Actions\<close>

datatype silo_event =
    Unsolicited u32 "u8 list option"  \<comment> \<open>\<open>RIL_onUnsolicitedResponse\<close>\<close>
  | Timed string nat nat  \<comment> \<open>\<open>RIL_requestTimedCallback\<close>\<close>
  | CallTE string "u32 list"  \<comment> \<open>another function of \<open>CTE\<close> with its numbers\<close>
  | SetProperty string string
  | Overrun  \<comment> \<open>an access outside an array; what happens from there on is not defined\<close>

record 's silo_context =
  rsp :: CResponse
  cur :: string
  own :: 's
  events :: "silo_event list"

type_synonym 's action = "'s silo_context \<Rightarrow> bool \<times> 's silo_context"

definition accept :: "'s action" where "accept c = (True, c)"
definition reject :: "'s action" where "reject c = (False, c)"

definition with_flag :: "u32 \<Rightarrow> 's action \<Rightarrow> 's action" where
  "with_flag f k c = k (c\<lparr> rsp := SetFlag f True (rsp c) \<rparr>)"

abbreviation "unsolicited \<equiv> with_flag E_RSP_FLAG_UNSOLICITED"
abbreviation "ignored \<equiv> with_flag E_RSP_FLAG_IGNORE"
abbreviation "unrecognized \<equiv> with_flag E_RSP_FLAG_UNRECOGNIZED"

definition result :: "u32 \<Rightarrow> 's action \<Rightarrow> 's action" where
  "result n k c = k (c\<lparr> rsp := (rsp c)\<lparr> m_uiResultCode := ResultCode n \<rparr> \<rparr>)"

text \<open>\<open>SetData\<close> with memory the response takes over; it fails for no bytes only when it gets NULL.\<close>

definition with_data :: "u8 list \<Rightarrow> nat \<Rightarrow> 's action \<Rightarrow> 's action" where
  "with_data d n k c = k (c\<lparr> rsp := (rsp c)\<lparr> m_pData := (if n = 0 then None else Some d), m_uiDataSize := n \<rparr> \<rparr>)"

definition change_own :: "('s \<Rightarrow> 's) \<Rightarrow> 's action \<Rightarrow> 's action" where
  "change_own f k c = k (c\<lparr> own := f (own c) \<rparr>)"

definition using_own :: "('s \<Rightarrow> 's action) \<Rightarrow> 's action" where
  "using_own k c = k (own c) c"

definition event :: "silo_event \<Rightarrow> 's action \<Rightarrow> 's action" where
  "event e k c = k (c\<lparr> events := events c @ [e] \<rparr>)"

text \<open>Reading: the action goes on when the text is as expected, and ends with FALSE otherwise.\<close>

definition reading :: "(string \<Rightarrow> bool \<times> 'v \<times> string) \<Rightarrow> ('v option \<Rightarrow> 's action) \<Rightarrow> 's action" where
  "reading f k c = (case f (cur c) of (ok, v, s) \<Rightarrow> k (if ok then Some v else None) (c\<lparr> cur := s \<rparr>))"

definition must :: "('v \<Rightarrow> 's action) \<Rightarrow> 'v option \<Rightarrow> 's action" where
  "must k v = (case v of None \<Rightarrow> reject | Some v \<Rightarrow> k v)"

abbreviation "skip_text t s \<equiv> (case SkipString s t of (ok, s) \<Rightarrow> (ok, (), s))"
abbreviation "find_text t s \<equiv> (case FindAndSkipString s t of (ok, s) \<Rightarrow> (ok, (), s))"
abbreviation "u32_text s \<equiv> ExtractUInt32 s 0"
abbreviation "quoted_text n s \<equiv> (case ExtractQuotedString s n of (ok, buf, s) \<Rightarrow> (ok, cstr buf, s))"
abbreviation "unquoted_text n s \<equiv> (case ExtractUnquotedString_char s CR n of (ok, buf, s) \<Rightarrow> (ok, cstr buf, s))"

definition number :: "(u32 \<Rightarrow> 's action) \<Rightarrow> 's action" where "number k = reading u32_text (must k)"
definition skip :: "string \<Rightarrow> 's action \<Rightarrow> 's action" where "skip t k = reading (skip_text t) (must (\<lambda>_. k))"
definition find :: "string \<Rightarrow> 's action \<Rightarrow> 's action" where "find t k = reading (find_text t) (must (\<lambda>_. k))"
definition quoted :: "nat \<Rightarrow> (string \<Rightarrow> 's action) \<Rightarrow> 's action" where "quoted n k = reading (quoted_text n) (must k)"
definition unquoted :: "nat \<Rightarrow> (string \<Rightarrow> 's action) \<Rightarrow> 's action" where "unquoted n k = reading (unquoted_text n) (must k)"

definition comma_number :: "(u32 \<Rightarrow> 's action) \<Rightarrow> 's action" where
  "comma_number k = skip '','' (number k)"

text \<open>The same where the function goes on in either case.\<close>

definition if_skip :: "string \<Rightarrow> 's action \<Rightarrow> 's action \<Rightarrow> 's action" where
  "if_skip t a b = reading (skip_text t) (\<lambda>v. if v = None then b else a)"

definition if_find :: "string \<Rightarrow> 's action \<Rightarrow> 's action \<Rightarrow> 's action" where
  "if_find t a b = reading (find_text t) (\<lambda>v. if v = None then b else a)"

definition if_number :: "(u32 \<Rightarrow> 's action) \<Rightarrow> 's action \<Rightarrow> 's action" where
  "if_number a b = reading u32_text (\<lambda>v. case v of None \<Rightarrow> b | Some v \<Rightarrow> a v)"

definition if_quoted :: "nat \<Rightarrow> (string \<Rightarrow> 's action) \<Rightarrow> 's action \<Rightarrow> 's action" where
  "if_quoted n a b = reading (quoted_text n) (\<lambda>v. case v of None \<Rightarrow> b | Some v \<Rightarrow> a v)"

text \<open>
  The end of the line, which must be there. The pointer stays where it is, and the text behind the
  newline is handed on; \<open>jump\<close> moves the pointer to a place that is known.
\<close>

definition line_end :: "(string \<Rightarrow> string \<Rightarrow> 's action) \<Rightarrow> 's action" where
  "line_end k c =
     (case FindAndSkipRspEnd (cur c) NL of (False, _) \<Rightarrow> (False, c) | (True, e) \<Rightarrow> k (cur c) e c)"

text \<open>\<open>before_newline s e\<close> is the pointer \<open>e - strlen (m_szNewLine)\<close> in the text \<open>s\<close>.\<close>

definition before_newline :: "string \<Rightarrow> string \<Rightarrow> string" where
  "before_newline s e = drop (length s - length e - 2) s"

definition jump :: "string \<Rightarrow> 's action \<Rightarrow> 's action" where
  "jump s k c = k (c\<lparr> cur := s \<rparr>)"

text \<open>A test of the text at the pointer that does not move it.\<close>

definition if_here :: "(string \<Rightarrow> bool) \<Rightarrow> 's action \<Rightarrow> 's action \<Rightarrow> 's action" where
  "if_here P a b c = (if P (cur c) then a c else b c)"

text \<open>\<open>malloc\<close> or \<open>new\<close>: \<open>mem\<close> tells whether it returns memory.\<close>

definition alloc :: "bool \<Rightarrow> 's action \<Rightarrow> 's action" where
  "alloc mem k = (if mem then k else reject)"

text \<open>A function of another part that may leave an array.\<close>

definition checked :: "'v option \<Rightarrow> ('v \<Rightarrow> 's action) \<Rightarrow> 's action" where
  "checked x k = (case x of None \<Rightarrow> event Overrun reject | Some v \<Rightarrow> k v)"

text \<open>\<open>SetData\<close> with memory of its own; a clean up is requested when there is none.\<close>

definition copy_data :: "bool \<Rightarrow> u8 list \<Rightarrow> 's action \<Rightarrow> 's action" where
  "copy_data mem d k =
     (if mem then with_data d (length d) k else event (CallTE ''DO_REQUEST_CLEAN_UP'' [1]) (with_data [] 0 reject))"

text \<open>The bytes of an int, and a buffer of \<open>n\<close> cells set to 0 into which a text has been written.\<close>

definition little_endian :: "u32 \<Rightarrow> u8 list" where
  "little_endian n = map (\<lambda>i. ucast (drop_bit (8 * i) n)) [0..<4]"

definition zero_filled :: "nat \<Rightarrow> string \<Rightarrow> u8 list" where
  "zero_filled n t = take n (map byte t @ replicate n 0)"

text \<open>The function the table holds, in a state of the silo; and the context it ends in.\<close>

definition start :: "'s \<Rightarrow> CResponse \<Rightarrow> string \<Rightarrow> 's silo_context" where
  "start st r s = \<lparr> rsp = r, cur = s, own = st, events = [] \<rparr>"

definition parser_of :: "'s \<Rightarrow> 's action \<Rightarrow> parser" where
  "parser_of st a r s = (case a (start st r s) of (b, c) \<Rightarrow> (b, rsp c, cur c))"

section \<open>What every action keeps\<close>

definition inside :: "string \<Rightarrow> CResponse \<Rightarrow> 's silo_context \<Rightarrow> bool" where
  "inside s r c \<longleftrightarrow> suffix (cur c) s \<and> base (rsp c) = base r \<and>
     m_uiResponseEndMarker (rsp c) = m_uiResponseEndMarker r \<and> IsCorruptFlag (rsp c) = IsCorruptFlag r"

definition stays :: "string \<Rightarrow> CResponse \<Rightarrow> 's action \<Rightarrow> bool" where
  "stays s r a \<longleftrightarrow> (\<forall>c. inside s r c \<longrightarrow> inside s r (snd (a c)))"

named_theorems stays_intros

lemma stays_end [stays_intros]: "stays s r accept" "stays s r reject"
  by (simp_all add: stays_def accept_def reject_def)

lemma corrupt_apart:
  "E_RSP_FLAG_CORRUPT AND E_RSP_FLAG_UNSOLICITED = 0" "E_RSP_FLAG_CORRUPT AND E_RSP_FLAG_IGNORE = 0"
  "E_RSP_FLAG_CORRUPT AND E_RSP_FLAG_UNRECOGNIZED = 0"
  by (simp_all add: flag_defs)

lemma stays_flag [stays_intros]:
  "stays s r k \<Longrightarrow> stays s r (unsolicited k)"
  "stays s r k \<Longrightarrow> stays s r (ignored k)"
  "stays s r k \<Longrightarrow> stays s r (unrecognized k)"
  by (simp_all add: stays_def with_flag_def inside_def frame_simps IsFlag_SetFlag_other corrupt_apart)

lemma stays_response [stays_intros]:
  "stays s r k \<Longrightarrow> stays s r (result n k)"
  "stays s r k \<Longrightarrow> stays s r (with_data d m k)"
  by (simp_all add: stays_def result_def with_data_def inside_def IsFlag_def)

lemma stays_own [stays_intros]:
  "stays s r k \<Longrightarrow> stays s r (change_own f k)"
  "(\<And>st. stays s r (g st)) \<Longrightarrow> stays s r (using_own g)"
  "stays s r k \<Longrightarrow> stays s r (event e k)"
  "stays s r k \<Longrightarrow> stays s r (alloc mem k)"
  by (simp_all add: stays_def change_own_def using_own_def event_def alloc_def reject_def inside_def)

lemma stays_checked [stays_intros]:
  "(\<And>v. stays s r (g v)) \<Longrightarrow> stays s r (checked x g)"
  "stays s r k \<Longrightarrow> stays s r (copy_data mem d k)"
  by (auto simp: checked_def copy_data_def intro!: stays_own stays_end stays_response split: option.split)

definition forward :: "(string \<Rightarrow> bool \<times> 'v \<times> string) \<Rightarrow> bool" where
  "forward f \<longleftrightarrow> (\<forall>s. suffix (snd (snd (f s))) s)"

lemma forward_texts [simp]:
  "forward (skip_text t)" "forward (find_text t)" "forward u32_text" "forward (quoted_text n)" "forward (unquoted_text n)"
proof -
  show "forward (skip_text t)" using SkipString_suffix [of _ t] by (simp add: forward_def split_beta)
  show "forward (find_text t)" using FindAndSkipString_suffix [of _ t] by (simp add: forward_def split_beta)
  show "forward u32_text" using ExtractUInt32_suffix by (simp add: forward_def)
  show "forward (quoted_text n)" using quoted_cursor.in_text [of _ n] by (simp add: forward_def split_beta)
  have sp: "suffix (skip_spaces s) s" for s by (simp add: skip_spaces_eq suffix_dropWhile)
  have "suffix (snd (snd (ExtractUnquotedString (skip_spaces s) (cstr [CR, NUL]) n))) s" for s
    using unquoted_cursor.in_text [of "skip_spaces s" "cstr [CR, NUL]" n] sp by (rule suffix_order.trans)
  then show "forward (unquoted_text n)" by (simp add: forward_def split_beta ExtractUnquotedString_char_def)
qed

lemma stays_reading:
  assumes "forward f" "\<And>v. stays s r (k v)"
  shows "stays s r (reading f k :: 's action)"
  unfolding stays_def
proof (intro allI impI)
  fix c :: "'s silo_context" assume c: "inside s r c"
  obtain ok v t where f: "f (cur c) = (ok, v, t)" by (cases "f (cur c)")
  have "suffix t (cur c)" using assms(1) f by (metis forward_def snd_conv)
  then have "inside s r (c\<lparr> cur := t \<rparr>)" using c by (auto simp: inside_def intro: suffix_order.trans)
  then show "inside s r (snd (reading f k c))"
    using assms(2) by (simp add: reading_def f stays_def)
qed

lemma stays_must: "(\<And>v. stays s r (k v)) \<Longrightarrow> stays s r (must k v)"
  by (simp add: must_def stays_end split: option.split)

lemma stays_read [stays_intros]:
  "(\<And>v. stays s r (g v)) \<Longrightarrow> stays s r (number g)"
  "(\<And>v. stays s r (g v)) \<Longrightarrow> stays s r (comma_number g)"
  "(\<And>v. stays s r (h v)) \<Longrightarrow> stays s r (quoted n h)"
  "(\<And>v. stays s r (h v)) \<Longrightarrow> stays s r (unquoted n h)"
  "stays s r a \<Longrightarrow> stays s r (skip t a)"
  "stays s r a \<Longrightarrow> stays s r (find t a)"
  by (simp_all add: number_def comma_number_def quoted_def unquoted_def skip_def find_def stays_reading stays_must)

lemma stays_alternative [stays_intros]:
  "stays s r a \<Longrightarrow> stays s r b \<Longrightarrow> stays s r (if_skip t a b)"
  "stays s r a \<Longrightarrow> stays s r b \<Longrightarrow> stays s r (if_find t a b)"
  "(\<And>v. stays s r (g v)) \<Longrightarrow> stays s r b \<Longrightarrow> stays s r (if_number g b)"
  "(\<And>v. stays s r (h v)) \<Longrightarrow> stays s r b \<Longrightarrow> stays s r (if_quoted n h b)"
  by (auto simp: if_skip_def if_find_def if_number_def if_quoted_def intro!: stays_reading split: option.split)

lemma stays_branches [stays_intros]:
  "stays s r a \<Longrightarrow> stays s r b \<Longrightarrow> stays s r (if_here Q a b)"
  "stays s r a \<Longrightarrow> stays s r b \<Longrightarrow> stays s r (if P then a else b)"
  "stays s r a \<Longrightarrow> (\<And>v. stays s r (g v)) \<Longrightarrow> stays s r (case x of None \<Rightarrow> a | Some v \<Rightarrow> g v)"
  "(\<And>v w. stays s r (p v w)) \<Longrightarrow> stays s r (case y of (v, w) \<Rightarrow> p v w)"
  by (simp_all add: stays_def if_here_def split: option.split prod.split)

lemma stays_line_end [stays_intros]:
  assumes "\<And>p e. suffix p s \<Longrightarrow> stays s r (k p e)"
  shows "stays s r (line_end k)"
  using assms by (simp add: stays_def line_end_def inside_def split: prod.split bool.split)

lemma stays_jump [stays_intros]: "suffix p s \<Longrightarrow> stays s r k \<Longrightarrow> stays s r (jump (before_newline p e) k)"
  unfolding stays_def jump_def before_newline_def inside_def
  by (simp add: suffix_drop_trans)

text \<open>The contract of an action, and that the function in the table then meets the one of the channel.\<close>

locale silo_action =
  fixes act :: "'s action"
  assumes stays_inside: "stays s r act"
begin

lemma parser: "unsol_parser (parser_of st act)"
proof
  fix r s
  have "inside s r (snd (act (start st r s)))"
    using stays_inside [of s r] by (simp add: stays_def inside_def start_def)
  then show "suffix (snd (snd (parser_of st act r s))) s"
    "base (fst (snd (parser_of st act r s))) = base r"
    "m_uiResponseEndMarker (fst (snd (parser_of st act r s))) = m_uiResponseEndMarker r"
    "IsCorruptFlag (fst (snd (parser_of st act r s))) = IsCorruptFlag r"
    by (simp_all add: parser_of_def split_beta inside_def)
qed

end

text \<open>\<open>ParseNULL\<close> and \<open>ParseUnrecognized\<close> as actions.\<close>

definition null_action :: "'s action" where "null_action = accept"
definition unrecognized_action :: "'s action" where "unrecognized_action = unsolicited (unrecognized accept)"

interpretation null_act: silo_action null_action
  by unfold_locales (unfold null_action_def, intro stays_intros)

interpretation unrecognized_act: silo_action unrecognized_action
  by unfold_locales (unfold unrecognized_action_def, intro stays_intros)

text \<open>The table of a silo in a state, and the result of its parsers.\<close>

type_synonym 's silo_table = "(string \<times> 's action) list"

definition silo_of :: "'s silo_table \<Rightarrow> 's \<Rightarrow> CSilo" where
  "silo_of t st =
     \<lparr> m_pATRspTable = Some (map (\<lambda>(p, a). (Some p, parser_of st a)) t @ [(Some [], ParseNULL)]),
       m_pATRspTableExt = None \<rparr>"

lemma silo_of_ok: "\<forall>(p, a) \<in> set t. silo_action a \<Longrightarrow> silo_ok (silo_of t st)"
  using silo_action.parser
  by (fastforce simp: silo_ok_def silo_of_def table_ok_def null_parser.unsol_parser_axioms)

lemma silo_actionI: "(\<And>s r. stays s r a) \<Longrightarrow> silo_action a"
  by unfold_locales

section \<open>Actions on texts that are known\<close>

lemma number_at: "cur c = dec_string n @ x # t \<Longrightarrow> n < 2 ^ 32 \<Longrightarrow> \<not> isdigit_c x \<Longrightarrow> x \<noteq> SPC \<Longrightarrow>
    number k c = k (word_of_nat n) (c\<lparr> cur := x # t \<rparr>)"
  by (simp add: number_def reading_def must_def uint_then)

lemma comma_number_at: "cur c = CHR '','' # dec_string n @ x # t \<Longrightarrow> n < 2 ^ 32 \<Longrightarrow> \<not> isdigit_c x \<Longrightarrow> x \<noteq> SPC \<Longrightarrow>
    comma_number k c = k (word_of_nat n) (c\<lparr> cur := x # t \<rparr>)"
  by (simp add: comma_number_def skip_def reading_def must_def skip_char number_at)

lemma length_NL: "length NL = 2" by (simp add: NL_def)

lemma no_quotes: "x \<noteq> SPC \<Longrightarrow> x \<noteq> QUOTE \<Longrightarrow> x \<noteq> NUL \<Longrightarrow> \<exists>b. ExtractQuotedString (x # s) n = (False, b, x # s)"
  by (simp add: ExtractQuotedString_def Let_def cursor_simps SkipString_def)

lemma if_quoted_at:
  "cur c = x # s \<Longrightarrow> x \<noteq> SPC \<Longrightarrow> x \<noteq> QUOTE \<Longrightarrow> x \<noteq> NUL \<Longrightarrow> if_quoted n k l c = l c"
  "cur c = QUOTE # t @ QUOTE # s \<Longrightarrow> QUOTE \<notin> set t \<Longrightarrow> NUL \<notin> set t \<Longrightarrow> length t < n \<Longrightarrow>
     if_quoted n k l c = k t (c\<lparr> cur := s \<rparr>)"
proof -
  assume a: "cur c = x # s" "x \<noteq> SPC" "x \<noteq> QUOTE" "x \<noteq> NUL"
  obtain b where "ExtractQuotedString (x # s) n = (False, b, x # s)" using no_quotes [OF a(2-4)] by blast
  then show "if_quoted n k l c = l c" using a(1) by (simp add: if_quoted_def reading_def)
      (metis (no_types) silo_context.surjective silo_context.update_convs(2))
next
  assume a: "cur c = QUOTE # t @ QUOTE # s" "QUOTE \<notin> set t" "NUL \<notin> set t" "length t < n"
  obtain b where "ExtractQuotedString (QUOTE # t @ QUOTE # s) n = (True, b, s)" "cstr b = t"
    using quoted_buffer [OF a(2-4)] by blast
  then show "if_quoted n k l c = k t (c\<lparr> cur := s \<rparr>)" using a(1) by (simp add: if_quoted_def reading_def)
qed

lemma quoted_at: "cur c = QUOTE # t @ QUOTE # s \<Longrightarrow> QUOTE \<notin> set t \<Longrightarrow> NUL \<notin> set t \<Longrightarrow> length t < n \<Longrightarrow>
     quoted n k c = k t (c\<lparr> cur := s \<rparr>)"
  using quoted_buffer [of t n s] by (auto simp: quoted_def reading_def must_def)

lemma skip_NL_at: "cur c = NL @ s \<Longrightarrow> skip NL k c = k (c\<lparr> cur := s \<rparr>)"
  using SkipString_literal [of NL s] by (simp add: skip_def reading_def must_def NL_def)

lemma comma_at: "cur c = CHR '','' # s \<Longrightarrow> skip '','' k c = k (c\<lparr> cur := s \<rparr>)"
  by (simp add: skip_def reading_def must_def skip_char)

lemma unquoted_at: "cur c = t @ CR # s \<Longrightarrow> CR \<notin> set t \<Longrightarrow> NUL \<notin> set t \<Longrightarrow> t = [] \<or> hd t \<noteq> SPC \<Longrightarrow> length t < n \<Longrightarrow>
     unquoted n k c = k t (c\<lparr> cur := CR # s \<rparr>)"
  using ExtractUnquotedString_delimited [of CR t 0 s n]
  by (cases "n - length t") (simp_all add: unquoted_def reading_def must_def cstr_append_NUL)

lemma unquoted_line_at: "cur c = t @ NL @ s \<Longrightarrow> CR \<notin> set t \<Longrightarrow> NUL \<notin> set t \<Longrightarrow> t = [] \<or> hd t \<noteq> SPC \<Longrightarrow> length t < n \<Longrightarrow>
     unquoted n k c = k t (c\<lparr> cur := NL @ s \<rparr>)"
  using unquoted_at [of c t "LF # s"] by (simp add: NL_def)

lemma number_line_at: "cur c = dec_string n @ NL @ s \<Longrightarrow> n < 2 ^ 32 \<Longrightarrow>
    number k c = k (word_of_nat n) (c\<lparr> cur := NL @ s \<rparr>)"
  using number_at [of c n CR "LF # s"] by (simp add: NL_def isdigit_c_def code_def)

lemma if_quoted_number: "cur c = dec_string n @ s \<Longrightarrow> if_quoted m k l c = l c"
proof -
  assume c: "cur c = dec_string n @ s"
  obtain x t where x: "dec_string n = x # t" "isdigit_c x"
    using dec_string_digits [of n] by (cases "dec_string n") auto
  then have "x \<noteq> SPC" "x \<noteq> QUOTE" "x \<noteq> NUL" by (auto simp: isdigit_c_def code_def)
  then show ?thesis using if_quoted_at(1) [of c x "t @ s"] c x(1) by simp
qed

section \<open>A notification on the channel\<close>

lemma NL_eq: "m_szNewLine = NL" by (simp add: m_szNewLine_def NL_def)

text \<open>
  The first silo whose table has the prefix decides, whatever it returns: what counts is the flag
  its parser sets. The response ends behind the line the parser has stopped in.
\<close>

lemma notification_complete:
  assumes "response_ok r" "text_of r = NL @ t" "t \<noteq> []"
    and "FindParser silo (m_pATRspTable silo) t = Some (Some f, body)"
    and "f (SetUnsolicitedFlag False r) body = (b, r', s)" "IsUnsolicitedFlag r'" "text_of r' = text_of r"
    and "FindAndSkipRspEnd s NL = (True, rest)"
  shows "IsCompleteResponse (Some silo # silos) r =
    Some (True, r'\<lparr> m_uiResponseEndMarker := length (text_of r) - length rest \<rparr>)"
proof -
  have u: "m_uiUsed (base r) \<noteq> 0"
    using assms(1,2) length_text_of [of r] by (auto simp: response_ok_def NL_def)
  then have "terminate_buffer r = Some r" using assms(1) terminate_id by (simp add: response_ok_def)
  moreover have "CSilo_ParseUnsolicitedResponse silo (SetUnsolicitedFlag False r) t False = Some (b, \<not> b, r', s)"
    using assms(4,5) by (cases b) (simp_all add: CSilo_ParseUnsolicitedResponse_def)
  ultimately show ?thesis
    using u assms(2,6,7,8) by (cases b) (simp_all add: IsCompleteResponse_def IsUnsolicitedResponse_def NL_eq set_end_def)
qed


text \<open>The row of a table whose prefix the text has.\<close>

lemma SkipString_differs: "w \<noteq> [] \<Longrightarrow> hd w \<noteq> SPC \<Longrightarrow> \<not> prefix q w \<Longrightarrow> SkipString w q = (False, w)"
  by (auto simp: SkipString_def Let_def cursor_simps)

lemma FindParser_loop_skip:
  "w \<noteq> [] \<Longrightarrow> hd w \<noteq> SPC \<Longrightarrow> \<forall>q \<in> fst ` set pre. q \<noteq> [] \<and> \<not> prefix q w \<Longrightarrow>
    FindParser_loop (map (\<lambda>(p, a). (Some p, f a)) pre @ rows) n w = FindParser_loop rows (n + length pre) w"
  by (induction pre arbitrary: n) (auto simp: SkipString_differs)

lemma silo_of_find:
  assumes "p \<noteq> []" "hd p \<noteq> SPC" "\<forall>q \<in> fst ` set pre. q \<noteq> [] \<and> \<not> prefix q (p @ s)"
  shows "FindParser (silo_of (pre @ (p, a) # post) st) (m_pATRspTable (silo_of (pre @ (p, a) # post) st)) (p @ s) =
    Some (Some (parser_of st a), s)"
  using assms FindParser_loop_skip [of "p @ s" pre "parser_of st" _ 0] SkipString_literal [of p s]
  by (simp add: FindParser_def silo_of_def nth_append)

lemma end_of_NL: "FindAndSkipRspEnd (NL @ rest) NL = (True, rest)"
  using find_NL [of "[]" rest] by (simp add: FindAndSkipRspEnd_def cursor_simps NL_def)


lemma notification_received:
  assumes "NUL \<notin> set (p @ body)" "p \<noteq> []" "FindParser silo (m_pATRspTable silo) (p @ body) = Some (Some f, body)"
    and f: "f (SetUnsolicitedFlag False (received (NL @ p @ body))) body = (b, r', NL @ rest)"
    and "IsUnsolicitedFlag r'" "base r' = base (received (NL @ p @ body))" "suffix rest body"
  shows "\<exists>r. IsCompleteResponse (Some silo # silos) (received (NL @ p @ body)) = Some (True, r) \<and>
    IsUnsolicitedFlag r \<and> m_uiResultCode r = m_uiResultCode r' \<and> CResponse.m_pData r = CResponse.m_pData r' \<and>
    drop (m_uiResponseEndMarker r) (bytes_of r) = rest"
proof -
  have "NUL \<notin> set (NL @ p @ body)" using assms(1) by (simp add: NL_def)
  then have t: "text_of (received (NL @ p @ body)) = NL @ p @ body" by (rule text_of_received)
  have t': "text_of r' = text_of (received (NL @ p @ body))" using assms(6) by (rule text_of_cong)
  obtain q where q: "body = q @ rest" using assms(7) by (auto simp: suffix_def)
  let ?m = "length (NL @ p @ body) - length rest"
  have "drop ?m (NL @ p @ body) = rest" unfolding q by simp
  then have "drop ?m (bytes_of r') = rest" using assms(6) received_ok(2) [of "NL @ p @ body"] by (simp add: bytes_of_def)
  then show ?thesis
    using notification_complete [OF received_ok(1) t _ assms(3) f assms(5) t' end_of_NL, of silos] assms(2,5) t
    by (auto simp: IsFlag_def bytes_of_def)
qed

lemma flag_kept:
  "IsFlag f (r\<lparr> m_uiResultCode := n, CResponse.m_pData := d, m_uiDataSize := k \<rparr>) = IsFlag f r"
  "IsUnsolicitedFlag (SetUnsolicitedFlag True r)"
  by (simp_all add: IsFlag_def) (simp add: SetFlag_def flag_defs)

end
