(* ===== verification/SiloVoice.thy ===== *)
theory SiloVoice
  imports Silo CallAnswers
begin

text \<open>
  The notifications about calls and supplementary services (\<open>CSilo_Voice\<close>, \<open>CORE/ND/silo_voice.cpp\<close>).
  The state are the call id the silo remembers and the fields of \<open>CTE\<close> and \<open>CTEBase\<close> it writes.
  Structures for the framework are given by their bytes, which depend on addresses: the images of
  the environment.
\<close>

section \<open>State\<close>

record voice_state =
  m_uiCallId :: u32
  voice_base :: te_base
  voice_caller :: caller
  m_CurrentCipheringStatus :: u32
  m_bIsClearPendingCHLDs :: bool

record supp_svc =
  ss_notificationType :: int
  ss_code :: int
  ss_index :: int
  ss_type :: int
  ss_number :: "string option"

record voice_env =
  voice_mem :: bool
  voice_junk :: u32      \<comment> \<open>what a variable without initial value holds\<close>
  voice_cell :: u8       \<comment> \<open>what a fresh cell holds\<close>
  supp_svc_image :: "supp_svc \<Rightarrow> u8 list"
  ussd_image :: "string \<Rightarrow> string option \<Rightarrow> u8 list"
  ciphering_image :: "int \<Rightarrow> u8 list"

abbreviation (input) RIL_UNSOL_RESPONSE_CALL_STATE_CHANGED :: u32 where
  "RIL_UNSOL_RESPONSE_CALL_STATE_CHANGED \<equiv> 1001"
abbreviation (input) RIL_UNSOL_ON_USSD :: u32 where "RIL_UNSOL_ON_USSD \<equiv> 1006"
abbreviation (input) RIL_UNSOL_SUPP_SVC_NOTIFICATION :: u32 where "RIL_UNSOL_SUPP_SVC_NOTIFICATION \<equiv> 1011"
abbreviation (input) RIL_UNSOL_CALL_RING :: u32 where "RIL_UNSOL_CALL_RING \<equiv> 1018"
abbreviation (input) RIL_UNSOL_OEM_HOOK_RAW :: u32 where "RIL_UNSOL_OEM_HOOK_RAW \<equiv> 1028"

definition MAX_USSD_MESSAGE_SIZE :: nat where "MAX_USSD_MESSAGE_SIZE = 183"

section \<open>What the parsers share\<close>

definition SetIncomingCallStatus :: "u32 \<Rightarrow> u32 \<Rightarrow> voice_state \<Rightarrow> voice_state" where
  "SetIncomingCallStatus uiCallId uiStatus st =
     st\<lparr> voice_base := (voice_base st)\<lparr> incoming_callId := uiCallId, incoming_status := sint uiStatus,
       isAnswerReqSent := isAnswerReqSent (voice_base st) \<and> sint uiStatus \<notin> {E_CALL_STATUS_ACTIVE, 7, 6} \<rparr> \<rparr>"

definition GetIncomingCallId :: "voice_state \<Rightarrow> u32" where
  "GetIncomingCallId st = incoming_callId (voice_base st)"

definition ResetCnapParameters :: "voice_state \<Rightarrow> voice_state" where
  "ResetCnapParameters st =
     st\<lparr> voice_caller := (voice_caller st)\<lparr> m_szCnapName := [], m_CnapCniValidity := 2 \<rparr> \<rparr>"

definition ResetNumberParameters :: "voice_state \<Rightarrow> voice_state" where
  "ResetNumberParameters st =
     st\<lparr> voice_caller := (voice_caller st)\<lparr> m_szClipNumber := [], m_NumberCliValidity := 2 \<rparr> \<rparr>"

text \<open>\<open>triggerHangup\<close> queues the command that ends a call with the cause for an incompatible one.\<close>

definition trigger_hangup :: "voice_state action \<Rightarrow> voice_state action" where
  "trigger_hangup k = using_own (\<lambda>st. event (CallTE ''triggerHangup'' [m_uiCallId st]) k)"

definition call_changed :: "voice_state action" where
  "call_changed = result RIL_UNSOL_RESPONSE_CALL_STATE_CHANGED accept"

section \<open>Calls\<close>

definition ParseExtRing :: "voice_state action" where
  "ParseExtRing =
     unsolicited (line_end (\<lambda>_ _. unquoted MAX_BUFFER_SIZE (\<lambda>szType.
       if szType = ''VOICE'' \<or> szType = ''CTM'' then
         result RIL_UNSOL_CALL_RING (event (Unsolicited RIL_UNSOL_RESPONSE_CALL_STATE_CHANGED None) accept)
       else if szType = ''SYNC'' then ignored (trigger_hangup accept)
       else if strstr szType ''GPRS'' \<noteq> None then
         ignored (event (CallTE ''AcceptOrRejectNwInitiatedContext'' []) accept)
       else ignored (trigger_hangup accept))))"

definition ParseConnect :: "voice_state action" where
  "ParseConnect = unsolicited call_changed"

text \<open>An incoming call falls through to the branch of a waiting one.\<close>

definition ParseXCALLSTAT :: "voice_state action" where
  "ParseXCALLSTAT =
     unsolicited (line_end (\<lambda>_ _. number (\<lambda>uiID. comma_number (\<lambda>uiStat.
       if uiStat = 4 \<or> uiStat = 5 then
         change_own (\<lambda>st. (if uiStat = 4 then SetIncomingCallStatus uiID uiStat st else st)\<lparr> m_uiCallId := uiID \<rparr>)
           (ignored accept)
       else if uiStat = 0 \<or> uiStat = 7 then
         change_own (\<lambda>st. if GetIncomingCallId st = uiID then SetIncomingCallStatus uiID uiStat st else st) call_changed
       else if uiStat = 6 then
         change_own (\<lambda>st. (SetIncomingCallStatus 0 uiStat
             (ResetNumberParameters (ResetCnapParameters (st\<lparr> m_uiCallId := 0 \<rparr>))))\<lparr> m_bIsClearPendingCHLDs := True \<rparr>)
           call_changed
       else call_changed))))"

text \<open>The number of parameters tells a notification from the answer to a query.\<close>

definition ParseCallWaitingInfo :: "voice_env \<Rightarrow> voice_state action" where
  "ParseCallWaitingInfo env =
     line_end (\<lambda>p e. alloc (voice_mem env)
       (let nNumParams = Suc (count_list (take (length p - length e) p) (CHR '','')) in
        if nNumParams > 2 then
          unsolicited (line_end (\<lambda>_ _. quoted MAX_BUFFER_SIZE (\<lambda>_. comma_number (\<lambda>_. comma_number (\<lambda>uiClass.
            if uiClass = 1 then call_changed else ignored (trigger_hangup accept))))))
        else reject))"

text \<open>What the texts \<open>BUSY\<close>, \<open>NO ANSWER\<close> and the like mean: the state of a call has changed.\<close>

definition ParseDISCONNECT :: "voice_state action" where "ParseDISCONNECT = unsolicited call_changed"
definition ParseBusy :: "voice_state action" where "ParseBusy = unsolicited call_changed"
definition ParseNoAnswer :: "voice_state action" where "ParseNoAnswer = unsolicited call_changed"
definition ParseCTMCall :: "voice_state action" where "ParseCTMCall = unsolicited call_changed"
definition ParseNoCTMCall :: "voice_state action" where "ParseNoCTMCall = unsolicited call_changed"
definition ParseWaitingCallCTM :: "voice_state action" where "ParseWaitingCallCTM = unsolicited call_changed"
definition ParseCallMeter :: "voice_state action" where "ParseCallMeter = reject"

section \<open>Supplementary services\<close>

text \<open>\<open>sizeof (RIL_SuppSvcNotification)\<close> is 20. The number of the structure is the text in its buffer.\<close>

definition report_service :: "voice_env \<Rightarrow> supp_svc \<Rightarrow> voice_state action \<Rightarrow> voice_state action" where
  "report_service env sv k =
     unsolicited (result RIL_UNSOL_SUPP_SVC_NOTIFICATION (with_data (supp_svc_image env sv) 20 k))"

definition service_number :: "supp_svc \<Rightarrow> (supp_svc \<Rightarrow> voice_state action) \<Rightarrow> voice_state action" where
  "service_number sv k =
     if_skip '',''
       (quoted MAX_BUFFER_SIZE (\<lambda>num.
          let sv = sv\<lparr> ss_number := Some num \<rparr> in
          if_skip '','' (number (\<lambda>t. k (sv\<lparr> ss_type := sint t \<rparr>))) (k sv)))
       (k sv)"

text \<open>When no code can be read, the code looks at a variable nothing has been stored in.\<close>

definition ParseUnsolicitedSSInfo :: "voice_env \<Rightarrow> voice_state action" where
  "ParseUnsolicitedSSInfo env =
     line_end (\<lambda>p e. alloc (voice_mem env)
       (let done = jump (before_newline p e);
            report = (\<lambda>sv. report_service env sv (done accept));
            cleared = unsolicited (result RIL_UNSOL_RESPONSE_CALL_STATE_CHANGED (done accept))
        in if_number
             (\<lambda>v. if v \<noteq> 5 then
                    (let sv = \<lparr> ss_notificationType = 1, ss_code = sint v, ss_index = 0, ss_type = 0, ss_number = None \<rparr> in
                     if_skip '',''
                       (if_number (\<lambda>i. service_number (sv\<lparr> ss_index := sint i \<rparr>) report) (service_number sv report))
                       (report sv))
                  else cleared)
             (if voice_junk env = 5 then cleared else done reject)))"

text \<open>A line with anything behind the fields is passed over as unrecognized.\<close>

definition ParseIntermediateSSInfo :: "voice_env \<Rightarrow> voice_state action" where
  "ParseIntermediateSSInfo env =
     alloc (voice_mem env) (line_end (\<lambda>p e. number (\<lambda>v.
       let sv = \<lparr> ss_notificationType = 0, ss_code = sint v, ss_index = 0, ss_type = 0, ss_number = None \<rparr>;
           report = (\<lambda>sv. if_here (\<lambda>s. fst (RspEnd s)) (report_service env sv accept)
                            (jump (before_newline p e) (unrecognized accept)))
       in if v = 4 then if_skip '','' (if_number (\<lambda>i. report (sv\<lparr> ss_index := sint i \<rparr>)) (report sv)) (report sv)
          else report sv)))"

text \<open>
  The message is hexadecimal UCS2, unless the coding scheme is one that is not converted. With
  scheme 17 the language code in front of it is skipped. The first digit of the status is its type.
\<close>

definition ussd_type :: "u32 \<Rightarrow> string" where
  "ussd_type uiStatus = take 1 (dec_string (unat uiStatus))"

definition ussd_text :: "voice_env \<Rightarrow> string \<Rightarrow> string" where
  "ussd_text env hex =
     (case ConvertUCS2ToUTF8 (voice_mem env) (voice_cell env) (Some hex) (length hex) of
        Some (Some bytes) \<Rightarrow> take (MAX_USSD_MESSAGE_SIZE - 1) (cstr (map (\<lambda>b. char_of (unat b)) bytes))
      | _ \<Rightarrow> [])"

definition ussd_message :: "voice_env \<Rightarrow> u32 \<Rightarrow> string \<Rightarrow> string" where
  "ussd_message env uiDCS szData =
     (let codingGroupBits = unat uiDCS div 16 in
      if szData \<noteq> [] \<and> codingGroupBits \<noteq> 3 \<and> codingGroupBits \<noteq> 8 \<and> \<not> (10 \<le> codingGroupBits \<and> codingGroupBits \<le> 14)
      then if uiDCS = 17 then (if length szData > 4 then ussd_text env (drop 4 szData) else [])
           else ussd_text env szData
      else [])"

definition allocated_text :: "bool \<Rightarrow> string \<Rightarrow> bool \<times> string \<times> string" where
  "allocated_text mem s =
     (case ExtractQuotedStringWithAllocatedMemory mem s None 0 of (ok, t, _, s) \<Rightarrow> (ok, case t of None \<Rightarrow> [] | Some t \<Rightarrow> t, s))"

definition ParseUSSDInfo :: "voice_env \<Rightarrow> voice_state action" where
  "ParseUSSDInfo env =
     unsolicited (number (\<lambda>uiStatus.
       let report = (\<lambda>msg n. alloc (voice_mem env) (result RIL_UNSOL_ON_USSD
             (with_data (ussd_image env (ussd_type uiStatus) msg) n accept)));
           with_text = (\<lambda>t dcs. let m = ussd_message env dcs t in report (if m = [] then None else Some m) 8)
       in if_skip '',''
            (reading (allocated_text (voice_mem env)) (must (\<lambda>t.
               if_skip '','' (if_number (with_text t) (with_text t 0)) (with_text t 0))))
            (report None 4)))"

definition ParseConnLineIdRestriction :: "voice_env \<Rightarrow> voice_state action" where
  "ParseConnLineIdRestriction env =
     unsolicited (number (\<lambda>uiStatus. alloc (voice_mem env)
       (if 2 < uiStatus then reject
        else result RIL_UNSOL_ON_USSD
          (with_data (ussd_image env ''0''
            (Some (if uiStatus = 0 then ''Connected Line ID Restriction Service is Disabled''
                   else if uiStatus = 1 then ''Connected Line ID Restriction Service is Enabled''
                   else ''Connected Line ID Restriction Service Status is Unknown''))) 8 accept))))"

section \<open>Ciphering\<close>

text \<open>Bit 0 is the circuit switched domain, bit 1 the packet switched one.\<close>

definition ciphering_status :: "u32 \<Rightarrow> u32 \<Rightarrow> u32 \<Rightarrow> u32" where
  "ciphering_status uiCurrStatus uiCipheringStatus uiDomain =
     (if uiDomain = 0 then (if uiCipheringStatus = 0 then uiCurrStatus AND NOT 1 else uiCurrStatus OR 1)
      else if uiDomain = 1 then (if uiCipheringStatus = 0 then uiCurrStatus AND NOT 2 else uiCurrStatus OR 2)
      else if uiDomain = 2 then (if uiCipheringStatus = 1 then 3 else 0)
      else uiCurrStatus)"

definition ParseXUCCI :: "voice_env \<Rightarrow> voice_state action" where
  "ParseXUCCI env =
     using_own (\<lambda>st. unsolicited (number (\<lambda>_. comma_number (\<lambda>_. comma_number (\<lambda>uiCipheringStatus.
       comma_number (\<lambda>uiDomain. comma_number (\<lambda>_. comma_number (\<lambda>_.
         let uiPrevStatus = m_CurrentCipheringStatus st;
             uiCurrStatus = ciphering_status uiPrevStatus uiCipheringStatus uiDomain
         in if (uiCurrStatus = 3) \<noteq> (uiPrevStatus = 3) then
              alloc (voice_mem env)
                (with_data (ciphering_image env (if uiCurrStatus = 3 then 1 else 0)) 8
                  (result RIL_UNSOL_OEM_HOOK_RAW
                    (change_own (\<lambda>st. st\<lparr> m_CurrentCipheringStatus := uiCurrStatus \<rparr>) accept)))
            else accept))))))))"

section \<open>Who calls\<close>

definition ParseCNAP :: "voice_state action" where
  "ParseCNAP =
     (let store = (\<lambda>szName v. change_own (\<lambda>st. st\<lparr> voice_caller := (voice_caller st)
             \<lparr> m_CnapCniValidity := (if v > 2 then 2 else sint v), m_szCnapName := szName \<rparr> \<rparr>) call_changed);
          validity = (\<lambda>szName. if_find '','' (number (store szName)) (store szName 2))
      in unsolicited (if_quoted MAX_CNAP_NAME_SIZE validity (validity [])))"

text \<open>
  \<open>clip_end\<close> is the label \<open>Exit\<close>: it stores the number and its validity when they are new, also where
  the function is about to return FALSE.
\<close>

definition clip_end :: "string \<Rightarrow> bool \<Rightarrow> u32 \<Rightarrow> voice_state action" where
  "clip_end szNumber bRet uiCliValidity =
     (let return = (if bRet then accept else reject) in
      using_own (\<lambda>st.
        if szNumber \<noteq> m_szClipNumber (voice_caller st) \<or> m_NumberCliValidity (voice_caller st) \<noteq> sint uiCliValidity then
          change_own (\<lambda>st. st\<lparr> voice_caller := (voice_caller st)
              \<lparr> m_NumberCliValidity := sint uiCliValidity, m_szClipNumber := szNumber \<rparr> \<rparr>)
            (result RIL_UNSOL_RESPONSE_CALL_STATE_CHANGED return)
        else return))"

definition ParseCLIP :: "voice_state action" where
  "ParseCLIP =
     quoted MAX_BUFFER_SIZE (\<lambda>szNumber. unsolicited
       (let exit = clip_end szNumber True 2;
            validity = if_find '','' (if_number (clip_end szNumber True) exit) exit;
            alpha = if_find '','' (if_quoted MAX_BUFFER_SIZE (\<lambda>_. validity) validity) exit;
            subaddress = if_quoted MAX_BUFFER_SIZE (\<lambda>_. if_find '','' (if_number (\<lambda>_. alpha) exit) exit) (if_find '','' alpha exit);
            more = if_find '','' subaddress exit
        in if_find '','' (if_number (\<lambda>_. more) (clip_end szNumber False 2)) (clip_end szNumber False 2)))"

section \<open>The silo\<close>

definition voice_table :: "voice_env \<Rightarrow> voice_state silo_table" where
  "voice_table env =
     [(''+CRING: '', ParseExtRing), (''DISCONNECT'', ParseDISCONNECT), (''+XCALLSTAT: '', ParseXCALLSTAT),
      (''CONNECT'', ParseConnect), (''+CNAP: '', ParseCNAP), (''+CLIP: '', ParseCLIP),
      (''+CCWA: '', ParseCallWaitingInfo env), (''+CSSU: '', ParseUnsolicitedSSInfo env),
      (''+CSSI: '', ParseIntermediateSSInfo env), (''+CCCM: '', ParseCallMeter), (''+CUSD: '', ParseUSSDInfo env),
      (''+COLP: '', unrecognized_action), (''+COLR: '', ParseConnLineIdRestriction env),
      (''+XCIEV: '', unrecognized_action), (''+XCIEV:'', unrecognized_action), (''+XCALLINFO: '', unrecognized_action),
      (''BUSY'', ParseBusy), (''NO ANSWER'', ParseNoAnswer), (''CTM CALL'', ParseCTMCall), (''NO CTM CALL'', ParseNoCTMCall),
      (''WAITING CALL CTM'', ParseWaitingCallCTM), (''+XUCCI: '', ParseXUCCI env)]"

definition CSilo_Voice :: "voice_env \<Rightarrow> voice_state \<Rightarrow> CSilo" where
  "CSilo_Voice env = silo_of (voice_table env)"

section \<open>The silo meets the contract of the channel\<close>

lemma forward_allocated [simp]: "forward (allocated_text mem)"
  using quoted_memory_suffix [of mem _ None 0]
  by (simp add: forward_def allocated_text_def split_beta)

lemmas voice_parts = trigger_hangup_def call_changed_def report_service_def service_number_def clip_end_def Let_def

lemma stays_voice_parts [stays_intros]:
  "stays s r k \<Longrightarrow> stays s r (trigger_hangup k)"
  "stays s r call_changed"
  "stays s r k \<Longrightarrow> stays s r (report_service env sv k)"
  "(\<And>sv. stays s r (g sv)) \<Longrightarrow> stays s r (service_number sv g)"
  "stays s r (clip_end num b v)"
  unfolding voice_parts by (intro stays_intros | assumption)+

lemma voice_parsers:
  "stays s r ParseExtRing" "stays s r ParseConnect" "stays s r ParseXCALLSTAT" "stays s r (ParseCallWaitingInfo env)"
  "stays s r ParseDISCONNECT" "stays s r ParseBusy" "stays s r ParseNoAnswer" "stays s r ParseCTMCall"
  "stays s r ParseNoCTMCall" "stays s r ParseWaitingCallCTM" "stays s r ParseCallMeter"
  "stays s r (ParseUnsolicitedSSInfo env)" "stays s r (ParseIntermediateSSInfo env)"
  "stays s r (ParseConnLineIdRestriction env)" "stays s r (ParseXUCCI env)"
  "stays s r ParseCNAP" "stays s r ParseCLIP"
  unfolding ParseExtRing_def ParseConnect_def ParseXCALLSTAT_def ParseCallWaitingInfo_def ParseDISCONNECT_def ParseBusy_def
    ParseNoAnswer_def ParseCTMCall_def ParseNoCTMCall_def ParseWaitingCallCTM_def ParseCallMeter_def
    ParseUnsolicitedSSInfo_def ParseIntermediateSSInfo_def ParseConnLineIdRestriction_def ParseXUCCI_def
    ParseCNAP_def ParseCLIP_def Let_def
  by (intro stays_intros | assumption)+

lemma stays_USSD: "stays s r (ParseUSSDInfo env)"
  unfolding ParseUSSDInfo_def Let_def
  by (intro stays_intros stays_reading stays_must forward_allocated | assumption)+

interpretation voice_ring: silo_action ParseExtRing by (rule silo_actionI) (rule voice_parsers)
interpretation voice_ussd: silo_action "ParseUSSDInfo env" by (rule silo_actionI) (rule stays_USSD)

lemma voice_table_ok: "\<forall>(p, a) \<in> set (voice_table env). silo_action a"
  by (simp add: voice_table_def silo_action.intro voice_parsers stays_USSD unrecognized_act.silo_action_axioms)

lemma voice_silo_ok: "silo_ok (CSilo_Voice env st)"
  unfolding CSilo_Voice_def by (rule silo_of_ok [OF voice_table_ok])

section \<open>Reports about ciphering\<close>

text \<open>The notification behind its prefix: the access technology, the state of the connection, the
  state and the domain of the ciphering, and the state and the domain of the keys.\<close>

definition XUCCI_text :: "nat \<Rightarrow> nat \<Rightarrow> nat \<Rightarrow> nat \<Rightarrow> nat \<Rightarrow> nat \<Rightarrow> string \<Rightarrow> string" where
  "XUCCI_text rat conn ciphering domain ks kd rest =
     dec_string rat @ CHR '','' # dec_string conn @ CHR '','' # dec_string ciphering @ CHR '','' # dec_string domain @
     CHR '','' # dec_string ks @ CHR '','' # dec_string kd @ CR # rest"

lemma ParseXUCCI_text:
  assumes "\<forall>n \<in> {rat, conn, ciphering, domain, ks, kd}. n < 2 ^ 32"
  shows "ParseXUCCI env (start st r (XUCCI_text rat conn ciphering domain ks kd rest)) =
    (let new = ciphering_status (m_CurrentCipheringStatus st) (word_of_nat ciphering) (word_of_nat domain);
         r = SetFlag E_RSP_FLAG_UNSOLICITED True r;
         c = \<lparr> rsp = r, cur = CR # rest, own = st, events = [] \<rparr>
     in if (new = 3) = (m_CurrentCipheringStatus st = 3) then (True, c)
        else if \<not> voice_mem env then (False, c)
        else (True, c\<lparr> rsp := r\<lparr> m_pData := Some (ciphering_image env (if new = 3 then 1 else 0)), m_uiDataSize := 8,
                           m_uiResultCode := ResultCode RIL_UNSOL_OEM_HOOK_RAW \<rparr>,
                       own := st\<lparr> m_CurrentCipheringStatus := new \<rparr> \<rparr>))"
proof -
  have d: "\<not> isdigit_c (CHR '','')" "\<not> isdigit_c CR" "CR \<noteq> SPC" by (simp_all add: isdigit_c_def code_def)
  show ?thesis
    using assms d
    by (simp add: ParseXUCCI_def using_own_def with_flag_def start_def XUCCI_text_def number_at comma_number_at
        accept_def reject_def alloc_def with_data_def result_def change_own_def Let_def)
qed

lemma ciphering_status_one_domain:
  "domain < 2 \<Longrightarrow> ciphering_status 0 c (word_of_nat domain) \<noteq> 3"
  by (cases domain rule: less_2_cases_iff [THEN iffD1, THEN disjE])
    (auto simp: ciphering_status_def less_2_cases_iff)


text \<open>Notifications about the state and the domain of the ciphering, one after another; what the framework is given.\<close>

primrec ciphering_reports :: "voice_env \<Rightarrow> CResponse \<Rightarrow> voice_state \<Rightarrow> (nat \<times> nat) list \<Rightarrow> voice_state \<times> u8 list option list" where
  "ciphering_reports env r st [] = (st, [])"
| "ciphering_reports env r st (x # xs) =
     (let c = snd (ParseXUCCI env (start st r (XUCCI_text 2 1 (fst x) (snd x) 0 0 [LF])));
          (st, ds) = ciphering_reports env r (own c) xs
      in (st, m_pData (rsp c) # ds))"

lemma one_domain_reports_lost:
  assumes "m_CurrentCipheringStatus st = 0" "m_pData r = None" "\<forall>x \<in> set reports. fst x < 2 ^ 32 \<and> snd x < 2"
  shows "ciphering_reports env r st reports = (st, replicate (length reports) None)"
  using assms(3)
proof (induction reports)
  case (Cons x xs)
  then show ?case
    using assms(1,2) ciphering_status_one_domain [of "snd x" "word_of_nat (fst x)"]
    by (simp add: ParseXUCCI_text Let_def SetFlag_def)
qed simp

text \<open>
  C37. The silo only remembers the ciphering of the two domains when the sum of both changes. From the
  state the program starts in (both ciphered): once ciphering has been reported as off for both
  domains together, and the framework told so, reports for single domains change nothing, however
  many and whatever they say: when both are reported as ciphered again, one by one, the framework is
  not told. When ciphering is reported as off for the two domains one by one, the framework is told at the
  first report, the second is forgotten, and a report that the first domain is ciphered again is
  passed on as if both were, although the other is not.
\<close>

theorem separate_ciphering_lost:
  assumes "m_CurrentCipheringStatus st = 3" "m_pData r = None" "voice_mem env"
    "\<forall>x \<in> set reports. fst x < 2 ^ 32 \<and> snd x < 2"
  shows "ciphering_reports env r st ((0, 2) # reports) =
      (st\<lparr> m_CurrentCipheringStatus := 0 \<rparr>, Some (ciphering_image env 0) # replicate (length reports) None) \<and>
    ciphering_reports env r st [(0, 0), (0, 1), (1, 0)] =
      (st, [Some (ciphering_image env 0), None, Some (ciphering_image env 1)])"
proof
  show "ciphering_reports env r st ((0, 2) # reports) =
      (st\<lparr> m_CurrentCipheringStatus := 0 \<rparr>, Some (ciphering_image env 0) # replicate (length reports) None)"
    using assms(1-3) one_domain_reports_lost [of "st\<lparr> m_CurrentCipheringStatus := 0 \<rparr>", OF _ assms(2,4)]
    by (simp add: ParseXUCCI_text ciphering_status_def Let_def SetFlag_def)
  have "st\<lparr> m_CurrentCipheringStatus := 3 \<rparr> = st" using assms(1) by simp
  then show "ciphering_reports env r st [(0, 0), (0, 1), (1, 0)] =
      (st, [Some (ciphering_image env 0), None, Some (ciphering_image env 1)])"
    using assms(1-3) by (simp add: ParseXUCCI_text ciphering_status_def Let_def SetFlag_def)
qed

theorem separate_ciphering_lost_witness:
  "\<forall>env st. ciphering_reports (env\<lparr> voice_mem := True \<rparr>) new_response (st\<lparr> m_CurrentCipheringStatus := 3 \<rparr>)
       [(0, 2), (1, 0), (1, 1)] =
     (st\<lparr> m_CurrentCipheringStatus := 0 \<rparr>, [Some (ciphering_image env 0), None, None])"
proof (intro allI)
  fix env st
  show "ciphering_reports (env\<lparr> voice_mem := True \<rparr>) new_response (st\<lparr> m_CurrentCipheringStatus := 3 \<rparr>)
       [(0, 2), (1, 0), (1, 1)] =
     (st\<lparr> m_CurrentCipheringStatus := 0 \<rparr>, [Some (ciphering_image env 0), None, None])"
    using separate_ciphering_lost [of "st\<lparr> m_CurrentCipheringStatus := 3 \<rparr>" new_response
        "env\<lparr> voice_mem := True \<rparr>" "[(1, 0), (1, 1)]"]
    by (simp add: new_response_def)
qed

end
