(* ===== verification/SiloSms.thy ===== *)
theory SiloSms
  imports Silo
begin

text \<open>
  The notifications about short messages and broadcasts (\<open>CSilo_SMS\<close>, \<open>CORE/ND/silo_sms.cpp\<close>). The silo
  has no state of its own. \<open>mem\<close> tells whether \<open>malloc\<close> returns memory.
\<close>

abbreviation (input) RIL_UNSOL_RESPONSE_NEW_SMS :: u32 where "RIL_UNSOL_RESPONSE_NEW_SMS \<equiv> 1003"
abbreviation (input) RIL_UNSOL_RESPONSE_NEW_SMS_STATUS_REPORT :: u32 where
  "RIL_UNSOL_RESPONSE_NEW_SMS_STATUS_REPORT \<equiv> 1004"
abbreviation (input) RIL_UNSOL_RESPONSE_NEW_SMS_ON_SIM :: u32 where "RIL_UNSOL_RESPONSE_NEW_SMS_ON_SIM \<equiv> 1005"
abbreviation (input) RIL_UNSOL_RESPONSE_NEW_BROADCAST_SMS :: u32 where
  "RIL_UNSOL_RESPONSE_NEW_BROADCAST_SMS \<equiv> 1021"

section \<open>The line behind the header\<close>

text \<open>
  Header and message are lines of their own. \<open>message_line\<close> looks for the end of the second one without
  moving the pointer and hands on its length; a notification whose second line has not arrived is
  not parsed yet.
\<close>

definition message_line :: "(nat \<Rightarrow> 's action) \<Rightarrow> 's action" where
  "message_line k c =
     (case FindAndSkipString (cur c) NL of
        (False, _) \<Rightarrow> (False, c)
      | (True, szDummy) \<Rightarrow> k (length (cur c) - length szDummy - 2) c)"

lemma stays_message_line [stays_intros]: "(\<And>n. stays s r (k n)) \<Longrightarrow> stays s r (message_line k)"
  by (simp add: stays_def message_line_def split: prod.split bool.split)

definition alpha_number :: "(u32 \<Rightarrow> 's action) \<Rightarrow> 's action" where
  "alpha_number k = if_quoted MAX_BUFFER_SIZE (\<lambda>_. number k) (number k)"

section \<open>Short messages\<close>

text \<open>The message is handed on as its hexadecimal text with its terminator.\<close>

definition pdu_text :: "bool \<Rightarrow> u32 \<Rightarrow> 's action" where
  "pdu_text mem n =
     message_line (\<lambda>len. alloc mem (unquoted (len + 1) (\<lambda>szPDU.
       result n (with_data (zero_filled (len + 1) szPDU) (len + 1) accept))))"

definition ParseCMT :: "bool \<Rightarrow> 's action" where
  "ParseCMT mem =
     unsolicited (let pdu = comma_number (\<lambda>_. skip NL (pdu_text mem RIL_UNSOL_RESPONSE_NEW_SMS))
                  in if_quoted MAX_BUFFER_SIZE (\<lambda>_. pdu) pdu)"

definition ParseCDS :: "bool \<Rightarrow> 's action" where
  "ParseCDS mem =
     unsolicited (alpha_number (\<lambda>_. skip NL (pdu_text mem RIL_UNSOL_RESPONSE_NEW_SMS_STATUS_REPORT)))"

text \<open>The place of a message that has been stored is handed on as an int.\<close>

datatype SILO_SMS_MSG_TYPES =
  SILO_SMS_MSG_IN_SIM | SILO_SMS_CELLBC_MSG_IN_SIM | SILO_SMS_STATUS_MSG_IN_SIM

definition ParseMessageInSim :: "bool \<Rightarrow> SILO_SMS_MSG_TYPES \<Rightarrow> 's action" where
  "ParseMessageInSim mem msgType =
     (let parse = unsolicited (alloc mem (line_end (\<lambda>_ _. find '','' (number (\<lambda>Index.
            result RIL_UNSOL_RESPONSE_NEW_SMS_ON_SIM (with_data (little_endian Index) 4 accept))))))
      in if msgType = SILO_SMS_MSG_IN_SIM then event (CallTE ''TriggerQuerySimSmsStoreStatus'' []) parse else parse)"

definition ParseCMTI :: "bool \<Rightarrow> 's action" where "ParseCMTI mem = ParseMessageInSim mem SILO_SMS_MSG_IN_SIM"
definition ParseCBMI :: "bool \<Rightarrow> 's action" where "ParseCBMI mem = ParseMessageInSim mem SILO_SMS_CELLBC_MSG_IN_SIM"
definition ParseCDSI :: "bool \<Rightarrow> 's action" where "ParseCDSI mem = ParseMessageInSim mem SILO_SMS_STATUS_MSG_IN_SIM"

section \<open>Broadcasts\<close>

text \<open>\<open>GSMHexToGSM\<close> gets the length of the line, however much of it has been extracted.\<close>

definition hex_line :: "bool \<Rightarrow> (u8 list \<Rightarrow> 's action) \<Rightarrow> 's action" where
  "hex_line mem k =
     message_line (\<lambda>len. alloc mem (unquoted (len + 1) (\<lambda>szPDU.
       case GSMHexToGSM (take len (szPDU @ replicate len NUL)) (len div 2) of (ok, bytes, _) \<Rightarrow>
         if ok then k bytes else reject)))"

definition ParseCBM :: "bool \<Rightarrow> 's action" where
  "ParseCBM mem =
     unsolicited (alpha_number (\<lambda>_. skip NL (hex_line mem (\<lambda>bytes.
       result RIL_UNSOL_RESPONSE_NEW_BROADCAST_SMS (with_data bytes (length bytes) accept)))))"

definition ETWS_PRIMARY_NOTIFICATION_PDU_SIZE :: nat where "ETWS_PRIMARY_NOTIFICATION_PDU_SIZE = 56"

text \<open>The two low bytes of a number, the higher one first.\<close>

definition two_bytes :: "u32 \<Rightarrow> u8 list" where
  "two_bytes n = [ucast (drop_bit 8 n AND 0xFF), ucast (n AND 0xFF)]"

definition find_comma_number :: "(u32 \<Rightarrow> 's action) \<Rightarrow> 's action" where
  "find_comma_number k = find '','' (number k)"

definition ParseXETWPRIWARN :: "bool \<Rightarrow> 's action" where
  "ParseXETWPRIWARN mem =
     unsolicited (number (\<lambda>uiSerialNumber. find_comma_number (\<lambda>uiMid. find_comma_number (\<lambda>uiWarningType.
       find_comma_number (\<lambda>_. alloc mem (result RIL_UNSOL_RESPONSE_NEW_BROADCAST_SMS
         (with_data (two_bytes uiSerialNumber @ two_bytes uiMid @ two_bytes uiWarningType @
             replicate (ETWS_PRIMARY_NOTIFICATION_PDU_SIZE - 6) (byte CR))
           ETWS_PRIMARY_NOTIFICATION_PDU_SIZE accept)))))))"

text \<open>The two formats are told apart by a comma anywhere in the text that has arrived.\<close>

definition ParseXETWSECWARN :: "bool \<Rightarrow> 's action" where
  "ParseXETWSECWARN mem =
     unsolicited (if_here (\<lambda>s. fst (FindAndSkipString s '',''))
       (number (\<lambda>uiSerialNumber. find_comma_number (\<lambda>uiMid. find_comma_number (\<lambda>uiCodingScheme.
          find_comma_number (\<lambda>_. find_comma_number (\<lambda>_. find NL (hex_line mem (\<lambda>bytes.
            result RIL_UNSOL_RESPONSE_NEW_BROADCAST_SMS
              (with_data ([1] @ two_bytes uiMid @ two_bytes uiSerialNumber @ [ucast (uiCodingScheme AND 0xFF)] @ bytes)
                (6 + length bytes) accept)))))))))
       (ParseCBM mem))"

section \<open>The silo\<close>

definition sms_table :: "bool \<Rightarrow> unit silo_table" where
  "sms_table mem =
     [(''+CMT: '', ParseCMT mem), (''+CBM: '', ParseCBM mem), (''+CDS: '', ParseCDS mem), (''+CMTI: '', ParseCMTI mem),
      (''+CBMI: '', ParseCBMI mem), (''+CDSI: '', ParseCDSI mem), (''+XETWPRIWARN: '', ParseXETWPRIWARN mem),
      (''+XETWSECWARN: '', ParseXETWSECWARN mem)]"

definition CSilo_SMS :: "bool \<Rightarrow> CSilo" where
  "CSilo_SMS mem = silo_of (sms_table mem) ()"

section \<open>The silo meets the contract of the channel\<close>

lemma stays_sms_parts [stays_intros]:
  "stays s r (pdu_text mem n)"
  "(\<And>v. stays s r (g v)) \<Longrightarrow> stays s r (alpha_number g)"
  "(\<And>v. stays s r (g v)) \<Longrightarrow> stays s r (find_comma_number g)"
  "(\<And>b. stays s r (h b)) \<Longrightarrow> stays s r (hex_line mem h)"
  unfolding pdu_text_def alpha_number_def find_comma_number_def hex_line_def
  by (intro stays_intros | assumption)+

lemma sms_parsers:
  "stays s r (ParseCMT mem)" "stays s r (ParseCBM mem)" "stays s r (ParseCDS mem)" "stays s r (ParseCMTI mem)"
  "stays s r (ParseCBMI mem)" "stays s r (ParseCDSI mem)" "stays s r (ParseXETWPRIWARN mem)"
  "stays s r (ParseXETWSECWARN mem)"
  unfolding ParseCMT_def ParseCBM_def ParseCDS_def ParseCMTI_def ParseCBMI_def ParseCDSI_def ParseMessageInSim_def
    ParseXETWPRIWARN_def ParseXETWSECWARN_def Let_def
  by (intro stays_intros | assumption)+

interpretation sms_message: silo_action "ParseCMT mem" by (rule silo_actionI) (rule sms_parsers)
interpretation sms_broadcast: silo_action "ParseCBM mem" by (rule silo_actionI) (rule sms_parsers)

lemma sms_silo_ok: "silo_ok (CSilo_SMS mem)"
  unfolding CSilo_SMS_def by (rule silo_of_ok) (simp add: sms_table_def silo_action.intro sms_parsers)

section \<open>What is handed on\<close>

lemma message_line_at:
  "cur c = t @ NL @ s \<Longrightarrow> CR \<notin> set t \<Longrightarrow> t = [] \<or> hd t \<noteq> SPC \<Longrightarrow> message_line k c = k (length t) c"
  by (simp add: message_line_def find_NL length_NL)


text \<open>A notification with a message: the name of the sender when there is one, the length and the text.\<close>

definition message_text :: "string option \<Rightarrow> nat \<Rightarrow> string \<Rightarrow> string \<Rightarrow> string" where
  "message_text alpha n pdu rest =
     (case alpha of None \<Rightarrow> [] | Some a \<Rightarrow> QUOTE # a @ [QUOTE]) @ CHR '','' # dec_string n @ NL @ pdu @ NL @ rest"

definition page_text :: "nat \<Rightarrow> string \<Rightarrow> string \<Rightarrow> string" where
  "page_text n hex rest = dec_string n @ NL @ hex @ NL @ rest"

lemma zero_filled_text: "zero_filled (length t + 1) t = map byte t @ [0]"
  by (simp add: zero_filled_def)

lemma pdu_text_at:
  assumes "cur c = pdu @ NL @ rest" "CR \<notin> set pdu" "NUL \<notin> set pdu" "pdu = [] \<or> hd pdu \<noteq> SPC"
  shows "pdu_text True n c =
    (True, c\<lparr> cur := NL @ rest, rsp := (rsp c)\<lparr> m_uiResultCode := ResultCode n, m_pData := Some (map byte pdu @ [0]),
        m_uiDataSize := length pdu + 1 \<rparr> \<rparr>)"
  using assms
  by (simp add: pdu_text_def message_line_at [OF assms(1,2,4)] alloc_def unquoted_at [of _ pdu "LF # rest"] NL_def
      result_def with_data_def accept_def zero_filled_text [simplified])

lemma ParseCMT_text:
  assumes "n < 2 ^ 32" "CR \<notin> set pdu" "NUL \<notin> set pdu" "pdu = [] \<or> hd pdu \<noteq> SPC"
    "\<forall>a. alpha = Some a \<longrightarrow> QUOTE \<notin> set a \<and> NUL \<notin> set a \<and> length a < MAX_BUFFER_SIZE"
  shows "parser_of st (ParseCMT True) r (message_text alpha n pdu rest) =
    (True, (SetFlag E_RSP_FLAG_UNSOLICITED True r)\<lparr> m_uiResultCode := ResultCode RIL_UNSOL_RESPONSE_NEW_SMS,
        m_pData := Some (map byte pdu @ [0]), m_uiDataSize := length pdu + 1 \<rparr>, NL @ rest)"
proof -
  have d: "\<not> isdigit_c CR" "CR \<noteq> SPC" by (simp_all add: isdigit_c_def code_def)
  have p: "comma_number (\<lambda>_. skip NL (pdu_text True m)) c =
      (True, c\<lparr> cur := NL @ rest, rsp := (rsp c)\<lparr> m_uiResultCode := ResultCode m, m_pData := Some (map byte pdu @ [0]),
        m_uiDataSize := length pdu + 1 \<rparr> \<rparr>)" if "cur c = CHR '','' # dec_string n @ NL @ pdu @ NL @ rest" for c m
    using that assms(1) d
      pdu_text_at [of "c\<lparr> cur := pdu @ NL @ rest \<rparr>" pdu rest m] assms(2-4)
    by (simp add: comma_number_at [of c n CR "LF # pdu @ NL @ rest"] NL_def skip_NL_at [unfolded NL_def])
  show ?thesis
    using assms(5)
    by (cases alpha) (simp_all add: parser_of_def ParseCMT_def start_def with_flag_def Let_def message_text_def
        if_quoted_at p)
qed

lemma hex_text: "x \<in> set (GSMToGSMHex_loop bs room) \<Longrightarrow> x \<in> set g_rgchSemiByteToCharMap"
proof (induction bs room rule: GSMToGSMHex_loop.induct)
  case (1 b bs room)
  have h: "unat (drop_bit 4 (b AND 0xf0)) < 16"
  proof -
    have "unat (b AND 0xf0) < 2 ^ LENGTH(8)" by (rule unsigned_less)
    then show ?thesis by (simp add: drop_bit_eq_div unat_div)
  qed
  have "b AND 0x0f \<le> 0x0f" by (rule word_and_le1)
  then have l: "unat (b AND 0x0f) < 16" by (simp add: word_le_nat_alt)
  have "length g_rgchSemiByteToCharMap = 16" by code_simp
  then show ?case using 1 nth_mem h l by auto
qed simp_all

lemma hex_text_plain:
  "CR \<notin> set (GSMToGSMHex_loop bs room)" "NUL \<notin> set (GSMToGSMHex_loop bs room)"
  "GSMToGSMHex_loop bs room = [] \<or> hd (GSMToGSMHex_loop bs room) \<noteq> SPC"
proof -
  have "CR \<notin> set g_rgchSemiByteToCharMap" "NUL \<notin> set g_rgchSemiByteToCharMap" "SPC \<notin> set g_rgchSemiByteToCharMap"
    by code_simp+
  then show "CR \<notin> set (GSMToGSMHex_loop bs room)" "NUL \<notin> set (GSMToGSMHex_loop bs room)"
    "GSMToGSMHex_loop bs room = [] \<or> hd (GSMToGSMHex_loop bs room) \<noteq> SPC"
    using hex_text hd_in_set by metis+
qed

lemma ParseCBM_text:
  assumes "n < 2 ^ 32"
  shows "parser_of st (ParseCBM True) r (page_text n (GSMToGSMHex_loop bytes (2 * length bytes)) rest) =
    (True, (SetFlag E_RSP_FLAG_UNSOLICITED True r)\<lparr> m_uiResultCode := ResultCode RIL_UNSOL_RESPONSE_NEW_BROADCAST_SMS,
        m_pData := (if bytes = [] then None else Some bytes), m_uiDataSize := length bytes \<rparr>, NL @ rest)"
proof -
  define hex where "hex = GSMToGSMHex_loop bytes (2 * length bytes)"
  have hex: "CR \<notin> set hex" "NUL \<notin> set hex" "hex = [] \<or> hd hex \<noteq> SPC" "length hex = 2 * length bytes"
    "GSMHexToGSM_loop hex (length bytes) = bytes"
    unfolding hex_def by (rule hex_text_plain)+ (simp_all add: GSMToGSMHex_loop_length GSMHex_loop_roundtrip)
  show ?thesis
    using assms hex
    by (simp add: parser_of_def ParseCBM_def start_def with_flag_def page_text_def hex_def [symmetric] alpha_number_def
        if_quoted_number number_line_at skip_NL_at hex_line_def message_line_at alloc_def
        unquoted_line_at GSMHexToGSM_def result_def with_data_def accept_def Let_def)
qed

lemma CMT_row: "FindParser (CSilo_SMS mem) (m_pATRspTable (CSilo_SMS mem)) (''+CMT: '' @ s) =
    Some (Some (parser_of () (ParseCMT mem)), s)"
  using silo_of_find [of "''+CMT: ''" "[]" s "ParseCMT mem" "tl (sms_table mem)" "()"]
  by (simp add: CSilo_SMS_def sms_table_def)

lemma CBM_row: "FindParser (CSilo_SMS mem) (m_pATRspTable (CSilo_SMS mem)) (''+CBM: '' @ s) =
    Some (Some (parser_of () (ParseCBM mem)), s)"
  using silo_of_find [of "''+CBM: ''" "[hd (sms_table mem)]" s "ParseCBM mem" "drop 2 (sms_table mem)" "()"]
  by (simp add: CSilo_SMS_def sms_table_def)

text \<open>Both kinds of messages, on a channel whose first silo is the one for messages.\<close>

lemma message_in_front:
  assumes "n < 2 ^ 32" "CR \<notin> set pdu" "NUL \<notin> set pdu" "pdu = [] \<or> hd pdu \<noteq> SPC" "NUL \<notin> set rest"
    "\<forall>a. alpha = Some a \<longrightarrow> QUOTE \<notin> set a \<and> NUL \<notin> set a \<and> length a < MAX_BUFFER_SIZE"
  shows "(\<exists>r. IsCompleteResponse (Some (CSilo_SMS True) # silos) (received (NL @ ''+CMT: '' @ message_text alpha n pdu rest)) =
      Some (True, r) \<and> IsUnsolicitedFlag r \<and> m_uiResultCode r = ResultCode RIL_UNSOL_RESPONSE_NEW_SMS \<and>
      CResponse.m_pData r = Some (map byte pdu @ [0]) \<and> drop (m_uiResponseEndMarker r) (bytes_of r) = rest) \<and>
    (\<exists>r. IsCompleteResponse (Some (CSilo_SMS True) # silos)
        (received (NL @ ''+CBM: '' @ page_text n (GSMToGSMHex_loop (b # bytes) (2 * length (b # bytes))) rest)) =
      Some (True, r) \<and> IsUnsolicitedFlag r \<and> m_uiResultCode r = ResultCode RIL_UNSOL_RESPONSE_NEW_BROADCAST_SMS \<and>
      CResponse.m_pData r = Some (b # bytes) \<and> drop (m_uiResponseEndMarker r) (bytes_of r) = rest)"
proof -
  have nd: "NUL \<notin> set (dec_string n)" using field_chars [of NUL n] by (auto simp: isdigit_c_def code_def)
  let ?cmt = "message_text alpha n pdu rest"
  have 1: "NUL \<notin> set (''+CMT: '' @ ?cmt)" "suffix rest ?cmt"
    using assms nd by (auto simp: message_text_def NL_def suffix_def split: option.splits)
  have cmt: "\<exists>r. IsCompleteResponse (Some (CSilo_SMS True) # silos) (received (NL @ ''+CMT: '' @ ?cmt)) =
      Some (True, r) \<and> IsUnsolicitedFlag r \<and> m_uiResultCode r = ResultCode RIL_UNSOL_RESPONSE_NEW_SMS \<and>
      CResponse.m_pData r = Some (map byte pdu @ [0]) \<and> drop (m_uiResponseEndMarker r) (bytes_of r) = rest"
    using notification_received [OF 1(1) _ CMT_row ParseCMT_text [OF assms(1-4,6)] _ _ 1(2), of silos]
    by (simp add: flag_kept frame_simps)
  let ?hex = "GSMToGSMHex_loop (b # bytes) (2 * length (b # bytes))"
  let ?cbm = "page_text n ?hex rest"
  have 2: "NUL \<notin> set (''+CBM: '' @ ?cbm)" "suffix rest ?cbm"
    using assms(5) nd hex_text_plain(2) by (auto simp: page_text_def NL_def suffix_def simp del: GSMToGSMHex_loop.simps)
  have "\<exists>r. IsCompleteResponse (Some (CSilo_SMS True) # silos) (received (NL @ ''+CBM: '' @ ?cbm)) =
      Some (True, r) \<and> IsUnsolicitedFlag r \<and> m_uiResultCode r = ResultCode RIL_UNSOL_RESPONSE_NEW_BROADCAST_SMS \<and>
      CResponse.m_pData r = Some (b # bytes) \<and> drop (m_uiResponseEndMarker r) (bytes_of r) = rest"
    using notification_received [OF 2(1) _ CBM_row ParseCBM_text [OF assms(1)] _ _ 2(2), of silos]
    by (simp add: flag_kept frame_simps del: GSMToGSMHex_loop.simps)
  with cmt show ?thesis by (rule conjI)
qed

end
