(* ===== verification/CatProfile.thy ===== *)
theory CatProfile
  imports GsmUtil
begin

text \<open>
  Model of \<open>CORE/ND/bertlv_util.cpp\<close> (the parser of one TLV object) and of
  \<open>CORE/ND/ccatprofile.cpp\<close> (the toolkit profiles, and the recognition of the proactive command
  in a PDU).

  A byte pointer is the list of the bytes that are there from it on; reading past them gives
  \<open>None\<close>, whatever size the caller claims. What \<open>CRepository::Read\<close> finds is an argument.
\<close>

section \<open>BER-TLV\<close>

record BerTlv =
  m_bTag :: u8
  m_uLen :: nat
  m_pbValue :: "u8 list option"
  m_uTotalSize :: nat

definition new_tlv :: BerTlv where
  "new_tlv = \<lparr> m_bTag = 0, m_uLen = 0, m_pbValue = None, m_uTotalSize = 0 \<rparr>"

definition byte_at :: "u8 list \<Rightarrow> nat \<Rightarrow> u8 option" where
  "byte_at p i = (if i < length p then Some (p ! i) else None)"

text \<open>The encoded length and the position of the value; inner \<open>None\<close>: the function fails.\<close>

definition parse_length :: "u8 list \<Rightarrow> nat \<Rightarrow> u8 \<Rightarrow> (nat \<times> nat) option option" where
  "parse_length pRawData cbSize b =
     (if 0x80 AND b = 0x80 then
        (if 1 < 0x7F AND b \<or> 3 > cbSize then Some None
         else (case byte_at pRawData 2 of
                 None \<Rightarrow> None
               | Some l \<Rightarrow> Some (Some (unat l, 3))))
      else Some (Some (unat b, 2)))"

definition Parse :: "u8 list \<Rightarrow> nat \<Rightarrow> BerTlv \<Rightarrow> (bool \<times> BerTlv) option" where
  "Parse pRawData cbSize tlv =
     (if 2 > cbSize then Some (False, tlv)
      else
        (case byte_at pRawData 0 of
           None \<Rightarrow> None
         | Some bTag \<Rightarrow>
             if bTag = 0x00 \<or> bTag = 0xFF then Some (False, tlv)
             else
               (case byte_at pRawData 1 of
                  None \<Rightarrow> None
                | Some b \<Rightarrow>
                    (case parse_length pRawData cbSize b of
                       None \<Rightarrow> None
                     | Some None \<Rightarrow> Some (False, tlv)
                     | Some (Some (uLen, bValuePos)) \<Rightarrow>
                         if uLen + bValuePos > cbSize then Some (False, tlv)
                         else
                           (let uLen = (if cbSize - bValuePos < uLen then cbSize - bValuePos else uLen)
                            in Some (True, \<lparr> m_bTag = bTag, m_uLen = uLen,
                                 m_pbValue = Some (drop bValuePos pRawData),
                                 m_uTotalSize = uLen + bValuePos \<rparr>))))))"

section \<open>Profiles\<close>

definition MAX_SIZE_PROFILE :: nat where "MAX_SIZE_PROFILE = 32"

definition DEFAULT_PROFILE :: string where "DEFAULT_PROFILE = replicate 64 (CHR ''0'')"
definition DEFAULT_MASK :: string where "DEFAULT_MASK = replicate 64 (CHR ''0'')"

record CCatProfile =
  m_achTeProfile :: "u8 list"
  m_achTeDefaultProfile :: "u8 list"
  m_achMtMask :: "u8 list"

text \<open>The rows \<open>(uiByteId, uiCmdId, uiBitMask)\<close>, up to the end mark.\<close>

definition s_proactiveUICCTable :: "(nat \<times> u8 \<times> u8) list" where
  "s_proactiveUICCTable = [
     (3, 0x21, 1), (3, 0x22, 2), (3, 0x23, 4), (3, 0x02, 8), (3, 0x20, 16), (3, 0x03, 32),
     (3, 0x04, 64), (3, 0x01, 128),
     (4, 0x24, 1), (4, 0x13, 2), (4, 0x11, 4), (4, 0x12, 8), (4, 0x10, 16), (4, 0x25, 32),
     (4, 0x26, 64),
     (5, 0x05, 1),
     (8, 0x27, 1), (8, 0x00, 2), (8, 0x28, 16), (8, 0x34, 32),
     (9, 0x14, 2), (9, 0x35, 32), (9, 0x15, 64),
     (12, 0x40, 1), (12, 0x41, 2), (12, 0x42, 4), (12, 0x43, 8), (12, 0x44, 16), (12, 0x45, 32),
     (12, 0x46, 64), (12, 0x47, 128),
     (30, 0x70, 16)]"

definition SetByteArray ::
    "string option \<Rightarrow> nat \<Rightarrow> u8 list \<Rightarrow> (bool \<times> u8 list) option" where
  "SetByteArray pszProfile uiLength achByteArray =
     (case pszProfile of
        None \<Rightarrow> Some (False, achByteArray)
      | Some s \<Rightarrow>
          if uiLength > MAX_SIZE_PROFILE * 2 then Some (False, achByteArray)
          else extractByteArrayFromString s uiLength achByteArray)"

definition SetTeProfile :: "string option \<Rightarrow> nat \<Rightarrow> CCatProfile \<Rightarrow> (bool \<times> CCatProfile) option" where
  "SetTeProfile pszMask uiLength p =
     map_option (\<lambda>(b, a). (b, p\<lparr> m_achTeProfile := a \<rparr>))
       (SetByteArray pszMask uiLength (m_achTeProfile p))"

definition SetTeDefaultProfile ::
    "string option \<Rightarrow> nat \<Rightarrow> CCatProfile \<Rightarrow> (bool \<times> CCatProfile) option" where
  "SetTeDefaultProfile pszMask uiLength p =
     map_option (\<lambda>(b, a). (b, p\<lparr> m_achTeDefaultProfile := a \<rparr>))
       (SetByteArray pszMask uiLength (m_achTeDefaultProfile p))"

definition SetMtMask :: "string option \<Rightarrow> nat \<Rightarrow> CCatProfile \<Rightarrow> (bool \<times> CCatProfile) option" where
  "SetMtMask pszMask uiLength p =
     map_option (\<lambda>(b, a). (b, p\<lparr> m_achMtMask := a \<rparr>))
       (SetByteArray pszMask uiLength (m_achMtMask p))"

text \<open>\<open>entry\<close>: the repository's entry, \<open>None\<close> when \<open>Read\<close> fails.\<close>

definition ReadTeDefaultProfile :: "string option \<Rightarrow> CCatProfile \<Rightarrow> (bool \<times> CCatProfile) option" where
  "ReadTeDefaultProfile entry p =
     (case entry of
        None \<Rightarrow> SetTeDefaultProfile (Some DEFAULT_PROFILE) (length DEFAULT_PROFILE) p
      | Some s \<Rightarrow> SetTeDefaultProfile (Some s) (length s) p)"

definition InitTeProfile :: "string option \<Rightarrow> CCatProfile \<Rightarrow> CCatProfile option" where
  "InitTeProfile entry p =
     (case SetTeProfile (Some DEFAULT_PROFILE) (length DEFAULT_PROFILE) p of
        None \<Rightarrow> None
      | Some (_, p) \<Rightarrow> map_option snd (ReadTeDefaultProfile entry p))"

definition InitMtMask :: "string option \<Rightarrow> CCatProfile \<Rightarrow> CCatProfile option" where
  "InitMtMask entry p =
     (case entry of
        None \<Rightarrow> map_option snd (SetMtMask (Some DEFAULT_MASK) (length DEFAULT_MASK) p)
      | Some s \<Rightarrow> map_option snd (SetMtMask (Some s) (length s) p))"

text \<open>The constructor; \<open>junk\<close>: what the arrays hold before.\<close>

definition new_cat_profile ::
    "u8 list \<times> u8 list \<times> u8 list \<Rightarrow> string option \<Rightarrow> string option \<Rightarrow> CCatProfile option" where
  "new_cat_profile junk te mt =
     (case InitTeProfile te \<lparr> m_achTeProfile = fst junk, m_achTeDefaultProfile = fst (snd junk),
             m_achMtMask = snd (snd junk) \<rparr> of
        None \<Rightarrow> None
      | Some p \<Rightarrow> InitMtMask mt p)"

section \<open>Proactive commands\<close>

record ProactiveCommandInfo =
  uiCommandId :: u8
  isProactiveCmd :: bool

definition COMMAND_DETAILS_TAG :: u8 where "COMMAND_DETAILS_TAG = 0x81"

definition find_command :: "u8 \<Rightarrow> (nat \<times> u8 \<times> u8) option" where
  "find_command uiCmd = List.find (\<lambda>(_, c, _). c = uiCmd) s_proactiveUICCTable"

text \<open>The part after the first \<open>Parse\<close>: the command details object.\<close>

definition command_details ::
    "CCatProfile \<Rightarrow> BerTlv \<Rightarrow> ProactiveCommandInfo \<Rightarrow> (bool \<times> ProactiveCommandInfo) option" where
  "command_details p tlvPdu info =
     (case m_pbValue tlvPdu of
        None \<Rightarrow> None
      | Some pbCmdData \<Rightarrow>
          (case Parse pbCmdData (m_uLen tlvPdu) new_tlv of
             None \<Rightarrow> None
           | Some (False, _) \<Rightarrow> Some (False, info)
           | Some (True, tlvCmdDetails) \<Rightarrow>
               if m_bTag tlvCmdDetails \<noteq> COMMAND_DETAILS_TAG then Some (False, info)
               else if m_uLen tlvCmdDetails \<le> 1 then Some (False, info)
               else
                 (case byte_at (the (m_pbValue tlvCmdDetails)) 1 of
                    None \<Rightarrow> None
                  | Some uiCmd \<Rightarrow>
                      (let info = info\<lparr> uiCommandId := uiCmd \<rparr> in
                       case find_command uiCmd of
                         None \<Rightarrow> Some (False, info)
                       | Some (byteId, _, uiBitMask) \<Rightarrow>
                           (case byte_at (m_achTeProfile p) (byteId - 1) of
                              None \<Rightarrow> None
                            | Some b \<Rightarrow>
                                Some (True, info\<lparr> isProactiveCmd := (b AND uiBitMask \<noteq> 0) \<rparr>))))))"

text \<open>\<open>junk\<close>: the contents of the memory \<open>malloc\<close> returns; \<open>None\<close> for a failure.\<close>

definition ExtractPduInfo ::
    "CCatProfile \<Rightarrow> (nat \<Rightarrow> u8 list option) \<Rightarrow> string \<Rightarrow> nat \<Rightarrow> ProactiveCommandInfo option
      \<Rightarrow> (bool \<times> ProactiveCommandInfo option) option" where
  "ExtractPduInfo p malloc pszPdu uiLength pPduInfo =
     (case pPduInfo of
        None \<Rightarrow> Some (False, None)
      | Some _ \<Rightarrow>
          (let info = \<lparr> uiCommandId = 0, isProactiveCmd = False \<rparr> in
           case malloc (uiLength div 2) of
             None \<Rightarrow> Some (False, Some info)
           | Some pPduBytes \<Rightarrow>
               (case extractByteArrayFromString pszPdu uiLength pPduBytes of
                  None \<Rightarrow> None
                | Some (False, _) \<Rightarrow> Some (False, Some info)
                | Some (True, pPduBytes) \<Rightarrow>
                    if length pPduBytes < 2 then None
                    else
                      (case Parse pPduBytes uiLength new_tlv of
                         None \<Rightarrow> None
                       | Some (False, _) \<Rightarrow> Some (False, Some info)
                       | Some (True, tlvPdu) \<Rightarrow>
                           map_option (\<lambda>(b, i). (b, Some i)) (command_details p tlvPdu info)))))"

section \<open>Facts\<close>

lemma byte_at_Some: "i < length p \<Longrightarrow> byte_at p i = Some (p ! i)"
  by (simp add: byte_at_def)

text \<open>
  C25. The TLV parser never reads beyond the size it is given: on any bytes it returns, and when it
  accepts, the tag is the first byte and no padding value, the total size is at most the
  size given, and the value starts right behind the header, so that it ends inside the data.
\<close>

theorem Parse_in_bounds:
  assumes "cbSize \<le> length raw"
  shows "\<exists>b t. Parse raw cbSize tlv = Some (b, t) \<and>
    (b \<longrightarrow> m_bTag t = raw ! 0 \<and> m_bTag t \<notin> {0, 0xFF} \<and> m_uTotalSize t \<le> cbSize \<and>
       m_uLen t \<le> m_uTotalSize t \<and>
       m_pbValue t = Some (drop (m_uTotalSize t - m_uLen t) raw))"
proof (cases "cbSize < 2")
  case False
  then have b: "byte_at raw 0 = Some (raw ! 0)" "byte_at raw 1 = Some (raw ! 1)"
    using assms by (auto simp: byte_at_def)
  have l: "\<exists>r. parse_length raw cbSize (raw ! 1) = Some r"
    using assms False by (auto simp: parse_length_def byte_at_def)
  show ?thesis using False b l
    by (auto simp: Parse_def Let_def split: option.splits)
next
  case True
  then show ?thesis by (intro exI [of _ False] exI [of _ tlv]) (simp add: Parse_def)
qed


text \<open>The encoding of an object whose value has fewer than 256 bytes.\<close>

definition encode_tlv :: "u8 \<Rightarrow> u8 list \<Rightarrow> u8 list" where
  "encode_tlv tag v =
     (if length v < 128 then tag # word_of_nat (length v) # v
      else tag # 0x81 # word_of_nat (length v) # v)"

lemma unat_small: "n < 256 \<Longrightarrow> unat (word_of_nat n :: u8) = n"
  by (simp add: unsigned_of_nat take_bit_nat_eq_self)

lemma short_length_bit: "n < 128 \<Longrightarrow> 0x80 AND (word_of_nat n :: u8) \<noteq> 0x80"
proof
  assume n: "n < 128" and e: "0x80 AND (word_of_nat n :: u8) = 0x80"
  have "bit (0x80 AND (word_of_nat n :: u8)) 7" unfolding e by simp
  then have "bit (word_of_nat n :: u8) 7" by (simp add: bit_and_iff)
  then have "bit n 7" by (simp add: bit_simps)
  then show False using n by (simp add: bit_iff_odd div_less)
qed

lemma Parse_encode:
  assumes "tag \<noteq> 0" "tag \<noteq> 0xFF" "length v < 256" "length (encode_tlv tag v) \<le> cbSize"
  shows "\<exists>t. Parse (encode_tlv tag v @ rest) cbSize tlv = Some (True, t) \<and>
    m_bTag t = tag \<and> m_uLen t = length v \<and> m_pbValue t = Some (v @ rest) \<and>
    m_uTotalSize t = length (encode_tlv tag v)"
proof (cases "length v < 128")
  case True
  then show ?thesis using assms short_length_bit [OF True]
    by (simp add: encode_tlv_def Parse_def byte_at_def parse_length_def unat_small Let_def)
next
  case False
  then show ?thesis using assms
    by (simp add: encode_tlv_def Parse_def byte_at_def parse_length_def unat_small Let_def)
qed


text \<open>A command whose details are well formed is recognised, and checked against the profile.\<close>

definition table_bit :: "u8 list \<Rightarrow> u8 \<Rightarrow> bool" where
  "table_bit profile cmd =
     (case find_command cmd of
        None \<Rightarrow> False
      | Some (byteId, _, bitmask) \<Rightarrow> profile ! (byteId - 1) AND bitmask \<noteq> 0)"

lemma find_command_byte: "find_command c = Some (b, x) \<Longrightarrow> b - 1 < MAX_SIZE_PROFILE"
proof -
  assume "find_command c = Some (b, x)"
  then have "(b, x) \<in> set s_proactiveUICCTable"
    by (metis find_command_def find_Some_iff nth_mem)
  moreover have "\<forall>row \<in> set s_proactiveUICCTable. fst row - 1 < MAX_SIZE_PROFILE"
    by (simp add: s_proactiveUICCTable_def MAX_SIZE_PROFILE_def)
  ultimately show ?thesis by auto
qed

lemma length_encode: "length (encode_tlv t v) = length v + (if length v < 128 then 2 else 3)"
  by (simp add: encode_tlv_def)

lemma command_details_encoded:
  assumes "length (m_achTeProfile p) = MAX_SIZE_PROFILE"
    and "length (num # cmd # details) < 256"
    and "length (encode_tlv COMMAND_DETAILS_TAG (num # cmd # details)) \<le> m_uLen t"
    and "m_pbValue t = Some (encode_tlv COMMAND_DETAILS_TAG (num # cmd # details) @ rest)"
    and "\<not> isProactiveCmd info"
  shows "command_details p t info = Some (find_command cmd \<noteq> None,
    \<lparr> uiCommandId = cmd, isProactiveCmd = table_bit (m_achTeProfile p) cmd \<rparr>)"
proof -
  obtain u where u: "Parse (encode_tlv COMMAND_DETAILS_TAG (num # cmd # details) @ rest) (m_uLen t) new_tlv
      = Some (True, u)" "m_bTag u = COMMAND_DETAILS_TAG" "m_uLen u = length (num # cmd # details)"
      "m_pbValue u = Some ((num # cmd # details) @ rest)"
    using Parse_encode [of COMMAND_DETAILS_TAG "num # cmd # details" "m_uLen t" rest new_tlv] assms(2,3)
    by (auto simp: COMMAND_DETAILS_TAG_def)
  have i: "info\<lparr> uiCommandId := cmd \<rparr> = \<lparr> uiCommandId = cmd, isProactiveCmd = False \<rparr>"
    using assms(5) by (cases info) simp
  show ?thesis
  proof (cases "find_command cmd")
    case None
    then show ?thesis using u assms(4)
      by (simp add: command_details_def byte_at_def i table_bit_def)
  next
    case (Some row)
    then obtain b c m where row: "find_command cmd = Some (b, c, m)" by (cases row) auto
    then show ?thesis using u assms(1,4) find_command_byte [OF row]
      by (simp add: command_details_def byte_at_def i table_bit_def)
  qed
qed

text \<open>
  C19. Proactive commands are classified by the terminal profile: for every well formed PDU (a tag,
  a body that starts with the command details, and anything behind them), in its hexadecimal
  form, \<open>ExtractPduInfo\<close> finds the command id, fails exactly when the table does not know the
  command, and otherwise reports whether the profile has the bit the table assigns to it.
\<close>

theorem ExtractPduInfo_command:
  fixes num cmd tag :: u8 and details others :: "u8 list"
  defines "body \<equiv> encode_tlv COMMAND_DETAILS_TAG (num # cmd # details) @ others"
  defines "pdu \<equiv> encode_tlv tag body"
  assumes p: "length (m_achTeProfile p) = MAX_SIZE_PROFILE" and tag: "tag \<noteq> 0" "tag \<noteq> 0xFF"
    and len: "length body < 256"
    and mem: "malloc (length pdu) = Some buf" "length buf = length pdu"
  shows "ExtractPduInfo p malloc (concat (map sprintf_02X pdu)) (2 * length pdu) (Some info) =
    Some (find_command cmd \<noteq> None,
      Some \<lparr> uiCommandId = cmd, isProactiveCmd = table_bit (m_achTeProfile p) cmd \<rparr>)"
proof -
  have e: "extractByteArrayFromString (concat (map sprintf_02X pdu)) (2 * length pdu) buf = Some (True, pdu)"
    using extractByteArrayFromString_loop_hex [of 0 pdu buf 0] mem(2) length_encode [of tag body]
    by (simp add: extractByteArrayFromString_def length_hex_concat pdu_def split: if_splits)
  obtain t where t: "Parse pdu (2 * length pdu) new_tlv = Some (True, t)" "m_uLen t = length body"
      "m_pbValue t = Some body"
    using Parse_encode [OF tag len, of "2 * length pdu" "[]" new_tlv] by (auto simp: pdu_def)
  have d: "length (num # cmd # details) < 256" using len by (simp add: body_def length_encode)
  have "command_details p t \<lparr> uiCommandId = 0, isProactiveCmd = False \<rparr> = Some (find_command cmd \<noteq> None,
      \<lparr> uiCommandId = cmd, isProactiveCmd = table_bit (m_achTeProfile p) cmd \<rparr>)"
    using t by (intro command_details_encoded [OF p d, of t others]) (simp_all add: body_def)
  moreover have "2 \<le> length pdu" by (simp add: pdu_def length_encode)
  ultimately show ?thesis using mem e t by (simp add: ExtractPduInfo_def)
qed


text \<open>
  A truncated PDU is read past its end: for the three bytes \<open>D0 04 81\<close> the parser is given the
  number of hexadecimal digits (6) for the number of bytes, accepts a body of four bytes of
  which one exists, and the search for the command reads beyond the allocated array.
\<close>

theorem truncated_pdu_overread:
  "ExtractPduInfo p (\<lambda>n. Some (replicate n 0)) ''D00481'' 6 (Some info) = None"
proof -
  have "extractByteArrayFromString ''D00481'' 6 [0, 0, 0] = Some (True, [0xD0, 0x04, 0x81])"
    by code_simp
  moreover have "replicate 3 (0 :: u8) = [0, 0, 0]" by (simp add: numeral_3_eq_3)
  ultimately show ?thesis
    by (simp add: ExtractPduInfo_def Parse_def byte_at_def parse_length_def
        command_details_def Let_def)
qed

theorem Parse_in_bounds_witness:
  "\<exists>b t. Parse [0xD0, 0x02, 0x81, 0x03] 4 new_tlv = Some (b, t)"
  using Parse_in_bounds [of 4 "[0xD0, 0x02, 0x81, 0x03]" new_tlv] by auto

theorem ExtractPduInfo_command_witness:
  "ExtractPduInfo \<lparr> m_achTeProfile = replicate 32 0xFF, m_achTeDefaultProfile = [], m_achMtMask = [] \<rparr>
     (\<lambda>n. Some (replicate n 0))
     (concat (map sprintf_02X (encode_tlv 0xD0 (encode_tlv COMMAND_DETAILS_TAG [1, 0x21, 0] @ [2]))))
     (2 * length (encode_tlv 0xD0 (encode_tlv COMMAND_DETAILS_TAG [1, 0x21, 0] @ [2])))
     (Some \<lparr> uiCommandId = 9, isProactiveCmd = False \<rparr>) =
   Some (True, Some \<lparr> uiCommandId = 0x21, isProactiveCmd = True \<rparr>)"
proof -
  have "find_command 0x21 = Some (3, 0x21, 1)" by (simp add: find_command_def s_proactiveUICCTable_def)
  then show ?thesis
    using ExtractPduInfo_command [where tag = "0xD0" and num = 1 and cmd = "0x21" and details = "[0]"
        and others = "[2]" and malloc = "\<lambda>n. Some (replicate n 0)"
        and p = "\<lparr> m_achTeProfile = replicate 32 0xFF, m_achTeDefaultProfile = [], m_achMtMask = [] \<rparr>"]
    by (simp add: MAX_SIZE_PROFILE_def length_encode table_bit_def)
qed

end
