(* ===== verification/Usat.thy ===== *)
theory Usat
  imports CatProfile
begin

text \<open>
  Model of \<open>CORE/usat_init_state_machine.cpp\<close> and \<open>CORE/usat_state.cpp\<close>: the state machine that
  downloads the toolkit profiles when a SIM becomes ready, and the calculation of the profiles.

  The singleton is a record; the object of the current state is a value of \<open>usat_state\<close>. What
  the states ask of the modem (\<open>CTE\<close>) is collected in order. \<open>None\<close> is an access outside an
  array.
\<close>

section \<open>State\<close>

datatype sim_event = SIM_READY | SIM_UNAVAILABLE | PROFILE_READ | SIM_READY_FOR_RESET
  | SIM_READY_TO_ACTIVATE | STK_SERVICE_RUNNING

datatype usat_state = InitState | ProfileConfig | ProfileProcess | UiccReset | WaitingActivate
  | ProfileActivation

datatype te_call =
    ConfigureUsatProfileDownload int int
  | WriteUsatProfiles string bool string bool
  | ResetUicc
  | NotifyUiccReady
  | EnableProfileFacilityHandling

record machine =
  m_currState :: usat_state
  m_pCatProfile :: CCatProfile
  m_addProfileSupport :: int
  m_isReadyForActivation :: bool
  m_isTeWriteNeeded :: bool
  m_pszTeProfileToWrite :: "string option"
  m_ppszProfiles :: "string option list option"
  m_isStkServiceRunning :: bool
  m_uiccState :: int
  m_simEvent :: sim_event
  te_calls :: "te_call list"

definition PROFILE_READ_NUMBER :: nat where "PROFILE_READ_NUMBER = 6"
definition UICC_ACTIVE :: int where "UICC_ACTIVE = 4"
definition TE_PROFILE_STORAGE :: nat where "TE_PROFILE_STORAGE = 0"
definition MT_PROFILE_STORAGE :: nat where "MT_PROFILE_STORAGE = 1"
definition MT_ONLY_PROFILE_STORAGE :: nat where "MT_ONLY_PROFILE_STORAGE = 5"

definition new_machine :: "CCatProfile \<Rightarrow> machine" where
  "new_machine cat = \<lparr> m_currState = InitState, m_pCatProfile = cat, m_addProfileSupport = 0,
     m_isReadyForActivation = False, m_isTeWriteNeeded = False, m_pszTeProfileToWrite = None,
     m_ppszProfiles = None, m_isStkServiceRunning = False, m_uiccState = 0,
     m_simEvent = SIM_UNAVAILABLE, te_calls = [] \<rparr>"

definition call_te :: "te_call \<Rightarrow> machine \<Rightarrow> machine" where
  "call_te c m = m\<lparr> te_calls := te_calls m @ [c] \<rparr>"

definition IsSimResetPossible :: "machine \<Rightarrow> bool" where
  "IsSimResetPossible m \<longleftrightarrow> m_uiccState m \<noteq> UICC_ACTIVE \<or>
     (m_simEvent m \<noteq> SIM_READY_TO_ACTIVATE \<and> m_simEvent m \<noteq> STK_SERVICE_RUNNING)"

section \<open>Calculating the profiles\<close>

definition isValidString :: "string option \<Rightarrow> bool" where
  "isValidString pszStr = (case pszStr of None \<Rightarrow> False | Some s \<Rightarrow> s \<noteq> [])"

definition CompareProfiles :: "string \<Rightarrow> string \<Rightarrow> bool" where
  "CompareProfiles pszProfileRead pszDefaultProfile \<longleftrightarrow> pszProfileRead = pszDefaultProfile"

definition zero_profile :: "u8 list" where
  "zero_profile = replicate MAX_SIZE_PROFILE 0"

definition clear_bits :: "u8 list \<Rightarrow> u8 list \<Rightarrow> u8 list" where
  "clear_bits = map2 (\<lambda>a b. a AND NOT b)"

text \<open>The length check and the extraction every argument goes through; inner \<open>None\<close>: rejected.\<close>

definition profile_bytes :: "string \<Rightarrow> u8 list option option" where
  "profile_bytes s =
     (if length s > MAX_SIZE_PROFILE * 2 then Some None
      else (case extractByteArrayFromString s (length s) zero_profile of
              None \<Rightarrow> None
            | Some (False, _) \<Rightarrow> Some None
            | Some (True, bytes) \<Rightarrow> Some (Some bytes)))"

definition CalculateTeProfile ::
    "string \<Rightarrow> string \<Rightarrow> char list \<Rightarrow> (bool \<times> char list) option" where
  "CalculateTeProfile pszTeProfile pszMtOnlyProfile pszTeCalcProfile =
     (if length pszTeProfile > MAX_SIZE_PROFILE * 2 \<or> length pszMtOnlyProfile > MAX_SIZE_PROFILE * 2
      then Some (False, pszTeCalcProfile)
      else
        (case profile_bytes pszTeProfile of
           None \<Rightarrow> None
         | Some None \<Rightarrow> Some (False, pszTeCalcProfile)
         | Some (Some te) \<Rightarrow>
             (case profile_bytes pszMtOnlyProfile of
                None \<Rightarrow> None
              | Some None \<Rightarrow> Some (False, pszTeCalcProfile)
              | Some (Some mtOnly) \<Rightarrow>
                  convertByteArrayIntoString (clear_bits te mtOnly) MAX_SIZE_PROFILE pszTeCalcProfile)))"

definition CalculateMtProfile ::
    "string \<Rightarrow> string \<Rightarrow> string \<Rightarrow> u8 list \<Rightarrow> char list \<Rightarrow> (bool \<times> char list) option" where
  "CalculateMtProfile pszMtDefProfile pszTeProfile pszMtTeMask achMask pszMtProfile =
     (if length pszMtDefProfile > MAX_SIZE_PROFILE * 2 \<or> length pszTeProfile > MAX_SIZE_PROFILE * 2
         \<or> length pszMtTeMask > MAX_SIZE_PROFILE * 2
      then Some (False, pszMtProfile)
      else
        (case profile_bytes pszMtDefProfile of
           None \<Rightarrow> None
         | Some None \<Rightarrow> Some (False, pszMtProfile)
         | Some (Some mt) \<Rightarrow>
             (case profile_bytes pszTeProfile of
                None \<Rightarrow> None
              | Some None \<Rightarrow> Some (False, pszMtProfile)
              | Some (Some te) \<Rightarrow>
                  (case profile_bytes pszMtTeMask of
                     None \<Rightarrow> None
                   | Some None \<Rightarrow> Some (False, pszMtProfile)
                   | Some (Some both) \<Rightarrow>
                       if length achMask < MAX_SIZE_PROFILE then None
                       else
                         convertByteArrayIntoString
                           (clear_bits (clear_bits mt (clear_bits te both)) achMask)
                           MAX_SIZE_PROFILE pszMtProfile))))"

definition TE_MT_SUPPORTED :: string where
  "TE_MT_SUPPORTED = ''0000800001000000000000FF0000000000000000000000000000000000000000''"

text \<open>
  \<open>ProfileProcess::run\<close>. Result: whether the run ends at the label \<open>Out\<close>, and the machine.
\<close>

definition read_profile :: "string option list \<Rightarrow> nat \<Rightarrow> string option" where
  "read_profile profiles i =
     (if i < length profiles
      then Some (if isValidString (profiles ! i) then the (profiles ! i) else DEFAULT_PROFILE)
      else None)"

definition profile_buffer :: "char list" where
  "profile_buffer = replicate (MAX_SIZE_PROFILE * 2 + 1) NUL"

text \<open>The new TE profile: the machine, whether it must be written, and its text.\<close>

definition process_te ::
    "string \<Rightarrow> string \<Rightarrow> string \<Rightarrow> machine \<Rightarrow> (machine \<times> bool \<times> string) option option" where
  "process_te pszReadTe pszReadMtOnly szDefaultTe m =
     (if CompareProfiles pszReadTe szDefaultTe then Some (Some (m, False, szDefaultTe))
      else
        (case CalculateTeProfile szDefaultTe pszReadMtOnly profile_buffer of
           None \<Rightarrow> None
         | Some (False, _) \<Rightarrow> Some None
         | Some (True, calc) \<Rightarrow>
             (case SetTeProfile (Some (cstr calc)) (length (cstr calc)) (m_pCatProfile m) of
                None \<Rightarrow> None
              | Some (_, cat) \<Rightarrow>
                  Some (Some (m\<lparr> m_pCatProfile := cat \<rparr>,
                          \<not> CompareProfiles (cstr calc) pszReadTe, cstr calc)))))"

definition process_mt ::
    "string \<Rightarrow> machine \<Rightarrow> bool \<Rightarrow> string \<Rightarrow> (bool \<times> machine) option" where
  "process_mt pszReadMt m isTeWriteNeeded szTe =
     (case CalculateMtProfile pszReadMt szTe TE_MT_SUPPORTED (m_achMtMask (m_pCatProfile m)) profile_buffer of
        None \<Rightarrow> None
      | Some (False, _) \<Rightarrow> Some (True, m)
      | Some (True, calc) \<Rightarrow>
          (let isMtWriteNeeded = (\<not> CompareProfiles (cstr calc) pszReadMt)
           in Some (if \<not> isMtWriteNeeded \<and> \<not> isTeWriteNeeded then (True, m)
                    else (False, call_te (WriteUsatProfiles szTe isTeWriteNeeded (cstr calc) isMtWriteNeeded) m))))"

definition process_profiles :: "machine \<Rightarrow> (bool \<times> machine) option" where
  "process_profiles m =
     (case m_ppszProfiles m of
        None \<Rightarrow> Some (True, m)
      | Some profiles \<Rightarrow>
          (case (read_profile profiles TE_PROFILE_STORAGE, read_profile profiles MT_PROFILE_STORAGE,
                 read_profile profiles MT_ONLY_PROFILE_STORAGE) of
             (Some pszReadTe, Some pszReadMt, Some pszReadMtOnly) \<Rightarrow>
               (case SetTeProfile (Some pszReadTe) (length pszReadTe) (m_pCatProfile m) of
                  None \<Rightarrow> None
                | Some (_, cat) \<Rightarrow>
                    (let m = m\<lparr> m_pCatProfile := cat \<rparr> in
                     case convertByteArrayIntoString (m_achTeDefaultProfile cat) MAX_SIZE_PROFILE
                            profile_buffer of
                       None \<Rightarrow> None
                     | Some (False, _) \<Rightarrow> Some (True, m)
                     | Some (True, szDefault) \<Rightarrow>
                         (case process_te pszReadTe pszReadMtOnly (cstr szDefault) m of
                            None \<Rightarrow> None
                          | Some None \<Rightarrow> Some (True, m)
                          | Some (Some (m, isTeWriteNeeded, szTe)) \<Rightarrow>
                              process_mt pszReadMt m isTeWriteNeeded szTe)))
           | _ \<Rightarrow> None))"

section \<open>The machine\<close>

fun CreateNextEvent :: "sim_event \<Rightarrow> usat_state" where
  "CreateNextEvent SIM_UNAVAILABLE = InitState"
| "CreateNextEvent SIM_READY = ProfileConfig"
| "CreateNextEvent PROFILE_READ = ProfileProcess"
| "CreateNextEvent SIM_READY_FOR_RESET = UiccReset"
| "CreateNextEvent SIM_READY_TO_ACTIVATE = WaitingActivate"
| "CreateNextEvent STK_SERVICE_RUNNING = ProfileActivation"

text \<open>How many further states a state can pass on to from its \<open>run\<close>.\<close>

fun rank :: "usat_state \<Rightarrow> nat" where
  "rank InitState = 0"
| "rank ProfileConfig = 0"
| "rank ProfileProcess = 2"
| "rank UiccReset = 2"
| "rank WaitingActivate = 1"
| "rank ProfileActivation = 0"

function (sequential) PassToNextEvent :: "sim_event \<Rightarrow> machine \<Rightarrow> machine option"
  and run :: "usat_state \<Rightarrow> machine \<Rightarrow> machine option" where
  "PassToNextEvent event m =
     run (CreateNextEvent event) (m\<lparr> m_simEvent := event, m_currState := CreateNextEvent event \<rparr>)"
| "run ProfileConfig m = Some (call_te (ConfigureUsatProfileDownload 1 1) m)"
| "run ProfileProcess m =
     (case process_profiles m of
        None \<Rightarrow> None
      | Some (out, m) \<Rightarrow>
          if out \<and> m_isReadyForActivation m \<and> m_uiccState m = UICC_ACTIVE
          then PassToNextEvent SIM_READY_TO_ACTIVATE m else Some m)"
| "run UiccReset m =
     (if m_addProfileSupport m = 0
      then Some (call_te ResetUicc (m\<lparr> m_isReadyForActivation := False, m_isStkServiceRunning := False \<rparr>))
      else if m_isReadyForActivation m \<and> m_uiccState m = UICC_ACTIVE
      then PassToNextEvent SIM_READY_TO_ACTIVATE m else Some m)"
| "run WaitingActivate m =
     (if m_isStkServiceRunning m then PassToNextEvent STK_SERVICE_RUNNING m
      else Some (call_te NotifyUiccReady m))"
| "run ProfileActivation m =
     Some (if m_uiccState m = UICC_ACTIVE
           then call_te EnableProfileFacilityHandling (call_te NotifyUiccReady m) else m)"
| "run InitState m = Some m"
  by pat_completeness auto
termination
  by (relation "measure (\<lambda>x. case x of Inl (e, _) \<Rightarrow> 2 * rank (CreateNextEvent e) + 1
                                       | Inr (s, _) \<Rightarrow> 2 * rank s)") auto

declare PassToNextEvent.simps [simp del]

definition sim_unavailable :: "machine \<Rightarrow> machine option" where
  "sim_unavailable m =
     PassToNextEvent SIM_UNAVAILABLE
       (m\<lparr> m_isReadyForActivation := False, m_isStkServiceRunning := False \<rparr>)"

text \<open>The virtual event handlers: a state that does not override one ignores the event.\<close>

definition SimReady :: "machine \<Rightarrow> machine option" where
  "SimReady m = (if m_currState m = InitState then PassToNextEvent SIM_READY m else Some m)"

definition SimUnavailable :: "machine \<Rightarrow> machine option" where
  "SimUnavailable m =
     (if m_currState m \<in> {ProfileConfig, ProfileProcess, WaitingActivate, ProfileActivation}
      then sim_unavailable m else Some m)"

definition ProfileRead :: "machine \<Rightarrow> machine option" where
  "ProfileRead m = (if m_currState m = ProfileConfig then PassToNextEvent PROFILE_READ m else Some m)"

definition SimReadyForReset :: "machine \<Rightarrow> machine option" where
  "SimReadyForReset m =
     (if m_currState m = ProfileProcess then PassToNextEvent SIM_READY_FOR_RESET m else Some m)"

definition SimReadyToActivate :: "machine \<Rightarrow> machine option" where
  "SimReadyToActivate m =
     (if m_currState m \<in> {ProfileProcess, UiccReset}
      then PassToNextEvent SIM_READY_TO_ACTIVATE m else Some m)"

definition ProfileToActivate :: "machine \<Rightarrow> machine option" where
  "ProfileToActivate m =
     (if m_currState m = WaitingActivate then PassToNextEvent STK_SERVICE_RUNNING m else Some m)"

definition ProcessNextEvent :: "machine \<Rightarrow> sim_event \<Rightarrow> machine option" where
  "ProcessNextEvent m event =
     (case event of
        SIM_READY \<Rightarrow> SimReady m
      | SIM_UNAVAILABLE \<Rightarrow> SimUnavailable m
      | PROFILE_READ \<Rightarrow> ProfileRead m
      | SIM_READY_FOR_RESET \<Rightarrow> SimReadyForReset m
      | SIM_READY_TO_ACTIVATE \<Rightarrow> SimReadyToActivate (m\<lparr> m_isReadyForActivation := True \<rparr>)
      | STK_SERVICE_RUNNING \<Rightarrow> ProfileToActivate (m\<lparr> m_isStkServiceRunning := True \<rparr>))"

text \<open>\<open>SendEvent\<close> runs the handler under the lock of the machine.\<close>

definition SendEvent :: "sim_event \<Rightarrow> machine \<Rightarrow> machine option" where
  "SendEvent event m = ProcessNextEvent m event"

lemmas SendEvent_defs = SendEvent_def ProcessNextEvent_def SimReady_def SimUnavailable_def ProfileRead_def
  SimReadyForReset_def SimReadyToActivate_def ProfileToActivate_def sim_unavailable_def

inductive usat_step :: "machine \<Rightarrow> machine \<Rightarrow> bool" where
  send: "SendEvent e m = Some m' \<Longrightarrow> usat_step m m'"
| SetUiccState: "usat_step m (m\<lparr> m_uiccState := s \<rparr>)"
| SetAddProfileSupport: "usat_step m (m\<lparr> m_addProfileSupport := k \<rparr>)"
| SetProfileArray: "length ps = PROFILE_READ_NUMBER \<Longrightarrow> usat_step m (m\<lparr> m_ppszProfiles := Some ps \<rparr>)"
| SetTeWriteNeeded: "usat_step m (m\<lparr> m_isTeWriteNeeded := b \<rparr>)"
| SetTeProfileToWrite: "usat_step m (m\<lparr> m_pszTeProfileToWrite := Some s \<rparr>)"

inductive_cases usat_stepE: "usat_step m m'"

inductive reachable :: "CCatProfile \<Rightarrow> machine \<Rightarrow> bool" for cat where
  init: "reachable cat (new_machine cat)"
| step: "reachable cat m \<Longrightarrow> usat_step m m' \<Longrightarrow> reachable cat m'"

section \<open>The calculation\<close>

definition hex :: "u8 list \<Rightarrow> string" where
  "hex bs = concat (map sprintf_02X bs)"

lemma length_hex [simp]: "length (hex bs) = 2 * length bs"
  by (simp add: hex_def length_hex_concat)

lemma NUL_hex: "NUL \<notin> set (hex bs)"
proof -
  have "NUL \<noteq> hex_char (unat b div 16) \<and> NUL \<noteq> hex_char (unat b mod 16)" for b :: u8
    using hex_char_props [of "unat b div 16"] hex_char_props [of "unat b mod 16"]
      unat_less_256 [of b] by fastforce
  then show ?thesis by (auto simp only: hex_def sprintf_02X_def set_concat set_map set_simps UN_iff image_iff
        insert_iff empty_iff)
qed

lemma extract_hex:
  "bs \<noteq> [] \<Longrightarrow> length bs \<le> length arr \<Longrightarrow>
    extractByteArrayFromString (hex bs) (2 * length bs) arr = Some (True, bs @ drop (length bs) arr)"
  using extractByteArrayFromString_loop_hex [of 0 bs arr 0]
  by (simp add: extractByteArrayFromString_def hex_def length_hex_concat)

lemma profile_bytes_hex:
  "length bs = MAX_SIZE_PROFILE \<Longrightarrow> profile_bytes (hex bs) = Some (Some bs)"
proof -
  assume l: "length bs = MAX_SIZE_PROFILE"
  then have "bs \<noteq> []" by (auto simp: MAX_SIZE_PROFILE_def)
  with extract_hex [of bs zero_profile] l show ?thesis
    by (simp add: profile_bytes_def zero_profile_def MAX_SIZE_PROFILE_def)
qed

lemma convert_profile:
  assumes "length bs = MAX_SIZE_PROFILE"
  shows "\<exists>out. convertByteArrayIntoString bs MAX_SIZE_PROFILE profile_buffer = Some (True, out) \<and>
    cstr out = hex bs"
proof -
  have "bs \<noteq> []" using assms by (auto simp: MAX_SIZE_PROFILE_def)
  then have "convertByteArrayIntoString bs MAX_SIZE_PROFILE profile_buffer = Some (True, hex bs @ [NUL])"
    using convertByteArrayIntoString_loop_spec [of 0 bs profile_buffer] assms
    by (simp add: convertByteArrayIntoString_def profile_buffer_def MAX_SIZE_PROFILE_def hex_def)
  then show ?thesis using cstr_append_NUL [OF NUL_hex, of bs "[]"] by simp
qed

lemma length_clear_bits [simp]: "length (clear_bits a b) = min (length a) (length b)"
  by (simp add: clear_bits_def)

lemma nth_clear_bits:
  "i < length a \<Longrightarrow> i < length b \<Longrightarrow> clear_bits a b ! i = a ! i AND NOT (b ! i)"
  by (simp add: clear_bits_def)

lemma CalculateTeProfile_hex:
  assumes "length te = MAX_SIZE_PROFILE" "length mtOnly = MAX_SIZE_PROFILE"
  shows "\<exists>out. CalculateTeProfile (hex te) (hex mtOnly) profile_buffer = Some (True, out) \<and>
    cstr out = hex (clear_bits te mtOnly)"
  using convert_profile [of "clear_bits te mtOnly"] assms
  by (simp add: CalculateTeProfile_def profile_bytes_hex)

definition te_mt_bytes :: "u8 list" where
  "te_mt_bytes = [0, 0, 0x80, 0, 1, 0, 0, 0, 0, 0, 0, 0xFF, 0, 0, 0, 0,
     0, 0, 0, 0, 0, 0, 0, 0, 0, 0, 0, 0, 0, 0, 0, 0]"

lemma TE_MT_SUPPORTED_hex: "TE_MT_SUPPORTED = hex te_mt_bytes"
  by code_simp

lemma CalculateMtProfile_hex:
  assumes "length mt = MAX_SIZE_PROFILE" "length teb = MAX_SIZE_PROFILE" "length msk = MAX_SIZE_PROFILE"
  shows "\<exists>out. CalculateMtProfile (hex mt) (hex teb) TE_MT_SUPPORTED msk profile_buffer = Some (True, out) \<and>
    cstr out = hex (clear_bits (clear_bits mt (clear_bits teb te_mt_bytes)) msk)"
proof -
  have l: "length te_mt_bytes = MAX_SIZE_PROFILE" by (simp add: te_mt_bytes_def MAX_SIZE_PROFILE_def)
  show ?thesis
    using convert_profile [of "clear_bits (clear_bits mt (clear_bits teb te_mt_bytes)) msk"] assms l
    unfolding TE_MT_SUPPORTED_hex
    by (simp add: CalculateMtProfile_def profile_bytes_hex)
qed

lemma hex_inj: "length a = length b \<Longrightarrow> hex a = hex b \<Longrightarrow> a = b"
proof (cases "a = []")
  case False
  assume l: "length a = length b" and h: "hex a = hex b"
  have e: "extractByteArrayFromString (hex a) (2 * length a) a = Some (True, a)"
    using extract_hex [of a a] False by simp
  have b: "b \<noteq> []" using False l by (metis length_0_conv)
  have "drop (length b) a = []" using l by simp
  then have "extractByteArrayFromString (hex b) (2 * length b) a = Some (True, b)"
    using extract_hex [OF b, of a] l by simp
  with e [unfolded h l] show "a = b" by simp
qed simp

section \<open>Invariants of the machine\<close>

text \<open>
  The recorded event is the one that led to the current state; the machine waits for the service
  only while it is not running, and activates the profiles only once it runs.
\<close>

definition machine_ok :: "machine \<Rightarrow> bool" where
  "machine_ok m \<longleftrightarrow> m_currState m = CreateNextEvent (m_simEvent m) \<and>
     (m_currState m = WaitingActivate \<longrightarrow> \<not> m_isStkServiceRunning m) \<and>
     (m_currState m = ProfileActivation \<longrightarrow> m_isStkServiceRunning m)"

lemma call_te_frame [simp]:
  "m_currState (call_te c m) = m_currState m" "m_simEvent (call_te c m) = m_simEvent m"
  "m_isStkServiceRunning (call_te c m) = m_isStkServiceRunning m"
  "m_isReadyForActivation (call_te c m) = m_isReadyForActivation m"
  "m_uiccState (call_te c m) = m_uiccState m" "m_addProfileSupport (call_te c m) = m_addProfileSupport m"
  by (simp_all add: call_te_def)

definition same_state :: "machine \<Rightarrow> machine \<Rightarrow> bool" where
  "same_state m m' \<longleftrightarrow> m_currState m' = m_currState m \<and> m_simEvent m' = m_simEvent m \<and>
    m_isStkServiceRunning m' = m_isStkServiceRunning m"

lemma process_te_frame:
  "process_te a b c m = Some (Some (m', w, t)) \<Longrightarrow> same_state m m'"
  by (auto simp: process_te_def same_state_def split: if_splits option.splits prod.splits bool.splits)

lemma process_mt_frame: "process_mt a m w t = Some (b, m') \<Longrightarrow> same_state m m'"
  by (auto simp: process_mt_def same_state_def Let_def split: if_splits option.splits prod.splits bool.splits)

lemma process_profiles_frame:
  assumes "process_profiles m = Some (b, m')"
  shows "same_state m m'"
proof (cases "m_ppszProfiles m")
  case None
  then show ?thesis using assms by (simp add: process_profiles_def same_state_def)
next
  case (Some profiles)
  have cat: "same_state m (m\<lparr> m_pCatProfile := cat \<rparr>)" for cat by (simp add: same_state_def)
  have trans: "same_state m m1 \<Longrightarrow> same_state m1 m2 \<Longrightarrow> same_state m m2" for m1 m2
    by (simp add: same_state_def)
  show ?thesis
    using assms Some cat
    by (auto simp: process_profiles_def Let_def split: option.splits prod.splits bool.splits
        dest!: process_te_frame process_mt_frame) (blast intro: trans cat)+
qed

text \<open>The state an event passes to is settled, whatever chain of runs follows.\<close>

lemma pass_STK: "PassToNextEvent STK_SERVICE_RUNNING m = Some m1 \<Longrightarrow> m_isStkServiceRunning m \<Longrightarrow> machine_ok m1"
  by (auto simp: PassToNextEvent.simps machine_ok_def split: if_splits)

lemma pass_ACTIVATE: "PassToNextEvent SIM_READY_TO_ACTIVATE m = Some m1 \<Longrightarrow> machine_ok m1"
  by (simp add: PassToNextEvent.simps [of SIM_READY_TO_ACTIVATE] split: if_splits)
    (auto simp: machine_ok_def dest: pass_STK [unfolded machine_ok_def])

lemma pass_RESET: "PassToNextEvent SIM_READY_FOR_RESET m = Some m1 \<Longrightarrow> machine_ok m1"
  by (simp add: PassToNextEvent.simps [of SIM_READY_FOR_RESET] split: if_splits)
    (auto simp: machine_ok_def dest: pass_ACTIVATE [unfolded machine_ok_def])

lemma pass_READ: "PassToNextEvent PROFILE_READ m = Some m1 \<Longrightarrow> machine_ok m1"
  by (auto simp: PassToNextEvent.simps [of PROFILE_READ] same_state_def machine_ok_def
      split: if_splits option.splits prod.splits dest!: process_profiles_frame
      dest: pass_ACTIVATE [unfolded machine_ok_def])

lemma pass_SIM: "PassToNextEvent SIM_READY m = Some m1 \<Longrightarrow> machine_ok m1"
  "PassToNextEvent SIM_UNAVAILABLE m = Some m1 \<Longrightarrow> machine_ok m1"
  by (auto simp: PassToNextEvent.simps machine_ok_def)

lemmas settled = pass_STK pass_ACTIVATE pass_RESET pass_READ pass_SIM

lemma machine_ok_flags [simp]:
  "machine_ok (m\<lparr> m_isReadyForActivation := r \<rparr>) = machine_ok m"
  "machine_ok (m\<lparr> m_uiccState := u \<rparr>) = machine_ok m"
  "machine_ok (m\<lparr> m_addProfileSupport := k \<rparr>) = machine_ok m"
  "machine_ok (m\<lparr> m_ppszProfiles := ps \<rparr>) = machine_ok m"
  "machine_ok (m\<lparr> m_isTeWriteNeeded := w \<rparr>) = machine_ok m"
  "machine_ok (m\<lparr> m_pszTeProfileToWrite := t \<rparr>) = machine_ok m"
  by (simp_all add: machine_ok_def)

lemma machine_ok_stk: "machine_ok m \<Longrightarrow> m_currState m \<noteq> WaitingActivate \<Longrightarrow>
    machine_ok (m\<lparr> m_isStkServiceRunning := True \<rparr>)"
  by (simp add: machine_ok_def)

lemma SendEvent_ok:
  assumes "machine_ok m" "SendEvent e m = Some m'"
  shows "machine_ok m'"
proof (cases e)
  case STK_SERVICE_RUNNING
  then show ?thesis using assms
    by (cases "m_currState m = WaitingActivate") (auto simp: SendEvent_defs Let_def intro: settled machine_ok_stk)
qed (use assms in \<open>auto simp: SendEvent_defs Let_def split: if_splits intro: settled\<close>)

lemma usat_step_ok: "usat_step m m' \<Longrightarrow> machine_ok m \<Longrightarrow> machine_ok m'"
  by (induction rule: usat_step.induct) (auto intro: SendEvent_ok)

lemma reachable_ok: "reachable cat m \<Longrightarrow> machine_ok m"
proof (induction rule: reachable.induct)
  case init
  show ?case by (simp add: machine_ok_def new_machine_def)
next
  case (step m m')
  then show ?case by (rule_tac usat_step_ok)
qed

text \<open>
  A SIM reset is refused exactly while it would disturb the activation: in every reachable
  state \<open>IsSimResetPossible\<close> says no if and only if the UICC is active and the machine is
  waiting for the activation or has activated the profile.
\<close>

theorem reachable_reset:
  assumes "reachable cat m"
  shows "IsSimResetPossible m \<longleftrightarrow>
    m_uiccState m \<noteq> UICC_ACTIVE \<or> m_currState m \<notin> {WaitingActivate, ProfileActivation}"
  using reachable_ok [OF assms]
  by (cases "m_simEvent m") (auto simp: IsSimResetPossible_def machine_ok_def)


section \<open>No event faults\<close>

lemma extract_loop_total:
  "i + length s div 2 \<le> length arr \<Longrightarrow>
    \<exists>b arr'. extractByteArrayFromString_loop s v i arr = Some (b, arr') \<and> length arr' = length arr"
proof (induction s v i arr rule: extractByteArrayFromString_loop.induct)
  case (1 a b s v i arr)
  show ?case
  proof (cases "sscanf_02x (cstr [a, b])")
    case ScanFail
    with 1 show ?thesis by (auto simp: Let_def)
  next
    case (ScanVal x)
    with 1 show ?thesis by (auto simp: Let_def)
  qed (use 1 in simp)
qed auto

lemma extract_total:
  assumes "s \<noteq> []" "length s div 2 \<le> length arr"
  shows "\<exists>b arr'. extractByteArrayFromString s (length s) arr = Some (b, arr') \<and> length arr' = length arr"
  using extract_loop_total [of 0 s arr 0] assms by (simp add: extractByteArrayFromString_def)

definition cat_ok :: "CCatProfile \<Rightarrow> bool" where
  "cat_ok p \<longleftrightarrow> length (m_achTeProfile p) = MAX_SIZE_PROFILE \<and>
     length (m_achTeDefaultProfile p) = MAX_SIZE_PROFILE \<and> length (m_achMtMask p) = MAX_SIZE_PROFILE"

lemma SetTeProfile_total:
  assumes "cat_ok p" "s \<noteq> []"
  shows "\<exists>b p'. SetTeProfile (Some s) (length s) p = Some (b, p') \<and> cat_ok p' \<and>
    m_achTeDefaultProfile p' = m_achTeDefaultProfile p \<and> m_achMtMask p' = m_achMtMask p"
proof (cases "length s > MAX_SIZE_PROFILE * 2")
  case True
  then show ?thesis using assms(1)
    by (intro exI [of _ False] exI [of _ p]) (simp add: SetTeProfile_def SetByteArray_def)
next
  case False
  then have "length s div 2 \<le> MAX_SIZE_PROFILE" by simp
  then obtain b a where "extractByteArrayFromString s (length s) (m_achTeProfile p) = Some (b, a)"
    "length a = MAX_SIZE_PROFILE"
    using extract_total [OF assms(2), of "m_achTeProfile p"] assms(1) by (auto simp: cat_ok_def)
  then show ?thesis using False assms(1)
    by (intro exI [of _ b] exI [of _ "p\<lparr> m_achTeProfile := a \<rparr>"])
      (simp add: SetTeProfile_def SetByteArray_def cat_ok_def)
qed

lemma profile_bytes_total:
  "s \<noteq> [] \<Longrightarrow> \<exists>r. profile_bytes s = Some r \<and> (\<forall>b. r = Some b \<longrightarrow> length b = MAX_SIZE_PROFILE)"
proof (cases "length s > MAX_SIZE_PROFILE * 2")
  case False
  assume "s \<noteq> []"
  moreover have "length s div 2 \<le> length zero_profile" using False by (simp add: zero_profile_def)
  ultimately obtain b a where e: "extractByteArrayFromString s (length s) zero_profile = Some (b, a)"
    "length a = length zero_profile" using extract_total by blast
  then have "length a = MAX_SIZE_PROFILE" by (simp add: zero_profile_def)
  note e = e(1) this
  from e show ?thesis using False by (cases b) (simp_all add: profile_bytes_def)
qed (simp add: profile_bytes_def)

lemma hex_not_empty: "length bs = MAX_SIZE_PROFILE \<Longrightarrow> hex bs \<noteq> []"
  using length_hex [of bs] by (auto simp: MAX_SIZE_PROFILE_def simp del: length_hex)

lemma CalculateTeProfile_total:
  assumes "s \<noteq> []" "t \<noteq> []"
  shows "\<exists>b out. CalculateTeProfile s t profile_buffer = Some (b, out) \<and> (b \<longrightarrow> cstr out \<noteq> [])"
proof -
  obtain r1 r2 where r: "profile_bytes s = Some r1" "profile_bytes t = Some r2"
    "\<forall>b. r1 = Some b \<longrightarrow> length b = MAX_SIZE_PROFILE" "\<forall>b. r2 = Some b \<longrightarrow> length b = MAX_SIZE_PROFILE"
    using profile_bytes_total assms by meson
  have ne: "hex (clear_bits a b) \<noteq> []" if "r1 = Some a" "r2 = Some b" for a b
    using that r(3,4) by (intro hex_not_empty) simp
  have rej: "CalculateTeProfile s t profile_buffer = Some (False, profile_buffer)"
    if "MAX_SIZE_PROFILE * 2 < length s \<or> MAX_SIZE_PROFILE * 2 < length t \<or> r1 = None \<or> r2 = None"
    using that r(1,2) by (auto simp: CalculateTeProfile_def split: option.splits)
  have calc: "CalculateTeProfile s t profile_buffer =
      convertByteArrayIntoString (clear_bits a b) MAX_SIZE_PROFILE profile_buffer"
    if "\<not> (MAX_SIZE_PROFILE * 2 < length s \<or> MAX_SIZE_PROFILE * 2 < length t)" "r1 = Some a" "r2 = Some b" for a b
    using that r(1,2) by (simp add: CalculateTeProfile_def)
  consider "MAX_SIZE_PROFILE * 2 < length s \<or> MAX_SIZE_PROFILE * 2 < length t \<or> r1 = None \<or> r2 = None"
    | a b where "\<not> (MAX_SIZE_PROFILE * 2 < length s \<or> MAX_SIZE_PROFILE * 2 < length t)" "r1 = Some a" "r2 = Some b"
    by (cases r1; cases r2) auto
  then show ?thesis
  proof cases
    case 1
    then show ?thesis using rej by auto
  next
    case (2 a b)
    then show ?thesis using convert_profile [of "clear_bits a b"] r(3,4) ne [OF 2(2,3)] calc [OF 2] by auto
  qed
qed

lemma CalculateMtProfile_total:
  assumes "s \<noteq> []" "t \<noteq> []" "length msk = MAX_SIZE_PROFILE"
  shows "\<exists>b out. CalculateMtProfile s t TE_MT_SUPPORTED msk profile_buffer = Some (b, out)"
proof -
  obtain r1 r2 where r: "profile_bytes s = Some r1" "profile_bytes t = Some r2"
    "\<forall>b. r1 = Some b \<longrightarrow> length b = MAX_SIZE_PROFILE" "\<forall>b. r2 = Some b \<longrightarrow> length b = MAX_SIZE_PROFILE"
    using profile_bytes_total assms by meson
  have l: "length te_mt_bytes = MAX_SIZE_PROFILE" by (simp add: te_mt_bytes_def MAX_SIZE_PROFILE_def)
  have rej: "CalculateMtProfile s t TE_MT_SUPPORTED msk profile_buffer = Some (False, profile_buffer)"
    if "MAX_SIZE_PROFILE * 2 < length s \<or> MAX_SIZE_PROFILE * 2 < length t \<or> r1 = None \<or> r2 = None"
    using that r(1,2) assms(3) l by (auto simp: CalculateMtProfile_def TE_MT_SUPPORTED_hex profile_bytes_hex split: option.splits)
  have calc: "CalculateMtProfile s t TE_MT_SUPPORTED msk profile_buffer =
      convertByteArrayIntoString
        (clear_bits (clear_bits a (clear_bits b te_mt_bytes)) msk) MAX_SIZE_PROFILE profile_buffer"
    if "\<not> (MAX_SIZE_PROFILE * 2 < length s \<or> MAX_SIZE_PROFILE * 2 < length t)" "r1 = Some a" "r2 = Some b" for a b
    using that r(1,2) assms(3) l by (simp add: CalculateMtProfile_def TE_MT_SUPPORTED_hex profile_bytes_hex)
  consider "MAX_SIZE_PROFILE * 2 < length s \<or> MAX_SIZE_PROFILE * 2 < length t \<or> r1 = None \<or> r2 = None"
    | a b where "\<not> (MAX_SIZE_PROFILE * 2 < length s \<or> MAX_SIZE_PROFILE * 2 < length t)" "r1 = Some a" "r2 = Some b"
    by (cases r1; cases r2) auto
  then show ?thesis
  proof cases
    case 1
    then show ?thesis using rej by auto
  next
    case (2 a b)
    then show ?thesis
      using convert_profile [of "clear_bits (clear_bits a (clear_bits b te_mt_bytes)) msk"] r(3,4) assms(3) l
        calc [OF 2] by auto
  qed
qed

definition profiles_ok :: "machine \<Rightarrow> bool" where
  "profiles_ok m \<longleftrightarrow> cat_ok (m_pCatProfile m) \<and>
     (\<forall>ps. m_ppszProfiles m = Some ps \<longrightarrow> length ps = PROFILE_READ_NUMBER)"

lemma read_profile_total:
  assumes "length ps = PROFILE_READ_NUMBER" "i < PROFILE_READ_NUMBER"
  shows "\<exists>s. read_profile ps i = Some s \<and> s \<noteq> []"
  using assms by (auto simp: read_profile_def isValidString_def DEFAULT_PROFILE_def split: option.splits)

lemma process_te_total:
  assumes m: "profiles_ok m" and s: "a \<noteq> []" "b \<noteq> []" "d \<noteq> []"
  shows "\<exists>r. process_te a b d m = Some r \<and>
    (\<forall>m' w t. r = Some (m', w, t) \<longrightarrow> profiles_ok m' \<and> t \<noteq> [])"
proof (cases "CompareProfiles a d")
  case True
  then show ?thesis using m s by (simp add: process_te_def)
next
  case False
  obtain ok out where c: "CalculateTeProfile d b profile_buffer = Some (ok, out)" "ok \<longrightarrow> cstr out \<noteq> []"
    using CalculateTeProfile_total [OF s(3,2)] by blast
  show ?thesis
  proof (cases ok)
    case True
    then obtain b1 p where "SetTeProfile (Some (cstr out)) (length (cstr out)) (m_pCatProfile m) = Some (b1, p)"
      "cat_ok p" using SetTeProfile_total [of "m_pCatProfile m" "cstr out"] m c by (auto simp: profiles_ok_def)
    then show ?thesis using True False c m by (auto simp: process_te_def profiles_ok_def)
  qed (use False c in \<open>simp add: process_te_def\<close>)
qed

lemma process_mt_total:
  assumes "profiles_ok m" "a \<noteq> []" "t \<noteq> []"
  shows "\<exists>b m'. process_mt a m w t = Some (b, m') \<and> profiles_ok m'"
proof -
  obtain ok out where c: "CalculateMtProfile a t TE_MT_SUPPORTED (m_achMtMask (m_pCatProfile m)) profile_buffer
      = Some (ok, out)" using CalculateMtProfile_total assms by (metis profiles_ok_def cat_ok_def)
  have "profiles_ok (call_te x m)" for x using assms(1) by (simp add: profiles_ok_def call_te_def)
  then show ?thesis using c assms(1) by (cases ok) (auto simp: process_mt_def Let_def)
qed

lemma process_profiles_total:
  assumes m: "profiles_ok m"
  shows "\<exists>b m'. process_profiles m = Some (b, m') \<and> profiles_ok m'"
proof (cases "m_ppszProfiles m")
  case None
  then show ?thesis using m by (simp add: process_profiles_def)
next
  case (Some ps)
  then have l: "length ps = PROFILE_READ_NUMBER" using m by (simp add: profiles_ok_def)
  obtain a where a: "read_profile ps TE_PROFILE_STORAGE = Some a" "a \<noteq> []"
    using read_profile_total [OF l, of TE_PROFILE_STORAGE] by (auto simp: TE_PROFILE_STORAGE_def PROFILE_READ_NUMBER_def)
  obtain b where b: "read_profile ps MT_PROFILE_STORAGE = Some b" "b \<noteq> []"
    using read_profile_total [OF l, of MT_PROFILE_STORAGE] by (auto simp: MT_PROFILE_STORAGE_def PROFILE_READ_NUMBER_def)
  obtain c where c: "read_profile ps MT_ONLY_PROFILE_STORAGE = Some c" "c \<noteq> []"
    using read_profile_total [OF l, of MT_ONLY_PROFILE_STORAGE]
    by (auto simp: MT_ONLY_PROFILE_STORAGE_def PROFILE_READ_NUMBER_def)
  obtain ok cat where cat: "SetTeProfile (Some a) (length a) (m_pCatProfile m) = Some (ok, cat)" "cat_ok cat"
    using SetTeProfile_total [of "m_pCatProfile m" a] a m by (auto simp: profiles_ok_def)
  let ?m = "m\<lparr> m_pCatProfile := cat \<rparr>"
  have m': "profiles_ok ?m" using m cat by (simp add: profiles_ok_def)
  obtain out where d: "convertByteArrayIntoString (m_achTeDefaultProfile cat) MAX_SIZE_PROFILE profile_buffer
      = Some (True, out)" "cstr out \<noteq> []"
    using convert_profile [of "m_achTeDefaultProfile cat"] cat(2) hex_not_empty by (auto simp: cat_ok_def)
  obtain r where r: "process_te a c (cstr out) ?m = Some r"
    "\<forall>m' w t. r = Some (m', w, t) \<longrightarrow> profiles_ok m' \<and> t \<noteq> []"
    using process_te_total [OF m' a(2) c(2) d(2)] by blast
  show ?thesis
  proof (cases r)
    case None
    then show ?thesis using Some a b c cat d r m' by (simp add: process_profiles_def)
  next
    case (Some x)
    obtain m2 w t where x: "x = (m2, w, t)" by (cases x) auto
    obtain e m3 where "process_mt b m2 w t = Some (e, m3)" "profiles_ok m3"
      using process_mt_total [of m2 b t w] r Some x b by auto
    then show ?thesis using \<open>m_ppszProfiles m = Some ps\<close> a b c cat d r Some x
      by (simp add: process_profiles_def)
  qed
qed


text \<open>An event is always handled: no array is left, and the chain of states ends.\<close>

lemma profiles_ok_frame [simp]:
  "profiles_ok (m\<lparr> m_currState := s \<rparr>) = profiles_ok m" "profiles_ok (m\<lparr> m_simEvent := e \<rparr>) = profiles_ok m"
  "profiles_ok (m\<lparr> m_isReadyForActivation := r \<rparr>) = profiles_ok m"
  "profiles_ok (m\<lparr> m_isStkServiceRunning := k \<rparr>) = profiles_ok m"
  "profiles_ok (m\<lparr> m_uiccState := u \<rparr>) = profiles_ok m"
  "profiles_ok (m\<lparr> m_addProfileSupport := a \<rparr>) = profiles_ok m"
  "profiles_ok (m\<lparr> m_isTeWriteNeeded := w \<rparr>) = profiles_ok m"
  "profiles_ok (m\<lparr> m_pszTeProfileToWrite := t \<rparr>) = profiles_ok m"
  "profiles_ok (call_te c m) = profiles_ok m"
  by (simp_all add: profiles_ok_def call_te_def)

lemma PassToNextEvent_total:
  "profiles_ok m \<Longrightarrow> \<exists>m'. PassToNextEvent e m = Some m' \<and> profiles_ok m'"
  "profiles_ok m \<Longrightarrow> \<exists>m'. run s m = Some m' \<and> profiles_ok m'"
proof (induction e m and s m rule: PassToNextEvent_run.induct)
  case (1 event m)
  then show ?case by (simp add: PassToNextEvent.simps)
next
  case (3 m)
  from process_profiles_total [OF "3.prems"] obtain b m1 where
    1: "process_profiles m = Some (b, m1)" "profiles_ok m1" by blast
  show ?case
  proof (cases "b \<and> m_isReadyForActivation m1 \<and> m_uiccState m1 = UICC_ACTIVE")
    case True
    with "3.IH" [OF 1(1) refl True 1(2)] 1(1) show ?thesis by simp
  next
    case False
    with 1 show ?thesis by auto
  qed
qed auto

lemma SendEvent_total:
  assumes "profiles_ok m"
  shows "\<exists>m'. SendEvent e m = Some m' \<and> profiles_ok m'"
  using assms PassToNextEvent_total(1)
  by (cases e) (auto simp: SendEvent_defs Let_def)

lemma reachable_profiles_ok: "reachable cat m \<Longrightarrow> cat_ok cat \<Longrightarrow> profiles_ok m"
proof (induction rule: reachable.induct)
  case init
  then show ?case by (simp add: profiles_ok_def new_machine_def)
next
  case (step m m')
  then have ok: "profiles_ok m" by simp
  from step.hyps(2) show ?case
  proof (cases rule: usat_step.cases)
    case (send e)
    with SendEvent_total [OF ok, of e] show ?thesis by simp
  qed (use ok in \<open>simp_all add: profiles_ok_def\<close>)
qed

section \<open>What is written\<close>

definition new_te :: "u8 list \<Rightarrow> u8 list \<Rightarrow> u8 list \<Rightarrow> u8 list" where
  "new_te readTe mtOnly defaultTe =
     (if readTe = defaultTe then defaultTe else clear_bits defaultTe mtOnly)"

definition new_mt :: "u8 list \<Rightarrow> u8 list \<Rightarrow> u8 list \<Rightarrow> u8 list" where
  "new_mt readMt te msk = clear_bits (clear_bits readMt (clear_bits te te_mt_bytes)) msk"

lemma read_profile_hex:
  "ps ! i = Some (hex bs) \<Longrightarrow> length bs = MAX_SIZE_PROFILE \<Longrightarrow> i < length ps \<Longrightarrow>
    read_profile ps i = Some (hex bs)"
  using hex_not_empty [of bs] by (simp add: read_profile_def isValidString_def)

lemma process_te_hex:
  assumes "length readTe = MAX_SIZE_PROFILE" "length mtOnly = MAX_SIZE_PROFILE" "length dflt = MAX_SIZE_PROFILE"
    and cat: "cat_ok (m_pCatProfile m)"
  shows "\<exists>cat'. process_te (hex readTe) (hex mtOnly) (hex dflt) m =
      Some (Some (m\<lparr> m_pCatProfile := cat' \<rparr>, new_te readTe mtOnly dflt \<noteq> readTe,
        hex (new_te readTe mtOnly dflt))) \<and>
    m_achMtMask cat' = m_achMtMask (m_pCatProfile m) \<and> cat_ok cat'"
proof (cases "readTe = dflt")
  case True
  then show ?thesis using cat
    by (intro exI [of _ "m_pCatProfile m"]) (simp add: process_te_def CompareProfiles_def new_te_def)
next
  case False
  then have c: "hex readTe \<noteq> hex dflt" using hex_inj [of readTe dflt] assms by auto
  let ?n = "clear_bits dflt mtOnly"
  obtain out where o: "CalculateTeProfile (hex dflt) (hex mtOnly) profile_buffer = Some (True, out)"
    "cstr out = hex ?n" using CalculateTeProfile_hex assms by blast
  have l: "length ?n = MAX_SIZE_PROFILE" using assms by simp
  obtain b p where p: "SetTeProfile (Some (hex ?n)) (length (hex ?n)) (m_pCatProfile m) = Some (b, p)"
    "cat_ok p" "m_achMtMask p = m_achMtMask (m_pCatProfile m)"
    using SetTeProfile_total [OF cat hex_not_empty [OF l]] by blast
  have "(hex ?n = hex readTe) = (?n = readTe)" using hex_inj [of ?n readTe] l assms by auto
  then show ?thesis using c o p False
    by (intro exI [of _ p]) (simp add: process_te_def CompareProfiles_def new_te_def)
qed

lemma process_mt_hex:
  assumes "length readMt = MAX_SIZE_PROFILE" "length teb = MAX_SIZE_PROFILE"
    and cat: "cat_ok (m_pCatProfile m)"
  shows "process_mt (hex readMt) m w (hex teb) =
    (let mt = new_mt readMt teb (m_achMtMask (m_pCatProfile m)) in
     Some (if mt = readMt \<and> \<not> w then (True, m)
           else (False, call_te (WriteUsatProfiles (hex teb) w (hex mt) (mt \<noteq> readMt)) m)))"
proof -
  let ?mt = "new_mt readMt teb (m_achMtMask (m_pCatProfile m))"
  obtain out where o: "CalculateMtProfile (hex readMt) (hex teb) TE_MT_SUPPORTED
      (m_achMtMask (m_pCatProfile m)) profile_buffer = Some (True, out)" "cstr out = hex ?mt"
    using CalculateMtProfile_hex assms unfolding new_mt_def cat_ok_def by blast
  have "length ?mt = MAX_SIZE_PROFILE"
    using assms by (simp add: new_mt_def cat_ok_def te_mt_bytes_def MAX_SIZE_PROFILE_def)
  then have "(hex ?mt = hex readMt) = (?mt = readMt)" using hex_inj [of ?mt readMt] assms by auto
  then show ?thesis using o by (auto simp: process_mt_def CompareProfiles_def Let_def)
qed

text \<open>
  C7. What \<open>ProfileProcess\<close> writes to the modem: given the profiles read as hexadecimal texts, it
  takes for the TE profile the default one, without the bits of the MT-only profile when the
  modem's differs from it, and for the MT profile the modem's one without the bits the TE
  claims (but for the shared ones) and without the mask. It requests a write, with a flag for
  each of the two, exactly when one of them differs from what was read.
\<close>

theorem process_profiles_hex:
  assumes ps: "m_ppszProfiles m = Some ps" "length ps = PROFILE_READ_NUMBER"
    "ps ! TE_PROFILE_STORAGE = Some (hex readTe)" "ps ! MT_PROFILE_STORAGE = Some (hex readMt)"
    "ps ! MT_ONLY_PROFILE_STORAGE = Some (hex mtOnly)"
    and l: "length readTe = MAX_SIZE_PROFILE" "length readMt = MAX_SIZE_PROFILE" "length mtOnly = MAX_SIZE_PROFILE"
    and cat: "cat_ok (m_pCatProfile m)"
  defines "teb \<equiv> new_te readTe mtOnly (m_achTeDefaultProfile (m_pCatProfile m))"
  defines "mt \<equiv> new_mt readMt teb (m_achMtMask (m_pCatProfile m))"
  shows "\<exists>cat'. process_profiles m =
    Some (if mt = readMt \<and> teb = readTe then (True, m\<lparr> m_pCatProfile := cat' \<rparr>)
          else (False, call_te (WriteUsatProfiles (hex teb) (teb \<noteq> readTe) (hex mt) (mt \<noteq> readMt))
                  (m\<lparr> m_pCatProfile := cat' \<rparr>)))"
proof -
  have i: "TE_PROFILE_STORAGE < length ps" "MT_PROFILE_STORAGE < length ps" "MT_ONLY_PROFILE_STORAGE < length ps"
    by (simp_all add: ps(2) TE_PROFILE_STORAGE_def MT_PROFILE_STORAGE_def MT_ONLY_PROFILE_STORAGE_def
        PROFILE_READ_NUMBER_def)
  note rd = read_profile_hex [OF ps(3) l(1) i(1)] read_profile_hex [OF ps(4) l(2) i(2)]
    read_profile_hex [OF ps(5) l(3) i(3)]
  obtain b c where c: "SetTeProfile (Some (hex readTe)) (length (hex readTe)) (m_pCatProfile m) = Some (b, c)"
    "cat_ok c" "m_achTeDefaultProfile c = m_achTeDefaultProfile (m_pCatProfile m)"
    "m_achMtMask c = m_achMtMask (m_pCatProfile m)"
    using SetTeProfile_total [OF cat hex_not_empty [OF l(1)]] by blast
  let ?d = "m_achTeDefaultProfile (m_pCatProfile m)"
  have ld: "length ?d = MAX_SIZE_PROFILE" using cat by (simp add: cat_ok_def)
  obtain out where o: "convertByteArrayIntoString ?d MAX_SIZE_PROFILE profile_buffer = Some (True, out)"
    "cstr out = hex ?d" using convert_profile [OF ld] by blast
  let ?m = "m\<lparr> m_pCatProfile := c \<rparr>"
  obtain c2 where t: "process_te (hex readTe) (hex mtOnly) (hex ?d) ?m =
      Some (Some (?m\<lparr> m_pCatProfile := c2 \<rparr>, teb \<noteq> readTe, hex teb))"
    "m_achMtMask c2 = m_achMtMask (m_pCatProfile m)" "cat_ok c2"
    using process_te_hex [OF l(1,3) ld, of ?m] c unfolding teb_def by auto
  have lt: "length teb = MAX_SIZE_PROFILE" using l ld by (simp add: teb_def new_te_def)
  have cm: "cat_ok (m_pCatProfile (?m\<lparr> m_pCatProfile := c2 \<rparr>))" using t(3) by simp
  show ?thesis
    using process_mt_hex [OF l(2) lt cm, of "teb \<noteq> readTe"] t ps(1) rd c o
    by (intro exI [of _ c2]) (auto simp: process_profiles_def mt_def Let_def)
qed

section \<open>Properties\<close>

text \<open>
  C8. No event sequence breaks the profile download: in every state reachable from the initial
  one by events and by the setters, with profile strings of any contents, every event is
  handled to the end (the chain of automatic transitions stops, and no buffer is overrun), and
  the machine stays consistent: its state is the one that belongs to the last event passed on,
  the service is not running while it waits for it, and it is running once activated.
\<close>

theorem usat_events_handled:
  assumes "reachable cat m" "cat_ok cat"
  shows "\<exists>m'. SendEvent e m = Some m' \<and> reachable cat m' \<and> machine_ok m' \<and> profiles_ok m'"
proof -
  obtain m' where m': "SendEvent e m = Some m'" "profiles_ok m'"
    using SendEvent_total [OF reachable_profiles_ok [OF assms]] by blast
  then have "reachable cat m'" using assms(1) by (blast intro: reachable.step usat_step.send)
  with m' reachable_ok show ?thesis by blast
qed

text \<open>A profile object whose arrays have their sizes.\<close>

definition some_cat :: CCatProfile where
  "some_cat = \<lparr> m_achTeProfile = zero_profile, m_achTeDefaultProfile = replicate MAX_SIZE_PROFILE 0xFF,
     m_achMtMask = zero_profile \<rparr>"

lemma some_cat_ok: "cat_ok some_cat"
  by (simp add: cat_ok_def some_cat_def zero_profile_def)

theorem usat_events_handled_witness:
  "\<exists>m'. SendEvent SIM_READY (new_machine some_cat) = Some m' \<and> machine_ok m'"
  using usat_events_handled [OF reachable.init some_cat_ok] by blast

theorem reachable_reset_witness:
  "IsSimResetPossible (new_machine some_cat) \<longleftrightarrow>
    m_uiccState (new_machine some_cat) \<noteq> UICC_ACTIVE \<or>
    m_currState (new_machine some_cat) \<notin> {WaitingActivate, ProfileActivation}"
  by (rule reachable_reset [OF reachable.init])

theorem process_profiles_hex_witness:
  "\<exists>cat'. process_profiles ((new_machine some_cat)\<lparr> m_ppszProfiles := Some (replicate 6 (Some (hex zero_profile))) \<rparr>) =
    Some (False, call_te (WriteUsatProfiles (hex (replicate MAX_SIZE_PROFILE 0xFF)) True (hex zero_profile) False)
      ((new_machine some_cat)\<lparr> m_ppszProfiles := Some (replicate 6 (Some (hex zero_profile))), m_pCatProfile := cat' \<rparr>))"
proof -
  let ?m = "(new_machine some_cat)\<lparr> m_ppszProfiles := Some (replicate 6 (Some (hex zero_profile))) \<rparr>"
  let ?ff = "replicate MAX_SIZE_PROFILE (0xFF :: u8)"
  have n: "new_te zero_profile zero_profile ?ff = ?ff" "new_mt zero_profile ?ff zero_profile = zero_profile"
    "?ff \<noteq> zero_profile"
    by code_simp+
  show ?thesis
    using process_profiles_hex [of ?m "replicate 6 (Some (hex zero_profile))" zero_profile zero_profile zero_profile]
      some_cat_ok n
    by (simp add: PROFILE_READ_NUMBER_def TE_PROFILE_STORAGE_def MT_PROFILE_STORAGE_def
        MT_ONLY_PROFILE_STORAGE_def zero_profile_def new_machine_def some_cat_def)
qed

text \<open>
  C24. The profile the modem is given never claims a facility twice: in the MT profile that
  \<open>CalculateMtProfile\<close> prints, every bit that the TE profile claims is cleared unless it is in
  the table of facilities both sides may support, and so is every bit of the MT mask; no bit is
  set that the profile read from the modem does not have.
\<close>

theorem CalculateMtProfile_disjoint:
  assumes "length readMt = MAX_SIZE_PROFILE" "length teb = MAX_SIZE_PROFILE" "length msk = MAX_SIZE_PROFILE"
  shows "\<exists>out mt. CalculateMtProfile (hex readMt) (hex teb) TE_MT_SUPPORTED msk profile_buffer = Some (True, out) \<and>
    cstr out = hex mt \<and> length mt = MAX_SIZE_PROFILE \<and>
    (\<forall>i < MAX_SIZE_PROFILE. mt ! i AND teb ! i AND NOT (te_mt_bytes ! i) = 0 \<and> mt ! i AND msk ! i = 0 \<and>
       mt ! i AND NOT (readMt ! i) = 0)"
proof -
  have l: "length te_mt_bytes = MAX_SIZE_PROFILE" by (simp add: te_mt_bytes_def MAX_SIZE_PROFILE_def)
  let ?mt = "clear_bits (clear_bits readMt (clear_bits teb te_mt_bytes)) msk"
  have "?mt ! i AND teb ! i AND NOT (te_mt_bytes ! i) = 0 \<and> ?mt ! i AND msk ! i = 0 \<and>
      ?mt ! i AND NOT (readMt ! i) = 0" if "i < MAX_SIZE_PROFILE" for i
  proof -
    have "?mt ! i = (readMt ! i AND NOT (teb ! i AND NOT (te_mt_bytes ! i))) AND NOT (msk ! i)"
      using that assms l by (simp add: nth_clear_bits)
    then show ?thesis by (auto simp: bit_eq_iff bit_simps)
  qed
  moreover have "length ?mt = MAX_SIZE_PROFILE" using assms l by simp
  ultimately show ?thesis using CalculateMtProfile_hex [OF assms] by blast
qed

theorem CalculateMtProfile_disjoint_witness:
  "\<exists>out. CalculateMtProfile (hex zero_profile) (hex (replicate MAX_SIZE_PROFILE 0xFF)) TE_MT_SUPPORTED
      zero_profile profile_buffer = Some (True, out)"
  using CalculateMtProfile_disjoint [of zero_profile "replicate MAX_SIZE_PROFILE 0xFF" zero_profile]
  by (auto simp: zero_profile_def)

end
