(* ===== verification/SiloSim.thy ===== *)
theory SiloSim
  imports Silo TeState Usat
begin

text \<open>
  The notifications about the SIM and its toolkit (\<open>CSilo_SIM\<close>, \<open>CORE/ND/silo_sim.cpp\<close>). The state are the
  list of emergency numbers the silo collects, the fields of \<open>CTE\<close> it reads and writes, and the
  profile download machine (theory Usat), which some notifications send events to.
\<close>

section \<open>State\<close>

record sim_state =
  m_szECCList :: string
  sim_app_state :: app_state
  perso_substate :: string
  refresh_with_usim_init :: bool
  usat :: machine

text \<open>
  \<open>sim_malloc\<close> gives the contents of fresh memory of a size; \<open>handle_sim_state\<close> is the virtual function
  \<open>HandleSimState\<close>, which also says whether the framework is told.
\<close>

record sim_env =
  sim_mem :: "nat \<Rightarrow> bool"
  sim_malloc :: "nat \<Rightarrow> u8 list option"
  sim_modem_type :: nat
  sim_subscription :: nat
  handle_sim_state :: "u32 \<Rightarrow> sim_state \<Rightarrow> sim_state \<times> bool"

abbreviation (input) MODEM_TYPE_XMM7260 :: nat where "MODEM_TYPE_XMM7260 \<equiv> 4"
abbreviation (input) RIL_APPSTATE_IMEI :: app_state where "RIL_APPSTATE_IMEI \<equiv> OtherAppState 6"
abbreviation (input) RIL_UNSOL_RESPONSE_VOICE_NETWORK_STATE_CHANGED :: u32 where
  "RIL_UNSOL_RESPONSE_VOICE_NETWORK_STATE_CHANGED \<equiv> 1002"
abbreviation (input) RIL_UNSOL_STK_SESSION_END :: u32 where "RIL_UNSOL_STK_SESSION_END \<equiv> 1012"
abbreviation (input) RIL_UNSOL_STK_PROACTIVE_COMMAND :: u32 where "RIL_UNSOL_STK_PROACTIVE_COMMAND \<equiv> 1013"
abbreviation (input) RIL_UNSOL_STK_EVENT_NOTIFY :: u32 where "RIL_UNSOL_STK_EVENT_NOTIFY \<equiv> 1014"
abbreviation (input) RIL_UNSOL_SIM_REFRESH :: u32 where "RIL_UNSOL_SIM_REFRESH \<equiv> 1017"
abbreviation (input) RIL_UNSOL_RESPONSE_SIM_STATUS_CHANGED :: u32 where
  "RIL_UNSOL_RESPONSE_SIM_STATUS_CHANGED \<equiv> 1019"

definition EF_PNN :: u32 where "EF_PNN = 0x6FC5"
definition EF_OPL :: u32 where "EF_OPL = 0x6FC6"

section \<open>Refresh of the SIM\<close>

text \<open>
  A proactive command is looked through as a text of digits: the command details of a refresh, the
  kind of refresh, and for a change of files the last file of the list.
\<close>

datatype refresh = NoRefresh | SimInit | FileUpdate u32

definition here :: "string \<Rightarrow> nat \<Rightarrow> nat \<Rightarrow> string" where
  "here pdu pos n = take n (drop pos pdu)"

definition two_chars :: "string \<Rightarrow> u32" where
  "two_chars t = ucast (SemiByteCharsToByte ((t @ [NUL, NUL]) ! 0) ((t @ [NUL, NUL]) ! 1))"

definition refresh_file :: "string \<Rightarrow> nat \<Rightarrow> u32" where
  "refresh_file pdu uiPos =
     (case (case strstr (drop uiPos pdu) ''92'' of Some p \<Rightarrow> Some p | None \<Rightarrow> strstr (drop uiPos pdu) ''12'') of
        None \<Rightarrow> 0
      | Some pFileTag \<Rightarrow>
          (let uiPos = length pdu - length pFileTag + 2 in
           if uiPos < length pdu then
             (let uiPos = uiPos + 2 + 2 * unat (two_chars (here pdu uiPos 2)) in
              if uiPos \<le> length pdu then
                (let szFileID = here pdu (uiPos - 4) 4
                 in push_bit 8 (two_chars (take 2 szFileID)) + two_chars (drop 2 szFileID))
              else 0)
           else 0))"

definition refresh_of :: "string \<Rightarrow> refresh" where
  "refresh_of pdu =
     (case strstr pdu ''8103'' of
        None \<Rightarrow> NoRefresh
      | Some pRefresh \<Rightarrow>
          (let uiPos = length pdu - length pRefresh + 4 in
           if uiPos + 6 < length pdu \<and> here pdu (uiPos + 2) 2 = ''01'' then
             (let typ = here pdu (uiPos + 4) 2 in
              if typ = ''04'' \<or> typ = ''05'' \<or> typ = ''06'' then NoRefresh
              else if typ = ''01'' \<or> typ = ''07'' then FileUpdate (refresh_file pdu (uiPos + 6))
              else SimInit)
           else NoRefresh))"

text \<open>\<open>sizeof (RIL_SimRefreshResponse_v7)\<close> is 12; \<open>SIM_FILE_UPDATE\<close> is 0, and no application is named.\<close>

definition ParsePduForRefresh :: "sim_env \<Rightarrow> string \<Rightarrow> sim_state action \<Rightarrow> sim_state action" where
  "ParsePduForRefresh env pdu k =
     (if \<not> sim_mem env 12 then k
      else case refresh_of pdu of
        NoRefresh \<Rightarrow> k
      | SimInit \<Rightarrow>
          change_own (\<lambda>st. st\<lparr> sim_app_state := RIL_APPSTATE_UNKNOWN, refresh_with_usim_init := True \<rparr>) k
      | FileUpdate ef \<Rightarrow>
          (let report = event (Unsolicited RIL_UNSOL_SIM_REFRESH
                 (Some (little_endian 0 @ little_endian ef @ little_endian 0))) k
           in if ef = EF_OPL \<or> ef = EF_PNN
              then event (Unsolicited RIL_UNSOL_RESPONSE_VOICE_NETWORK_STATE_CHANGED None) report else report))"

section \<open>Proactive commands\<close>

text \<open>
  The command as a text, in memory with room for the line plus \<open>extra\<close> cells; the size is a 32-bit
  number.
\<close>

definition command_text :: "sim_env \<Rightarrow> int \<Rightarrow> (string \<Rightarrow> nat \<Rightarrow> sim_state action) \<Rightarrow> sim_state action" where
  "command_text env extra k =
     line_end (\<lambda>p e. let uiLength = nat ((int (length p) - int (length e) - 2 + extra) mod 2 ^ 32) in
       alloc (sim_mem env uiLength) (quoted uiLength (\<lambda>pszProactiveCmd. k pszProactiveCmd uiLength)))"

definition ParseIndicationSATI :: "sim_env \<Rightarrow> sim_state action" where
  "ParseIndicationSATI env =
     unsolicited (if MODEM_TYPE_XMM7260 \<le> sim_modem_type env then reject
       else command_text env 1 (\<lambda>cmd uiLength.
         result RIL_UNSOL_STK_PROACTIVE_COMMAND (with_data (zero_filled uiLength cmd) uiLength accept)))"

definition ParseIndicationSATN :: "sim_env \<Rightarrow> sim_state action" where
  "ParseIndicationSATN env =
     unsolicited (if MODEM_TYPE_XMM7260 \<le> sim_modem_type env then reject
       else command_text env (-1) (\<lambda>cmd uiLength. ParsePduForRefresh env cmd
         (result RIL_UNSOL_STK_EVENT_NOTIFY (with_data (zero_filled uiLength cmd) uiLength accept))))"

definition ParseTermRespConfirm :: "sim_env \<Rightarrow> sim_state action" where
  "ParseTermRespConfirm env =
     unsolicited (if MODEM_TYPE_XMM7260 \<le> sim_modem_type env then reject
       else number (\<lambda>uiStatus1. find '','' (number (\<lambda>uiStatus2.
         if uiStatus1 = 0x90 \<and> uiStatus2 = 0 then result RIL_UNSOL_STK_SESSION_END accept else accept))))"

text \<open>\<open>None\<close>: the profile class leaves an array (\<open>ExtractPduInfo\<close>).\<close>

definition IsProactiveCmd :: "sim_env \<Rightarrow> CCatProfile \<Rightarrow> string \<Rightarrow> (bool \<times> u8) option" where
  "IsProactiveCmd env cat szUrcPointer =
     (case ExtractPduInfo cat (sim_malloc env) szUrcPointer (length szUrcPointer)
             (Some \<lparr> uiCommandId = 0, isProactiveCmd = False \<rparr>) of
        Some (ok, Some info) \<Rightarrow> Some (if ok then isProactiveCmd info else True, uiCommandId info)
      | _ \<Rightarrow> None)"

definition REFRESH :: u8 where "REFRESH = 1"

definition ParseIndicationCusatp :: "sim_env \<Rightarrow> sim_state action" where
  "ParseIndicationCusatp env =
     unsolicited (command_text env 1 (\<lambda>cmd uiLength. using_own (\<lambda>st.
       checked (IsProactiveCmd env (m_pCatProfile (usat st)) cmd) (\<lambda>(proactive, uiCmdTag).
         result (if proactive then RIL_UNSOL_STK_PROACTIVE_COMMAND else RIL_UNSOL_STK_EVENT_NOTIFY)
           (let finish = with_data (zero_filled uiLength cmd) uiLength accept
            in if uiCmdTag = REFRESH then ParsePduForRefresh env cmd finish else finish)))))"

definition ParseIndicationCusats :: "sim_state action" where
  "ParseIndicationCusats =
     unsolicited (number (\<lambda>uiUiccState.
       change_own (\<lambda>st. st\<lparr> usat := (usat st)\<lparr> m_uiccState := sint uiUiccState \<rparr> \<rparr>)
         (if uiUiccState = 2 then event (CallTE ''SetProfileDownloadForNextUiccStartup'' [1, 1]) accept
          else if sint uiUiccState = UICC_ACTIVE then
            using_own (\<lambda>st. checked (SendEvent SIM_READY_TO_ACTIVATE (usat st)) (\<lambda>m.
              change_own (\<lambda>st. st\<lparr> usat := m \<rparr>) accept))
          else accept)))"

definition ParseIndicationCusatend :: "sim_state action" where
  "ParseIndicationCusatend = unsolicited (result RIL_UNSOL_STK_SESSION_END accept)"

section \<open>State and locks of the SIM\<close>

definition ParseXSIM :: "sim_env \<Rightarrow> sim_state action" where
  "ParseXSIM env =
     using_own (\<lambda>old. unsolicited (number (\<lambda>uiSIMState. using_own (\<lambda>st.
       let (st', bNotifySimStatusChange) = handle_sim_state env uiSIMState st in
       change_own (\<lambda>_. st')
         (if sim_app_state st' \<noteq> RIL_APPSTATE_UNKNOWN \<and> sim_app_state old = RIL_APPSTATE_UNKNOWN
          then event (Timed ''triggerQueryUiccInfo'' 0 0) accept
          else if bNotifySimStatusChange then result RIL_UNSOL_RESPONSE_SIM_STATUS_CHANGED accept
          else accept)))))"

text \<open>Five entries are read; one without a quoted name stays empty.\<close>

type_synonym lock_info = "string \<times> u32 \<times> u32"

fun read_locks :: "nat \<Rightarrow> bool \<Rightarrow> lock_info list \<Rightarrow> (bool \<Rightarrow> lock_info list \<Rightarrow> 's action) \<Rightarrow> 's action" where
  "read_locks 0 valid locks k = k valid locks"
| "read_locks (Suc n) valid locks k =
     (let continue = (\<lambda>valid l. if_skip '','' (read_locks n valid (locks @ [l]) k) (read_locks n valid (locks @ [l]) k))
      in if_quoted 3 (\<lambda>fac. comma_number (\<lambda>state. comma_number (\<lambda>res. continue True (fac, state, res))))
           (continue valid ([], 0, 0)))"

text \<open>The entries are gone through until one decides: the personalisation to report, or just a change.\<close>

fun judge_locks :: "lock_info list \<Rightarrow> string option \<times> bool" where
  "judge_locks [] = (None, False)"
| "judge_locks ((fac, lock_state, lock_result) # locks) =
     (let locked = lock_state = 1 \<and> lock_result = 1; puk = lock_state = 3 \<and> lock_result = 2 in
      if take 2 fac = ''PN'' then
        (if locked then (Some ''RIL_PERSOSUBSTATE_SIM_NETWORK'', True)
         else if puk then (Some ''RIL_PERSOSUBSTATE_SIM_NETWORK_PUK'', True) else (None, False))
      else if locked \<or> puk then (None, True)
      else judge_locks locks)"

definition ParseXLOCK :: "sim_state action" where
  "ParseXLOCK =
     unsolicited (using_own (\<lambda>st.
       if sim_app_state st = RIL_APPSTATE_IMEI then accept
       else read_locks 5 False [] (\<lambda>valid locks.
         if valid then
           (case judge_locks locks of (substate, changed) \<Rightarrow>
              change_own (\<lambda>st. case substate of None \<Rightarrow> st | Some p \<Rightarrow> st\<lparr> perso_substate := p \<rparr>)
                (if changed then result RIL_UNSOL_RESPONSE_SIM_STATUS_CHANGED accept else accept))
         else accept)))"

section \<open>Emergency numbers\<close>

text \<open>Each number comes in a notification of its own; the last one sets the property of the system.\<close>

definition add_number :: "u32 \<Rightarrow> string \<Rightarrow> string \<Rightarrow> string" where
  "add_number uiIndex szECCItem list =
     (if uiIndex = 1 then szECCItem else take (MAX_BUFFER_SIZE - 1) (list @ CHR '','' # szECCItem))"

definition ecc_property :: "nat \<Rightarrow> string" where
  "ecc_property subscriptionId =
     (if subscriptionId = 0 then ''ril.ecclist'' else ''ril.ecclist'' @ dec_string subscriptionId)"

definition ParseXLEMA :: "sim_env \<Rightarrow> sim_state action" where
  "ParseXLEMA env =
     unsolicited (number (\<lambda>uiIndex. comma_number (\<lambda>uiTotalCnt. skip '','' (quoted MAX_BUFFER_SIZE (\<lambda>szECCItem.
       change_own (\<lambda>st. st\<lparr> m_szECCList := add_number uiIndex szECCItem (m_szECCList st) \<rparr>)
         (if uiIndex = uiTotalCnt
          then using_own (\<lambda>st. event (SetProperty (ecc_property (sim_subscription env)) (m_szECCList st)) accept)
          else accept))))))"

section \<open>The silo\<close>

definition sim_table :: "sim_env \<Rightarrow> sim_state silo_table" where
  "sim_table env =
     [(''+STKCTRLIND: '', unrecognized_action), (''+STKCC: '', unrecognized_action),
      (''+SATI: '', ParseIndicationSATI env), (''+SATN: '', ParseIndicationSATN env),
      (''+SATF: '', ParseTermRespConfirm env), (''+XLOCK: '', ParseXLOCK), (''+XSIM: '', ParseXSIM env),
      (''+XLEMA: '', ParseXLEMA env), (''+CUSATS: '', ParseIndicationCusats), (''+CUSATP: '', ParseIndicationCusatp env),
      (''+CUSATEND'', ParseIndicationCusatend)]"

definition CSilo_SIM :: "sim_env \<Rightarrow> sim_state \<Rightarrow> CSilo" where
  "CSilo_SIM env = silo_of (sim_table env)"

section \<open>The silo meets the contract of the channel\<close>

lemma stays_sim_parts [stays_intros]:
  "(\<And>t n. stays s r (g t n)) \<Longrightarrow> stays s r (command_text env x g)"
  unfolding command_text_def Let_def by (intro stays_intros | assumption)+

lemma stays_refresh [stays_intros]: "stays s r k \<Longrightarrow> stays s r (ParsePduForRefresh env pdu k)"
  unfolding ParsePduForRefresh_def Let_def
  by (auto intro!: stays_own split: refresh.split)

lemma stays_locks [stays_intros]: "(\<And>v l. stays s r (k v l)) \<Longrightarrow> stays s r (read_locks n valid locks k)"
proof (induction n arbitrary: valid locks)
  case (Suc n)
  show ?case unfolding read_locks.simps Let_def by (intro stays_intros Suc)
qed simp

lemma sim_parsers:
  "stays s r (ParseIndicationSATI env)" "stays s r (ParseIndicationSATN env)" "stays s r (ParseTermRespConfirm env)"
  "stays s r ParseXLOCK" "stays s r (ParseXSIM env)" "stays s r (ParseXLEMA env)" "stays s r ParseIndicationCusats"
  "stays s r (ParseIndicationCusatp env)" "stays s r ParseIndicationCusatend"
  unfolding ParseIndicationSATI_def ParseIndicationSATN_def ParseTermRespConfirm_def ParseXLOCK_def ParseXSIM_def
    ParseXLEMA_def ParseIndicationCusats_def ParseIndicationCusatp_def ParseIndicationCusatend_def Let_def
  by (intro stays_intros | assumption)+

interpretation sim_command: silo_action "ParseIndicationCusatp env" by (rule silo_actionI) (rule sim_parsers)
interpretation sim_numbers: silo_action "ParseXLEMA env" by (rule silo_actionI) (rule sim_parsers)

lemma sim_silo_ok: "silo_ok (CSilo_SIM env st)"
  unfolding CSilo_SIM_def
  by (rule silo_of_ok) (simp add: sim_table_def silo_action.intro sim_parsers unrecognized_act.silo_action_axioms)

section \<open>Properties\<close>

text \<open>The notification of one number, and its list: the first one and the others behind commas.\<close>

definition XLEMA_text :: "nat \<Rightarrow> nat \<Rightarrow> string \<Rightarrow> string" where
  "XLEMA_text i n item = dec_string i @ CHR '','' # dec_string n @ CHR '','' # QUOTE # item @ QUOTE # NL"

definition number_list :: "string list \<Rightarrow> string" where
  "number_list items = tl (concat (map (\<lambda>x. CHR '','' # x) items))"

text \<open>Numbers \<open>i\<close>, \<open>i + 1\<close>, ... of \<open>n\<close>: the state afterwards, and what has been called on the way.\<close>

primrec numbers_received :: "sim_env \<Rightarrow> CResponse \<Rightarrow> nat \<Rightarrow> nat \<Rightarrow> string list \<Rightarrow> sim_state \<Rightarrow> sim_state \<times> silo_event list" where
  "numbers_received env r n i [] st = (st, [])"
| "numbers_received env r n i (item # items) st =
     (let c = snd (ParseXLEMA env (start st r (XLEMA_text i n item)));
          (st, es) = numbers_received env r n (Suc i) items (own c)
      in (st, events c @ es))"

lemma ParseXLEMA_text:
  assumes "i < 2 ^ 32" "n < 2 ^ 32" "QUOTE \<notin> set item" "NUL \<notin> set item" "length item < MAX_BUFFER_SIZE"
  shows "ParseXLEMA env (start st r (XLEMA_text i n item)) =
    (let st = st\<lparr> m_szECCList := add_number (word_of_nat i) item (m_szECCList st) \<rparr> in
     (True, \<lparr> rsp = SetFlag E_RSP_FLAG_UNSOLICITED True r, cur = NL, own = st,
        events = (if i = n then [SetProperty (ecc_property (sim_subscription env)) (m_szECCList st)] else []) \<rparr>))"
proof -
  have "\<not> isdigit_c (CHR '','')" by (simp add: isdigit_c_def code_def)
  moreover have "(word_of_nat i :: u32) = word_of_nat n \<longleftrightarrow> i = n"
    using assms(1,2) by (simp add: word_of_nat_eq_iff take_bit_nat_eq_self)
  ultimately show ?thesis
    using assms
    by (simp add: ParseXLEMA_def with_flag_def start_def XLEMA_text_def number_at comma_number_at comma_at quoted_at
        change_own_def using_own_def event_def accept_def Let_def)
qed

lemma add_number_next:
  assumes "1 < i" "i < 2 ^ 32" "length (list @ CHR '','' # item) < MAX_BUFFER_SIZE"
  shows "add_number (word_of_nat i) item list = list @ CHR '','' # item"
proof -
  have "word_of_nat i \<noteq> (1 :: u32)"
    using assms(1,2) word_of_nat_eq_iff [of i 1, where 'a = 32] by (simp add: take_bit_nat_eq_self)
  then show ?thesis using assms(3) by (simp add: add_number_def)
qed

abbreviation "number_ok item \<equiv> QUOTE \<notin> set item \<and> NUL \<notin> set item"

lemma numbers_received_more:
  assumes "items \<noteq> []" "1 < i" "i + length items = Suc n" "n < 2 ^ 32" "\<forall>item \<in> set items. number_ok item"
    "length (m_szECCList st @ concat (map (\<lambda>x. CHR '','' # x) items)) < MAX_BUFFER_SIZE"
  shows "numbers_received env r n i items st =
    (let all = m_szECCList st @ concat (map (\<lambda>x. CHR '','' # x) items) in
     (st\<lparr> m_szECCList := all \<rparr>, [SetProperty (ecc_property (sim_subscription env)) all]))"
  using assms
proof (induction items arbitrary: i st)
  case (Cons item items)
  have i: "i < 2 ^ 32" "i = n \<longleftrightarrow> items = []" using Cons.prems by auto
  have l: "length item < MAX_BUFFER_SIZE" using Cons.prems(6) by simp
  have a: "add_number (word_of_nat i) item (m_szECCList st) = m_szECCList st @ CHR '','' # item"
    using Cons.prems(2,6) i(1) by (intro add_number_next) auto
  show ?case
  proof (cases "items = []")
    case True
    then show ?thesis
      using Cons.prems i l a by (simp add: ParseXLEMA_text Let_def)
  next
    case False
    then show ?thesis
      using Cons.prems i l a Cons.IH [of "Suc i" "st\<lparr> m_szECCList := m_szECCList st @ CHR '','' # item \<rparr>"]
      by (simp add: ParseXLEMA_text Let_def)
  qed
qed simp

text \<open>
  C39. The emergency numbers of the network, which come one by one, are published together: when the
  last of \<open>n\<close> numbers has arrived, and not before, the property of the system is set to all of them
  in order, separated by commas, whatever the list was before.
\<close>

theorem emergency_numbers_published:
  assumes "items \<noteq> []" "length items < 2 ^ 32" "\<forall>item \<in> set items. QUOTE \<notin> set item \<and> NUL \<notin> set item"
    "length (number_list items) < MAX_BUFFER_SIZE"
  shows "numbers_received env r (length items) 1 items st =
    (st\<lparr> m_szECCList := number_list items \<rparr>,
     [SetProperty (ecc_property (sim_subscription env)) (number_list items)])"
proof -
  obtain item rest where items: "items = item # rest" using assms(1) by (cases items) auto
  have l: "length item < MAX_BUFFER_SIZE" using assms(4) by (simp add: items number_list_def)
  have a: "add_number 1 item list = item" for list by (simp add: add_number_def)
  show ?thesis
  proof (cases "rest = []")
    case True
    then show ?thesis
      using assms(3) l ParseXLEMA_text [of 1 1 item env st r] a by (simp add: items number_list_def Let_def)
  next
    case False
    then show ?thesis
      using assms l ParseXLEMA_text [of 1 "length items" item env st r] a
        numbers_received_more [OF False, of 2 "length items" "st\<lparr> m_szECCList := item \<rparr>" env r]
      by (simp add: items number_list_def Let_def numeral_2_eq_2)
  qed
qed

theorem emergency_numbers_published_witness:
  "\<forall>env st. numbers_received env new_response 2 1 [''112'', ''911''] st =
    (st\<lparr> m_szECCList := ''112,911'' \<rparr>, [SetProperty (ecc_property (sim_subscription env)) ''112,911''])"
proof (intro allI)
  fix env st
  have "length (number_list [''112'', ''911'']) < MAX_BUFFER_SIZE" by code_simp
  moreover have "number_list [''112'', ''911''] = ''112,911''" by code_simp
  ultimately show "numbers_received env new_response 2 1 [''112'', ''911''] st =
    (st\<lparr> m_szECCList := ''112,911'' \<rparr>, [SetProperty (ecc_property (sim_subscription env)) ''112,911''])"
    using emergency_numbers_published [of "[''112'', ''911'']" env new_response st]
    by (simp add: numeral_2_eq_2 [symmetric] del: numbers_received.simps)
qed

lemma ready_to_activate:
  "m_uiccState m = UICC_ACTIVE \<Longrightarrow> SendEvent SIM_READY_TO_ACTIVATE m =
     Some (if m_currState m \<notin> {ProfileProcess, UiccReset} then m\<lparr> m_isReadyForActivation := True \<rparr>
       else if m_isStkServiceRunning m
       then call_te EnableProfileFacilityHandling (call_te NotifyUiccReady
         (m\<lparr> m_isReadyForActivation := True, m_simEvent := STK_SERVICE_RUNNING, m_currState := ProfileActivation \<rparr>))
       else call_te NotifyUiccReady
         (m\<lparr> m_isReadyForActivation := True, m_simEvent := SIM_READY_TO_ACTIVATE, m_currState := WaitingActivate \<rparr>))"
  by (simp add: SendEvent_defs PassToNextEvent.simps call_te_def)

text \<open>
  C38. What a report of the UICC state does. The state is stored in the machine of the profile download.
  When the UICC says that the download is complete (2), the download for the next start is requested;
  when it has become active (4), the machine is told that the SIM is ready: from the states that wait
  for that it notifies the framework, and enables the handling of the profile when the STK service
  is running already, or else waits for the service. Every other state is only stored. Nothing else changes, and the
  machine stays in the states it can reach.
\<close>

theorem uicc_state_keeps_machine:
  assumes "reachable cat (usat st)" "n < 2 ^ 31"
  shows "\<exists>m. ParseIndicationCusats (start st r (dec_string n @ CR # t)) =
      (True, \<lparr> rsp = SetFlag E_RSP_FLAG_UNSOLICITED True r, cur = CR # t, own = st\<lparr> usat := m \<rparr>,
         events = (if n = 2 then [CallTE ''SetProfileDownloadForNextUiccStartup'' [1, 1]] else []) \<rparr>) \<and>
    m = (let u = usat st; ready = u\<lparr> m_uiccState := 4, m_isReadyForActivation := True \<rparr>
         in if n \<noteq> 4 then u\<lparr> m_uiccState := int n \<rparr>
            else if m_currState u \<noteq> ProfileProcess \<and> m_currState u \<noteq> UiccReset then ready
            else if m_isStkServiceRunning u
            then ready\<lparr> m_simEvent := STK_SERVICE_RUNNING, m_currState := ProfileActivation,
                   te_calls := te_calls u @ [NotifyUiccReady, EnableProfileFacilityHandling] \<rparr>
            else ready\<lparr> m_simEvent := SIM_READY_TO_ACTIVATE, m_currState := WaitingActivate,
                   te_calls := te_calls u @ [NotifyUiccReady] \<rparr>) \<and>
    reachable cat m"
proof -
  have u: "reachable cat ((usat st)\<lparr> m_uiccState := k \<rparr>)" for k
    using assms(1) usat_step.SetUiccState by (rule reachable.step)
  have d: "\<not> isdigit_c CR" "CR \<noteq> SPC" by (simp_all add: isdigit_c_def code_def)
  have n: "sint (word_of_nat n :: u32) = int n"
    using assms(2) by (simp add: signed_of_nat signed_take_bit_int_eq_self)
  have two: "(word_of_nat n :: u32) = 2 \<longleftrightarrow> n = 2"
    using assms(2) word_of_nat_eq_iff [of n 2, where ?'a = 32] by (simp add: take_bit_nat_eq_self)
  show ?thesis
  proof (cases "n = 4")
    case False
    then show ?thesis using assms(2) u d n two
      by (auto simp: ParseIndicationCusats_def with_flag_def number_at start_def change_own_def event_def accept_def UICC_ACTIVE_def)
  next
    case True
    obtain m where m: "SendEvent SIM_READY_TO_ACTIVATE ((usat st)\<lparr> m_uiccState := UICC_ACTIVE \<rparr>) = Some m"
      by (simp add: ready_to_activate)
    then have "reachable cat m" using u by (blast intro: reachable.step usat_step.send)
    then show ?thesis using assms(2) d n two m True
      by (auto simp: ParseIndicationCusats_def with_flag_def number_at start_def change_own_def
          using_own_def event_def accept_def checked_def ready_to_activate UICC_ACTIVE_def call_te_def Let_def)
  qed
qed

theorem uicc_state_keeps_machine_witness:
  "\<forall>st. \<exists>m. ParseIndicationCusats (start (st\<lparr> usat := new_machine some_cat \<rparr>) new_response (''4'' @ [CR, LF])) =
      (True, \<lparr> rsp = SetFlag E_RSP_FLAG_UNSOLICITED True new_response, cur = [CR, LF], own = st\<lparr> usat := m \<rparr>, events = [] \<rparr>) \<and>
     m_uiccState m = 4 \<and> reachable some_cat m"
proof (intro allI)
  fix st :: sim_state
  have r: "reachable some_cat (usat (st\<lparr> usat := new_machine some_cat \<rparr>))" by (simp add: reachable.init)
  have "dec_string 4 = ''4''" by code_simp
  then show "\<exists>m. ParseIndicationCusats (start (st\<lparr> usat := new_machine some_cat \<rparr>) new_response (''4'' @ [CR, LF])) =
      (True, \<lparr> rsp = SetFlag E_RSP_FLAG_UNSOLICITED True new_response, cur = [CR, LF], own = st\<lparr> usat := m \<rparr>, events = [] \<rparr>) \<and>
     m_uiccState m = 4 \<and> reachable some_cat m"
    using uicc_state_keeps_machine [OF r, of 4 new_response "[LF]"] by (auto simp: Let_def split: if_splits)
qed

text \<open>A byte as its two digits.\<close>

definition hex_byte :: "u8 \<Rightarrow> string" where "hex_byte b = GSMToGSMHex_loop [b] 2"

lemma hex_byte [simp]: "length (hex_byte b) = 2" "two_chars (hex_byte b) = ucast b"
  "two_chars (take 2 (hex_byte b @ t)) = ucast b"
proof -
  have h: "hex_byte b = [g_rgchSemiByteToCharMap ! unat (drop_bit 4 (b AND 0xf0)), g_rgchSemiByteToCharMap ! unat (b AND 0x0f)]"
    by (simp add: hex_byte_def numeral_2_eq_2)
  show "length (hex_byte b) = 2" by (simp add: h)
  show "two_chars (hex_byte b) = ucast b"
    by (simp only: two_chars_def h append_Cons nth_Cons_0 One_nat_def nth_Cons_Suc SemiByteCharsToByte_of_hex)
  then show "two_chars (take 2 (hex_byte b @ t)) = ucast b" by (simp add: h)
qed

lemma little_endian_file: "little_endian (push_bit 8 (ucast hi) + ucast lo) = [lo, hi, 0, 0]"
proof -
  have e: "(push_bit 8 (ucast hi) + ucast lo :: u32) = push_bit 8 (ucast hi) OR ucast lo"
    by (rule disjunctive_add) (auto simp: bit_simps dest: bit_imp_le_length)
  have four: "[0..<4] = [0, 1, 2, 3 :: nat]" by code_simp
  show ?thesis
    unfolding little_endian_def e four
    by simp (intro conjI bit_word_eqI; auto simp: bit_simps dest: bit_imp_le_length)
qed

lemma refresh_of_list:
  assumes pre: "\<And>i. i < length pre \<Longrightarrow> \<not> prefix ''8103'' (drop i (pre @ ''8103'' @ details))"
    and devices: "\<And>i. i < length devices \<Longrightarrow> \<not> prefix tag (drop i (devices @ tag @ file_list))"
    and tag: "tag = ''92'' \<or> tag = ''12'' \<and> \<not> sublist ''92'' (devices @ tag @ file_list)"
    and kind: "kind = ''01'' \<or> kind = ''07''"
    and details: "details = hex_byte cn @ ''01'' @ kind @ devices @ tag @ file_list"
    and file_list: "file_list = hex_byte len @ files @ hex_byte hi @ hex_byte lo @ rest"
    and length_files: "length files + 4 = 2 * unat len"
  shows "refresh_of (pre @ ''8103'' @ details) = FileUpdate (push_bit 8 (ucast hi) + ucast lo)"
proof -
  define pdu where "pdu = pre @ ''8103'' @ details"
  have s1: "strstr pdu ''8103'' = Some (''8103'' @ details)"
    unfolding pdu_def using pre by (rule strstr_append) simp_all
  have p1: "length pdu - length (''8103'' @ details) = length pre" by (simp add: pdu_def)
  have len2: "length kind = 2" "length tag = 2" "tag \<noteq> []" using kind tag by auto
  have d: "drop (length pre + 10) pdu = devices @ tag @ file_list"
    using len2 by (simp add: pdu_def details)
  have "strstr (devices @ tag @ file_list) tag = Some (tag @ file_list)"
    using devices len2(3) by (intro strstr_append) simp_all
  then have s2: "(case strstr (drop (length pre + 10) pdu) ''92'' of
        Some p \<Rightarrow> Some p | None \<Rightarrow> strstr (drop (length pre + 10) pdu) ''12'') = Some (tag @ file_list)"
    unfolding d using tag by (auto simp: strstr_None_iff [THEN iffD2])
  let ?t = "length pre + 10 + length devices + 2"
  have t: "length pdu - length (tag @ file_list) + 2 = ?t" using len2 by (simp add: pdu_def details)
  define p where "p = pre @ ''8103'' @ hex_byte cn @ ''01'' @ kind @ devices @ tag"
  have "pdu = p @ file_list" "length p = ?t" using len2 by (simp_all add: pdu_def p_def details)
  then have dt: "drop ?t pdu = file_list" by (metis append_eq_conv_conj)
  have l: "here pdu ?t 2 = hex_byte len" unfolding here_def dt by (simp add: file_list)
  let ?e = "?t + 2 + 2 * unat len"
  have e: "?e \<le> length pdu" "?t < length pdu" "?e - 4 = ?t + (2 + length files)"
    using length_files len2 by (simp_all add: pdu_def details file_list)
  have "drop (?e - 4) pdu = drop (2 + length files) file_list"
    unfolding e(3) dt [symmetric] by (simp add: add.commute)
  then have f: "here pdu (?e - 4) 4 = hex_byte hi @ hex_byte lo" by (simp add: here_def file_list)
  have "unat len < 2 ^ LENGTH(8)" by (rule unsigned_less)
  then have u: "unat (ucast len :: u32) = unat len"
    by (simp add: unsigned_ucast_eq take_bit_nat_eq_self)
  have "refresh_file pdu (length pre + 10) = push_bit 8 (ucast hi) + ucast lo"
    unfolding refresh_file_def s2 option.case Let_def t l hex_byte u using e(1,2) f
    by simp
  moreover have "here pdu (length pre + 4 + 2) 2 = ''01''" "here pdu (length pre + 4 + 4) 2 = kind"
    "length pre + 4 + 6 < length pdu"
    using len2 by (simp_all add: here_def pdu_def details)
  ultimately show ?thesis
    using kind unfolding refresh_of_def pdu_def [symmetric] s1 option.case Let_def p1 by (auto simp: add.commute)
qed

text \<open>
  C40. A refresh that changes files is reported with the last file of its list. Take the command details
  of a refresh of kind 01 or 07, the device identities, and a list of files with the tag 92, or
  with the tag 12 when the digits 92 occur nowhere behind the kind; and let the digits of the tag
  not occur in what stands between. Then the framework is told of a change of the file that the last two
  bytes of the list name, whatever stands around them, and before that of a change of the voice
  network when it is one of the two files with the names of operators. The condition on 92 is
  needed: with the tag 12 and the file 6F92 the report names file 0.
\<close>

theorem refresh_reports_last_file:
  assumes "\<And>i. i < length pre \<Longrightarrow> \<not> prefix ''8103'' (drop i (pre @ ''8103'' @ details))"
    and "\<And>i. i < length devices \<Longrightarrow> \<not> prefix tag (drop i (devices @ tag @ file_list))"
    and "tag = ''92'' \<or> tag = ''12'' \<and> \<not> sublist ''92'' (devices @ tag @ file_list)"
    and "kind = ''01'' \<or> kind = ''07''"
    and "details = hex_byte cn @ ''01'' @ kind @ devices @ tag @ file_list"
    and "file_list = hex_byte len @ files @ hex_byte hi @ hex_byte lo @ rest"
    and "length files + 4 = 2 * unat len" and "sim_mem env 12"
  shows "ParsePduForRefresh env (pre @ ''8103'' @ details) k c =
      k (c\<lparr> events := events c @
        (if hi = 0x6F \<and> (lo = 0xC5 \<or> lo = 0xC6) then [Unsolicited RIL_UNSOL_RESPONSE_VOICE_NETWORK_STATE_CHANGED None] else []) @
        [Unsolicited RIL_UNSOL_SIM_REFRESH (Some ([0, 0, 0, 0] @ [lo, hi, 0, 0] @ [0, 0, 0, 0]))] \<rparr>) \<and>
    refresh_of ''D0118103010101820281821205013F006F92'' = FileUpdate 0"
proof
  define pdu where "pdu = pre @ ''8103'' @ details"
  have r: "refresh_of pdu = FileUpdate (push_bit 8 (ucast hi) + ucast lo)"
    unfolding pdu_def by (rule refresh_of_list [OF assms(1-7)])
  have zero: "little_endian 0 = [0, 0, 0, 0]" by code_simp
  have "little_endian EF_PNN = [0xC5, 0x6F, 0, 0]" "little_endian EF_OPL = [0xC6, 0x6F, 0, 0]" by code_simp+
  then have "push_bit 8 (ucast hi) + ucast lo = EF_PNN \<longleftrightarrow> hi = 0x6F \<and> lo = 0xC5"
    "push_bit 8 (ucast hi) + ucast lo = EF_OPL \<longleftrightarrow> hi = 0x6F \<and> lo = 0xC6"
    using little_endian_file [of hi lo] by (auto simp: EF_PNN_def EF_OPL_def)
  then show "ParsePduForRefresh env (pre @ ''8103'' @ details) k c =
      k (c\<lparr> events := events c @
        (if hi = 0x6F \<and> (lo = 0xC5 \<or> lo = 0xC6) then [Unsolicited RIL_UNSOL_RESPONSE_VOICE_NETWORK_STATE_CHANGED None] else []) @
        [Unsolicited RIL_UNSOL_SIM_REFRESH (Some ([0, 0, 0, 0] @ [lo, hi, 0, 0] @ [0, 0, 0, 0]))] \<rparr>)"
    using assms(8) zero r unfolding pdu_def [symmetric]
    by (auto simp: ParsePduForRefresh_def event_def little_endian_file Let_def)
qed code_simp

theorem refresh_reports_last_file_witness:
  "\<forall>env st. ParsePduForRefresh (env\<lparr> sim_mem := (\<lambda>_. True) \<rparr>) (''D01A'' @ ''8103'' @ hex_byte 1 @ ''01'' @ ''07'' @ ''82028182'' @ ''12'' @
       hex_byte 5 @ ''013F00'' @ hex_byte 0x6F @ hex_byte 0xC6 @ []) accept (start st new_response []) =
     (True, (start st new_response [])\<lparr> events := [Unsolicited RIL_UNSOL_RESPONSE_VOICE_NETWORK_STATE_CHANGED None,
        Unsolicited RIL_UNSOL_SIM_REFRESH (Some [0, 0, 0, 0, 0xC6, 0x6F, 0, 0, 0, 0, 0, 0])] \<rparr>)"
proof (intro allI)
  fix env :: sim_env and st :: sim_state
  let ?l = "hex_byte 5 @ ''013F00'' @ hex_byte 0x6F @ hex_byte 0xC6 @ []"
  let ?d = "hex_byte 1 @ ''01'' @ ''07'' @ ''82028182'' @ ''12'' @ ?l"
  let ?env = "env\<lparr> sim_mem := (\<lambda>_. True) \<rparr>"
  let ?c = "start st new_response []"
  have a: "\<forall>i < length ''D01A''. \<not> prefix ''8103'' (drop i (''D01A'' @ ''8103'' @ ?d))"
    "\<forall>i < length ''82028182''. \<not> prefix ''12'' (drop i (''82028182'' @ ''12'' @ ?l))"
    "strstr (''82028182'' @ ''12'' @ ?l) ''92'' = None"
    by code_simp+
  have "ParsePduForRefresh ?env (''D01A'' @ ''8103'' @ ?d) accept ?c =
      accept (?c\<lparr> events := events ?c @
        (if (0x6F :: u8) = 0x6F \<and> ((0xC6 :: u8) = 0xC5 \<or> (0xC6 :: u8) = 0xC6)
         then [Unsolicited RIL_UNSOL_RESPONSE_VOICE_NETWORK_STATE_CHANGED None] else []) @
        [Unsolicited RIL_UNSOL_SIM_REFRESH (Some ([0, 0, 0, 0] @ [0xC6, 0x6F, 0, 0] @ [0, 0, 0, 0]))] \<rparr>)"
  proof (rule refresh_reports_last_file [where len = 5 and files = "''013F00''" and rest = "[]", THEN conjunct1])
    show "\<not> prefix ''8103'' (drop i (''D01A'' @ ''8103'' @ ?d))" if "i < length ''D01A''" for i using a(1) that by blast
    show "\<not> prefix ''12'' (drop i (''82028182'' @ ''12'' @ ?l))" if "i < length ''82028182''" for i using a(2) that by blast
    show "''12'' = ''92'' \<or> ''12'' = ''12'' \<and> \<not> sublist ''92'' (''82028182'' @ ''12'' @ ?l)"
      using a(3) unfolding strstr_None_iff by blast
  qed simp_all
  then show "ParsePduForRefresh ?env (''D01A'' @ ''8103'' @ ?d) accept ?c =
     (True, ?c\<lparr> events := [Unsolicited RIL_UNSOL_RESPONSE_VOICE_NETWORK_STATE_CHANGED None,
        Unsolicited RIL_UNSOL_SIM_REFRESH (Some [0, 0, 0, 0, 0xC6, 0x6F, 0, 0, 0, 0, 0, 0])] \<rparr>)"
    by (simp add: start_def accept_def)
qed

text \<open>
  The digits of the tag are found anywhere: with the tag 12, which is allowed too, a list that ends
  in the file 6F92 is cut at its last byte, and the framework is told of a file 0.
\<close>

lemma refresh_tag_confused:
  "refresh_of ''D0118103010101820281821205013F006F92'' = FileUpdate 0"
  "refresh_of ''D0118103010101820281821205013F006FC6'' = FileUpdate 0x6FC6"
  by code_simp+

end
