(* ===== verification/Silos.thy ===== *)
theory Silos
  imports SiloVoice SiloSms SiloSim StringUtil
begin

text \<open>
  The silos of a channel (\<open>CInitializer::CreateSilo\<close>, \<open>CreateSilos\<close> in
  \<open>CORE/ND/MODEMS/initializer.cpp\<close>, \<open>CChannelBase::AddSilo\<close>): which silos a configuration selects, in
  which order a notification is offered to them, and the initialisation commands they contribute.
  Lemmas: the container is the list of the selected silos, in the order of their numbers; a
  notification whose prefix a silo does not have passes it by without effect; and messages are
  recognised on every channel that has the silo for them.
\<close>

section \<open>Creating the silos\<close>

definition SILO_MAX :: nat where "SILO_MAX = 12"

text \<open>A silo with the texts of its four functions for initialisation commands, \<open>None\<close> for NULL.\<close>

record silo_object =
  the_silo :: CSilo
  GetBasicInitString :: "string option"
  GetUnlockInitString :: "string option"
  GetURCInitString :: "string option"
  GetURCUnlockInitString :: "string option"

text \<open>
  What the constructors give. The silos for voice, the SIM and messages are the ones modelled, each in
  some state of its own; the other silos are given by their type.
\<close>

record silo_env =
  voice_env_of :: voice_env
  voice_state_of :: voice_state
  sim_env_of :: sim_env
  sim_state_of :: sim_state
  sms_memory :: bool
  init_strings :: "nat \<Rightarrow> string option \<times> string option \<times> string option \<times> string option"
  other_silo :: "nat \<Rightarrow> CSilo"

definition CreateSilo :: "silo_env \<Rightarrow> nat \<Rightarrow> silo_object option" where
  "CreateSilo env siloType =
     (let object = (\<lambda>silo. case init_strings env siloType of (basic, unlock, urc, urc_unlock) \<Rightarrow>
            Some \<lparr> the_silo = silo, GetBasicInitString = basic, GetUnlockInitString = unlock,
              GetURCInitString = urc, GetURCUnlockInitString = urc_unlock \<rparr>)
      in if siloType = 0 then object (CSilo_Voice (voice_env_of env) (voice_state_of env))
         else if siloType = 1 then object (CSilo_SIM (sim_env_of env) (sim_state_of env))
         else if siloType = 2 then object (CSilo_SMS (sms_memory env))
         else if siloType \<in> {3, 4, 5, 6, 7, 8, 11} then object (other_silo env siloType)
         else None)"

text \<open>The part of a channel that is set up: the silos, and the two buffers of initialisation commands.\<close>

record silo_setup =
  m_SiloContainer :: "CSilo list"
  m_szBasicInitCmd :: "char list"
  m_szUnlockInitCmd :: "char list"

definition AddSilo :: "CSilo \<Rightarrow> silo_setup \<Rightarrow> bool \<times> silo_setup" where
  "AddSilo pSilo ch =
     (if length (m_SiloContainer ch) < SILO_MAX then (True, ch\<lparr> m_SiloContainer := m_SiloContainer ch @ [pSilo] \<rparr>)
      else (False, ch))"

text \<open>A text of a silo is appended with a bar in front; \<open>None\<close> when the buffer is not a text that fits.\<close>

definition append_init :: "string option \<Rightarrow> char list \<Rightarrow> (bool \<times> char list) option" where
  "append_init pszSiloInitString buf =
     (case pszSiloInitString of
        None \<Rightarrow> Some (True, buf)
      | Some s \<Rightarrow>
          if s = [] then Some (True, buf)
          else
            (case ConcatenateStringNullTerminate buf MAX_BUFFER_SIZE ''|'' of
               Some (True, buf) \<Rightarrow> ConcatenateStringNullTerminate buf MAX_BUFFER_SIZE s
             | r \<Rightarrow> r))"

text \<open>The loop of \<open>CreateSilos\<close> over the silo types that are left; \<open>urc\<close>: the channel is the URC channel.\<close>

fun add_silos :: "silo_env \<Rightarrow> bool \<Rightarrow> u32 \<Rightarrow> nat list \<Rightarrow> silo_setup \<Rightarrow> (bool \<times> silo_setup) option" where
  "add_silos env urc siloConfig [] ch = Some (True, ch)"
| "add_silos env urc siloConfig (silo # silos) ch =
     (if siloConfig AND push_bit silo 1 = 0 then add_silos env urc siloConfig silos ch
      else
        (case CreateSilo env silo of
           None \<Rightarrow> Some (False, ch)
         | Some obj \<Rightarrow>
             (case AddSilo (the_silo obj) ch of
                (False, ch) \<Rightarrow> Some (False, ch)
              | (True, ch) \<Rightarrow>
                  (case append_init (if urc then GetURCInitString obj else GetBasicInitString obj) (m_szBasicInitCmd ch) of
                     None \<Rightarrow> None
                   | Some (False, buf) \<Rightarrow> Some (False, ch\<lparr> m_szBasicInitCmd := buf \<rparr>)
                   | Some (True, buf) \<Rightarrow>
                       (let ch = ch\<lparr> m_szBasicInitCmd := buf \<rparr> in
                        (case append_init (if urc then GetURCUnlockInitString obj else GetUnlockInitString obj)
                                (m_szUnlockInitCmd ch) of
                           None \<Rightarrow> None
                         | Some (False, buf) \<Rightarrow> Some (False, ch\<lparr> m_szUnlockInitCmd := buf \<rparr>)
                         | Some (True, buf) \<Rightarrow>
                             add_silos env urc siloConfig silos (ch\<lparr> m_szUnlockInitCmd := buf \<rparr>)))))))"

definition CreateSilos :: "silo_env \<Rightarrow> bool \<Rightarrow> u32 \<Rightarrow> silo_setup \<Rightarrow> (bool \<times> silo_setup) option" where
  "CreateSilos env urc siloConfig ch = add_silos env urc siloConfig [0..<SILO_MAX] ch"

section \<open>The container\<close>

definition silos_selected :: "silo_env \<Rightarrow> u32 \<Rightarrow> nat list \<Rightarrow> CSilo list" where
  "silos_selected env siloConfig ns =
     concat (map (\<lambda>n. if siloConfig AND push_bit n 1 = 0 then []
       else map the_silo (case CreateSilo env n of None \<Rightarrow> [] | Some obj \<Rightarrow> [obj])) ns)"

lemma add_silos_container:
  "add_silos env urc siloConfig ns ch = Some (True, ch') \<Longrightarrow>
     m_SiloContainer ch' = m_SiloContainer ch @ silos_selected env siloConfig ns"
proof (induction ns arbitrary: ch)
  case (Cons n ns)
  then show ?case
    by (cases "siloConfig AND push_bit n 1 = 0")
      (auto simp: silos_selected_def AddSilo_def Let_def split: option.splits if_splits prod.splits bool.splits
        dest!: Cons.IH)
qed (simp add: silos_selected_def)

text \<open>With the silo for messages selected, only those for voice and the SIM can be in front of it.\<close>

lemma silos_with_messages:
  assumes "CreateSilos env urc siloConfig ch = Some (True, ch')" "m_SiloContainer ch = []" "siloConfig AND 4 \<noteq> 0"
  shows "\<exists>front rest. m_SiloContainer ch' = front @ CSilo_SMS (sms_memory env) # rest \<and>
    set front \<subseteq> {CSilo_Voice (voice_env_of env) (voice_state_of env), CSilo_SIM (sim_env_of env) (sim_state_of env)}"
proof -
  have "[0..<SILO_MAX] = [0, 1] @ 2 # [3..<12]" by (simp add: SILO_MAX_def upt_conv_Cons)
  then have c: "m_SiloContainer ch' = silos_selected env siloConfig [0, 1] @
      silos_selected env siloConfig [2] @ silos_selected env siloConfig [3..<12]"
    using add_silos_container [of env urc siloConfig "[0..<SILO_MAX]" ch ch'] assms(1,2)
    by (simp add: CreateSilos_def silos_selected_def del: upt_rec_numeral)
  have "silos_selected env siloConfig [2] = [CSilo_SMS (sms_memory env)]"
    using assms(3) by (simp add: silos_selected_def CreateSilo_def split: prod.split)
  moreover have "set (silos_selected env siloConfig [0, 1]) \<subseteq>
      {CSilo_Voice (voice_env_of env) (voice_state_of env), CSilo_SIM (sim_env_of env) (sim_state_of env)}"
    by (auto simp: silos_selected_def CreateSilo_def split: prod.split if_splits)
  ultimately show ?thesis using c by auto
qed

section \<open>Silos that do not know a notification\<close>

definition passes :: "string \<Rightarrow> CSilo \<Rightarrow> bool" where
  "passes w silo \<longleftrightarrow> (\<forall>r g. CSilo_ParseUnsolicitedResponse silo r w g = Some (False, g, r, w))"

lemma silo_of_passes:
  assumes "w \<noteq> []" "hd w \<noteq> SPC" "\<forall>q \<in> fst ` set t. q \<noteq> [] \<and> \<not> prefix q w"
  shows "passes w (silo_of t st)"
  using assms FindParser_loop_skip [of w t "parser_of st" "[(Some [], ParseNULL)]" 0]
  by (simp add: passes_def CSilo_ParseUnsolicitedResponse_def FindParser_def silo_of_def)

lemma ParseUnsolicitedResponse_passes:
  "\<forall>silo \<in> set front. passes w silo \<Longrightarrow>
     ParseUnsolicitedResponse (map Some front @ silos) r w False = ParseUnsolicitedResponse silos r w False"
  by (induction front) (simp_all add: passes_def)

lemma IsCompleteResponse_passes:
  assumes "response_ok r" "text_of r = NL @ w" "\<forall>silo \<in> set front. passes w silo"
  shows "IsCompleteResponse (map Some front @ silos) r = IsCompleteResponse silos r"
proof -
  have "m_uiUsed (base r) \<noteq> 0" using assms(1,2) length_text_of [of r] by (auto simp: response_ok_def NL_def)
  then have "terminate_buffer r = Some r" using assms(1) terminate_id by (simp add: response_ok_def)
  moreover have "IsUnsolicitedResponse (map Some front @ silos) r = IsUnsolicitedResponse silos r"
    using ParseUnsolicitedResponse_passes [OF assms(3)] assms(2) by (simp add: IsUnsolicitedResponse_def NL_eq)
  ultimately show ?thesis by (simp add: IsCompleteResponse_def)
qed

lemma voice_passes:
  "passes (''+CMT: '' @ s) (CSilo_Voice env st)" "passes (''+CBM: '' @ s) (CSilo_Voice env st)"
  unfolding CSilo_Voice_def by (rule silo_of_passes; simp add: voice_table_def)+

lemma sim_passes:
  "passes (''+CMT: '' @ s) (CSilo_SIM env st)" "passes (''+CBM: '' @ s) (CSilo_SIM env st)"
  unfolding CSilo_SIM_def by (rule silo_of_passes; simp add: sim_table_def)+

section \<open>Messages on a channel\<close>

text \<open>
  C36. A message is recognised on every channel that is set up with the silo for messages (bit 2 of
  its configuration: the URC channel, with the silos for voice and the SIM in front of it, and the
  SMS channel), in whatever states the silos are and whatever the others do, as soon as its two lines
  have arrived, whatever follows it: the response is complete and unsolicited, ends right behind
  the message, and has the code and the data for the framework: the text of a short message with
  its terminator, or the bytes a broadcast page has been printed from.
\<close>

theorem messages_received:
  assumes "CreateSilos env urc siloConfig ch = Some (True, ch')" "m_SiloContainer ch = []" "siloConfig AND 4 \<noteq> 0"
    "sms_memory env"
    and msg: "n < 2 ^ 32" "CR \<notin> set pdu" "NUL \<notin> set pdu" "pdu = [] \<or> hd pdu \<noteq> SPC" "NUL \<notin> set rest"
    "\<forall>a. alpha = Some a \<longrightarrow> QUOTE \<notin> set a \<and> NUL \<notin> set a \<and> length a < MAX_BUFFER_SIZE"
  shows "(\<exists>r. IsCompleteResponse (map Some (m_SiloContainer ch'))
        (received (NL @ ''+CMT: '' @ message_text alpha n pdu rest)) =
      Some (True, r) \<and> IsUnsolicitedFlag r \<and> m_uiResultCode r = ResultCode RIL_UNSOL_RESPONSE_NEW_SMS \<and>
      CResponse.m_pData r = Some (map byte pdu @ [0]) \<and> drop (m_uiResponseEndMarker r) (bytes_of r) = rest) \<and>
    (\<exists>r. IsCompleteResponse (map Some (m_SiloContainer ch'))
        (received (NL @ ''+CBM: '' @ page_text n (GSMToGSMHex_loop (b # bytes) (2 * length (b # bytes))) rest)) =
      Some (True, r) \<and> IsUnsolicitedFlag r \<and> m_uiResultCode r = ResultCode RIL_UNSOL_RESPONSE_NEW_BROADCAST_SMS \<and>
      CResponse.m_pData r = Some (b # bytes) \<and> drop (m_uiResponseEndMarker r) (bytes_of r) = rest)"
proof -
  obtain front silos where c: "m_SiloContainer ch' = front @ CSilo_SMS True # silos"
    and front: "set front \<subseteq> {CSilo_Voice (voice_env_of env) (voice_state_of env), CSilo_SIM (sim_env_of env) (sim_state_of env)}"
    using silos_with_messages [OF assms(1-3)] assms(4) by auto
  have pass: "IsCompleteResponse (map Some (m_SiloContainer ch')) (received (NL @ w)) =
      IsCompleteResponse (Some (CSilo_SMS True) # map Some silos) (received (NL @ w))"
    if "NUL \<notin> set w" "\<And>e s. passes w (CSilo_Voice e s)" "\<And>e s. passes w (CSilo_SIM e s)" for w
  proof -
    have "\<forall>silo \<in> set front. passes w silo" using that(2,3) front by blast
    moreover have "text_of (received (NL @ w)) = NL @ w" using that(1) by (intro text_of_received) (simp add: NL_def)
    ultimately show ?thesis using IsCompleteResponse_passes [OF received_ok(1)] by (simp add: c)
  qed
  have "NUL \<notin> set (dec_string n)" using field_chars [of NUL n] by (auto simp: isdigit_c_def code_def)
  then have plain: "NUL \<notin> set (''+CMT: '' @ message_text alpha n pdu rest)"
    "NUL \<notin> set (''+CBM: '' @ page_text n (GSMToGSMHex_loop (b # bytes) (2 * length (b # bytes))) rest)"
    using msg hex_text_plain(2)
    by (auto simp: message_text_def page_text_def NL_def simp del: GSMToGSMHex_loop.simps split: option.splits)
  show ?thesis
    unfolding pass [OF plain(1) voice_passes(1) sim_passes(1)] pass [OF plain(2) voice_passes(2) sim_passes(2)]
    by (rule message_in_front [OF msg])
qed

text \<open>The URC channel as it is shipped (\<open>0x8F7\<close>, \<open>repository.txt\<close>), here without initialisation commands.\<close>

lemma URC_silos:
  "\<exists>ch'. CreateSilos (env\<lparr> init_strings := (\<lambda>_. (None, None, None, None)) \<rparr>) True 0x8F7
      \<lparr> m_SiloContainer = [], m_szBasicInitCmd = [NUL], m_szUnlockInitCmd = [NUL] \<rparr> = Some (True, ch') \<and>
    length (m_SiloContainer ch') = 8"
  by (simp add: CreateSilos_def SILO_MAX_def upt_conv_Cons CreateSilo_def AddSilo_def append_init_def del: upt_rec_numeral)

theorem messages_received_witness:
  "\<forall>env. \<exists>ch'. CreateSilos (env\<lparr> sms_memory := True, init_strings := (\<lambda>_. (None, None, None, None)) \<rparr>) True 0x8F7
       \<lparr> m_SiloContainer = [], m_szBasicInitCmd = [NUL], m_szUnlockInitCmd = [NUL] \<rparr> = Some (True, ch') \<and>
     (\<exists>r. IsCompleteResponse (map Some (m_SiloContainer ch'))
         (received (NL @ ''+CMT: '' @ message_text None 4 ''0791AB'' ''OK'')) = Some (True, r) \<and>
       CResponse.m_pData r = Some (map byte ''0791AB'' @ [0]) \<and> drop (m_uiResponseEndMarker r) (bytes_of r) = ''OK'')"
proof
  fix env :: silo_env
  let ?env = "env\<lparr> sms_memory := True, init_strings := (\<lambda>_. (None, None, None, None)) \<rparr>"
  obtain ch' where c: "CreateSilos ?env True 0x8F7
      \<lparr> m_SiloContainer = [], m_szBasicInitCmd = [NUL], m_szUnlockInitCmd = [NUL] \<rparr> = Some (True, ch')"
    using URC_silos [of "env\<lparr> sms_memory := True \<rparr>"] by auto
  have "CR \<notin> set ''0791AB''" "NUL \<notin> set ''0791AB''" "NUL \<notin> set ''OK''" "hd ''0791AB'' \<noteq> SPC" by code_simp+
  note plain = this
  have "(4::nat) < 2 ^ 32" "''0791AB'' = [] \<or> hd ''0791AB'' \<noteq> SPC" "m_SiloContainer
      \<lparr> m_SiloContainer = [], m_szBasicInitCmd = [NUL], m_szUnlockInitCmd = [NUL] \<rparr> = []" "(0x8F7::u32) AND 4 \<noteq> 0"
    "sms_memory ?env" using plain(4) by simp_all
  from messages_received [OF c this(3,4,5,1) plain(1,2) this(2) plain(3), where alpha = None]
  show "\<exists>ch'. CreateSilos ?env True 0x8F7
       \<lparr> m_SiloContainer = [], m_szBasicInitCmd = [NUL], m_szUnlockInitCmd = [NUL] \<rparr> = Some (True, ch') \<and>
     (\<exists>r. IsCompleteResponse (map Some (m_SiloContainer ch'))
         (received (NL @ ''+CMT: '' @ message_text None 4 ''0791AB'' ''OK'')) = Some (True, r) \<and>
       CResponse.m_pData r = Some (map byte ''0791AB'' @ [0]) \<and> drop (m_uiResponseEndMarker r) (bytes_of r) = ''OK'')"
    using c by auto
qed

end
