(* ===== verification/CellInfoCache.thy ===== *)
theory CellInfoCache
  imports RilPrelude "HOL-Library.Multiset"
begin

text \<open>
  Model of \<open>CORE/ND/cellInfo_cache.cpp\<close>: the cache of the serving and neighbouring cells, in
  its two versions (\<open>RIL_CellInfo\<close>, and \<open>RIL_CellInfo_v2\<close> of \<open>rril.h\<close>), the field by field
  comparisons, and the operations \<open>checkCache\<close>, \<open>updateCache\<close> and \<open>getCellInfo\<close>.

  A \<open>RIL_CellInfo\<close> is a tagged union; its constructor is the tag, and \<open>OtherCell t\<close> stands for
  every type \<open>t\<close> the comparisons do not know, among them the type 0 of a cleared entry
  (\<open>RIL_CELL_INFO_TYPE_NONE\<close>). The structures of the first version are those of Android's
  \<open>ril.h\<close>; only the fields the comparisons name are modelled, with the registration flag and
  the time stamp, which they do not look at. An access outside an array gives \<open>None\<close>.
\<close>

section \<open>Cells\<close>

record RIL_CellIdentityGsm =
  gsm_mcc :: int
  gsm_mnc :: int
  gsm_lac :: int
  gsm_cid :: int

record RIL_CellIdentityGsm_v2 = RIL_CellIdentityGsm +
  basestationId :: int
  arfcn :: int

record RIL_CellIdentityWcdma =
  wcdma_mcc :: int
  wcdma_mnc :: int
  wcdma_lac :: int
  wcdma_cid :: int
  psc :: int

record RIL_CellIdentityWcdma_v2 = RIL_CellIdentityWcdma +
  dluarfcn :: int
  uluarfcn :: int
  wcdma_pathloss :: int

record RIL_CellIdentityLte =
  lte_mcc :: int
  lte_mnc :: int
  ci :: int
  pci :: int
  tac :: int

record RIL_CellIdentityLte_v2 = RIL_CellIdentityLte +
  dlearfcn :: int
  ulearfcn :: int
  lte_pathloss :: int

record RIL_GW_SignalStrength =
  gw_signalStrength :: int
  gw_bitErrorRate :: int

record RIL_GW_SignalStrength_v2 = RIL_GW_SignalStrength +
  rxLev :: int
  gw_timingAdvance :: int

record RIL_SignalStrengthWcdma =
  wcdma_signalStrength :: int
  wcdma_bitErrorRate :: int

record RIL_SignalStrengthWcdma_v2 = RIL_SignalStrengthWcdma +
  rscp :: int
  ecNo :: int

record RIL_LTE_SignalStrength_v8 =
  lte_signalStrength :: int
  rsrp :: int
  rsrq :: int
  rssnr :: int
  cqi :: int
  lte_timingAdvance :: int

datatype ('g, 'w, 'l) cell_union = Gsm 'g | Wcdma 'w | Lte 'l | OtherCell int

record ('g, 'w, 'l) cell_info =
  registered :: int
  timeStampType :: int
  timeStamp :: nat
  CellInfo :: "('g, 'w, 'l) cell_union"

type_synonym RIL_CellInfo =
  "(RIL_CellIdentityGsm \<times> RIL_GW_SignalStrength, RIL_CellIdentityWcdma \<times> RIL_SignalStrengthWcdma,
    RIL_CellIdentityLte \<times> RIL_LTE_SignalStrength_v8) cell_info"

type_synonym RIL_CellInfo_v2 =
  "(RIL_CellIdentityGsm_v2 \<times> RIL_GW_SignalStrength_v2,
    RIL_CellIdentityWcdma_v2 \<times> RIL_SignalStrengthWcdma_v2,
    RIL_CellIdentityLte_v2 \<times> RIL_LTE_SignalStrength_v8) cell_info"

section \<open>The comparisons\<close>

definition eq_CellIdentityGsm :: "RIL_CellIdentityGsm \<Rightarrow> RIL_CellIdentityGsm \<Rightarrow> bool" where
  "eq_CellIdentityGsm lhs rhs \<longleftrightarrow> gsm_mnc lhs = gsm_mnc rhs \<and> gsm_mcc lhs = gsm_mcc rhs \<and>
     gsm_lac lhs = gsm_lac rhs \<and> gsm_cid lhs = gsm_cid rhs"

definition eq_CellIdentityWcdma :: "RIL_CellIdentityWcdma \<Rightarrow> RIL_CellIdentityWcdma \<Rightarrow> bool" where
  "eq_CellIdentityWcdma lhs rhs \<longleftrightarrow> wcdma_mnc lhs = wcdma_mnc rhs \<and> wcdma_mcc lhs = wcdma_mcc rhs \<and>
     wcdma_lac lhs = wcdma_lac rhs \<and> wcdma_cid lhs = wcdma_cid rhs \<and> psc lhs = psc rhs"

definition eq_CellIdentityLte :: "RIL_CellIdentityLte \<Rightarrow> RIL_CellIdentityLte \<Rightarrow> bool" where
  "eq_CellIdentityLte lhs rhs \<longleftrightarrow> lte_mnc lhs = lte_mnc rhs \<and> lte_mcc lhs = lte_mcc rhs \<and>
     ci lhs = ci rhs \<and> pci lhs = pci rhs \<and> tac lhs = tac rhs"

definition eq_GW_SignalStrength :: "RIL_GW_SignalStrength \<Rightarrow> RIL_GW_SignalStrength \<Rightarrow> bool" where
  "eq_GW_SignalStrength lhs rhs \<longleftrightarrow> gw_signalStrength lhs = gw_signalStrength rhs \<and>
     gw_bitErrorRate lhs = gw_bitErrorRate rhs"

definition eq_SignalStrengthWcdma :: "RIL_SignalStrengthWcdma \<Rightarrow> RIL_SignalStrengthWcdma \<Rightarrow> bool" where
  "eq_SignalStrengthWcdma lhs rhs \<longleftrightarrow> wcdma_signalStrength lhs = wcdma_signalStrength rhs \<and>
     wcdma_bitErrorRate lhs = wcdma_bitErrorRate rhs"

definition eq_LTE_SignalStrength_v8 ::
    "RIL_LTE_SignalStrength_v8 \<Rightarrow> RIL_LTE_SignalStrength_v8 \<Rightarrow> bool" where
  "eq_LTE_SignalStrength_v8 lhs rhs \<longleftrightarrow> lte_signalStrength lhs = lte_signalStrength rhs \<and>
     rsrp lhs = rsrp rhs \<and> rsrq lhs = rsrq rhs \<and> rssnr lhs = rssnr rhs \<and> cqi lhs = cqi rhs \<and>
     lte_timingAdvance lhs = lte_timingAdvance rhs"

definition eq_CellInfo :: "RIL_CellInfo \<Rightarrow> RIL_CellInfo \<Rightarrow> bool" where
  "eq_CellInfo lhs rhs \<longleftrightarrow>
     (case (CellInfo lhs, CellInfo rhs) of
        (Gsm (i, s), Gsm (i', s')) \<Rightarrow> eq_CellIdentityGsm i i' \<and> eq_GW_SignalStrength s s'
      | (Wcdma (i, s), Wcdma (i', s')) \<Rightarrow> eq_CellIdentityWcdma i i' \<and> eq_SignalStrengthWcdma s s'
      | (Lte (i, s), Lte (i', s')) \<Rightarrow> eq_CellIdentityLte i i' \<and> eq_LTE_SignalStrength_v8 s s'
      | _ \<Rightarrow> False)"

definition eq_CellIdentityGsm_v2 :: "RIL_CellIdentityGsm_v2 \<Rightarrow> RIL_CellIdentityGsm_v2 \<Rightarrow> bool" where
  "eq_CellIdentityGsm_v2 lhs rhs \<longleftrightarrow> gsm_mnc lhs = gsm_mnc rhs \<and> gsm_mcc lhs = gsm_mcc rhs \<and>
     gsm_lac lhs = gsm_lac rhs \<and> gsm_cid lhs = gsm_cid rhs \<and>
     basestationId lhs = basestationId rhs \<and> arfcn lhs = arfcn rhs"

definition eq_CellIdentityWcdma_v2 :: "RIL_CellIdentityWcdma_v2 \<Rightarrow> RIL_CellIdentityWcdma_v2 \<Rightarrow> bool" where
  "eq_CellIdentityWcdma_v2 lhs rhs \<longleftrightarrow> wcdma_mnc lhs = wcdma_mnc rhs \<and> wcdma_mcc lhs = wcdma_mcc rhs \<and>
     wcdma_lac lhs = wcdma_lac rhs \<and> wcdma_cid lhs = wcdma_cid rhs \<and> psc lhs = psc rhs \<and>
     dluarfcn lhs = dluarfcn rhs \<and> uluarfcn lhs = uluarfcn rhs \<and> wcdma_pathloss lhs = wcdma_pathloss rhs"

definition eq_CellIdentityLte_v2 :: "RIL_CellIdentityLte_v2 \<Rightarrow> RIL_CellIdentityLte_v2 \<Rightarrow> bool" where
  "eq_CellIdentityLte_v2 lhs rhs \<longleftrightarrow> lte_mnc lhs = lte_mnc rhs \<and> lte_mcc lhs = lte_mcc rhs \<and>
     ci lhs = ci rhs \<and> pci lhs = pci rhs \<and> tac lhs = tac rhs \<and> dlearfcn lhs = dlearfcn rhs \<and>
     ulearfcn lhs = ulearfcn rhs \<and> lte_pathloss lhs = lte_pathloss rhs"

definition eq_GW_SignalStrength_v2 ::
    "RIL_GW_SignalStrength_v2 \<Rightarrow> RIL_GW_SignalStrength_v2 \<Rightarrow> bool" where
  "eq_GW_SignalStrength_v2 lhs rhs \<longleftrightarrow> gw_signalStrength lhs = gw_signalStrength rhs \<and>
     gw_bitErrorRate lhs = gw_bitErrorRate rhs \<and> rxLev lhs = rxLev rhs \<and>
     gw_timingAdvance lhs = gw_timingAdvance rhs"

definition eq_SignalStrengthWcdma_v2 ::
    "RIL_SignalStrengthWcdma_v2 \<Rightarrow> RIL_SignalStrengthWcdma_v2 \<Rightarrow> bool" where
  "eq_SignalStrengthWcdma_v2 lhs rhs \<longleftrightarrow> wcdma_signalStrength lhs = wcdma_signalStrength rhs \<and>
     wcdma_bitErrorRate lhs = wcdma_bitErrorRate rhs \<and> rscp lhs = rscp rhs \<and> ecNo lhs = ecNo rhs"

definition eq_CellInfo_v2 :: "RIL_CellInfo_v2 \<Rightarrow> RIL_CellInfo_v2 \<Rightarrow> bool" where
  "eq_CellInfo_v2 lhs rhs \<longleftrightarrow>
     (case (CellInfo lhs, CellInfo rhs) of
        (Gsm (i, s), Gsm (i', s')) \<Rightarrow> eq_CellIdentityGsm_v2 i i' \<and> eq_GW_SignalStrength_v2 s s'
      | (Wcdma (i, s), Wcdma (i', s')) \<Rightarrow>
          eq_CellIdentityWcdma_v2 i i' \<and> eq_SignalStrengthWcdma_v2 s s'
      | (Lte (i, s), Lte (i', s')) \<Rightarrow> eq_CellIdentityLte_v2 i i' \<and> eq_LTE_SignalStrength_v8 s s'
      | _ \<Rightarrow> False)"

section \<open>The cache\<close>

definition RRIL_MAX_CELL_ID_COUNT :: nat where "RRIL_MAX_CELL_ID_COUNT = 40"

record cell_cache =
  m_sCellInfo :: "RIL_CellInfo list"
  m_sCellInfov2 :: "RIL_CellInfo_v2 list"
  m_cacheSize :: int

text \<open>A cleared entry, and the cleared array \<open>memset\<close> leaves.\<close>

definition cleared_cell :: "('g, 'w, 'l) cell_info" where
  "cleared_cell = \<lparr> registered = 0, timeStampType = 0, timeStamp = 0, CellInfo = OtherCell 0 \<rparr>"

definition cleared :: "('g, 'w, 'l) cell_info list" where
  "cleared = replicate RRIL_MAX_CELL_ID_COUNT cleared_cell"

definition new_cell_cache :: cell_cache where
  "new_cell_cache = \<lparr> m_sCellInfo = cleared, m_sCellInfov2 = cleared, m_cacheSize = 0 \<rparr>"

definition IsCellInfoCacheEmpty :: "cell_cache \<Rightarrow> bool" where
  "IsCellInfoCacheEmpty c \<longleftrightarrow> m_cacheSize c \<le> 0"

text \<open>
  The loops, for either comparison: the search of \<open>checkCache\<close> from entry \<open>i\<close> on, the loop of
  \<open>updateCache\<close> that looks for an entry the cache does not have, and the two copy loops.
\<close>

fun check_loop :: "('c \<Rightarrow> 'c \<Rightarrow> bool) \<Rightarrow> 'c \<Rightarrow> 'c list \<Rightarrow> int \<Rightarrow> int \<Rightarrow> int option" where
  "check_loop eq pData [] i cacheSize = (if i < cacheSize then None else Some (-1))"
| "check_loop eq pData (c # cells) i cacheSize =
     (if i < cacheSize then (if eq pData c then Some i else check_loop eq pData cells (i + 1) cacheSize)
      else Some (-1))"

fun new_item :: "('c \<Rightarrow> int option) \<Rightarrow> 'c list \<Rightarrow> int \<Rightarrow> int \<Rightarrow> bool option" where
  "new_item check [] i itemCount = (if i < itemCount then None else Some False)"
| "new_item check (x # items) i itemCount =
     (if i < itemCount then
        (case check x of
           None \<Rightarrow> None
         | Some k \<Rightarrow> if k < 0 then Some True else new_item check items (i + 1) itemCount)
      else Some False)"

definition copy_items :: "'c list \<Rightarrow> 'c list \<Rightarrow> int \<Rightarrow> 'c list option" where
  "copy_items dst src n =
     (if nat n \<le> length src \<and> nat n \<le> length dst then Some (take (nat n) src @ drop (nat n) dst)
      else None)"

definition needs_update ::
    "('c \<Rightarrow> 'c \<Rightarrow> bool) \<Rightarrow> 'c list \<Rightarrow> int \<Rightarrow> 'c list \<Rightarrow> int \<Rightarrow> bool option" where
  "needs_update eq cells cacheSize items itemCount =
     (if itemCount \<noteq> cacheSize then Some True
      else new_item (\<lambda>x. check_loop eq x cells 0 cacheSize) items 0 itemCount)"

text \<open>\<open>checkCache\<close>, \<open>updateCache\<close> and \<open>getCellInfo\<close> for \<open>RIL_CellInfo\<close>.\<close>

definition checkCache :: "cell_cache \<Rightarrow> RIL_CellInfo \<Rightarrow> int option" where
  "checkCache c pData = check_loop eq_CellInfo pData (m_sCellInfo c) 0 (m_cacheSize c)"

definition updateCache ::
    "RIL_CellInfo list option \<Rightarrow> int \<Rightarrow> cell_cache \<Rightarrow> (bool \<times> cell_cache) option" where
  "updateCache pData itemCount c =
     (case pData of
        None \<Rightarrow> Some (False, c)
      | Some items \<Rightarrow>
          if itemCount > int RRIL_MAX_CELL_ID_COUNT then Some (False, c)
          else
            (case needs_update eq_CellInfo (m_sCellInfo c) (m_cacheSize c) items itemCount of
               None \<Rightarrow> None
             | Some False \<Rightarrow> Some (False, c)
             | Some True \<Rightarrow>
                 map_option (\<lambda>cells. (True, c\<lparr> m_cacheSize := itemCount, m_sCellInfo := cells \<rparr>))
                   (copy_items cleared items itemCount)))"

definition getCellInfo ::
    "cell_cache \<Rightarrow> RIL_CellInfo list option \<Rightarrow> int \<Rightarrow> (bool \<times> RIL_CellInfo list option \<times> int) option" where
  "getCellInfo c pRetData itemCount =
     (case pRetData of
        None \<Rightarrow> Some (False, None, itemCount)
      | Some ret \<Rightarrow>
          map_option (\<lambda>cells. (True, Some cells, m_cacheSize c))
            (copy_items ret (m_sCellInfo c) (m_cacheSize c)))"

text \<open>The same for \<open>RIL_CellInfo_v2\<close>; the entry count is shared with the first version.\<close>

definition checkCache_v2 :: "cell_cache \<Rightarrow> RIL_CellInfo_v2 \<Rightarrow> int option" where
  "checkCache_v2 c pData = check_loop eq_CellInfo_v2 pData (m_sCellInfov2 c) 0 (m_cacheSize c)"

definition updateCache_v2 ::
    "RIL_CellInfo_v2 list option \<Rightarrow> int \<Rightarrow> cell_cache \<Rightarrow> (bool \<times> cell_cache) option" where
  "updateCache_v2 pData itemCount c =
     (case pData of
        None \<Rightarrow> Some (False, c)
      | Some items \<Rightarrow>
          if itemCount > int RRIL_MAX_CELL_ID_COUNT then Some (False, c)
          else
            (case needs_update eq_CellInfo_v2 (m_sCellInfov2 c) (m_cacheSize c) items itemCount of
               None \<Rightarrow> None
             | Some False \<Rightarrow> Some (False, c)
             | Some True \<Rightarrow>
                 map_option (\<lambda>cells. (True, c\<lparr> m_cacheSize := itemCount, m_sCellInfov2 := cells \<rparr>))
                   (copy_items cleared items itemCount)))"

definition getCellInfo_v2 ::
    "cell_cache \<Rightarrow> RIL_CellInfo_v2 list option \<Rightarrow> int
      \<Rightarrow> (bool \<times> RIL_CellInfo_v2 list option \<times> int) option" where
  "getCellInfo_v2 c pRetData itemCount =
     (case pRetData of
        None \<Rightarrow> Some (False, None, itemCount)
      | Some ret \<Rightarrow>
          map_option (\<lambda>cells. (True, Some cells, m_cacheSize c))
            (copy_items ret (m_sCellInfov2 c) (m_cacheSize c)))"

section \<open>Comparisons by key\<close>

text \<open>Whether the comparison knows the type of a cell; where it does, it compares the contents.\<close>

definition known :: "('g, 'w, 'l) cell_info \<Rightarrow> bool" where
  "known x \<longleftrightarrow> (\<forall>t. CellInfo x \<noteq> OtherCell t)"

lemma eq_CellInfo_key: "eq_CellInfo x y \<longleftrightarrow> known x \<and> CellInfo x = CellInfo y"
  by (cases "CellInfo x"; cases "CellInfo y")
    (auto simp: eq_CellInfo_def known_def eq_CellIdentityGsm_def eq_CellIdentityWcdma_def
      eq_CellIdentityLte_def eq_GW_SignalStrength_def eq_SignalStrengthWcdma_def
      eq_LTE_SignalStrength_v8_def)

lemma eq_CellInfo_v2_key: "eq_CellInfo_v2 x y \<longleftrightarrow> known x \<and> CellInfo x = CellInfo y"
  by (cases "CellInfo x"; cases "CellInfo y")
    (auto simp: eq_CellInfo_v2_def known_def eq_CellIdentityGsm_v2_def eq_CellIdentityWcdma_v2_def
      eq_CellIdentityLte_v2_def eq_GW_SignalStrength_v2_def eq_SignalStrengthWcdma_v2_def
      eq_LTE_SignalStrength_v8_def)

section \<open>The laws of a cell store\<close>

text \<open>
  What both versions share: a store with an array of cells and a count, an update that compares
  by contents, and a read.
\<close>

lemma check_loop_spec:
  assumes "nat (cacheSize - i) \<le> length cells" "0 \<le> i"
  shows "\<exists>k. check_loop eq x cells i cacheSize = Some k \<and>
    (k < 0 \<longleftrightarrow> (\<forall>c \<in> set (take (nat (cacheSize - i)) cells). \<not> eq x c))"
  using assms
proof (induction cells arbitrary: i)
  case (Cons c cells)
  show ?case
  proof (cases "i < cacheSize")
    case True
    then have n: "nat (cacheSize - i) = Suc (nat (cacheSize - (i + 1)))" by simp
    then show ?thesis using Cons.IH [of "i + 1"] Cons.prems True by auto
  qed simp
qed simp

lemma new_item_spec:
  assumes "nat (n - i) \<le> length items" "\<And>x. \<exists>k. check x = Some k \<and> (k < 0 \<longleftrightarrow> \<not> P x)"
  shows "new_item check items i n = Some (\<exists>x \<in> set (take (nat (n - i)) items). \<not> P x)"
  using assms(1)
proof (induction items arbitrary: i)
  case (Cons x items)
  show ?case
  proof (cases "i < n")
    case True
    then have n: "nat (n - i) = Suc (nat (n - (i + 1)))" by simp
    obtain k where k: "check x = Some k" "k < 0 \<longleftrightarrow> \<not> P x" using assms(2) by blast
    show ?thesis using Cons.IH [of "i + 1"] Cons.prems True k n by auto
  qed simp
qed simp

lemma needs_update_spec:
  assumes "nat cacheSize \<le> length cells" "nat n \<le> length items"
  shows "needs_update eq cells cacheSize items n =
    Some (n \<noteq> cacheSize \<or> (\<exists>x \<in> set (take (nat n) items). \<forall>c \<in> set (take (nat cacheSize) cells). \<not> eq x c))"
proof (cases "n = cacheSize")
  case True
  have "\<exists>k. check_loop eq x cells 0 cacheSize = Some k \<and>
      (k < 0 \<longleftrightarrow> \<not> (\<exists>c \<in> set (take (nat cacheSize) cells). eq x c))" for x
    using check_loop_spec [of cacheSize 0 cells eq x] assms by auto
  from new_item_spec [OF _ this, of n 0 items] True assms show ?thesis
    by (simp add: needs_update_def)
qed (simp add: needs_update_def)

lemma mset_eq_of_subset:
  assumes "distinct xs" "set xs \<subseteq> set ys" "length xs = length ys"
  shows "mset xs = mset ys"
proof -
  have "card (set xs) = length ys" using assms by (simp add: distinct_card)
  moreover have "card (set ys) \<le> length ys" by (rule card_length)
  moreover have "card (set xs) \<le> card (set ys)" using assms(2) by (simp add: card_mono)
  ultimately have c: "card (set xs) = card (set ys)" "card (set ys) = length ys"
    using assms(2) by auto
  have "set xs = set ys" using card_subset_eq [OF _ assms(2) c(1)] by simp
  with c show ?thesis using assms(1) by (simp add: card_distinct set_eq_iff_mset_eq_distinct)
qed

locale cell_store =
  fixes eq :: "('g, 'w, 'l) cell_info \<Rightarrow> ('g, 'w, 'l) cell_info \<Rightarrow> bool"
    and cells :: "'s \<Rightarrow> ('g, 'w, 'l) cell_info list"
    and ok :: "'s \<Rightarrow> bool"
    and update :: "('g, 'w, 'l) cell_info list option \<Rightarrow> int \<Rightarrow> 's \<Rightarrow> (bool \<times> 's) option"
    and get :: "'s \<Rightarrow> ('g, 'w, 'l) cell_info list option \<Rightarrow> int
      \<Rightarrow> (bool \<times> ('g, 'w, 'l) cell_info list option \<times> int) option"
  assumes eq_key: "eq x y \<longleftrightarrow> known x \<and> CellInfo x = CellInfo y"
    and update_spec: "ok s \<Longrightarrow> length items = RRIL_MAX_CELL_ID_COUNT \<Longrightarrow> k \<le> RRIL_MAX_CELL_ID_COUNT \<Longrightarrow>
      \<exists>b s'. update (Some items) (int k) s = Some (b, s') \<and> ok s' \<and>
        (b \<longleftrightarrow> k \<noteq> length (cells s) \<or> (\<exists>x \<in> set (take k items). \<forall>c \<in> set (cells s). \<not> eq x c)) \<and>
        cells s' = (if b then take k items else cells s)"
    and get_spec: "ok s \<Longrightarrow> length ret = RRIL_MAX_CELL_ID_COUNT \<Longrightarrow>
      get s (Some ret) n = Some (True, Some (cells s @ drop (length (cells s)) ret), int (length (cells s)))"
begin


lemma reports_changes:
  assumes "ok s" "length items = RRIL_MAX_CELL_ID_COUNT" "k \<le> RRIL_MAX_CELL_ID_COUNT"
    "\<forall>x \<in> set (take k items). known x" "distinct (map CellInfo (take k items))"
  shows "\<exists>b s'. update (Some items) (int k) s = Some (b, s') \<and> ok s' \<and>
    (b \<longleftrightarrow> mset (map CellInfo (cells s)) \<noteq> mset (map CellInfo (take k items))) \<and>
    mset (map CellInfo (cells s')) = mset (map CellInfo (take k items))"
proof -
  let ?new = "map CellInfo (take k items)" and ?old = "map CellInfo (cells s)"
  obtain b s' where u: "update (Some items) (int k) s = Some (b, s')" "ok s'"
    "b \<longleftrightarrow> k \<noteq> length (cells s) \<or> (\<exists>x \<in> set (take k items). \<forall>c \<in> set (cells s). \<not> eq x c)"
    "cells s' = (if b then take k items else cells s)"
    using update_spec [OF assms(1-3)] by blast
  have l: "length ?new = k" using assms(2,3) by simp
  have "(\<exists>x \<in> set (take k items). \<forall>c \<in> set (cells s). \<not> eq x c) \<longleftrightarrow> \<not> set ?new \<subseteq> set ?old"
    using assms(4) by (auto simp: eq_key)
  then have "b \<longleftrightarrow> \<not> (k = length ?old \<and> set ?new \<subseteq> set ?old)" using u(3) by auto
  moreover have "k = length ?old \<and> set ?new \<subseteq> set ?old \<longleftrightarrow> mset ?new = mset ?old"
  proof
    assume "k = length ?old \<and> set ?new \<subseteq> set ?old"
    then show "mset ?new = mset ?old" using mset_eq_of_subset [OF assms(5), of ?old] l by metis
  next
    assume m: "mset ?new = mset ?old"
    show "k = length ?old \<and> set ?new \<subseteq> set ?old"
      using mset_eq_setD [OF m] mset_eq_length [OF m] l by simp
  qed
  ultimately have b: "b \<longleftrightarrow> mset ?old \<noteq> mset ?new" by metis
  have "mset (map CellInfo (cells s')) = mset ?new" unfolding u(4) using b by (cases b) simp_all
  with u(1,2) b show ?thesis by blast
qed

lemma same_contents_kept:
  assumes "ok s" "length items = RRIL_MAX_CELL_ID_COUNT" "k = length (cells s)" "k \<le> RRIL_MAX_CELL_ID_COUNT"
    "\<forall>x \<in> set (take k items). known x \<and> CellInfo x \<in> CellInfo ` set (cells s)"
  shows "\<exists>s'. update (Some items) (int k) s = Some (False, s') \<and> ok s' \<and> cells s' = cells s"
  using update_spec [OF assms(1,2,4)] assms(3,5) by (fastforce simp: eq_key)

end

definition cache_ok :: "cell_cache \<Rightarrow> bool" where
  "cache_ok c \<longleftrightarrow> length (m_sCellInfo c) = RRIL_MAX_CELL_ID_COUNT \<and>
     length (m_sCellInfov2 c) = RRIL_MAX_CELL_ID_COUNT \<and>
     0 \<le> m_cacheSize c \<and> m_cacheSize c \<le> int RRIL_MAX_CELL_ID_COUNT"

definition cached :: "cell_cache \<Rightarrow> RIL_CellInfo list" where
  "cached c = take (nat (m_cacheSize c)) (m_sCellInfo c)"

definition cached_v2 :: "cell_cache \<Rightarrow> RIL_CellInfo_v2 list" where
  "cached_v2 c = take (nat (m_cacheSize c)) (m_sCellInfov2 c)"

lemma length_cleared [simp]: "length cleared = RRIL_MAX_CELL_ID_COUNT"
  by (simp add: cleared_def)

lemma new_cell_cache_ok: "cache_ok new_cell_cache"
  by (simp add: cache_ok_def new_cell_cache_def)

lemma length_cached:
  assumes "cache_ok c"
  shows "int (length (cached c)) = m_cacheSize c" "int (length (cached_v2 c)) = m_cacheSize c"
  using assms by (auto simp: cached_def cached_v2_def cache_ok_def)

lemma count_cached:
  assumes "cache_ok c"
  shows "k \<noteq> length (cached c) \<longleftrightarrow> int k \<noteq> m_cacheSize c"
    "k \<noteq> length (cached_v2 c) \<longleftrightarrow> int k \<noteq> m_cacheSize c"
  using length_cached [OF assms] by linarith+

lemma copy_items_some:
  "k \<le> length src \<Longrightarrow> k \<le> length dst \<Longrightarrow> copy_items dst src (int k) = Some (take k src @ drop k dst)"
  by (simp add: copy_items_def)

interpretation store_v1: cell_store eq_CellInfo cached cache_ok updateCache getCellInfo
proof unfold_locales
  fix c :: cell_cache and items :: "RIL_CellInfo list" and k
  assume c: "cache_ok c" and l: "length items = RRIL_MAX_CELL_ID_COUNT" and k: "k \<le> RRIL_MAX_CELL_ID_COUNT"
  let ?b = "k \<noteq> length (cached c) \<or> (\<exists>x \<in> set (take k items). \<forall>d \<in> set (cached c). \<not> eq_CellInfo x d)"
  define B where "B = ?b"
  have p: "nat (m_cacheSize c) \<le> length (m_sCellInfo c)" "nat (int k) \<le> length items"
    using c l k by (auto simp: cache_ok_def)
  have n: "needs_update eq_CellInfo (m_sCellInfo c) (m_cacheSize c) items (int k) = Some B"
    using needs_update_spec [OF p, of eq_CellInfo]
    unfolding B_def nat_int cached_def [symmetric] count_cached(1) [OF c] .
  define c' where "c' = (if B then c\<lparr> m_cacheSize := int k, m_sCellInfo := take k items @ drop k cleared \<rparr> else c)"
  have "updateCache (Some items) (int k) c = Some (B, c')"
    using k l by (cases B) (simp_all add: updateCache_def n copy_items_some c'_def)
  moreover have "cache_ok c'" using c k l by (auto simp: c'_def cache_ok_def)
  moreover have "cached c' = (if B then take k items else cached c)"
    using k l by (simp add: c'_def cached_def)
  ultimately show "\<exists>b s'. updateCache (Some items) (int k) c = Some (b, s') \<and> cache_ok s' \<and>
      (b \<longleftrightarrow> ?b) \<and> cached s' = (if b then take k items else cached c)"
    by - (rule exI [of _ B], rule exI [of _ c'], simp only: B_def simp_thms)
next
  fix c :: cell_cache and ret :: "RIL_CellInfo list" and n
  assume c: "cache_ok c" and l: "length ret = RRIL_MAX_CELL_ID_COUNT"
  then show "getCellInfo c (Some ret) n =
      Some (True, Some (cached c @ drop (length (cached c)) ret), int (length (cached c)))"
    using length_cached(1) [OF c] copy_items_some [of "length (cached c)" "m_sCellInfo c" ret]
    by (auto simp: getCellInfo_def cached_def cache_ok_def min_def)
qed (rule eq_CellInfo_key)

interpretation store_v2: cell_store eq_CellInfo_v2 cached_v2 cache_ok updateCache_v2 getCellInfo_v2
proof unfold_locales
  fix c :: cell_cache and items :: "RIL_CellInfo_v2 list" and k
  assume c: "cache_ok c" and l: "length items = RRIL_MAX_CELL_ID_COUNT" and k: "k \<le> RRIL_MAX_CELL_ID_COUNT"
  let ?b = "k \<noteq> length (cached_v2 c) \<or>
      (\<exists>x \<in> set (take k items). \<forall>d \<in> set (cached_v2 c). \<not> eq_CellInfo_v2 x d)"
  define B where "B = ?b"
  have p: "nat (m_cacheSize c) \<le> length (m_sCellInfov2 c)" "nat (int k) \<le> length items"
    using c l k by (auto simp: cache_ok_def)
  have n: "needs_update eq_CellInfo_v2 (m_sCellInfov2 c) (m_cacheSize c) items (int k) = Some B"
    using needs_update_spec [OF p, of eq_CellInfo_v2]
    unfolding B_def nat_int cached_v2_def [symmetric] count_cached(2) [OF c] .
  define c' where "c' = (if B then c\<lparr> m_cacheSize := int k, m_sCellInfov2 := take k items @ drop k cleared \<rparr> else c)"
  have "updateCache_v2 (Some items) (int k) c = Some (B, c')"
    using k l by (cases B) (simp_all add: updateCache_v2_def n copy_items_some c'_def)
  moreover have "cache_ok c'" using c k l by (auto simp: c'_def cache_ok_def)
  moreover have "cached_v2 c' = (if B then take k items else cached_v2 c)"
    using k l by (simp add: c'_def cached_v2_def)
  ultimately show "\<exists>b s'. updateCache_v2 (Some items) (int k) c = Some (b, s') \<and> cache_ok s' \<and>
      (b \<longleftrightarrow> ?b) \<and> cached_v2 s' = (if b then take k items else cached_v2 c)"
    by - (rule exI [of _ B], rule exI [of _ c'], simp only: B_def simp_thms)
next
  fix c :: cell_cache and ret :: "RIL_CellInfo_v2 list" and n
  assume c: "cache_ok c" and l: "length ret = RRIL_MAX_CELL_ID_COUNT"
  then show "getCellInfo_v2 c (Some ret) n =
      Some (True, Some (cached_v2 c @ drop (length (cached_v2 c)) ret), int (length (cached_v2 c)))"
    using length_cached(2) [OF c] copy_items_some [of "length (cached_v2 c)" "m_sCellInfov2 c" ret]
    by (auto simp: getCellInfo_v2_def cached_v2_def cache_ok_def min_def)
qed (rule eq_CellInfo_v2_key)

section \<open>Properties\<close>

text \<open>
  C20. The cell cache reports a change exactly when there is one: for a list of cells with
  different contents, of types the comparison knows, \<open>updateCache\<close> returns TRUE if and only if
  the contents of the cached cells (as a multiset, in any order) differ from it, and afterwards
  \<open>getCellInfo\<close> hands out cells with exactly these contents, and their number. Both versions.
\<close>

theorem updateCache_reports_changes:
  assumes "cache_ok c" "length items = RRIL_MAX_CELL_ID_COUNT" "k \<le> RRIL_MAX_CELL_ID_COUNT"
    and "\<forall>x \<in> set (take k items). known x" "distinct (map CellInfo (take k items))"
    and "length items2 = RRIL_MAX_CELL_ID_COUNT" "k2 \<le> RRIL_MAX_CELL_ID_COUNT"
    and "\<forall>x \<in> set (take k2 items2). known x" "distinct (map CellInfo (take k2 items2))"
  shows "(\<exists>b c'. updateCache (Some items) (int k) c = Some (b, c') \<and> cache_ok c' \<and>
      (b \<longleftrightarrow> mset (map CellInfo (cached c)) \<noteq> mset (map CellInfo (take k items))) \<and>
      (\<exists>out. getCellInfo c' (Some cleared) 0 = Some (True, Some out, int k) \<and>
         mset (map CellInfo (take k out)) = mset (map CellInfo (take k items)))) \<and>
    (\<exists>b c'. updateCache_v2 (Some items2) (int k2) c = Some (b, c') \<and> cache_ok c' \<and>
      (b \<longleftrightarrow> mset (map CellInfo (cached_v2 c)) \<noteq> mset (map CellInfo (take k2 items2))) \<and>
      (\<exists>out. getCellInfo_v2 c' (Some cleared) 0 = Some (True, Some out, int k2) \<and>
         mset (map CellInfo (take k2 out)) = mset (map CellInfo (take k2 items2))))"
proof (rule conjI)
  obtain b c' where u: "updateCache (Some items) (int k) c = Some (b, c')" "cache_ok c'"
    "b \<longleftrightarrow> mset (map CellInfo (cached c)) \<noteq> mset (map CellInfo (take k items))"
    and m: "mset (map CellInfo (cached c')) = mset (map CellInfo (take k items))"
    using store_v1.reports_changes [OF assms(1-5)] by blast
  have l: "length (cached c') = k" using mset_eq_length [OF m] assms(2,3) by simp
  have "getCellInfo c' (Some cleared) 0 = Some (True, Some (cached c' @ drop k cleared), int k)"
    using store_v1.get_spec [OF u(2) length_cleared, of 0] unfolding l .
  with u m l show "\<exists>b c'. updateCache (Some items) (int k) c = Some (b, c') \<and> cache_ok c' \<and>
      (b \<longleftrightarrow> mset (map CellInfo (cached c)) \<noteq> mset (map CellInfo (take k items))) \<and>
      (\<exists>out. getCellInfo c' (Some cleared) 0 = Some (True, Some out, int k) \<and>
         mset (map CellInfo (take k out)) = mset (map CellInfo (take k items)))" by auto
next
  obtain b c' where u: "updateCache_v2 (Some items2) (int k2) c = Some (b, c')" "cache_ok c'"
    "b \<longleftrightarrow> mset (map CellInfo (cached_v2 c)) \<noteq> mset (map CellInfo (take k2 items2))"
    and m: "mset (map CellInfo (cached_v2 c')) = mset (map CellInfo (take k2 items2))"
    using store_v2.reports_changes [OF assms(1,6-9)] by blast
  have l: "length (cached_v2 c') = k2" using mset_eq_length [OF m] assms(6,7) by simp
  have "getCellInfo_v2 c' (Some cleared) 0 = Some (True, Some (cached_v2 c' @ drop k2 cleared), int k2)"
    using store_v2.get_spec [OF u(2) length_cleared, of 0] unfolding l .
  with u m l show "\<exists>b c'. updateCache_v2 (Some items2) (int k2) c = Some (b, c') \<and> cache_ok c' \<and>
      (b \<longleftrightarrow> mset (map CellInfo (cached_v2 c)) \<noteq> mset (map CellInfo (take k2 items2))) \<and>
      (\<exists>out. getCellInfo_v2 c' (Some cleared) 0 = Some (True, Some out, int k2) \<and>
         mset (map CellInfo (take k2 out)) = mset (map CellInfo (take k2 items2)))" by auto
qed

text \<open>A GSM cell, for the examples.\<close>

definition gsm_cell :: "int \<Rightarrow> int \<Rightarrow> RIL_CellInfo" where
  "gsm_cell reg cid = \<lparr> registered = reg, timeStampType = 0, timeStamp = 0,
     CellInfo = Gsm (\<lparr> gsm_mcc = 262, gsm_mnc = 1, gsm_lac = 7, gsm_cid = cid \<rparr>,
       \<lparr> gw_signalStrength = 20, gw_bitErrorRate = 0 \<rparr>) \<rparr>"

theorem updateCache_reports_changes_witness:
  "\<exists>c'. updateCache (Some (gsm_cell 1 5 # replicate 39 cleared_cell)) 1 new_cell_cache = Some (True, c') \<and>
     cache_ok c'"
  using updateCache_reports_changes [of new_cell_cache "gsm_cell 1 5 # replicate 39 cleared_cell" 1
      "replicate 40 cleared_cell" 0] new_cell_cache_ok
  by (auto simp: RRIL_MAX_CELL_ID_COUNT_def known_def gsm_cell_def cached_def new_cell_cache_def)

text \<open>
  What the comparison does not see stays stale: the registration flag is no part of it. When
  the cells reported have the contents of the cached ones and only the flags tell another cell
  as the serving one, the update is dropped and the cache keeps handing out the old flags. The
  same happens when a report repeats a cached cell in place of another one.
\<close>

theorem updateCache_keeps_stale:
  assumes "cache_ok c" "length items = RRIL_MAX_CELL_ID_COUNT" "k = length (cached c)"
    and "\<forall>x \<in> set (take k items). known x \<and> CellInfo x \<in> CellInfo ` set (cached c)"
  shows "\<exists>c'. updateCache (Some items) (int k) c = Some (False, c') \<and> cached c' = cached c"
proof -
  have "k \<le> RRIL_MAX_CELL_ID_COUNT" using length_cached(1) [OF assms(1)] assms(1,3) by (simp add: cache_ok_def)
  from store_v1.same_contents_kept [OF assms(1-3) this assms(4)] show ?thesis by blast
qed

theorem updateCache_keeps_stale_witness:
  "\<exists>c'. updateCache (Some ([gsm_cell 0 5, gsm_cell 1 6] @ replicate 38 cleared_cell)) 2
      (new_cell_cache\<lparr> m_cacheSize := 2, m_sCellInfo := [gsm_cell 1 5, gsm_cell 0 6] @ replicate 38 cleared_cell \<rparr>) =
     Some (False, c') \<and> cached c' = [gsm_cell 1 5, gsm_cell 0 6]"
  using updateCache_keeps_stale [of "new_cell_cache\<lparr> m_cacheSize := 2,
      m_sCellInfo := [gsm_cell 1 5, gsm_cell 0 6] @ replicate 38 cleared_cell \<rparr>"
      "[gsm_cell 0 5, gsm_cell 1 6] @ replicate 38 cleared_cell" 2]
  by (simp add: cache_ok_def RRIL_MAX_CELL_ID_COUNT_def cached_def new_cell_cache_def known_def gsm_cell_def
      numeral_2_eq_2)

end
