(* ===== verification/Spec2Isabelle.thy ===== *)
theory Spec2Isabelle
  imports RilPrelude Extract GsmUtil StringUtil RilQueue Response Requests Command Channel Transmit Dialogue DataChannels TeState TeHandlers TeSpecial TeDispatch TeAnswers AtCommands TeBase Answers CallAnswers NetworkAnswers ContextAnswers Silo SiloVoice SiloSms SiloSim Silos CatProfile Usat CellInfoCache
begin

text \<open>
  A verification library for the radio interface layer of the Motorola smi device tree, the
  C++ program under \<open>src/modules/ril/rapid_ril\<close>. The RIL daemon sits between Android's
  telephony framework and a modem: requests become AT command strings on a few channels, the
  modem's answers and notifications come back as a byte stream on the same channels, are cut
  into responses, parsed and handed to the framework.

  The way of a request. \<open>CTE::HandleRequest\<close> selects a handler, asks a virtual function of
  \<open>CTEBase\<close> for the AT command and puts a \<open>CCommand\<close> in the queue of a channel; the command thread
  of the channel takes it out, sends it and waits for the response the reader thread has queued;
  the response is parsed by a function of \<open>CTEBase\<close> and completed by a post command handler. The
  way of a notification: the reader thread finds its prefix in the tables of the silos of the
  channel, and the function there fills in what is reported to the framework.

  Texts, conversions and queues.

  \<^item> \<open>RilPrelude\<close>: machine types and the C string functions the sources call. A pointer into a
    NUL terminated text is the text from there on; an access outside an array or a trapping
    operation makes a definition return \<open>None\<close>.
  \<^item> \<open>Extract\<close> (\<open>UTIL/ND/extract.cpp\<close>): the cursor functions every response parser is made of.
    Lemmas: cursors stay in the text (locales \<open>cursor\<close>, \<open>search_cursor\<close>), numerals, strings and
    argument lists are read exactly.
  \<^item> \<open>GsmUtil\<close>, \<open>StringUtil\<close> (\<open>UTIL/ND/util.cpp\<close>): hexadecimal forms, GSM alphabet and UTF-8,
    bounded copies, the log expansion, and \<open>CSelfExpandBuffer\<close>. Lemmas: round trips, memory
    safety of \<open>convertGsmToUtf8HexString\<close>, agreement of the counting and the writing pass (locale
    \<open>two_pass\<close>), the buffer invariant \<open>buffer_ok\<close>.
  \<^item> \<open>RilQueue\<close> (\<open>CORE/rilqueue.h\<close>): the linked priority queue on an explicit heap of nodes.
    \<open>holds q xs\<close> is the refinement relation to a list of entries; the locale \<open>prio_queue\<close> states
    the contract and proves the order of service.

  From the modem to the framework.

  \<^item> \<open>Response\<close> (\<open>CORE/response.cpp\<close>, \<open>CORE/silo.cpp\<close>, the dispatch of \<open>CORE/channelbase.cpp\<close>): when
    the collected bytes are a complete response and where it ends. The parsers of single
    notifications are entries of a table, under the contract \<open>unsol_parser\<close>.
  \<^item> \<open>Channel\<close> (\<open>CORE/ND/channel_nd.cpp\<close>, the reader thread of \<open>CORE/channelbase.cpp\<close>): the state of
    a channel, the framing loop, the queue to the command thread, identical requests. Lemmas:
    the loop ends on every input, the byte stream is conserved, \<open>channel_ok\<close> is an invariant.
  \<^item> \<open>Silo\<close>, \<open>SiloVoice\<close>, \<open>SiloSms\<close>, \<open>SiloSim\<close> (\<open>CORE/ND/silo_voice.cpp\<close> and so on): the functions of
    the tables as actions on a context. The locale \<open>silo_action\<close> gives \<open>unsol_parser\<close>; every action
    of these silos meets it, shown by one rule per combinator (\<open>stays_intros\<close>). Lemmas: what a
    notification that has arrived is completed with.
  \<^item> \<open>Silos\<close> (\<open>CreateSilos\<close> in \<open>CORE/ND/MODEMS/initializer.cpp\<close>): which silos a channel gets and in which
    order they are asked. Lemmas: messages are recognised on every channel that has their silo.
  \<^item> \<open>Answers\<close>, \<open>CallAnswers\<close>, \<open>NetworkAnswers\<close>, \<open>ContextAnswers\<close> (the \<open>Parse\<close> functions of
    \<open>CORE/ND/te_base.cpp\<close>, addresses in \<open>CORE/ND/MODEMS/data_util.cpp\<close>): answers about SIM, messages and
    device, calls and services, networks, data contexts. Lemmas: answers printed in the format of
    the modem are read back, and which ones are lost or misread.

  From the framework to the modem.

  \<^item> \<open>Requests\<close>, \<open>Command\<close> (\<open>CORE/request_info.cpp\<close>, \<open>CORE/request_info_table.cpp\<close>, \<open>CORE/command.cpp\<close>):
    names, channels and timeouts of the requests, with the cache of the lookup; a command, and how
    it is queued.
  \<^item> \<open>TeState\<close>, \<open>TeHandlers\<close>, \<open>TeSpecial\<close>, \<open>TeDispatch\<close>, \<open>TeAnswers\<close> (\<open>CORE/ND/te.cpp\<close>): the state that decides
    what happens to a request, the handlers that follow one pattern, the others, the selection, and
    the contract \<open>handled\<close>: one answer for every token. The virtual functions are an argument.
  \<^item> \<open>AtCommands\<close>, \<open>TeBase\<close> (\<open>CORE/ND/te_base.cpp\<close>): the \<open>Core\<close> functions that build the AT commands, and
    \<open>CTEBase\<close> as the object behind the virtual functions, which instantiates the argument above.
  \<^item> \<open>Transmit\<close>, \<open>Dialogue\<close> (\<open>CChannel::SendCommand\<close> in \<open>CORE/ND/channel_nd.cpp\<close>, \<open>CORE/ND/sync_ops.cpp\<close>):
    writing, waiting, retries, abort, ping and the restart of the modem; what it does against a
    modem that answers, is late or is silent. What the reader thread does during a wait is an
    argument, so every interleaving at these points is covered.
  \<^item> \<open>DataChannels\<close> (\<open>CORE/channel_data.cpp\<close>): which context and which HSI channel belong to which data
    channel, as functions and as a step relation; the modem's own choice of context ids
    (\<open>ReserveFreeChnlsRilHsi\<close>, called in \<open>CORE/ND/silo_network.cpp\<close>) is one of the steps. Lemmas: no HSI
    channel is lost, none is shared while context ids are distinct, and a run in which they are not.

  Parts of their own.

  \<^item> \<open>CatProfile\<close> (\<open>CORE/ND/bertlv_util.cpp\<close>, \<open>CORE/ND/ccatprofile.cpp\<close>): TLV parsing and the
    terminal profile of the card application toolkit.
  \<^item> \<open>Usat\<close> (\<open>CORE/usat_state.cpp\<close>, \<open>CORE/usat_init_state_machine.cpp\<close>): the profile download state
    machine, as functions on a record and as a step relation with its reachable states.
  \<^item> \<open>CellInfoCache\<close> (\<open>CORE/ND/cellInfo_cache.cpp\<close>): the cache of cells in its two versions, both
    interpretations of the locale \<open>cell_store\<close>.

  Conventions. A reference parameter the code writes is a component of the result; memory
  allocation is a boolean argument that says whether it succeeds; uninitialised memory is an
  argument. Loops are structural or have a measure; the loops over linked nodes and the
  framing loop are partial functions into \<open>option\<close>, and the properties prove that they return.
  Sizes of memory are natural numbers, which the 32-bit sizes of the code agree with below 4 GB.
  Log output is left out. A lock is modelled where its depth matters (the queue). Structures of
  Android's interface that contain addresses are given by their fields, and their bytes where
  needed by a function of the environment.

  Not modelled.

  \<^item> The overrides for single modems (\<open>CORE/ND/MODEMS/te_xmm*.cpp\<close>): they replace functions of \<open>CTEBase\<close>,
    which is modelled, by ones of the same kind. The properties of \<open>HandleRequest\<close> that take the
    virtual functions as an argument hold for them too.
  \<^item> Registration (\<open>+CREG\<close> and its relatives), cell information, the post command handlers and the
    timers of \<open>te.cpp\<close>, and the silos about network, temperature and coexistence, which
    depend on them or on the modem manager: their parsers enter the model by the contract
    \<open>unsol_parser\<close> only.
  \<^item> Blocking and flushing a channel, opening ports, system properties, start-up, and the recovery
    of the modem (\<open>rildmain.cpp\<close>, \<open>systemmanager.cpp\<close>, \<open>reset.cpp\<close>): calls of the operating system and
    of the modem manager's client library, which is not in the repository.
  \<^item> Android's socket server (\<open>libril/ril.cpp\<close>), whose parcel types are not in the repository, and the
    modules for lights, power, audio, camera and sensors, which only do device input and output.
\<close>

end
